(* ===== verification/Prelude.thy ===== *)
theory Prelude
  imports Complex_Main "HOL-Library.AList" "HOL-Library.Sublist"
    "HOL-Library.Char_ord" "HOL-Library.List_Lexorder" "HOL-Library.Word"
begin

text \<open>
  What every component shares: the named collections of the development, the types that stand
  for Python's identifiers, times and numbers, results that may be an exception, Python's string
  methods, and the generic lemmas on lists and association lists the component proofs use.

  A Python \<open>str\<close> is a \<open>string\<close>, whose characters are the code points below 256; tool results and
  excerpts, where the byte length and the Unicode category of a character matter, are lists of
  code points (\<open>unicode\<close>). A \<open>datetime\<close> is the number of microseconds since the epoch in UTC and a
  \<open>timedelta\<close> a number of microseconds. A Python \<open>float\<close> is an exact rational: rounding is not
  modelled. A \<open>UUID\<close> is its 128-bit integer value.
\<close>

named_theorems model_defs \<open>definitions that unfold in every component proof\<close>
named_theorems inv_rules \<open>preservation of an invariant by an operation\<close>

type_synonym uuid = "128 word"
type_synonym datetime = int
type_synonym timedelta = int
type_synonym pyfloat = rat
type_synonym unicode = "nat list"


section \<open>Results that may be an exception\<close>

text \<open>A call that may raise returns \<open>Inl\<close> of the exception or \<open>Inr\<close> of its value.\<close>

definition bind_result :: "'e + 'a \<Rightarrow> ('a \<Rightarrow> 'e + 'b) \<Rightarrow> 'e + 'b" where
  "bind_result r f = (case r of Inl e \<Rightarrow> Inl e | Inr x \<Rightarrow> f x)"

lemma bind_result_simps [simp]:
  "bind_result (Inl e) f = Inl e"
  "bind_result (Inr x) f = f x"
  by (simp_all add: bind_result_def)

lemma bind_result_Inr_iff:
  "bind_result r f = Inr y \<longleftrightarrow> (\<exists>x. r = Inr x \<and> f x = Inr y)"
  by (cases r) auto

lemma bind_result_Inl_iff:
  "bind_result r f = Inl e \<longleftrightarrow> r = Inl e \<or> (\<exists>x. r = Inr x \<and> f x = Inl e)"
  by (cases r) auto

definition is_ok :: "'e + 'a \<Rightarrow> bool" where
  "is_ok r \<longleftrightarrow> (case r of Inl _ \<Rightarrow> False | Inr _ \<Rightarrow> True)"

lemma is_ok_simps [simp]: "\<not> is_ok (Inl e)" "is_ok (Inr x)"
  by (simp_all add: is_ok_def)

lemma is_ok_iff: "is_ok r \<longleftrightarrow> (\<exists>x. r = Inr x)"
  by (cases r) auto


section \<open>Python strings\<close>

text \<open>\<open>str.isspace\<close> on a code point below 256; also what \<open>\s\<close> matches in a \<open>str\<close> pattern.\<close>

definition is_space :: "char \<Rightarrow> bool" where
  "is_space c \<longleftrightarrow> (let n = (of_char c :: nat) in
     9 \<le> n \<and> n \<le> 13 \<or> 28 \<le> n \<and> n \<le> 32 \<or> n = 133 \<or> n = 160)"

definition py_lstrip :: "string \<Rightarrow> string" where
  "py_lstrip s = dropWhile is_space s"

definition py_rstrip :: "string \<Rightarrow> string" where
  "py_rstrip s = rev (dropWhile is_space (rev s))"

definition py_strip :: "string \<Rightarrow> string" where
  "py_strip s = py_rstrip (py_lstrip s)"

text \<open>\<open>s.lstrip(chars)\<close> and \<open>s.rstrip(chars)\<close> with one character to remove.\<close>

definition py_lstrip_char :: "char \<Rightarrow> string \<Rightarrow> string" where
  "py_lstrip_char c s = dropWhile (\<lambda>x. x = c) s"

definition py_rstrip_char :: "char \<Rightarrow> string \<Rightarrow> string" where
  "py_rstrip_char c s = rev (dropWhile (\<lambda>x. x = c) (rev s))"

text \<open>\<open>str.lower\<close> on code points below 256 (the Latin-1 capitals other than the multiplication sign).\<close>

definition lower_char :: "char \<Rightarrow> char" where
  "lower_char c = (let n = (of_char c :: nat) in
     if 65 \<le> n \<and> n \<le> 90 \<or> 192 \<le> n \<and> n \<le> 222 \<and> n \<noteq> 215 then char_of (n + 32) else c)"

definition py_lower :: "string \<Rightarrow> string" where
  "py_lower s = map lower_char s"

fun py_split :: "char \<Rightarrow> string \<Rightarrow> string list" where
  "py_split d [] = [[]]"
| "py_split d (c # cs) =
     (if c = d then [] # py_split d cs
      else (case py_split d cs of [] \<Rightarrow> [[c]] | w # ws \<Rightarrow> (c # w) # ws))"

text \<open>\<open>s.partition(d)\<close>: the part before the first \<open>d\<close>, whether \<open>d\<close> occurs, the part after it.\<close>

fun py_partition :: "char \<Rightarrow> string \<Rightarrow> string \<times> bool \<times> string" where
  "py_partition d [] = ([], False, [])"
| "py_partition d (c # cs) =
     (if c = d then ([], True, cs)
      else (case py_partition d cs of (a, sep, b) \<Rightarrow> (c # a, sep, b)))"

text \<open>\<open>startswith\<close>, \<open>endswith\<close> and \<open>in\<close> on strings.\<close>

abbreviation py_startswith :: "'a list \<Rightarrow> 'a list \<Rightarrow> bool" where
  "py_startswith s p \<equiv> prefix p s"

abbreviation py_endswith :: "'a list \<Rightarrow> 'a list \<Rightarrow> bool" where
  "py_endswith s p \<equiv> suffix p s"

abbreviation py_contains :: "'a list \<Rightarrow> 'a list \<Rightarrow> bool" where
  "py_contains s p \<equiv> sublist p s"

definition py_removesuffix :: "'a list \<Rightarrow> 'a list \<Rightarrow> 'a list" where
  "py_removesuffix s p = (if p \<noteq> [] \<and> suffix p s then take (length s - length p) s else s)"

definition py_removeprefix :: "'a list \<Rightarrow> 'a list \<Rightarrow> 'a list" where
  "py_removeprefix s p = (if prefix p s then drop (length p) s else s)"

definition py_replace_char :: "char \<Rightarrow> char \<Rightarrow> string \<Rightarrow> string" where
  "py_replace_char a b s = map (\<lambda>c. if c = a then b else c) s"

fun py_join :: "'a list \<Rightarrow> 'a list list \<Rightarrow> 'a list" where
  "py_join sep [] = []"
| "py_join sep [w] = w"
| "py_join sep (w # ws) = w @ sep @ py_join sep ws"

text \<open>The decimal rendering of a natural number, as \<open>str(n)\<close> gives it.\<close>

fun py_str_nat :: "nat \<Rightarrow> string" where
  "py_str_nat n =
     (if n < 10 then [char_of (48 + n)] else py_str_nat (n div 10) @ [char_of (48 + n mod 10)])"

declare py_str_nat.simps [simp del]

definition digit_value :: "char \<Rightarrow> nat" where
  "digit_value c = of_char c - 48"

text \<open>\<open>int(s)\<close> of a string of decimal digits.\<close>

definition py_int_of_digits :: "string \<Rightarrow> nat" where
  "py_int_of_digits s = foldl (\<lambda>a c. 10 * a + digit_value c) 0 s"

lemma py_int_of_str_nat: "py_int_of_digits (py_str_nat n) = n"
proof (induction n rule: py_str_nat.induct)
  case (1 n)
  show ?case
  proof (cases "n < 10")
    case True
    then show ?thesis
      by (simp add: py_str_nat.simps [of n] py_int_of_digits_def digit_value_def)
  next
    case False
    with "1.IH" have "py_int_of_digits (py_str_nat (n div 10)) = n div 10" by simp
    with False show ?thesis
      by (simp add: py_str_nat.simps [of n] py_int_of_digits_def digit_value_def)
  qed
qed

lemma py_join_split [simp]: "py_join [d] (py_split d s) = s"
proof (induction d s rule: py_split.induct)
  case (2 d c cs)
  moreover have "py_split d cs \<noteq> []" by (induction cs) (auto split: list.splits)
  ultimately show ?case
    by (cases "py_split d cs"; cases "tl (py_split d cs)") (auto simp: neq_Nil_conv)
qed simp

lemma py_split_no_sep: "w \<in> set (py_split d s) \<Longrightarrow> d \<notin> set w"
  by (induction d s arbitrary: w rule: py_split.induct) (auto split: if_splits list.splits)

lemma py_split_nonempty [simp]: "py_split d s \<noteq> []"
  by (induction s) (auto split: list.splits)

lemma set_dropWhile_subset: "set (dropWhile P xs) \<subseteq> set xs"
  by (metis set_dropWhileD subsetI)

lemma set_py_strip: "set (py_strip s) \<subseteq> set s"
  by (auto simp: py_strip_def py_rstrip_def py_lstrip_def dest!: set_dropWhileD)

lemma py_removesuffix_append [simp]: "p \<noteq> [] \<Longrightarrow> py_removesuffix (s @ p) p = s"
  by (simp add: py_removesuffix_def suffix_def)


section \<open>Dictionaries\<close>

text \<open>
  A dictionary whose iteration order matters is an association list: \<open>AList.update\<close> keeps the
  position of an existing key and appends a new one, as a Python \<open>dict\<close> does.
\<close>

type_synonym ('k, 'v) dict = "('k \<times> 'v) list"

definition dict_wf :: "('k, 'v) dict \<Rightarrow> bool" where
  "dict_wf d \<longleftrightarrow> distinct (map fst d)"

abbreviation dict_get :: "('k, 'v) dict \<Rightarrow> 'k \<Rightarrow> 'v option" where
  "dict_get d k \<equiv> map_of d k"

abbreviation dict_set :: "'k \<Rightarrow> 'v \<Rightarrow> ('k, 'v) dict \<Rightarrow> ('k, 'v) dict" where
  "dict_set k v d \<equiv> AList.update k v d"

abbreviation dict_values :: "('k, 'v) dict \<Rightarrow> 'v list" where
  "dict_values d \<equiv> map snd d"

text \<open>\<open>{k: v for k, v in pairs}\<close>: a later pair with the same key wins, at the first one's position.\<close>

definition dict_of :: "('k \<times> 'v) list \<Rightarrow> ('k, 'v) dict" where
  "dict_of ps = fold (\<lambda>(k, v) d. dict_set k v d) ps []"

lemma dict_wf_Nil [simp, intro]: "dict_wf []"
  by (simp add: dict_wf_def)

lemma dict_wf_set [simp, intro]: "dict_wf d \<Longrightarrow> dict_wf (dict_set k v d)"
  by (simp add: dict_wf_def distinct_update)

lemma dict_get_set: "dict_get (dict_set k v d) = (dict_get d)(k \<mapsto> v)"
  by (rule update_conv')

lemma dict_get_set_apply [simp]:
  "dict_get (dict_set k v d) k' = (if k' = k then Some v else dict_get d k')"
  by (simp add: update_conv')

lemma dict_set_new: "dict_get d k = None \<Longrightarrow> dict_set k v d = d @ [(k, v)]"
  by (induction d) (auto split: if_splits)

lemma dict_values_iff: "dict_wf d \<Longrightarrow> v \<in> set (dict_values d) \<longleftrightarrow> (\<exists>k. dict_get d k = Some v)"
  by (force simp: dict_wf_def intro: map_of_is_SomeI dest!: map_of_SomeD)

lemma fold_dict_set_get:
  "dict_get (fold (\<lambda>(k, v) d. dict_set k v d) ps d) k =
     (case map_of (rev ps) k of None \<Rightarrow> dict_get d k | Some v \<Rightarrow> Some v)"
  by (induction ps arbitrary: d) (auto simp: map_add_def split: option.splits)

lemma dict_get_dict_of: "dict_get (dict_of ps) k = map_of (rev ps) k"
  by (simp add: dict_of_def fold_dict_set_get split: option.splits)

lemma dict_of_key: "dict_get (dict_of ps) k = Some v \<Longrightarrow> (k, v) \<in> set ps"
  using map_of_SomeD by (fastforce simp: dict_get_dict_of)

lemma dict_of_dom: "(k, v) \<in> set ps \<Longrightarrow> \<exists>v'. dict_get (dict_of ps) k = Some v'"
  by (simp add: dict_get_dict_of) (metis map_of_eq_None_iff not_None_eq set_rev weak_map_of_SomeI)


section \<open>Sorting\<close>

text \<open>
  \<open>sorted(xs, key=f)\<close> is stable, as \<open>sort_key\<close> is. A sort in descending order
  (\<open>reverse=True\<close>) keeps the order of equal elements too.
\<close>

definition sort_key_reverse :: "('a \<Rightarrow> 'b::linorder) \<Rightarrow> 'a list \<Rightarrow> 'a list" where
  "sort_key_reverse f xs = rev (sort_key f (rev xs))"

lemma set_sort_key_reverse [simp]: "set (sort_key_reverse f xs) = set xs"
  by (simp add: sort_key_reverse_def)

lemma length_sort_key_reverse [simp]: "length (sort_key_reverse f xs) = length xs"
  by (simp add: sort_key_reverse_def)

lemma sort_key_reverse_stable:
  "filter (\<lambda>y. f y = k) (sort_key_reverse f xs) = filter (\<lambda>y. f y = k) xs"
proof -
  have "filter (\<lambda>y. f y = k) (sort_key f (rev xs)) = filter (\<lambda>y. f y = k) (rev xs)"
    by (rule sort_key_stable)
  then show ?thesis by (simp add: sort_key_reverse_def rev_filter [symmetric])
qed

end
