(* ===== verification/Encoding.thy ===== *)
theory Encoding
  imports Prelude "HOL-Library.Word"
begin

text \<open>
  The encodings of Python's standard library the platform relies on: UTF-8, SHA-256
  (\<open>hashlib.sha256(..).hexdigest()\<close>) and \<open>json.dumps\<close> with sorted keys and no spaces. They are
  computed here rather than assumed, so that a digest of the model is the digest of the code.
\<close>

unbundle bit_operations_syntax

type_synonym byte = nat


section \<open>UTF-8\<close>

definition utf8_char :: "nat \<Rightarrow> byte list" where
  "utf8_char n =
     (if n < 128 then [n]
      else if n < 2048 then [192 + n div 64, 128 + n mod 64]
      else if n < 65536 then [224 + n div 4096, 128 + n div 64 mod 64, 128 + n mod 64]
      else [240 + n div 262144, 128 + n div 4096 mod 64, 128 + n div 64 mod 64, 128 + n mod 64])"

definition utf8_encode :: "unicode \<Rightarrow> byte list" where
  "utf8_encode s = concat (map utf8_char s)"

definition codes :: "string \<Rightarrow> unicode" where
  "codes s = map of_char s"

lemma utf8_char_nonempty [simp]: "utf8_char n \<noteq> []"
  by (simp add: utf8_char_def)

lemma length_utf8_char: "1 \<le> length (utf8_char n) \<and> length (utf8_char n) \<le> 4"
  by (simp add: utf8_char_def)

lemma utf8_encode_simps [simp]:
  "utf8_encode [] = []" "utf8_encode (c # s) = utf8_char c @ utf8_encode s"
  "utf8_encode (s @ t) = utf8_encode s @ utf8_encode t"
  by (simp_all add: utf8_encode_def)


section \<open>SHA-256\<close>

type_synonym u32 = "32 word"

definition rotr :: "nat \<Rightarrow> u32 \<Rightarrow> u32" where
  "rotr n x = drop_bit n x OR push_bit (32 - n) x"

definition sha_ch :: "u32 \<Rightarrow> u32 \<Rightarrow> u32 \<Rightarrow> u32" where
  "sha_ch x y z = (x AND y) XOR (NOT x AND z)"

definition sha_maj :: "u32 \<Rightarrow> u32 \<Rightarrow> u32 \<Rightarrow> u32" where
  "sha_maj x y z = (x AND y) XOR (x AND z) XOR (y AND z)"

definition sha_big0 :: "u32 \<Rightarrow> u32" where
  "sha_big0 x = rotr 2 x XOR rotr 13 x XOR rotr 22 x"

definition sha_big1 :: "u32 \<Rightarrow> u32" where
  "sha_big1 x = rotr 6 x XOR rotr 11 x XOR rotr 25 x"

definition sha_small0 :: "u32 \<Rightarrow> u32" where
  "sha_small0 x = rotr 7 x XOR rotr 18 x XOR drop_bit 3 x"

definition sha_small1 :: "u32 \<Rightarrow> u32" where
  "sha_small1 x = rotr 17 x XOR rotr 19 x XOR drop_bit 10 x"

definition sha_k :: "u32 list" where
  "sha_k = [
     1116352408, 1899447441, 3049323471, 3921009573, 961987163, 1508970993, 2453635748, 2870763221,
     3624381080, 310598401, 607225278, 1426881987, 1925078388, 2162078206, 2614888103, 3248222580,
     3835390401, 4022224774, 264347078, 604807628, 770255983, 1249150122, 1555081692, 1996064986,
     2554220882, 2821834349, 2952996808, 3210313671, 3336571891, 3584528711, 113926993, 338241895,
     666307205, 773529912, 1294757372, 1396182291, 1695183700, 1986661051, 2177026350, 2456956037,
     2730485921, 2820302411, 3259730800, 3345764771, 3516065817, 3600352804, 4094571909, 275423344,
     430227734, 506948616, 659060556, 883997877, 958139571, 1322822218, 1537002063, 1747873779,
     1955562222, 2024104815, 2227730452, 2361852424, 2428436474, 2756734187, 3204031479, 3329325298]"

definition sha_h0 :: "u32 list" where
  "sha_h0 = [1779033703, 3144134277, 1013904242, 2773480762, 1359893119, 2600822924, 528734635, 1541459225]"

text \<open>The message schedule: sixteen words of a block, newest first, extended to sixty-four.\<close>

fun sha_schedule :: "nat \<Rightarrow> u32 list \<Rightarrow> u32 list" where
  "sha_schedule 0 w = rev w"
| "sha_schedule (Suc n) w =
     sha_schedule n ((sha_small1 (w ! 1) + w ! 6 + sha_small0 (w ! 14) + w ! 15) # w)"

fun sha_round :: "u32 \<times> u32 \<Rightarrow> u32 list \<Rightarrow> u32 list" where
  "sha_round (k, w) [a, b, c, d, e, f, g, h] =
     (let t1 = h + sha_big1 e + sha_ch e f g + k + w; t2 = sha_big0 a + sha_maj a b c
      in [t1 + t2, a, b, c, d + t1, e, f, g])"
| "sha_round _ xs = xs"

definition sha_compress :: "u32 list \<Rightarrow> u32 list \<Rightarrow> u32 list" where
  "sha_compress m hs = map2 (+) hs (fold sha_round (zip sha_k (sha_schedule 48 (rev m))) hs)"

text \<open>A number as \<open>n\<close> big-endian bytes; the padded message; its words and blocks.\<close>

fun be_bytes :: "nat \<Rightarrow> nat \<Rightarrow> byte list" where
  "be_bytes 0 v = []"
| "be_bytes (Suc n) v = be_bytes n (v div 256) @ [v mod 256]"

definition sha_pad :: "byte list \<Rightarrow> byte list" where
  "sha_pad m = m @ [128] @ replicate ((55 + 64 - length m mod 64) mod 64) 0 @ be_bytes 8 (8 * length m)"

fun be_words :: "byte list \<Rightarrow> u32 list" where
  "be_words (a # b # c # d # bs) =
     word_of_nat (16777216 * a + 65536 * b + 256 * c + d) # be_words bs"
| "be_words _ = []"

fun sha_blocks :: "nat \<Rightarrow> u32 list \<Rightarrow> u32 list list" where
  "sha_blocks 0 ws = []"
| "sha_blocks (Suc n) ws = take 16 ws # sha_blocks n (drop 16 ws)"

definition sha256_words :: "byte list \<Rightarrow> u32 list" where
  "sha256_words m =
     (let p = sha_pad m in fold sha_compress (sha_blocks (length p div 64) (be_words p)) sha_h0)"

definition hex_alphabet :: string where
  "hex_alphabet = ''0123456789abcdef''"

definition hex_digit :: "nat \<Rightarrow> char" where
  "hex_digit n = hex_alphabet ! (n mod 16)"

fun hex_digits :: "nat \<Rightarrow> nat \<Rightarrow> string" where
  "hex_digits 0 v = []"
| "hex_digits (Suc n) v = hex_digits n (v div 16) @ [hex_digit v]"

definition sha256_hexdigest :: "byte list \<Rightarrow> string" where
  "sha256_hexdigest m = concat (map (\<lambda>w. hex_digits 8 (unat w)) (sha256_words m))"

lemma length_hex_digits [simp]: "length (hex_digits n v) = n"
  by (induction n arbitrary: v) auto

lemma hex_digit_lower: "hex_digit n \<in> set hex_alphabet"
proof -
  have "n mod 16 < length hex_alphabet" by (simp add: hex_alphabet_def)
  then show ?thesis unfolding hex_digit_def by (rule nth_mem)
qed

lemma set_hex_digits: "set (hex_digits n v) \<subseteq> set hex_alphabet"
  using hex_digit_lower by (induction n arbitrary: v) auto

lemma length_sha_round [simp]: "length (sha_round kw hs) = length hs"
  by (induction kw hs rule: sha_round.induct) (simp_all add: Let_def)

lemma length_fold_sha_round [simp]: "length (fold sha_round kws hs) = length hs"
  by (induction kws arbitrary: hs) simp_all

lemma length_sha_compress [simp]: "length (sha_compress m hs) = length hs"
  by (simp add: sha_compress_def)

lemma length_sha256_words [simp]: "length (sha256_words m) = 8"
proof -
  have "length (fold sha_compress bs hs) = length hs" for bs hs
    by (induction bs arbitrary: hs) simp_all
  then show ?thesis by (simp add: sha256_words_def Let_def sha_h0_def)
qed

lemma length_sha256_hexdigest [simp]: "length (sha256_hexdigest m) = 64"
proof -
  have "length (concat (map (\<lambda>w. hex_digits 8 (unat w)) ws)) = 8 * length ws" for ws :: "u32 list"
    by (induction ws) simp_all
  then show ?thesis by (simp add: sha256_hexdigest_def)
qed

lemma set_sha256_hexdigest: "set (sha256_hexdigest m) \<subseteq> set hex_alphabet"
  using set_hex_digits by (auto simp: sha256_hexdigest_def)


section \<open>Argument values and their canonical JSON\<close>

text \<open>
  The values a tool argument can take: what JSON carries, without floating-point numbers, whose
  shortest decimal rendering is not modelled.
\<close>

datatype pyval =
    VNone | VBool bool | VInt int | VStr string | VList "pyval list" | VDict "(string \<times> pyval) list"

definition py_str_int :: "int \<Rightarrow> string" where
  "py_str_int i = (if i < 0 then CHR ''-'' # py_str_nat (nat (- i)) else py_str_nat (nat i))"

text \<open>The escapes of \<open>json.dumps\<close> with \<open>ensure_ascii\<close>.\<close>

definition json_char :: "char \<Rightarrow> string" where
  "json_char c = (let n = (of_char c :: nat) in
     if n = 34 then [CHR 0x5C, CHR 0x22]
     else if n = 92 then [CHR 0x5C, CHR 0x5C]
     else if n = 10 then [CHR 0x5C, CHR ''n'']
     else if n = 13 then [CHR 0x5C, CHR ''r'']
     else if n = 9 then [CHR 0x5C, CHR ''t'']
     else if n = 12 then [CHR 0x5C, CHR ''f'']
     else if n = 8 then [CHR 0x5C, CHR ''b'']
     else if n < 32 \<or> 126 < n then CHR 0x5C # CHR ''u'' # hex_digits 4 n
     else [c])"

definition json_string :: "string \<Rightarrow> string" where
  "json_string s = [CHR 0x22] @ concat (map json_char s) @ [CHR 0x22]"

text \<open>\<open>json.dumps(v, sort_keys=True, separators=(",", ":"))\<close>.\<close>

fun json_dumps :: "pyval \<Rightarrow> string" where
  "json_dumps VNone = ''null''"
| "json_dumps (VBool b) = (if b then ''true'' else ''false'')"
| "json_dumps (VInt i) = py_str_int i"
| "json_dumps (VStr s) = json_string s"
| "json_dumps (VList vs) = ''['' @ py_join '','' (map json_dumps vs) @ '']''"
| "json_dumps (VDict kvs) =
     ''{'' @ py_join '',''
       (map snd (sort_key fst (map (\<lambda>(k, v). (k, json_string k @ '':'' @ json_dumps v)) kvs))) @ ''}''"

text \<open>A sort by the keys forgets the order in which distinct keys were inserted.\<close>

lemma sort_key_fst_cong:
  assumes "distinct (map fst xs)" and "set xs = set ys" and "distinct (map fst ys)"
  shows "sort_key fst xs = sort_key fst (ys :: ('a::linorder \<times> 'b) list)"
proof (rule map_sorted_distinct_set_unique [where f = fst])
  show "inj_on fst (set (sort_key fst xs) \<union> set (sort_key fst ys))"
    using assms by (simp add: distinct_map)
qed (use assms in \<open>simp_all add: distinct_map\<close>)


section \<open>Identifiers\<close>

text \<open>\<open>str(uuid)\<close>: thirty-two hexadecimal digits in groups of 8, 4, 4, 4 and 12.\<close>

definition uuid_str :: "uuid \<Rightarrow> string" where
  "uuid_str n = (let h = hex_digits 32 (unat n) in
     py_join ''-'' [take 8 h, take 4 (drop 8 h), take 4 (drop 12 h), take 4 (drop 16 h), drop 20 h])"

definition hex_value :: "char \<Rightarrow> nat" where
  "hex_value c = (let n = (of_char c :: nat) in
     if 48 \<le> n \<and> n \<le> 57 then n - 48 else if 97 \<le> n \<and> n \<le> 102 then n - 87
     else if 65 \<le> n \<and> n \<le> 70 then n - 55 else 0)"

definition is_hex :: "char \<Rightarrow> bool" where
  "is_hex c \<longleftrightarrow> (let n = (of_char c :: nat) in
     48 \<le> n \<and> n \<le> 57 \<or> 97 \<le> n \<and> n \<le> 102 \<or> 65 \<le> n \<and> n \<le> 70)"

text \<open>
  \<open>UUID(s)\<close> for a string of hexadecimal digits and hyphens: the hyphens are dropped, and anything
  but thirty-two digits raises \<open>ValueError\<close>.
\<close>

definition uuid_parse :: "string \<Rightarrow> uuid option" where
  "uuid_parse s = (let h = filter (\<lambda>c. c \<noteq> CHR ''-'') s in
     if length h = 32 \<and> list_all is_hex h then Some (word_of_nat (foldl (\<lambda>a c. 16 * a + hex_value c) 0 h)) else None)"

lemma hex_digit_value:
  assumes "n < 16"
  shows "hex_value (hex_digit n) = n \<and> is_hex (hex_digit n) \<and> hex_digit n \<noteq> CHR ''-''"
proof -
  have "list_all (\<lambda>n. hex_value (hex_digit n) = n \<and> is_hex (hex_digit n) \<and> hex_digit n \<noteq> CHR ''-'') [0..<16]"
    by code_simp
  then show ?thesis using assms by (simp only: list_all_iff) simp
qed

lemma hex_digit_mod: "hex_digit (n mod 16) = hex_digit n"
  by (simp add: hex_digit_def)

lemma hex_digits_value: "foldl (\<lambda>a c. 16 * a + hex_value c) 0 (hex_digits n v) = v mod 16 ^ n"
proof (induction n arbitrary: v)
  case (Suc n)
  have "hex_value (hex_digit v) = v mod 16" using hex_digit_value [of "v mod 16"] hex_digit_mod by simp
  then show ?case by (simp add: Suc.IH mod_mult2_eq)
qed simp

lemma hex_digits_chars: "c \<in> set (hex_digits n v) \<Longrightarrow> is_hex c \<and> c \<noteq> CHR ''-''"
proof (induction n arbitrary: v)
  case (Suc n)
  then show ?case using hex_digit_value [of "v mod 16"] hex_digit_mod by auto
qed simp

lemma uuid_str_digits: "filter (\<lambda>c. c \<noteq> CHR ''-'') (uuid_str n) = hex_digits 32 (unat n)"
proof -
  let ?h = "hex_digits 32 (unat n)"
  let ?P = "\<lambda>c. c \<noteq> CHR ''-''"
  have keep: "filter ?P (take k (drop m ?h)) = take k (drop m ?h)" for k m
    by (rule filter_True) (blast dest: in_set_takeD in_set_dropD hex_digits_chars)
  have keep': "filter ?P (drop m ?h) = drop m ?h" for m
    by (rule filter_True) (blast dest: in_set_dropD hex_digits_chars)
  have "filter ?P (uuid_str n) = take 8 ?h @ take 4 (drop 8 ?h) @ take 4 (drop 12 ?h)
      @ take 4 (drop 16 ?h) @ drop 20 ?h"
    using keep [of 8 0] by (simp add: uuid_str_def Let_def keep keep')
  also have "\<dots> = ?h"
  proof -
    have "take k (drop m ?h) @ drop (m + k) ?h = drop m ?h" for k m
      by (metis add.commute append_take_drop_id drop_drop)
    from this [of 4 16] this [of 4 12] this [of 4 8] show ?thesis by simp
  qed
  finally show ?thesis .
qed

theorem uuid_roundtrip: "uuid_parse (uuid_str n) = Some n"
proof -
  have "unat n < 16 ^ 32" using unsigned_less [of n] by simp
  then have "unat n mod 16 ^ 32 = unat n" by (rule mod_less)
  then show ?thesis
    by (simp only: uuid_parse_def uuid_str_digits Let_def hex_digits_value length_hex_digits)
      (simp add: list_all_iff hex_digits_chars)
qed

lemma uuid_str_inject [simp]: "uuid_str a = uuid_str b \<longleftrightarrow> a = b"
  by (metis option.inject uuid_roundtrip)

end
