(* ===== verification/Sha256_Vector.thy ===== *)
theory Sha256_Vector
  imports Encoding
begin

text \<open>
  A check of the SHA-256 model against the standard's own example: the compression of the
  padded block of the message \<open>abc\<close> gives the published digest. It is a theory of its own
  because evaluating sixty-four rounds in the kernel takes a while.
\<close>

lemma sha_compress_abc:
  "sha_compress [1633837952, 0, 0, 0, 0, 0, 0, 0, 0, 0, 0, 0, 0, 0, 0, 24] sha_h0 =
   [3128432319, 2399260650, 1094795486, 1571693091, 2953011619, 2518121116, 3021012833, 4060091821]"
  by code_simp

end
