(* ===== verification/Models.thy ===== *)
theory Models
  imports Encoding
begin

text \<open>
  The domain model of a research job (\<open>domain/models.py\<close>): job status and its allowed
  transitions, disclosure classes and clearances, budgets and usage, evidence records and
  findings with the validators pydantic runs when one is built.
\<close>

definition nonempty_text :: "'a list \<Rightarrow> bool" where
  "nonempty_text s \<longleftrightarrow> 1 \<le> length s \<and> length s \<le> 4000"

definition bounded_text :: "nat \<Rightarrow> nat \<Rightarrow> 'a list \<Rightarrow> bool" where
  "bounded_text lo hi s \<longleftrightarrow> lo \<le> length s \<and> length s \<le> hi"

definition opt_text :: "nat \<Rightarrow> 'a list option \<Rightarrow> bool" where
  "opt_text hi s \<longleftrightarrow> (case s of None \<Rightarrow> True | Some t \<Rightarrow> length t \<le> hi)"


section \<open>Job status\<close>

datatype JobStatus =
    JS_CREATED | JS_PLANNING | JS_RESEARCHING | JS_ANALYZING | JS_REVIEW_REQUIRED
  | JS_REPORTING | JS_COMPLETED | JS_FAILED | JS_PARTIAL

fun JobStatus_value :: "JobStatus \<Rightarrow> string" where
  "JobStatus_value JS_CREATED = ''created''"
| "JobStatus_value JS_PLANNING = ''planning''"
| "JobStatus_value JS_RESEARCHING = ''researching''"
| "JobStatus_value JS_ANALYZING = ''analyzing''"
| "JobStatus_value JS_REVIEW_REQUIRED = ''review_required''"
| "JobStatus_value JS_REPORTING = ''reporting''"
| "JobStatus_value JS_COMPLETED = ''completed''"
| "JobStatus_value JS_FAILED = ''failed''"
| "JobStatus_value JS_PARTIAL = ''partial''"

fun ALLOWED_TRANSITIONS :: "JobStatus \<Rightarrow> JobStatus set" where
  "ALLOWED_TRANSITIONS JS_CREATED = {JS_PLANNING, JS_FAILED}"
| "ALLOWED_TRANSITIONS JS_PLANNING = {JS_RESEARCHING, JS_FAILED}"
| "ALLOWED_TRANSITIONS JS_RESEARCHING = {JS_ANALYZING, JS_PARTIAL, JS_FAILED}"
| "ALLOWED_TRANSITIONS JS_ANALYZING = {JS_REVIEW_REQUIRED, JS_REPORTING, JS_PARTIAL, JS_FAILED}"
| "ALLOWED_TRANSITIONS JS_REVIEW_REQUIRED = {JS_RESEARCHING, JS_REPORTING, JS_FAILED}"
| "ALLOWED_TRANSITIONS JS_REPORTING = {JS_COMPLETED, JS_PARTIAL, JS_FAILED}"
| "ALLOWED_TRANSITIONS JS_COMPLETED = {}"
| "ALLOWED_TRANSITIONS JS_FAILED = {}"
| "ALLOWED_TRANSITIONS JS_PARTIAL = {}"

definition STATUS_DETAIL_LIMIT :: nat where
  "STATUS_DETAIL_LIMIT = 1000"


section \<open>Trust levels and disclosure classes\<close>

datatype TrustLevel = TL_PRIMARY | TL_SECONDARY | TL_UNVERIFIED

fun TrustLevel_value :: "TrustLevel \<Rightarrow> string" where
  "TrustLevel_value TL_PRIMARY = ''primary''"
| "TrustLevel_value TL_SECONDARY = ''secondary''"
| "TrustLevel_value TL_UNVERIFIED = ''unverified''"

datatype AccessClass = AC_PUBLIC | AC_INTERNAL | AC_RESTRICTED

fun AccessClass_value :: "AccessClass \<Rightarrow> string" where
  "AccessClass_value AC_PUBLIC = ''public''"
| "AccessClass_value AC_INTERNAL = ''internal''"
| "AccessClass_value AC_RESTRICTED = ''restricted''"

text \<open>\<open>AccessClass(s)\<close> raises \<open>ValueError\<close> for a string that is no member's value.\<close>

definition AccessClass_of :: "string \<Rightarrow> AccessClass option" where
  "AccessClass_of s = find (\<lambda>c. AccessClass_value c = s) [AC_PUBLIC, AC_INTERNAL, AC_RESTRICTED]"

definition PUBLISHABLE_ACCESS_CLASSES :: "AccessClass set" where
  "PUBLISHABLE_ACCESS_CLASSES = {AC_PUBLIC, AC_INTERNAL}"

fun ACCESS_CLASS_RANK :: "AccessClass \<Rightarrow> nat" where
  "ACCESS_CLASS_RANK AC_PUBLIC = 0"
| "ACCESS_CLASS_RANK AC_INTERNAL = 1"
| "ACCESS_CLASS_RANK AC_RESTRICTED = 2"

definition clearance_covers :: "AccessClass \<Rightarrow> AccessClass \<Rightarrow> bool" where
  "clearance_covers clearance required \<longleftrightarrow> ACCESS_CLASS_RANK clearance \<ge> ACCESS_CLASS_RANK required"

text \<open>\<open>max(classes, key=rank, default=PUBLIC)\<close>, which keeps the first of equal elements.\<close>

fun most_restrictive :: "AccessClass list \<Rightarrow> AccessClass" where
  "most_restrictive [] = AC_PUBLIC"
| "most_restrictive (c # cs) =
     fold (\<lambda>c best. if ACCESS_CLASS_RANK c > ACCESS_CLASS_RANK best then c else best) cs c"

text \<open>The rank makes the classes a linear order, from the least to the most sensitive.\<close>

instantiation AccessClass :: linorder
begin

definition less_eq_AccessClass :: "AccessClass \<Rightarrow> AccessClass \<Rightarrow> bool" where
  "a \<le> b \<longleftrightarrow> ACCESS_CLASS_RANK a \<le> ACCESS_CLASS_RANK b"

definition less_AccessClass :: "AccessClass \<Rightarrow> AccessClass \<Rightarrow> bool" where
  "(a :: AccessClass) < b \<longleftrightarrow> ACCESS_CLASS_RANK a < ACCESS_CLASS_RANK b"

instance
proof
  fix x y z :: AccessClass
  show "(x < y) = (x \<le> y \<and> \<not> y \<le> x)"
    by (auto simp: less_AccessClass_def less_eq_AccessClass_def)
  show "x \<le> x" by (simp add: less_eq_AccessClass_def)
  show "x \<le> y \<Longrightarrow> y \<le> z \<Longrightarrow> x \<le> z" by (simp add: less_eq_AccessClass_def)
  show "x \<le> y \<Longrightarrow> y \<le> x \<Longrightarrow> x = y"
    by (cases x; cases y) (simp_all add: less_eq_AccessClass_def)
  show "x \<le> y \<or> y \<le> x" by (auto simp: less_eq_AccessClass_def)
qed

end


section \<open>Budgets and usage\<close>

record ResearchBudget =
  max_tool_calls :: int
  max_tokens :: int
  max_runtime_seconds :: int
  max_cost_usd :: pyfloat

definition default_budget :: ResearchBudget where
  "default_budget = \<lparr>max_tool_calls = 50, max_tokens = 2000000,
     max_runtime_seconds = 3600, max_cost_usd = 10\<rparr>"

definition ResearchBudget_valid :: "ResearchBudget \<Rightarrow> bool" where
  "ResearchBudget_valid b \<longleftrightarrow>
     1 \<le> max_tool_calls b \<and> max_tool_calls b \<le> 10000 \<and>
     1000 \<le> max_tokens b \<and> max_tokens b \<le> 1000000000 \<and>
     30 \<le> max_runtime_seconds b \<and> max_runtime_seconds b \<le> 86400 \<and>
     0 < max_cost_usd b \<and> max_cost_usd b \<le> 10000"

record JobUsage =
  tool_calls :: int
  agent_calls :: int
  schema_corrections :: int
  prompt_tokens :: int
  completion_tokens :: int
  cost_usd :: pyfloat
  active_seconds :: pyfloat

definition JobUsage_zero :: JobUsage where
  "JobUsage_zero = \<lparr>tool_calls = 0, agent_calls = 0, schema_corrections = 0,
     prompt_tokens = 0, completion_tokens = 0, cost_usd = 0, active_seconds = 0\<rparr>"

definition JobUsage_valid :: "JobUsage \<Rightarrow> bool" where
  "JobUsage_valid u \<longleftrightarrow> 0 \<le> tool_calls u \<and> 0 \<le> agent_calls u \<and> 0 \<le> schema_corrections u \<and>
     0 \<le> prompt_tokens u \<and> 0 \<le> completion_tokens u \<and> 0 \<le> cost_usd u \<and> 0 \<le> active_seconds u"

definition total_tokens :: "JobUsage \<Rightarrow> int" where
  "total_tokens u = prompt_tokens u + completion_tokens u"

lemma JobUsage_zero_valid [simp, intro]: "JobUsage_valid JobUsage_zero"
  by (simp add: JobUsage_zero_def JobUsage_valid_def)


section \<open>Research jobs\<close>

record ResearchJobCreate =
  rjc_question :: string
  rjc_constraints :: "string list"
  rjc_source_requirements :: "string list"
  rjc_budget :: ResearchBudget

definition ResearchJobCreate_valid :: "ResearchJobCreate \<Rightarrow> bool" where
  "ResearchJobCreate_valid c \<longleftrightarrow>
     nonempty_text (rjc_question c) \<and>
     length (rjc_constraints c) \<le> 50 \<and> list_all nonempty_text (rjc_constraints c) \<and>
     length (rjc_source_requirements c) \<le> 50 \<and> list_all nonempty_text (rjc_source_requirements c) \<and>
     ResearchBudget_valid (rjc_budget c)"

record ResearchJob =
  rj_id :: uuid
  rj_tenant_id :: string
  rj_requester_id :: string
  rj_question :: string
  rj_constraints :: "string list"
  rj_source_requirements :: "string list"
  rj_budget :: ResearchBudget
  rj_clearance :: AccessClass
  rj_usage :: JobUsage
  rj_status :: JobStatus
  rj_status_detail :: "string option"
  rj_workflow_id :: "string option"
  rj_workflow_run_id :: "string option"
  rj_created_at :: datetime
  rj_updated_at :: datetime

definition ResearchJob_valid :: "ResearchJob \<Rightarrow> bool" where
  "ResearchJob_valid j \<longleftrightarrow>
     bounded_text 1 100 (rj_tenant_id j) \<and> bounded_text 1 200 (rj_requester_id j) \<and>
     nonempty_text (rj_question j) \<and> ResearchBudget_valid (rj_budget j) \<and>
     JobUsage_valid (rj_usage j) \<and> opt_text STATUS_DETAIL_LIMIT (rj_status_detail j) \<and>
     opt_text 255 (rj_workflow_id j) \<and> opt_text 255 (rj_workflow_run_id j)"

datatype InvalidStateTransition = InvalidStateTransition JobStatus JobStatus

text \<open>\<open>detail[:LIMIT] if detail else None\<close>: an absent or empty explanation clears the old one.\<close>

definition trimmed_detail :: "string option \<Rightarrow> string option" where
  "trimmed_detail d = (case d of None \<Rightarrow> None
     | Some t \<Rightarrow> if t = [] then None else Some (take STATUS_DETAIL_LIMIT t))"

definition ResearchJob_transition_to ::
  "datetime \<Rightarrow> ResearchJob \<Rightarrow> JobStatus \<Rightarrow> string option \<Rightarrow> JobUsage option \<Rightarrow>
   InvalidStateTransition + ResearchJob" where
  "ResearchJob_transition_to now j target detail usage =
     (if target \<notin> ALLOWED_TRANSITIONS (rj_status j)
      then Inl (InvalidStateTransition (rj_status j) target)
      else Inr (j\<lparr>rj_status := target, rj_status_detail := trimmed_detail detail,
                  rj_usage := (case usage of None \<Rightarrow> rj_usage j | Some u \<Rightarrow> u),
                  rj_updated_at := now\<rparr>))"

definition ResearchJob_with_checkpoint ::
  "datetime \<Rightarrow> ResearchJob \<Rightarrow> string \<Rightarrow> string \<Rightarrow> ResearchJob" where
  "ResearchJob_with_checkpoint now j workflow_id run_id =
     j\<lparr>rj_workflow_id := Some workflow_id, rj_workflow_run_id := Some run_id, rj_updated_at := now\<rparr>"


section \<open>Evidence\<close>

text \<open>The pattern \<open>^sha256:[a-f0-9]{64}$\<close> of every stored digest.\<close>

definition is_lower_hex :: "char \<Rightarrow> bool" where
  "is_lower_hex c \<longleftrightarrow> c \<in> set hex_alphabet"

definition sha256_pattern :: "string \<Rightarrow> bool" where
  "sha256_pattern s \<longleftrightarrow>
     prefix ''sha256:'' s \<and> length s = 71 \<and> list_all is_lower_hex (drop 7 s)"

record EvidenceRecordCreate =
  ev_excerpt :: unicode
  ev_source_uri :: string
  ev_title :: "string option"
  ev_author :: "string option"
  ev_published_at :: "datetime option"
  ev_trust_level :: TrustLevel
  ev_access_class :: AccessClass
  ev_content_hash :: string
  ev_producing_task_id :: uuid
  ev_tool_invocation_id :: uuid

text \<open>The field constraints, and the validator that refuses a publication date in the future.\<close>

definition EvidenceRecordCreate_valid :: "datetime \<Rightarrow> 'a EvidenceRecordCreate_scheme \<Rightarrow> bool" where
  "EvidenceRecordCreate_valid now e \<longleftrightarrow>
     nonempty_text (ev_excerpt e) \<and> nonempty_text (ev_source_uri e) \<and>
     opt_text 500 (ev_title e) \<and> opt_text 200 (ev_author e) \<and>
     sha256_pattern (ev_content_hash e) \<and>
     (case ev_published_at e of None \<Rightarrow> True | Some t \<Rightarrow> \<not> t > now)"

record EvidenceRecord = EvidenceRecordCreate +
  ev_id :: uuid
  ev_job_id :: uuid
  ev_tenant_id :: string
  ev_retrieved_at :: datetime

definition EvidenceRecord_valid :: "datetime \<Rightarrow> EvidenceRecord \<Rightarrow> bool" where
  "EvidenceRecord_valid now e \<longleftrightarrow> EvidenceRecordCreate_valid now e \<and> bounded_text 1 100 (ev_tenant_id e)"

definition EvidenceRecord_is_publishable :: "EvidenceRecord \<Rightarrow> bool" where
  "EvidenceRecord_is_publishable e \<longleftrightarrow> ev_access_class e \<in> PUBLISHABLE_ACCESS_CLASSES"

definition EvidenceRecord_has_drifted_from :: "EvidenceRecord \<Rightarrow> string \<Rightarrow> bool" where
  "EvidenceRecord_has_drifted_from e observed_hash \<longleftrightarrow> ev_content_hash e \<noteq> observed_hash"


section \<open>Findings\<close>

datatype CriticVerdict = CV_PENDING | CV_SUPPORTED | CV_UNSUPPORTED | CV_CONTRADICTED

datatype ReviewerStatus = RS_NOT_REQUIRED | RS_PENDING | RS_APPROVED | RS_REJECTED

record Finding =
  fi_claim :: string
  fi_supporting_evidence_ids :: "uuid list"
  fi_contradicting_evidence_ids :: "uuid list"
  fi_calculation_ids :: "uuid list"
  fi_confidence :: pyfloat
  fi_critic_verdict :: CriticVerdict
  fi_reviewer_status :: ReviewerStatus

text \<open>The validator \<open>evidence_sets_must_not_overlap\<close> with the field constraints.\<close>

definition Finding_valid :: "'a Finding_scheme \<Rightarrow> bool" where
  "Finding_valid f \<longleftrightarrow>
     nonempty_text (fi_claim f) \<and> fi_supporting_evidence_ids f \<noteq> [] \<and>
     length (fi_calculation_ids f) \<le> 50 \<and> 0 \<le> fi_confidence f \<and> fi_confidence f \<le> 1 \<and>
     set (fi_supporting_evidence_ids f) \<inter> set (fi_contradicting_evidence_ids f) = {} \<and>
     \<not> (fi_critic_verdict f = CV_SUPPORTED \<and> fi_contradicting_evidence_ids f \<noteq> [])"

definition Finding_is_publishable :: "'a Finding_scheme \<Rightarrow> bool" where
  "Finding_is_publishable f \<longleftrightarrow>
     fi_critic_verdict f = CV_SUPPORTED \<and> fi_reviewer_status f \<noteq> RS_REJECTED \<and>
     fi_reviewer_status f \<noteq> RS_PENDING"

record FindingRecord = Finding +
  fr_id :: uuid
  fr_job_id :: uuid
  fr_tenant_id :: string
  fr_recorded_at :: datetime

definition FindingRecord_valid :: "FindingRecord \<Rightarrow> bool" where
  "FindingRecord_valid f \<longleftrightarrow> Finding_valid f \<and> bounded_text 1 100 (fr_tenant_id f)"


section \<open>Lemmas on clearances\<close>

lemma clearance_covers_le: "clearance_covers c r \<longleftrightarrow> r \<le> c"
  by (simp add: clearance_covers_def less_eq_AccessClass_def)

lemma most_restrictive_fold:
  "fold (\<lambda>c best. if ACCESS_CLASS_RANK c > ACCESS_CLASS_RANK best then c else best) cs c =
   fold max cs (c :: AccessClass)"
  by (induction cs arbitrary: c)
    (auto simp: max_def less_eq_AccessClass_def intro: arg_cong2 [where f = "\<lambda>x y. fold max y x"])

lemma fold_max_Max: "fold max cs (c :: AccessClass) = Max (set (c # cs))"
  by (metis Max.set_eq_fold)

lemma most_restrictive_Max: "most_restrictive cs = (if cs = [] then AC_PUBLIC else Max (set cs))"
  by (cases cs) (simp_all only: most_restrictive.simps most_restrictive_fold fold_max_Max, simp_all)

text \<open>A clearance reaches what a list of classes draws on iff it reaches each of them.\<close>

lemma covers_most_restrictive_iff:
  "clearance_covers c (most_restrictive cs) \<longleftrightarrow> (\<forall>x \<in> set cs. clearance_covers c x)"
proof (cases "cs = []")
  case True
  then show ?thesis by (simp add: clearance_covers_def)
next
  case False
  then show ?thesis by (simp add: clearance_covers_le most_restrictive_Max)
qed

lemma clearance_covers_trans:
  "clearance_covers a b \<Longrightarrow> clearance_covers b c \<Longrightarrow> clearance_covers a c"
  by (simp add: clearance_covers_def)

end
