(* ===== verification/Dependency.thy ===== *)
theory Dependency
  imports Prelude
begin

text \<open>
  What the two dependency checks of the platform share: \<open>resolve_execution_order\<close> over recorded
  tasks and \<open>ResearchPlan._reject_cycles\<close> over a plan's positions both place, round after round,
  everything whose dependencies are already placed. The contract here is a finite graph; a set
  of nodes from which nothing can be placed contains a cycle, and a ranking of the nodes by
  the round that placed them shows there is none.
\<close>

definition dep_edges :: "'n set \<Rightarrow> ('n \<Rightarrow> 'n set) \<Rightarrow> ('n \<times> 'n) set" where
  "dep_edges nodes deps = {(d, n). n \<in> nodes \<and> d \<in> nodes \<and> d \<in> deps n}"

locale dependency_graph =
  fixes nodes :: "'n set" and deps :: "'n \<Rightarrow> 'n set"
  assumes finite_nodes: "finite nodes"
begin

lemma finite_edges: "finite (dep_edges nodes deps)"
proof (rule finite_subset)
  show "dep_edges nodes deps \<subseteq> nodes \<times> nodes" by (auto simp: dep_edges_def)
qed (simp add: finite_nodes)

lemma stuck_cycle:
  assumes "R \<subseteq> nodes" "R \<noteq> {}" and stuck: "\<And>n. n \<in> R \<Longrightarrow> deps n \<inter> R \<noteq> {}"
  shows "\<not> acyclic (dep_edges nodes deps)"
proof
  assume "acyclic (dep_edges nodes deps)"
  then have "wf (dep_edges nodes deps)" by (rule finite_acyclic_wf [OF finite_edges])
  then obtain m where m: "m \<in> R" "\<And>y. (y, m) \<in> dep_edges nodes deps \<Longrightarrow> y \<notin> R"
    using \<open>R \<noteq> {}\<close> by (meson all_not_in_conv wfE_min)
  from stuck [OF m(1)] obtain d where "d \<in> deps m" "d \<in> R" by blast
  with m assms(1) show False by (auto simp: dep_edges_def)
qed

lemma ranked_acyclic:
  fixes rank :: "'n \<Rightarrow> nat"
  assumes "\<And>n d. n \<in> nodes \<Longrightarrow> d \<in> nodes \<Longrightarrow> d \<in> deps n \<Longrightarrow> rank d < rank n"
  shows "acyclic (dep_edges nodes deps)"
proof (rule wf_acyclic, rule wf_subset)
  show "dep_edges nodes deps \<subseteq> measure rank" using assms by (auto simp: dep_edges_def)
qed simp

end

text \<open>
  A list of nodes in which every dependency stands before what depends on it. The first
  position of a node is the rank that excludes a cycle.
\<close>

definition deps_first :: "('n \<Rightarrow> 'n set) \<Rightarrow> 'n list \<Rightarrow> bool" where
  "deps_first deps ns \<longleftrightarrow> (\<forall>i < length ns. deps (ns ! i) \<subseteq> set (take i ns))"

lemma deps_first_Nil [simp]: "deps_first deps []"
  by (simp add: deps_first_def)

lemma deps_first_append:
  assumes "deps_first deps xs" and "\<And>y. y \<in> set ys \<Longrightarrow> deps y \<subseteq> set xs"
  shows "deps_first deps (xs @ ys)"
  unfolding deps_first_def
proof (intro allI impI)
  fix i assume "i < length (xs @ ys)"
  show "deps ((xs @ ys) ! i) \<subseteq> set (take i (xs @ ys))"
  proof (cases "i < length xs")
    case True
    with assms(1) show ?thesis by (simp add: deps_first_def nth_append)
  next
    case False
    with \<open>i < length (xs @ ys)\<close> have "ys ! (i - length xs) \<in> set ys" by simp
    with assms(2) False show ?thesis by (fastforce simp: nth_append)
  qed
qed

context dependency_graph
begin

lemma deps_first_acyclic:
  assumes "deps_first deps ns" and "set ns = nodes" and "distinct ns"
  shows "acyclic (dep_edges nodes deps)"
proof -
  define rank where "rank n = (LEAST i. i < length ns \<and> ns ! i = n)" for n
  have pos: "rank (ns ! i) = i" if "i < length ns" for i
    unfolding rank_def using that \<open>distinct ns\<close>
    by (intro Least_equality) (auto simp: nth_eq_iff_index_eq)
  show ?thesis
  proof (rule ranked_acyclic [of rank])
    fix n d assume "n \<in> nodes" "d \<in> nodes" "d \<in> deps n"
    then obtain i where i: "i < length ns" "ns ! i = n" using assms(2) by (metis in_set_conv_nth)
    with assms(1) \<open>d \<in> deps n\<close> have "d \<in> set (take i ns)" by (auto simp: deps_first_def)
    then obtain j where "j < i" "ns ! j = d" using i by (auto simp: in_set_conv_nth)
    with i pos show "rank d < rank n" by auto
  qed
qed

end

end
