(* ===== verification/Tasks.thy ===== *)
theory Tasks
  imports Models Dependency "HOL-Library.Multiset"
begin

text \<open>
  Task decomposition (\<open>domain/tasks.py\<close>): agent roles, the task state machine with its retry
  budget, and the execution order over task dependencies.
\<close>

datatype AgentRole = AR_PLANNER | AR_RESEARCHER | AR_ANALYST | AR_CRITIC | AR_REPORTER

fun AgentRole_value :: "AgentRole \<Rightarrow> string" where
  "AgentRole_value AR_PLANNER = ''planner''"
| "AgentRole_value AR_RESEARCHER = ''researcher''"
| "AgentRole_value AR_ANALYST = ''analyst''"
| "AgentRole_value AR_CRITIC = ''critic''"
| "AgentRole_value AR_REPORTER = ''reporter''"

datatype TaskState = TS_PENDING | TS_BLOCKED | TS_RUNNING | TS_COMPLETED | TS_FAILED

fun ALLOWED_TASK_TRANSITIONS :: "TaskState \<Rightarrow> TaskState set" where
  "ALLOWED_TASK_TRANSITIONS TS_PENDING = {TS_BLOCKED, TS_RUNNING, TS_FAILED}"
| "ALLOWED_TASK_TRANSITIONS TS_BLOCKED = {TS_PENDING, TS_FAILED}"
| "ALLOWED_TASK_TRANSITIONS TS_RUNNING = {TS_COMPLETED, TS_PENDING, TS_FAILED}"
| "ALLOWED_TASK_TRANSITIONS TS_COMPLETED = {}"
| "ALLOWED_TASK_TRANSITIONS TS_FAILED = {}"

datatype TaskError =
    InvalidTaskTransition TaskState TaskState
  | RetryBudgetExhausted uuid int
  | UnknownDependencies uuid "uuid list"
  | DependencyCycle

record ResearchTask =
  rt_id :: uuid
  rt_job_id :: uuid
  rt_tenant_id :: string
  rt_objective :: string
  rt_assigned_agent :: AgentRole
  rt_dependencies :: "uuid list"
  rt_evidence_requirements :: "string list"
  rt_source_restrictions :: "string list"
  rt_state :: TaskState
  rt_retry_count :: int
  rt_max_retries :: int
  rt_created_at :: datetime
  rt_updated_at :: datetime

text \<open>The field constraints and the validator \<open>task_must_not_depend_on_itself\<close>.\<close>

definition ResearchTask_valid :: "ResearchTask \<Rightarrow> bool" where
  "ResearchTask_valid t \<longleftrightarrow>
     bounded_text 1 100 (rt_tenant_id t) \<and> nonempty_text (rt_objective t) \<and>
     length (rt_dependencies t) \<le> 50 \<and>
     length (rt_evidence_requirements t) \<le> 50 \<and> list_all nonempty_text (rt_evidence_requirements t) \<and>
     length (rt_source_restrictions t) \<le> 50 \<and> list_all nonempty_text (rt_source_restrictions t) \<and>
     0 \<le> rt_retry_count t \<and> rt_retry_count t \<le> 100 \<and>
     0 \<le> rt_max_retries t \<and> rt_max_retries t \<le> 10 \<and>
     rt_id t \<notin> set (rt_dependencies t)"

definition ResearchTask_transition_to ::
  "datetime \<Rightarrow> ResearchTask \<Rightarrow> TaskState \<Rightarrow> TaskError + ResearchTask" where
  "ResearchTask_transition_to now t target =
     (if target \<notin> ALLOWED_TASK_TRANSITIONS (rt_state t)
      then Inl (InvalidTaskTransition (rt_state t) target)
      else Inr (t\<lparr>rt_state := target, rt_updated_at := now\<rparr>))"

definition ResearchTask_retry :: "datetime \<Rightarrow> ResearchTask \<Rightarrow> TaskError + ResearchTask" where
  "ResearchTask_retry now t =
     (if rt_retry_count t \<ge> rt_max_retries t
      then Inl (RetryBudgetExhausted (rt_id t) (rt_max_retries t))
      else (case ResearchTask_transition_to now t TS_PENDING of
              Inl e \<Rightarrow> Inl e
            | Inr retried \<Rightarrow> Inr (retried\<lparr>rt_retry_count := rt_retry_count t + 1\<rparr>)))"


section \<open>The execution order\<close>

text \<open>The first task with a dependency that is no task of the list, as the loop over them finds it.\<close>

definition missing_dependencies :: "uuid set \<Rightarrow> ResearchTask \<Rightarrow> uuid list" where
  "missing_dependencies ids t = filter (\<lambda>d. d \<notin> ids) (rt_dependencies t)"

definition ready_tasks :: "uuid set \<Rightarrow> ResearchTask list \<Rightarrow> ResearchTask list" where
  "ready_tasks placed remaining = filter (\<lambda>t. set (rt_dependencies t) \<subseteq> placed) remaining"

text \<open>The \<open>while remaining\<close> loop: \<open>ordered\<close>, \<open>placed\<close> and \<open>remaining\<close> are its variables.\<close>

function execution_rounds ::
  "ResearchTask list \<Rightarrow> uuid set \<Rightarrow> ResearchTask list \<Rightarrow> TaskError + ResearchTask list" where
  "execution_rounds ordered placed remaining =
     (if remaining = [] then Inr ordered
      else if ready_tasks placed remaining = [] then Inl DependencyCycle
      else let ready = sort_key rt_created_at (ready_tasks placed remaining);
               placed' = placed \<union> rt_id ` set ready
           in execution_rounds (ordered @ ready) placed'
                (filter (\<lambda>t. rt_id t \<notin> placed') remaining))"
  by pat_completeness auto
termination
proof (relation "measure (\<lambda>(ordered, placed, remaining). length remaining)", goal_cases)
  case (2 ordered placed remaining ready placed')
  then obtain t where "t \<in> set (ready_tasks placed remaining)"
    by (cases "ready_tasks placed remaining") auto
  then have "t \<in> set remaining" "rt_id t \<in> placed'"
    using 2 by (auto simp: ready_tasks_def)
  then have "length (filter (\<lambda>t. rt_id t \<notin> placed') remaining) < length remaining"
    by (intro length_filter_less) auto
  then show ?case by simp
qed simp

declare execution_rounds.simps [simp del]

definition resolve_execution_order :: "ResearchTask list \<Rightarrow> TaskError + ResearchTask list" where
  "resolve_execution_order tasks =
     (case find (\<lambda>t. missing_dependencies (set (map rt_id tasks)) t \<noteq> []) tasks of
        Some t \<Rightarrow> Inl (UnknownDependencies (rt_id t) (missing_dependencies (set (map rt_id tasks)) t))
      | None \<Rightarrow> execution_rounds [] {} tasks)"


section \<open>The task state machine\<close>

lemma transition_to_Inr:
  "ResearchTask_transition_to now t s = Inr t' \<Longrightarrow>
   s \<in> ALLOWED_TASK_TRANSITIONS (rt_state t) \<and> t' = t\<lparr>rt_state := s, rt_updated_at := now\<rparr>"
  by (auto simp: ResearchTask_transition_to_def split: if_splits)

lemma retry_Inr:
  "ResearchTask_retry now t = Inr t' \<Longrightarrow>
   rt_retry_count t < rt_max_retries t \<and> rt_state t \<in> {TS_BLOCKED, TS_RUNNING} \<and>
   t' = t\<lparr>rt_state := TS_PENDING, rt_updated_at := now, rt_retry_count := rt_retry_count t + 1\<rparr>"
  by (cases "rt_state t")
    (auto simp: ResearchTask_retry_def ResearchTask_transition_to_def split: if_splits)

lemma retry_valid: "ResearchTask_valid t \<Longrightarrow> ResearchTask_retry now t = Inr t' \<Longrightarrow> ResearchTask_valid t'"
  by (drule retry_Inr) (auto simp: ResearchTask_valid_def)

text \<open>A task's life: a sequence of transitions and retries.\<close>

datatype task_event = Move TaskState | Retry

fun task_event_step :: "datetime \<Rightarrow> ResearchTask \<Rightarrow> task_event \<Rightarrow> TaskError + ResearchTask" where
  "task_event_step now t (Move s) = ResearchTask_transition_to now t s"
| "task_event_step now t Retry = ResearchTask_retry now t"

inductive task_run :: "ResearchTask \<Rightarrow> task_event list \<Rightarrow> ResearchTask \<Rightarrow> bool" where
  task_run_refl: "task_run t [] t"
| task_run_step: "task_event_step now t e = Inr t' \<Longrightarrow> task_run t' es t'' \<Longrightarrow> task_run t (e # es) t''"

inductive_cases task_run_ConsE: "task_run t (e # es) t'"

text \<open>The number of retries a task can still make bounds the retries of every run.\<close>

lemma task_run_retries:
  "task_run t es t' \<Longrightarrow> rt_retry_count t \<le> rt_max_retries t \<Longrightarrow>
   rt_retry_count t' = rt_retry_count t + int (count_list es Retry) \<and>
   rt_retry_count t' \<le> rt_max_retries t \<and> rt_max_retries t' = rt_max_retries t"
proof (induction rule: task_run.induct)
  case (task_run_step now t e t' es t'')
  then show ?case by (cases e) (auto dest!: transition_to_Inr retry_Inr)
qed simp


section \<open>Correctness of the execution order\<close>

definition task_nodes :: "ResearchTask list \<Rightarrow> uuid set" where
  "task_nodes tasks = rt_id ` set tasks"

definition task_deps :: "ResearchTask list \<Rightarrow> uuid \<Rightarrow> uuid set" where
  "task_deps tasks n = (\<Union>t \<in> {t \<in> set tasks. rt_id t = n}. set (rt_dependencies t))"

interpretation task_graph: dependency_graph "task_nodes tasks" "task_deps tasks" for tasks
  by unfold_locales (simp add: task_nodes_def)

lemma task_deps_distinct:
  "distinct (map rt_id tasks) \<Longrightarrow> t \<in> set tasks \<Longrightarrow> task_deps tasks (rt_id t) = set (rt_dependencies t)"
  by (auto simp: task_deps_def distinct_map dest: inj_onD)

text \<open>
  The invariant of the loop: what is ordered and what remains are the tasks, the placed
  identifiers are those of the ordered tasks, and the order respects the dependencies.
\<close>

definition rounds_inv ::
  "ResearchTask list \<Rightarrow> ResearchTask list \<Rightarrow> uuid set \<Rightarrow> ResearchTask list \<Rightarrow> bool" where
  "rounds_inv tasks ordered placed remaining \<longleftrightarrow>
     mset tasks = mset ordered + mset remaining \<and> placed = rt_id ` set ordered \<and>
     deps_first (task_deps tasks) (map rt_id ordered)"

lemma rounds_inv_init: "rounds_inv tasks [] {} tasks"
  by (simp add: rounds_inv_def)

lemma filter_not_ready:
  assumes "distinct (map rt_id (ordered @ remaining))" and "placed = rt_id ` set ordered"
    and "ready = ready_tasks placed remaining"
  shows "filter (\<lambda>t. rt_id t \<notin> placed \<union> rt_id ` set ready) remaining =
         filter (\<lambda>t. \<not> set (rt_dependencies t) \<subseteq> placed) remaining"
proof (rule filter_cong [OF refl])
  fix t assume t: "t \<in> set remaining"
  have "rt_id t \<notin> placed" using assms(1,2) t by auto
  moreover have "rt_id t \<in> rt_id ` set ready \<longleftrightarrow> t \<in> set ready"
    using assms(1,3) t by (auto simp: ready_tasks_def distinct_map dest: inj_onD)
  ultimately show "(rt_id t \<notin> placed \<union> rt_id ` set ready) = (\<not> set (rt_dependencies t) \<subseteq> placed)"
    using t assms(3) by (auto simp: ready_tasks_def)
qed

lemma rounds_inv_distinct:
  "rounds_inv tasks ordered placed remaining \<Longrightarrow> distinct (map rt_id tasks) \<Longrightarrow>
   distinct (map rt_id (ordered @ remaining))"
  unfolding rounds_inv_def by (metis mset_append mset_eq_imp_distinct_iff mset_map)

lemma rounds_inv_set:
  "rounds_inv tasks ordered placed remaining \<Longrightarrow> set tasks = set ordered \<union> set remaining"
  unfolding rounds_inv_def by (metis set_mset_mset set_mset_union)

lemma rounds_inv_step:
  assumes inv: "rounds_inv tasks ordered placed remaining" and dist: "distinct (map rt_id tasks)"
    and ready: "ready = sort_key rt_created_at (ready_tasks placed remaining)"
    and placed': "placed' = placed \<union> rt_id ` set ready"
  shows "rounds_inv tasks (ordered @ ready) placed' (filter (\<lambda>t. rt_id t \<notin> placed') remaining)"
proof -
  have rest: "filter (\<lambda>t. rt_id t \<notin> placed') remaining =
      filter (\<lambda>t. \<not> set (rt_dependencies t) \<subseteq> placed) remaining"
    using filter_not_ready [OF rounds_inv_distinct [OF inv dist] _ refl] inv ready placed'
    by (simp add: rounds_inv_def)
  have split: "mset remaining = mset ready + mset (filter (\<lambda>t. rt_id t \<notin> placed') remaining)"
    unfolding rest ready ready_tasks_def by simp
  have deps: "task_deps tasks y \<subseteq> set (map rt_id ordered)" if "y \<in> set (map rt_id ready)" for y
  proof -
    from that obtain t where t: "t \<in> set (ready_tasks placed remaining)" "y = rt_id t"
      using ready by auto
    then have "t \<in> set tasks" using rounds_inv_set [OF inv] by (auto simp: ready_tasks_def)
    with t show ?thesis
      using task_deps_distinct [OF dist] inv by (auto simp: ready_tasks_def rounds_inv_def)
  qed
  have "deps_first (task_deps tasks) (map rt_id (ordered @ ready))"
    using deps_first_append [of "task_deps tasks" "map rt_id ordered" "map rt_id ready"] deps inv
    by (simp add: rounds_inv_def)
  with split inv placed' show ?thesis by (auto simp: rounds_inv_def)
qed

lemma execution_rounds_Inr:
  "execution_rounds ordered placed remaining = Inr res \<Longrightarrow>
   rounds_inv tasks ordered placed remaining \<Longrightarrow> distinct (map rt_id tasks) \<Longrightarrow>
   mset res = mset tasks \<and> deps_first (task_deps tasks) (map rt_id res)"
proof (induction ordered placed remaining rule: execution_rounds.induct)
  case (1 ordered placed remaining)
  show ?case
  proof (cases "remaining = [] \<or> ready_tasks placed remaining = []")
    case True
    with "1.prems" show ?thesis
      by (subst (asm) execution_rounds.simps) (auto simp: rounds_inv_def split: if_splits)
  next
    case False
    with "1.prems"(1) show ?thesis
      using "1.IH" [OF _ _ refl refl] rounds_inv_step [OF "1.prems"(2,3) refl refl] "1.prems"(3)
      by (subst (asm) execution_rounds.simps) (simp add: Let_def)
  qed
qed

lemma execution_rounds_Inl:
  "execution_rounds ordered placed remaining = Inl e \<Longrightarrow>
   rounds_inv tasks ordered placed remaining \<Longrightarrow> distinct (map rt_id tasks) \<Longrightarrow>
   \<forall>t \<in> set tasks. set (rt_dependencies t) \<subseteq> task_nodes tasks \<Longrightarrow>
   e = DependencyCycle \<and> \<not> acyclic (dep_edges (task_nodes tasks) (task_deps tasks))"
proof (induction ordered placed remaining rule: execution_rounds.induct)
  case (1 ordered placed remaining)
  consider "remaining = []" | "remaining \<noteq> []" "ready_tasks placed remaining = []"
    | "remaining \<noteq> []" "ready_tasks placed remaining \<noteq> []" by blast
  then show ?case
  proof cases
    case 1
    with "1.prems"(1) show ?thesis by (simp add: execution_rounds.simps)
  next
    case 2
    have tasks: "set tasks = set ordered \<union> set remaining" by (rule rounds_inv_set [OF "1.prems"(2)])
    have "\<not> acyclic (dep_edges (task_nodes tasks) (task_deps tasks))"
    proof (rule task_graph.stuck_cycle [of "rt_id ` set remaining"])
      show "rt_id ` set remaining \<subseteq> task_nodes tasks" using tasks by (auto simp: task_nodes_def)
      show "rt_id ` set remaining \<noteq> {}" using 2 by simp
      fix n assume "n \<in> rt_id ` set remaining"
      then obtain t where t: "t \<in> set remaining" "n = rt_id t" by blast
      then obtain d where d: "d \<in> set (rt_dependencies t)" "d \<notin> placed"
        using 2(2) by (auto simp: ready_tasks_def filter_empty_conv)
      have "d \<in> task_nodes tasks" using "1.prems"(4) t d tasks by blast
      then have "d \<in> rt_id ` set remaining"
        using d "1.prems"(2) tasks by (auto simp: task_nodes_def rounds_inv_def)
      with t d show "task_deps tasks n \<inter> rt_id ` set remaining \<noteq> {}"
        using task_deps_distinct [OF "1.prems"(3)] tasks by auto
    qed
    with 2 "1.prems"(1) show ?thesis by (simp add: execution_rounds.simps)
  next
    case 3
    with "1.prems"(1) show ?thesis
      using "1.IH" [OF _ _ refl refl] rounds_inv_step [OF "1.prems"(2,3) refl refl] "1.prems"(3,4)
      by (subst (asm) execution_rounds.simps) (simp add: Let_def)
  qed
qed

lemma resolve_no_missing:
  assumes "\<forall>t \<in> set tasks. set (rt_dependencies t) \<subseteq> task_nodes tasks"
  shows "resolve_execution_order tasks = execution_rounds [] {} tasks"
proof -
  have "find (\<lambda>t. missing_dependencies (set (map rt_id tasks)) t \<noteq> []) tasks = None"
    using assms by (fastforce simp: find_None_iff missing_dependencies_def filter_empty_conv task_nodes_def)
  then show ?thesis by (simp add: resolve_execution_order_def)
qed

lemma deps_first_tasks:
  assumes "distinct (map rt_id tasks)" and "mset ordered = mset tasks"
  shows "deps_first (task_deps tasks) (map rt_id ordered) \<longleftrightarrow>
    (\<forall>i < length ordered. set (rt_dependencies (ordered ! i)) \<subseteq> rt_id ` set (take i ordered))"
proof -
  have "set ordered = set tasks" using assms(2) by (metis set_mset_mset)
  then have "task_deps tasks (rt_id (ordered ! i)) = set (rt_dependencies (ordered ! i))"
    if "i < length ordered" for i
    using that task_deps_distinct [OF assms(1)] by (metis nth_mem)
  then show ?thesis by (auto simp: deps_first_def take_map)
qed

lemma deps_first_tasks_acyclic:
  assumes "distinct (map rt_id tasks)" and "mset ordered = mset tasks"
    and "deps_first (task_deps tasks) (map rt_id ordered)"
  shows "acyclic (dep_edges (task_nodes tasks) (task_deps tasks))"
proof (rule task_graph.deps_first_acyclic [OF assms(3)])
  show "set (map rt_id ordered) = task_nodes tasks"
    using assms(2) by (metis list.set_map set_mset_mset task_nodes_def)
  show "distinct (map rt_id ordered)"
    using assms(1,2) by (metis mset_eq_imp_distinct_iff mset_map)
qed

lemma resolve_missing:
  assumes "\<not> (\<forall>t \<in> set tasks. set (rt_dependencies t) \<subseteq> task_nodes tasks)"
  shows "\<exists>t \<in> set tasks. resolve_execution_order tasks =
     Inl (UnknownDependencies (rt_id t) (missing_dependencies (task_nodes tasks) t)) \<and>
     missing_dependencies (task_nodes tasks) t \<noteq> []"
proof -
  have "find (\<lambda>t. missing_dependencies (task_nodes tasks) t \<noteq> []) tasks \<noteq> None"
    using assms by (auto simp: find_None_iff missing_dependencies_def filter_empty_conv)
  then obtain t where t: "find (\<lambda>t. missing_dependencies (task_nodes tasks) t \<noteq> []) tasks = Some t"
    by blast
  then have "t \<in> set tasks" "missing_dependencies (task_nodes tasks) t \<noteq> []"
    by (auto simp: find_Some_iff)
  with t show ?thesis by (auto simp: resolve_execution_order_def task_nodes_def)
qed

text \<open>
  C23. The execution order is a permutation of the tasks in which every dependency runs before
  what depends on it; it is refused for a dependency that is no task, naming exactly the missing
  ones, and otherwise refused only when the dependencies really contain a cycle.
\<close>

theorem resolve_execution_order_correct:
  assumes "distinct (map rt_id tasks)"
  shows "case resolve_execution_order tasks of
      Inr ordered \<Rightarrow>
        mset ordered = mset tasks \<and>
        (\<forall>i < length ordered. set (rt_dependencies (ordered ! i)) \<subseteq> rt_id ` set (take i ordered)) \<and>
        acyclic (dep_edges (task_nodes tasks) (task_deps tasks))
    | Inl (UnknownDependencies n ds) \<Rightarrow>
        (\<exists>t \<in> set tasks. rt_id t = n \<and> ds \<noteq> [] \<and>
           set ds = set (rt_dependencies t) - task_nodes tasks)
    | Inl e \<Rightarrow> e = DependencyCycle \<and> \<not> acyclic (dep_edges (task_nodes tasks) (task_deps tasks))"
proof (cases "\<forall>t \<in> set tasks. set (rt_dependencies t) \<subseteq> task_nodes tasks")
  case True
  note r = resolve_no_missing [OF True]
  show ?thesis
  proof (cases "resolve_execution_order tasks")
    case (Inr ordered)
    with r execution_rounds_Inr [OF _ rounds_inv_init assms]
    have "mset ordered = mset tasks" "deps_first (task_deps tasks) (map rt_id ordered)" by simp_all
    with Inr show ?thesis
      using deps_first_tasks [OF assms] deps_first_tasks_acyclic [OF assms] by simp
  next
    case (Inl e)
    then have "execution_rounds [] {} tasks = Inl e" using r by simp
    then have "e = DependencyCycle \<and> \<not> acyclic (dep_edges (task_nodes tasks) (task_deps tasks))"
      by (rule execution_rounds_Inl [OF _ rounds_inv_init assms True])
    with Inl show ?thesis by simp
  qed
next
  case False
  from resolve_missing [OF this] show ?thesis
    by (auto simp: missing_dependencies_def task_nodes_def split: sum.splits)
qed

definition sample_task :: "uuid \<Rightarrow> uuid list \<Rightarrow> datetime \<Rightarrow> ResearchTask" where
  "sample_task n ds now = \<lparr>rt_id = n, rt_job_id = 1, rt_tenant_id = ''acme'', rt_objective = ''o'',
     rt_assigned_agent = AR_RESEARCHER, rt_dependencies = ds, rt_evidence_requirements = [],
     rt_source_restrictions = [], rt_state = TS_PENDING, rt_retry_count = 0, rt_max_retries = 3,
     rt_created_at = now, rt_updated_at = now\<rparr>"

lemma resolve_sample:
  "resolve_execution_order [sample_task 1 [2] 5, sample_task 2 [] 9, sample_task 3 [] 7] =
   Inr [sample_task 3 [] 7, sample_task 2 [] 9, sample_task 1 [2] 5]"
  by (simp add: resolve_execution_order_def missing_dependencies_def sample_task_def
      execution_rounds.simps ready_tasks_def)

theorem resolve_execution_order_correct_witness:
  "distinct (map rt_id [sample_task 1 [2] 5, sample_task 2 [] 9, sample_task 3 [] 7]) \<and>
   acyclic (dep_edges (task_nodes [sample_task 1 [2] 5, sample_task 2 [] 9, sample_task 3 [] 7])
     (task_deps [sample_task 1 [2] 5, sample_task 2 [] 9, sample_task 3 [] 7]))"
  using resolve_execution_order_correct
    [of "[sample_task 1 [2] 5, sample_task 2 [] 9, sample_task 3 [] 7]"]
  unfolding resolve_sample by (simp add: sample_task_def)

text \<open>
  Whatever happens to a task that has not been retried yet, it is put back in the queue by
  \<open>retry\<close> at most \<open>max_retries\<close> times, and its retry counter counts exactly those times.
\<close>

theorem task_retry_budget:
  assumes "task_run t es t'" and "rt_retry_count t = 0" and "0 \<le> rt_max_retries t"
  shows "rt_retry_count t' = int (count_list es Retry) \<and>
         int (count_list es Retry) \<le> rt_max_retries t"
  using task_run_retries [OF assms(1)] assms(2,3) by simp

theorem task_retry_budget_witness:
  "\<exists>t'. task_run (sample_task 1 [] 0) [Move TS_RUNNING, Retry] t' \<and>
        rt_retry_count t' = int (count_list [Move TS_RUNNING, Retry] Retry)"
proof -
  let ?t1 = "(sample_task 1 [] 0)\<lparr>rt_state := TS_RUNNING, rt_updated_at := 1\<rparr>"
  let ?t2 = "?t1\<lparr>rt_state := TS_PENDING, rt_updated_at := 2, rt_retry_count := 1\<rparr>"
  have run: "task_run (sample_task 1 [] 0) [Move TS_RUNNING, Retry] ?t2"
    by (rule task_run_step [of 1 _ _ ?t1], simp add: ResearchTask_transition_to_def sample_task_def,
        rule task_run_step [of 2 _ _ ?t2])
      (simp_all add: ResearchTask_retry_def ResearchTask_transition_to_def sample_task_def task_run_refl)
  with task_retry_budget [OF run] show ?thesis by (auto simp: sample_task_def)
qed

end
