(* ===== verification/Regex.thy ===== *)
theory Regex
  imports Prelude
begin

text \<open>
  Python's \<open>re\<close> for the patterns the platform uses. A pattern is a value of \<open>'c rx\<close>; \<open>rx_match\<close>
  gives every way the pattern can match at a position, in the order the backtracking matcher of
  \<open>re\<close> tries them, so its head is the match Python returns. A position is the text before it
  (reversed) and the text after it, which is what word boundaries, anchors and lookbehind look
  at. Each match carries the texts of the capturing groups it closed.
\<close>

datatype (dead 'c) rx =
    Cls "'c \<Rightarrow> bool"               \<comment> \<open>one character of a class\<close>
  | Eps
  | Seq "'c rx" "'c rx"
  | Alt "'c rx" "'c rx"
  | Star "'c rx"                     \<comment> \<open>\<open>r*\<close>, greedy\<close>
  | Lazy "'c rx"                     \<comment> \<open>\<open>r*?\<close>\<close>
  | Grp "'c rx"                      \<comment> \<open>a capturing group\<close>
  | WordB "'c \<Rightarrow> bool"             \<comment> \<open>\<open>\b\<close>, given the word characters\<close>
  | Bol "'c \<Rightarrow> bool"               \<comment> \<open>\<open>^\<close> under \<open>MULTILINE\<close>, given the newline\<close>
  | Bos                              \<comment> \<open>\<open>^\<close>\<close>
  | Eos "'c \<Rightarrow> bool"               \<comment> \<open>\<open>$\<close>: the end, or before a final newline\<close>
  | NotAhead "'c rx"                 \<comment> \<open>\<open>(?!r)\<close>\<close>
  | Behind "'c \<Rightarrow> bool"            \<comment> \<open>\<open>(?<=[..])\<close>\<close>

type_synonym 'c pos = "'c list \<times> 'c list"
type_synonym 'c found = "'c pos \<times> 'c list list"

definition word_boundary :: "('c \<Rightarrow> bool) \<Rightarrow> 'c pos \<Rightarrow> bool" where
  "word_boundary w z \<longleftrightarrow>
     (case fst z of [] \<Rightarrow> False | c # _ \<Rightarrow> w c) \<noteq> (case snd z of [] \<Rightarrow> False | c # _ \<Rightarrow> w c)"

function rx_match :: "'c rx \<Rightarrow> 'c pos \<Rightarrow> 'c found list" where
  "rx_match (Cls p) z =
     (case snd z of [] \<Rightarrow> [] | c # cs \<Rightarrow> if p c then [((c # fst z, cs), [])] else [])"
| "rx_match Eps z = [(z, [])]"
| "rx_match (Seq r s) z =
     concat (map (\<lambda>(z1, g1). map (\<lambda>(z2, g2). (z2, g1 @ g2)) (rx_match s z1)) (rx_match r z))"
| "rx_match (Alt r s) z = rx_match r z @ rx_match s z"
| "rx_match (Star r) z =
     concat (map (\<lambda>(z1, g1).
       if length (snd z1) < length (snd z)
       then map (\<lambda>(z2, g2). (z2, g1 @ g2)) (rx_match (Star r) z1) else []) (rx_match r z))
     @ [(z, [])]"
| "rx_match (Lazy r) z = (z, []) #
     concat (map (\<lambda>(z1, g1).
       if length (snd z1) < length (snd z)
       then map (\<lambda>(z2, g2). (z2, g1 @ g2)) (rx_match (Lazy r) z1) else []) (rx_match r z))"
| "rx_match (Grp r) z =
     map (\<lambda>(z1, g). (z1, take (length (snd z) - length (snd z1)) (snd z) # g)) (rx_match r z)"
| "rx_match (WordB w) z = (if word_boundary w z then [(z, [])] else [])"
| "rx_match (Bol nl) z = (case fst z of [] \<Rightarrow> [(z, [])] | c # _ \<Rightarrow> if nl c then [(z, [])] else [])"
| "rx_match Bos z = (if fst z = [] then [(z, [])] else [])"
| "rx_match (Eos nl) z =
     (case snd z of [] \<Rightarrow> [(z, [])] | [c] \<Rightarrow> if nl c then [(z, [])] else [] | _ \<Rightarrow> [])"
| "rx_match (NotAhead r) z = (if rx_match r z = [] then [(z, [])] else [])"
| "rx_match (Behind p) z = (case fst z of [] \<Rightarrow> [] | c # _ \<Rightarrow> if p c then [(z, [])] else [])"
  by pat_completeness auto
termination
  by (relation "measures [\<lambda>(r, z). size r, \<lambda>(r, z). length (snd z)]") auto

text \<open>
  The equations of the two iterations are not simplification rules, since each rewrites to
  itself; proofs use the way a match of an iteration comes about.
\<close>

lemmas rx_match_Star = rx_match.simps(5)
lemmas rx_match_Lazy = rx_match.simps(6)
declare rx_match.simps(5, 6) [simp del]

lemma rx_match_StarE:
  assumes "(z', g) \<in> set (rx_match (Star r) z)"
  obtains "z' = z" "g = []"
  | z1 g1 g2 where "(z1, g1) \<in> set (rx_match r z)" "length (snd z1) < length (snd z)"
      "(z', g2) \<in> set (rx_match (Star r) z1)" "g = g1 @ g2"
  using assms by (auto simp: rx_match_Star [of r z] split: if_splits)

lemma rx_match_LazyE:
  assumes "(z', g) \<in> set (rx_match (Lazy r) z)"
  obtains "z' = z" "g = []"
  | z1 g1 g2 where "(z1, g1) \<in> set (rx_match r z)" "length (snd z1) < length (snd z)"
      "(z', g2) \<in> set (rx_match (Lazy r) z1)" "g = g1 @ g2"
  using assms by (auto simp: rx_match_Lazy [of r z] split: if_splits)

text \<open>\<open>r{m,n}\<close>, \<open>r+\<close>, \<open>r?\<close>, a literal, and an alternative of several patterns.\<close>

fun rx_rep :: "nat \<Rightarrow> nat \<Rightarrow> 'c rx \<Rightarrow> 'c rx" where
  "rx_rep 0 0 r = Eps"
| "rx_rep 0 (Suc n) r = Alt (Seq r (rx_rep 0 n r)) Eps"
| "rx_rep (Suc m) n r = Seq r (rx_rep m (n - 1) r)"

definition rx_plus :: "'c rx \<Rightarrow> 'c rx" where
  "rx_plus r = Seq r (Star r)"

definition rx_opt :: "'c rx \<Rightarrow> 'c rx" where
  "rx_opt r = Alt r Eps"

fun rx_seq :: "'c rx list \<Rightarrow> 'c rx" where
  "rx_seq [] = Eps"
| "rx_seq [r] = r"
| "rx_seq (r # rs) = Seq r (rx_seq rs)"

fun rx_alt :: "'c rx list \<Rightarrow> 'c rx" where
  "rx_alt [] = Cls (\<lambda>_. False)"
| "rx_alt [r] = r"
| "rx_alt (r # rs) = Alt r (rx_alt rs)"

definition rx_lit :: "'c list \<Rightarrow> 'c rx" where
  "rx_lit cs = rx_seq (map (\<lambda>c. Cls (\<lambda>x. x = c)) cs)"

subsection \<open>Searching, splitting and substituting\<close>

definition rx_at :: "'c rx \<Rightarrow> 'c pos \<Rightarrow> 'c found option" where
  "rx_at r z = (case rx_match r z of [] \<Rightarrow> None | m # _ \<Rightarrow> Some m)"

text \<open>\<open>r.match(s)\<close> anchors at the start, \<open>r.fullmatch(s)\<close> at both ends.\<close>

definition rx_matches :: "'c rx \<Rightarrow> 'c list \<Rightarrow> bool" where
  "rx_matches r s \<longleftrightarrow> rx_match r ([], s) \<noteq> []"

definition rx_fullmatch :: "'c rx \<Rightarrow> 'c list \<Rightarrow> bool" where
  "rx_fullmatch r s \<longleftrightarrow> list_ex (\<lambda>m. snd (fst m) = []) (rx_match r ([], s))"

text \<open>\<open>r.search\<close> from a position: where the first match starts, and the match.\<close>

function rx_search_from :: "'c rx \<Rightarrow> 'c pos \<Rightarrow> ('c pos \<times> 'c found) option" where
  "rx_search_from r z =
     (case rx_at r z of Some m \<Rightarrow> Some (z, m)
      | None \<Rightarrow> (case snd z of [] \<Rightarrow> None | c # cs \<Rightarrow> rx_search_from r (c # fst z, cs)))"
  by pat_completeness auto
termination
  by (relation "measure (\<lambda>(r, z). length (snd z))") auto

declare rx_search_from.simps [simp del]

definition rx_search :: "'c rx \<Rightarrow> 'c list \<Rightarrow> ('c pos \<times> 'c found) option" where
  "rx_search r s = rx_search_from r ([], s)"

definition rx_found :: "'c rx \<Rightarrow> 'c list \<Rightarrow> bool" where
  "rx_found r s \<longleftrightarrow> rx_search r s \<noteq> None"

text \<open>
  The successive non-overlapping matches. The patterns of the platform never match the empty
  text, so a position whose match consumes nothing counts as no match.
\<close>

function rx_pieces_from :: "'c rx \<Rightarrow> 'c pos \<Rightarrow> ('c + 'c list \<times> 'c list list) list" where
  "rx_pieces_from r z =
     (case rx_at r z of
        Some (z1, g) \<Rightarrow>
          if length (snd z1) < length (snd z)
          then Inr (take (length (snd z) - length (snd z1)) (snd z), g) # rx_pieces_from r z1
          else (case snd z of [] \<Rightarrow> [] | c # cs \<Rightarrow> Inl c # rx_pieces_from r (c # fst z, cs))
      | None \<Rightarrow> (case snd z of [] \<Rightarrow> [] | c # cs \<Rightarrow> Inl c # rx_pieces_from r (c # fst z, cs)))"
  by pat_completeness auto
termination
  by (relation "measure (\<lambda>(r, z). length (snd z))") auto

declare rx_pieces_from.simps [simp del]

definition rx_pieces :: "'c rx \<Rightarrow> 'c list \<Rightarrow> ('c + 'c list \<times> 'c list list) list" where
  "rx_pieces r s = rx_pieces_from r ([], s)"

text \<open>\<open>r.sub(repl, s)\<close>, with the replacement computed from the match's groups.\<close>

definition rx_sub_with :: "'c rx \<Rightarrow> ('c list \<Rightarrow> 'c list list \<Rightarrow> 'c list) \<Rightarrow> 'c list \<Rightarrow> 'c list" where
  "rx_sub_with r f s =
     concat (map (\<lambda>p. case p of Inl c \<Rightarrow> [c] | Inr (t, g) \<Rightarrow> f t g) (rx_pieces r s))"

definition rx_sub :: "'c rx \<Rightarrow> 'c list \<Rightarrow> 'c list \<Rightarrow> 'c list" where
  "rx_sub r repl s = rx_sub_with r (\<lambda>_ _. repl) s"

text \<open>
  \<open>r.findall(s)\<close>: the whole matches of a pattern without groups, the group's texts of a pattern
  with one group.
\<close>

definition rx_findall :: "'c rx \<Rightarrow> 'c list \<Rightarrow> 'c list list" where
  "rx_findall r s = [t. Inr (t, g) \<leftarrow> rx_pieces r s]"

definition rx_findall_group :: "'c rx \<Rightarrow> 'c list \<Rightarrow> 'c list list" where
  "rx_findall_group r s = [hd g. Inr (t, g) \<leftarrow> rx_pieces r s, g \<noteq> []]"

text \<open>\<open>r.split(s)\<close> of a pattern without groups.\<close>

fun split_pieces :: "('c + 'x) list \<Rightarrow> 'c list list" where
  "split_pieces [] = [[]]"
| "split_pieces (Inr _ # ps) = [] # split_pieces ps"
| "split_pieces (Inl c # ps) =
     (case split_pieces ps of [] \<Rightarrow> [[c]] | w # ws \<Rightarrow> (c # w) # ws)"

definition rx_split :: "'c rx \<Rightarrow> 'c list \<Rightarrow> 'c list list" where
  "rx_split r s = split_pieces (rx_pieces r s)"


subsection \<open>What a match consumes\<close>

text \<open>A match of a pattern splits the text after the position into what it consumed and the rest.\<close>

definition pos_split :: "'c pos \<Rightarrow> 'c list \<Rightarrow> 'c pos \<Rightarrow> bool" where
  "pos_split z w z' \<longleftrightarrow> snd z = w @ snd z' \<and> fst z' = rev w @ fst z"

lemma pos_split_refl [simp]: "pos_split z w z \<longleftrightarrow> w = []"
  by (auto simp: pos_split_def)

lemma pos_split_trans: "pos_split z v z1 \<Longrightarrow> pos_split z1 w z2 \<Longrightarrow> pos_split z (v @ w) z2"
  by (simp add: pos_split_def)

text \<open>
  \<open>rx_over P r\<close>: every character class of \<open>r\<close> is contained in \<open>P\<close>. Then every match of \<open>r\<close>
  consumes only characters in \<open>P\<close>.
\<close>

primrec rx_over :: "('c \<Rightarrow> bool) \<Rightarrow> 'c rx \<Rightarrow> bool" where
  "rx_over P (Cls p) = (\<forall>c. p c \<longrightarrow> P c)"
| "rx_over P Eps = True"
| "rx_over P (Seq r s) = (rx_over P r \<and> rx_over P s)"
| "rx_over P (Alt r s) = (rx_over P r \<and> rx_over P s)"
| "rx_over P (Star r) = rx_over P r"
| "rx_over P (Lazy r) = rx_over P r"
| "rx_over P (Grp r) = rx_over P r"
| "rx_over P (WordB w) = True"
| "rx_over P (Bol nl) = True"
| "rx_over P Bos = True"
| "rx_over P (Eos nl) = True"
| "rx_over P (NotAhead r) = True"
| "rx_over P (Behind p) = True"

lemma rx_over_rep [simp]: "rx_over P r \<Longrightarrow> rx_over P (rx_rep m n r)"
  by (induction m n r rule: rx_rep.induct) auto

lemma rx_over_True [simp]: "rx_over (\<lambda>_. True) r"
  by (induction r) auto

lemma pos_split_over_trans:
  assumes "\<exists>v. pos_split z v z1 \<and> list_all P v" and "\<exists>w. pos_split z1 w z2 \<and> list_all P w"
  shows "\<exists>u. pos_split z u z2 \<and> list_all P u"
proof -
  from assms obtain v w where "pos_split z v z1" "list_all P v" "pos_split z1 w z2" "list_all P w"
    by blast
  then have "pos_split z (v @ w) z2 \<and> list_all P (v @ w)"
    by (simp add: pos_split_trans [of z v z1 w z2])
  then show ?thesis ..
qed

lemma rx_match_over:
  "(z', g) \<in> set (rx_match r z) \<Longrightarrow> rx_over P r \<Longrightarrow> \<exists>w. pos_split z w z' \<and> list_all P w"
proof (induction r z arbitrary: z' g rule: rx_match.induct)
  case (1 p z)
  then show ?case
    by (cases "snd z") (auto simp: pos_split_def split: if_splits intro!: exI [of _ "[hd (snd z)]"])
next
  case (3 r s z)
  from "3.prems"(1) obtain z1 g1 g2 where m: "(z1, g1) \<in> set (rx_match r z)"
    "(z', g2) \<in> set (rx_match s z1)" by auto
  have "\<exists>v. pos_split z v z1 \<and> list_all P v" using "3.IH"(1) [OF m(1)] "3.prems"(2) by simp
  moreover have "\<exists>w. pos_split z1 w z' \<and> list_all P w"
    using "3.IH"(2) [OF m(1) refl m(2)] "3.prems"(2) by simp
  ultimately show ?case by (rule pos_split_over_trans)
next
  case (5 r z)
  from "5.prems"(1) show ?case
  proof (cases rule: rx_match_StarE)
    case (2 z1 g1 g2)
    have "\<exists>v. pos_split z v z1 \<and> list_all P v" using "5.IH"(1) [OF 2(1)] "5.prems"(2) by simp
    moreover have "\<exists>w. pos_split z1 w z' \<and> list_all P w"
      using "5.IH"(2) [OF 2(1) refl 2(2) 2(3)] "5.prems"(2) by simp
    ultimately show ?thesis by (rule pos_split_over_trans)
  qed (auto intro: exI [of _ "[]"])
next
  case (6 r z)
  from "6.prems"(1) show ?case
  proof (cases rule: rx_match_LazyE)
    case (2 z1 g1 g2)
    have "\<exists>v. pos_split z v z1 \<and> list_all P v" using "6.IH"(1) [OF 2(1)] "6.prems"(2) by simp
    moreover have "\<exists>w. pos_split z1 w z' \<and> list_all P w"
      using "6.IH"(2) [OF 2(1) refl 2(2) 2(3)] "6.prems"(2) by simp
    ultimately show ?thesis by (rule pos_split_over_trans)
  qed (auto intro: exI [of _ "[]"])
next
  case (4 r s z)
  from "4.prems" consider "(z', g) \<in> set (rx_match r z)" | "(z', g) \<in> set (rx_match s z)" by auto
  then show ?case using "4.IH" "4.prems"(2) by cases simp_all
next
  case (7 r z)
  then show ?case by fastforce
next
  case (13 p z)
  then show ?case by (cases "fst z") (auto split: if_splits)
qed (simp_all split: if_splits list.splits)

corollary rx_match_split: "(z', g) \<in> set (rx_match r z) \<Longrightarrow> \<exists>w. pos_split z w z'"
  using rx_match_over [of z' g r z "\<lambda>_. True"] by auto

lemma rx_at_match: "rx_at r z = Some m \<Longrightarrow> m \<in> set (rx_match r z)"
  by (auto simp: rx_at_def split: list.splits)

lemma rx_at_split:
  assumes "rx_at r z = Some (z', g)"
  shows "snd z = take (length (snd z) - length (snd z')) (snd z) @ snd z'"
  using rx_match_split [OF rx_at_match [OF assms]] by (auto simp: pos_split_def)

text \<open>The pieces of a text, put back together, are the text.\<close>

definition piece_text :: "'c + 'c list \<times> 'c list list \<Rightarrow> 'c list" where
  "piece_text p = (case p of Inl c \<Rightarrow> [c] | Inr (t, g) \<Rightarrow> t)"

lemma piece_text_simps [simp]: "piece_text (Inl c) = [c]" "piece_text (Inr (t, g)) = t"
  by (simp_all add: piece_text_def)

lemma rx_pieces_from_text: "concat (map piece_text (rx_pieces_from r z)) = snd z"
proof (induction r z rule: rx_pieces_from.induct)
  case (1 r z)
  show ?case
  proof (cases "rx_at r z")
    case None
    with 1 show ?thesis
      by (subst rx_pieces_from.simps) (auto split: list.splits)
  next
    case (Some m)
    obtain z1 g where m: "m = (z1, g)" by (cases m) auto
    show ?thesis
    proof (cases "length (snd z1) < length (snd z)")
      case True
      have "concat (map piece_text (rx_pieces_from r z1)) = snd z1"
        by (rule "1.IH"(2) [OF Some m [symmetric] True])
      with Some m True rx_at_split [of r z z1 g] show ?thesis
        by (subst rx_pieces_from.simps) simp
    next
      case False
      show ?thesis
      proof (cases "snd z")
        case (Cons c cs)
        have "concat (map piece_text (rx_pieces_from r (c # fst z, cs))) = cs"
          using "1.IH"(3) [OF Some m [symmetric] False Cons] by simp
        with Some m False Cons show ?thesis by (subst rx_pieces_from.simps) simp
      qed (use Some m in \<open>subst rx_pieces_from.simps, simp\<close>)
    qed
  qed
qed

theorem rx_pieces_text: "concat (map piece_text (rx_pieces r s)) = s"
  by (simp add: rx_pieces_def rx_pieces_from_text)

text \<open>A full match of a class-only pattern consists of the classes' characters.\<close>

lemma rx_fullmatch_over: "rx_fullmatch r s \<Longrightarrow> rx_over P r \<Longrightarrow> list_all P s"
  by (fastforce simp: rx_fullmatch_def list_ex_iff pos_split_def dest: rx_match_over)

text \<open>What every match of a pattern consumes, as a fact about the pieces and about \<open>sub\<close>.\<close>

lemma rx_pieces_from_over:
  "Inr (t, g) \<in> set (rx_pieces_from r z) \<Longrightarrow> rx_over P r \<Longrightarrow> list_all P t"
proof (induction r z rule: rx_pieces_from.induct)
  case (1 r z)
  show ?case
  proof (cases "rx_at r z")
    case None
    show ?thesis
    proof (cases "snd z")
      case (Cons c cs)
      with "1.prems" "1.IH"(1) [OF None Cons] None show ?thesis by (simp add: rx_pieces_from.simps [of r z])
    qed (use "1.prems" None in \<open>simp add: rx_pieces_from.simps [of r z]\<close>)
  next
    case (Some m)
    obtain z1 g1 where m: "m = (z1, g1)" by (cases m) auto
    show ?thesis
    proof (cases "length (snd z1) < length (snd z)")
      case True
      obtain w where "pos_split z w z1" "list_all P w"
        using rx_match_over [OF rx_at_match] Some m "1.prems"(2) by blast
      then have "list_all P (take (length (snd z) - length (snd z1)) (snd z))"
        by (auto simp: pos_split_def)
      with "1.prems" "1.IH"(2) [OF Some m [symmetric] True] Some m True show ?thesis
        by (auto simp: rx_pieces_from.simps [of r z])
    next
      case False
      show ?thesis
      proof (cases "snd z")
        case (Cons c cs)
        with "1.prems" "1.IH"(3) [OF Some m [symmetric] False Cons] Some m False show ?thesis
          by (simp add: rx_pieces_from.simps [of r z])
      qed (use "1.prems" Some m in \<open>simp add: rx_pieces_from.simps [of r z]\<close>)
    qed
  qed
qed

lemma rx_pieces_over: "Inr (t, g) \<in> set (rx_pieces r s) \<Longrightarrow> rx_over P r \<Longrightarrow> list_all P t"
  by (auto simp: rx_pieces_def intro: rx_pieces_from_over)

lemma filter_none: "list_all P t \<Longrightarrow> filter (\<lambda>c. \<not> P c) t = []"
  by (auto simp: list_all_iff filter_empty_conv)

text \<open>A substitution of one pattern over a class for text in the class keeps all other characters.\<close>

lemma rx_sub_keeps:
  assumes "rx_over P r" and "list_all P repl"
  shows "filter (\<lambda>c. \<not> P c) (rx_sub r repl s) = filter (\<lambda>c. \<not> P c) s"
proof -
  have "filter (\<lambda>c. \<not> P c) (case p of Inl c \<Rightarrow> [c] | Inr (t, g) \<Rightarrow> repl) = filter (\<lambda>c. \<not> P c) (piece_text p)"
    if "p \<in> set (rx_pieces r s)" for p
  proof (cases p)
    case (Inr m)
    obtain u g where m: "m = (u, g)" by (cases m)
    have "list_all P u" using rx_pieces_over [OF _ assms(1)] that Inr m by blast
    with Inr m assms(2) show ?thesis by (simp add: filter_none)
  qed simp
  then have "filter (\<lambda>c. \<not> P c) (rx_sub r repl s) =
      filter (\<lambda>c. \<not> P c) (concat (map piece_text (rx_pieces r s)))"
    by (auto simp: rx_sub_def rx_sub_with_def filter_concat o_def intro!: arg_cong [where f = concat])
  then show ?thesis by (simp only: rx_pieces_text)
qed

lemma rx_sub_set: "set (rx_sub r repl s) \<subseteq> set s \<union> set repl"
proof -
  have "set (piece_text p) \<subseteq> set s" if "p \<in> set (rx_pieces r s)" for p
    using that by (subst rx_pieces_text [of r s, symmetric]) auto
  moreover have "set (case p of Inl c \<Rightarrow> [c] | Inr (t, g) \<Rightarrow> repl) \<subseteq> set (piece_text p) \<union> set repl" for p
    by (auto simp: piece_text_def split: sum.splits prod.splits)
  ultimately show ?thesis unfolding rx_sub_def rx_sub_with_def set_concat set_map by blast
qed

text \<open>Removing the matches of a single class filters the text.\<close>

lemma rx_pieces_from_Cls:
  "rx_pieces_from (Cls p) z = map (\<lambda>c. if p c then Inr ([c], []) else Inl c) (snd z)"
proof (induction "snd z" arbitrary: z)
  case Nil
  then show ?case by (simp add: rx_pieces_from.simps [of _ z] rx_at_def)
next
  case (Cons c cs)
  then show ?case
    using Cons.hyps(1) [of "(c # fst z, cs)"]
    by (simp add: rx_pieces_from.simps [of _ z] rx_at_def Cons.hyps(2) [symmetric])
qed

lemma rx_sub_Cls: "rx_sub (Cls p) [] s = filter (\<lambda>c. \<not> p c) s"
  by (simp add: rx_sub_def rx_sub_with_def rx_pieces_def rx_pieces_from_Cls o_def) (induction s; simp)

end
