(* ===== verification/Contracts.thy ===== *)
theory Contracts
  imports Tasks Regex
begin

text \<open>
  The schemas every agent must produce (\<open>agents/contracts.py\<close>). A schema is a record with the
  predicate its validators enforce; an output the predicate refuses never becomes a value the
  workflow sees.
\<close>

section \<open>Citations and sentences\<close>

definition is_hex_or_dash :: "char \<Rightarrow> bool" where
  "is_hex_or_dash c \<longleftrightarrow> is_hex c \<or> c = CHR ''-''"

definition CITATION :: "char rx" where
  "CITATION = rx_seq [rx_lit ''['', Grp (rx_rep 36 36 (Cls is_hex_or_dash)), rx_lit '']'']"

definition SENTENCE_BOUNDARY :: "char rx" where
  "SENTENCE_BOUNDARY = Seq (Behind (\<lambda>c. c = CHR ''.'' \<or> c = CHR ''!'' \<or> c = CHR ''?'')) (rx_plus (Cls is_space))"

definition HEDGES :: "string list" where
  "HEDGES = [''we recommend'', ''this suggests'', ''in our view'', ''further research'']"


section \<open>Plans\<close>

record PlannedTask =
  pt_objective :: string
  pt_assigned_agent :: AgentRole
  pt_evidence_requirements :: "string list"
  pt_source_restrictions :: "string list"
  pt_depends_on :: "nat list"

definition PlannedTask_valid :: "PlannedTask \<Rightarrow> bool" where
  "PlannedTask_valid t \<longleftrightarrow>
     nonempty_text (pt_objective t) \<and>
     1 \<le> length (pt_evidence_requirements t) \<and> length (pt_evidence_requirements t) \<le> 20 \<and>
     list_all nonempty_text (pt_evidence_requirements t) \<and>
     length (pt_source_restrictions t) \<le> 20 \<and> list_all nonempty_text (pt_source_restrictions t) \<and>
     length (pt_depends_on t) \<le> 20 \<and>
     pt_assigned_agent t \<noteq> AR_PLANNER"

record ResearchPlan =
  rp_tasks :: "PlannedTask list"
  rp_rationale :: string

text \<open>\<open>_reject_cycles\<close>: the rounds of positions whose dependencies are all placed.\<close>

function ResearchPlan_reject_cycles :: "PlannedTask list \<Rightarrow> nat set \<Rightarrow> nat list \<Rightarrow> bool" where
  "ResearchPlan_reject_cycles tasks placed remaining =
     (if remaining = [] then True
      else (let ready = filter (\<lambda>p. set (pt_depends_on (tasks ! p)) \<subseteq> placed) remaining
            in if ready = [] then False
               else ResearchPlan_reject_cycles tasks (placed \<union> set ready)
                      (filter (\<lambda>p. p \<notin> set ready) remaining)))"
  by pat_completeness auto
termination
proof (relation "measure (\<lambda>(tasks, placed, remaining). length remaining)", goal_cases)
  case (2 tasks placed remaining ready)
  then obtain p where "p \<in> set ready" by (metis list.set_intros(1) neq_Nil_conv)
  then have "p \<in> set remaining" using 2 by auto
  with \<open>p \<in> set ready\<close> show ?case by (auto intro!: length_filter_less)
qed simp

declare ResearchPlan_reject_cycles.simps [simp del]

definition plan_dependencies_resolve :: "PlannedTask list \<Rightarrow> bool" where
  "plan_dependencies_resolve tasks \<longleftrightarrow>
     (\<forall>p < length tasks. \<forall>d \<in> set (pt_depends_on (tasks ! p)). \<not> d \<ge> length tasks \<and> d \<noteq> p) \<and>
     ResearchPlan_reject_cycles tasks {} [0..<length tasks]"

definition ResearchPlan_valid :: "ResearchPlan \<Rightarrow> bool" where
  "ResearchPlan_valid plan \<longleftrightarrow>
     1 \<le> length (rp_tasks plan) \<and> length (rp_tasks plan) \<le> 50 \<and> list_all PlannedTask_valid (rp_tasks plan) \<and>
     nonempty_text (rp_rationale plan) \<and> plan_dependencies_resolve (rp_tasks plan)"

definition ResearchPlan_collects_evidence :: "ResearchPlan \<Rightarrow> bool" where
  "ResearchPlan_collects_evidence plan \<longleftrightarrow>
     list_ex (\<lambda>t. pt_assigned_agent t = AR_RESEARCHER) (rp_tasks plan)"


section \<open>Evidence, analysis and review\<close>

record EvidenceSubmission =
  es_records :: "EvidenceRecordCreate list"
  es_unmet_requirements :: "string list"

definition EvidenceSubmission_valid :: "datetime \<Rightarrow> EvidenceSubmission \<Rightarrow> bool" where
  "EvidenceSubmission_valid now s \<longleftrightarrow>
     1 \<le> length (es_records s) \<and> length (es_records s) \<le> 100 \<and>
     list_all (EvidenceRecordCreate_valid now) (es_records s) \<and>
     length (es_unmet_requirements s) \<le> 20 \<and> list_all nonempty_text (es_unmet_requirements s) \<and>
     distinct (map ev_content_hash (es_records s))"

definition EvidenceSubmission_is_complete :: "EvidenceSubmission \<Rightarrow> bool" where
  "EvidenceSubmission_is_complete s \<longleftrightarrow> es_unmet_requirements s = []"

record Calculation =
  cc_id :: uuid
  cc_description :: string
  cc_expression :: string
  cc_result :: string
  cc_input_evidence_ids :: "uuid list"

definition Calculation_valid :: "Calculation \<Rightarrow> bool" where
  "Calculation_valid c \<longleftrightarrow> nonempty_text (cc_description c) \<and> nonempty_text (cc_expression c) \<and>
     nonempty_text (cc_result c) \<and> 1 \<le> length (cc_input_evidence_ids c) \<and> length (cc_input_evidence_ids c) \<le> 50"

record ProposedFinding =
  pf_claim :: string
  pf_supporting_evidence_ids :: "uuid list"
  pf_contradicting_evidence_ids :: "uuid list"
  pf_calculation_ids :: "uuid list"
  pf_confidence :: pyfloat

definition ProposedFinding_valid :: "ProposedFinding \<Rightarrow> bool" where
  "ProposedFinding_valid f \<longleftrightarrow>
     nonempty_text (pf_claim f) \<and>
     1 \<le> length (pf_supporting_evidence_ids f) \<and> length (pf_supporting_evidence_ids f) \<le> 50 \<and>
     length (pf_contradicting_evidence_ids f) \<le> 50 \<and> length (pf_calculation_ids f) \<le> 20 \<and>
     0 \<le> pf_confidence f \<and> pf_confidence f \<le> 1 \<and>
     set (pf_supporting_evidence_ids f) \<inter> set (pf_contradicting_evidence_ids f) = {}"

record AnalysisResult =
  an_findings :: "ProposedFinding list"
  an_calculations :: "Calculation list"

definition AnalysisResult_valid :: "AnalysisResult \<Rightarrow> bool" where
  "AnalysisResult_valid a \<longleftrightarrow>
     1 \<le> length (an_findings a) \<and> length (an_findings a) \<le> 100 \<and> list_all ProposedFinding_valid (an_findings a) \<and>
     length (an_calculations a) \<le> 50 \<and> list_all Calculation_valid (an_calculations a) \<and>
     list_all (\<lambda>f. set (pf_calculation_ids f) - set (map cc_id (an_calculations a)) = {}) (an_findings a)"

record ClaimVerdict =
  cv_claim :: string
  cv_verdict :: CriticVerdict
  cv_reasoning :: string
  cv_conflicting_evidence_ids :: "uuid list"

definition ClaimVerdict_valid :: "ClaimVerdict \<Rightarrow> bool" where
  "ClaimVerdict_valid v \<longleftrightarrow>
     nonempty_text (cv_claim v) \<and> nonempty_text (cv_reasoning v) \<and> length (cv_conflicting_evidence_ids v) \<le> 50 \<and>
     \<not> (cv_verdict v = CV_CONTRADICTED \<and> cv_conflicting_evidence_ids v = []) \<and> cv_verdict v \<noteq> CV_PENDING"

record CriticReview =
  cr_verdicts :: "ClaimVerdict list"
  cr_coverage_gaps :: "string list"

definition CriticReview_valid :: "CriticReview \<Rightarrow> bool" where
  "CriticReview_valid r \<longleftrightarrow>
     1 \<le> length (cr_verdicts r) \<and> length (cr_verdicts r) \<le> 100 \<and> list_all ClaimVerdict_valid (cr_verdicts r) \<and>
     length (cr_coverage_gaps r) \<le> 20 \<and> list_all nonempty_text (cr_coverage_gaps r)"

definition CriticReview_supported_claims :: "CriticReview \<Rightarrow> string list" where
  "CriticReview_supported_claims r =
     map cv_claim (filter (\<lambda>v. cv_verdict v = CV_SUPPORTED) (cr_verdicts r))"

definition CriticReview_requires_reviewer :: "CriticReview \<Rightarrow> bool" where
  "CriticReview_requires_reviewer r \<longleftrightarrow>
     cr_coverage_gaps r \<noteq> [] \<or> list_ex (\<lambda>v. cv_verdict v = CV_CONTRADICTED) (cr_verdicts r)"


section \<open>Reports\<close>

record ReportSection =
  se_heading :: string
  se_body :: string

text \<open>\<open>UUID(...)\<close> of each cited identifier; a text that is no identifier raises.\<close>

definition ReportSection_cited_evidence_ids :: "ReportSection \<Rightarrow> (string + uuid list)" where
  "ReportSection_cited_evidence_ids s =
     (let found = map uuid_parse (rx_findall_group CITATION (se_body s))
      in if list_ex (\<lambda>u. u = None) found then Inl ''badly formed hexadecimal UUID string''
         else Inr (map the found))"

text \<open>The loop of \<open>sentences\<close>: a fragment of nothing but citations joins the sentence before it.\<close>

fun join_citations :: "string list \<Rightarrow> string list \<Rightarrow> string list" where
  "join_citations fragments [] = fragments"
| "join_citations fragments (fragment # rest) =
     (let candidate = py_strip fragment in
      if candidate = [] then join_citations fragments rest
      else if fragments \<noteq> [] \<and> py_strip (rx_sub CITATION [] candidate) = []
      then join_citations (butlast fragments @ [last fragments @ '' '' @ candidate]) rest
      else join_citations (fragments @ [candidate]) rest)"

definition ReportSection_sentences :: "ReportSection \<Rightarrow> string list" where
  "ReportSection_sentences s = join_citations [] (rx_split SENTENCE_BOUNDARY (py_strip (se_body s)))"

definition ReportSection_uncited_sentences :: "ReportSection \<Rightarrow> string list" where
  "ReportSection_uncited_sentences s =
     filter (\<lambda>t. \<not> rx_found CITATION t \<and> \<not> list_ex (\<lambda>h. py_startswith (py_lower t) h) HEDGES)
       (ReportSection_sentences s)"

record ResearchReport =
  re_title :: string
  re_sections :: "ReportSection list"
  re_is_partial :: bool
  re_omitted_because :: "string list"

definition ResearchReport_valid :: "ResearchReport \<Rightarrow> bool" where
  "ResearchReport_valid r \<longleftrightarrow>
     nonempty_text (re_title r) \<and> 1 \<le> length (re_sections r) \<and> length (re_sections r) \<le> 50 \<and>
     list_all (\<lambda>s. nonempty_text (se_heading s) \<and> nonempty_text (se_body s)) (re_sections r) \<and>
     length (re_omitted_because r) \<le> 20 \<and> list_all nonempty_text (re_omitted_because r) \<and>
     list_all (\<lambda>s. ReportSection_uncited_sentences s = []) (re_sections r) \<and>
     \<not> (re_is_partial r \<and> re_omitted_because r = []) \<and>
     \<not> (\<not> re_is_partial r \<and> re_omitted_because r \<noteq> [])"

fun cited_of_sections :: "ReportSection list \<Rightarrow> string + uuid list" where
  "cited_of_sections [] = Inr []"
| "cited_of_sections (s # ss) =
     bind_result (ReportSection_cited_evidence_ids s)
       (\<lambda>ids. bind_result (cited_of_sections ss) (\<lambda>rest. Inr (ids @ rest)))"

definition ResearchReport_cited_evidence_ids :: "ResearchReport \<Rightarrow> string + uuid set" where
  "ResearchReport_cited_evidence_ids r =
     bind_result (cited_of_sections (re_sections r)) (\<lambda>ids. Inr (set ids))"

definition unsupported_citations :: "ResearchReport \<Rightarrow> uuid set \<Rightarrow> string + uuid set" where
  "unsupported_citations r available =
     bind_result (ResearchReport_cited_evidence_ids r) (\<lambda>ids. Inr (ids - available))"

definition trust_order :: "TrustLevel list" where
  "trust_order = [TL_UNVERIFIED, TL_SECONDARY, TL_PRIMARY]"

text \<open>\<open>order.index\<close> raises for a trust level that is not in the order.\<close>

definition publishable_trust_levels :: "TrustLevel \<Rightarrow> string + TrustLevel set" where
  "publishable_trust_levels minimum =
     (if minimum \<notin> set trust_order then Inl ''tuple.index(x): x not in tuple''
      else Inr (set (dropWhile (\<lambda>l. l \<noteq> minimum) trust_order)))"


section \<open>Plans have no cycle\<close>

definition plan_deps :: "PlannedTask list \<Rightarrow> nat \<Rightarrow> nat set" where
  "plan_deps tasks p = set (pt_depends_on (tasks ! p))"

interpretation plan_graph: dependency_graph "{..<length tasks}" "plan_deps tasks" for tasks
  by unfold_locales simp

lemma reject_cycles_order:
  "ResearchPlan_reject_cycles tasks placed remaining \<Longrightarrow> placed = set ns \<Longrightarrow> distinct (ns @ remaining) \<Longrightarrow>
   deps_first (plan_deps tasks) ns \<Longrightarrow>
   \<exists>ns'. set ns' = set ns \<union> set remaining \<and> distinct ns' \<and> deps_first (plan_deps tasks) ns'"
proof (induction tasks placed remaining arbitrary: ns rule: ResearchPlan_reject_cycles.induct)
  case (1 tasks placed remaining)
  let ?ready = "filter (\<lambda>p. set (pt_depends_on (tasks ! p)) \<subseteq> placed) remaining"
  show ?case
  proof (cases "remaining = []")
    case False
    with "1.prems"(1) have ne: "?ready \<noteq> []"
      and rec: "ResearchPlan_reject_cycles tasks (placed \<union> set ?ready) (filter (\<lambda>p. p \<notin> set ?ready) remaining)"
      by (simp_all add: ResearchPlan_reject_cycles.simps [of tasks placed remaining] Let_def split: if_splits)
    have first: "deps_first (plan_deps tasks) (ns @ ?ready)"
      using "1.prems"(2) by (intro deps_first_append [OF "1.prems"(4)]) (auto simp: plan_deps_def)
    have "distinct ((ns @ ?ready) @ filter (\<lambda>p. p \<notin> set ?ready) remaining)"
      using "1.prems"(3) by auto
    from "1.IH" [OF False refl ne rec _ this first] "1.prems"(2)
    obtain ns' where "set ns' = set (ns @ ?ready) \<union> set (filter (\<lambda>p. p \<notin> set ?ready) remaining)"
      "distinct ns'" "deps_first (plan_deps tasks) ns'" by auto
    then show ?thesis by (intro exI [of _ ns']) auto
  qed (use "1.prems" in auto)
qed

lemma reject_cycles_stuck:
  "\<not> ResearchPlan_reject_cycles tasks placed remaining \<Longrightarrow> placed \<union> set remaining = nodes \<Longrightarrow>
   (\<And>p. p \<in> nodes \<Longrightarrow> plan_deps tasks p \<subseteq> nodes) \<Longrightarrow>
   \<exists>R \<subseteq> nodes. R \<noteq> {} \<and> (\<forall>p \<in> R. plan_deps tasks p \<inter> R \<noteq> {})"
proof (induction tasks placed remaining rule: ResearchPlan_reject_cycles.induct)
  case (1 tasks placed remaining)
  let ?ready = "filter (\<lambda>p. set (pt_depends_on (tasks ! p)) \<subseteq> placed) remaining"
  have ne: "remaining \<noteq> []" using "1.prems"(1) by (auto simp: ResearchPlan_reject_cycles.simps)
  show ?case
  proof (cases "?ready = []")
    case True
    then have "\<forall>p \<in> set remaining. \<not> plan_deps tasks p \<subseteq> placed" by (auto simp: filter_empty_conv plan_deps_def)
    moreover have "plan_deps tasks p \<subseteq> placed \<union> set remaining" if "p \<in> set remaining" for p
      using "1.prems"(2,3) that by blast
    ultimately have "\<forall>p \<in> set remaining. plan_deps tasks p \<inter> set remaining \<noteq> {}" by blast
    with ne "1.prems"(2) show ?thesis by (intro exI [of _ "set remaining"]) auto
  next
    case False
    have rec: "\<not> ResearchPlan_reject_cycles tasks (placed \<union> set ?ready) (filter (\<lambda>p. p \<notin> set ?ready) remaining)"
      using "1.prems"(1) ne False
      by (simp add: ResearchPlan_reject_cycles.simps [of tasks placed remaining] Let_def)
    show ?thesis using "1.IH" [OF ne refl False rec _ "1.prems"(3)] "1.prems"(2) by auto
  qed
qed

text \<open>
  The plan schema accepts the dependencies of a plan exactly when every dependency names
  another task of the plan and the dependency relation has no cycle; the round-by-round check
  always ends.
\<close>

theorem plan_dependencies_resolve_iff_acyclic:
  "plan_dependencies_resolve tasks \<longleftrightarrow>
     \<Union> (plan_deps tasks ` {..<length tasks}) \<subseteq> {..<length tasks} \<and>
     acyclic (dep_edges {..<length tasks} (plan_deps tasks))"
proof -
  have self: "p \<notin> plan_deps tasks p"
    if "p < length tasks" "acyclic (dep_edges {..<length tasks} (plan_deps tasks))" for p
    using that by (auto simp: acyclic_def dep_edges_def)
  have "acyclic (dep_edges {..<length tasks} (plan_deps tasks))"
    if "ResearchPlan_reject_cycles tasks {} [0..<length tasks]"
  proof -
    from reject_cycles_order [OF that, of "[]"] obtain ns where
      "set ns = {..<length tasks}" "distinct ns" "deps_first (plan_deps tasks) ns"
      by (auto simp: atLeast0LessThan)
    then show ?thesis by (intro plan_graph.deps_first_acyclic)
  qed
  moreover have "ResearchPlan_reject_cycles tasks {} [0..<length tasks]"
    if "\<forall>p < length tasks. plan_deps tasks p \<subseteq> {..<length tasks}"
      and acyc: "acyclic (dep_edges {..<length tasks} (plan_deps tasks))"
  proof (rule ccontr)
    assume "\<not> ?thesis"
    from reject_cycles_stuck [OF this, of "{..<length tasks}"] that(1) obtain R where
      "R \<subseteq> {..<length tasks}" "R \<noteq> {}" "\<forall>p \<in> R. plan_deps tasks p \<inter> R \<noteq> {}"
      by (auto simp: atLeast0LessThan)
    with plan_graph.stuck_cycle acyc show False by blast
  qed
  ultimately show ?thesis
    using self unfolding UN_subset_iff
    by (auto simp: plan_dependencies_resolve_def plan_deps_def subset_iff not_le)
qed

text \<open>What a report may cite once it passed: every citation is to recorded evidence.\<close>

lemma no_unsupported_citations:
  "unsupported_citations r available = Inr {} \<Longrightarrow>
   \<exists>ids. ResearchReport_cited_evidence_ids r = Inr ids \<and> ids \<subseteq> available"
  by (auto simp: unsupported_citations_def bind_result_Inr_iff)

end
