(* ===== verification/Invocations.thy ===== *)
theory Invocations
  imports Models "HOL-Library.Multiset"
begin

text \<open>
  Audit records of tool calls (\<open>domain/invocations.py\<close>): redaction of credential-shaped
  arguments, the argument digest an approval is bound to, and the validator of a
  \<open>ToolInvocation\<close>.
\<close>

type_synonym arguments = "(string, pyval) dict"

definition REDACTED :: string where
  "REDACTED = ''[redacted]''"

definition SENSITIVE_ARGUMENT_NAMES :: "string list" where
  "SENSITIVE_ARGUMENT_NAMES =
     [''api_key'', ''authorization'', ''credential'', ''password'', ''secret'', ''token'']"

datatype AuthorizationDecision = AD_ALLOW | AD_DENY

datatype InvocationOutcome = IO_PENDING | IO_SUCCEEDED | IO_FAILED | IO_DENIED

datatype ErrorClass =
    EC_NONE | EC_POLICY_DENIED | EC_INVALID_ARGUMENTS | EC_UPSTREAM_UNAVAILABLE | EC_TIMEOUT
  | EC_RESULT_TOO_LARGE | EC_BUDGET_EXHAUSTED | EC_UNEXPECTED

definition RETRYABLE_ERRORS :: "ErrorClass set" where
  "RETRYABLE_ERRORS = {EC_UPSTREAM_UNAVAILABLE, EC_TIMEOUT}"

definition is_sensitive_argument :: "string \<Rightarrow> bool" where
  "is_sensitive_argument name =
     (let lowered = py_lower name
      in list_ex (\<lambda>marker. py_contains lowered marker) SENSITIVE_ARGUMENT_NAMES)"

definition sanitize_arguments :: "arguments \<Rightarrow> arguments" where
  "sanitize_arguments args =
     map (\<lambda>(name, value). (name, if is_sensitive_argument name then VStr REDACTED else value)) args"

definition argument_digest :: "arguments \<Rightarrow> string" where
  "argument_digest args =
     ''sha256:'' @ sha256_hexdigest (utf8_encode (codes (json_dumps (VDict args))))"

record ToolInvocation =
  ti_id :: uuid
  ti_job_id :: uuid
  ti_task_id :: uuid
  ti_tenant_id :: string
  ti_mcp_server :: string
  ti_capability :: string
  ti_sanitized_arguments :: arguments
  ti_argument_digest :: string
  ti_policy_version :: string
  ti_authorization_decision :: AuthorizationDecision
  ti_outcome :: InvocationOutcome
  ti_error_class :: ErrorClass
  ti_started_at :: datetime
  ti_duration_ms :: "int option"

text \<open>The validator \<open>denied_calls_cannot_report_success\<close>, condition by condition.\<close>

definition ToolInvocation_consistent :: "ToolInvocation \<Rightarrow> bool" where
  "ToolInvocation_consistent i \<longleftrightarrow>
     \<not> (ti_authorization_decision i = AD_DENY \<and> ti_outcome i \<noteq> IO_DENIED) \<and>
     \<not> (ti_authorization_decision i = AD_DENY \<and> ti_error_class i \<noteq> EC_POLICY_DENIED) \<and>
     \<not> (ti_outcome i = IO_DENIED \<and> ti_error_class i = EC_NONE) \<and>
     \<not> (ti_outcome i = IO_SUCCEEDED \<and> ti_error_class i \<noteq> EC_NONE) \<and>
     \<not> (ti_outcome i = IO_FAILED \<and> ti_error_class i = EC_NONE) \<and>
     ti_sanitized_arguments i = sanitize_arguments (ti_sanitized_arguments i)"

text \<open>The field constraints of the record.\<close>

definition ToolInvocation_valid :: "ToolInvocation \<Rightarrow> bool" where
  "ToolInvocation_valid i \<longleftrightarrow>
     bounded_text 1 100 (ti_tenant_id i) \<and> nonempty_text (ti_mcp_server i) \<and>
     nonempty_text (ti_capability i) \<and> sha256_pattern (ti_argument_digest i) \<and>
     nonempty_text (ti_policy_version i) \<and>
     (case ti_duration_ms i of None \<Rightarrow> True | Some d \<Rightarrow> 0 \<le> d \<and> d \<le> 86400000) \<and>
     ToolInvocation_consistent i"

definition ToolInvocation_is_retryable :: "ToolInvocation \<Rightarrow> bool" where
  "ToolInvocation_is_retryable i \<longleftrightarrow> ti_error_class i \<in> RETRYABLE_ERRORS"

text \<open>The record of a call policy refused; its identifier and start time are generated.\<close>

definition record_denied_invocation ::
  "uuid \<Rightarrow> datetime \<Rightarrow> uuid \<Rightarrow> uuid \<Rightarrow> string \<Rightarrow> string \<Rightarrow> string \<Rightarrow> arguments \<Rightarrow> string \<Rightarrow>
   ToolInvocation" where
  "record_denied_invocation new_id now job_id task_id tenant_id mcp_server capability args policy_version =
     (let sanitized = sanitize_arguments args in
      \<lparr>ti_id = new_id, ti_job_id = job_id, ti_task_id = task_id, ti_tenant_id = tenant_id,
       ti_mcp_server = mcp_server, ti_capability = capability, ti_sanitized_arguments = sanitized,
       ti_argument_digest = argument_digest args, ti_policy_version = policy_version,
       ti_authorization_decision = AD_DENY, ti_outcome = IO_DENIED,
       ti_error_class = EC_POLICY_DENIED, ti_started_at = now, ti_duration_ms = Some 0\<rparr>)"


section \<open>Redaction\<close>

lemma sanitize_arguments_idem [simp]: "sanitize_arguments (sanitize_arguments args) = sanitize_arguments args"
  by (auto simp: sanitize_arguments_def)

lemma map_fst_sanitize [simp]: "map fst (sanitize_arguments args) = map fst args"
  by (auto simp: sanitize_arguments_def)

lemma dict_get_sanitize:
  "dict_get (sanitize_arguments args) name =
     (if is_sensitive_argument name then map_option (\<lambda>_. VStr REDACTED) (dict_get args name)
      else dict_get args name)"
  by (induction args) (auto simp: sanitize_arguments_def)

lemma sanitize_hides:
  assumes "map fst args = map fst args'"
    and "\<And>name. \<not> is_sensitive_argument name \<Longrightarrow> filter (\<lambda>p. fst p = name) args = filter (\<lambda>p. fst p = name) args'"
  shows "sanitize_arguments args = sanitize_arguments args'"
  using assms
proof (induction args args' rule: list_induct2')
  case (4 x xs y ys)
  obtain n v where x: "x = (n, v)" by (cases x)
  obtain w where y: "y = (n, w)" using "4.prems"(1) x by (cases y) auto
  have "sanitize_arguments xs = sanitize_arguments ys"
  proof (rule "4.IH")
    show "map fst xs = map fst ys" using "4.prems"(1) by simp
    fix name assume "\<not> is_sensitive_argument name"
    from "4.prems"(2) [OF this] x y show "filter (\<lambda>p. fst p = name) xs = filter (\<lambda>p. fst p = name) ys"
      by (auto split: if_splits)
  qed
  moreover have "is_sensitive_argument n \<or> v = w" using "4.prems"(2) [of n] x y by auto
  ultimately show ?case using x y by (auto simp: sanitize_arguments_def)
qed auto


section \<open>Digests\<close>

lemma argument_digest_pattern [simp, intro]: "sha256_pattern (argument_digest args)"
  using set_sha256_hexdigest
  by (auto simp: sha256_pattern_def argument_digest_def list_all_iff is_lower_hex_def)

lemma json_entries_sorted:
  assumes "distinct (map fst args)" and "mset args = mset args'"
  shows "sort_key fst (map (\<lambda>(k, v). (k, f k v)) args) = sort_key fst (map (\<lambda>(k, v). (k, f k v)) args')"
    (is "sort_key fst (map ?g args) = sort_key fst (map ?g args')")
proof (rule sort_key_fst_cong)
  have fst_g: "map fst (map ?g xs) = map fst xs" for xs by auto
  have "distinct (map fst args')" using assms by (metis mset_eq_imp_distinct_iff mset_map)
  then show "distinct (map fst (map ?g args'))" unfolding fst_g .
  show "distinct (map fst (map ?g args))" unfolding fst_g by (rule assms(1))
  show "set (map ?g args) = set (map ?g args')" using mset_eq_setD [OF assms(2)] by simp
qed

lemma argument_digest_order:
  "distinct (map fst args) \<Longrightarrow> mset args = mset args' \<Longrightarrow> argument_digest args = argument_digest args'"
  using json_entries_sorted [of args args' "\<lambda>k v. json_string k @ '':'' @ json_dumps v"]
  by (simp add: argument_digest_def)

lemma record_denied_consistent:
  "ToolInvocation_consistent (record_denied_invocation i now j t ten srv cap args ver)"
  by (simp add: record_denied_invocation_def ToolInvocation_consistent_def Let_def)

end
