(* ===== verification/Publication.thy ===== *)
theory Publication
  imports Contracts Invocations
begin

text \<open>
  What a finished job publishes (\<open>application/publication.py\<close>): the findings derived from the
  analyst's proposals and the critic's verdicts, the provenance manifest and the rendered
  report. The JSON serialisation of a report is the schema library's and is a parameter.
\<close>

section \<open>Findings\<close>

text \<open>\<open>dict.fromkeys\<close>: the first occurrence of each identifier, in order.\<close>

fun fromkeys :: "'a list \<Rightarrow> 'a list" where
  "fromkeys [] = []"
| "fromkeys (x # xs) = x # filter (\<lambda>y. y \<noteq> x) (fromkeys xs)"

lemma set_fromkeys [simp]: "set (fromkeys xs) = set xs"
  by (induction xs) auto

lemma distinct_fromkeys [simp]: "distinct (fromkeys xs)"
  by (induction xs) auto

definition finding_of :: "(string, ClaimVerdict) dict \<Rightarrow> ReviewerStatus \<Rightarrow> ProposedFinding \<Rightarrow> Finding" where
  "finding_of verdicts reviewer_status proposed =
     (let verdict = dict_get verdicts (pf_claim proposed);
          supporting = pf_supporting_evidence_ids proposed;
          conflicting = pf_contradicting_evidence_ids proposed @
            (case verdict of Some v \<Rightarrow> cv_conflicting_evidence_ids v | None \<Rightarrow> []);
          contradicting = filter (\<lambda>i. i \<notin> set supporting) (fromkeys conflicting);
          judged = (case verdict of Some v \<Rightarrow> cv_verdict v | None \<Rightarrow> CV_PENDING);
          critic_verdict = (if judged = CV_SUPPORTED \<and> contradicting \<noteq> [] then CV_CONTRADICTED else judged)
      in \<lparr>fi_claim = pf_claim proposed, fi_supporting_evidence_ids = supporting,
          fi_contradicting_evidence_ids = contradicting, fi_calculation_ids = pf_calculation_ids proposed,
          fi_confidence = pf_confidence proposed, fi_critic_verdict = critic_verdict,
          fi_reviewer_status = reviewer_status\<rparr>)"

text \<open>Each \<open>Finding\<close> is validated as it is built, so a refused one raises.\<close>

definition derive_findings ::
  "AnalysisResult \<Rightarrow> CriticReview \<Rightarrow> ReviewerStatus \<Rightarrow> (string + Finding list)" where
  "derive_findings analysis critique reviewer_status =
     (let verdicts = dict_of (map (\<lambda>v. (cv_claim v, v)) (cr_verdicts critique));
          findings = map (finding_of verdicts reviewer_status) (an_findings analysis)
      in if list_all Finding_valid findings then Inr findings else Inl ''validation error for Finding'')"


section \<open>Publications and the manifest\<close>

datatype DriftStatus = DS_UNCHANGED | DS_DRIFTED | DS_UNAVAILABLE | DS_NOT_CHECKED

fun DRIFT_NOTES :: "DriftStatus \<Rightarrow> string" where
  "DRIFT_NOTES DS_UNCHANGED = ''source unchanged at publication''"
| "DRIFT_NOTES DS_DRIFTED = ''**source content has changed since capture**''"
| "DRIFT_NOTES DS_UNAVAILABLE = ''source could not be re-read at publication''"
| "DRIFT_NOTES DS_NOT_CHECKED = ''source not re-checked''"

record SourceCheck =
  sc_evidence_id :: uuid
  sc_status :: DriftStatus
  sc_checked_at :: datetime
  sc_detail :: "string option"

record ManifestEvidence =
  me_id :: uuid
  me_source_uri :: string
  me_title :: "string option"
  me_author :: "string option"
  me_published_at :: "datetime option"
  me_retrieved_at :: datetime
  me_content_hash :: string
  me_trust_level :: TrustLevel
  me_access_class :: AccessClass
  me_producing_task_id :: uuid
  me_tool_invocation_id :: uuid
  me_cited :: bool
  me_drift :: DriftStatus
  me_drift_checked_at :: "datetime option"
  me_drift_detail :: "string option"

record ManifestInvocation =
  mi_id :: uuid
  mi_mcp_server :: string
  mi_capability :: string
  mi_argument_digest :: string
  mi_policy_version :: string
  mi_authorization_decision :: AuthorizationDecision
  mi_outcome :: InvocationOutcome
  mi_started_at :: datetime

record ManifestFinding =
  mf_claim :: string
  mf_supporting_evidence_ids :: "uuid list"
  mf_contradicting_evidence_ids :: "uuid list"
  mf_calculation_ids :: "uuid list"
  mf_confidence :: pyfloat
  mf_critic_verdict :: CriticVerdict
  mf_reviewer_status :: ReviewerStatus

record ProvenanceManifest =
  pm_schema_version :: string
  pm_job_id :: uuid
  pm_tenant_id :: string
  pm_requester_id :: string
  pm_question :: string
  pm_generated_at :: datetime
  pm_report_sha256 :: string
  pm_is_partial :: bool
  pm_shortfalls :: "string list"
  pm_findings :: "ManifestFinding list"
  pm_evidence :: "ManifestEvidence list"
  pm_tool_invocations :: "ManifestInvocation list"

definition MANIFEST_SCHEMA_VERSION :: string where
  "MANIFEST_SCHEMA_VERSION = ''1''"

definition ProvenanceManifest_drifted_evidence_ids :: "ProvenanceManifest \<Rightarrow> uuid list" where
  "ProvenanceManifest_drifted_evidence_ids m = map me_id (filter (\<lambda>e. me_drift e = DS_DRIFTED) (pm_evidence m))"

record ReportPublication =
  pu_job_id :: uuid
  pu_tenant_id :: string
  pu_published_at :: datetime
  pu_report_key :: string
  pu_markdown_key :: string
  pu_manifest_key :: string
  pu_evidence_key :: string
  pu_report_sha256 :: string
  pu_is_partial :: bool
  pu_drifted_evidence_ids :: "uuid list"
  pu_report_access_class :: AccessClass
  pu_manifest_access_class :: AccessClass

definition ReportPublication_valid :: "ReportPublication \<Rightarrow> bool" where
  "ReportPublication_valid p \<longleftrightarrow> bounded_text 1 100 (pu_tenant_id p) \<and> sha256_pattern (pu_report_sha256 p)"

definition sha256_of :: "byte list \<Rightarrow> string" where
  "sha256_of data = ''sha256:'' @ sha256_hexdigest data"

definition listed_evidence ::
  "uuid set \<Rightarrow> (uuid, SourceCheck) dict \<Rightarrow> EvidenceRecord \<Rightarrow> ManifestEvidence" where
  "listed_evidence cited checked r =
     (let check = dict_get checked (ev_id r) in
      \<lparr>me_id = ev_id r, me_source_uri = ev_source_uri r, me_title = ev_title r, me_author = ev_author r,
       me_published_at = ev_published_at r, me_retrieved_at = ev_retrieved_at r,
       me_content_hash = ev_content_hash r, me_trust_level = ev_trust_level r,
       me_access_class = ev_access_class r, me_producing_task_id = ev_producing_task_id r,
       me_tool_invocation_id = ev_tool_invocation_id r, me_cited = (ev_id r \<in> cited),
       me_drift = (case check of Some c \<Rightarrow> sc_status c | None \<Rightarrow> DS_NOT_CHECKED),
       me_drift_checked_at = map_option sc_checked_at check,
       me_drift_detail = (case check of Some c \<Rightarrow> sc_detail c | None \<Rightarrow> None)\<rparr>)"

definition manifest_finding :: "FindingRecord \<Rightarrow> ManifestFinding" where
  "manifest_finding f =
     \<lparr>mf_claim = fi_claim f, mf_supporting_evidence_ids = fi_supporting_evidence_ids f,
      mf_contradicting_evidence_ids = fi_contradicting_evidence_ids f,
      mf_calculation_ids = fi_calculation_ids f, mf_confidence = fi_confidence f,
      mf_critic_verdict = fi_critic_verdict f, mf_reviewer_status = fi_reviewer_status f\<rparr>"

definition manifest_invocation :: "ToolInvocation \<Rightarrow> ManifestInvocation" where
  "manifest_invocation i =
     \<lparr>mi_id = ti_id i, mi_mcp_server = ti_mcp_server i, mi_capability = ti_capability i,
      mi_argument_digest = ti_argument_digest i, mi_policy_version = ti_policy_version i,
      mi_authorization_decision = ti_authorization_decision i, mi_outcome = ti_outcome i,
      mi_started_at = ti_started_at i\<rparr>"

text \<open>\<open>report_json\<close> is the parameter \<open>dump\<close>; \<open>now\<close> is the moment the manifest is generated.\<close>

definition build_manifest ::
  "(ResearchReport \<Rightarrow> byte list) \<Rightarrow> datetime \<Rightarrow> ResearchJob \<Rightarrow> ResearchReport \<Rightarrow> string list \<Rightarrow> FindingRecord list \<Rightarrow>
   EvidenceRecord list \<Rightarrow> ToolInvocation list \<Rightarrow> SourceCheck list \<Rightarrow> (string + ProvenanceManifest)" where
  "build_manifest dump now job report shortfalls findings evidence invocations checks =
     bind_result (ResearchReport_cited_evidence_ids report) (\<lambda>cited.
       let checked = dict_of (map (\<lambda>c. (sc_evidence_id c, c)) checks) in
       Inr \<lparr>pm_schema_version = MANIFEST_SCHEMA_VERSION, pm_job_id = rj_id job, pm_tenant_id = rj_tenant_id job,
            pm_requester_id = rj_requester_id job, pm_question = rj_question job, pm_generated_at = now,
            pm_report_sha256 = sha256_of (dump report),
            pm_is_partial = (re_is_partial report \<or> shortfalls \<noteq> []), pm_shortfalls = shortfalls,
            pm_findings = map manifest_finding findings,
            pm_evidence = map (listed_evidence cited checked) evidence,
            pm_tool_invocations = map manifest_invocation invocations\<rparr>)"


section \<open>The rendered report\<close>

text \<open>The calendar date of a moment, as \<open>date().isoformat()\<close> gives it.\<close>

definition pad_zero :: "nat \<Rightarrow> nat \<Rightarrow> string" where
  "pad_zero w n = (let s = py_str_nat n in replicate (w - length s) (CHR ''0'') @ s)"

definition iso_date :: "datetime \<Rightarrow> string" where
  "iso_date t =
     (let z = t div 86400000000 + 719468;
          era = z div 146097; doe = z mod 146097;
          yoe = (doe - doe div 1460 + doe div 36524 - doe div 146096) div 365;
          doy = doe - (365 * yoe + yoe div 4 - yoe div 100);
          mp = (5 * doy + 2) div 153;
          d = doy - (153 * mp + 2) div 5 + 1;
          m = (if mp < 10 then mp + 3 else mp - 9);
          y = yoe + era * 400 + (if m \<le> 2 then 1 else 0)
      in pad_zero 4 (nat y) @ ''-'' @ pad_zero 2 (nat m) @ ''-'' @ pad_zero 2 (nat d))"

text \<open>
  \<open>footnote\<close>: an identifier keeps the number of its first citation. The pieces of the body are
  replaced from left to right with the numbering threaded through.
\<close>

definition footnote_number :: "(uuid \<times> nat) list \<Rightarrow> uuid \<Rightarrow> nat \<times> (uuid \<times> nat) list" where
  "footnote_number numbers i =
     (case dict_get numbers i of
        Some n \<Rightarrow> (n, numbers)
      | None \<Rightarrow> (length numbers + 1, numbers @ [(i, length numbers + 1)]))"

fun footnotes ::
  "(uuid \<times> nat) list \<Rightarrow> (char + string \<times> string list) list \<Rightarrow> string + string \<times> (uuid \<times> nat) list" where
  "footnotes numbers [] = Inr ([], numbers)"
| "footnotes numbers (Inl c # ps) = bind_result (footnotes numbers ps) (\<lambda>(t, ns). Inr (c # t, ns))"
| "footnotes numbers (Inr (whole, groups) # ps) =
     (case uuid_parse (case groups of [] \<Rightarrow> [] | g # _ \<Rightarrow> g) of
        None \<Rightarrow> Inl ''badly formed hexadecimal UUID string''
      | Some i \<Rightarrow>
          (case footnote_number numbers i of
             (n, numbers') \<Rightarrow>
               bind_result (footnotes numbers' ps) (\<lambda>(t, ns). Inr (''['' @ py_str_nat n @ '']'' @ t, ns))))"

fun render_sections ::
  "(uuid \<times> nat) list \<Rightarrow> ReportSection list \<Rightarrow> string + string list \<times> (uuid \<times> nat) list" where
  "render_sections numbers [] = Inr ([], numbers)"
| "render_sections numbers (s # ss) =
     bind_result (footnotes numbers (rx_pieces CITATION (se_body s))) (\<lambda>(body, numbers').
       bind_result (render_sections numbers' ss) (\<lambda>(lines, numbers'').
         Inr ([''## '' @ se_heading s, [], body, []] @ lines, numbers'')))"

definition source_line ::
  "(uuid, EvidenceRecord) dict \<Rightarrow> (uuid, SourceCheck) dict \<Rightarrow> uuid \<times> nat \<Rightarrow> string" where
  "source_line by_id checked entry =
     (case entry of (i, n) \<Rightarrow>
        (case dict_get by_id i of
           None \<Rightarrow> py_str_nat n @ ''. Unrecorded evidence `'' @ uuid_str i @ ''`''
         | Some r \<Rightarrow>
             (let note = DRIFT_NOTES (case dict_get checked i of Some c \<Rightarrow> sc_status c | None \<Rightarrow> DS_NOT_CHECKED);
                  label = (case ev_title r of Some t \<Rightarrow> if t \<noteq> [] then t @ '' - '' else [] | None \<Rightarrow> [])
              in py_str_nat n @ ''. '' @ label @ ev_source_uri r @ '' (retrieved '' @ iso_date (ev_retrieved_at r) @
                 '', '' @ TrustLevel_value (ev_trust_level r) @ '', `'' @ ev_content_hash r @ ''`; '' @ note @
                 '') `'' @ uuid_str i @ ''`'')))"

definition newline :: string where
  "newline = [CHR 0x0A]"

definition render_markdown ::
  "ResearchJob \<Rightarrow> ResearchReport \<Rightarrow> string list \<Rightarrow> EvidenceRecord list \<Rightarrow> SourceCheck list \<Rightarrow> string + string" where
  "render_markdown job report shortfalls evidence checks =
     (let by_id = dict_of (map (\<lambda>r. (ev_id r, r)) evidence);
          checked = dict_of (map (\<lambda>c. (sc_evidence_id c, c)) checks);
          head = [''# '' @ re_title report, [], ''**Question:** '' @ rj_question job, []];
          partial = (if re_is_partial report \<or> shortfalls \<noteq> []
            then [''> **Partial result.** This report is incomplete:'', ''>''] @
                 map (\<lambda>reason. ''> - '' @ reason) (if shortfalls \<noteq> [] then shortfalls else re_omitted_because report) @
                 [[]]
            else [])
      in bind_result (render_sections [] (re_sections report)) (\<lambda>(sections, numbers).
           let sources = [''## Sources'', []] @ map (source_line by_id checked) numbers @
                 (if numbers = [] then [''No sources were cited.''] else [])
           in Inr (py_join newline (head @ partial @ sections @ sources) @ newline)))"


section \<open>Properties\<close>

lemma fromkeys_filter_subset: "set (filter P (fromkeys xs)) \<subseteq> set xs"
  by auto

lemma finding_of_valid:
  assumes "ProposedFinding_valid p"
  shows "Finding_valid (finding_of verdicts status p)"
  using assms by (auto simp: finding_of_def Finding_valid_def ProposedFinding_valid_def Let_def)

lemma finding_of_supported:
  assumes "fi_critic_verdict (finding_of verdicts status p) = CV_SUPPORTED" and "ProposedFinding_valid p"
  shows "pf_contradicting_evidence_ids p = [] \<and>
    (\<exists>v. dict_get verdicts (pf_claim p) = Some v \<and> cv_verdict v = CV_SUPPORTED)"
proof -
  obtain v where v: "dict_get verdicts (pf_claim p) = Some v" "cv_verdict v = CV_SUPPORTED"
    and none: "filter (\<lambda>i. i \<notin> set (pf_supporting_evidence_ids p))
      (fromkeys (pf_contradicting_evidence_ids p @ cv_conflicting_evidence_ids v)) = []"
    using assms(1) by (auto simp: finding_of_def Let_def split: if_splits option.splits)
  from none have "set (pf_contradicting_evidence_ids p) \<subseteq> set (pf_supporting_evidence_ids p)"
    by (fastforce simp: filter_empty_conv)
  moreover have "set (pf_supporting_evidence_ids p) \<inter> set (pf_contradicting_evidence_ids p) = {}"
    using assms(2) by (simp add: ProposedFinding_valid_def)
  ultimately have "set (pf_contradicting_evidence_ids p) = {}" by (simp only: Int_absorb1)
  then have "pf_contradicting_evidence_ids p = []" by simp
  with v show ?thesis by blast
qed

lemma finding_of_contradicting:
  "ProposedFinding_valid p \<Longrightarrow>
   set (pf_contradicting_evidence_ids p) \<subseteq> set (fi_contradicting_evidence_ids (finding_of verdicts status p))"
  by (auto simp: finding_of_def Let_def ProposedFinding_valid_def)

lemma finding_of_sel [simp]:
  "fi_claim (finding_of verdicts status p) = pf_claim p"
  "fi_supporting_evidence_ids (finding_of verdicts status p) = pf_supporting_evidence_ids p"
  "fi_confidence (finding_of verdicts status p) = pf_confidence p"
  "fi_reviewer_status (finding_of verdicts status p) = status"
  "dict_get verdicts (pf_claim p) = None \<Longrightarrow> fi_critic_verdict (finding_of verdicts status p) = CV_PENDING"
  by (simp_all add: finding_of_def Let_def)

text \<open>
  Findings are derived faithfully. From an analysis the schema accepts, deriving never
  fails and gives exactly one finding per proposal, in order, with its claim, its supporting
  evidence and its confidence; every finding satisfies its own schema. A finding is recorded as
  supported only when the critic said so and nothing recorded speaks against it, and a claim the
  critic did not judge stays pending.
\<close>

theorem derive_findings_sound:
  assumes "AnalysisResult_valid analysis"
  shows "\<exists>fs. derive_findings analysis critique status = Inr fs \<and> length fs = length (an_findings analysis) \<and>
    (\<forall>k < length fs. let f = fs ! k; p = an_findings analysis ! k in
       Finding_valid f \<and> fi_claim f = pf_claim p \<and>
       fi_supporting_evidence_ids f = pf_supporting_evidence_ids p \<and> fi_confidence f = pf_confidence p \<and>
       fi_reviewer_status f = status \<and>
       set (pf_contradicting_evidence_ids p) \<subseteq> set (fi_contradicting_evidence_ids f) \<and>
       (fi_critic_verdict f = CV_SUPPORTED \<longrightarrow> pf_contradicting_evidence_ids p = [] \<and>
          (\<exists>v \<in> set (cr_verdicts critique). cv_claim v = pf_claim p \<and> cv_verdict v = CV_SUPPORTED)) \<and>
       ((\<forall>v \<in> set (cr_verdicts critique). cv_claim v \<noteq> pf_claim p) \<longrightarrow> fi_critic_verdict f = CV_PENDING))"
proof -
  let ?verdicts = "dict_of (map (\<lambda>v. (cv_claim v, v)) (cr_verdicts critique))"
  let ?fs = "map (finding_of ?verdicts status) (an_findings analysis)"
  have valid: "\<forall>p \<in> set (an_findings analysis). ProposedFinding_valid p"
    using assms by (simp add: AnalysisResult_valid_def list_all_iff)
  then have "list_all Finding_valid ?fs" by (simp add: list_all_iff finding_of_valid)
  then have eq: "derive_findings analysis critique status = Inr ?fs" by (simp add: derive_findings_def Let_def)
  have found: "\<exists>v \<in> set (cr_verdicts critique). cv_claim v = c \<and> w = v" if "dict_get ?verdicts c = Some w" for c w
    using dict_of_key [OF that] by auto
  have "let f = finding_of ?verdicts status p in
       Finding_valid f \<and> fi_claim f = pf_claim p \<and>
       fi_supporting_evidence_ids f = pf_supporting_evidence_ids p \<and> fi_confidence f = pf_confidence p \<and>
       fi_reviewer_status f = status \<and>
       set (pf_contradicting_evidence_ids p) \<subseteq> set (fi_contradicting_evidence_ids f) \<and>
       (fi_critic_verdict f = CV_SUPPORTED \<longrightarrow> pf_contradicting_evidence_ids p = [] \<and>
          (\<exists>v \<in> set (cr_verdicts critique). cv_claim v = pf_claim p \<and> cv_verdict v = CV_SUPPORTED)) \<and>
       ((\<forall>v \<in> set (cr_verdicts critique). cv_claim v \<noteq> pf_claim p) \<longrightarrow> fi_critic_verdict f = CV_PENDING)"
    if p: "p \<in> set (an_findings analysis)" for p
  proof -
    have pv: "ProposedFinding_valid p" using valid p by blast
    have "dict_get ?verdicts (pf_claim p) = None" if "\<forall>v \<in> set (cr_verdicts critique). cv_claim v \<noteq> pf_claim p"
    proof (cases "dict_get ?verdicts (pf_claim p)")
      case (Some w)
      from found [OF Some] that show ?thesis by simp
    qed
    then have pending: "(\<forall>v \<in> set (cr_verdicts critique). cv_claim v \<noteq> pf_claim p) \<longrightarrow>
        fi_critic_verdict (finding_of ?verdicts status p) = CV_PENDING" by simp
    have "fi_critic_verdict (finding_of ?verdicts status p) = CV_SUPPORTED \<longrightarrow> pf_contradicting_evidence_ids p = [] \<and>
        (\<exists>v \<in> set (cr_verdicts critique). cv_claim v = pf_claim p \<and> cv_verdict v = CV_SUPPORTED)"
      using finding_of_supported [OF _ pv, of ?verdicts status] found by blast
    with pending finding_of_valid [OF pv, of ?verdicts status] finding_of_contradicting [OF pv, of ?verdicts status]
    show ?thesis unfolding Let_def finding_of_sel(1-4) by (intro conjI refl) assumption+
  qed
  then show ?thesis using eq by (intro exI [of _ ?fs]) (simp add: Let_def)
qed

definition sample_analysis :: AnalysisResult where
  "sample_analysis = \<lparr>an_findings = [\<lparr>pf_claim = ''c'', pf_supporting_evidence_ids = [1],
     pf_contradicting_evidence_ids = [2], pf_calculation_ids = [], pf_confidence = 1\<rparr>], an_calculations = []\<rparr>"

definition sample_review :: CriticReview where
  "sample_review = \<lparr>cr_verdicts = [\<lparr>cv_claim = ''c'', cv_verdict = CV_SUPPORTED, cv_reasoning = ''r'',
     cv_conflicting_evidence_ids = []\<rparr>], cr_coverage_gaps = []\<rparr>"

theorem derive_findings_sound_witness:
  "\<exists>fs. derive_findings sample_analysis sample_review RS_NOT_REQUIRED = Inr fs \<and> length fs = 1 \<and>
     fi_critic_verdict (hd fs) \<noteq> CV_SUPPORTED"
proof -
  have "AnalysisResult_valid sample_analysis"
    by (simp add: sample_analysis_def AnalysisResult_valid_def ProposedFinding_valid_def nonempty_text_def)
  from derive_findings_sound [OF this, of sample_review RS_NOT_REQUIRED] obtain fs where
    fs: "derive_findings sample_analysis sample_review RS_NOT_REQUIRED = Inr fs" "length fs = 1"
      "fi_critic_verdict (fs ! 0) \<noteq> CV_SUPPORTED"
    by (auto simp: sample_analysis_def Let_def)
  then show ?thesis by (cases fs) auto
qed

end
