(* ===== verification/Jobs.thy ===== *)
theory Jobs
  imports Publication
begin

text \<open>
  The system of record (\<open>application/jobs.py\<close>). \<open>JobRepository\<close> is a record of operations over a
  store; the locale \<open>job_repository\<close> is what the service relies on, and the in-memory repository
  interprets it. \<open>ResearchJobService\<close> is written over any repository, with generated
  identifiers and clock readings as arguments.
\<close>

datatype JobError =
    JobNotFound uuid
  | TransitionRefused InvalidStateTransition
  | ValidationError

record 'r JobRepository =
  jr_add :: "'r \<Rightarrow> ResearchJob \<Rightarrow> 'r"
  jr_get :: "'r \<Rightarrow> string \<Rightarrow> uuid \<Rightarrow> JobError + ResearchJob"
  jr_list :: "'r \<Rightarrow> string \<Rightarrow> ResearchJob list"
  jr_update :: "'r \<Rightarrow> ResearchJob \<Rightarrow> JobError + 'r"
  jr_add_evidence :: "'r \<Rightarrow> EvidenceRecord \<Rightarrow> JobError + 'r"
  jr_list_evidence :: "'r \<Rightarrow> string \<Rightarrow> uuid \<Rightarrow> JobError + EvidenceRecord list"
  jr_record_invocation :: "'r \<Rightarrow> ToolInvocation \<Rightarrow> 'r"
  jr_list_invocations :: "'r \<Rightarrow> string \<Rightarrow> uuid \<Rightarrow> ToolInvocation list"
  jr_replace_findings :: "'r \<Rightarrow> string \<Rightarrow> uuid \<Rightarrow> FindingRecord list \<Rightarrow> JobError + 'r"
  jr_list_findings :: "'r \<Rightarrow> string \<Rightarrow> uuid \<Rightarrow> JobError + FindingRecord list"
  jr_record_publication :: "'r \<Rightarrow> ReportPublication \<Rightarrow> JobError + 'r"
  jr_get_publication :: "'r \<Rightarrow> string \<Rightarrow> uuid \<Rightarrow> JobError + ReportPublication option"


section \<open>The in-memory repository\<close>

type_synonym job_key = "string \<times> uuid"

record InMemoryJobRepository =
  im_jobs :: "(job_key, ResearchJob) dict"
  im_evidence :: "(job_key, EvidenceRecord list) dict"
  im_invocations :: "(job_key, ToolInvocation list) dict"
  im_findings :: "(job_key, FindingRecord list) dict"
  im_publications :: "(job_key, ReportPublication) dict"

definition InMemoryJobRepository_init :: InMemoryJobRepository where
  "InMemoryJobRepository_init =
     \<lparr>im_jobs = [], im_evidence = [], im_invocations = [], im_findings = [], im_publications = []\<rparr>"

definition listed :: "(job_key, 'a list) dict \<Rightarrow> job_key \<Rightarrow> 'a list" where
  "listed d key = (case dict_get d key of Some xs \<Rightarrow> xs | None \<Rightarrow> [])"

definition InMemoryJobRepository_add :: "InMemoryJobRepository \<Rightarrow> ResearchJob \<Rightarrow> InMemoryJobRepository" where
  "InMemoryJobRepository_add r job =
     r\<lparr>im_jobs := dict_set (rj_tenant_id job, rj_id job) job (im_jobs r)\<rparr>"

definition InMemoryJobRepository_get ::
  "InMemoryJobRepository \<Rightarrow> string \<Rightarrow> uuid \<Rightarrow> JobError + ResearchJob" where
  "InMemoryJobRepository_get r tenant_id job_id =
     (case dict_get (im_jobs r) (tenant_id, job_id) of None \<Rightarrow> Inl (JobNotFound job_id) | Some job \<Rightarrow> Inr job)"

definition InMemoryJobRepository_list :: "InMemoryJobRepository \<Rightarrow> string \<Rightarrow> ResearchJob list" where
  "InMemoryJobRepository_list r tenant_id =
     sort_key_reverse rj_created_at [job. ((tenant, i), job) \<leftarrow> im_jobs r, tenant = tenant_id]"

definition InMemoryJobRepository_update ::
  "InMemoryJobRepository \<Rightarrow> ResearchJob \<Rightarrow> JobError + InMemoryJobRepository" where
  "InMemoryJobRepository_update r job =
     (let key = (rj_tenant_id job, rj_id job) in
      if dict_get (im_jobs r) key = None then Inl (JobNotFound (rj_id job))
      else Inr (r\<lparr>im_jobs := dict_set key job (im_jobs r)\<rparr>))"

definition InMemoryJobRepository_add_evidence ::
  "InMemoryJobRepository \<Rightarrow> EvidenceRecord \<Rightarrow> JobError + InMemoryJobRepository" where
  "InMemoryJobRepository_add_evidence r e =
     (let key = (ev_tenant_id e, ev_job_id e) in
      bind_result (InMemoryJobRepository_get r (ev_tenant_id e) (ev_job_id e)) (\<lambda>_.
        Inr (r\<lparr>im_evidence := dict_set key (listed (im_evidence r) key @ [e]) (im_evidence r)\<rparr>)))"

definition InMemoryJobRepository_list_evidence ::
  "InMemoryJobRepository \<Rightarrow> string \<Rightarrow> uuid \<Rightarrow> JobError + EvidenceRecord list" where
  "InMemoryJobRepository_list_evidence r tenant_id job_id =
     bind_result (InMemoryJobRepository_get r tenant_id job_id) (\<lambda>_. Inr (listed (im_evidence r) (tenant_id, job_id)))"

text \<open>\<open>record_invocation\<close> does not require the job, and is idempotent on the record's identifier.\<close>

definition InMemoryJobRepository_record_invocation ::
  "InMemoryJobRepository \<Rightarrow> ToolInvocation \<Rightarrow> InMemoryJobRepository" where
  "InMemoryJobRepository_record_invocation r i =
     (let key = (ti_tenant_id i, ti_job_id i); recorded = listed (im_invocations r) key in
      r\<lparr>im_invocations := dict_set key
          (if list_ex (\<lambda>existing. ti_id existing = ti_id i) recorded then recorded else recorded @ [i])
          (im_invocations r)\<rparr>)"

definition InMemoryJobRepository_list_invocations ::
  "InMemoryJobRepository \<Rightarrow> string \<Rightarrow> uuid \<Rightarrow> ToolInvocation list" where
  "InMemoryJobRepository_list_invocations r tenant_id job_id =
     sort_key ti_started_at (listed (im_invocations r) (tenant_id, job_id))"

definition InMemoryJobRepository_replace_findings ::
  "InMemoryJobRepository \<Rightarrow> string \<Rightarrow> uuid \<Rightarrow> FindingRecord list \<Rightarrow> JobError + InMemoryJobRepository" where
  "InMemoryJobRepository_replace_findings r tenant_id job_id findings =
     bind_result (InMemoryJobRepository_get r tenant_id job_id) (\<lambda>_.
       Inr (r\<lparr>im_findings := dict_set (tenant_id, job_id) findings (im_findings r)\<rparr>))"

definition InMemoryJobRepository_list_findings ::
  "InMemoryJobRepository \<Rightarrow> string \<Rightarrow> uuid \<Rightarrow> JobError + FindingRecord list" where
  "InMemoryJobRepository_list_findings r tenant_id job_id =
     bind_result (InMemoryJobRepository_get r tenant_id job_id) (\<lambda>_. Inr (listed (im_findings r) (tenant_id, job_id)))"

definition InMemoryJobRepository_record_publication ::
  "InMemoryJobRepository \<Rightarrow> ReportPublication \<Rightarrow> JobError + InMemoryJobRepository" where
  "InMemoryJobRepository_record_publication r p =
     bind_result (InMemoryJobRepository_get r (pu_tenant_id p) (pu_job_id p)) (\<lambda>_.
       Inr (r\<lparr>im_publications := dict_set (pu_tenant_id p, pu_job_id p) p (im_publications r)\<rparr>))"

definition InMemoryJobRepository_get_publication ::
  "InMemoryJobRepository \<Rightarrow> string \<Rightarrow> uuid \<Rightarrow> JobError + ReportPublication option" where
  "InMemoryJobRepository_get_publication r tenant_id job_id =
     bind_result (InMemoryJobRepository_get r tenant_id job_id) (\<lambda>_. Inr (dict_get (im_publications r) (tenant_id, job_id)))"

definition InMemoryJobRepository_ops :: "InMemoryJobRepository JobRepository" where
  "InMemoryJobRepository_ops =
     \<lparr>jr_add = InMemoryJobRepository_add, jr_get = InMemoryJobRepository_get,
      jr_list = InMemoryJobRepository_list, jr_update = InMemoryJobRepository_update,
      jr_add_evidence = InMemoryJobRepository_add_evidence,
      jr_list_evidence = InMemoryJobRepository_list_evidence,
      jr_record_invocation = InMemoryJobRepository_record_invocation,
      jr_list_invocations = InMemoryJobRepository_list_invocations,
      jr_replace_findings = InMemoryJobRepository_replace_findings,
      jr_list_findings = InMemoryJobRepository_list_findings,
      jr_record_publication = InMemoryJobRepository_record_publication,
      jr_get_publication = InMemoryJobRepository_get_publication\<rparr>"


section \<open>The service\<close>

definition new_job ::
  "uuid \<Rightarrow> datetime \<Rightarrow> string \<Rightarrow> string \<Rightarrow> ResearchJobCreate \<Rightarrow> AccessClass \<Rightarrow> ResearchJob" where
  "new_job new_id now tenant_id requester_id command clearance =
     \<lparr>rj_id = new_id, rj_tenant_id = tenant_id, rj_requester_id = requester_id,
      rj_question = rjc_question command, rj_constraints = rjc_constraints command,
      rj_source_requirements = rjc_source_requirements command, rj_budget = rjc_budget command,
      rj_clearance = clearance, rj_usage = JobUsage_zero, rj_status = JS_CREATED,
      rj_status_detail = None, rj_workflow_id = None, rj_workflow_run_id = None,
      rj_created_at = now, rj_updated_at = now\<rparr>"

definition ResearchJobService_create ::
  "'r JobRepository \<Rightarrow> uuid \<Rightarrow> datetime \<Rightarrow> 'r \<Rightarrow> string \<Rightarrow> string \<Rightarrow> ResearchJobCreate \<Rightarrow> AccessClass \<Rightarrow>
   JobError + ResearchJob \<times> 'r" where
  "ResearchJobService_create repo new_id now r tenant_id requester_id command clearance =
     (let job = new_job new_id now tenant_id requester_id command clearance in
      if \<not> ResearchJob_valid job then Inl ValidationError else Inr (job, jr_add repo r job))"

definition ResearchJobService_transition ::
  "'r JobRepository \<Rightarrow> datetime \<Rightarrow> 'r \<Rightarrow> string \<Rightarrow> uuid \<Rightarrow> JobStatus \<Rightarrow> string option \<Rightarrow> JobUsage option \<Rightarrow>
   JobError + ResearchJob \<times> 'r" where
  "ResearchJobService_transition repo now r tenant_id job_id target detail usage =
     bind_result (jr_get repo r tenant_id job_id) (\<lambda>job.
       case ResearchJob_transition_to now job target detail usage of
         Inl e \<Rightarrow> Inl (TransitionRefused e)
       | Inr job' \<Rightarrow> bind_result (jr_update repo r job') (\<lambda>r'. Inr (job', r')))"

definition ResearchJobService_record_checkpoint ::
  "'r JobRepository \<Rightarrow> datetime \<Rightarrow> 'r \<Rightarrow> string \<Rightarrow> uuid \<Rightarrow> string \<Rightarrow> string \<Rightarrow> JobError + ResearchJob \<times> 'r" where
  "ResearchJobService_record_checkpoint repo now r tenant_id job_id workflow_id run_id =
     bind_result (jr_get repo r tenant_id job_id) (\<lambda>job.
       let job' = ResearchJob_with_checkpoint now job workflow_id run_id in
       bind_result (jr_update repo r job') (\<lambda>r'. Inr (job', r')))"

definition evidence_of ::
  "uuid \<Rightarrow> datetime \<Rightarrow> string \<Rightarrow> uuid \<Rightarrow> EvidenceRecordCreate \<Rightarrow> EvidenceRecord" where
  "evidence_of new_id now tenant_id job_id command =
     EvidenceRecordCreate.extend command
       \<lparr>ev_id = new_id, ev_job_id = job_id, ev_tenant_id = tenant_id, ev_retrieved_at = now\<rparr>"

definition ResearchJobService_add_evidence ::
  "'r JobRepository \<Rightarrow> uuid \<Rightarrow> datetime \<Rightarrow> 'r \<Rightarrow> string \<Rightarrow> uuid \<Rightarrow> EvidenceRecordCreate \<Rightarrow>
   JobError + EvidenceRecord \<times> 'r" where
  "ResearchJobService_add_evidence repo new_id now r tenant_id job_id command =
     bind_result (jr_get repo r tenant_id job_id) (\<lambda>_.
       let e = evidence_of new_id now tenant_id job_id command in
       if \<not> (EvidenceRecordCreate_valid now e \<and> bounded_text 1 100 tenant_id) then Inl ValidationError
       else bind_result (jr_add_evidence repo r e) (\<lambda>r'. Inr (e, r')))"

definition ResearchJobService_list_invocations ::
  "'r JobRepository \<Rightarrow> 'r \<Rightarrow> string \<Rightarrow> uuid \<Rightarrow> JobError + ToolInvocation list" where
  "ResearchJobService_list_invocations repo r tenant_id job_id =
     bind_result (jr_get repo r tenant_id job_id) (\<lambda>_. Inr (jr_list_invocations repo r tenant_id job_id))"

text \<open>One record per finding, with the identifiers generated for them in order.\<close>

definition finding_records ::
  "(nat \<Rightarrow> uuid) \<Rightarrow> datetime \<Rightarrow> string \<Rightarrow> uuid \<Rightarrow> Finding list \<Rightarrow> FindingRecord list" where
  "finding_records new_id now tenant_id job_id findings =
     map (\<lambda>(k, f). Finding.extend f \<lparr>fr_id = new_id k, fr_job_id = job_id, fr_tenant_id = tenant_id, fr_recorded_at = now\<rparr>)
       (enumerate 0 findings)"

definition ResearchJobService_record_findings ::
  "'r JobRepository \<Rightarrow> (nat \<Rightarrow> uuid) \<Rightarrow> datetime \<Rightarrow> 'r \<Rightarrow> string \<Rightarrow> uuid \<Rightarrow> Finding list \<Rightarrow>
   JobError + FindingRecord list \<times> 'r" where
  "ResearchJobService_record_findings repo new_id now r tenant_id job_id findings =
     bind_result (jr_get repo r tenant_id job_id) (\<lambda>_.
       let records = finding_records new_id now tenant_id job_id findings in
       if \<not> (list_all Finding_valid records \<and> (findings = [] \<or> bounded_text 1 100 tenant_id)) then Inl ValidationError
       else bind_result (jr_replace_findings repo r tenant_id job_id records) (\<lambda>r'. Inr (records, r')))"

text \<open>The calls that change the record, and the store after one of them; a refused call changes nothing.\<close>

datatype service_op =
    OpCreate uuid datetime string string ResearchJobCreate AccessClass
  | OpTransition datetime string uuid JobStatus "string option" "JobUsage option"
  | OpCheckpoint datetime string uuid string string
  | OpAddEvidence uuid datetime string uuid EvidenceRecordCreate
  | OpRecordInvocation ToolInvocation
  | OpRecordFindings "nat \<Rightarrow> uuid" datetime string uuid "Finding list"
  | OpRecordPublication ReportPublication

fun op_tenant :: "service_op \<Rightarrow> string" where
  "op_tenant (OpCreate i now t u c a) = t"
| "op_tenant (OpTransition now t j s d u) = t"
| "op_tenant (OpCheckpoint now t j w x) = t"
| "op_tenant (OpAddEvidence i now t j c) = t"
| "op_tenant (OpRecordInvocation i) = ti_tenant_id i"
| "op_tenant (OpRecordFindings i now t j fs) = t"
| "op_tenant (OpRecordPublication p) = pu_tenant_id p"

definition after :: "'r \<Rightarrow> JobError + 'a \<times> 'r \<Rightarrow> 'r" where
  "after r res = (case res of Inl e \<Rightarrow> r | Inr (x, r') \<Rightarrow> r')"

fun service_step :: "'r JobRepository \<Rightarrow> 'r \<Rightarrow> service_op \<Rightarrow> 'r" where
  "service_step repo r (OpCreate i now t u c a) = after r (ResearchJobService_create repo i now r t u c a)"
| "service_step repo r (OpTransition now t j s d u) = after r (ResearchJobService_transition repo now r t j s d u)"
| "service_step repo r (OpCheckpoint now t j w x) = after r (ResearchJobService_record_checkpoint repo now r t j w x)"
| "service_step repo r (OpAddEvidence i now t j c) = after r (ResearchJobService_add_evidence repo i now r t j c)"
| "service_step repo r (OpRecordInvocation i) = jr_record_invocation repo r i"
| "service_step repo r (OpRecordFindings i now t j fs) =
     after r (ResearchJobService_record_findings repo i now r t j fs)"
| "service_step repo r (OpRecordPublication p) =
     (case jr_record_publication repo r p of Inl e \<Rightarrow> r | Inr r' \<Rightarrow> r')"

definition service_run :: "'r JobRepository \<Rightarrow> 'r \<Rightarrow> service_op list \<Rightarrow> 'r" where
  "service_run repo r ops = foldl (service_step repo) r ops"

lemma service_run_simps [simp]:
  "service_run repo r [] = r"
  "service_run repo r (op # ops) = service_run repo (service_step repo r op) ops"
  by (simp_all add: service_run_def)


text \<open>
  What was asked for, by whom, with which budget and clearance.
\<close>

definition same_commission :: "ResearchJob \<Rightarrow> ResearchJob \<Rightarrow> bool" where
  "same_commission a b \<longleftrightarrow> rj_id a = rj_id b \<and> rj_tenant_id a = rj_tenant_id b \<and>
     rj_requester_id a = rj_requester_id b \<and> rj_question a = rj_question b \<and> rj_budget a = rj_budget b \<and>
     rj_clearance a = rj_clearance b \<and> rj_created_at a = rj_created_at b"

lemma same_commission_refl: "same_commission a a"
  by (simp add: same_commission_def)

lemma new_job_key [simp]:
  "rj_tenant_id (new_job i now t u c a) = t" "rj_id (new_job i now t u c a) = i"
  "rj_status (new_job i now t u c a) = JS_CREATED"
  by (simp_all add: new_job_def)


section \<open>What the service relies on\<close>

text \<open>Everything a tenant can read from a store.\<close>

record tenant_slice =
  ts_job :: "uuid \<Rightarrow> ResearchJob option"
  ts_jobs :: "ResearchJob list"
  ts_evidence :: "uuid \<Rightarrow> EvidenceRecord list"
  ts_invocations :: "uuid \<Rightarrow> ToolInvocation list"
  ts_findings :: "uuid \<Rightarrow> FindingRecord list"
  ts_publication :: "uuid \<Rightarrow> ReportPublication option"

definition found_or :: "uuid \<Rightarrow> 'a option \<Rightarrow> JobError + 'a" where
  "found_or j x = (case x of None \<Rightarrow> Inl (JobNotFound j) | Some y \<Rightarrow> Inr y)"

lemma found_or_simps [simp]: "found_or j None = Inl (JobNotFound j)" "found_or j (Some x) = Inr x"
  by (simp_all add: found_or_def)

lemma found_or_Inr [simp]: "found_or j x = Inr y \<longleftrightarrow> x = Some y"
  by (cases x) auto

locale job_repository =
  fixes repo :: "'r JobRepository" and inv :: "'r \<Rightarrow> bool" and slice :: "'r \<Rightarrow> string \<Rightarrow> tenant_slice"
  assumes get_reads: "jr_get repo r t j = found_or j (ts_job (slice r t) j)"
    and list_reads: "jr_list repo r t = ts_jobs (slice r t)"
    and evidence_reads: "jr_list_evidence repo r t j =
      bind_result (jr_get repo r t j) (\<lambda>_. Inr (ts_evidence (slice r t) j))"
    and invocations_reads: "jr_list_invocations repo r t j = ts_invocations (slice r t) j"
    and findings_reads: "jr_list_findings repo r t j =
      bind_result (jr_get repo r t j) (\<lambda>_. Inr (ts_findings (slice r t) j))"
    and publication_reads: "jr_get_publication repo r t j =
      bind_result (jr_get repo r t j) (\<lambda>_. Inr (ts_publication (slice r t) j))"
    and own_key: "inv r \<Longrightarrow> ts_job (slice r t) j = Some job \<Longrightarrow> rj_tenant_id job = t \<and> rj_id job = j"
    and add_writes: "inv r \<Longrightarrow> inv (jr_add repo r job) \<and>
      (\<forall>t. t \<noteq> rj_tenant_id job \<longrightarrow> slice (jr_add repo r job) t = slice r t) \<and>
      ts_job (slice (jr_add repo r job) (rj_tenant_id job)) = (ts_job (slice r (rj_tenant_id job)))(rj_id job \<mapsto> job)"
    and update_known: "inv r \<Longrightarrow> ts_job (slice r (rj_tenant_id job)) (rj_id job) \<noteq> None \<Longrightarrow>
      \<exists>r'. jr_update repo r job = Inr r'"
    and update_writes: "inv r \<Longrightarrow> jr_update repo r job = Inr r' \<Longrightarrow> inv r' \<and>
      (\<forall>t. t \<noteq> rj_tenant_id job \<longrightarrow> slice r' t = slice r t) \<and>
      ts_job (slice r' (rj_tenant_id job)) = (ts_job (slice r (rj_tenant_id job)))(rj_id job \<mapsto> job)"
    and evidence_writes: "inv r \<Longrightarrow> jr_add_evidence repo r e = Inr r' \<Longrightarrow> inv r' \<and>
      (\<forall>t. t \<noteq> ev_tenant_id e \<longrightarrow> slice r' t = slice r t) \<and>
      ts_job (slice r' (ev_tenant_id e)) = ts_job (slice r (ev_tenant_id e)) \<and>
      ts_evidence (slice r' (ev_tenant_id e)) = (ts_evidence (slice r (ev_tenant_id e)))
        (ev_job_id e := ts_evidence (slice r (ev_tenant_id e)) (ev_job_id e) @ [e])"
    and invocation_writes: "inv r \<Longrightarrow> inv (jr_record_invocation repo r i) \<and>
      (\<forall>t. t \<noteq> ti_tenant_id i \<longrightarrow> slice (jr_record_invocation repo r i) t = slice r t) \<and>
      ts_job (slice (jr_record_invocation repo r i) (ti_tenant_id i)) = ts_job (slice r (ti_tenant_id i))"
    and findings_writes: "inv r \<Longrightarrow> jr_replace_findings repo r u j fs = Inr r' \<Longrightarrow> inv r' \<and>
      (\<forall>t. t \<noteq> u \<longrightarrow> slice r' t = slice r t) \<and> ts_job (slice r' u) = ts_job (slice r u)"
    and publication_writes: "inv r \<Longrightarrow> jr_record_publication repo r p = Inr r' \<Longrightarrow> inv r' \<and>
      (\<forall>t. t \<noteq> pu_tenant_id p \<longrightarrow> slice r' t = slice r t) \<and>
      ts_job (slice r' (pu_tenant_id p)) = ts_job (slice r (pu_tenant_id p))"
begin

text \<open>A call changes only what its own tenant can read.\<close>

lemma step_inv_other:
  assumes "inv r"
  shows "inv (service_step repo r op) \<and> (\<forall>t. t \<noteq> op_tenant op \<longrightarrow> slice (service_step repo r op) t = slice r t)"
proof (cases op)
  case (OpCreate i now t u c a)
  then show ?thesis using add_writes [OF assms] assms
    by (auto simp: ResearchJobService_create_def after_def new_job_def Let_def)
next
  case (OpTransition now t j s d u)
  then show ?thesis using assms update_writes [OF assms] own_key [OF assms]
    by (auto simp: ResearchJobService_transition_def after_def get_reads bind_result_def
        ResearchJob_transition_to_def split: sum.splits if_splits)
next
  case (OpCheckpoint now t j w x)
  then show ?thesis using assms update_writes [OF assms] own_key [OF assms]
    by (auto simp: ResearchJobService_record_checkpoint_def after_def get_reads bind_result_def
        ResearchJob_with_checkpoint_def Let_def split: sum.splits)
next
  case (OpAddEvidence i now t j c)
  then show ?thesis using assms evidence_writes [OF assms]
    by (auto simp: ResearchJobService_add_evidence_def after_def bind_result_def evidence_of_def
        EvidenceRecordCreate.extend_def Let_def split: sum.splits)
next
  case (OpRecordInvocation i)
  then show ?thesis using invocation_writes [OF assms] by simp
next
  case (OpRecordFindings i now t j fs)
  then show ?thesis using assms findings_writes [OF assms]
    by (auto simp: ResearchJobService_record_findings_def after_def bind_result_def Let_def split: sum.splits)
next
  case (OpRecordPublication p)
  then show ?thesis using assms publication_writes [OF assms] by (auto split: sum.splits)
qed

lemma run_inv_other:
  "inv r \<Longrightarrow> (\<forall>op \<in> set ops. op_tenant op \<noteq> t) \<Longrightarrow>
   inv (service_run repo r ops) \<and> slice (service_run repo r ops) t = slice r t"
proof (induction ops arbitrary: r)
  case (Cons op ops)
  with step_inv_other [OF Cons.prems(1), of op] show ?case by (metis list.set_intros service_run_simps(2))
qed simp

text \<open>A stored job only moves along the allowed transitions.\<close>

lemma update_step:
  assumes "inv r" and "jr_update repo r new = Inr r'" and "ts_job (slice r t) j = Some job"
    and "rj_tenant_id new = t0" and "rj_id new = j0" and "(t, j) = (t0, j0) \<Longrightarrow> P new" and "P job"
  shows "\<exists>job'. ts_job (slice r' t) j = Some job' \<and> P job'"
  using update_writes [OF assms(1,2)] assms(3-7) by (cases "t = t0"; cases "j = j0") auto

lemma step_job:
  assumes inv: "inv r" and job: "ts_job (slice r t) j = Some job"
    and fresh: "\<And>now u c a. op \<noteq> OpCreate j now t u c a"
  shows "\<exists>job'. ts_job (slice (service_step repo r op) t) j = Some job' \<and>
    (same_commission job job' \<and>
     (rj_status job' = rj_status job \<or> rj_status job' \<in> ALLOWED_TRANSITIONS (rj_status job)))"
    (is "\<exists>job'. _ \<and> ?P job'")
proof -
  have P: "?P job" by (simp add: same_commission_refl)
  show ?thesis
  proof (cases "op_tenant op = t")
    case False
    with step_inv_other [OF inv, of op] job P show ?thesis by metis
  next
    case True
    show ?thesis
    proof (cases op)
      case (OpCreate i now t' u c a)
      with True fresh have "i \<noteq> j" "t' = t" by auto
      with OpCreate job P add_writes [OF inv, of "new_job i now t u c a"] show ?thesis
        by (auto simp: ResearchJobService_create_def after_def Let_def)
    next
      case (OpTransition now t' j' s d u)
      show ?thesis
      proof (cases "service_step repo r op = r")
        case False
        then obtain old new r' where o: "ts_job (slice r t') j' = Some old" "jr_update repo r new = Inr r'"
          "ResearchJob_transition_to now old s d u = Inr new" "service_step repo r op = r'"
          using OpTransition
          by (auto simp: ResearchJobService_transition_def after_def get_reads bind_result_def found_or_def
              split: sum.splits option.splits)
        have key: "rj_tenant_id new = t'" "rj_id new = j'"
          and new: "same_commission old new" "rj_status new \<in> ALLOWED_TRANSITIONS (rj_status old)"
          using own_key [OF inv o(1)] o(3)
          by (auto simp: ResearchJob_transition_to_def same_commission_def split: if_splits)
        show ?thesis unfolding o(4)
          by (rule update_step [OF inv o(2) job key]) (use o(1) job new P in auto)
      qed (use job P in auto)
    next
      case (OpCheckpoint now t' j' w x)
      show ?thesis
      proof (cases "service_step repo r op = r")
        case False
        then obtain old new r' where o: "ts_job (slice r t') j' = Some old" "jr_update repo r new = Inr r'"
          "new = ResearchJob_with_checkpoint now old w x" "service_step repo r op = r'"
          using OpCheckpoint
          by (auto simp: ResearchJobService_record_checkpoint_def after_def get_reads bind_result_def found_or_def
              Let_def split: sum.splits option.splits)
        have key: "rj_tenant_id new = t'" "rj_id new = j'"
          and new: "same_commission old new" "rj_status new = rj_status old"
          using own_key [OF inv o(1)] o(3)
          by (auto simp: ResearchJob_with_checkpoint_def same_commission_def)
        show ?thesis unfolding o(4)
          by (rule update_step [OF inv o(2) job key]) (use o(1) job new P in auto)
      qed (use job P in auto)
    next
      case (OpAddEvidence i now t' j' c)
      with job P evidence_writes [OF inv] show ?thesis
        by (auto simp: ResearchJobService_add_evidence_def after_def bind_result_def evidence_of_def
            EvidenceRecordCreate.extend_def Let_def True split: sum.splits)
          (metis (no_types, lifting))+
    next
      case (OpRecordInvocation i)
      with True job P invocation_writes [OF inv, of i] show ?thesis by auto
    next
      case (OpRecordFindings i now t' j' fs)
      with True job P findings_writes [OF inv] show ?thesis
        by (auto simp: ResearchJobService_record_findings_def after_def bind_result_def Let_def split: sum.splits)
    next
      case (OpRecordPublication p)
      with True job P publication_writes [OF inv] show ?thesis by (auto split: sum.splits)
    qed
  qed
qed

text \<open>The path of a job's status through any run of calls.\<close>

lemma run_job:
  "inv r \<Longrightarrow> ts_job (slice r t) j = Some job \<Longrightarrow> (\<forall>now u c a. OpCreate j now t u c a \<notin> set ops) \<Longrightarrow>
   \<exists>job'. ts_job (slice (service_run repo r ops) t) j = Some job' \<and> same_commission job job' \<and>
     (rj_status job, rj_status job') \<in> {(a, b). b \<in> ALLOWED_TRANSITIONS a}\<^sup>*"
proof (induction ops arbitrary: r job)
  case Nil
  then show ?case by (simp add: same_commission_refl)
next
  case (Cons op ops)
  have "\<And>now u c a. op \<noteq> OpCreate j now t u c a" using Cons.prems(3) by auto
  from step_job [OF Cons.prems(1,2) this] obtain job1 where j1:
    "ts_job (slice (service_step repo r op) t) j = Some job1" "same_commission job job1"
    "(rj_status job, rj_status job1) \<in> {(a, b). b \<in> ALLOWED_TRANSITIONS a}\<^sup>*" by auto
  from Cons.IH [OF _ j1(1)] step_inv_other [OF Cons.prems(1)] Cons.prems(3) obtain job' where
    "ts_job (slice (service_run repo r (op # ops)) t) j = Some job'" "same_commission job1 job'"
    "(rj_status job1, rj_status job') \<in> {(a, b). b \<in> ALLOWED_TRANSITIONS a}\<^sup>*" by auto
  with j1 show ?case by (auto simp: same_commission_def)
qed

end


section \<open>The in-memory repository keeps the contract\<close>

definition InMemoryJobRepository_inv :: "InMemoryJobRepository \<Rightarrow> bool" where
  "InMemoryJobRepository_inv r \<longleftrightarrow>
     (\<forall>key job. dict_get (im_jobs r) key = Some job \<longrightarrow> key = (rj_tenant_id job, rj_id job))"

definition InMemoryJobRepository_slice :: "InMemoryJobRepository \<Rightarrow> string \<Rightarrow> tenant_slice" where
  "InMemoryJobRepository_slice r t =
     \<lparr>ts_job = (\<lambda>j. dict_get (im_jobs r) (t, j)), ts_jobs = InMemoryJobRepository_list r t,
      ts_evidence = (\<lambda>j. listed (im_evidence r) (t, j)),
      ts_invocations = (\<lambda>j. InMemoryJobRepository_list_invocations r t j),
      ts_findings = (\<lambda>j. listed (im_findings r) (t, j)),
      ts_publication = (\<lambda>j. dict_get (im_publications r) (t, j))\<rparr>"

lemma listed_set [simp]: "listed (dict_set k xs d) k' = (if k' = k then xs else listed d k')"
  by (simp add: listed_def)

lemma jobs_of_other_tenant:
  "t \<noteq> fst k \<Longrightarrow> [job. ((tenant, i), job) \<leftarrow> dict_set k x d, tenant = t] = [job. ((tenant, i), job) \<leftarrow> d, tenant = t]"
  by (induction d) (auto split: prod.splits)

lemma slice_set_job:
  "t \<noteq> fst k \<Longrightarrow> InMemoryJobRepository_slice (r\<lparr>im_jobs := dict_set k job (im_jobs r)\<rparr>) t = InMemoryJobRepository_slice r t"
  by (cases k) (auto simp: InMemoryJobRepository_slice_def InMemoryJobRepository_list_def
      InMemoryJobRepository_list_invocations_def jobs_of_other_tenant)

interpretation mem_jobs: job_repository InMemoryJobRepository_ops InMemoryJobRepository_inv InMemoryJobRepository_slice
proof
  fix r r' t j job e i u fs p
  note ops = InMemoryJobRepository_ops_def
  note slice = InMemoryJobRepository_slice_def
  show "jr_get InMemoryJobRepository_ops r t j = found_or j (ts_job (InMemoryJobRepository_slice r t) j)"
    by (simp add: ops slice InMemoryJobRepository_get_def found_or_def)
  show "jr_list InMemoryJobRepository_ops r t = ts_jobs (InMemoryJobRepository_slice r t)"
    by (simp add: ops slice)
  show "jr_list_evidence InMemoryJobRepository_ops r t j =
      bind_result (jr_get InMemoryJobRepository_ops r t j) (\<lambda>_. Inr (ts_evidence (InMemoryJobRepository_slice r t) j))"
    by (simp add: ops slice InMemoryJobRepository_list_evidence_def)
  show "jr_list_invocations InMemoryJobRepository_ops r t j = ts_invocations (InMemoryJobRepository_slice r t) j"
    by (simp add: ops slice)
  show "jr_list_findings InMemoryJobRepository_ops r t j =
      bind_result (jr_get InMemoryJobRepository_ops r t j) (\<lambda>_. Inr (ts_findings (InMemoryJobRepository_slice r t) j))"
    by (simp add: ops slice InMemoryJobRepository_list_findings_def)
  show "jr_get_publication InMemoryJobRepository_ops r t j =
      bind_result (jr_get InMemoryJobRepository_ops r t j) (\<lambda>_. Inr (ts_publication (InMemoryJobRepository_slice r t) j))"
    by (simp add: ops slice InMemoryJobRepository_get_publication_def)
  assume inv: "InMemoryJobRepository_inv r"
  show "ts_job (InMemoryJobRepository_slice r t) j = Some job \<Longrightarrow> rj_tenant_id job = t \<and> rj_id job = j"
    using inv by (auto simp: slice InMemoryJobRepository_inv_def)
  let ?put = "r\<lparr>im_jobs := dict_set (rj_tenant_id job, rj_id job) job (im_jobs r)\<rparr>"
  have put: "InMemoryJobRepository_inv ?put \<and>
      (\<forall>t. t \<noteq> rj_tenant_id job \<longrightarrow> InMemoryJobRepository_slice ?put t = InMemoryJobRepository_slice r t) \<and>
      ts_job (InMemoryJobRepository_slice ?put (rj_tenant_id job)) =
        (ts_job (InMemoryJobRepository_slice r (rj_tenant_id job)))(rj_id job \<mapsto> job)"
    using inv slice_set_job [of _ "(rj_tenant_id job, rj_id job)" job r]
    by (auto simp: InMemoryJobRepository_inv_def slice)
  show "InMemoryJobRepository_inv (jr_add InMemoryJobRepository_ops r job) \<and>
      (\<forall>t. t \<noteq> rj_tenant_id job \<longrightarrow>
        InMemoryJobRepository_slice (jr_add InMemoryJobRepository_ops r job) t = InMemoryJobRepository_slice r t) \<and>
      ts_job (InMemoryJobRepository_slice (jr_add InMemoryJobRepository_ops r job) (rj_tenant_id job)) =
        (ts_job (InMemoryJobRepository_slice r (rj_tenant_id job)))(rj_id job \<mapsto> job)"
    using put by (simp add: ops InMemoryJobRepository_add_def)
  show "ts_job (InMemoryJobRepository_slice r (rj_tenant_id job)) (rj_id job) \<noteq> None \<Longrightarrow>
      \<exists>r'. jr_update InMemoryJobRepository_ops r job = Inr r'"
    by (auto simp: ops slice InMemoryJobRepository_update_def Let_def)
  show "jr_update InMemoryJobRepository_ops r job = Inr r' \<Longrightarrow> InMemoryJobRepository_inv r' \<and>
      (\<forall>t. t \<noteq> rj_tenant_id job \<longrightarrow> InMemoryJobRepository_slice r' t = InMemoryJobRepository_slice r t) \<and>
      ts_job (InMemoryJobRepository_slice r' (rj_tenant_id job)) =
        (ts_job (InMemoryJobRepository_slice r (rj_tenant_id job)))(rj_id job \<mapsto> job)"
    using put by (auto simp: ops InMemoryJobRepository_update_def Let_def split: if_splits)
  show "jr_add_evidence InMemoryJobRepository_ops r e = Inr r' \<Longrightarrow> InMemoryJobRepository_inv r' \<and>
      (\<forall>t. t \<noteq> ev_tenant_id e \<longrightarrow> InMemoryJobRepository_slice r' t = InMemoryJobRepository_slice r t) \<and>
      ts_job (InMemoryJobRepository_slice r' (ev_tenant_id e)) = ts_job (InMemoryJobRepository_slice r (ev_tenant_id e)) \<and>
      ts_evidence (InMemoryJobRepository_slice r' (ev_tenant_id e)) = (ts_evidence (InMemoryJobRepository_slice r (ev_tenant_id e)))
        (ev_job_id e := ts_evidence (InMemoryJobRepository_slice r (ev_tenant_id e)) (ev_job_id e) @ [e])"
    using inv by (auto simp: ops slice InMemoryJobRepository_add_evidence_def InMemoryJobRepository_inv_def
        InMemoryJobRepository_list_def InMemoryJobRepository_list_invocations_def bind_result_Inr_iff Let_def fun_eq_iff)
  show "InMemoryJobRepository_inv (jr_record_invocation InMemoryJobRepository_ops r i) \<and>
      (\<forall>t. t \<noteq> ti_tenant_id i \<longrightarrow>
        InMemoryJobRepository_slice (jr_record_invocation InMemoryJobRepository_ops r i) t = InMemoryJobRepository_slice r t) \<and>
      ts_job (InMemoryJobRepository_slice (jr_record_invocation InMemoryJobRepository_ops r i) (ti_tenant_id i)) =
        ts_job (InMemoryJobRepository_slice r (ti_tenant_id i))"
    using inv by (auto simp: ops slice InMemoryJobRepository_record_invocation_def InMemoryJobRepository_inv_def
        InMemoryJobRepository_list_def InMemoryJobRepository_list_invocations_def Let_def)
  show "jr_replace_findings InMemoryJobRepository_ops r u j fs = Inr r' \<Longrightarrow> InMemoryJobRepository_inv r' \<and>
      (\<forall>t. t \<noteq> u \<longrightarrow> InMemoryJobRepository_slice r' t = InMemoryJobRepository_slice r t) \<and>
      ts_job (InMemoryJobRepository_slice r' u) = ts_job (InMemoryJobRepository_slice r u)"
    using inv by (auto simp: ops slice InMemoryJobRepository_replace_findings_def InMemoryJobRepository_inv_def
        InMemoryJobRepository_list_def InMemoryJobRepository_list_invocations_def bind_result_Inr_iff)
  show "jr_record_publication InMemoryJobRepository_ops r p = Inr r' \<Longrightarrow> InMemoryJobRepository_inv r' \<and>
      (\<forall>t. t \<noteq> pu_tenant_id p \<longrightarrow> InMemoryJobRepository_slice r' t = InMemoryJobRepository_slice r t) \<and>
      ts_job (InMemoryJobRepository_slice r' (pu_tenant_id p)) = ts_job (InMemoryJobRepository_slice r (pu_tenant_id p))"
    using inv by (auto simp: ops slice InMemoryJobRepository_record_publication_def InMemoryJobRepository_inv_def
        InMemoryJobRepository_list_def InMemoryJobRepository_list_invocations_def bind_result_Inr_iff)
qed


section \<open>Properties of the service\<close>

text \<open>
  Tenants are isolated in the system of record: no sequence of calls made for other tenants,
  whatever identifiers they name, changes any answer a tenant gets about a job, the list of its
  jobs, its evidence, findings, audit trail or publication.
\<close>

theorem other_tenants_change_nothing:
  assumes "InMemoryJobRepository_inv r" and "\<forall>op \<in> set ops. op_tenant op \<noteq> t"
    and "r' = service_run InMemoryJobRepository_ops r ops"
  shows "InMemoryJobRepository_get r' t j = InMemoryJobRepository_get r t j \<and>
    InMemoryJobRepository_list r' t = InMemoryJobRepository_list r t \<and>
    InMemoryJobRepository_list_evidence r' t j = InMemoryJobRepository_list_evidence r t j \<and>
    ResearchJobService_list_invocations InMemoryJobRepository_ops r' t j =
      ResearchJobService_list_invocations InMemoryJobRepository_ops r t j \<and>
    InMemoryJobRepository_list_findings r' t j = InMemoryJobRepository_list_findings r t j \<and>
    InMemoryJobRepository_get_publication r' t j = InMemoryJobRepository_get_publication r t j"
proof -
  have "InMemoryJobRepository_slice r' t = InMemoryJobRepository_slice r t"
    using mem_jobs.run_inv_other [OF assms(1,2)] assms(3) by blast
  then show ?thesis
    using mem_jobs.get_reads mem_jobs.list_reads mem_jobs.evidence_reads mem_jobs.invocations_reads
      mem_jobs.findings_reads mem_jobs.publication_reads
    by (simp add: InMemoryJobRepository_ops_def ResearchJobService_list_invocations_def)
qed

definition sample_command :: ResearchJobCreate where
  "sample_command = \<lparr>rjc_question = ''q'', rjc_constraints = [], rjc_source_requirements = [],
     rjc_budget = default_budget\<rparr>"

definition sample_store :: InMemoryJobRepository where
  "sample_store = InMemoryJobRepository_add InMemoryJobRepository_init
     (new_job 1 0 ''acme'' ''u'' sample_command AC_INTERNAL)"

lemma sample_store_inv: "InMemoryJobRepository_inv sample_store"
  by (simp add: sample_store_def InMemoryJobRepository_add_def InMemoryJobRepository_init_def
      InMemoryJobRepository_inv_def)

theorem other_tenants_change_nothing_witness:
  "InMemoryJobRepository_get (service_run InMemoryJobRepository_ops sample_store
     [OpTransition 5 ''evil'' 1 JS_FAILED None None, OpCreate 1 6 ''evil'' ''v'' sample_command AC_PUBLIC]) ''acme'' 1 =
   InMemoryJobRepository_get sample_store ''acme'' 1"
  using other_tenants_change_nothing [OF sample_store_inv, of
      "[OpTransition 5 ''evil'' 1 JS_FAILED None None, OpCreate 1 6 ''evil'' ''v'' sample_command AC_PUBLIC]" "''acme''"]
  by simp

text \<open>
  C14. Whatever calls are made, a stored job keeps its identity, its requester, question, budget
  and clearance, and its status only ever moves along allowed transitions; a completed, failed
  or partial job keeps its status for ever. Creating a job draws a fresh identifier.
\<close>

theorem job_status_follows_allowed_transitions:
  assumes inv: "InMemoryJobRepository_inv r" and job: "InMemoryJobRepository_get r t j = Inr job"
    and fresh: "\<forall>now u c a. OpCreate j now t u c a \<notin> set ops"
  shows "\<exists>job'. InMemoryJobRepository_get (service_run InMemoryJobRepository_ops r ops) t j = Inr job' \<and>
    same_commission job job' \<and> (rj_status job, rj_status job') \<in> {(a, b). b \<in> ALLOWED_TRANSITIONS a}\<^sup>* \<and>
    (rj_status job \<in> {JS_COMPLETED, JS_FAILED, JS_PARTIAL} \<longrightarrow> rj_status job' = rj_status job)"
proof -
  have get: "InMemoryJobRepository_get r t j = found_or j (ts_job (InMemoryJobRepository_slice r t) j)" for r
    using mem_jobs.get_reads by (simp add: InMemoryJobRepository_ops_def)
  have "ts_job (InMemoryJobRepository_slice r t) j = Some job" using job by (simp add: get)
  from mem_jobs.run_job [OF inv this fresh] obtain job' where j':
    "InMemoryJobRepository_get (service_run InMemoryJobRepository_ops r ops) t j = Inr job'"
    "same_commission job job'" "(rj_status job, rj_status job') \<in> {(a, b). b \<in> ALLOWED_TRANSITIONS a}\<^sup>*"
    by (auto simp: get)
  moreover have "rj_status job' = rj_status job" if "rj_status job \<in> {JS_COMPLETED, JS_FAILED, JS_PARTIAL}"
    using j'(3) that by (cases rule: converse_rtranclE) auto
  ultimately show ?thesis by blast
qed

theorem job_status_follows_allowed_transitions_witness:
  "\<exists>job'. InMemoryJobRepository_get (service_run InMemoryJobRepository_ops sample_store
     [OpTransition 5 ''acme'' 1 JS_COMPLETED None None, OpTransition 6 ''acme'' 1 JS_PLANNING None None]) ''acme'' 1 =
       Inr job' \<and> (JS_CREATED, rj_status job') \<in> {(a, b). b \<in> ALLOWED_TRANSITIONS a}\<^sup>*"
proof -
  have "InMemoryJobRepository_get sample_store ''acme'' 1 = Inr (new_job 1 0 ''acme'' ''u'' sample_command AC_INTERNAL)"
    by (simp add: sample_store_def InMemoryJobRepository_add_def InMemoryJobRepository_get_def)
  from job_status_follows_allowed_transitions [OF sample_store_inv this, of
      "[OpTransition 5 ''acme'' 1 JS_COMPLETED None None, OpTransition 6 ''acme'' 1 JS_PLANNING None None]"]
  show ?thesis by auto
qed

text \<open>
  A redelivered audit record is counted once: recording the same record again leaves the
  store unchanged, and the trail of a job never holds two records with one identifier.
\<close>

theorem audit_trail_is_idempotent:
  assumes "distinct (map ti_id (listed (im_invocations r) (t, j)))"
    and "r1 = InMemoryJobRepository_record_invocation r i"
  shows "InMemoryJobRepository_record_invocation r1 i = r1 \<and>
    distinct (map ti_id (InMemoryJobRepository_list_invocations r1 t j)) \<and>
    (\<exists>x \<in> set (InMemoryJobRepository_list_invocations r1 (ti_tenant_id i) (ti_job_id i)). ti_id x = ti_id i)"
proof -
  have upd: "dict_set k v (dict_set k v d) = dict_set k v d" for k :: job_key and v :: "ToolInvocation list" and d
    by (simp add: update_Some_unfold)
  have "distinct (map ti_id (sort_key ti_started_at xs)) \<longleftrightarrow> distinct (map ti_id xs)" for xs
    by (metis mset_eq_imp_distinct_iff mset_map mset_sort)
  with assms show ?thesis
    by (auto simp: InMemoryJobRepository_record_invocation_def InMemoryJobRepository_list_invocations_def
        Let_def list_ex_iff upd) blast
qed

theorem audit_trail_is_idempotent_witness:
  "InMemoryJobRepository_record_invocation
     (InMemoryJobRepository_record_invocation sample_store (record_denied_invocation 7 1 1 2 ''acme'' ''s'' ''c'' [] ''v''))
     (record_denied_invocation 7 1 1 2 ''acme'' ''s'' ''c'' [] ''v'') =
   InMemoryJobRepository_record_invocation sample_store (record_denied_invocation 7 1 1 2 ''acme'' ''s'' ''c'' [] ''v'')"
  using audit_trail_is_idempotent [of sample_store "''acme''" 1 _ "record_denied_invocation 7 1 1 2 ''acme'' ''s'' ''c'' [] ''v''"]
  by (simp add: sample_store_def InMemoryJobRepository_add_def InMemoryJobRepository_init_def listed_def)

end
