(* ===== verification/Registry.thy ===== *)
theory Registry
  imports Tasks
begin

text \<open>
  The identity a decision is made against (\<open>identity.py\<close>), the capability registry and its
  identity-scoped discovery (\<open>mcp/registry.py\<close>), and the default catalogue
  (\<open>mcp/catalogue.py\<close>).
\<close>

section \<open>Identity\<close>

datatype Role = R_REQUESTER | R_REVIEWER | R_ADMINISTRATOR

fun Role_value :: "Role \<Rightarrow> string" where
  "Role_value R_REQUESTER = ''requester''"
| "Role_value R_REVIEWER = ''reviewer''"
| "Role_value R_ADMINISTRATOR = ''administrator''"

definition Role_of :: "string \<Rightarrow> Role option" where
  "Role_of s = find (\<lambda>r. Role_value r = s) [R_REQUESTER, R_REVIEWER, R_ADMINISTRATOR]"

record Principal =
  pr_tenant_id :: string
  pr_subject_id :: string
  pr_roles :: "Role set"
  pr_agent_role :: "AgentRole option"
  pr_clearance :: AccessClass

text \<open>\<open>__post_init__\<close>: a principal belongs to a tenant and has a subject.\<close>

definition Principal_valid :: "Principal \<Rightarrow> bool" where
  "Principal_valid p \<longleftrightarrow> pr_tenant_id p \<noteq> [] \<and> pr_subject_id p \<noteq> []"

definition Principal_is_agent :: "Principal \<Rightarrow> bool" where
  "Principal_is_agent p \<longleftrightarrow> pr_agent_role p \<noteq> None"

definition Principal_has_any_role :: "Principal \<Rightarrow> Role set \<Rightarrow> bool" where
  "Principal_has_any_role p roles \<longleftrightarrow> pr_roles p \<inter> roles \<noteq> {}"

definition Principal_for_agent :: "Principal \<Rightarrow> AgentRole \<Rightarrow> Principal" where
  "Principal_for_agent p role =
     \<lparr>pr_tenant_id = pr_tenant_id p, pr_subject_id = pr_subject_id p, pr_roles = pr_roles p,
      pr_agent_role = Some role, pr_clearance = pr_clearance p\<rparr>"


section \<open>Capabilities\<close>

definition ALL_TENANTS :: string where
  "ALL_TENANTS = ''*''"

definition METADATA_ONLY_AGENTS :: "AgentRole set" where
  "METADATA_ONLY_AGENTS = {AR_PLANNER}"

text \<open>The \<open>Name\<close> of a server or capability: \<open>^[a-z0-9][a-z0-9_-]*$\<close>, at most 100 characters.\<close>

definition name_start :: "char \<Rightarrow> bool" where
  "name_start c \<longleftrightarrow> (let n = (of_char c :: nat) in 97 \<le> n \<and> n \<le> 122 \<or> 48 \<le> n \<and> n \<le> 57)"

definition name_char :: "char \<Rightarrow> bool" where
  "name_char c \<longleftrightarrow> name_start c \<or> c = CHR ''_'' \<or> c = CHR ''-''"

definition Name_valid :: "string \<Rightarrow> bool" where
  "Name_valid s \<longleftrightarrow> bounded_text 1 100 s \<and>
     (case s of [] \<Rightarrow> False | c # cs \<Rightarrow> name_start c \<and> list_all name_char cs)"

datatype CapabilityKind = CK_TOOL | CK_RESOURCE | CK_PROMPT

fun CapabilityKind_value :: "CapabilityKind \<Rightarrow> string" where
  "CapabilityKind_value CK_TOOL = ''tool''"
| "CapabilityKind_value CK_RESOURCE = ''resource''"
| "CapabilityKind_value CK_PROMPT = ''prompt''"

record Capability =
  cap_server :: string
  cap_name :: string
  cap_kind :: CapabilityKind
  cap_description :: string
  cap_required_roles :: "Role set"
  cap_allowed_agents :: "AgentRole set"
  cap_max_access_class :: AccessClass
  cap_side_effecting :: bool
  cap_requires_approval :: bool
  cap_tenant_scope :: "string set"
  cap_max_result_bytes :: int
  cap_timeout_seconds :: pyfloat

text \<open>The field constraints and the validator \<open>side_effecting_capabilities_need_approval\<close>.\<close>

definition Capability_valid :: "Capability \<Rightarrow> bool" where
  "Capability_valid c \<longleftrightarrow>
     Name_valid (cap_server c) \<and> Name_valid (cap_name c) \<and>
     bounded_text 1 500 (cap_description c) \<and>
     1024 \<le> cap_max_result_bytes c \<and> cap_max_result_bytes c \<le> 8388608 \<and>
     0 < cap_timeout_seconds c \<and> cap_timeout_seconds c \<le> 300 \<and>
     \<not> (cap_side_effecting c \<and> \<not> cap_requires_approval c) \<and>
     cap_tenant_scope c \<noteq> {}"

definition Capability_qualified_name :: "Capability \<Rightarrow> string" where
  "Capability_qualified_name c = cap_server c @ ''.'' @ cap_name c"

definition Capability_is_available_to_tenant :: "Capability \<Rightarrow> string \<Rightarrow> bool" where
  "Capability_is_available_to_tenant c tenant_id \<longleftrightarrow>
     ALL_TENANTS \<in> cap_tenant_scope c \<or> tenant_id \<in> cap_tenant_scope c"

definition Capability_is_visible_to :: "Capability \<Rightarrow> Principal \<Rightarrow> bool" where
  "Capability_is_visible_to c p =
     (if \<not> Capability_is_available_to_tenant c (pr_tenant_id p) then False
      else if \<not> clearance_covers (pr_clearance p) (cap_max_access_class c) then False
      else case pr_agent_role p of
             Some r \<Rightarrow> r \<in> cap_allowed_agents c \<or> r \<in> METADATA_ONLY_AGENTS
           | None \<Rightarrow> Principal_has_any_role p (cap_required_roles c))"

definition Capability_is_executable_by :: "Capability \<Rightarrow> Principal \<Rightarrow> bool" where
  "Capability_is_executable_by c p =
     (if \<not> Capability_is_visible_to c p then False
      else case pr_agent_role p of
             Some r \<Rightarrow> r \<in> cap_allowed_agents c
           | None \<Rightarrow> Principal_has_any_role p (cap_required_roles c))"


section \<open>The registry\<close>

type_synonym CapabilityRegistry = "(string \<times> string, Capability) dict"

datatype RegistryError = CapabilityNotFound string string | DuplicateCapability string

definition CapabilityRegistry_register ::
  "CapabilityRegistry \<Rightarrow> Capability \<Rightarrow> RegistryError + CapabilityRegistry" where
  "CapabilityRegistry_register reg c =
     (let key = (cap_server c, cap_name c) in
      if dict_get reg key \<noteq> None then Inl (DuplicateCapability (Capability_qualified_name c))
      else Inr (dict_set key c reg))"

text \<open>The constructor registers the given capabilities one after another.\<close>

fun CapabilityRegistry_register_all ::
  "CapabilityRegistry \<Rightarrow> Capability list \<Rightarrow> RegistryError + CapabilityRegistry" where
  "CapabilityRegistry_register_all reg [] = Inr reg"
| "CapabilityRegistry_register_all reg (c # cs) =
     (case CapabilityRegistry_register reg c of
        Inl e \<Rightarrow> Inl e | Inr reg' \<Rightarrow> CapabilityRegistry_register_all reg' cs)"

definition CapabilityRegistry_init :: "Capability list \<Rightarrow> RegistryError + CapabilityRegistry" where
  "CapabilityRegistry_init cs = CapabilityRegistry_register_all [] cs"

definition CapabilityRegistry_get ::
  "CapabilityRegistry \<Rightarrow> string \<Rightarrow> string \<Rightarrow> RegistryError + Capability" where
  "CapabilityRegistry_get reg server name =
     (case dict_get reg (server, name) of
        Some c \<Rightarrow> Inr c | None \<Rightarrow> Inl (CapabilityNotFound server name))"

definition CapabilityRegistry_resolve_for ::
  "CapabilityRegistry \<Rightarrow> Principal \<Rightarrow> string \<Rightarrow> string \<Rightarrow> RegistryError + Capability" where
  "CapabilityRegistry_resolve_for reg p server name =
     (case CapabilityRegistry_get reg server name of
        Inl e \<Rightarrow> Inl e
      | Inr c \<Rightarrow> if \<not> Capability_is_visible_to c p then Inl (CapabilityNotFound server name) else Inr c)"

definition CapabilityRegistry_discover :: "CapabilityRegistry \<Rightarrow> Principal \<Rightarrow> Capability list" where
  "CapabilityRegistry_discover reg p =
     sort_key Capability_qualified_name
       (filter (\<lambda>c. Capability_is_visible_to c p) (dict_values reg))"

definition CapabilityRegistry_servers :: "CapabilityRegistry \<Rightarrow> string list" where
  "CapabilityRegistry_servers reg = sorted_list_of_set (set (map cap_server (dict_values reg)))"

definition CapabilityRegistry_len :: "CapabilityRegistry \<Rightarrow> nat" where
  "CapabilityRegistry_len reg = length reg"


section \<open>The default catalogue\<close>

definition RESEARCHERS :: "AgentRole set" where "RESEARCHERS = {AR_RESEARCHER}"
definition ANALYSTS :: "AgentRole set" where "ANALYSTS = {AR_ANALYST}"
definition EVIDENCE_READERS :: "AgentRole set" where "EVIDENCE_READERS = {AR_CRITIC, AR_REPORTER}"
definition OPERATORS :: "Role set" where "OPERATORS = {R_REQUESTER, R_REVIEWER, R_ADMINISTRATOR}"
definition ADMINISTRATORS :: "Role set" where "ADMINISTRATORS = {R_ADMINISTRATOR}"

text \<open>A capability with every field the catalogue leaves out at its default.\<close>

definition Capability_default :: "string \<Rightarrow> string \<Rightarrow> string \<Rightarrow> Capability" where
  "Capability_default server name description =
     \<lparr>cap_server = server, cap_name = name, cap_kind = CK_TOOL, cap_description = description,
      cap_required_roles = {R_REQUESTER}, cap_allowed_agents = {}, cap_max_access_class = AC_PUBLIC,
      cap_side_effecting = False, cap_requires_approval = False, cap_tenant_scope = {ALL_TENANTS},
      cap_max_result_bytes = 262144, cap_timeout_seconds = 30\<rparr>"

definition WEB_RESEARCH :: "Capability list" where
  "WEB_RESEARCH =
    [(Capability_default ''web-research'' ''search''
        ''Search approved public sources for candidate documents.'')
       \<lparr>cap_required_roles := OPERATORS, cap_allowed_agents := RESEARCHERS,
        cap_max_result_bytes := 131072, cap_timeout_seconds := 20\<rparr>,
     (Capability_default ''web-research'' ''fetch''
        ''Fetch and extract readable text from an approved public URL.'')
       \<lparr>cap_required_roles := OPERATORS, cap_allowed_agents := RESEARCHERS,
        cap_max_result_bytes := 524288, cap_timeout_seconds := 30\<rparr>]"

definition FILESYSTEM :: "Capability list" where
  "FILESYSTEM =
    [(Capability_default ''filesystem'' ''list_workspace''
        ''List readable files inside the tenant workspace root.'')
       \<lparr>cap_kind := CK_RESOURCE, cap_required_roles := OPERATORS, cap_allowed_agents := RESEARCHERS,
        cap_max_access_class := AC_INTERNAL, cap_max_result_bytes := 65536\<rparr>,
     (Capability_default ''filesystem'' ''read_document''
        ''Read one approved document from the tenant workspace root.'')
       \<lparr>cap_kind := CK_RESOURCE, cap_required_roles := OPERATORS,
        cap_allowed_agents := RESEARCHERS \<union> EVIDENCE_READERS,
        cap_max_access_class := AC_INTERNAL, cap_max_result_bytes := 524288\<rparr>]"

definition POSTGRES :: "Capability list" where
  "POSTGRES =
    [(Capability_default ''postgres'' ''describe_schema''
        ''Inspect tables and columns exposed to the tenant read-only role.'')
       \<lparr>cap_kind := CK_RESOURCE, cap_required_roles := OPERATORS,
        cap_allowed_agents := RESEARCHERS \<union> ANALYSTS,
        cap_max_access_class := AC_INTERNAL, cap_max_result_bytes := 65536\<rparr>,
     (Capability_default ''postgres'' ''run_analytical_query''
        ''Run one parsed read-only query against the tenant analytical schema.'')
       \<lparr>cap_required_roles := OPERATORS, cap_allowed_agents := ANALYSTS,
        cap_max_access_class := AC_RESTRICTED, cap_requires_approval := True,
        cap_max_result_bytes := 1048576, cap_timeout_seconds := 60\<rparr>]"

definition GITHUB :: "Capability list" where
  "GITHUB =
    [(Capability_default ''github'' ''read_repository''
        ''Read files and metadata from an allowlisted repository.'')
       \<lparr>cap_required_roles := OPERATORS, cap_allowed_agents := RESEARCHERS,
        cap_max_access_class := AC_INTERNAL, cap_max_result_bytes := 524288\<rparr>,
     (Capability_default ''github'' ''read_pull_requests''
        ''Read pull request and issue metadata from an allowlisted repository.'')
       \<lparr>cap_required_roles := OPERATORS, cap_allowed_agents := RESEARCHERS,
        cap_max_access_class := AC_INTERNAL, cap_max_result_bytes := 262144\<rparr>]"

definition PYTHON_ANALYSIS :: "Capability list" where
  "PYTHON_ANALYSIS =
    [(Capability_default ''python-analysis'' ''run_calculation''
        ''Run a reproducible calculation in a network-isolated sandbox.'')
       \<lparr>cap_required_roles := OPERATORS, cap_allowed_agents := ANALYSTS,
        cap_max_result_bytes := 262144, cap_timeout_seconds := 60\<rparr>]"

definition EVIDENCE :: "Capability list" where
  "EVIDENCE =
    [(Capability_default ''evidence'' ''retrieve''
        ''Retrieve recorded evidence for a job by identifier.'')
       \<lparr>cap_kind := CK_RESOURCE, cap_required_roles := OPERATORS,
        cap_allowed_agents := EVIDENCE_READERS \<union> ANALYSTS,
        cap_max_access_class := AC_INTERNAL, cap_max_result_bytes := 524288\<rparr>]"

definition ADMINISTRATION :: "Capability list" where
  "ADMINISTRATION =
    [(Capability_default ''registry'' ''reload_policy''
        ''Reload the authorization policy bundle across MCP services.'')
       \<lparr>cap_required_roles := ADMINISTRATORS, cap_side_effecting := True,
        cap_requires_approval := True, cap_max_access_class := AC_RESTRICTED\<rparr>]"

definition DEFAULT_CAPABILITIES :: "Capability list" where
  "DEFAULT_CAPABILITIES =
     WEB_RESEARCH @ FILESYSTEM @ POSTGRES @ GITHUB @ PYTHON_ANALYSIS @ EVIDENCE @ ADMINISTRATION"

definition default_registry :: "RegistryError + CapabilityRegistry" where
  "default_registry = CapabilityRegistry_init DEFAULT_CAPABILITIES"


section \<open>Visibility and execution\<close>

lemma executable_visible: "Capability_is_executable_by c p \<Longrightarrow> Capability_is_visible_to c p"
  by (simp add: Capability_is_executable_by_def split: if_splits)

lemma visible_bounds:
  "Capability_is_visible_to c p \<Longrightarrow>
   Capability_is_available_to_tenant c (pr_tenant_id p) \<and>
   clearance_covers (pr_clearance p) (cap_max_access_class c)"
  by (simp add: Capability_is_visible_to_def split: if_splits)

lemma planner_never_executes:
  "pr_agent_role p = Some AR_PLANNER \<Longrightarrow> AR_PLANNER \<notin> cap_allowed_agents c \<Longrightarrow>
   \<not> Capability_is_executable_by c p"
  by (simp add: Capability_is_executable_by_def)

text \<open>
  The invariant of a registry: every entry stands under its own server and name, once, and
  is a capability the model accepts.
\<close>

definition registry_inv :: "CapabilityRegistry \<Rightarrow> bool" where
  "registry_inv reg \<longleftrightarrow> dict_wf reg \<and>
     (\<forall>(k, c) \<in> set reg. k = (cap_server c, cap_name c) \<and> Capability_valid c)"

lemma registry_inv_empty [simp, intro]: "registry_inv []"
  by (simp add: registry_inv_def)

lemma register_Inr:
  "CapabilityRegistry_register reg c = Inr reg' \<Longrightarrow>
   dict_get reg (cap_server c, cap_name c) = None \<and> reg' = reg @ [((cap_server c, cap_name c), c)]"
  by (auto simp: CapabilityRegistry_register_def Let_def dict_set_new split: if_splits)

lemma register_inv [inv_rules]:
  assumes "registry_inv reg" "Capability_valid c" "CapabilityRegistry_register reg c = Inr reg'"
  shows "registry_inv reg'"
proof -
  have "dict_wf reg'" using assms register_Inr [OF assms(3)]
    by (metis dict_set_new dict_wf_set registry_inv_def)
  with assms register_Inr [OF assms(3)] show ?thesis by (auto simp: registry_inv_def)
qed

lemma register_all_inv:
  "registry_inv reg \<Longrightarrow> list_all Capability_valid cs \<Longrightarrow>
   CapabilityRegistry_register_all reg cs = Inr reg' \<Longrightarrow>
   registry_inv reg' \<and> dict_values reg' = dict_values reg @ cs"
proof (induction reg cs rule: CapabilityRegistry_register_all.induct)
  case (2 reg c cs)
  then obtain reg1 where r: "CapabilityRegistry_register reg c = Inr reg1"
    "CapabilityRegistry_register_all reg1 cs = Inr reg'" by (auto split: sum.splits)
  with 2 have "registry_inv reg' \<and> dict_values reg' = dict_values reg1 @ cs"
    by (auto intro: register_inv)
  with register_Inr [OF r(1)] show ?case by simp
qed simp

lemma registry_get_iff:
  assumes "registry_inv reg"
  shows "CapabilityRegistry_get reg server name = Inr c \<longleftrightarrow>
    c \<in> set (dict_values reg) \<and> cap_server c = server \<and> cap_name c = name"
proof -
  have "dict_get reg (server, name) = Some c \<longleftrightarrow> ((server, name), c) \<in> set reg"
    using assms by (auto simp: registry_inv_def dict_wf_def)
  also have "\<dots> \<longleftrightarrow> c \<in> set (dict_values reg) \<and> cap_server c = server \<and> cap_name c = name"
    using assms by (force simp: registry_inv_def)
  finally show ?thesis by (auto simp: CapabilityRegistry_get_def split: option.splits)
qed

lemma resolve_for_Inr_iff:
  "CapabilityRegistry_resolve_for reg p server name = Inr c \<longleftrightarrow>
   CapabilityRegistry_get reg server name = Inr c \<and> Capability_is_visible_to c p"
  by (cases "CapabilityRegistry_get reg server name") (auto simp: CapabilityRegistry_resolve_for_def)

lemma resolve_for_server:
  "registry_inv reg \<Longrightarrow> CapabilityRegistry_resolve_for reg p server name = Inr c \<Longrightarrow> cap_server c = server"
  by (simp add: resolve_for_Inr_iff registry_get_iff)

lemma set_discover:
  "set (CapabilityRegistry_discover reg p) = {c \<in> set (dict_values reg). Capability_is_visible_to c p}"
  by (auto simp: CapabilityRegistry_discover_def)

lemma discover_distinct:
  assumes "registry_inv reg"
  shows "distinct (CapabilityRegistry_discover reg p)"
proof -
  have "map fst reg = map (\<lambda>c. (cap_server c, cap_name c)) (dict_values reg)"
    using assms by (auto simp: registry_inv_def)
  moreover have "distinct (map fst reg)" using assms by (simp add: registry_inv_def dict_wf_def)
  ultimately have "distinct (map (\<lambda>c. (cap_server c, cap_name c)) (dict_values reg))" by (simp only:)
  then have "distinct (dict_values reg)" by (simp only: distinct_map)
  then show ?thesis by (simp add: CapabilityRegistry_discover_def)
qed

text \<open>
  Resolving a capability and discovering it agree: a caller resolves exactly what discovery
  lists for them, and for anything else, registered or not, gets the same answer, that it is
  not registered. What they do see is offered to their tenant, within their clearance, and
  listed once, in order of qualified name.
\<close>

theorem resolve_agrees_with_discovery:
  assumes "registry_inv reg"
  shows "(\<forall>c. CapabilityRegistry_resolve_for reg p server name = Inr c \<longleftrightarrow>
            c \<in> set (CapabilityRegistry_discover reg p) \<and> cap_server c = server \<and> cap_name c = name)
     \<and> (CapabilityRegistry_resolve_for reg p server name = Inl (CapabilityNotFound server name) \<or>
        (\<exists>c. CapabilityRegistry_resolve_for reg p server name = Inr c))
     \<and> (\<forall>c \<in> set (CapabilityRegistry_discover reg p).
          Capability_is_available_to_tenant c (pr_tenant_id p) \<and>
          cap_max_access_class c \<le> pr_clearance p)
     \<and> distinct (CapabilityRegistry_discover reg p)
     \<and> sorted (map Capability_qualified_name (CapabilityRegistry_discover reg p))"
proof (intro conjI)
  show "\<forall>c. CapabilityRegistry_resolve_for reg p server name = Inr c \<longleftrightarrow>
      c \<in> set (CapabilityRegistry_discover reg p) \<and> cap_server c = server \<and> cap_name c = name"
    by (simp add: resolve_for_Inr_iff registry_get_iff [OF assms] set_discover conj_ac)
  show "CapabilityRegistry_resolve_for reg p server name = Inl (CapabilityNotFound server name) \<or>
      (\<exists>c. CapabilityRegistry_resolve_for reg p server name = Inr c)"
    by (auto simp: CapabilityRegistry_resolve_for_def CapabilityRegistry_get_def
        split: option.splits sum.splits)
  show "\<forall>c \<in> set (CapabilityRegistry_discover reg p).
      Capability_is_available_to_tenant c (pr_tenant_id p) \<and> cap_max_access_class c \<le> pr_clearance p"
    using visible_bounds by (simp add: set_discover clearance_covers_le)
  show "distinct (CapabilityRegistry_discover reg p)" by (rule discover_distinct [OF assms])
  show "sorted (map Capability_qualified_name (CapabilityRegistry_discover reg p))"
    by (simp add: CapabilityRegistry_discover_def)
qed

lemma default_capabilities_valid: "list_all Capability_valid DEFAULT_CAPABILITIES"
  by (simp add: DEFAULT_CAPABILITIES_def WEB_RESEARCH_def FILESYSTEM_def POSTGRES_def GITHUB_def
      PYTHON_ANALYSIS_def EVIDENCE_def ADMINISTRATION_def Capability_default_def Capability_valid_def
      Name_valid_def bounded_text_def name_start_def name_char_def)

lemma default_registry_ok: "\<exists>reg. default_registry = Inr reg"
  by (simp add: default_registry_def CapabilityRegistry_init_def DEFAULT_CAPABILITIES_def
      WEB_RESEARCH_def FILESYSTEM_def POSTGRES_def GITHUB_def PYTHON_ANALYSIS_def EVIDENCE_def
      ADMINISTRATION_def Capability_default_def CapabilityRegistry_register_def Let_def)

lemma default_registry_inv: "default_registry = Inr reg \<Longrightarrow> registry_inv reg"
  using register_all_inv [OF registry_inv_empty default_capabilities_valid]
  by (simp add: default_registry_def CapabilityRegistry_init_def)

theorem resolve_agrees_with_discovery_witness:
  "\<exists>reg. default_registry = Inr reg \<and> registry_inv reg \<and>
     sorted (map Capability_qualified_name (CapabilityRegistry_discover reg
       \<lparr>pr_tenant_id = ''acme'', pr_subject_id = ''u'', pr_roles = {R_REQUESTER},
        pr_agent_role = None, pr_clearance = AC_INTERNAL\<rparr>))"
proof -
  obtain reg where "default_registry = Inr reg" using default_registry_ok by blast
  then show ?thesis
    using resolve_agrees_with_discovery [OF default_registry_inv] default_registry_inv by blast
qed

end
