(* ===== verification/Breaker.thy ===== *)
theory Breaker
  imports Models
begin

text \<open>
  Circuit breaking per server and budget accounting per job (\<open>mcp/breaker.py\<close>). The two
  protocols \<open>Breaker\<close> and \<open>Budgets\<close> are records of operations over a state; the contract each
  promises is a locale, and the in-memory \<open>CircuitBreaker\<close> and \<open>BudgetLedger\<close> interpret them. A
  clock is passed as the reading an operation takes from it.
\<close>

section \<open>The protocols\<close>

datatype CircuitState = CS_CLOSED | CS_OPEN | CS_HALF_OPEN

datatype BreakerError =
    CircuitOpen string datetime
  | CircuitStoreUnavailable string
  | CircuitAssertion

datatype LimitError =
    BudgetExhausted uuid pyfloat string
  | LimitStoreUnavailable string
  | NegativeUsage

record agent_spend =
  sp_prompt_tokens :: int
  sp_completion_tokens :: int
  sp_cost_usd :: pyfloat
  sp_active_seconds :: pyfloat
  sp_corrections :: int

text \<open>
  \<open>Breaker\<close>: an operation that looks at a circuit may also move it to half open, so each
  returns the state after it. \<open>record_failure\<close> and \<open>ensure_closed\<close> may raise.
\<close>

record 'c Breaker =
  br_state_of :: "'c \<Rightarrow> string \<Rightarrow> datetime \<Rightarrow> (BreakerError + CircuitState) \<times> 'c"
  br_ensure_closed :: "'c \<Rightarrow> string \<Rightarrow> datetime \<Rightarrow> (BreakerError + unit) \<times> 'c"
  br_record_success :: "'c \<Rightarrow> string \<Rightarrow> 'c"
  br_record_failure :: "'c \<Rightarrow> string \<Rightarrow> datetime \<Rightarrow> (BreakerError + unit) \<times> 'c"

record 'b Budgets =
  bg_usage :: "'b \<Rightarrow> uuid \<Rightarrow> LimitError + JobUsage"
  bg_remaining_calls :: "'b \<Rightarrow> uuid \<Rightarrow> ResearchBudget \<Rightarrow> LimitError + int"
  bg_reserve_call :: "'b \<Rightarrow> uuid \<Rightarrow> ResearchBudget \<Rightarrow> (LimitError + int) \<times> 'b"
  bg_ensure_within :: "'b \<Rightarrow> uuid \<Rightarrow> ResearchBudget \<Rightarrow> LimitError + unit"
  bg_record_agent_call :: "'b \<Rightarrow> uuid \<Rightarrow> agent_spend \<Rightarrow> (LimitError + JobUsage) \<times> 'b"


section \<open>The in-memory circuit breaker\<close>

record Circuit =
  ci_failures :: int
  ci_state :: CircuitState
  ci_opened_at :: "datetime option"

definition Circuit_new :: Circuit where
  "Circuit_new = \<lparr>ci_failures = 0, ci_state = CS_CLOSED, ci_opened_at = None\<rparr>"

record CircuitBreaker =
  cb_failure_threshold :: int
  cb_cooldown :: timedelta
  cb_circuits :: "(string, Circuit) dict"

definition CircuitBreaker_init :: "int \<Rightarrow> timedelta \<Rightarrow> string + CircuitBreaker" where
  "CircuitBreaker_init failure_threshold cooldown =
     (if failure_threshold < 1 then Inl ''failure_threshold must be at least 1''
      else Inr \<lparr>cb_failure_threshold = failure_threshold, cb_cooldown = cooldown, cb_circuits = []\<rparr>)"

definition CircuitBreaker_put :: "CircuitBreaker \<Rightarrow> string \<Rightarrow> Circuit \<Rightarrow> CircuitBreaker" where
  "CircuitBreaker_put b server c = b\<lparr>cb_circuits := dict_set server c (cb_circuits b)\<rparr>"

text \<open>
  \<open>_refresh\<close>: a circuit that has rested for the cooldown becomes half open. The circuit object is
  changed in place, so a remembered one is changed in the table too.
\<close>

definition CircuitBreaker_refresh ::
  "CircuitBreaker \<Rightarrow> string \<Rightarrow> datetime \<Rightarrow> (BreakerError + Circuit) \<times> CircuitBreaker" where
  "CircuitBreaker_refresh b server now =
     (case dict_get (cb_circuits b) server of
        None \<Rightarrow> (Inr Circuit_new, b)
      | Some c \<Rightarrow>
          if ci_state c = CS_OPEN then
            (case ci_opened_at c of
               None \<Rightarrow> (Inl CircuitAssertion, b)
             | Some t \<Rightarrow>
                 if now - t \<ge> cb_cooldown b
                 then (let c' = c\<lparr>ci_state := CS_HALF_OPEN\<rparr> in (Inr c', CircuitBreaker_put b server c'))
                 else (Inr c, b))
          else (Inr c, b))"

definition CircuitBreaker_state_of ::
  "CircuitBreaker \<Rightarrow> string \<Rightarrow> datetime \<Rightarrow> (BreakerError + CircuitState) \<times> CircuitBreaker" where
  "CircuitBreaker_state_of b server now =
     (case CircuitBreaker_refresh b server now of
        (Inl e, b') \<Rightarrow> (Inl e, b') | (Inr c, b') \<Rightarrow> (Inr (ci_state c), b'))"

definition CircuitBreaker_ensure_closed ::
  "CircuitBreaker \<Rightarrow> string \<Rightarrow> datetime \<Rightarrow> (BreakerError + unit) \<times> CircuitBreaker" where
  "CircuitBreaker_ensure_closed b server now =
     (case CircuitBreaker_refresh b server now of
        (Inl e, b') \<Rightarrow> (Inl e, b')
      | (Inr c, b') \<Rightarrow>
          (if ci_state c = CS_OPEN
           then (case ci_opened_at c of
                   None \<Rightarrow> Inl CircuitAssertion
                 | Some t \<Rightarrow> Inl (CircuitOpen server (t + cb_cooldown b')))
           else Inr (), b'))"

definition CircuitBreaker_record_success :: "CircuitBreaker \<Rightarrow> string \<Rightarrow> CircuitBreaker" where
  "CircuitBreaker_record_success b server = CircuitBreaker_put b server Circuit_new"

text \<open>
  \<open>record_failure\<close> reads the clock once to refresh the circuit and once more to stamp the moment
  it opened.
\<close>

definition CircuitBreaker_record_failure ::
  "CircuitBreaker \<Rightarrow> string \<Rightarrow> datetime \<Rightarrow> datetime \<Rightarrow> (BreakerError + unit) \<times> CircuitBreaker" where
  "CircuitBreaker_record_failure b server now opened =
     (case CircuitBreaker_refresh b server now of
        (Inl e, b') \<Rightarrow> (Inl e, b')
      | (Inr c, b') \<Rightarrow>
          if ci_state c = CS_HALF_OPEN
          then (Inr (), CircuitBreaker_put b' server
                  \<lparr>ci_failures = cb_failure_threshold b', ci_state = CS_OPEN, ci_opened_at = Some opened\<rparr>)
          else
            (let c1 = c\<lparr>ci_failures := ci_failures c + 1\<rparr>;
                 c2 = (if ci_failures c1 \<ge> cb_failure_threshold b'
                       then c1\<lparr>ci_state := CS_OPEN, ci_opened_at := Some opened\<rparr> else c1)
             in (Inr (), CircuitBreaker_put b' server c2)))"

text \<open>\<open>states\<close>: every remembered server, refreshed one after another.\<close>

fun CircuitBreaker_states_of ::
  "CircuitBreaker \<Rightarrow> string list \<Rightarrow> datetime \<Rightarrow> (BreakerError + (string \<times> CircuitState) list) \<times> CircuitBreaker" where
  "CircuitBreaker_states_of b [] now = (Inr [], b)"
| "CircuitBreaker_states_of b (s # ss) now =
     (case CircuitBreaker_refresh b s now of
        (Inl e, b') \<Rightarrow> (Inl e, b')
      | (Inr c, b') \<Rightarrow>
          (case CircuitBreaker_states_of b' ss now of
             (Inl e, b'') \<Rightarrow> (Inl e, b'') | (Inr rest, b'') \<Rightarrow> (Inr ((s, ci_state c) # rest), b'')))"

definition CircuitBreaker_states ::
  "CircuitBreaker \<Rightarrow> datetime \<Rightarrow> (BreakerError + (string \<times> CircuitState) list) \<times> CircuitBreaker" where
  "CircuitBreaker_states b now = CircuitBreaker_states_of b (map fst (cb_circuits b)) now"

definition CircuitBreaker_ops :: "CircuitBreaker Breaker" where
  "CircuitBreaker_ops =
     \<lparr>br_state_of = CircuitBreaker_state_of, br_ensure_closed = CircuitBreaker_ensure_closed,
      br_record_success = CircuitBreaker_record_success,
      br_record_failure = (\<lambda>b server now. CircuitBreaker_record_failure b server now now)\<rparr>"


section \<open>The in-memory budget ledger\<close>

type_synonym BudgetLedger = "(uuid, JobUsage) dict"

definition BudgetLedger_usage :: "BudgetLedger \<Rightarrow> uuid \<Rightarrow> JobUsage" where
  "BudgetLedger_usage l job_id = (case dict_get l job_id of Some u \<Rightarrow> u | None \<Rightarrow> JobUsage_zero)"

definition BudgetLedger_remaining_calls :: "BudgetLedger \<Rightarrow> uuid \<Rightarrow> ResearchBudget \<Rightarrow> int" where
  "BudgetLedger_remaining_calls l job_id budget =
     max 0 (max_tool_calls budget - tool_calls (BudgetLedger_usage l job_id))"

text \<open>\<open>setdefault\<close> remembers the job even when the call is then refused.\<close>

definition BudgetLedger_reserve_call ::
  "BudgetLedger \<Rightarrow> uuid \<Rightarrow> ResearchBudget \<Rightarrow> (LimitError + int) \<times> BudgetLedger" where
  "BudgetLedger_reserve_call l job_id budget =
     (let recorded = BudgetLedger_usage l job_id in
      if tool_calls recorded \<ge> max_tool_calls budget
      then (Inl (BudgetExhausted job_id (of_int (max_tool_calls budget)) ''tool-call''),
            dict_set job_id recorded l)
      else (let recorded' = recorded\<lparr>tool_calls := tool_calls recorded + 1\<rparr>
            in (Inr (tool_calls recorded'), dict_set job_id recorded' l)))"

text \<open>The checks of \<open>ensure_within\<close>, in the order the code makes them.\<close>

definition check_spent :: "uuid \<Rightarrow> JobUsage \<Rightarrow> ResearchBudget \<Rightarrow> LimitError + unit" where
  "check_spent job_id spent budget =
     (if total_tokens spent \<ge> max_tokens budget
      then Inl (BudgetExhausted job_id (of_int (max_tokens budget)) ''token'')
      else if cost_usd spent \<ge> max_cost_usd budget
      then Inl (BudgetExhausted job_id (max_cost_usd budget) ''USD cost'')
      else if active_seconds spent \<ge> of_int (max_runtime_seconds budget)
      then Inl (BudgetExhausted job_id (of_int (max_runtime_seconds budget)) ''second runtime'')
      else Inr ())"

definition BudgetLedger_ensure_within ::
  "BudgetLedger \<Rightarrow> uuid \<Rightarrow> ResearchBudget \<Rightarrow> LimitError + unit" where
  "BudgetLedger_ensure_within l job_id budget = check_spent job_id (BudgetLedger_usage l job_id) budget"

definition spend_negative :: "agent_spend \<Rightarrow> bool" where
  "spend_negative s \<longleftrightarrow> sp_prompt_tokens s < 0 \<or> sp_completion_tokens s < 0 \<or> sp_cost_usd s < 0 \<or>
     sp_active_seconds s < 0 \<or> sp_corrections s < 0"

definition add_spend :: "agent_spend \<Rightarrow> JobUsage \<Rightarrow> JobUsage" where
  "add_spend s u = u\<lparr>agent_calls := agent_calls u + 1,
     schema_corrections := schema_corrections u + sp_corrections s,
     prompt_tokens := prompt_tokens u + sp_prompt_tokens s,
     completion_tokens := completion_tokens u + sp_completion_tokens s,
     cost_usd := cost_usd u + sp_cost_usd s,
     active_seconds := active_seconds u + sp_active_seconds s\<rparr>"

definition BudgetLedger_record_agent_call ::
  "BudgetLedger \<Rightarrow> uuid \<Rightarrow> agent_spend \<Rightarrow> (LimitError + JobUsage) \<times> BudgetLedger" where
  "BudgetLedger_record_agent_call l job_id spend =
     (if spend_negative spend then (Inl NegativeUsage, l)
      else (let recorded = add_spend spend (BudgetLedger_usage l job_id)
            in (Inr recorded, dict_set job_id recorded l)))"

definition BudgetLedger_record_cost ::
  "BudgetLedger \<Rightarrow> uuid \<Rightarrow> pyfloat \<Rightarrow> (LimitError + unit) \<times> BudgetLedger" where
  "BudgetLedger_record_cost l job_id cost =
     (if cost < 0 then (Inl NegativeUsage, l)
      else (let u = BudgetLedger_usage l job_id
            in (Inr (), dict_set job_id (u\<lparr>cost_usd := cost_usd u + cost\<rparr>) l)))"

definition BudgetLedger_ops :: "BudgetLedger Budgets" where
  "BudgetLedger_ops =
     \<lparr>bg_usage = (\<lambda>l j. Inr (BudgetLedger_usage l j)),
      bg_remaining_calls = (\<lambda>l j bud. Inr (BudgetLedger_remaining_calls l j bud)),
      bg_reserve_call = BudgetLedger_reserve_call,
      bg_ensure_within = BudgetLedger_ensure_within,
      bg_record_agent_call = BudgetLedger_record_agent_call\<rparr>"


section \<open>The contract of a circuit breaker\<close>

text \<open>
  What a caller can know of a server's circuit at a moment: failures are being counted, the
  server is rested since some moment, or the next call is a probe.
\<close>

datatype circuit_view = Counting int | Rested datetime | Probing

definition settle :: "timedelta \<Rightarrow> datetime \<Rightarrow> circuit_view \<Rightarrow> circuit_view" where
  "settle cooldown now v = (case v of Rested t \<Rightarrow> if now - t \<ge> cooldown then Probing else v | _ \<Rightarrow> v)"

definition count_failure :: "int \<Rightarrow> datetime \<Rightarrow> circuit_view \<Rightarrow> circuit_view" where
  "count_failure thr now v =
     (case v of Counting n \<Rightarrow> if n + 1 \<ge> thr then Rested now else Counting (n + 1) | _ \<Rightarrow> Rested now)"

definition admission :: "timedelta \<Rightarrow> string \<Rightarrow> circuit_view \<Rightarrow> BreakerError + unit" where
  "admission cooldown server v =
     (case v of Rested t \<Rightarrow> Inl (CircuitOpen server (t + cooldown)) | _ \<Rightarrow> Inr ())"

lemma settle_simps [simp]:
  "settle cd now (Counting n) = Counting n" "settle cd now Probing = Probing"
  "now - t \<ge> cd \<Longrightarrow> settle cd now (Rested t) = Probing"
  "now - t < cd \<Longrightarrow> settle cd now (Rested t) = Rested t"
  by (simp_all add: settle_def)

fun record_failures :: "'c Breaker \<Rightarrow> 'c \<Rightarrow> string \<Rightarrow> datetime list \<Rightarrow> 'c" where
  "record_failures ops c s [] = c"
| "record_failures ops c s (t # ts) = record_failures ops (snd (br_record_failure ops c s t)) s ts"

locale circuit_port =
  fixes ops :: "'c Breaker"
    and thr :: int and cooldown :: timedelta
    and inv :: "'c \<Rightarrow> bool" and up :: "'c \<Rightarrow> bool"
    and view :: "'c \<Rightarrow> datetime \<Rightarrow> string \<Rightarrow> circuit_view"
  assumes cooldown_pos: "0 < cooldown"
    and view_later: "inv c \<Longrightarrow> now \<le> later \<Longrightarrow> view c later s = settle cooldown later (view c now s)"
    and ensure_closed_up: "inv c \<Longrightarrow> up c \<Longrightarrow>
      \<exists>c'. br_ensure_closed ops c s now = (admission cooldown s (view c now s), c') \<and>
        inv c' \<and> up c' \<and> view c' now = view c now"
    and ensure_closed_down: "inv c \<Longrightarrow> \<not> up c \<Longrightarrow>
      \<exists>e. br_ensure_closed ops c s now = (Inl e, c)"
    and success_up: "inv c \<Longrightarrow> up c \<Longrightarrow> inv (br_record_success ops c s) \<and> up (br_record_success ops c s) \<and>
      view (br_record_success ops c s) now = (view c now)(s := Counting 0)"
    and failure_up: "inv c \<Longrightarrow> up c \<Longrightarrow> \<exists>c'. br_record_failure ops c s now = (Inr (), c') \<and> inv c' \<and> up c' \<and>
      view c' now = (view c now)(s := count_failure thr now (view c now s))"
begin

lemma record_failures_inv: "inv c \<Longrightarrow> up c \<Longrightarrow> inv (record_failures ops c s ts) \<and> up (record_failures ops c s ts)"
proof (induction ts arbitrary: c)
  case (Cons t ts)
  from failure_up [OF Cons.prems, of s t] show ?case using Cons.IH by auto
qed simp

text \<open>Failures below the threshold are counted, and the one that reaches it rests the server.\<close>

lemma record_failures_count:
  "inv c \<Longrightarrow> up c \<Longrightarrow> view c t s = Counting k \<Longrightarrow> sorted (t # ts) \<Longrightarrow> k + int (length ts) < thr \<Longrightarrow>
   view (record_failures ops c s ts) (last (t # ts)) s = Counting (k + int (length ts))"
proof (induction ts arbitrary: c t k)
  case (Cons u us)
  obtain c' where c': "br_record_failure ops c s u = (Inr (), c')" "inv c'" "up c'"
    "view c' u = (view c u)(s := count_failure thr u (view c u s))"
    using failure_up [OF Cons.prems(1,2)] by blast
  have "view c u s = Counting k"
    using view_later [OF Cons.prems(1), of t u s] Cons.prems(3,4) by simp
  then have "view c' u s = Counting (k + 1)"
    using c'(4) Cons.prems(5) by (simp add: count_failure_def)
  from Cons.IH [OF c'(2,3) this] Cons.prems(4,5) c'(1) show ?case by simp
qed simp

lemma record_failures_rest:
  assumes "inv c" "up c" "view c t s = Counting k" "sorted (t # ts)" "ts \<noteq> []" "k + int (length ts) = thr"
  shows "view (record_failures ops c s ts) (last ts) s = Rested (last ts)"
proof -
  obtain us u where ts: "ts = us @ [u]" using assms(5) by (metis rev_exhaust)
  have split: "record_failures ops c s (us @ [u]) =
      snd (br_record_failure ops (record_failures ops c s us) s u)" for c
    by (induction us arbitrary: c) auto
  let ?c = "record_failures ops c s us"
  have inv: "inv ?c" "up ?c" using record_failures_inv [OF assms(1,2)] by auto
  have "view ?c (last (t # us)) s = Counting (k + int (length us))"
    using record_failures_count [OF assms(1-3)] assms(4,6) ts by (auto simp: sorted_append)
  moreover have "last (t # us) \<le> u" using assms(4) ts by (auto simp: sorted_append last_in_set)
  ultimately have "view ?c u s = Counting (k + int (length us))"
    using view_later [OF inv(1)] by simp
  with failure_up [OF inv, of s u] show ?thesis
    using assms(6) ts split by (auto simp: count_failure_def)
qed

lemma record_failures_frame:
  "inv c \<Longrightarrow> up c \<Longrightarrow> view c t s' = Counting k \<Longrightarrow> sorted (t # ts) \<Longrightarrow> s' \<noteq> s \<Longrightarrow>
   view (record_failures ops c s ts) (last (t # ts)) s' = Counting k"
proof (induction ts arbitrary: c t)
  case (Cons u us)
  have "view c u s' = Counting k"
    using view_later [OF Cons.prems(1), of t u s'] Cons.prems(3,4) by simp
  with failure_up [OF Cons.prems(1,2), of s u] Cons.IH [of _ u] Cons.prems(4,5) show ?case by auto
qed simp

lemma rested_refuses:
  assumes "inv c" "up c" "view c t s = Rested t" "t \<le> now" "now < t + cooldown"
  shows "fst (br_ensure_closed ops c s now) = Inl (CircuitOpen s (t + cooldown))"
  using ensure_closed_up [OF assms(1,2), of s now] view_later [OF assms(1,4), of s] assms(3,5)
  by (auto simp: admission_def)

lemma rested_probes:
  assumes "inv c" "up c" "view c t s = Rested t" "t + cooldown \<le> now"
  shows "fst (br_ensure_closed ops c s now) = Inr ()"
    and "view (snd (br_record_failure ops c s now)) now s = Rested now"
proof -
  have "view c now s = Probing"
    using view_later [OF assms(1), of t now s] assms(3,4) cooldown_pos by simp
  then show "fst (br_ensure_closed ops c s now) = Inr ()"
    "view (snd (br_record_failure ops c s now)) now s = Rested now"
    using ensure_closed_up [OF assms(1,2), of s now] failure_up [OF assms(1,2), of s now]
    by (auto simp: admission_def count_failure_def)
qed

lemma success_admits:
  assumes "inv c" "up c"
  shows "fst (br_ensure_closed ops (br_record_success ops c s) s now) = Inr ()"
  using success_up [OF assms, of s now] ensure_closed_up [of "br_record_success ops c s" s now]
  by (auto simp: admission_def)

end

section \<open>The in-memory breaker keeps the contract\<close>

fun Circuit_inv :: "int \<Rightarrow> Circuit \<Rightarrow> bool" where
  "Circuit_inv thr c =
     (case ci_state c of
        CS_CLOSED \<Rightarrow> ci_failures c < thr
      | CS_OPEN \<Rightarrow> ci_failures c \<ge> thr \<and> ci_opened_at c \<noteq> None
      | CS_HALF_OPEN \<Rightarrow> True)"

definition CircuitBreaker_inv :: "int \<Rightarrow> timedelta \<Rightarrow> CircuitBreaker \<Rightarrow> bool" where
  "CircuitBreaker_inv thr cooldown b \<longleftrightarrow> 1 \<le> thr \<and> cb_failure_threshold b = thr \<and> cb_cooldown b = cooldown \<and>
     (\<forall>s c. dict_get (cb_circuits b) s = Some c \<longrightarrow> Circuit_inv thr c)"

definition CircuitBreaker_view :: "CircuitBreaker \<Rightarrow> datetime \<Rightarrow> string \<Rightarrow> circuit_view" where
  "CircuitBreaker_view b now s =
     (case dict_get (cb_circuits b) s of
        None \<Rightarrow> Counting 0
      | Some c \<Rightarrow>
          (case ci_state c of
             CS_CLOSED \<Rightarrow> Counting (ci_failures c)
           | CS_HALF_OPEN \<Rightarrow> Probing
           | CS_OPEN \<Rightarrow> settle (cb_cooldown b) now (Rested (the (ci_opened_at c)))))"

lemma CircuitBreaker_put_sel [simp]:
  "cb_failure_threshold (CircuitBreaker_put b s c) = cb_failure_threshold b"
  "cb_cooldown (CircuitBreaker_put b s c) = cb_cooldown b"
  "cb_circuits (CircuitBreaker_put b s c) = dict_set s c (cb_circuits b)"
  by (simp_all add: CircuitBreaker_put_def)

lemma CircuitBreaker_init_inv:
  "CircuitBreaker_init thr cd = Inr b \<Longrightarrow> CircuitBreaker_inv thr cd b \<and> CircuitBreaker_view b now s = Counting 0"
  by (auto simp: CircuitBreaker_init_def CircuitBreaker_inv_def CircuitBreaker_view_def split: if_splits)

lemma CircuitBreaker_put_inv [inv_rules]:
  "CircuitBreaker_inv thr cd b \<Longrightarrow> Circuit_inv thr c \<Longrightarrow> CircuitBreaker_inv thr cd (CircuitBreaker_put b s c)"
  by (auto simp: CircuitBreaker_inv_def split: if_splits)

lemma CircuitBreaker_put_view:
  "CircuitBreaker_view (CircuitBreaker_put b s c) now =
     (CircuitBreaker_view b now)(s :=
        (case ci_state c of
             CS_CLOSED \<Rightarrow> Counting (ci_failures c)
           | CS_HALF_OPEN \<Rightarrow> Probing
           | CS_OPEN \<Rightarrow> settle (cb_cooldown b) now (Rested (the (ci_opened_at c)))))"
  by (auto simp: CircuitBreaker_view_def fun_eq_iff split: option.splits CircuitState.splits)

text \<open>Refreshing a circuit never fails, and returns one whose stored state is its view.\<close>

lemma CircuitBreaker_refresh_spec:
  assumes "CircuitBreaker_inv thr cd b" and "0 < cd"
  obtains c b' where "CircuitBreaker_refresh b s now = (Inr c, b')" "CircuitBreaker_inv thr cd b'"
    "Circuit_inv thr c" "CircuitBreaker_view b' now = CircuitBreaker_view b now"
    "case CircuitBreaker_view b now s of
       Counting n \<Rightarrow> ci_state c = CS_CLOSED \<and> ci_failures c = n
     | Probing \<Rightarrow> ci_state c = CS_HALF_OPEN
     | Rested t \<Rightarrow> ci_state c = CS_OPEN \<and> ci_opened_at c = Some t"
proof (cases "dict_get (cb_circuits b) s")
  case None
  with assms show ?thesis
    by (intro that [of Circuit_new b])
      (auto simp: CircuitBreaker_refresh_def CircuitBreaker_view_def Circuit_new_def CircuitBreaker_inv_def)
next
  case (Some c)
  have c: "Circuit_inv thr c" using assms(1) Some by (auto simp: CircuitBreaker_inv_def)
  show ?thesis
  proof (cases "ci_state c = CS_OPEN \<and> now - the (ci_opened_at c) \<ge> cd")
    case True
    with c Some assms show ?thesis
      by (intro that [of "c\<lparr>ci_state := CS_HALF_OPEN\<rparr>" "CircuitBreaker_put b s (c\<lparr>ci_state := CS_HALF_OPEN\<rparr>)"])
        (auto simp: CircuitBreaker_refresh_def CircuitBreaker_put_view CircuitBreaker_view_def Let_def
          CircuitBreaker_inv_def fun_eq_iff)
  next
    case False
    have sel: "cb_cooldown b = cd" using assms(1) by (simp add: CircuitBreaker_inv_def)
    have "ci_state c = CS_OPEN \<Longrightarrow> \<exists>t. ci_opened_at c = Some t" using c by simp
    with False c Some assms sel show ?thesis
      by (intro that [of c b])
        (auto simp: CircuitBreaker_refresh_def CircuitBreaker_view_def simp del: Circuit_inv.simps
          split: CircuitState.splits)
  qed
qed

lemma CircuitBreaker_view_later:
  assumes "now \<le> later"
  shows "CircuitBreaker_view b later s = settle (cb_cooldown b) later (CircuitBreaker_view b now s)"
  using assms by (auto simp: CircuitBreaker_view_def settle_def split: option.splits CircuitState.splits)

lemma CircuitBreaker_ensure_closed_spec:
  assumes "CircuitBreaker_inv thr cd b" and "0 < cd"
  shows "\<exists>b'. CircuitBreaker_ensure_closed b s now = (admission cd s (CircuitBreaker_view b now s), b') \<and>
    CircuitBreaker_inv thr cd b' \<and> CircuitBreaker_view b' now = CircuitBreaker_view b now"
proof -
  obtain c b' where r: "CircuitBreaker_refresh b s now = (Inr c, b')" "CircuitBreaker_inv thr cd b'"
    "CircuitBreaker_view b' now = CircuitBreaker_view b now"
    "case CircuitBreaker_view b now s of
       Counting n \<Rightarrow> ci_state c = CS_CLOSED \<and> ci_failures c = n
     | Probing \<Rightarrow> ci_state c = CS_HALF_OPEN
     | Rested t \<Rightarrow> ci_state c = CS_OPEN \<and> ci_opened_at c = Some t"
    using CircuitBreaker_refresh_spec [OF assms, of s now] by metis
  moreover have "cb_cooldown b' = cd" using r(2) by (simp add: CircuitBreaker_inv_def)
  ultimately show ?thesis
    by (auto simp: CircuitBreaker_ensure_closed_def admission_def split: circuit_view.splits)
qed

lemma CircuitBreaker_record_failure_spec:
  assumes "CircuitBreaker_inv thr cd b" and "0 < cd"
  shows "\<exists>b'. CircuitBreaker_record_failure b s now now = (Inr (), b') \<and> CircuitBreaker_inv thr cd b' \<and>
    CircuitBreaker_view b' now = (CircuitBreaker_view b now)(s := count_failure thr now (CircuitBreaker_view b now s))"
proof -
  obtain c b' where r: "CircuitBreaker_refresh b s now = (Inr c, b')" "CircuitBreaker_inv thr cd b'"
    "Circuit_inv thr c" "CircuitBreaker_view b' now = CircuitBreaker_view b now"
    "case CircuitBreaker_view b now s of
       Counting n \<Rightarrow> ci_state c = CS_CLOSED \<and> ci_failures c = n
     | Probing \<Rightarrow> ci_state c = CS_HALF_OPEN
     | Rested t \<Rightarrow> ci_state c = CS_OPEN \<and> ci_opened_at c = Some t"
    using CircuitBreaker_refresh_spec [OF assms, of s now] by metis
  have sel: "cb_cooldown b' = cd" "cb_failure_threshold b' = thr"
    using r(2) by (simp_all add: CircuitBreaker_inv_def)
  show ?thesis
    using r(2-5) assms(2) sel
    by (auto simp: CircuitBreaker_record_failure_def r(1) Let_def CircuitBreaker_put_view count_failure_def
        intro!: inv_rules split: circuit_view.splits)
qed

text \<open>The in-memory breaker is always reachable: only a store outside the process can be down.\<close>

definition always_up :: "'c \<Rightarrow> bool" where
  "always_up c \<longleftrightarrow> True"

lemma memory_circuit_port:
  assumes "0 < cd"
  shows "circuit_port CircuitBreaker_ops thr cd (CircuitBreaker_inv thr cd) always_up CircuitBreaker_view"
proof
  show "0 < cd" by fact
  fix c and now later :: datetime and s
  assume inv: "CircuitBreaker_inv thr cd c"
  show "now \<le> later \<Longrightarrow> CircuitBreaker_view c later s = settle cd later (CircuitBreaker_view c now s)"
    using CircuitBreaker_view_later [of now later c s] inv by (simp add: CircuitBreaker_inv_def)
  show "\<exists>c'. br_ensure_closed CircuitBreaker_ops c s now = (admission cd s (CircuitBreaker_view c now s), c') \<and>
      CircuitBreaker_inv thr cd c' \<and> always_up c' \<and> CircuitBreaker_view c' now = CircuitBreaker_view c now"
    using CircuitBreaker_ensure_closed_spec [OF inv assms, of s now]
    by (simp add: CircuitBreaker_ops_def always_up_def)
  show "\<not> always_up c \<Longrightarrow> \<exists>e. br_ensure_closed CircuitBreaker_ops c s now = (Inl e, c)"
    by (simp add: always_up_def)
  show "CircuitBreaker_inv thr cd (br_record_success CircuitBreaker_ops c s) \<and>
      always_up (br_record_success CircuitBreaker_ops c s) \<and>
      CircuitBreaker_view (br_record_success CircuitBreaker_ops c s) now = (CircuitBreaker_view c now)(s := Counting 0)"
    using inv by (auto simp: CircuitBreaker_ops_def always_up_def CircuitBreaker_record_success_def
        CircuitBreaker_put_view Circuit_new_def CircuitBreaker_inv_def intro!: inv_rules)
  show "\<exists>c'. br_record_failure CircuitBreaker_ops c s now = (Inr (), c') \<and> CircuitBreaker_inv thr cd c' \<and>
      always_up c' \<and> CircuitBreaker_view c' now =
        (CircuitBreaker_view c now)(s := count_failure thr now (CircuitBreaker_view c now s))"
    using CircuitBreaker_record_failure_spec [OF inv assms, of s now]
    by (simp add: CircuitBreaker_ops_def always_up_def)
qed

text \<open>The breaker the platform builds: three failures, thirty seconds.\<close>

definition default_cooldown :: timedelta where
  "default_cooldown = 30 * 1000000"

interpretation mem_circuit: circuit_port CircuitBreaker_ops 3 default_cooldown
  "CircuitBreaker_inv 3 default_cooldown" always_up CircuitBreaker_view
  by (rule memory_circuit_port) (simp add: default_cooldown_def)

lemma circuit_rests_parts:
  assumes init: "CircuitBreaker_init thr cd = Inr b" and cd: "0 < cd"
    and times: "sorted ts" and n: "int (length ts) = thr"
    and b': "b' = record_failures CircuitBreaker_ops b s ts" and t: "t = last ts"
  shows "\<forall>now. t \<le> now \<and> now < t + cd \<longrightarrow>
      fst (CircuitBreaker_ensure_closed b' s now) = Inl (CircuitOpen s (t + cd))"
    and "\<forall>now \<ge> t + cd. fst (CircuitBreaker_ensure_closed b' s now) = Inr () \<and>
      (\<forall>later. now \<le> later \<and> later < now + cd \<longrightarrow>
        fst (CircuitBreaker_ensure_closed (snd (CircuitBreaker_record_failure b' s now now)) s later) =
          Inl (CircuitOpen s (now + cd)))"
    and "\<forall>now. fst (CircuitBreaker_ensure_closed (CircuitBreaker_record_success b' s) s now) = Inr ()"
    and "\<forall>k < length ts. \<forall>now \<ge> last (hd ts # take k ts).
      fst (CircuitBreaker_ensure_closed (record_failures CircuitBreaker_ops b s (take k ts)) s now) = Inr ()"
proof -
  have port: "circuit_port CircuitBreaker_ops thr cd (CircuitBreaker_inv thr cd) always_up CircuitBreaker_view"
    by (rule memory_circuit_port [OF cd])
  note ops = CircuitBreaker_ops_def
  have inv: "CircuitBreaker_inv thr cd b" "always_up b" "\<And>now. CircuitBreaker_view b now s = Counting 0"
    using CircuitBreaker_init_inv [OF init] by (auto simp: always_up_def)
  have inv': "CircuitBreaker_inv thr cd b'" "always_up b'"
    using circuit_port.record_failures_inv [OF port inv(1,2)] b' by auto
  have "thr \<ge> 1" using inv(1) by (simp add: CircuitBreaker_inv_def)
  then have ne: "ts \<noteq> []" using n by auto
  then have sorted: "sorted (hd ts # ts)" using times by (cases ts) auto
  have rest: "CircuitBreaker_view b' t s = Rested t"
    using circuit_port.record_failures_rest [OF port inv(1,2) inv(3) sorted ne] n b' t by simp
  show "\<forall>now. t \<le> now \<and> now < t + cd \<longrightarrow>
      fst (CircuitBreaker_ensure_closed b' s now) = Inl (CircuitOpen s (t + cd))"
    using circuit_port.rested_refuses [OF port inv' rest] by (simp add: ops)
  show "\<forall>now \<ge> t + cd. fst (CircuitBreaker_ensure_closed b' s now) = Inr () \<and>
      (\<forall>later. now \<le> later \<and> later < now + cd \<longrightarrow>
        fst (CircuitBreaker_ensure_closed (snd (CircuitBreaker_record_failure b' s now now)) s later) =
          Inl (CircuitOpen s (now + cd)))"
  proof (intro allI impI conjI)
    fix now later assume now: "t + cd \<le> now"
    show "fst (CircuitBreaker_ensure_closed b' s now) = Inr ()"
      using circuit_port.rested_probes(1) [OF port inv' rest now] by (simp add: ops)
    assume "now \<le> later \<and> later < now + cd"
    moreover have "CircuitBreaker_inv thr cd (snd (CircuitBreaker_record_failure b' s now now))"
      using CircuitBreaker_record_failure_spec [OF inv'(1) cd, of s now] by auto
    ultimately show "fst (CircuitBreaker_ensure_closed (snd (CircuitBreaker_record_failure b' s now now)) s later) =
          Inl (CircuitOpen s (now + cd))"
      using circuit_port.rested_probes(2) [OF port inv' rest now]
        circuit_port.rested_refuses [OF port, of "snd (CircuitBreaker_record_failure b' s now now)" now s later]
      by (simp add: ops always_up_def)
  qed
  show "\<forall>now. fst (CircuitBreaker_ensure_closed (CircuitBreaker_record_success b' s) s now) = Inr ()"
    using circuit_port.success_admits [OF port inv', of s] by (simp add: ops)
  show "\<forall>k < length ts. \<forall>now \<ge> last (hd ts # take k ts).
      fst (CircuitBreaker_ensure_closed (record_failures CircuitBreaker_ops b s (take k ts)) s now) = Inr ()"
  proof (intro allI impI)
    fix k now assume k: "k < length ts" and now: "last (hd ts # take k ts) \<le> now"
    let ?b = "record_failures CircuitBreaker_ops b s (take k ts)"
    have "sorted (hd ts # take k ts)" using sorted by (metis sorted_wrt_take take_Suc_Cons)
    then have "CircuitBreaker_view ?b (last (hd ts # take k ts)) s = Counting (int k)"
      using circuit_port.record_failures_count [OF port inv(1,2) inv(3), of "hd ts" "take k ts"] k n by simp
    moreover have i: "CircuitBreaker_inv thr cd ?b"
      using circuit_port.record_failures_inv [OF port inv(1,2)] by blast
    ultimately have "CircuitBreaker_view ?b now s = Counting (int k)"
      using CircuitBreaker_view_later [OF now, of ?b s] by simp
    then show "fst (CircuitBreaker_ensure_closed ?b s now) = Inr ()"
      using CircuitBreaker_ensure_closed_spec [OF i cd, of s now] by (auto simp: admission_def)
  qed
qed

lemma circuit_rests_others:
  assumes init: "CircuitBreaker_init thr cd = Inr b" and cd: "0 < cd"
    and times: "sorted ts" and n: "int (length ts) = thr"
    and b': "b' = record_failures CircuitBreaker_ops b s ts" and t: "t = last ts"
  shows "\<forall>s' now. s' \<noteq> s \<and> t \<le> now \<longrightarrow> fst (CircuitBreaker_ensure_closed b' s' now) = Inr ()"
proof (intro allI impI)
  fix s' now assume s': "s' \<noteq> s \<and> t \<le> now"
  note port = memory_circuit_port [OF cd, of thr]
  have inv: "CircuitBreaker_inv thr cd b" "always_up b" "\<And>now. CircuitBreaker_view b now s' = Counting 0"
    using CircuitBreaker_init_inv [OF init] by (auto simp: always_up_def)
  have i: "CircuitBreaker_inv thr cd b'"
    using circuit_port.record_failures_inv [OF port inv(1,2)] b' by auto
  have "ts \<noteq> []" using n inv(1) by (auto simp: CircuitBreaker_inv_def)
  then have "CircuitBreaker_view b' t s' = Counting 0"
    using circuit_port.record_failures_frame [OF port inv(1,2) inv(3), of "hd ts" ts s] s' times b' t
    by (cases ts) auto
  then have "CircuitBreaker_view b' now s' = Counting 0"
    using CircuitBreaker_view_later [of t now b' s'] s' by simp
  then show "fst (CircuitBreaker_ensure_closed b' s' now) = Inr ()"
    using CircuitBreaker_ensure_closed_spec [OF i cd, of s' now] by (auto simp: admission_def)
qed

text \<open>
  A server that fails as often as the threshold, counted from a new breaker and with no
  success in between, is rested: every call before the cooldown has passed is refused with the
  moment the rest ends, the first call after it is let through as a probe, and a probe that
  fails rests the server for a whole cooldown again. Fewer failures never refuse a call, and a
  success lets calls through again. Other servers are not affected.
\<close>

theorem circuit_rests_failing_server:
  assumes "CircuitBreaker_init thr cd = Inr b" and "0 < cd"
    and "sorted ts" and "int (length ts) = thr"
    and "b' = record_failures CircuitBreaker_ops b s ts" and "t = last ts"
  shows "(\<forall>now. t \<le> now \<and> now < t + cd \<longrightarrow>
        fst (CircuitBreaker_ensure_closed b' s now) = Inl (CircuitOpen s (t + cd))) \<and>
    (\<forall>now \<ge> t + cd. fst (CircuitBreaker_ensure_closed b' s now) = Inr () \<and>
      (\<forall>later. now \<le> later \<and> later < now + cd \<longrightarrow>
        fst (CircuitBreaker_ensure_closed (snd (CircuitBreaker_record_failure b' s now now)) s later) =
          Inl (CircuitOpen s (now + cd)))) \<and>
    (\<forall>now. fst (CircuitBreaker_ensure_closed (CircuitBreaker_record_success b' s) s now) = Inr ()) \<and>
    (\<forall>k < length ts. \<forall>now \<ge> last (hd ts # take k ts).
      fst (CircuitBreaker_ensure_closed (record_failures CircuitBreaker_ops b s (take k ts)) s now) = Inr ()) \<and>
    (\<forall>s' now. s' \<noteq> s \<and> t \<le> now \<longrightarrow> fst (CircuitBreaker_ensure_closed b' s' now) = Inr ())"
  by (intro conjI circuit_rests_parts [OF assms] circuit_rests_others [OF assms])

definition sample_breaker :: CircuitBreaker where
  "sample_breaker = \<lparr>cb_failure_threshold = 2, cb_cooldown = 10, cb_circuits = []\<rparr>"

theorem circuit_rests_failing_server_witness:
  "fst (CircuitBreaker_ensure_closed (record_failures CircuitBreaker_ops sample_breaker ''web'' [1, 5]) ''web'' 14) =
     Inl (CircuitOpen ''web'' 15) \<and>
   fst (CircuitBreaker_ensure_closed (record_failures CircuitBreaker_ops sample_breaker ''web'' [1, 5]) ''web'' 15) =
     Inr ()"
  using circuit_rests_failing_server [of 2 10 sample_breaker "[1, 5]" _ "''web''" 5]
  by (simp add: CircuitBreaker_init_def sample_breaker_def)


section \<open>The contract of a budget ledger\<close>

text \<open>
  Every worker's requests in the order the ledger served them, each with the result it got.
\<close>

fun reserve_calls :: "'b Budgets \<Rightarrow> 'b \<Rightarrow> (uuid \<times> ResearchBudget) list \<Rightarrow> (uuid \<times> (LimitError + int)) list \<times> 'b" where
  "reserve_calls ops s [] = ([], s)"
| "reserve_calls ops s ((j, budget) # rest) =
     (case bg_reserve_call ops s j budget of
        (r, s') \<Rightarrow> (case reserve_calls ops s' rest of (rs, s'') \<Rightarrow> ((j, r) # rs, s'')))"

definition granted_to :: "uuid \<Rightarrow> (uuid \<times> (LimitError + int)) list \<Rightarrow> nat" where
  "granted_to j rs = length (filter (\<lambda>(k, r). k = j \<and> is_ok r) rs)"

lemma granted_to_simps [simp]:
  "granted_to j [] = 0"
  "granted_to j ((k, r) # rs) = (if k = j \<and> is_ok r then Suc (granted_to j rs) else granted_to j rs)"
  by (simp_all add: granted_to_def)

locale budget_port =
  fixes ops :: "'b Budgets"
    and inv :: "'b \<Rightarrow> bool"
    and spent :: "'b \<Rightarrow> uuid \<Rightarrow> JobUsage"
  assumes usage_reads: "inv s \<Longrightarrow> bg_usage ops s j = Inr u \<Longrightarrow> u = spent s j"
    and reserve_granted: "inv s \<Longrightarrow> bg_reserve_call ops s j budget = (Inr n, s') \<Longrightarrow>
      inv s' \<and> tool_calls (spent s j) < max_tool_calls budget \<and> n = tool_calls (spent s' j) \<and>
      spent s' = (spent s)(j := (spent s j)\<lparr>tool_calls := tool_calls (spent s j) + 1\<rparr>)"
    and reserve_refused: "inv s \<Longrightarrow> bg_reserve_call ops s j budget = (Inl e, s') \<Longrightarrow>
      inv s' \<and> spent s' = spent s"
    and within_reads: "inv s \<Longrightarrow> bg_ensure_within ops s j budget = Inr () \<Longrightarrow>
      check_spent j (spent s j) budget = Inr ()"
    and record_adds: "inv s \<Longrightarrow> bg_record_agent_call ops s j spend = (Inr u, s') \<Longrightarrow>
      inv s' \<and> \<not> spend_negative spend \<and> u = add_spend spend (spent s j) \<and>
      spent s' = (spent s)(j := add_spend spend (spent s j))"
    and record_refused: "inv s \<Longrightarrow> bg_record_agent_call ops s j spend = (Inl e, s') \<Longrightarrow>
      inv s' \<and> spent s' = spent s"
begin

lemma reserve_calls_counts:
  "inv s \<Longrightarrow> reserve_calls ops s reqs = (rs, s') \<Longrightarrow>
   inv s' \<and> tool_calls (spent s' j) = tool_calls (spent s j) + int (granted_to j rs)"
proof (induction reqs arbitrary: s rs)
  case (Cons req reqs)
  obtain k budget where req: "req = (k, budget)" by (cases req)
  obtain r s1 where step: "bg_reserve_call ops s k budget = (r, s1)" by (cases "bg_reserve_call ops s k budget")
  obtain rs1 where rest: "reserve_calls ops s1 reqs = (rs1, s')" "rs = (k, r) # rs1"
    using Cons.prems(2) req step by (auto split: prod.splits)
  show ?case
  proof (cases r)
    case (Inl e)
    with reserve_refused [OF Cons.prems(1)] step Cons.IH [OF _ rest(1)] rest(2) show ?thesis by auto
  next
    case (Inr n)
    with reserve_granted [OF Cons.prems(1)] step Cons.IH [OF _ rest(1)] rest(2) show ?thesis by auto
  qed
qed simp

text \<open>The bound that holds whatever order the workers' requests arrive in.\<close>

lemma reserve_calls_bounded:
  "inv s \<Longrightarrow> reserve_calls ops s reqs = (rs, s') \<Longrightarrow> tool_calls (spent s j) \<le> m \<Longrightarrow>
   (\<forall>(k, budget) \<in> set reqs. k = j \<longrightarrow> max_tool_calls budget \<le> m) \<Longrightarrow> tool_calls (spent s' j) \<le> m"
proof (induction reqs arbitrary: s rs)
  case (Cons req reqs)
  obtain k budget where req: "req = (k, budget)" by (cases req)
  obtain r s1 where step: "bg_reserve_call ops s k budget = (r, s1)" by (cases "bg_reserve_call ops s k budget")
  obtain rs1 where rest: "reserve_calls ops s1 reqs = (rs1, s')"
    using Cons.prems(2) req step by (auto split: prod.splits)
  have "inv s1 \<and> tool_calls (spent s1 j) \<le> m"
  proof (cases r)
    case (Inl e)
    with reserve_refused [OF Cons.prems(1)] step Cons.prems(3) show ?thesis by auto
  next
    case (Inr n)
    with reserve_granted [OF Cons.prems(1)] step have
      "inv s1" "tool_calls (spent s k) < max_tool_calls budget"
      "spent s1 = (spent s)(k := (spent s k)\<lparr>tool_calls := tool_calls (spent s k) + 1\<rparr>)" by auto
    then show ?thesis using Cons.prems(3,4) req by (cases "k = j") auto
  qed
  with Cons.IH [OF _ rest] Cons.prems(4) show ?case by simp
qed simp

end

section \<open>The in-memory ledger keeps the contract\<close>

definition any_ledger :: "BudgetLedger \<Rightarrow> bool" where
  "any_ledger l \<longleftrightarrow> True"

lemma BudgetLedger_usage_set [simp]:
  "BudgetLedger_usage (dict_set j u l) = (BudgetLedger_usage l)(j := u)"
  by (auto simp: BudgetLedger_usage_def fun_eq_iff)

interpretation mem_budget: budget_port BudgetLedger_ops any_ledger BudgetLedger_usage
proof
  fix s s' j budget and n :: int
  show "bg_reserve_call BudgetLedger_ops s j budget = (Inr n, s') \<Longrightarrow>
      any_ledger s' \<and> tool_calls (BudgetLedger_usage s j) < max_tool_calls budget \<and>
      n = tool_calls (BudgetLedger_usage s' j) \<and>
      BudgetLedger_usage s' = (BudgetLedger_usage s)
        (j := (BudgetLedger_usage s j)\<lparr>tool_calls := tool_calls (BudgetLedger_usage s j) + 1\<rparr>)"
    by (auto simp: BudgetLedger_ops_def BudgetLedger_reserve_call_def any_ledger_def Let_def split: if_splits)
qed (auto simp: BudgetLedger_ops_def BudgetLedger_reserve_call_def BudgetLedger_ensure_within_def
    BudgetLedger_record_agent_call_def any_ledger_def Let_def fun_eq_iff split: if_splits)

text \<open>
  The tool-call budget of a job is never exceeded: however the requests of several workers
  and jobs interleave on the in-memory ledger, the calls granted to a job that has spent none
  are at most its allowance.
\<close>

theorem tool_call_budget_never_exceeded:
  assumes run: "reserve_calls BudgetLedger_ops l reqs = (results, l')"
    and fresh: "tool_calls (BudgetLedger_usage l j) = 0"
    and allowance: "\<forall>(k, budget) \<in> set reqs. k = j \<longrightarrow> max_tool_calls budget \<le> m" and "0 \<le> m"
  shows "int (granted_to j results) \<le> m \<and> tool_calls (BudgetLedger_usage l' j) = int (granted_to j results)"
proof -
  have "tool_calls (BudgetLedger_usage l' j) \<le> m"
    using mem_budget.reserve_calls_bounded [OF _ run _ allowance] fresh assms(4) by (simp add: any_ledger_def)
  then show ?thesis
    using mem_budget.reserve_calls_counts [OF _ run, of j] fresh by (simp add: any_ledger_def)
qed

definition tiny_budget :: ResearchBudget where
  "tiny_budget = default_budget\<lparr>max_tool_calls := 2\<rparr>"

theorem tool_call_budget_never_exceeded_witness:
  "granted_to 1 (fst (reserve_calls BudgetLedger_ops []
     [(1, tiny_budget), (2, tiny_budget), (1, tiny_budget), (1, tiny_budget)])) = 2 \<and>
   int (granted_to 1 (fst (reserve_calls BudgetLedger_ops []
     [(1, tiny_budget), (2, tiny_budget), (1, tiny_budget), (1, tiny_budget)]))) \<le> 2"
proof -
  let ?reqs = "[(1, tiny_budget), (2, tiny_budget), (1, tiny_budget), (1, tiny_budget)]"
  obtain rs l' where run: "reserve_calls BudgetLedger_ops [] ?reqs = (rs, l')"
    by (cases "reserve_calls BudgetLedger_ops [] ?reqs")
  have "int (granted_to 1 rs) \<le> 2"
    using tool_call_budget_never_exceeded [OF run, of 1 2]
    by (simp add: BudgetLedger_usage_def JobUsage_zero_def tiny_budget_def)
  moreover have "granted_to 1 (fst (reserve_calls BudgetLedger_ops [] ?reqs)) = 2"
    by (simp add: BudgetLedger_ops_def BudgetLedger_reserve_call_def BudgetLedger_usage_def
        JobUsage_zero_def tiny_budget_def Let_def)
  ultimately show ?thesis using run by simp
qed

end
