(* ===== verification/Activities.thy ===== *)
theory Activities
  imports Jobs Registry Breaker
begin

text \<open>
  The durable activities (\<open>workflow/activities.py\<close>): the identity an agent works under, the
  accounting of tokens, and the job-state activities the workflow engine may deliver more than
  once; the engine is outside. The activities that run the agents are in \<open>AgentSteps\<close>.
\<close>

section \<open>Identities and prompts\<close>

definition principal_for :: "ResearchJob \<Rightarrow> AgentRole \<Rightarrow> Principal" where
  "principal_for job role =
     Principal_for_agent \<lparr>pr_tenant_id = rj_tenant_id job, pr_subject_id = ''job:'' @ uuid_str (rj_id job),
       pr_roles = {}, pr_agent_role = None, pr_clearance = rj_clearance job\<rparr> role"

text \<open>An excerpt is rendered as the text it is; here its code points.\<close>

definition describe_evidence :: "EvidenceRecord list \<Rightarrow> unicode" where
  "describe_evidence evidence =
     (if evidence = [] then codes ''No evidence has been collected yet.''
      else py_join [10] (map (\<lambda>r. codes (''['' @ uuid_str (ev_id r) @ ''] '') @ ev_excerpt r @
             codes ('' (source: '' @ ev_source_uri r @ '', trust: '' @ TrustLevel_value (ev_trust_level r) @ '')'')) evidence))"


section \<open>Token accounting\<close>

text \<open>\<open>agents/usage.py\<close>: what one agent call spent over its attempts.\<close>

record AgentCallStats =
  st_attempts :: int
  st_prompt_tokens :: int
  st_completion_tokens :: int

definition AgentCallStats_new :: AgentCallStats where
  "AgentCallStats_new = \<lparr>st_attempts = 0, st_prompt_tokens = 0, st_completion_tokens = 0\<rparr>"

text \<open>A reported figure: absent or no number, or a number (a boolean is no number).\<close>

datatype usage_figure = NoFigure | Figure pyfloat

definition count_figure :: "usage_figure \<Rightarrow> int" where
  "count_figure v = (case v of NoFigure \<Rightarrow> 0 | Figure x \<Rightarrow> max 0 (if x < 0 then \<lceil>x\<rceil> else \<lfloor>x\<rfloor>))"

definition AgentCallStats_observe :: "AgentCallStats \<Rightarrow> (usage_figure \<times> usage_figure) option \<Rightarrow> AgentCallStats" where
  "AgentCallStats_observe s usage =
     (let s1 = s\<lparr>st_attempts := st_attempts s + 1\<rparr> in
      case usage of None \<Rightarrow> s1
      | Some (prompt, completion) \<Rightarrow>
          s1\<lparr>st_prompt_tokens := st_prompt_tokens s1 + count_figure prompt,
             st_completion_tokens := st_completion_tokens s1 + count_figure completion\<rparr>)"

definition AgentCallStats_corrections :: "AgentCallStats \<Rightarrow> int" where
  "AgentCallStats_corrections s = max 0 (st_attempts s - 1)"

record TokenPricing =
  tp_input_per_million_usd :: pyfloat
  tp_output_per_million_usd :: pyfloat

definition TokenPricing_valid :: "TokenPricing \<Rightarrow> bool" where
  "TokenPricing_valid p \<longleftrightarrow> \<not> (tp_input_per_million_usd p < 0 \<or> tp_output_per_million_usd p < 0)"

definition TokenPricing_cost_of :: "TokenPricing \<Rightarrow> int \<Rightarrow> int \<Rightarrow> pyfloat" where
  "TokenPricing_cost_of p prompt completion =
     (of_int prompt * tp_input_per_million_usd p + of_int completion * tp_output_per_million_usd p) / 1000000"


section \<open>Job-state activities\<close>

datatype ActivityError = ActivityJob JobError | ActivityLimit LimitError

definition as_activity :: "JobError + 'a \<Rightarrow> ActivityError + 'a" where
  "as_activity r = (case r of Inl e \<Rightarrow> Inl (ActivityJob e) | Inr x \<Rightarrow> Inr x)"

lemma as_activity_simps [simp]: "as_activity (Inl e) = Inl (ActivityJob e)" "as_activity (Inr x) = Inr x"
  by (simp_all add: as_activity_def)

lemma as_activity_Inr [simp]: "as_activity r = Inr x \<longleftrightarrow> r = Inr x"
  by (cases r) auto

text \<open>\<open>usage\<close> is the ledger's answer when the activities were given one.\<close>

definition JobActivities_transition ::
  "'r JobRepository \<Rightarrow> (LimitError + JobUsage) option \<Rightarrow> datetime \<Rightarrow> 'r \<Rightarrow> string \<Rightarrow> uuid \<Rightarrow> JobStatus \<Rightarrow> string option \<Rightarrow>
   ActivityError + ResearchJob \<times> 'r" where
  "JobActivities_transition repo usage now r tenant_id job_id target detail =
     bind_result (as_activity (jr_get repo r tenant_id job_id)) (\<lambda>current.
       if rj_status current = target then Inr (current, r)
       else case usage of
              Some (Inl e) \<Rightarrow> Inl (ActivityLimit e)
            | Some (Inr u) \<Rightarrow>
                as_activity (ResearchJobService_transition repo now r tenant_id job_id target detail (Some u))
            | None \<Rightarrow> as_activity (ResearchJobService_transition repo now r tenant_id job_id target detail None))"

definition same_capture :: "EvidenceRecordCreate \<Rightarrow> EvidenceRecord \<Rightarrow> bool" where
  "same_capture command existing \<longleftrightarrow>
     ev_content_hash existing = ev_content_hash command \<and>
     ev_producing_task_id existing = ev_producing_task_id command \<and>
     ev_tool_invocation_id existing = ev_tool_invocation_id command \<and>
     ev_source_uri existing = ev_source_uri command"

definition JobActivities_add_evidence ::
  "'r JobRepository \<Rightarrow> uuid \<Rightarrow> datetime \<Rightarrow> 'r \<Rightarrow> string \<Rightarrow> uuid \<Rightarrow> EvidenceRecordCreate \<Rightarrow>
   ActivityError + EvidenceRecord \<times> 'r" where
  "JobActivities_add_evidence repo new_id now r tenant_id job_id command =
     bind_result (as_activity (jr_list_evidence repo r tenant_id job_id)) (\<lambda>recorded.
       case find (same_capture command) recorded of
         Some existing \<Rightarrow> Inr (existing, r)
       | None \<Rightarrow> as_activity (ResearchJobService_add_evidence repo new_id now r tenant_id job_id command))"

definition JobActivities_record_findings ::
  "'r JobRepository \<Rightarrow> (nat \<Rightarrow> uuid) \<Rightarrow> datetime \<Rightarrow> 'r \<Rightarrow> string \<Rightarrow> uuid \<Rightarrow> Finding list \<Rightarrow>
   ActivityError + FindingRecord list \<times> 'r" where
  "JobActivities_record_findings repo new_id now r tenant_id job_id findings =
     as_activity (ResearchJobService_record_findings repo new_id now r tenant_id job_id findings)"


section \<open>Redelivery\<close>

lemma same_capture_evidence_of [simp]: "same_capture command (evidence_of i now t j command)"
  by (simp add: same_capture_def evidence_of_def EvidenceRecordCreate.extend_def)

lemma find_append_new: "find P xs = None \<Longrightarrow> P x \<Longrightarrow> find P (xs @ [x]) = Some x"
  by (induction xs) (auto split: if_splits)

context job_repository
begin

lemma transition_result:
  assumes inv: "inv r" and "JobActivities_transition repo usage now r t j target detail = Inr (job, r')"
  shows "inv r' \<and> ts_job (slice r' t) j = Some job \<and> rj_status job = target"
proof -
  obtain current where c: "ts_job (slice r t) j = Some current"
    using assms(2) by (auto simp: JobActivities_transition_def bind_result_Inr_iff get_reads)
  show ?thesis
  proof (cases "rj_status current = target")
    case True
    with assms c show ?thesis by (auto simp: JobActivities_transition_def get_reads)
  next
    case False
    then obtain u where "ResearchJobService_transition repo now r t j target detail u = Inr (job, r')"
      using assms(2) c by (auto simp: JobActivities_transition_def get_reads split: option.splits sum.splits)
    then have new: "ResearchJob_transition_to now current target detail u = Inr job" "jr_update repo r job = Inr r'"
      using c by (auto simp: ResearchJobService_transition_def get_reads bind_result_Inr_iff split: sum.splits)
    then have "rj_tenant_id job = t" "rj_id job = j" "rj_status job = target"
      using own_key [OF inv c] by (auto simp: ResearchJob_transition_to_def split: if_splits)
    with update_writes [OF inv new(2)] show ?thesis by auto
  qed
qed

lemma transition_redelivered:
  assumes "inv r" and "JobActivities_transition repo usage now r t j target detail = Inr (job, r')"
  shows "JobActivities_transition repo usage' now' r' t j target detail' = Inr (job, r')"
  using transition_result [OF assms] by (simp add: JobActivities_transition_def get_reads)

lemma add_evidence_redelivered:
  assumes inv: "inv r" and "JobActivities_add_evidence repo i now r t j command = Inr (e, r')"
  shows "JobActivities_add_evidence repo i' now' r' t j command = Inr (e, r')"
proof -
  obtain job where job: "ts_job (slice r t) j = Some job"
    using assms(2) by (auto simp: JobActivities_add_evidence_def evidence_reads bind_result_Inr_iff get_reads)
  show ?thesis
  proof (cases "find (same_capture command) (ts_evidence (slice r t) j)")
    case (Some x)
    with assms(2) job have "r' = r" by (auto simp: JobActivities_add_evidence_def evidence_reads get_reads)
    with assms(2) Some job show ?thesis
      by (auto simp: JobActivities_add_evidence_def evidence_reads get_reads)
  next
    case None
    then have add: "jr_add_evidence repo r e = Inr r'" and e: "e = evidence_of i now t j command"
      using assms(2) job
      by (auto simp: JobActivities_add_evidence_def ResearchJobService_add_evidence_def evidence_reads get_reads
          bind_result_Inr_iff Let_def split: if_splits)
    have key: "ev_tenant_id e = t" "ev_job_id e = j"
      using e by (simp_all add: evidence_of_def EvidenceRecordCreate.extend_def)
    have "ts_evidence (slice r' t) j = ts_evidence (slice r t) j @ [e]" "ts_job (slice r' t) j = Some job"
      using evidence_writes [OF inv add] key job by simp_all
    with find_append_new [OF None, of e] e show ?thesis
      by (simp add: JobActivities_add_evidence_def evidence_reads get_reads)
  qed
qed

end

text \<open>
  Job-state activities are safe to redeliver. Running a status transition or an evidence
  write again, at any later moment and with any newly generated identifier, returns the same
  record as the first delivery and changes nothing more in the store.
\<close>

theorem redelivery_changes_nothing:
  assumes "InMemoryJobRepository_inv r"
  shows "(\<forall>job r'. JobActivities_transition InMemoryJobRepository_ops usage now r t j target detail = Inr (job, r') \<longrightarrow>
      JobActivities_transition InMemoryJobRepository_ops usage' now' r' t j target detail = Inr (job, r')) \<and>
    (\<forall>e r'. JobActivities_add_evidence InMemoryJobRepository_ops i now r t j command = Inr (e, r') \<longrightarrow>
      JobActivities_add_evidence InMemoryJobRepository_ops i' now' r' t j command = Inr (e, r'))"
  using mem_jobs.transition_redelivered [OF assms] mem_jobs.add_evidence_redelivered [OF assms] by blast

theorem redelivery_changes_nothing_witness:
  "\<exists>job r'. JobActivities_transition InMemoryJobRepository_ops None 5 sample_store ''acme'' 1 JS_PLANNING None = Inr (job, r') \<and>
     JobActivities_transition InMemoryJobRepository_ops None 9 r' ''acme'' 1 JS_PLANNING None = Inr (job, r')"
proof -
  obtain job r' where "JobActivities_transition InMemoryJobRepository_ops None 5 sample_store ''acme'' 1 JS_PLANNING None = Inr (job, r')"
    by (auto simp: JobActivities_transition_def ResearchJobService_transition_def InMemoryJobRepository_ops_def
        InMemoryJobRepository_get_def InMemoryJobRepository_update_def sample_store_def InMemoryJobRepository_add_def
        ResearchJob_transition_to_def new_job_def Let_def)
  with redelivery_changes_nothing [OF sample_store_inv] show ?thesis by blast
qed

end
