(* ===== verification/Effects.thy ===== *)
theory Effects
  imports Prelude
begin

text \<open>
  Code that changes a store and may raise: a computation takes the store and returns its result
  or exception with the store after it. What was written before an exception stays written. A
  triple states what holds after a normal and after an exceptional end.
\<close>

type_synonym ('s, 'e, 'a) effect = "'s \<Rightarrow> ('e + 'a) \<times> 's"

definition eff_return :: "'a \<Rightarrow> ('s, 'e, 'a) effect" where
  "eff_return x = (\<lambda>s. (Inr x, s))"

definition eff_raise :: "'e \<Rightarrow> ('s, 'e, 'a) effect" where
  "eff_raise e = (\<lambda>s. (Inl e, s))"

definition eff_bind :: "('s, 'e, 'a) effect \<Rightarrow> ('a \<Rightarrow> ('s, 'e, 'b) effect) \<Rightarrow> ('s, 'e, 'b) effect" where
  "eff_bind m f = (\<lambda>s. case m s of (Inl e, s') \<Rightarrow> (Inl e, s') | (Inr x, s') \<Rightarrow> f x s')"

text \<open>A call that does not touch the store.\<close>

definition eff_lift :: "'e + 'a \<Rightarrow> ('s, 'e, 'a) effect" where
  "eff_lift r = (\<lambda>s. (r, s))"

text \<open>\<open>try: m / except Exception as e: h(e)\<close>.\<close>

definition eff_catch :: "('s, 'e, 'a) effect \<Rightarrow> ('e \<Rightarrow> ('s, 'e, 'a) effect) \<Rightarrow> ('s, 'e, 'a) effect" where
  "eff_catch m h = (\<lambda>s. case m s of (Inl e, s') \<Rightarrow> h e s' | (Inr x, s') \<Rightarrow> (Inr x, s'))"

definition triple ::
  "('s \<Rightarrow> bool) \<Rightarrow> ('s, 'e, 'a) effect \<Rightarrow> ('a \<Rightarrow> 's \<Rightarrow> bool) \<Rightarrow> ('e \<Rightarrow> 's \<Rightarrow> bool) \<Rightarrow> bool" where
  "triple P m Q E \<longleftrightarrow> (\<forall>s. P s \<longrightarrow> (case m s of (Inl e, s') \<Rightarrow> E e s' | (Inr x, s') \<Rightarrow> Q x s'))"

named_theorems triple_rules \<open>triples of the basic computations\<close>

lemma triple_bind:
  "triple P m R E \<Longrightarrow> (\<And>x. triple (R x) (f x) Q E) \<Longrightarrow> triple P (eff_bind m f) Q E"
  by (fastforce simp: triple_def eff_bind_def split: prod.splits sum.splits)

lemma triple_return [triple_rules]: "(\<And>s. P s \<Longrightarrow> Q x s) \<Longrightarrow> triple P (eff_return x) Q E"
  by (simp add: triple_def eff_return_def)

lemma triple_raise [triple_rules]: "(\<And>s. P s \<Longrightarrow> E e s) \<Longrightarrow> triple P (eff_raise e) Q E"
  by (simp add: triple_def eff_raise_def)

lemma triple_lift:
  "(\<And>x s. r = Inr x \<Longrightarrow> P s \<Longrightarrow> Q x s) \<Longrightarrow> (\<And>e s. r = Inl e \<Longrightarrow> P s \<Longrightarrow> E e s) \<Longrightarrow> triple P (eff_lift r) Q E"
  by (auto simp: triple_def eff_lift_def split: sum.splits)

lemma triple_weaken:
  "triple P m Q E \<Longrightarrow> (\<And>s. P' s \<Longrightarrow> P s) \<Longrightarrow> (\<And>x s. Q x s \<Longrightarrow> Q' x s) \<Longrightarrow> (\<And>e s. E e s \<Longrightarrow> E' e s) \<Longrightarrow> triple P' m Q' E'"
  by (fastforce simp: triple_def split: prod.splits sum.splits)

lemma triple_pre: "(\<And>s. P s \<Longrightarrow> C) \<Longrightarrow> (C \<Longrightarrow> triple P m Q E) \<Longrightarrow> triple P m Q E"
  by (auto simp: triple_def)

lemma triple_if: "(b \<Longrightarrow> triple P m Q E) \<Longrightarrow> (\<not> b \<Longrightarrow> triple P n Q E) \<Longrightarrow> triple P (if b then m else n) Q E"
  by simp

lemma triple_run: "triple P m Q E \<Longrightarrow> P s \<Longrightarrow> m s = (Inr x, s') \<Longrightarrow> Q x s'"
  by (fastforce simp: triple_def)

lemma triple_total: "triple P m Q (\<lambda>_ _. False) \<Longrightarrow> P s \<Longrightarrow> \<exists>x s'. m s = (Inr x, s') \<and> Q x s'"
  by (cases "m s"; cases "fst (m s)") (fastforce simp: triple_def)+

lemma triple_raises: "triple P m (\<lambda>_ _. False) E \<Longrightarrow> P s \<Longrightarrow> \<exists>e s'. m s = (Inl e, s') \<and> E e s'"
  by (cases "m s"; cases "fst (m s)") (fastforce simp: triple_def)+

lemma triple_catch:
  "triple P m Q E \<Longrightarrow> (\<And>e. triple (E e) (h e) Q F) \<Longrightarrow> triple P (eff_catch m h) Q F"
  by (fastforce simp: triple_def eff_catch_def split: prod.splits sum.splits)

text \<open>A computation that depends only on results equal so far.\<close>

lemma eff_bind_cong: "m = m' \<Longrightarrow> (\<And>x. f x = f' x) \<Longrightarrow> eff_bind m f = eff_bind m' f'"
  by (auto simp: eff_bind_def fun_eq_iff split: prod.splits sum.splits)

end
