(* ===== verification/Orchestration.thy ===== *)
theory Orchestration
  imports Activities Effects
begin

text \<open>
  The research pipeline (\<open>workflow/orchestration.py\<close>): plan, research in parallel, analyze,
  criticise, wait for a reviewer, report, publish, and end in a terminal status. The activities
  are outside and are given by their results, one per review cycle since each cycle calls them
  anew; job state goes through any implementation of \<open>JobsPort\<close>. Metrics and spans are not modelled.
\<close>

section \<open>Ports and activities\<close>

text \<open>
  An exception: its class, its text, and the attributes \<open>type\<close>, \<open>message\<close> and \<open>cause\<close> that the
  wrapper of an activity failure has.
\<close>

datatype failure = Failure (failure_class: string) (failure_str: string) (failure_type: "string option")
  (failure_message: "string option") (failure_cause: "failure option")

definition raised :: "string \<Rightarrow> string \<Rightarrow> failure" where
  "raised cls m = Failure cls m None None None"

record 's JobsPort =
  jp_transition :: "string \<Rightarrow> uuid \<Rightarrow> JobStatus \<Rightarrow> string option \<Rightarrow> ('s, failure, ResearchJob) effect"
  jp_add_evidence :: "string \<Rightarrow> uuid \<Rightarrow> EvidenceRecordCreate \<Rightarrow> ('s, failure, EvidenceRecord) effect"
  jp_record_findings :: "string \<Rightarrow> uuid \<Rightarrow> Finding list \<Rightarrow> ('s, failure, FindingRecord list) effect"

datatype ReviewerDecision = RD_APPROVE | RD_REQUEST_MORE_RESEARCH | RD_REJECT

record OrchestrationActivities =
  oa_plan :: "ResearchJob \<Rightarrow> failure + ResearchPlan"
  oa_research :: "nat \<Rightarrow> ResearchJob \<Rightarrow> ResearchTask \<Rightarrow> failure + EvidenceSubmission"
  oa_analyze :: "nat \<Rightarrow> ResearchJob \<Rightarrow> EvidenceRecord list \<Rightarrow> failure + AnalysisResult"
  oa_critique :: "nat \<Rightarrow> ResearchJob \<Rightarrow> AnalysisResult \<Rightarrow> EvidenceRecord list \<Rightarrow> failure + CriticReview"
  oa_await_reviewer_decision :: "nat \<Rightarrow> ResearchJob \<Rightarrow> CriticReview \<Rightarrow> failure + ReviewerDecision"
  oa_report :: "ResearchJob \<Rightarrow> CriticReview \<Rightarrow> EvidenceRecord list \<Rightarrow> failure + ResearchReport"
  oa_publish :: "(ResearchJob \<Rightarrow> ResearchReport \<Rightarrow> string list \<Rightarrow> failure + ReportPublication) option"
  oa_task_id :: "nat \<Rightarrow> uuid"
  oa_now :: datetime

definition BUDGET_EXHAUSTED :: string where
  "BUDGET_EXHAUSTED = ''BudgetExhausted''"

definition MAX_REVIEW_CYCLES :: nat where
  "MAX_REVIEW_CYCLES = 2"

record ResearchOutcome =
  ro_job :: ResearchJob
  ro_report :: "ResearchReport option"
  ro_evidence :: "EvidenceRecord list"
  ro_failure :: "string option"
  ro_publication :: "ReportPublication option"

definition plain_outcome :: "ResearchJob \<Rightarrow> EvidenceRecord list \<Rightarrow> ResearchOutcome" where
  "plain_outcome job evidence =
     \<lparr>ro_job = job, ro_report = None, ro_evidence = evidence, ro_failure = None, ro_publication = None\<rparr>"


section \<open>The steps\<close>

text \<open>\<open>getattr(x, a, None) or d\<close>, where a missing and an empty value both give the default.\<close>

definition text_or :: "string option \<Rightarrow> string \<Rightarrow> string" where
  "text_or x d = (case x of Some (c # cs) \<Rightarrow> c # cs | _ \<Rightarrow> d)"

definition describe :: "failure \<Rightarrow> string" where
  "describe e =
     (let cause = (case failure_cause e of Some c \<Rightarrow> c | None \<Rightarrow> e);
          name = text_or (failure_type cause) (failure_class cause);
          message = text_or (failure_message cause) (failure_str cause)
      in name @ '': '' @ message)"

definition invalid_value :: "string \<Rightarrow> failure" where
  "invalid_value m = raised ''ValueError'' m"

definition transition :: "'s JobsPort \<Rightarrow> ResearchJob \<Rightarrow> JobStatus \<Rightarrow> string option \<Rightarrow> ('s, failure, ResearchJob) effect" where
  "transition port job target detail = jp_transition port (rj_tenant_id job) (rj_id job) target detail"

definition record_findings ::
  "'s JobsPort \<Rightarrow> ResearchJob \<Rightarrow> AnalysisResult \<Rightarrow> CriticReview \<Rightarrow> ReviewerStatus \<Rightarrow> ('s, failure, unit) effect" where
  "record_findings port job analysis critique reviewer_status =
     eff_bind (eff_lift (case derive_findings analysis critique reviewer_status of
         Inl m \<Rightarrow> Inl (invalid_value m) | Inr fs \<Rightarrow> Inr fs)) (\<lambda>findings.
       eff_bind (jp_record_findings port (rj_tenant_id job) (rj_id job) findings) (\<lambda>_. eff_return ()))"

definition task_from :: "OrchestrationActivities \<Rightarrow> ResearchJob \<Rightarrow> nat \<times> PlannedTask \<Rightarrow> ResearchTask" where
  "task_from acts job planned =
     \<lparr>rt_id = oa_task_id acts (fst planned), rt_job_id = rj_id job, rt_tenant_id = rj_tenant_id job,
      rt_objective = pt_objective (snd planned), rt_assigned_agent = pt_assigned_agent (snd planned),
      rt_dependencies = [], rt_evidence_requirements = pt_evidence_requirements (snd planned),
      rt_source_restrictions = pt_source_restrictions (snd planned), rt_state = TS_PENDING,
      rt_retry_count = 0, rt_max_retries = 3, rt_created_at = oa_now acts, rt_updated_at = oa_now acts\<rparr>"

definition researcher_tasks :: "OrchestrationActivities \<Rightarrow> ResearchJob \<Rightarrow> ResearchPlan \<Rightarrow> ResearchTask list" where
  "researcher_tasks acts job plan =
     map (task_from acts job) (enumerate 0 (filter (\<lambda>t. pt_assigned_agent t = AR_RESEARCHER) (rp_tasks plan)))"

text \<open>Storing the records one task found, one after another.\<close>

fun add_records ::
  "'s JobsPort \<Rightarrow> ResearchJob \<Rightarrow> EvidenceRecordCreate list \<Rightarrow> ('s, failure, EvidenceRecord list) effect" where
  "add_records port job [] = eff_return []"
| "add_records port job (c # cs) =
     eff_bind (jp_add_evidence port (rj_tenant_id job) (rj_id job) c) (\<lambda>e.
       eff_bind (add_records port job cs) (\<lambda>es. eff_return (e # es)))"

text \<open>
  The loop over the gathered results: a task that failed contributes its requirements, or its
  objective, to what is unmet.
\<close>

fun collect_results ::
  "'s JobsPort \<Rightarrow> ResearchJob \<Rightarrow> (ResearchTask \<times> (failure + EvidenceSubmission)) list \<Rightarrow>
   ('s, failure, EvidenceRecord list \<times> string list) effect" where
  "collect_results port job [] = eff_return ([], [])"
| "collect_results port job ((task, Inl e) # rest) =
     eff_bind (collect_results port job rest) (\<lambda>(records, unmet).
       eff_return (records, (if rt_evidence_requirements task \<noteq> [] then rt_evidence_requirements task
                             else [rt_objective task]) @ unmet))"
| "collect_results port job ((task, Inr submission) # rest) =
     eff_bind (add_records port job (es_records submission)) (\<lambda>stored.
       eff_bind (collect_results port job rest) (\<lambda>(records, unmet).
         eff_return (stored @ records, es_unmet_requirements submission @ unmet)))"

definition collect_evidence ::
  "'s JobsPort \<Rightarrow> OrchestrationActivities \<Rightarrow> nat \<Rightarrow> ResearchJob \<Rightarrow> ResearchTask list \<Rightarrow>
   ('s, failure, EvidenceRecord list \<times> string list) effect" where
  "collect_evidence port acts cycle job tasks =
     collect_results port job (map (\<lambda>task. (task, oa_research acts cycle job task)) tasks)"

text \<open>How the review loop is left: with a critique to report on, or with the job ended.\<close>

datatype review_exit =
    Settled ResearchJob CriticReview "EvidenceRecord list" "string list"
  | Ended ResearchOutcome

text \<open>
  The first half of one turn of \<open>while True\<close>, up to the reviewer's decision: the loop is left, or
  the reviewer asked for more research.
\<close>

datatype review_turn_result = TurnExit review_exit | TurnMore ResearchJob

definition review_turn ::
  "'s JobsPort \<Rightarrow> OrchestrationActivities \<Rightarrow> nat \<Rightarrow> ResearchJob \<Rightarrow> EvidenceRecord list \<Rightarrow> string list \<Rightarrow>
   ('s, failure, review_turn_result) effect" where
  "review_turn port acts cycle job evidence unmet =
     eff_bind (transition port job JS_ANALYZING None) (\<lambda>job.
     eff_bind (eff_lift (oa_analyze acts cycle job evidence)) (\<lambda>analysis.
     eff_bind (eff_lift (oa_critique acts cycle job analysis evidence)) (\<lambda>critique.
     if \<not> CriticReview_requires_reviewer critique then
       eff_bind (record_findings port job analysis critique RS_NOT_REQUIRED) (\<lambda>_.
         eff_return (TurnExit (Settled job critique evidence unmet)))
     else
       eff_bind (record_findings port job analysis critique RS_PENDING) (\<lambda>_.
       eff_bind (transition port job JS_REVIEW_REQUIRED None) (\<lambda>job'.
       eff_bind (eff_lift (oa_await_reviewer_decision acts cycle job' critique)) (\<lambda>decision.
       if decision = RD_APPROVE then
         eff_bind (record_findings port job analysis critique RS_APPROVED) (\<lambda>_.
           eff_return (TurnExit (Settled job' critique evidence unmet)))
       else if decision = RD_REJECT then
         eff_bind (record_findings port job analysis critique RS_REJECTED) (\<lambda>_.
         eff_bind (transition port job' JS_FAILED (Some ''rejected by the reviewer'')) (\<lambda>job''.
           eff_return (TurnExit (Ended (plain_outcome job'' evidence)))))
       else eff_return (TurnMore job')))))))"

text \<open>
  The loop. The argument \<open>cycle\<close> is \<open>review_cycle\<close>; it grows on every turn and ends the loop
  once it exceeds the bound.
\<close>

function review_loop ::
  "'s JobsPort \<Rightarrow> OrchestrationActivities \<Rightarrow> ResearchTask list \<Rightarrow> nat \<Rightarrow> ResearchJob \<Rightarrow> EvidenceRecord list \<Rightarrow>
   string list \<Rightarrow> ('s, failure, review_exit) effect" where
  "review_loop port acts tasks cycle job evidence unmet =
     eff_bind (review_turn port acts cycle job evidence unmet) (\<lambda>turn.
       case turn of
         TurnExit exit \<Rightarrow> eff_return exit
       | TurnMore job \<Rightarrow>
           eff_bind (transition port job JS_RESEARCHING None) (\<lambda>job.
           if cycle + 1 > MAX_REVIEW_CYCLES then
             eff_bind (transition port job JS_PARTIAL
               (Some (''the reviewer asked for more research more than '' @ py_str_nat MAX_REVIEW_CYCLES @ '' times'')))
               (\<lambda>job. eff_return (Ended (plain_outcome job evidence)))
           else
             eff_bind (collect_evidence port acts (cycle + 1) job tasks) (\<lambda>(more, unmet').
               review_loop port acts tasks (cycle + 1) job (evidence @ more) unmet')))"
  by pat_completeness auto
termination
  by (relation "measure (\<lambda>(port, acts, tasks, cycle, job, evidence, unmet). Suc MAX_REVIEW_CYCLES - cycle)") auto

declare review_loop.simps [simp del]

definition shortfalls_of :: "string list \<Rightarrow> ResearchReport \<Rightarrow> uuid set \<Rightarrow> string list" where
  "shortfalls_of unmet report missing =
     map (\<lambda>r. ''unmet requirement: '' @ r) unmet @ map (\<lambda>r. ''omitted: '' @ r) (re_omitted_because report) @
     map (\<lambda>i. ''cites unrecorded evidence '' @ i) (sorted_list_of_set (uuid_str ` missing))"

text \<open>Report, check the citations, publish, and give the job its final status.\<close>

definition report_and_finish ::
  "'s JobsPort \<Rightarrow> OrchestrationActivities \<Rightarrow> ResearchJob \<Rightarrow> CriticReview \<Rightarrow> EvidenceRecord list \<Rightarrow> string list \<Rightarrow>
   ('s, failure, ResearchOutcome) effect" where
  "report_and_finish port acts job critique evidence unmet =
     eff_bind (transition port job JS_REPORTING None) (\<lambda>job.
     eff_bind (eff_lift (oa_report acts job critique evidence)) (\<lambda>report.
     eff_bind (eff_lift (case unsupported_citations report (set (map ev_id evidence)) of
         Inl m \<Rightarrow> Inl (invalid_value m) | Inr missing \<Rightarrow> Inr missing)) (\<lambda>missing.
     let shortfalls = shortfalls_of unmet report missing in
     eff_bind (case oa_publish acts of
         None \<Rightarrow> eff_return None
       | Some publish \<Rightarrow> eff_bind (eff_lift (publish job report shortfalls)) (\<lambda>p. eff_return (Some p))) (\<lambda>publication.
     eff_bind (if shortfalls \<noteq> [] then transition port job JS_PARTIAL (Some (py_join ''; '' shortfalls))
               else transition port job JS_COMPLETED None) (\<lambda>job.
       eff_return \<lparr>ro_job = job, ro_report = Some report, ro_evidence = evidence, ro_failure = None,
                    ro_publication = publication\<rparr>)))))"

definition run_pipeline ::
  "'s JobsPort \<Rightarrow> OrchestrationActivities \<Rightarrow> ResearchJob \<Rightarrow> ('s, failure, ResearchOutcome) effect" where
  "run_pipeline port acts job =
     eff_bind (transition port job JS_PLANNING None) (\<lambda>job.
     eff_bind (eff_lift (oa_plan acts job)) (\<lambda>plan.
     eff_bind (transition port job JS_RESEARCHING None) (\<lambda>job.
     let tasks = researcher_tasks acts job plan in
     if \<not> list_all ResearchTask_valid tasks then eff_raise (raised ''ValidationError'' ''ResearchTask'')
     else
       eff_bind (collect_evidence port acts 0 job tasks) (\<lambda>(evidence, unmet).
       if evidence = [] then
         eff_bind (transition port job JS_PARTIAL (Some ''no evidence could be collected'')) (\<lambda>job.
           eff_return (plain_outcome job evidence))
       else
         eff_bind (review_loop port acts tasks 0 job evidence unmet) (\<lambda>exit.
           case exit of
             Ended outcome \<Rightarrow> eff_return outcome
           | Settled job critique evidence unmet \<Rightarrow> report_and_finish port acts job critique evidence unmet)))))"

text \<open>\<open>_fail\<close>: partial when a budget ran out and the status allows it, otherwise failed.\<close>

definition fail_job :: "'s JobsPort \<Rightarrow> ResearchJob \<Rightarrow> failure \<Rightarrow> ('s, failure, ResearchOutcome) effect" where
  "fail_job port job e =
     (let reason = describe e;
          ended = (\<lambda>job. eff_return \<lparr>ro_job = job, ro_report = None, ro_evidence = [],
                     ro_failure = Some reason, ro_publication = None\<rparr>);
          to_failed = eff_bind (eff_catch (transition port job JS_FAILED (Some reason)) (\<lambda>_. eff_raise e)) ended
      in if py_startswith reason BUDGET_EXHAUSTED
         then (\<lambda>s. case transition port job JS_PARTIAL (Some reason) s of
                 (Inl _, s') \<Rightarrow> to_failed s'
               | (Inr job', s') \<Rightarrow> ended job' s')
         else to_failed)"

definition run_research_job ::
  "'s JobsPort \<Rightarrow> OrchestrationActivities \<Rightarrow> ResearchJob \<Rightarrow> ('s, failure, ResearchOutcome) effect" where
  "run_research_job port acts job = eff_catch (run_pipeline port acts job) (fail_job port job)"


section \<open>What the pipeline relies on\<close>

text \<open>
  The contract of a \<open>JobsPort\<close> for one job: an allowed transition is made, one that is not allowed
  leaves the status, and storing evidence or findings never changes it. \<open>status\<close> reads the stored
  status of the job \<open>(tenant, jid)\<close>.
\<close>

definition terminal :: "JobStatus \<Rightarrow> bool" where
  "terminal st \<longleftrightarrow> ALLOWED_TRANSITIONS st = {}"

lemma terminal_iff: "terminal st \<longleftrightarrow> st \<in> {JS_COMPLETED, JS_FAILED, JS_PARTIAL}"
  by (cases st) (simp_all add: terminal_def)

lemma nonterminal_can_fail: "\<not> terminal st \<Longrightarrow> JS_FAILED \<in> ALLOWED_TRANSITIONS st"
  by (cases st) (simp_all add: terminal_def)

definition job_is :: "string \<Rightarrow> uuid \<Rightarrow> ResearchJob \<Rightarrow> bool" where
  "job_is tenant jid job \<longleftrightarrow> rj_tenant_id job = tenant \<and> rj_id job = jid"

text \<open>
  When a run may call a job completed. The critique was made of the evidence reported on, in one
  of the allowed review cycles, and either needed no reviewer or was approved by one in that
  cycle; the report was written from that critique, omits nothing and cites only recorded evidence.
\<close>

definition settled_critique :: "OrchestrationActivities \<Rightarrow> EvidenceRecord list \<Rightarrow> CriticReview \<Rightarrow> bool" where
  "settled_critique acts evidence critique \<longleftrightarrow>
     (\<exists>k \<le> MAX_REVIEW_CYCLES. \<exists>job analysis job'. oa_critique acts k job analysis evidence = Inr critique \<and>
        (CriticReview_requires_reviewer critique \<longrightarrow> oa_await_reviewer_decision acts k job' critique = Inr RD_APPROVE))"

definition completed_ok :: "OrchestrationActivities \<Rightarrow> ResearchOutcome \<Rightarrow> bool" where
  "completed_ok acts outcome \<longleftrightarrow>
     (\<exists>job report critique ids. settled_critique acts (ro_evidence outcome) critique \<and>
        oa_report acts job critique (ro_evidence outcome) = Inr report \<and>
        ro_report outcome = Some report \<and> re_omitted_because report = [] \<and>
        ResearchReport_cited_evidence_ids report = Inr ids \<and> ids \<subseteq> set (map ev_id (ro_evidence outcome)))"

locale jobs_port =
  fixes port :: "'s JobsPort" and tenant :: string and jid :: uuid
    and inv :: "'s \<Rightarrow> bool" and status :: "'s \<Rightarrow> JobStatus"
  assumes transition_allowed: "target \<in> ALLOWED_TRANSITIONS st \<Longrightarrow>
      triple (\<lambda>s. inv s \<and> status s = st) (jp_transition port tenant jid target detail)
        (\<lambda>job s. inv s \<and> status s = target \<and> rj_status job = target \<and> job_is tenant jid job) (\<lambda>_ _. False)"
    and transition_other: "\<not> terminal st \<Longrightarrow> target \<notin> ALLOWED_TRANSITIONS st \<Longrightarrow> target \<noteq> st \<Longrightarrow>
      triple (\<lambda>s. inv s \<and> status s = st) (jp_transition port tenant jid target detail)
        (\<lambda>_ _. False) (\<lambda>_ s. inv s \<and> status s = st)"
    and evidence_keeps: "triple (\<lambda>s. inv s \<and> status s = st) (jp_add_evidence port tenant jid c)
        (\<lambda>_ s. inv s \<and> status s = st) (\<lambda>_ s. inv s \<and> status s = st)"
    and findings_keep: "triple (\<lambda>s. inv s \<and> status s = st) (jp_record_findings port tenant jid fs)
        (\<lambda>_ s. inv s \<and> status s = st) (\<lambda>_ s. inv s \<and> status s = st)"
begin

abbreviation live :: "failure \<Rightarrow> 's \<Rightarrow> bool" where
  "live e s \<equiv> inv s \<and> \<not> terminal (status s)"

lemma transition_step:
  assumes "job_is tenant jid job" and "target \<in> ALLOWED_TRANSITIONS st"
  shows "triple (\<lambda>s. inv s \<and> status s = st) (transition port job target detail)
    (\<lambda>job s. inv s \<and> status s = target \<and> rj_status job = target \<and> job_is tenant jid job) live"
proof -
  have key: "rj_tenant_id job = tenant" "rj_id job = jid" using assms(1) by (simp_all add: job_is_def)
  show ?thesis unfolding transition_def key
    by (rule triple_weaken [OF transition_allowed [OF assms(2)]]) auto
qed

lemma record_findings_step:
  assumes "job_is tenant jid job" and "\<not> terminal st"
  shows "triple (\<lambda>s. inv s \<and> status s = st) (record_findings port job analysis critique rs)
    (\<lambda>_ s. inv s \<and> status s = st) live"
  unfolding record_findings_def
proof (rule triple_bind)
  show "triple (\<lambda>s. inv s \<and> status s = st) (eff_lift (case derive_findings analysis critique rs of
      Inl m \<Rightarrow> Inl (invalid_value m) | Inr fs \<Rightarrow> Inr fs)) (\<lambda>_ s. inv s \<and> status s = st) live"
    using assms(2) by (intro triple_lift) auto
  fix fs
  show "triple (\<lambda>s. inv s \<and> status s = st)
      (eff_bind (jp_record_findings port (rj_tenant_id job) (rj_id job) fs) (\<lambda>_. eff_return ()))
      (\<lambda>_ s. inv s \<and> status s = st) live"
  proof -
    have key: "rj_tenant_id job = tenant" "rj_id job = jid" using assms(1) by (simp_all add: job_is_def)
    have "triple (\<lambda>s. inv s \<and> status s = st) (jp_record_findings port tenant jid fs) (\<lambda>_ s. inv s \<and> status s = st) live"
      using assms(2) by (intro triple_weaken [OF findings_keep [of st]]) auto
    then show ?thesis unfolding key by (rule triple_bind) (auto intro: triple_return)
  qed
qed

lemma add_records_step:
  assumes "job_is tenant jid job" and "\<not> terminal st"
  shows "triple (\<lambda>s. inv s \<and> status s = st) (add_records port job cs) (\<lambda>_ s. inv s \<and> status s = st) live"
proof (induction cs)
  case Nil
  show ?case by (auto intro: triple_return)
next
  case (Cons c cs)
  have key: "rj_tenant_id job = tenant" "rj_id job = jid" using assms(1) by (simp_all add: job_is_def)
  have "triple (\<lambda>s. inv s \<and> status s = st) (jp_add_evidence port tenant jid c) (\<lambda>_ s. inv s \<and> status s = st) live"
    using assms(2) by (intro triple_weaken [OF evidence_keeps [of st]]) auto
  then show ?case unfolding add_records.simps key
    by (rule triple_bind) (auto intro!: triple_bind [OF Cons.IH] triple_return)
qed

lemma collect_results_step:
  assumes "job_is tenant jid job" and "\<not> terminal st"
  shows "triple (\<lambda>s. inv s \<and> status s = st) (collect_results port job rs) (\<lambda>_ s. inv s \<and> status s = st) live"
proof (induction rs)
  case Nil
  show ?case by (auto intro: triple_return)
next
  case (Cons r rs)
  obtain task res where r: "r = (task, res)" by (cases r)
  show ?case
  proof (cases res)
    case (Inl e)
    with r show ?thesis by (auto intro!: triple_bind [OF Cons.IH] triple_return split: prod.splits)
  next
    case (Inr sub)
    with r show ?thesis
      by (auto intro!: triple_bind [OF add_records_step [OF assms]] triple_bind [OF Cons.IH] triple_return split: prod.splits)
  qed
qed

text \<open>Each step in continuation form: what must hold of the rest of the pipeline.\<close>

lemma transition_then:
  assumes "job_is tenant jid job" and "target \<in> ALLOWED_TRANSITIONS st"
    and "\<And>job'. job_is tenant jid job' \<Longrightarrow> rj_status job' = target \<Longrightarrow>
      triple (\<lambda>s. inv s \<and> status s = target) (f job') Q live"
  shows "triple (\<lambda>s. inv s \<and> status s = st) (eff_bind (transition port job target detail) f) Q live"
proof (rule triple_bind [OF transition_step [OF assms(1,2)]])
  fix job'
  let ?P = "\<lambda>s. inv s \<and> status s = target \<and> rj_status job' = target \<and> job_is tenant jid job'"
  show "triple ?P (f job') Q live"
    by (rule triple_pre [where C = "rj_status job' = target \<and> job_is tenant jid job'"])
      (auto intro: triple_weaken [OF assms(3)])
qed

lemma lift_then:
  assumes "\<not> terminal st" and "\<And>x. r = Inr x \<Longrightarrow> triple (\<lambda>s. inv s \<and> status s = st) (f x) Q live"
  shows "triple (\<lambda>s. inv s \<and> status s = st) (eff_bind (eff_lift r) f) Q live"
proof (cases r)
  case (Inl e)
  with assms(1) show ?thesis by (auto simp: triple_def eff_bind_def eff_lift_def)
next
  case (Inr x)
  with assms(2) show ?thesis by (simp add: triple_def eff_bind_def eff_lift_def)
qed

lemma findings_then:
  assumes "job_is tenant jid job" and "\<not> terminal st" and "triple (\<lambda>s. inv s \<and> status s = st) m Q live"
  shows "triple (\<lambda>s. inv s \<and> status s = st)
    (eff_bind (record_findings port job analysis critique rs) (\<lambda>_. m)) Q live"
  by (rule triple_bind [OF record_findings_step [OF assms(1,2)]]) (rule assms(3))

lemma collect_then:
  assumes "job_is tenant jid job" and "\<not> terminal st"
    and "\<And>x. triple (\<lambda>s. inv s \<and> status s = st) (f x) Q live"
  shows "triple (\<lambda>s. inv s \<and> status s = st) (eff_bind (collect_evidence port acts k job tasks) f) Q live"
  unfolding collect_evidence_def
  by (rule triple_bind [OF collect_results_step [OF assms(1,2)]]) (rule assms(3))

text \<open>
  How the review loop is left: ended in a terminal status that is not completion, or settled by
  a critique that needs no reviewer or that a reviewer approved.
\<close>

definition exit_ok :: "OrchestrationActivities \<Rightarrow> review_exit \<Rightarrow> 's \<Rightarrow> bool" where
  "exit_ok acts exit s \<longleftrightarrow> inv s \<and>
     (case exit of
        Ended outcome \<Rightarrow> status s \<in> {JS_FAILED, JS_PARTIAL} \<and> rj_status (ro_job outcome) = status s
      | Settled job critique evidence unmet \<Rightarrow>
          status s \<in> {JS_ANALYZING, JS_REVIEW_REQUIRED} \<and> job_is tenant jid job \<and>
          settled_critique acts evidence critique)"

definition turn_ok :: "OrchestrationActivities \<Rightarrow> review_turn_result \<Rightarrow> 's \<Rightarrow> bool" where
  "turn_ok acts turn s \<longleftrightarrow>
     (case turn of TurnExit exit \<Rightarrow> exit_ok acts exit s
      | TurnMore job \<Rightarrow> inv s \<and> status s = JS_REVIEW_REQUIRED \<and> job_is tenant jid job)"

lemma review_turn_step:
  assumes "job_is tenant jid job" and "cycle \<le> MAX_REVIEW_CYCLES"
  shows "triple (\<lambda>s. inv s \<and> status s = JS_RESEARCHING) (review_turn port acts cycle job evidence unmet)
    (turn_ok acts) live"
  unfolding review_turn_def
  by (intro transition_then lift_then triple_if findings_then triple_return; (assumption | rule assms(1))?)
    (use assms(2) in \<open>auto simp: terminal_iff turn_ok_def exit_ok_def plain_outcome_def settled_critique_def\<close>)

lemma review_loop_step:
  assumes "job_is tenant jid job" and "cycle \<le> MAX_REVIEW_CYCLES"
  shows "triple (\<lambda>s. inv s \<and> status s = JS_RESEARCHING) (review_loop port acts tasks cycle job evidence unmet)
     (exit_ok acts) live"
  using assms
proof (induction "MAX_REVIEW_CYCLES - cycle" arbitrary: cycle job evidence unmet rule: less_induct)
  case less
  show ?case
    unfolding review_loop.simps [of port acts tasks cycle job evidence unmet]
  proof (rule triple_bind [OF review_turn_step [OF less.prems]])
    fix turn
    show "triple (turn_ok acts turn) (case turn of
         TurnExit exit \<Rightarrow> eff_return exit
       | TurnMore job \<Rightarrow>
           eff_bind (transition port job JS_RESEARCHING None) (\<lambda>job.
           if cycle + 1 > MAX_REVIEW_CYCLES then
             eff_bind (transition port job JS_PARTIAL
               (Some (''the reviewer asked for more research more than '' @ py_str_nat MAX_REVIEW_CYCLES @ '' times'')))
               (\<lambda>job. eff_return (Ended (plain_outcome job evidence)))
           else
             eff_bind (collect_evidence port acts (cycle + 1) job tasks) (\<lambda>(more, unmet').
               review_loop port acts tasks (cycle + 1) job (evidence @ more) unmet'))) (exit_ok acts) live"
    proof (cases turn)
      case (TurnExit exit)
      then show ?thesis by (auto simp: turn_ok_def intro: triple_return)
    next
      case (TurnMore job2)
      have next_turn: "triple (\<lambda>s. inv s \<and> status s = JS_RESEARCHING)
          (review_loop port acts tasks (cycle + 1) job3 ev um) (exit_ok acts) live"
        if "job_is tenant jid job3" "\<not> cycle + 1 > MAX_REVIEW_CYCLES" for job3 ev um
        using that by (intro less.hyps) auto
      let ?turn = "\<lambda>job2. (eff_bind (transition port job2 JS_RESEARCHING None) (\<lambda>job.
           if cycle + 1 > MAX_REVIEW_CYCLES then
             eff_bind (transition port job JS_PARTIAL
               (Some (''the reviewer asked for more research more than '' @ py_str_nat MAX_REVIEW_CYCLES @ '' times'')))
               (\<lambda>job. eff_return (Ended (plain_outcome job evidence)))
           else
             eff_bind (collect_evidence port acts (cycle + 1) job tasks) (\<lambda>(more, unmet').
               review_loop port acts tasks (cycle + 1) job (evidence @ more) unmet')))"
      have "triple (\<lambda>s. inv s \<and> status s = JS_REVIEW_REQUIRED) (?turn job2) (exit_ok acts) live"
        if j2: "job_is tenant jid job2"
        by (intro transition_then triple_if collect_then triple_return; (assumption | rule j2)?)
          (use next_turn in \<open>auto simp: terminal_iff exit_ok_def plain_outcome_def split: prod.splits\<close>)
      note more = this
      show ?thesis unfolding TurnMore review_turn_result.case
      proof (rule triple_pre [where C = "job_is tenant jid job2" and P = "turn_ok acts (TurnMore job2)"])
        assume "job_is tenant jid job2"
        then show "triple (turn_ok acts (TurnMore job2)) (?turn job2) (exit_ok acts) live"
          by (rule triple_weaken [OF more]) (simp_all add: turn_ok_def)
      qed (simp add: turn_ok_def)
    qed
  qed
qed

definition outcome_ok :: "OrchestrationActivities \<Rightarrow> ResearchOutcome \<Rightarrow> 's \<Rightarrow> bool" where
  "outcome_ok acts outcome s \<longleftrightarrow> inv s \<and> terminal (status s) \<and> rj_status (ro_job outcome) = status s \<and>
     (status s = JS_COMPLETED \<longrightarrow> completed_ok acts outcome)"

lemma shortfalls_none:
  assumes "shortfalls_of unmet report missing = []" and "finite missing"
  shows "unmet = [] \<and> re_omitted_because report = [] \<and> missing = {}"
  using assms by (auto simp: shortfalls_of_def)

lemma finite_missing:
  "unsupported_citations report av = Inr missing \<Longrightarrow> finite missing"
  by (auto simp: unsupported_citations_def ResearchReport_cited_evidence_ids_def bind_result_Inr_iff)

lemma report_and_finish_step:
  assumes "job_is tenant jid job" and "st \<in> {JS_ANALYZING, JS_REVIEW_REQUIRED}"
    and settled: "settled_critique acts evidence critique"
  shows "triple (\<lambda>s. inv s \<and> status s = st) (report_and_finish port acts job critique evidence unmet)
    (outcome_ok acts) live"
  unfolding report_and_finish_def
proof (intro transition_then [OF assms(1)] lift_then)
  show "JS_REPORTING \<in> ALLOWED_TRANSITIONS st" using assms(2) by auto
  fix job1 report missing assume j1: "job_is tenant jid job1"
    and report: "oa_report acts job1 critique evidence = Inr report"
    and cites: "(case unsupported_citations report (set (map ev_id evidence)) of
      Inl m \<Rightarrow> Inl (invalid_value m) | Inr missing \<Rightarrow> Inr missing) = Inr missing"
  let ?short = "shortfalls_of unmet report missing"
  have missing: "unsupported_citations report (set (map ev_id evidence)) = Inr missing"
    using cites by (auto split: sum.splits)
  have written: "\<exists>job critique. settled_critique acts evidence critique \<and> oa_report acts job critique evidence = Inr report"
    using settled report by blast
  have final: "outcome_ok acts \<lparr>ro_job = job2, ro_report = Some report, ro_evidence = evidence,
      ro_failure = None, ro_publication = p\<rparr> s"
    if "inv s" "status s = rj_status job2" "rj_status job2 = (if ?short \<noteq> [] then JS_PARTIAL else JS_COMPLETED)" for job2 p s
    using that written missing shortfalls_none [OF _ finite_missing [OF missing], of unmet]
    by (auto simp: outcome_ok_def completed_ok_def terminal_iff unsupported_citations_def bind_result_Inr_iff
        split: if_splits) blast
  have finish: "triple (\<lambda>s. inv s \<and> status s = JS_REPORTING)
      (eff_bind (if ?short \<noteq> [] then transition port job1 JS_PARTIAL (Some (py_join ''; '' ?short))
                 else transition port job1 JS_COMPLETED None) (\<lambda>job.
        eff_return \<lparr>ro_job = job, ro_report = Some report, ro_evidence = evidence, ro_failure = None,
                     ro_publication = p\<rparr>)) (outcome_ok acts) live" for p
  proof (cases "?short = []")
    case True
    then show ?thesis by simp (rule transition_then [OF j1], use final in \<open>auto intro!: triple_return\<close>)
  next
    case False
    then show ?thesis by simp (rule transition_then [OF j1], use final in \<open>auto intro!: triple_return\<close>)
  qed
  show "triple (\<lambda>s. inv s \<and> status s = JS_REPORTING)
      (let shortfalls = ?short in
       eff_bind (case oa_publish acts of
           None \<Rightarrow> eff_return None
         | Some publish \<Rightarrow> eff_bind (eff_lift (publish job1 report shortfalls)) (\<lambda>p. eff_return (Some p))) (\<lambda>publication.
       eff_bind (if shortfalls \<noteq> [] then transition port job1 JS_PARTIAL (Some (py_join ''; '' shortfalls))
                 else transition port job1 JS_COMPLETED None) (\<lambda>job.
         eff_return \<lparr>ro_job = job, ro_report = Some report, ro_evidence = evidence, ro_failure = None,
                      ro_publication = publication\<rparr>))) (outcome_ok acts) live"
    unfolding Let_def
  proof (rule triple_bind [OF _ finish])
    show "triple (\<lambda>s. inv s \<and> status s = JS_REPORTING) (case oa_publish acts of
           None \<Rightarrow> eff_return None
         | Some publish \<Rightarrow> eff_bind (eff_lift (publish job1 report ?short)) (\<lambda>p. eff_return (Some p)))
         (\<lambda>_ s. inv s \<and> status s = JS_REPORTING) live"
    proof (cases "oa_publish acts")
      case None
      then show ?thesis by (auto intro: triple_return)
    next
      case (Some publish)
      show ?thesis unfolding Some option.case
        by (intro lift_then triple_return) (simp_all add: terminal_iff)
    qed
  qed
qed (simp_all add: terminal_iff)

lemma run_pipeline_step:
  assumes "job_is tenant jid job"
  shows "triple (\<lambda>s. inv s \<and> status s = JS_CREATED) (run_pipeline port acts job) (outcome_ok acts) live"
  unfolding run_pipeline_def Let_def
proof (intro transition_then lift_then triple_if collect_then; (assumption | rule assms)?)
  fix job1 plan job2 and x :: "EvidenceRecord list \<times> string list"
  assume j2: "job_is tenant jid job2"
  obtain evidence unmet where x: "x = (evidence, unmet)" by (cases x)
  have partial: "triple (\<lambda>s. inv s \<and> status s = JS_RESEARCHING)
      (eff_bind (transition port job2 JS_PARTIAL (Some ''no evidence could be collected'')) (\<lambda>job.
        eff_return (plain_outcome job evidence))) (outcome_ok acts) live"
    by (intro transition_then [OF j2] triple_return) (auto simp: outcome_ok_def plain_outcome_def terminal_iff)
  have loop: "triple (\<lambda>s. inv s \<and> status s = JS_RESEARCHING)
      (eff_bind (review_loop port acts (researcher_tasks acts job2 plan) 0 job2 evidence unmet) (\<lambda>exit.
        case exit of Ended outcome \<Rightarrow> eff_return outcome
        | Settled job critique evidence unmet \<Rightarrow> report_and_finish port acts job critique evidence unmet))
      (outcome_ok acts) live"
  proof (rule triple_bind [OF review_loop_step [OF j2]])
    fix exit
    show "triple (exit_ok acts exit) (case exit of Ended outcome \<Rightarrow> eff_return outcome
        | Settled job critique evidence unmet \<Rightarrow> report_and_finish port acts job critique evidence unmet)
        (outcome_ok acts) live"
    proof (cases exit)
      case (Ended outcome)
      then show ?thesis by (auto simp: exit_ok_def outcome_ok_def terminal_iff intro!: triple_return)
    next
      case (Settled job3 critique ev um)
      show ?thesis unfolding Settled review_exit.case
      proof (rule triple_pre)
        show "exit_ok acts (Settled job3 critique ev um) s \<Longrightarrow> job_is tenant jid job3 \<and>
            settled_critique acts ev critique" for s
          by (auto simp: exit_ok_def)
        assume a: "job_is tenant jid job3 \<and>
            settled_critique acts ev critique"
        have "triple (\<lambda>s. inv s \<and> status s = st) (report_and_finish port acts job3 critique ev um) (outcome_ok acts) live"
          if "st \<in> {JS_ANALYZING, JS_REVIEW_REQUIRED}" for st
          using report_and_finish_step [OF _ that] a by blast
        from this [of JS_ANALYZING] this [of JS_REVIEW_REQUIRED] show
          "triple (exit_ok acts (Settled job3 critique ev um)) (report_and_finish port acts job3 critique ev um)
             (outcome_ok acts) live"
          by (auto simp: triple_def exit_ok_def)
      qed
    qed
  qed simp
  show "triple (\<lambda>s. inv s \<and> status s = JS_RESEARCHING)
      (case x of (evidence, unmet) \<Rightarrow>
         if evidence = [] then
           eff_bind (transition port job2 JS_PARTIAL (Some ''no evidence could be collected'')) (\<lambda>job.
             eff_return (plain_outcome job evidence))
         else
           eff_bind (review_loop port acts (researcher_tasks acts job2 plan) 0 job2 evidence unmet) (\<lambda>exit.
             case exit of Ended outcome \<Rightarrow> eff_return outcome
             | Settled job critique evidence unmet \<Rightarrow> report_and_finish port acts job critique evidence unmet))
      (outcome_ok acts) live"
    unfolding x prod.case using partial loop by (intro triple_if) simp_all
qed (auto simp: terminal_iff intro!: triple_raise)

text \<open>A run always ends the job: the stored status is terminal whatever the activities do.\<close>

lemma fail_job_step:
  assumes "job_is tenant jid job"
  shows "triple (live e) (fail_job port job e) (outcome_ok acts) (\<lambda>_ _. False)"
proof -
  have key: "transition port job target detail = jp_transition port tenant jid target detail" for target detail
    using assms by (simp add: transition_def job_is_def)
  have "case fail_job port job e s of (Inl _, s') \<Rightarrow> False | (Inr out, s') \<Rightarrow> outcome_ok acts out s'"
    if s: "inv s" "\<not> terminal (status s)" for s
  proof -
    have failed: "\<exists>job' s'. jp_transition port tenant jid JS_FAILED d s1 = (Inr job', s') \<and> inv s' \<and>
        status s' = JS_FAILED \<and> rj_status job' = JS_FAILED"
      if "inv s1" "status s1 = status s" for d s1
      using triple_total [OF transition_allowed [OF nonterminal_can_fail [OF s(2)]], of s1 d] that by auto
    have "JS_PARTIAL \<noteq> status s" using s(2) by (auto simp: terminal_iff)
    have partial: "(\<exists>job' s'. jp_transition port tenant jid JS_PARTIAL d s = (Inr job', s') \<and> inv s' \<and>
          status s' = JS_PARTIAL \<and> rj_status job' = JS_PARTIAL) \<or>
        (\<exists>x s'. jp_transition port tenant jid JS_PARTIAL d s = (Inl x, s') \<and> inv s' \<and> status s' = status s)" for d
    proof (cases "JS_PARTIAL \<in> ALLOWED_TRANSITIONS (status s)")
      case True
      from triple_total [OF transition_allowed [OF True], of s d] s(1) show ?thesis by auto
    next
      case False
      from triple_raises [OF transition_other [OF s(2) False \<open>JS_PARTIAL \<noteq> status s\<close>], of s d] s(1) show ?thesis by auto
    qed
    let ?d = "Some (describe e)"
    let ?ended = "\<lambda>job. \<lparr>ro_job = job, ro_report = None, ro_evidence = [],
        ro_failure = Some (describe e), ro_publication = None\<rparr>"
    have ended: "outcome_ok acts (?ended job') s'"
      if "inv s'" "status s' \<in> {JS_FAILED, JS_PARTIAL}" "rj_status job' = status s'" for job' s'
      using that by (auto simp: outcome_ok_def terminal_iff)
    have to_failed: "\<exists>job' s'. eff_bind (eff_catch (transition port job JS_FAILED ?d) (\<lambda>_. eff_raise e))
        (\<lambda>job. eff_return (?ended job)) s1 = (Inr (?ended job'), s') \<and> outcome_ok acts (?ended job') s'"
      if s1: "inv s1" "status s1 = status s" for s1
    proof -
      obtain job' s' where "jp_transition port tenant jid JS_FAILED ?d s1 = (Inr job', s')" "inv s'"
        "status s' = JS_FAILED" "rj_status job' = JS_FAILED" using failed [OF s1] by blast
      then show ?thesis using ended [of s' job'] by (auto simp: key eff_bind_def eff_catch_def eff_return_def)
    qed
    show ?thesis
    proof (cases "py_startswith (describe e) BUDGET_EXHAUSTED")
      case False
      then show ?thesis using to_failed [OF s(1) refl] by (auto simp: fail_job_def Let_def)
    next
      case True
      from partial [of ?d] show ?thesis
      proof (elim disjE exE conjE)
        fix job' s' assume r: "jp_transition port tenant jid JS_PARTIAL ?d s = (Inr job', s')"
          and "inv s'" "status s' = JS_PARTIAL" "rj_status job' = JS_PARTIAL"
        then have "outcome_ok acts (?ended job') s'" by (intro ended) auto
        then show ?thesis using True r by (simp add: fail_job_def Let_def key eff_return_def)
      next
        fix x s' assume r: "jp_transition port tenant jid JS_PARTIAL ?d s = (Inl x, s')"
          and "inv s'" "status s' = status s"
        then show ?thesis using True to_failed [of s'] by (auto simp: fail_job_def Let_def key)
      qed
    qed
  qed
  then show ?thesis by (auto simp: triple_def)
qed

theorem run_research_job_step:
  assumes "job_is tenant jid job"
  shows "triple (\<lambda>s. inv s \<and> status s = JS_CREATED) (run_research_job port acts job) (outcome_ok acts) (\<lambda>_ _. False)"
  unfolding run_research_job_def by (rule triple_catch [OF run_pipeline_step fail_job_step]) (rule assms)+

end

end
