(* ===== verification/Workflow.thy ===== *)
theory Workflow
  imports Orchestration
begin

text \<open>
  The two job ports the pipeline is driven with: \<open>AsyncJobs\<close> of \<open>application/jobs.py\<close>, which
  writes to the service directly, and the Temporal adapter \<open>ResearchJobWorkflow\<close> of
  \<open>workflow/research_workflow.py\<close>, which goes through activities that are delivered at least once.
  Both keep the contract \<open>jobs_port\<close>, so a run ends the job in a terminal status. The adapter's
  mailbox of reviewer decisions is a state machine of its own.
\<close>

section \<open>The ports\<close>

text \<open>
  The store with the number of calls made so far; the clock and the identifier source are
  functions of that number, so each call sees its own time and its own new identifiers.
\<close>

type_synonym 'r job_world = "'r \<times> nat"

definition job_failure :: "JobError \<Rightarrow> failure" where
  "job_failure e = (case e of
     JobNotFound j \<Rightarrow> raised ''JobNotFoundError'' (uuid_str j)
   | TransitionRefused (InvalidStateTransition a b) \<Rightarrow>
       raised ''InvalidStateTransition'' (''cannot transition research job from '' @ JobStatus_value a @ '' to '' @ JobStatus_value b)
   | ValidationError \<Rightarrow> raised ''ValidationError'' ''invalid'')"

definition service_call :: "(nat \<Rightarrow> 'r \<Rightarrow> JobError + 'a \<times> 'r) \<Rightarrow> ('r job_world, failure, 'a) effect" where
  "service_call f = (\<lambda>(r, n). case f n r of
       Inl e \<Rightarrow> (Inl (job_failure e), (r, Suc n))
     | Inr (x, r') \<Rightarrow> (Inr x, (r', Suc n)))"

definition AsyncJobs_transition ::
  "'r JobRepository \<Rightarrow> (nat \<Rightarrow> datetime) \<Rightarrow> string \<Rightarrow> uuid \<Rightarrow> JobStatus \<Rightarrow> string option \<Rightarrow> ('r job_world, failure, ResearchJob) effect" where
  "AsyncJobs_transition repo clock tenant_id job_id target detail =
     service_call (\<lambda>n r. ResearchJobService_transition repo (clock n) r tenant_id job_id target detail None)"

definition AsyncJobs_add_evidence ::
  "'r JobRepository \<Rightarrow> (nat \<Rightarrow> datetime) \<Rightarrow> (nat \<Rightarrow> nat \<Rightarrow> uuid) \<Rightarrow> string \<Rightarrow> uuid \<Rightarrow> EvidenceRecordCreate \<Rightarrow>
   ('r job_world, failure, EvidenceRecord) effect" where
  "AsyncJobs_add_evidence repo clock new_id tenant_id job_id command =
     service_call (\<lambda>n r. ResearchJobService_add_evidence repo (new_id n 0) (clock n) r tenant_id job_id command)"

definition AsyncJobs_record_findings ::
  "'r JobRepository \<Rightarrow> (nat \<Rightarrow> datetime) \<Rightarrow> (nat \<Rightarrow> nat \<Rightarrow> uuid) \<Rightarrow> string \<Rightarrow> uuid \<Rightarrow> Finding list \<Rightarrow>
   ('r job_world, failure, FindingRecord list) effect" where
  "AsyncJobs_record_findings repo clock new_id tenant_id job_id findings =
     service_call (\<lambda>n r. ResearchJobService_record_findings repo (new_id n) (clock n) r tenant_id job_id findings)"

definition AsyncJobs_port :: "'r JobRepository \<Rightarrow> (nat \<Rightarrow> datetime) \<Rightarrow> (nat \<Rightarrow> nat \<Rightarrow> uuid) \<Rightarrow> 'r job_world JobsPort" where
  "AsyncJobs_port repo clock new_id =
     \<lparr>jp_transition = AsyncJobs_transition repo clock,
      jp_add_evidence = AsyncJobs_add_evidence repo clock new_id,
      jp_record_findings = AsyncJobs_record_findings repo clock new_id\<rparr>"

text \<open>
  An activity of the adapter: it runs \<open>redelivered n\<close> times whose answers are lost, and once more
  with the answer that reaches the workflow. A failed activity reaches the workflow as the
  transport's wrapper with the original failure as its cause.
\<close>

definition limit_failure :: "(pyfloat \<Rightarrow> string) \<Rightarrow> LimitError \<Rightarrow> failure" where
  "limit_failure fmt_g e = (case e of
     BudgetExhausted j limit kind \<Rightarrow>
       raised ''BudgetExhausted'' (''job '' @ uuid_str j @ '' reached its '' @ fmt_g limit @ '' '' @ kind @ '' budget'')
   | LimitStoreUnavailable m \<Rightarrow> raised ''LimitStoreUnavailable'' m
   | NegativeUsage \<Rightarrow> raised ''ValueError'' ''usage cannot be negative'')"

definition wrapped_failure :: "failure \<Rightarrow> failure" where
  "wrapped_failure inner =
     Failure ''ActivityError'' ''Activity task failed'' None None
       (Some (Failure ''ApplicationError'' (failure_class inner @ '': '' @ failure_str inner)
          (Some (failure_class inner)) (Some (failure_str inner)) None))"

definition activity_once ::
  "(pyfloat \<Rightarrow> string) \<Rightarrow> (nat \<Rightarrow> 'r \<Rightarrow> ActivityError + 'a \<times> 'r) \<Rightarrow> ('r job_world, failure, 'a) effect" where
  "activity_once fmt_g f = (\<lambda>(r, n). case f n r of
       Inl (ActivityJob e) \<Rightarrow> (Inl (wrapped_failure (job_failure e)), (r, Suc n))
     | Inl (ActivityLimit e) \<Rightarrow> (Inl (wrapped_failure (limit_failure fmt_g e)), (r, Suc n))
     | Inr (x, r') \<Rightarrow> (Inr x, (r', Suc n)))"

fun deliver :: "nat \<Rightarrow> ('s, failure, 'a) effect \<Rightarrow> ('s, failure, 'a) effect" where
  "deliver 0 act s = act s"
| "deliver (Suc lost) act s = deliver lost act (snd (act s))"

text \<open>What the adapter's deployment supplies, and the workflow's own three calls of the port.\<close>

record workflow_env =
  we_clock :: "nat \<Rightarrow> datetime"
  we_new_id :: "nat \<Rightarrow> nat \<Rightarrow> uuid"
  we_usage :: "nat \<Rightarrow> (LimitError + JobUsage) option"
  we_redelivered :: "nat \<Rightarrow> nat"
  we_fmt_g :: "pyfloat \<Rightarrow> string"

definition execute_activity ::
  "workflow_env \<Rightarrow> (nat \<Rightarrow> 'r \<Rightarrow> ActivityError + 'a \<times> 'r) \<Rightarrow> ('r job_world, failure, 'a) effect" where
  "execute_activity env f s = deliver (we_redelivered env (snd s)) (activity_once (we_fmt_g env) f) s"

definition ResearchJobWorkflow_transition_job ::
  "'r JobRepository \<Rightarrow> workflow_env \<Rightarrow> string \<Rightarrow> uuid \<Rightarrow> JobStatus \<Rightarrow> string option \<Rightarrow>
   ('r job_world, failure, ResearchJob) effect" where
  "ResearchJobWorkflow_transition_job repo env tenant_id job_id target detail =
     execute_activity env (\<lambda>n r. JobActivities_transition repo (we_usage env n) (we_clock env n) r tenant_id job_id target detail)"

definition ResearchJobWorkflow_add_evidence ::
  "'r JobRepository \<Rightarrow> workflow_env \<Rightarrow> string \<Rightarrow> uuid \<Rightarrow> EvidenceRecordCreate \<Rightarrow>
   ('r job_world, failure, EvidenceRecord) effect" where
  "ResearchJobWorkflow_add_evidence repo env tenant_id job_id command =
     execute_activity env (\<lambda>n r. JobActivities_add_evidence repo (we_new_id env n 0) (we_clock env n) r tenant_id job_id command)"

definition ResearchJobWorkflow_record_findings ::
  "'r JobRepository \<Rightarrow> workflow_env \<Rightarrow> string \<Rightarrow> uuid \<Rightarrow> Finding list \<Rightarrow>
   ('r job_world, failure, FindingRecord list) effect" where
  "ResearchJobWorkflow_record_findings repo env tenant_id job_id findings =
     execute_activity env (\<lambda>n r. JobActivities_record_findings repo (we_new_id env n) (we_clock env n) r tenant_id job_id findings)"

definition ResearchJobWorkflow_port :: "'r JobRepository \<Rightarrow> workflow_env \<Rightarrow> 'r job_world JobsPort" where
  "ResearchJobWorkflow_port repo env =
     \<lparr>jp_transition = ResearchJobWorkflow_transition_job repo env,
      jp_add_evidence = ResearchJobWorkflow_add_evidence repo env,
      jp_record_findings = ResearchJobWorkflow_record_findings repo env\<rparr>"


section \<open>Both ports keep the contract\<close>

context job_repository
begin

definition world_inv :: "string \<Rightarrow> uuid \<Rightarrow> 'r job_world \<Rightarrow> bool" where
  "world_inv t j w \<longleftrightarrow> inv (fst w) \<and> ts_job (slice (fst w) t) j \<noteq> None"

definition world_status :: "string \<Rightarrow> uuid \<Rightarrow> 'r job_world \<Rightarrow> JobStatus" where
  "world_status t j w = rj_status (the (ts_job (slice (fst w) t) j))"

text \<open>A service transition is made exactly when it is allowed.\<close>

lemma service_transition_cases:
  assumes "inv r" and "ts_job (slice r t) j = Some job"
  shows "if target \<in> ALLOWED_TRANSITIONS (rj_status job)
    then \<exists>job' r'. ResearchJobService_transition repo now r t j target detail u = Inr (job', r') \<and> inv r' \<and>
      ts_job (slice r' t) j = Some job' \<and> rj_status job' = target
    else \<exists>e. ResearchJobService_transition repo now r t j target detail u = Inl e"
proof (cases "target \<in> ALLOWED_TRANSITIONS (rj_status job)")
  case True
  then obtain job' where new: "ResearchJob_transition_to now job target detail u = Inr job'"
    by (simp add: ResearchJob_transition_to_def)
  have key: "rj_tenant_id job' = t" "rj_id job' = j" "rj_status job' = target"
    using new own_key [OF assms] by (auto simp: ResearchJob_transition_to_def split: if_splits)
  obtain r' where upd: "jr_update repo r job' = Inr r'" using update_known [OF assms(1), of job'] key assms(2) by auto
  from update_writes [OF assms(1) upd] key True show ?thesis
    by (auto simp: ResearchJobService_transition_def get_reads assms(2) new upd)
qed (simp add: ResearchJobService_transition_def get_reads assms(2) ResearchJob_transition_to_def)

lemma service_evidence_keeps:
  assumes "inv r" and "ResearchJobService_add_evidence repo i now r t j c = Inr (e, r')"
  shows "inv r' \<and> ts_job (slice r' t) = ts_job (slice r t)"
proof -
  have "jr_add_evidence repo r e = Inr r'" "ev_tenant_id e = t"
    using assms(2) by (auto simp: ResearchJobService_add_evidence_def bind_result_Inr_iff Let_def evidence_of_def
        EvidenceRecordCreate.extend_def split: if_splits)
  with evidence_writes [OF assms(1)] show ?thesis by blast
qed

lemma service_findings_keep:
  assumes "inv r" and "ResearchJobService_record_findings repo i now r t j fs = Inr (frs, r')"
  shows "inv r' \<and> ts_job (slice r' t) = ts_job (slice r t)"
proof -
  have "jr_replace_findings repo r t j frs = Inr r'"
    using assms(2) by (auto simp: ResearchJobService_record_findings_def bind_result_Inr_iff Let_def split: if_splits)
  with findings_writes [OF assms(1)] show ?thesis by blast
qed

lemma async_jobs_port: "jobs_port (AsyncJobs_port repo clock new_id) t j (world_inv t j) (world_status t j)"
proof
  fix target st detail c fs
  let ?P = "\<lambda>st s. world_inv t j s \<and> world_status t j s = st"
  show "triple (?P st) (jp_transition (AsyncJobs_port repo clock new_id) t j target detail)
      (\<lambda>job s. world_inv t j s \<and> world_status t j s = target \<and> rj_status job = target \<and> job_is t j job) (\<lambda>_ _. False)"
    if "target \<in> ALLOWED_TRANSITIONS st"
    unfolding triple_def
  proof (intro allI impI)
    fix s assume "?P st s"
    then obtain r n job where s: "s = (r, n)" and r: "inv r" "ts_job (slice r t) j = Some job" "rj_status job = st"
      by (cases s) (auto simp: world_inv_def world_status_def)
    from service_transition_cases [OF r(1,2), of target "clock n" detail None] that r(3)
    obtain job' r' where "ResearchJobService_transition repo (clock n) r t j target detail None = Inr (job', r')" "inv r'"
      "ts_job (slice r' t) j = Some job'" "rj_status job' = target" by auto
    then show "case jp_transition (AsyncJobs_port repo clock new_id) t j target detail s of
        (Inl e, s') \<Rightarrow> False
      | (Inr job, s') \<Rightarrow> world_inv t j s' \<and> world_status t j s' = target \<and> rj_status job = target \<and> job_is t j job"
      using own_key by (auto simp: s AsyncJobs_port_def AsyncJobs_transition_def service_call_def world_inv_def
          world_status_def job_is_def)
  qed
  show "triple (?P st) (jp_transition (AsyncJobs_port repo clock new_id) t j target detail)
      (\<lambda>_ _. False) (\<lambda>_ s. ?P st s)" if "target \<notin> ALLOWED_TRANSITIONS st"
    unfolding triple_def
  proof (intro allI impI)
    fix s assume "?P st s"
    then obtain r n job where s: "s = (r, n)" and r: "inv r" "ts_job (slice r t) j = Some job" "rj_status job = st"
      by (cases s) (auto simp: world_inv_def world_status_def)
    from service_transition_cases [OF r(1,2), of target "clock n" detail None] that r(3)
    obtain e where "ResearchJobService_transition repo (clock n) r t j target detail None = Inl e" by auto
    with r show "case jp_transition (AsyncJobs_port repo clock new_id) t j target detail s of
        (Inl e, s') \<Rightarrow> ?P st s' | (Inr job, s') \<Rightarrow> False"
      by (auto simp: s AsyncJobs_port_def AsyncJobs_transition_def service_call_def world_inv_def world_status_def)
  qed
  show "triple (?P st) (jp_add_evidence (AsyncJobs_port repo clock new_id) t j c) (\<lambda>_ s. ?P st s) (\<lambda>_ s. ?P st s)"
    by (auto simp: triple_def AsyncJobs_port_def AsyncJobs_add_evidence_def service_call_def world_inv_def world_status_def
        dest: service_evidence_keeps split: sum.splits)
  show "triple (?P st) (jp_record_findings (AsyncJobs_port repo clock new_id) t j fs) (\<lambda>_ s. ?P st s) (\<lambda>_ s. ?P st s)"
    by (auto simp: triple_def AsyncJobs_port_def AsyncJobs_record_findings_def service_call_def world_inv_def world_status_def
        dest: service_findings_keep split: sum.splits)
qed

text \<open>
  The adapter's port: what every delivery of an activity keeps, all of them keep, and the answer
  is the last delivery's.
\<close>

lemma triple_execute:
  assumes "triple I (activity_once (we_fmt_g env) f) (\<lambda>x s. I s \<and> Q x s) (\<lambda>e s. I s \<and> E e s)"
  shows "triple I (execute_activity env f) (\<lambda>x s. I s \<and> Q x s) (\<lambda>e s. I s \<and> E e s)"
proof -
  have "case deliver n (activity_once (we_fmt_g env) f) s of (Inl e, s') \<Rightarrow> I s' \<and> E e s' | (Inr x, s') \<Rightarrow> I s' \<and> Q x s'"
    if "I s" for n s using that
  proof (induction n arbitrary: s)
    case (Suc n)
    then have "I (snd (activity_once (we_fmt_g env) f s))"
      using assms [unfolded triple_def, rule_format, OF Suc.prems] by (auto split: prod.splits sum.splits)
    from Suc.IH [OF this] show ?case by simp
  qed (use assms [unfolded triple_def, rule_format] in \<open>simp only: deliver.simps\<close>)
  then show ?thesis by (simp add: triple_def execute_activity_def)
qed

lemma activity_transition_cases:
  assumes "inv r" and "ts_job (slice r t) j = Some job" and "\<And>e. usage \<noteq> Some (Inl e)"
  shows "if target = rj_status job \<or> target \<in> ALLOWED_TRANSITIONS (rj_status job)
    then \<exists>job' r'. JobActivities_transition repo usage now r t j target detail = Inr (job', r') \<and> inv r' \<and>
      ts_job (slice r' t) j = Some job' \<and> rj_status job' = target
    else \<exists>e. JobActivities_transition repo usage now r t j target detail = Inl (ActivityJob e)"
proof (cases "target = rj_status job")
  case True
  with assms show ?thesis by (simp add: JobActivities_transition_def get_reads)
next
  case False
  obtain u where "JobActivities_transition repo usage now r t j target detail =
      as_activity (ResearchJobService_transition repo now r t j target detail u)"
    using False assms by (cases usage rule: option.exhaust; cases "the usage") (auto simp: JobActivities_transition_def get_reads)
  with service_transition_cases [OF assms(1,2), of target now detail u] False show ?thesis
    by (auto split: if_splits)
qed

lemma workflow_jobs_port:
  assumes available: "\<And>n e. we_usage env n \<noteq> Some (Inl e)"
  shows "jobs_port (ResearchJobWorkflow_port repo env) t j (world_inv t j) (world_status t j)"
proof
  fix target st detail c fs
  let ?P = "\<lambda>st s. world_inv t j s \<and> world_status t j s = st"
  let ?once = "activity_once (we_fmt_g env)
    (\<lambda>n r. JobActivities_transition repo (we_usage env n) (we_clock env n) r t j target detail)"
  have once: "case ?once s of
      (Inl e, s') \<Rightarrow> s' = (fst s, Suc (snd s)) \<and> target \<noteq> st' \<and> target \<notin> ALLOWED_TRANSITIONS st'
    | (Inr job, s') \<Rightarrow> ?P target s' \<and> rj_status job = target \<and> job_is t j job \<and>
        (target = st' \<or> target \<in> ALLOWED_TRANSITIONS st')" if at_st: "?P st' s" for s st'
  proof -
    obtain r n job where s: "s = (r, n)" and r: "inv r" "ts_job (slice r t) j = Some job" "rj_status job = st'"
      using at_st by (cases s) (auto simp: world_inv_def world_status_def)
    show ?thesis using activity_transition_cases [OF r(1,2) available [of n], of target "we_clock env n" detail] r(3) own_key
      by (auto simp: s activity_once_def world_inv_def world_status_def job_is_def split: if_splits)
  qed
  show "triple (?P st) (jp_transition (ResearchJobWorkflow_port repo env) t j target detail)
      (\<lambda>job s. world_inv t j s \<and> world_status t j s = target \<and> rj_status job = target \<and> job_is t j job) (\<lambda>_ _. False)"
    if allowed: "target \<in> ALLOWED_TRANSITIONS st"
  proof -
    let ?I = "\<lambda>s. ?P st s \<or> ?P target s"
    have "triple ?I ?once (\<lambda>job s. ?I s \<and> ?P target s \<and> rj_status job = target \<and> job_is t j job) (\<lambda>_ s. ?I s \<and> False)"
      unfolding triple_def
    proof (intro allI impI)
      fix s assume "?I s"
      then show "case ?once s of (Inl e, s') \<Rightarrow> ?I s' \<and> False
        | (Inr job, s') \<Rightarrow> ?I s' \<and> ?P target s' \<and> rj_status job = target \<and> job_is t j job"
      proof
        assume "?P st s"
        from once [OF this] allowed show ?thesis by (auto split: prod.splits sum.splits)
      next
        assume "?P target s"
        from once [OF this] show ?thesis by (auto split: prod.splits sum.splits)
      qed
    qed
    from triple_weaken [OF triple_execute [OF this]] show ?thesis
      by (auto simp: ResearchJobWorkflow_port_def ResearchJobWorkflow_transition_job_def)
  qed
  show "triple (?P st) (jp_transition (ResearchJobWorkflow_port repo env) t j target detail)
      (\<lambda>_ _. False) (\<lambda>_ s. ?P st s)" if "target \<notin> ALLOWED_TRANSITIONS st" "target \<noteq> st"
  proof -
    have "triple (?P st) ?once (\<lambda>job s. ?P st s \<and> False) (\<lambda>_ s. ?P st s \<and> True)"
      using once [of _ st] that
      by (fastforce simp: triple_def world_inv_def world_status_def split: prod.splits sum.splits)
    from triple_weaken [OF triple_execute [OF this]] show ?thesis
      by (auto simp: ResearchJobWorkflow_port_def ResearchJobWorkflow_transition_job_def)
  qed
  have "triple (?P st) (activity_once (we_fmt_g env)
      (\<lambda>n r. JobActivities_add_evidence repo (we_new_id env n 0) (we_clock env n) r t j c))
      (\<lambda>_ s. ?P st s \<and> True) (\<lambda>_ s. ?P st s \<and> True)"
    by (auto simp: triple_def activity_once_def world_inv_def world_status_def JobActivities_add_evidence_def
        bind_result_Inr_iff dest: service_evidence_keeps split: sum.splits ActivityError.splits option.splits)
  from triple_weaken [OF triple_execute [OF this]]
  show "triple (?P st) (jp_add_evidence (ResearchJobWorkflow_port repo env) t j c) (\<lambda>_ s. ?P st s) (\<lambda>_ s. ?P st s)"
    by (auto simp: ResearchJobWorkflow_port_def ResearchJobWorkflow_add_evidence_def)
  have "triple (?P st) (activity_once (we_fmt_g env)
      (\<lambda>n r. JobActivities_record_findings repo (we_new_id env n) (we_clock env n) r t j fs))
      (\<lambda>_ s. ?P st s \<and> True) (\<lambda>_ s. ?P st s \<and> True)"
    by (auto simp: triple_def activity_once_def world_inv_def world_status_def JobActivities_record_findings_def
        dest: service_findings_keep split: sum.splits ActivityError.splits)
  from triple_weaken [OF triple_execute [OF this]]
  show "triple (?P st) (jp_record_findings (ResearchJobWorkflow_port repo env) t j fs) (\<lambda>_ s. ?P st s) (\<lambda>_ s. ?P st s)"
    by (auto simp: ResearchJobWorkflow_port_def ResearchJobWorkflow_record_findings_def)
qed

end

interpretation async_jobs: jobs_port "AsyncJobs_port InMemoryJobRepository_ops clock new_id" t j
  "mem_jobs.world_inv t j" "mem_jobs.world_status t j" for clock new_id t j
  by (rule mem_jobs.async_jobs_port)


section \<open>Every run ends its job\<close>

definition run_ends :: "OrchestrationActivities \<Rightarrow> string \<Rightarrow> uuid \<Rightarrow> (failure + ResearchOutcome) \<times> InMemoryJobRepository job_world \<Rightarrow> bool" where
  "run_ends acts t j run \<longleftrightarrow>
     (\<exists>outcome stored. fst run = Inr outcome \<and> InMemoryJobRepository_get (fst (snd run)) t j = Inr stored \<and>
        terminal (rj_status stored) \<and> rj_status (ro_job outcome) = rj_status stored \<and>
        (rj_status stored = JS_COMPLETED \<longrightarrow> completed_ok acts outcome))"

lemma run_ends_of_port:
  assumes port: "jobs_port port t j (mem_jobs.world_inv t j) (mem_jobs.world_status t j)"
    and "InMemoryJobRepository_inv r" and "InMemoryJobRepository_get r t j = Inr job" and "rj_status job = JS_CREATED"
  shows "run_ends acts t j (run_research_job port acts job (r, n))"
proof -
  have get: "InMemoryJobRepository_get r t j = found_or j (ts_job (InMemoryJobRepository_slice r t) j)" for r
    using mem_jobs.get_reads by (simp add: InMemoryJobRepository_ops_def)
  have stored: "ts_job (InMemoryJobRepository_slice r t) j = Some job" using assms(3) by (simp add: get)
  then have "job_is t j job" using mem_jobs.own_key [OF assms(2)] by (simp add: job_is_def)
  from triple_total [OF jobs_port.run_research_job_step [OF port this, of acts], of "(r, n)"] assms(2,4) stored
  obtain outcome s where "run_research_job port acts job (r, n) = (Inr outcome, s)"
    "jobs_port.outcome_ok (mem_jobs.world_inv t j) (mem_jobs.world_status t j) acts outcome s"
    by (auto simp: mem_jobs.world_inv_def mem_jobs.world_status_def)
  then show ?thesis
    by (auto simp: run_ends_def jobs_port.outcome_ok_def [OF port] mem_jobs.world_inv_def mem_jobs.world_status_def get)
qed

text \<open>
  C2. A run of the pipeline over the in-process job service always returns and always ends its
  job: whatever the agents, the reviewer and the publisher answer or raise, the stored status is
  completed, partial or failed and is the one the outcome reports. It is completed only with a
  report that was written from a critique of exactly the reported evidence, settled by the critic
  or by a reviewer's approval in that cycle, that omits nothing and cites only recorded evidence.
\<close>

theorem run_over_service_ends_job:
  assumes "InMemoryJobRepository_inv r" and "InMemoryJobRepository_get r t j = Inr job" and "rj_status job = JS_CREATED"
  shows "run_ends acts t j (run_research_job (AsyncJobs_port InMemoryJobRepository_ops clock new_id) acts job (r, n))"
  by (rule run_ends_of_port [OF mem_jobs.async_jobs_port assms])

definition failing_activities :: OrchestrationActivities where
  "failing_activities =
     (let e = raised ''BudgetExhausted'' ''spent'' in
      \<lparr>oa_plan = (\<lambda>_. Inl e), oa_research = (\<lambda>_ _ _. Inl e), oa_analyze = (\<lambda>_ _ _. Inl e),
       oa_critique = (\<lambda>_ _ _ _. Inl e), oa_await_reviewer_decision = (\<lambda>_ _ _. Inl e), oa_report = (\<lambda>_ _ _. Inl e),
       oa_publish = None, oa_task_id = (\<lambda>k. 7), oa_now = 0\<rparr>)"

lemma sample_store_job:
  "InMemoryJobRepository_get sample_store ''acme'' 1 = Inr (new_job 1 0 ''acme'' ''u'' sample_command AC_INTERNAL)"
  "rj_status (new_job 1 0 ''acme'' ''u'' sample_command AC_INTERNAL) = JS_CREATED"
  by (simp_all add: sample_store_def InMemoryJobRepository_add_def InMemoryJobRepository_get_def new_job_def)

theorem run_over_service_ends_job_witness:
  "run_ends failing_activities ''acme'' 1 (run_research_job (AsyncJobs_port InMemoryJobRepository_ops (\<lambda>n. int n) (\<lambda>n k. 9))
     failing_activities (new_job 1 0 ''acme'' ''u'' sample_command AC_INTERNAL) (sample_store, 0))"
  by (rule run_over_service_ends_job [OF sample_store_inv sample_store_job])

text \<open>
  C3. The same holds when the pipeline is driven through durable activities: every activity may be
  delivered any number of times before its answer reaches the workflow, and the ledger that is
  read with a transition can be reached.
\<close>

theorem run_over_activities_ends_job:
  assumes "InMemoryJobRepository_inv r" and "InMemoryJobRepository_get r t j = Inr job" and "rj_status job = JS_CREATED"
    and "\<And>n e. we_usage env n \<noteq> Some (Inl e)"
  shows "run_ends acts t j (run_research_job (ResearchJobWorkflow_port InMemoryJobRepository_ops env) acts job (r, n))"
  by (rule run_ends_of_port [OF mem_jobs.workflow_jobs_port assms(1-3)]) (rule assms(4))

definition sample_workflow_env :: workflow_env where
  "sample_workflow_env = \<lparr>we_clock = (\<lambda>n. int n), we_new_id = (\<lambda>n k. 9), we_usage = (\<lambda>n. Some (Inr JobUsage_zero)),
     we_redelivered = (\<lambda>n. n mod 3), we_fmt_g = (\<lambda>x. ''20'')\<rparr>"

theorem run_over_activities_ends_job_witness:
  "run_ends failing_activities ''acme'' 1 (run_research_job
     (ResearchJobWorkflow_port InMemoryJobRepository_ops sample_workflow_env)
     failing_activities (new_job 1 0 ''acme'' ''u'' sample_command AC_INTERNAL) (sample_store, 0))"
  by (rule run_over_activities_ends_job [OF sample_store_inv sample_store_job]) (simp add: sample_workflow_env_def)


section \<open>The reviewer's mailbox\<close>

text \<open>
  The state of one \<open>ResearchJobWorkflow\<close>: the decisions that arrived and whether a review is
  open. A transition to \<open>review_required\<close> opens it, a signal is kept only while it is open, and
  waiting takes the first decision, closes the review and drops the rest; while there is none,
  waiting blocks.
\<close>

record ResearchJobWorkflow =
  rw_reviewer_decisions :: "ReviewerDecision list"
  rw_review_is_open :: bool

definition ResearchJobWorkflow_init :: ResearchJobWorkflow where
  "ResearchJobWorkflow_init = \<lparr>rw_reviewer_decisions = [], rw_review_is_open = False\<rparr>"

definition ResearchJobWorkflow_transition :: "ResearchJobWorkflow \<Rightarrow> JobStatus \<Rightarrow> ResearchJobWorkflow" where
  "ResearchJobWorkflow_transition w target =
     (if target = JS_REVIEW_REQUIRED then w\<lparr>rw_review_is_open := True\<rparr> else w)"

definition ResearchJobWorkflow_await_reviewer_decision ::
  "ResearchJobWorkflow \<Rightarrow> (ReviewerDecision \<times> ResearchJobWorkflow) option" where
  "ResearchJobWorkflow_await_reviewer_decision w = (case rw_reviewer_decisions w of
     [] \<Rightarrow> None
   | decision # _ \<Rightarrow> Some (decision, w\<lparr>rw_review_is_open := False, rw_reviewer_decisions := []\<rparr>))"

definition ResearchJobWorkflow_submit_reviewer_decision ::
  "ResearchJobWorkflow \<Rightarrow> ReviewerDecision \<Rightarrow> ResearchJobWorkflow" where
  "ResearchJobWorkflow_submit_reviewer_decision w decision =
     (if rw_review_is_open w then w\<lparr>rw_reviewer_decisions := rw_reviewer_decisions w @ [decision]\<rparr> else w)"

datatype workflow_event = Moves JobStatus | Signals ReviewerDecision | Takes ReviewerDecision

inductive workflow_run :: "workflow_event list \<Rightarrow> ResearchJobWorkflow \<Rightarrow> bool" where
  workflow_starts: "workflow_run [] ResearchJobWorkflow_init"
| workflow_moves: "workflow_run es w \<Longrightarrow> workflow_run (es @ [Moves st]) (ResearchJobWorkflow_transition w st)"
| workflow_signals: "workflow_run es w \<Longrightarrow>
    workflow_run (es @ [Signals d]) (ResearchJobWorkflow_submit_reviewer_decision w d)"
| workflow_takes: "workflow_run es w \<Longrightarrow> ResearchJobWorkflow_await_reviewer_decision w = Some (d, w') \<Longrightarrow>
    workflow_run (es @ [Takes d]) w'"

text \<open>
  What the mailbox should hold, read off the history: the events since the last decision was
  taken, from the first opening of a review on, and the signals among them.
\<close>

fun is_take :: "workflow_event \<Rightarrow> bool" where
  "is_take (Takes d) = True"
| "is_take _ = False"

definition current_review :: "workflow_event list \<Rightarrow> workflow_event list" where
  "current_review es = dropWhile (\<lambda>e. e \<noteq> Moves JS_REVIEW_REQUIRED) (rev (takeWhile (\<lambda>e. \<not> is_take e) (rev es)))"

definition signalled :: "workflow_event list \<Rightarrow> ReviewerDecision list" where
  "signalled es = [d. Signals d \<leftarrow> es]"

lemma current_review_take [simp]: "current_review (es @ [Takes d]) = []"
  by (simp add: current_review_def)

lemma current_review_other:
  assumes "\<not> is_take e"
  shows "current_review (es @ [e]) =
    (if current_review es \<noteq> [] \<or> e = Moves JS_REVIEW_REQUIRED then current_review es @ [e] else [])"
proof -
  let ?open = "\<lambda>e. e \<noteq> Moves JS_REVIEW_REQUIRED"
  have "dropWhile ?open (xs @ [e]) = (if dropWhile ?open xs \<noteq> [] \<or> \<not> ?open e then dropWhile ?open xs @ [e] else [])" for xs
    by (induction xs) auto
  with assms show ?thesis by (simp add: current_review_def)
qed

lemma mailbox_follows_history:
  "workflow_run es w \<Longrightarrow> rw_reviewer_decisions w = signalled (current_review es) \<and>
    (rw_review_is_open w \<longleftrightarrow> current_review es \<noteq> []) \<and>
    length (filter is_take es) + (if current_review es \<noteq> [] then 1 else 0) \<le> count_list es (Moves JS_REVIEW_REQUIRED)"
proof (induction rule: workflow_run.induct)
  case workflow_starts
  show ?case by (simp add: ResearchJobWorkflow_init_def current_review_def signalled_def)
next
  case (workflow_moves es w st)
  then show ?case by (auto simp: ResearchJobWorkflow_transition_def current_review_other signalled_def)
next
  case (workflow_signals es w d)
  then show ?case by (auto simp: ResearchJobWorkflow_submit_reviewer_decision_def current_review_other signalled_def)
next
  case (workflow_takes es w d w')
  then show ?case by (auto simp: ResearchJobWorkflow_await_reviewer_decision_def signalled_def split: list.splits if_splits)
qed

text \<open>
  C15. A reviewer's decision answers the review it was made for and no other. In every history of
  signals and waits, the decision the pipeline takes is the first one signalled since the current
  review opened; one that arrived before it opened, or after an earlier one was taken, is never
  acted on; and the pipeline takes no more decisions than reviews were opened.
\<close>

theorem reviewer_decision_answers_its_review:
  assumes "workflow_run es w"
  shows "rw_reviewer_decisions w = signalled (current_review es) \<and>
    map_option fst (ResearchJobWorkflow_await_reviewer_decision w) =
      (case signalled (current_review es) of [] \<Rightarrow> None | d # _ \<Rightarrow> Some d) \<and>
    length (filter is_take es) \<le> count_list es (Moves JS_REVIEW_REQUIRED)"
  using mailbox_follows_history [OF assms]
  by (auto simp: ResearchJobWorkflow_await_reviewer_decision_def split: list.splits if_splits)

lemma sample_history:
  "workflow_run [Signals RD_REJECT, Moves JS_REVIEW_REQUIRED, Signals RD_APPROVE, Signals RD_REJECT]
     \<lparr>rw_reviewer_decisions = [RD_APPROVE, RD_REJECT], rw_review_is_open = True\<rparr>"
  using workflow_signals [OF workflow_signals [OF workflow_moves [OF workflow_signals [OF workflow_starts]]],
      of RD_REJECT JS_REVIEW_REQUIRED RD_APPROVE RD_REJECT]
  by (simp add: ResearchJobWorkflow_init_def ResearchJobWorkflow_submit_reviewer_decision_def ResearchJobWorkflow_transition_def)

theorem reviewer_decision_answers_its_review_witness:
  "map_option fst (ResearchJobWorkflow_await_reviewer_decision
     \<lparr>rw_reviewer_decisions = [RD_APPROVE, RD_REJECT], rw_review_is_open = True\<rparr>) = Some RD_APPROVE"
  using reviewer_decision_answers_its_review [OF sample_history]
  by (simp add: current_review_def signalled_def)

end
