(* ===== verification/Policy.thy ===== *)
theory Policy
  imports Registry Invocations
begin

text \<open>
  Authorization decisions (\<open>mcp/policy.py\<close>, \<open>mcp/opa.py\<close>): the registry boundary, the Open Policy
  Agent client, and the combination that requires every engine to permit a call. The HTTP
  exchange with the policy service is a parameter: a function from the posted document to what
  came back.
\<close>

definition LOCAL_POLICY_VERSION :: string where
  "LOCAL_POLICY_VERSION = ''local-2026-08-01''"

record AuthorizationRequest =
  aq_principal :: Principal
  aq_capability :: Capability
  aq_job_id :: uuid
  aq_task_id :: uuid
  aq_arguments :: arguments

record PolicyDecision =
  pd_allowed :: bool
  pd_reason :: string
  pd_policy_version :: string

definition PolicyDecision_allow :: "string \<Rightarrow> PolicyDecision" where
  "PolicyDecision_allow version =
     \<lparr>pd_allowed = True, pd_reason = ''permitted by policy'', pd_policy_version = version\<rparr>"

definition PolicyDecision_deny :: "string \<Rightarrow> string \<Rightarrow> PolicyDecision" where
  "PolicyDecision_deny reason version =
     \<lparr>pd_allowed = False, pd_reason = reason, pd_policy_version = version\<rparr>"

lemma PolicyDecision_sel [simp]:
  "pd_allowed (PolicyDecision_allow v)" "\<not> pd_allowed (PolicyDecision_deny r v)"
  "pd_policy_version (PolicyDecision_allow v) = v" "pd_policy_version (PolicyDecision_deny r v) = v"
  "pd_reason (PolicyDecision_deny r v) = r"
  by (simp_all add: PolicyDecision_allow_def PolicyDecision_deny_def)


section \<open>The registry boundary\<close>

text \<open>Python's rendering of a list of plain words, as in \<open>f"roles {[..]}"\<close>.\<close>

definition py_repr_words :: "string list \<Rightarrow> string" where
  "py_repr_words ws = ''['' @ py_join '', '' (map (\<lambda>w. [CHR 0x27] @ w @ [CHR 0x27]) ws) @ '']''"

definition RegistryPolicyEngine_describe :: "Principal \<Rightarrow> string" where
  "RegistryPolicyEngine_describe p =
     (case pr_agent_role p of
        Some r \<Rightarrow> ''agent role '' @ AgentRole_value r
      | None \<Rightarrow> ''roles '' @ py_repr_words (sorted_list_of_set (Role_value ` pr_roles p)))"

definition RegistryPolicyEngine_evaluate :: "string \<Rightarrow> AuthorizationRequest \<Rightarrow> PolicyDecision" where
  "RegistryPolicyEngine_evaluate version rq =
     (let c = aq_capability rq; p = aq_principal rq in
      if \<not> Capability_is_available_to_tenant c (pr_tenant_id p)
      then PolicyDecision_deny (''capability is not offered to tenant '' @ pr_tenant_id p) version
      else if \<not> clearance_covers (pr_clearance p) (cap_max_access_class c)
      then PolicyDecision_deny (''clearance '' @ AccessClass_value (pr_clearance p) @ '' cannot reach ''
             @ AccessClass_value (cap_max_access_class c) @ '' data'') version
      else if \<not> Capability_is_executable_by c p
      then PolicyDecision_deny (RegistryPolicyEngine_describe p @ '' may not execute '' @ cap_name c) version
      else PolicyDecision_allow version)"


section \<open>The Open Policy Agent client\<close>

definition UNAVAILABLE_VERSION :: string where
  "UNAVAILABLE_VERSION = ''opa-unavailable''"

definition DEFAULT_DECISION_PATH :: string where
  "DEFAULT_DECISION_PATH = ''/v1/data/research/authz/decision''"

definition opa_principal_document :: "Principal \<Rightarrow> pyval" where
  "opa_principal_document p = VDict
     [(''tenant_id'', VStr (pr_tenant_id p)),
      (''subject_id'', VStr (pr_subject_id p)),
      (''roles'', VList (map VStr (sorted_list_of_set (Role_value ` pr_roles p)))),
      (''agent_role'', case pr_agent_role p of Some r \<Rightarrow> VStr (AgentRole_value r) | None \<Rightarrow> VNone),
      (''clearance'', VStr (AccessClass_value (pr_clearance p)))]"

definition opa_capability_document :: "Capability \<Rightarrow> pyval" where
  "opa_capability_document c = VDict
     [(''server'', VStr (cap_server c)),
      (''name'', VStr (cap_name c)),
      (''kind'', VStr (CapabilityKind_value (cap_kind c))),
      (''required_roles'', VList (map VStr (sorted_list_of_set (Role_value ` cap_required_roles c)))),
      (''allowed_agents'', VList (map VStr (sorted_list_of_set (AgentRole_value ` cap_allowed_agents c)))),
      (''max_access_class'', VStr (AccessClass_value (cap_max_access_class c))),
      (''side_effecting'', VBool (cap_side_effecting c)),
      (''requires_approval'', VBool (cap_requires_approval c)),
      (''tenant_scope'', VList (map VStr (sorted_list_of_set (cap_tenant_scope c))))]"

definition build_policy_input :: "AuthorizationRequest \<Rightarrow> pyval" where
  "build_policy_input rq = VDict
     [(''input'', VDict
        [(''principal'', opa_principal_document (aq_principal rq)),
         (''capability'', opa_capability_document (aq_capability rq)),
         (''job_id'', VStr (uuid_str (aq_job_id rq))),
         (''task_id'', VStr (uuid_str (aq_task_id rq))),
         (''argument_names'', VList (map VStr (sort (map fst (aq_arguments rq)))))])]"

text \<open>
  What the HTTP client can give back: a timeout, an error status, a transport error or a body
  that is no JSON (both handled alike), or a document.
\<close>

datatype http_answer = HttpTimeout | HttpStatusError int | HttpFailed | HttpDocument pyval

text \<open>The client's only state is the version of its last decision; each call returns it updated.\<close>

definition OpaPolicyEngine_unavailable :: "string \<Rightarrow> PolicyDecision \<times> string" where
  "OpaPolicyEngine_unavailable reason =
     (PolicyDecision_deny reason UNAVAILABLE_VERSION, UNAVAILABLE_VERSION)"

definition str_field :: "(string \<times> pyval) list \<Rightarrow> string \<Rightarrow> string \<Rightarrow> string" where
  "str_field entries key otherwise =
     (case dict_get entries key of Some (VStr s) \<Rightarrow> if s \<noteq> [] then s else otherwise | _ \<Rightarrow> otherwise)"

definition OpaPolicyEngine_read_decision :: "pyval \<Rightarrow> PolicyDecision \<times> string" where
  "OpaPolicyEngine_read_decision document =
     (case document of
        VDict entries \<Rightarrow>
          (case dict_get entries ''result'' of
             Some (VDict result) \<Rightarrow>
               (case dict_get result ''allow'' of
                  Some (VBool allow) \<Rightarrow>
                    (let version = str_field result ''policy_version'' UNAVAILABLE_VERSION;
                         described = str_field result ''reason'' ''no reason was given''
                     in if allow then (PolicyDecision_allow version, version)
                        else (PolicyDecision_deny described version, version))
                | _ \<Rightarrow> OpaPolicyEngine_unavailable ''the authorization service returned no decision'')
           | _ \<Rightarrow> OpaPolicyEngine_unavailable ''the authorization service returned no decision'')
      | _ \<Rightarrow> OpaPolicyEngine_unavailable ''the authorization service returned an unreadable decision'')"

definition OpaPolicyEngine_evaluate ::
  "(pyval \<Rightarrow> http_answer) \<Rightarrow> AuthorizationRequest \<Rightarrow> PolicyDecision \<times> string" where
  "OpaPolicyEngine_evaluate post rq =
     (case post (build_policy_input rq) of
        HttpTimeout \<Rightarrow> OpaPolicyEngine_unavailable ''the authorization service did not respond in time''
      | HttpStatusError code \<Rightarrow>
          OpaPolicyEngine_unavailable (''the authorization service returned '' @ py_str_int code)
      | HttpFailed \<Rightarrow> OpaPolicyEngine_unavailable ''the authorization service could not be reached''
      | HttpDocument document \<Rightarrow> OpaPolicyEngine_read_decision document)"


section \<open>Engines and their combination\<close>

text \<open>
  An engine is the registry boundary with its version, an Open Policy Agent client at a base
  URL with the version of its last decision, or the conjunction of several engines. \<open>post\<close>
  answers for each base URL.
\<close>

datatype PolicyEngine =
    RegistryPolicyEngine string
  | OpaPolicyEngine string string
  | AllOfPolicyEngine "PolicyEngine list"

fun PolicyEngine_policy_version :: "PolicyEngine \<Rightarrow> string" where
  "PolicyEngine_policy_version (RegistryPolicyEngine version) = version"
| "PolicyEngine_policy_version (OpaPolicyEngine url version) = version"
| "PolicyEngine_policy_version (AllOfPolicyEngine engines) =
     py_join ''+'' (map PolicyEngine_policy_version engines)"

fun PolicyEngine_evaluate ::
  "(string \<Rightarrow> pyval \<Rightarrow> http_answer) \<Rightarrow> PolicyEngine \<Rightarrow> AuthorizationRequest \<Rightarrow>
   PolicyDecision \<times> PolicyEngine" where
  "PolicyEngine_evaluate post (RegistryPolicyEngine version) rq =
     (RegistryPolicyEngine_evaluate version rq, RegistryPolicyEngine version)"
| "PolicyEngine_evaluate post (OpaPolicyEngine url version) rq =
     (case OpaPolicyEngine_evaluate (post url) rq of
        (decision, version') \<Rightarrow> (decision, OpaPolicyEngine url version'))"
| "PolicyEngine_evaluate post (AllOfPolicyEngine engines) rq =
     (let answers = map (\<lambda>e. PolicyEngine_evaluate post e rq) engines;
          refusals = map (\<lambda>(d, e). pd_reason d) (filter (\<lambda>(d, e). \<not> pd_allowed d) answers);
          after = AllOfPolicyEngine (map snd answers)
      in (if refusals \<noteq> []
          then PolicyDecision_deny (py_join ''; '' refusals) (PolicyEngine_policy_version after)
          else PolicyDecision_allow (PolicyEngine_policy_version after), after))"

abbreviation evaluate_allows ::
  "(string \<Rightarrow> pyval \<Rightarrow> http_answer) \<Rightarrow> PolicyEngine \<Rightarrow> AuthorizationRequest \<Rightarrow> bool" where
  "evaluate_allows post e rq \<equiv> pd_allowed (fst (PolicyEngine_evaluate post e rq))"


section \<open>Properties of the engines\<close>

lemma registry_engine_allows_iff:
  "pd_allowed (RegistryPolicyEngine_evaluate v rq) \<longleftrightarrow>
   Capability_is_executable_by (aq_capability rq) (aq_principal rq)"
  by (auto simp: RegistryPolicyEngine_evaluate_def Let_def dest: executable_visible visible_bounds)

lemma opa_allows:
  "pd_allowed (fst (OpaPolicyEngine_evaluate post rq)) \<Longrightarrow>
   \<exists>entries result. post (build_policy_input rq) = HttpDocument (VDict entries) \<and>
     dict_get entries ''result'' = Some (VDict result) \<and> dict_get result ''allow'' = Some (VBool True)"
  by (auto simp: OpaPolicyEngine_evaluate_def OpaPolicyEngine_read_decision_def
      OpaPolicyEngine_unavailable_def Let_def
      split: http_answer.splits pyval.splits option.splits if_splits bool.splits)

lemma all_of_allows_iff:
  "evaluate_allows post (AllOfPolicyEngine es) rq \<longleftrightarrow> (\<forall>e \<in> set es. evaluate_allows post e rq)"
  by (auto simp: Let_def filter_empty_conv split: prod.splits) (metis fst_conv prod.collapse)+

text \<open>An engine that was asked keeps its kind; only recorded versions change.\<close>

fun engine_shape :: "PolicyEngine \<Rightarrow> PolicyEngine" where
  "engine_shape (RegistryPolicyEngine v) = RegistryPolicyEngine v"
| "engine_shape (OpaPolicyEngine url v) = OpaPolicyEngine url []"
| "engine_shape (AllOfPolicyEngine es) = AllOfPolicyEngine (map engine_shape es)"

lemma evaluate_shape: "engine_shape (snd (PolicyEngine_evaluate post e rq)) = engine_shape e"
  by (induction post e rq rule: PolicyEngine_evaluate.induct) (auto simp: Let_def split: prod.splits)

text \<open>
  Neither layer can widen the other. When the registry boundary and the policy bundle are
  combined, a call is permitted exactly when the registered capability is executable by the
  caller and the policy service answered with a document whose decision is to allow. A
  timeout, a transport error, an error status or an unreadable answer therefore refuses the
  call, whatever the registry says.
\<close>

theorem combined_policy_permits_iff:
  "evaluate_allows post (AllOfPolicyEngine [RegistryPolicyEngine v, OpaPolicyEngine url w]) rq \<longleftrightarrow>
     Capability_is_executable_by (aq_capability rq) (aq_principal rq) \<and>
     (\<exists>entries result. post url (build_policy_input rq) = HttpDocument (VDict entries) \<and>
        dict_get entries ''result'' = Some (VDict result) \<and>
        dict_get result ''allow'' = Some (VBool True))"
proof -
  have opa: "pd_allowed (fst (OpaPolicyEngine_evaluate (post url) rq)) \<longleftrightarrow>
     (\<exists>entries result. post url (build_policy_input rq) = HttpDocument (VDict entries) \<and>
        dict_get entries ''result'' = Some (VDict result) \<and>
        dict_get result ''allow'' = Some (VBool True))" (is "_ \<longleftrightarrow> ?ok")
  proof
    assume ?ok
    then show "pd_allowed (fst (OpaPolicyEngine_evaluate (post url) rq))"
      by (auto simp: OpaPolicyEngine_evaluate_def OpaPolicyEngine_read_decision_def Let_def)
  qed (rule opa_allows)
  have "evaluate_allows post (OpaPolicyEngine url w) rq =
      pd_allowed (fst (OpaPolicyEngine_evaluate (post url) rq))"
    by (simp split: prod.splits)
  then show ?thesis
    by (simp only: all_of_allows_iff list.set ball_simps opa)
      (simp add: registry_engine_allows_iff)
qed

text \<open>
  What is sent to the policy service depends on the names of the arguments only: two calls
  that differ in argument values, or in the order the arguments were given, post the same
  document.
\<close>

theorem policy_input_hides_argument_values:
  assumes "mset (map fst (aq_arguments rq)) = mset (map fst args)"
  shows "build_policy_input (rq\<lparr>aq_arguments := args\<rparr>) = build_policy_input rq"
proof -
  have "sort (map fst args) = sort (map fst (aq_arguments rq))"
    using assms by (metis mset_sort sorted_list_of_multiset_mset)
  then show ?thesis by (simp add: build_policy_input_def)
qed

definition sample_principal :: Principal where
  "sample_principal = \<lparr>pr_tenant_id = ''acme'', pr_subject_id = ''u'', pr_roles = {R_REQUESTER},
     pr_agent_role = None, pr_clearance = AC_INTERNAL\<rparr>"

definition sample_request :: AuthorizationRequest where
  "sample_request = \<lparr>aq_principal = sample_principal,
     aq_capability = Capability_default ''web-research'' ''search'' ''s'', aq_job_id = 1,
     aq_task_id = 2, aq_arguments = [(''query'', VStr ''a''), (''token'', VStr ''t1'')]\<rparr>"

theorem policy_input_hides_argument_values_witness:
  "build_policy_input (sample_request\<lparr>aq_arguments := [(''token'', VStr ''t2''), (''query'', VNone)]\<rparr>) =
   build_policy_input sample_request"
  by (rule policy_input_hides_argument_values) (simp add: sample_request_def)

end
