(* ===== verification/Approvals.thy ===== *)
theory Approvals
  imports Invocations
begin

text \<open>
  Reviewer approvals (\<open>domain/approvals.py\<close>): a decision bound to one server, capability,
  resource and argument digest, with an expiry.
\<close>

datatype ApprovalKind = AK_SCOPE | AK_SENSITIVE_TOOL | AK_PUBLICATION

datatype ApprovalStatus = AS_PENDING | AS_GRANTED | AS_REJECTED | AS_EXPIRED

record ApprovalRequest =
  ar_id :: uuid
  ar_job_id :: uuid
  ar_tenant_id :: string
  ar_kind :: ApprovalKind
  ar_mcp_server :: string
  ar_capability :: string
  ar_resource_id :: string
  ar_argument_digest :: string
  ar_reason :: string
  ar_status :: ApprovalStatus
  ar_requested_at :: datetime
  ar_expires_at :: datetime
  ar_reviewer_id :: "string option"
  ar_decided_at :: "datetime option"

text \<open>The field constraints and the validator \<open>decided_requests_need_a_reviewer\<close>.\<close>

definition ApprovalRequest_valid :: "ApprovalRequest \<Rightarrow> bool" where
  "ApprovalRequest_valid a \<longleftrightarrow>
     bounded_text 1 100 (ar_tenant_id a) \<and> nonempty_text (ar_mcp_server a) \<and>
     nonempty_text (ar_capability a) \<and> nonempty_text (ar_resource_id a) \<and>
     sha256_pattern (ar_argument_digest a) \<and> nonempty_text (ar_reason a) \<and>
     opt_text 200 (ar_reviewer_id a) \<and>
     \<not> ar_expires_at a \<le> ar_requested_at a \<and>
     \<not> (ar_status a \<in> {AS_GRANTED, AS_REJECTED} \<and> (ar_reviewer_id a = None \<or> ar_decided_at a = None))"

datatype ApprovalError =
    AlreadyDecided uuid ApprovalStatus
  | ApprovalMismatch uuid string string string

definition ApprovalRequest_decide ::
  "ApprovalRequest \<Rightarrow> string \<Rightarrow> bool \<Rightarrow> datetime \<Rightarrow> ApprovalError + ApprovalRequest" where
  "ApprovalRequest_decide a reviewer_id granted now =
     (if ar_status a \<noteq> AS_PENDING then Inl (AlreadyDecided (ar_id a) (ar_status a))
      else if now \<ge> ar_expires_at a
      then Inr (a\<lparr>ar_status := AS_EXPIRED, ar_decided_at := Some now\<rparr>)
      else Inr (a\<lparr>ar_status := (if granted then AS_GRANTED else AS_REJECTED),
                  ar_reviewer_id := Some reviewer_id, ar_decided_at := Some now\<rparr>))"

definition ApprovalRequest_is_valid_for ::
  "ApprovalRequest \<Rightarrow> string \<Rightarrow> string \<Rightarrow> string \<Rightarrow> arguments \<Rightarrow> datetime \<Rightarrow> bool" where
  "ApprovalRequest_is_valid_for a mcp_server capability resource_id args now \<longleftrightarrow>
     ar_status a = AS_GRANTED \<and> now < ar_expires_at a \<and> ar_mcp_server a = mcp_server \<and>
     ar_capability a = capability \<and> ar_resource_id a = resource_id \<and>
     ar_argument_digest a = argument_digest args"

definition ApprovalRequest_authorize ::
  "ApprovalRequest \<Rightarrow> string \<Rightarrow> string \<Rightarrow> string \<Rightarrow> arguments \<Rightarrow> datetime \<Rightarrow> ApprovalError + unit" where
  "ApprovalRequest_authorize a mcp_server capability resource_id args now =
     (if \<not> ApprovalRequest_is_valid_for a mcp_server capability resource_id args now
      then Inl (ApprovalMismatch (ar_id a) mcp_server capability resource_id)
      else Inr ())"

text \<open>The request opened for a sensitive call; \<open>valid_for\<close> is 24 hours unless given.\<close>

definition default_valid_for :: timedelta where
  "default_valid_for = 24 * 3600 * 1000000"

definition request_sensitive_tool_approval ::
  "uuid \<Rightarrow> uuid \<Rightarrow> string \<Rightarrow> string \<Rightarrow> string \<Rightarrow> string \<Rightarrow> arguments \<Rightarrow> string \<Rightarrow> timedelta \<Rightarrow> datetime \<Rightarrow>
   ApprovalRequest" where
  "request_sensitive_tool_approval new_id job_id tenant_id mcp_server capability resource_id args
     reason valid_for requested_at =
     \<lparr>ar_id = new_id, ar_job_id = job_id, ar_tenant_id = tenant_id, ar_kind = AK_SENSITIVE_TOOL,
      ar_mcp_server = mcp_server, ar_capability = capability, ar_resource_id = resource_id,
      ar_argument_digest = argument_digest args, ar_reason = reason, ar_status = AS_PENDING,
      ar_requested_at = requested_at, ar_expires_at = requested_at + valid_for,
      ar_reviewer_id = None, ar_decided_at = None\<rparr>"

lemma decide_Inr:
  assumes "ApprovalRequest_decide a r g now = Inr b"
  shows "ar_status a = AS_PENDING \<and> ar_status b \<noteq> AS_PENDING \<and>
    (ar_status b = AS_GRANTED \<longleftrightarrow> g \<and> now < ar_expires_at a)"
  using assms by (auto simp: ApprovalRequest_decide_def split: if_splits)

lemma decide_valid [inv_rules]:
  assumes "ApprovalRequest_valid a" and "length r \<le> 200"
    and "ApprovalRequest_decide a r g now = Inr b"
  shows "ApprovalRequest_valid b"
  using assms
  by (auto simp: ApprovalRequest_decide_def ApprovalRequest_valid_def opt_text_def split: if_splits)

text \<open>A life of an approval: every decision that is taken on it, in order.\<close>

inductive approval_run :: "ApprovalRequest \<Rightarrow> ApprovalRequest \<Rightarrow> bool" where
  approval_run_refl: "approval_run a a"
| approval_run_decide:
    "approval_run a b \<Longrightarrow> ApprovalRequest_decide b r g now = Inr c \<Longrightarrow> approval_run a c"

lemma approval_run_decided:
  "approval_run a b \<Longrightarrow> ar_status a = AS_PENDING \<Longrightarrow>
   b = a \<or> (\<exists>r g now. ApprovalRequest_decide a r g now = Inr b)"
proof (induction rule: approval_run.induct)
  case (approval_run_decide a b r g now c)
  then show ?case by (blast dest: decide_Inr)
qed simp

text \<open>
  An approval that was opened for one call authorizes, whatever is decided on it later,
  only a call to the same server and capability with the same resource and the same argument
  digest, before it expires and only after a reviewer granted it before it expired. A pending,
  rejected or expired request authorizes nothing.
\<close>

theorem approval_authorizes_only_its_call:
  assumes opened: "a = request_sensitive_tool_approval i j ten srv cap res args reason valid_for at0"
    and run: "approval_run a b"
    and ok: "ApprovalRequest_authorize b srv' cap' res' args' now = Inr ()"
  shows "srv' = srv \<and> cap' = cap \<and> res' = res \<and> argument_digest args' = argument_digest args \<and>
     now < at0 + valid_for \<and>
     (\<exists>r t. t < at0 + valid_for \<and> ApprovalRequest_decide a r True t = Inr b)"
proof -
  have granted: "ApprovalRequest_is_valid_for b srv' cap' res' args' now"
    using ok by (auto simp: ApprovalRequest_authorize_def split: if_splits)
  have "b \<noteq> a" using granted opened
    by (auto simp: ApprovalRequest_is_valid_for_def request_sensitive_tool_approval_def)
  then obtain r g t where d: "ApprovalRequest_decide a r g t = Inr b"
    using approval_run_decided [OF run] opened by (auto simp: request_sensitive_tool_approval_def)
  then have "g" "t < ar_expires_at a"
    using decide_Inr [OF d] granted by (auto simp: ApprovalRequest_is_valid_for_def)
  with d granted opened show ?thesis
    by (auto simp: ApprovalRequest_is_valid_for_def request_sensitive_tool_approval_def
        ApprovalRequest_decide_def intro!: exI [of _ r] exI [of _ t] split: if_splits)
qed

definition sample_approval :: ApprovalRequest where
  "sample_approval = request_sensitive_tool_approval 7 1 ''acme'' ''postgres'' ''run_analytical_query''
     ''sales'' [(''sql'', VStr ''select 1'')] ''audit'' 100 0"

definition granted_approval :: ApprovalRequest where
  "granted_approval = sample_approval\<lparr>ar_status := AS_GRANTED, ar_reviewer_id := Some ''rita'',
     ar_decided_at := Some 5\<rparr>"

lemma granted_approval_decided:
  "ApprovalRequest_decide sample_approval ''rita'' True 5 = Inr granted_approval"
  by (simp add: ApprovalRequest_decide_def sample_approval_def request_sensitive_tool_approval_def
      granted_approval_def)

theorem approval_authorizes_only_its_call_witness:
  "ApprovalRequest_authorize granted_approval ''postgres'' ''run_analytical_query'' ''sales''
     [(''sql'', VStr ''select 1'')] 50 = Inr () \<and> (50 :: int) < 0 + 100"
proof -
  have ok: "ApprovalRequest_authorize granted_approval ''postgres'' ''run_analytical_query'' ''sales''
     [(''sql'', VStr ''select 1'')] 50 = Inr ()"
    by (simp add: ApprovalRequest_authorize_def ApprovalRequest_is_valid_for_def granted_approval_def
        sample_approval_def request_sensitive_tool_approval_def)
  have "approval_run sample_approval granted_approval"
    by (rule approval_run_decide [OF approval_run_refl granted_approval_decided])
  from approval_authorizes_only_its_call [OF sample_approval_def this ok] ok show ?thesis by simp
qed

end
