(* ===== verification/Sanitizer.thy ===== *)
theory Sanitizer
  imports Regex Encoding
begin

text \<open>
  Tool results as untrusted content (\<open>mcp/sanitizer.py\<close>): hidden characters are removed, runs of
  blanks collapsed, the text bounded in bytes and searched for steering patterns. Text is a list
  of Unicode code points.

  The Unicode database is outside the program. The format characters (category \<open>Cf\<close>) and the
  white space are written out; which code points are alphanumeric, which \<open>\b\<close> depends on, is the
  parameter \<open>alnum\<close> of every definition that searches.
\<close>

section \<open>Decoding UTF-8\<close>

text \<open>A code point \<open>str.encode("utf-8")\<close> accepts: no surrogate.\<close>

definition is_scalar :: "nat \<Rightarrow> bool" where
  "is_scalar n \<longleftrightarrow> n < 1114112 \<and> \<not> (55296 \<le> n \<and> n < 57344)"

definition seq_len :: "byte \<Rightarrow> nat" where
  "seq_len b = (if b < 128 then 1 else if b < 192 then 0 else if b < 224 then 2
     else if b < 240 then 3 else if b < 248 then 4 else 0)"

fun seq_value :: "byte list \<Rightarrow> nat" where
  "seq_value [a] = a"
| "seq_value [a, b] = (a - 192) * 64 + (b - 128)"
| "seq_value [a, b, c] = (a - 224) * 4096 + (b - 128) * 64 + (c - 128)"
| "seq_value [a, b, c, d] = (a - 240) * 262144 + (b - 128) * 4096 + (c - 128) * 64 + (d - 128)"
| "seq_value _ = 0"

text \<open>The code point a byte sequence starts with, when it starts with a well-formed one.\<close>

definition seq_first :: "byte list \<Rightarrow> nat option" where
  "seq_first bs =
     (let k = seq_len (hd bs); w = take k bs; v = seq_value w
      in if k > 0 \<and> length w = k \<and> utf8_char v = w \<and> is_scalar v then Some v else None)"

text \<open>
  \<open>bytes.decode("utf-8", errors="ignore")\<close>: a well-formed sequence gives its code point, a byte
  that starts none is dropped.
\<close>

function utf8_decode_ignore :: "byte list \<Rightarrow> unicode" where
  "utf8_decode_ignore [] = []"
| "utf8_decode_ignore (b # bs) =
     (case seq_first (b # bs) of
        Some v \<Rightarrow> v # utf8_decode_ignore (drop (length (utf8_char v) - 1) bs)
      | None \<Rightarrow> utf8_decode_ignore bs)"
  by pat_completeness auto
termination
  by (relation "measure length") auto

declare utf8_decode_ignore.simps(2) [simp del]

text \<open>The longest prefix of a text whose encoding fits in a number of bytes.\<close>

fun utf8_fit :: "nat \<Rightarrow> unicode \<Rightarrow> unicode" where
  "utf8_fit n [] = []"
| "utf8_fit n (c # s) =
     (if length (utf8_char c) \<le> n then c # utf8_fit (n - length (utf8_char c)) s else [])"

lemma seq_len_char: "is_scalar c \<Longrightarrow> seq_len (hd (utf8_char c)) = length (utf8_char c)"
  by (auto simp: is_scalar_def utf8_char_def seq_len_def)

lemma base64_digits: "(n :: nat) div 4096 * 4096 + n div 64 mod 64 * 64 + n mod 64 = n"
proof -
  have "n div 64 = n div 64 div 64 * 64 + n div 64 mod 64" by (rule div_mod_decomp)
  moreover have "n div 4096 = n div 64 div 64" by (simp add: div_mult2_eq [symmetric])
  ultimately show ?thesis using div_mod_decomp [of n 64] by linarith
qed

lemma base64_digits4:
  "(n :: nat) div 262144 * 262144 + n div 4096 mod 64 * 4096 + n div 64 mod 64 * 64 + n mod 64 = n"
proof -
  have "n div 262144 * 4096 + n div 4096 mod 64 * 64 + n div 64 mod 64 = n div 64"
    using base64_digits [of "n div 64"] by (simp add: div_mult2_eq [symmetric])
  then show ?thesis using div_mod_decomp [of n 64] by linarith
qed

lemma seq_value_char: "is_scalar c \<Longrightarrow> seq_value (utf8_char c) = c"
  using base64_digits [of c] base64_digits4 [of c] div_mod_decomp [of c 64]
  by (auto simp: utf8_char_def)

lemma utf8_tail_bytes: "b \<in> set (tl (utf8_char c)) \<Longrightarrow> 128 \<le> b \<and> b < 192"
  by (auto simp: utf8_char_def split: if_splits)

lemma decode_skip_tail: "(\<And>b. b \<in> set bs \<Longrightarrow> 128 \<le> b \<and> b < 192) \<Longrightarrow> utf8_decode_ignore bs = []"
proof (induction bs)
  case (Cons b bs)
  have "128 \<le> b \<and> b < 192" using Cons.prems by simp
  then have "seq_len b = 0" by (simp add: seq_len_def)
  with Cons show ?case by (simp add: utf8_decode_ignore.simps(2) seq_first_def)
qed simp

lemma decode_char:
  assumes "is_scalar c"
  shows "utf8_decode_ignore (utf8_char c @ bs) = c # utf8_decode_ignore bs"
proof -
  obtain b w where w: "utf8_char c = b # w" by (cases "utf8_char c") auto
  have len: "seq_len b = Suc (length w)" using seq_len_char [OF assms] w by simp
  have "seq_first (b # w @ bs) = Some c"
    using assms w len seq_value_char [OF assms] by (simp add: seq_first_def Let_def)
  then show ?thesis using w by (simp add: utf8_decode_ignore.simps(2))
qed

lemma decode_cut_char:
  assumes "is_scalar c" and "n < length (utf8_char c)"
  shows "utf8_decode_ignore (take n (utf8_char c)) = []"
proof (cases n)
  case (Suc m)
  obtain b w where w: "utf8_char c = b # w" by (cases "utf8_char c") auto
  have "seq_len b = length (utf8_char c)" using seq_len_char [OF assms(1)] w by simp
  moreover have "utf8_decode_ignore (take m w) = []"
    using utf8_tail_bytes [of _ c] w by (intro decode_skip_tail) (auto dest: in_set_takeD)
  ultimately show ?thesis
    using assms(2) w Suc by (simp add: utf8_decode_ignore.simps(2) seq_first_def Let_def)
qed simp

theorem decode_truncated:
  "list_all is_scalar s \<Longrightarrow> utf8_decode_ignore (take n (utf8_encode s)) = utf8_fit n s"
  by (induction s arbitrary: n) (auto simp: decode_char decode_cut_char)

lemma utf8_fit_length: "length (utf8_encode (utf8_fit n s)) \<le> n"
  by (induction n s rule: utf8_fit.induct) auto

lemma utf8_fit_prefix: "prefix (utf8_fit n s) s"
  by (induction n s rule: utf8_fit.induct) auto

lemma utf8_fit_maximal:
  "prefix p s \<Longrightarrow> length (utf8_encode p) \<le> n \<Longrightarrow> prefix p (utf8_fit n s)"
  by (induction n s arbitrary: p rule: utf8_fit.induct) (auto simp: prefix_Cons)


section \<open>Patterns\<close>

datatype InjectionFlag =
    IF_INSTRUCTION_OVERRIDE | IF_ROLE_IMPERSONATION | IF_CHAT_TEMPLATE_MARKER | IF_TOOL_DIRECTIVE
  | IF_CREDENTIAL_REQUEST | IF_HIDDEN_CHARACTERS

definition CONTROL_CHARACTERS :: "nat rx" where
  "CONTROL_CHARACTERS = Cls (\<lambda>n. n \<le> 8 \<or> n = 11 \<or> n = 12 \<or> 14 \<le> n \<and> n \<le> 31 \<or> n = 127)"

definition is_blank :: "nat \<Rightarrow> bool" where
  "is_blank n \<longleftrightarrow> n = 32 \<or> n = 9"

definition COLLAPSIBLE_WHITESPACE :: "nat rx" where
  "COLLAPSIBLE_WHITESPACE = Seq (rx_rep 3 3 (Cls is_blank)) (Star (Cls is_blank))"

text \<open>\<open>\s\<close> on a code point.\<close>

definition uni_space :: "nat \<Rightarrow> bool" where
  "uni_space n \<longleftrightarrow> 9 \<le> n \<and> n \<le> 13 \<or> 28 \<le> n \<and> n \<le> 32 \<or> n = 133 \<or> n = 160 \<or> n = 0x1680 \<or>
     0x2000 \<le> n \<and> n \<le> 0x200A \<or> n = 0x2028 \<or> n = 0x2029 \<or> n = 0x202F \<or> n = 0x205F \<or> n = 0x3000"

text \<open>\<open>unicodedata.category(c) == "Cf"\<close>.\<close>

definition is_format :: "nat \<Rightarrow> bool" where
  "is_format n \<longleftrightarrow> n = 0xAD \<or> 0x600 \<le> n \<and> n \<le> 0x605 \<or> n = 0x61C \<or> n = 0x6DD \<or> n = 0x70F \<or>
     n = 0x890 \<or> n = 0x891 \<or> n = 0x8E2 \<or> n = 0x180E \<or> 0x200B \<le> n \<and> n \<le> 0x200F \<or>
     0x202A \<le> n \<and> n \<le> 0x202E \<or> 0x2060 \<le> n \<and> n \<le> 0x2064 \<or> 0x2066 \<le> n \<and> n \<le> 0x206F \<or>
     n = 0xFEFF \<or> 0xFFF9 \<le> n \<and> n \<le> 0xFFFB \<or> n = 0x110BD \<or> n = 0x110CD \<or>
     0x13430 \<le> n \<and> n \<le> 0x1343F \<or> 0x1BCA0 \<le> n \<and> n \<le> 0x1BCA3 \<or> 0x1D173 \<le> n \<and> n \<le> 0x1D17A \<or>
     n = 0xE0001 \<or> 0xE0020 \<le> n \<and> n \<le> 0xE007F"

text \<open>
  Under \<open>IGNORECASE\<close> a letter also matches its capital, and \<open>i\<close>, \<open>k\<close> and \<open>s\<close> match the four
  non-ASCII letters that fold to them.
\<close>

definition same_letter :: "nat \<Rightarrow> nat \<Rightarrow> bool" where
  "same_letter c x \<longleftrightarrow> x = c \<or> 97 \<le> c \<and> c \<le> 122 \<and> x + 32 = c \<or> 65 \<le> c \<and> c \<le> 90 \<and> x = c + 32 \<or>
     (c = 105 \<or> c = 73) \<and> (x = 0x130 \<or> x = 0x131) \<or> (c = 115 \<or> c = 83) \<and> x = 0x17F \<or>
     (c = 107 \<or> c = 75) \<and> x = 0x212A"

definition rx_word :: "string \<Rightarrow> nat rx" where
  "rx_word s = rx_seq (map (\<lambda>c. Cls (same_letter (of_char c))) s)"

definition rx_words :: "string list \<Rightarrow> nat rx" where
  "rx_words ws = rx_alt (map rx_word ws)"

text \<open>\<open>\b\<close>, and \<open>[^.\n]{0,n}\<close>.\<close>

definition rx_b :: "(nat \<Rightarrow> bool) \<Rightarrow> nat rx" where
  "rx_b alnum = WordB (\<lambda>n. alnum n \<or> n = 95)"

definition rx_gap :: "nat \<Rightarrow> nat rx" where
  "rx_gap n = rx_rep 0 n (Cls (\<lambda>x. x \<noteq> 46 \<and> x \<noteq> 10))"

definition is_letter_ic :: "nat \<Rightarrow> bool" where
  "is_letter_ic n \<longleftrightarrow> 97 \<le> n \<and> n \<le> 122 \<or> 65 \<le> n \<and> n \<le> 90 \<or> n = 0x130 \<or> n = 0x131 \<or> n = 0x17F \<or> n = 0x212A"

definition INJECTION_PATTERNS :: "(nat \<Rightarrow> bool) \<Rightarrow> (InjectionFlag \<times> nat rx) list" where
  "INJECTION_PATTERNS alnum =
     [(IF_INSTRUCTION_OVERRIDE, rx_seq
        [rx_b alnum, rx_words [''ignore'', ''disregard'', ''forget'', ''override''], rx_b alnum, rx_gap 40,
         rx_b alnum, rx_words [''previous'', ''prior'', ''earlier'', ''above'', ''all''], rx_b alnum, rx_gap 40,
         rx_b alnum, rx_words [''instruction'', ''instructions'', ''prompt'', ''prompts'', ''rule'', ''rules''],
         rx_b alnum]),
      (IF_ROLE_IMPERSONATION, rx_seq
        [Bol (\<lambda>n. n = 10), Star (Cls uni_space), rx_words [''system'', ''assistant'', ''developer''],
         Star (Cls uni_space), rx_word '':'']),
      (IF_CHAT_TEMPLATE_MARKER, rx_alt
        [rx_seq [rx_word ''<|'', rx_plus (Cls (\<lambda>n. is_letter_ic n \<or> n = 95)), rx_word ''|>''],
         rx_seq [rx_word ''['', rx_opt (rx_word ''/''), rx_word ''INST]''],
         rx_word ''<<SYS>>'']),
      (IF_TOOL_DIRECTIVE, rx_seq
        [rx_b alnum, rx_words [''call'', ''invoke'', ''execute'', ''run''], rx_b alnum, rx_gap 30,
         rx_b alnum, rx_words [''tool'', ''function'', ''capability'', ''command''], rx_b alnum]),
      (IF_CREDENTIAL_REQUEST, rx_seq
        [rx_b alnum, rx_words [''reveal'', ''print'', ''output'', ''send'', ''exfiltrate'', ''leak''], rx_b alnum,
         rx_gap 40, rx_b alnum,
         rx_alt [rx_seq [rx_word ''api'', rx_opt (Cls (\<lambda>n. n = 32 \<or> n = 95 \<or> n = 45)), rx_word ''key''],
           rx_words [''secret'', ''token'', ''password'', ''credential'', ''credentials'']],
         rx_b alnum])]"


section \<open>Sanitizing\<close>

record UntrustedContent =
  uc_text :: unicode
  uc_byte_length :: nat
  uc_truncated :: bool
  uc_injection_flags :: "InjectionFlag set"

definition UntrustedContent_is_suspicious :: "UntrustedContent \<Rightarrow> bool" where
  "UntrustedContent_is_suspicious c \<longleftrightarrow> uc_injection_flags c \<noteq> {}"

definition strip_hidden_characters :: "unicode \<Rightarrow> unicode \<times> bool" where
  "strip_hidden_characters text =
     (let without_controls = rx_sub CONTROL_CHARACTERS [] text;
          visible = filter (\<lambda>c. \<not> is_format c \<or> c = 10) without_controls
      in (visible, visible \<noteq> text))"

definition detect_injection :: "(nat \<Rightarrow> bool) \<Rightarrow> unicode \<Rightarrow> InjectionFlag set" where
  "detect_injection alnum text =
     set (map fst (filter (\<lambda>(flag, pattern). rx_found pattern text) (INJECTION_PATTERNS alnum)))"

datatype SanitizeError = NonPositiveMaxBytes | UnicodeEncodeError

definition sanitize_result :: "(nat \<Rightarrow> bool) \<Rightarrow> unicode \<Rightarrow> int \<Rightarrow> SanitizeError + UntrustedContent" where
  "sanitize_result alnum text max_bytes =
     (if max_bytes \<le> 0 then Inl NonPositiveMaxBytes
      else
        (let (visible, hid_characters) = strip_hidden_characters text;
             normalized = rx_sub COLLAPSIBLE_WHITESPACE [32, 32] visible
         in if \<not> list_all is_scalar normalized then Inl UnicodeEncodeError
            else
              (let encoded = utf8_encode normalized;
                   truncated = int (length encoded) > max_bytes;
                   kept = (if truncated then utf8_decode_ignore (take (nat max_bytes) encoded) else normalized);
                   flags = detect_injection alnum kept
               in Inr \<lparr>uc_text = kept, uc_byte_length = length (utf8_encode kept), uc_truncated = truncated,
                       uc_injection_flags = (if hid_characters then insert IF_HIDDEN_CHARACTERS flags else flags)\<rparr>)))"


section \<open>What sanitizing guarantees\<close>

definition is_hidden :: "nat \<Rightarrow> bool" where
  "is_hidden n \<longleftrightarrow> n \<le> 8 \<or> n = 11 \<or> n = 12 \<or> 14 \<le> n \<and> n \<le> 31 \<or> n = 127 \<or> is_format n"

definition visible_text :: "unicode \<Rightarrow> unicode" where
  "visible_text text = filter (\<lambda>c. \<not> is_hidden c) text"

lemma newline_not_format: "\<not> is_format 10"
  by (simp add: is_format_def)

lemma strip_hidden_spec: "strip_hidden_characters text = (visible_text text, visible_text text \<noteq> text)"
proof -
  have "filter (\<lambda>c. \<not> is_format c \<or> c = 10) (rx_sub CONTROL_CHARACTERS [] text) = visible_text text"
    unfolding CONTROL_CHARACTERS_def rx_sub_Cls visible_text_def filter_filter
    using newline_not_format by (intro filter_cong) (auto simp: is_hidden_def)
  then show ?thesis by (simp add: strip_hidden_characters_def Let_def)
qed

lemma visible_text_clean: "visible_text text = text \<longleftrightarrow> list_all (\<lambda>c. \<not> is_hidden c) text"
  by (induction "text") (auto simp: visible_text_def list_all_iff dest: filter_eq_ConsD)

lemma collapse_keeps:
  "filter (\<lambda>c. \<not> is_blank c) (rx_sub COLLAPSIBLE_WHITESPACE [32, 32] s) = filter (\<lambda>c. \<not> is_blank c) s"
  by (rule rx_sub_keeps) (simp_all add: COLLAPSIBLE_WHITESPACE_def is_blank_def)

lemma prefix_filter: "prefix xs ys \<Longrightarrow> prefix (filter P xs) (filter P ys)"
  by (auto simp: prefix_def)

text \<open>The text before it is cut, and the two ways a result comes about.\<close>

definition normalized_text :: "unicode \<Rightarrow> unicode" where
  "normalized_text text = rx_sub COLLAPSIBLE_WHITESPACE [32, 32] (visible_text text)"

lemma sanitize_result_spec:
  assumes "sanitize_result alnum text max_bytes = Inr r"
  shows "uc_text r = utf8_fit (nat max_bytes) (normalized_text text)"
    and "uc_truncated r \<longleftrightarrow> int (length (utf8_encode (normalized_text text))) > max_bytes"
    and "uc_byte_length r = length (utf8_encode (uc_text r))"
    and "uc_injection_flags r =
      detect_injection alnum (uc_text r) \<union> (if visible_text text \<noteq> text then {IF_HIDDEN_CHARACTERS} else {})"
    and "0 < max_bytes"
proof -
  have scalar: "list_all is_scalar (normalized_text text)" and pos: "0 < max_bytes"
    using assms by (auto simp: sanitize_result_def strip_hidden_spec normalized_text_def Let_def split: if_splits)
  have whole: "utf8_fit n s = s" if "length (utf8_encode s) \<le> n" for n s
    using utf8_fit_maximal [OF prefix_order.refl that] utf8_fit_prefix by (rule prefix_order.antisym [rotated])
  have r: "r = \<lparr>uc_text = utf8_fit (nat max_bytes) (normalized_text text),
      uc_byte_length = length (utf8_encode (utf8_fit (nat max_bytes) (normalized_text text))),
      uc_truncated = int (length (utf8_encode (normalized_text text))) > max_bytes,
      uc_injection_flags = detect_injection alnum (utf8_fit (nat max_bytes) (normalized_text text)) \<union>
        (if visible_text text \<noteq> text then {IF_HIDDEN_CHARACTERS} else {})\<rparr>"
    using assms scalar whole decode_truncated [OF scalar, of "nat max_bytes"]
    by (auto simp: sanitize_result_def strip_hidden_spec normalized_text_def Let_def split: if_splits)
  show "uc_text r = utf8_fit (nat max_bytes) (normalized_text text)"
    "uc_truncated r \<longleftrightarrow> int (length (utf8_encode (normalized_text text))) > max_bytes"
    "uc_byte_length r = length (utf8_encode (uc_text r))"
    "uc_injection_flags r =
      detect_injection alnum (uc_text r) \<union> (if visible_text text \<noteq> text then {IF_HIDDEN_CHARACTERS} else {})"
    "0 < max_bytes"
    using r pos by simp_all
qed

lemma blank_not_hidden: "\<not> is_hidden 32"
  by (simp add: is_hidden_def is_format_def)

lemma normalized_not_hidden: "c \<in> set (normalized_text text) \<Longrightarrow> \<not> is_hidden c"
  using rx_sub_set [of COLLAPSIBLE_WHITESPACE "[32, 32]" "visible_text text"]
  using blank_not_hidden by (auto simp: normalized_text_def visible_text_def)

text \<open>
  C34. What a tool result becomes is bounded and visible: its UTF-8 encoding has at most the
  allowed bytes and no code point is cut in half, no control or format character is left in it,
  it is a prefix of the visible text up to runs of blanks, and it is the longest such prefix
  that fits, cut only when the result reports that it was truncated. The hidden-characters flag
  is set exactly when something was removed, and every other flag is computed on the very text
  that is returned, so hidden characters cannot keep a pattern from being recognised.
\<close>

theorem sanitized_result_is_bounded_and_visible:
  assumes "sanitize_result alnum text max_bytes = Inr r"
  shows "int (uc_byte_length r) \<le> max_bytes \<and> uc_byte_length r = length (utf8_encode (uc_text r)) \<and>
    list_all (\<lambda>c. \<not> is_hidden c) (uc_text r) \<and>
    prefix (filter (\<lambda>c. \<not> is_blank c) (uc_text r)) (filter (\<lambda>c. \<not> is_hidden c \<and> \<not> is_blank c) text) \<and>
    (\<forall>p. prefix p (normalized_text text) \<and> int (length (utf8_encode p)) \<le> max_bytes \<longrightarrow> prefix p (uc_text r)) \<and>
    (\<not> uc_truncated r \<longrightarrow>
      filter (\<lambda>c. \<not> is_blank c) (uc_text r) = filter (\<lambda>c. \<not> is_hidden c \<and> \<not> is_blank c) text) \<and>
    (IF_HIDDEN_CHARACTERS \<in> uc_injection_flags r \<longleftrightarrow> (\<exists>c \<in> set text. is_hidden c)) \<and>
    (\<forall>flag. flag \<noteq> IF_HIDDEN_CHARACTERS \<longrightarrow>
      (flag \<in> uc_injection_flags r \<longleftrightarrow> flag \<in> detect_injection alnum (uc_text r)))"
proof -
  note r = sanitize_result_spec [OF assms]
  have nonblank: "filter (\<lambda>c. \<not> is_blank c) (normalized_text text) = filter (\<lambda>c. \<not> is_hidden c \<and> \<not> is_blank c) text"
    by (simp add: normalized_text_def collapse_keeps visible_text_def conj_commute)
  have "int (uc_byte_length r) \<le> max_bytes"
    using utf8_fit_length [of "nat max_bytes" "normalized_text text"] r(1,3,5) by (simp add: le_nat_iff)
  moreover have "list_all (\<lambda>c. \<not> is_hidden c) (uc_text r)"
    using set_mono_prefix [OF utf8_fit_prefix] normalized_not_hidden r(1) by (fastforce simp: list_all_iff)
  moreover have "prefix (filter (\<lambda>c. \<not> is_blank c) (uc_text r)) (filter (\<lambda>c. \<not> is_hidden c \<and> \<not> is_blank c) text)"
    unfolding nonblank [symmetric] r(1) by (rule prefix_filter [OF utf8_fit_prefix])
  moreover have "\<forall>p. prefix p (normalized_text text) \<and> int (length (utf8_encode p)) \<le> max_bytes \<longrightarrow>
      prefix p (uc_text r)"
    using utf8_fit_maximal r(1) by (simp add: le_nat_iff)
  moreover have "uc_text r = normalized_text text" if "\<not> uc_truncated r"
    using that utf8_fit_maximal [OF prefix_order.refl, of "normalized_text text" "nat max_bytes"]
      utf8_fit_prefix [of "nat max_bytes" "normalized_text text"] r(1,2)
    by (simp add: le_nat_iff prefix_order.antisym)
  moreover have "IF_HIDDEN_CHARACTERS \<notin> detect_injection alnum s" for s
    by (auto simp: detect_injection_def INJECTION_PATTERNS_def split: if_splits)
  ultimately show ?thesis
    using r(3,4) nonblank visible_text_clean [of "text"] by (auto simp: list_all_iff)
qed

definition ascii_alnum :: "nat \<Rightarrow> bool" where
  "ascii_alnum n \<longleftrightarrow> 48 \<le> n \<and> n \<le> 57 \<or> 65 \<le> n \<and> n \<le> 90 \<or> 97 \<le> n \<and> n \<le> 122"

theorem sanitized_result_is_bounded_and_visible_witness:
  "\<exists>r. sanitize_result ascii_alnum [72, 0x200B, 105] 5 = Inr r \<and> uc_byte_length r \<le> 5 \<and>
     IF_HIDDEN_CHARACTERS \<in> uc_injection_flags r"
proof -
  have "list_all is_scalar (normalized_text [72, 0x200B, 105])"
    using rx_sub_set [of COLLAPSIBLE_WHITESPACE "[32, 32]" "visible_text [72, 0x200B, 105]"]
    by (auto simp: list_all_iff normalized_text_def visible_text_def is_scalar_def split: if_splits)
  then obtain r where r: "sanitize_result ascii_alnum [72, 0x200B, 105] 5 = Inr r"
    by (simp add: sanitize_result_def strip_hidden_spec normalized_text_def Let_def)
  have "is_hidden 0x200B" by (simp add: is_hidden_def is_format_def)
  with sanitized_result_is_bounded_and_visible [OF r] r show ?thesis by auto
qed

end
