(* ===== verification/Gateway.thy ===== *)
theory Gateway
  imports Policy Approvals Breaker Sanitizer
begin

text \<open>
  The capability gateway (\<open>mcp/gateway.py\<close>), the single path from an agent to a capability:
  resolve, authorize, check the approval, reserve the budget, look at the circuit, execute,
  sanitize, audit. The budgets and the breaker are any implementation of their protocols; the
  locale \<open>gateway_ports\<close> joins their contracts.

  What the gateway asks of the outside is the environment of one call: the answers of the policy
  service, the answer of the executor, the readings of the clock, the generated identifier, and
  whether the audit sink stores a record. Spans are not modelled; the metrics are counters.
\<close>

section \<open>State and environment\<close>

record ExecutionRequest =
  xr_capability :: Capability
  xr_principal :: Principal
  xr_arguments :: arguments

text \<open>An executor returns text, raises \<open>UpstreamError\<close>, or raises something else.\<close>

datatype executor_answer =
    ExecutorText unicode
  | UpstreamError string ErrorClass
  | ExecutorRaised

record gateway_env =
  en_post :: "string \<Rightarrow> pyval \<Rightarrow> http_answer"
  en_execute :: "ExecutionRequest \<Rightarrow> executor_answer"
  en_alnum :: "nat \<Rightarrow> bool"
  en_new_id :: uuid
  en_approval_at :: datetime
  en_breaker_at :: datetime
  en_started :: datetime
  en_failed_at :: datetime
  en_finished :: datetime
  en_recorded_at :: datetime
  en_sink_stores :: bool

text \<open>
  The gateway's collaborators with their state. \<open>gw_audit\<close> says whether a sink is configured and
  \<open>gw_trail\<close> is what it has stored; \<open>gw_sent\<close> is every request handed to the executor.
\<close>

record ('b, 'c) CapabilityGateway =
  gw_registry :: CapabilityRegistry
  gw_policy :: PolicyEngine
  gw_budgets :: 'b
  gw_breaker :: 'c
  gw_audit :: bool
  gw_trail :: "ToolInvocation list"
  gw_sent :: "(uuid \<times> ExecutionRequest) list"
  gw_mcp_calls :: nat
  gw_permission_denials :: nat
  gw_injection_flags :: nat

record invocation_call =
  ca_principal :: Principal
  ca_job_id :: uuid
  ca_task_id :: uuid
  ca_server :: string
  ca_capability_name :: string
  ca_arguments :: arguments
  ca_budget :: ResearchBudget
  ca_approval :: "ApprovalRequest option"

text \<open>Why a call was refused: the policy's words, or the exception whose text is the reason.\<close>

datatype denial_reason =
    PolicyReason string
  | ApprovalRequired string
  | ApprovalRefused ApprovalError
  | BudgetReason LimitError
  | CircuitReason BreakerError

datatype GatewayError =
    CapabilityDenied denial_reason ToolInvocation
  | CapabilityFailed string ToolInvocation
  | CapabilityUnknown RegistryError
  | InvalidInvocation
  | ExecutorError
  | LimitRaised LimitError
  | BreakerRaised BreakerError
  | SanitizeRaised SanitizeError

record InvocationResult =
  ir_invocation :: ToolInvocation
  ir_content :: UntrustedContent

definition InvocationResult_is_suspicious :: "InvocationResult \<Rightarrow> bool" where
  "InvocationResult_is_suspicious r = UntrustedContent_is_suspicious (ir_content r)"


section \<open>The audit context\<close>

record AuditContext =
  ac_job_id :: uuid
  ac_task_id :: uuid
  ac_tenant_id :: string
  ac_capability :: Capability
  ac_sanitized_arguments :: arguments
  ac_argument_digest :: string
  ac_policy_version :: string

text \<open>\<open>record\<close> builds the audit record, and raises when the model refuses its fields.\<close>

definition AuditContext_record ::
  "gateway_env \<Rightarrow> AuditContext \<Rightarrow> AuthorizationDecision \<Rightarrow> InvocationOutcome \<Rightarrow> ErrorClass \<Rightarrow> int \<Rightarrow>
   GatewayError + ToolInvocation" where
  "AuditContext_record env a decision outcome error_class duration_ms =
     (let i = \<lparr>ti_id = en_new_id env, ti_job_id = ac_job_id a, ti_task_id = ac_task_id a,
          ti_tenant_id = ac_tenant_id a, ti_mcp_server = cap_server (ac_capability a),
          ti_capability = cap_name (ac_capability a), ti_sanitized_arguments = ac_sanitized_arguments a,
          ti_argument_digest = ac_argument_digest a, ti_policy_version = ac_policy_version a,
          ti_authorization_decision = decision, ti_outcome = outcome, ti_error_class = error_class,
          ti_started_at = en_recorded_at env, ti_duration_ms = Some duration_ms\<rparr>
      in if ToolInvocation_valid i then Inr i else Inl InvalidInvocation)"

text \<open>\<open>denied\<close>: only a policy verdict is recorded as an authorization denial.\<close>

definition AuditContext_denied ::
  "gateway_env \<Rightarrow> AuditContext \<Rightarrow> denial_reason \<Rightarrow> ErrorClass \<Rightarrow> GatewayError" where
  "AuditContext_denied env a reason error_class =
     (let policy_refused = (error_class = EC_POLICY_DENIED) in
      case AuditContext_record env a (if policy_refused then AD_DENY else AD_ALLOW) IO_DENIED error_class 0 of
        Inl e \<Rightarrow> e
      | Inr i \<Rightarrow> CapabilityDenied reason i)"

definition AuditContext_with_policy_version :: "AuditContext \<Rightarrow> string \<Rightarrow> AuditContext" where
  "AuditContext_with_policy_version a version = a\<lparr>ac_policy_version := version\<rparr>"

definition elapsed_ms :: "datetime \<Rightarrow> datetime \<Rightarrow> int" where
  "elapsed_ms started now = max 0 ((now - started) div 1000)"


section \<open>One call\<close>

definition CapabilityGateway_check_approval ::
  "gateway_env \<Rightarrow> AuditContext \<Rightarrow> arguments \<Rightarrow> ApprovalRequest option \<Rightarrow> GatewayError + unit" where
  "CapabilityGateway_check_approval env a args approval =
     (let c = ac_capability a in
      case approval of
        None \<Rightarrow> Inl (AuditContext_denied env a (ApprovalRequired (Capability_qualified_name c)) EC_POLICY_DENIED)
      | Some ap \<Rightarrow>
          (case ApprovalRequest_authorize ap (cap_server c) (cap_name c) (ar_resource_id ap) args (en_approval_at env) of
             Inl e \<Rightarrow> Inl (AuditContext_denied env a (ApprovalRefused e) EC_POLICY_DENIED)
           | Inr _ \<Rightarrow> Inr ()))"

definition CapabilityGateway_execute ::
  "'c Breaker \<Rightarrow> gateway_env \<Rightarrow> ('b, 'c) CapabilityGateway \<Rightarrow> AuditContext \<Rightarrow> Principal \<Rightarrow> arguments \<Rightarrow>
   (GatewayError + InvocationResult) \<times> ('b, 'c) CapabilityGateway" where
  "CapabilityGateway_execute cops env g a p args =
     (let c = ac_capability a;
          rq = \<lparr>xr_capability = c, xr_principal = p, xr_arguments = args\<rparr>;
          g1 = g\<lparr>gw_sent := gw_sent g @ [(ac_job_id a, rq)]\<rparr>
      in case en_execute env rq of
        ExecutorRaised \<Rightarrow> (Inl ExecutorError, g1)
      | UpstreamError message error_class \<Rightarrow>
          (case br_record_failure cops (gw_breaker g1) (cap_server c) (en_failed_at env) of
             (Inl e, breaker) \<Rightarrow> (Inl (BreakerRaised e), g1\<lparr>gw_breaker := breaker\<rparr>)
           | (Inr _, breaker) \<Rightarrow>
               (case AuditContext_record env a AD_ALLOW IO_FAILED error_class
                       (elapsed_ms (en_started env) (en_finished env)) of
                  Inl e \<Rightarrow> (Inl e, g1\<lparr>gw_breaker := breaker\<rparr>)
                | Inr i \<Rightarrow> (Inl (CapabilityFailed message i), g1\<lparr>gw_breaker := breaker\<rparr>)))
      | ExecutorText raw \<Rightarrow>
          (let g2 = g1\<lparr>gw_breaker := br_record_success cops (gw_breaker g1) (cap_server c)\<rparr>
           in case sanitize_result (en_alnum env) raw (cap_max_result_bytes c) of
                Inl e \<Rightarrow> (Inl (SanitizeRaised e), g2)
              | Inr content \<Rightarrow>
                  (let outcome = (if uc_truncated content then IO_FAILED else IO_SUCCEEDED);
                       error_class = (if uc_truncated content then EC_RESULT_TOO_LARGE else EC_NONE)
                   in case AuditContext_record env a AD_ALLOW outcome error_class
                             (elapsed_ms (en_started env) (en_finished env)) of
                        Inl e \<Rightarrow> (Inl e, g2)
                      | Inr i \<Rightarrow> (Inr \<lparr>ir_invocation = i, ir_content = content\<rparr>, g2))))"

definition invocation_audit_context :: "invocation_call \<Rightarrow> Capability \<Rightarrow> string \<Rightarrow> AuditContext" where
  "invocation_audit_context q c version =
     \<lparr>ac_job_id = ca_job_id q, ac_task_id = ca_task_id q, ac_tenant_id = pr_tenant_id (ca_principal q),
      ac_capability = c, ac_sanitized_arguments = sanitize_arguments (ca_arguments q),
      ac_argument_digest = argument_digest (ca_arguments q), ac_policy_version = version\<rparr>"

definition invocation_request :: "invocation_call \<Rightarrow> Capability \<Rightarrow> AuthorizationRequest" where
  "invocation_request q c =
     \<lparr>aq_principal = ca_principal q, aq_capability = c, aq_job_id = ca_job_id q,
      aq_task_id = ca_task_id q, aq_arguments = ca_arguments q\<rparr>"

text \<open>The reservation, the circuit and the execution: what follows once a call is authorized.\<close>

definition CapabilityGateway_metered ::
  "'b Budgets \<Rightarrow> 'c Breaker \<Rightarrow> gateway_env \<Rightarrow> ('b, 'c) CapabilityGateway \<Rightarrow> AuditContext \<Rightarrow> invocation_call \<Rightarrow>
   (GatewayError + InvocationResult) \<times> ('b, 'c) CapabilityGateway" where
  "CapabilityGateway_metered bops cops env g a q =
     (case bg_reserve_call bops (gw_budgets g) (ca_job_id q) (ca_budget q) of
        (Inl e, budgets) \<Rightarrow>
          (Inl (case e of
             BudgetExhausted _ _ _ \<Rightarrow> AuditContext_denied env a (BudgetReason e) EC_BUDGET_EXHAUSTED
           | LimitStoreUnavailable _ \<Rightarrow> AuditContext_denied env a (BudgetReason e) EC_UPSTREAM_UNAVAILABLE
           | NegativeUsage \<Rightarrow> LimitRaised e),
           g\<lparr>gw_budgets := budgets\<rparr>)
      | (Inr _, budgets) \<Rightarrow>
          (let g1 = g\<lparr>gw_budgets := budgets\<rparr> in
           case br_ensure_closed cops (gw_breaker g1) (cap_server (ac_capability a)) (en_breaker_at env) of
             (Inl e, breaker) \<Rightarrow>
               (Inl (case e of
                  CircuitAssertion \<Rightarrow> BreakerRaised e
                | _ \<Rightarrow> AuditContext_denied env a (CircuitReason e) EC_UPSTREAM_UNAVAILABLE),
                g1\<lparr>gw_breaker := breaker\<rparr>)
           | (Inr _, breaker) \<Rightarrow>
               CapabilityGateway_execute cops env (g1\<lparr>gw_breaker := breaker\<rparr>) a (ca_principal q) (ca_arguments q)))"

definition CapabilityGateway_invoke_inner ::
  "'b Budgets \<Rightarrow> 'c Breaker \<Rightarrow> gateway_env \<Rightarrow> ('b, 'c) CapabilityGateway \<Rightarrow> invocation_call \<Rightarrow>
   (GatewayError + InvocationResult) \<times> ('b, 'c) CapabilityGateway" where
  "CapabilityGateway_invoke_inner bops cops env g q =
     (case CapabilityRegistry_resolve_for (gw_registry g) (ca_principal q) (ca_server q) (ca_capability_name q) of
        Inl e \<Rightarrow> (Inl (CapabilityUnknown e), g)
      | Inr c \<Rightarrow>
          (let audit = invocation_audit_context q c (PolicyEngine_policy_version (gw_policy g));
               (decision, policy) = PolicyEngine_evaluate (en_post env) (gw_policy g) (invocation_request q c);
               g1 = g\<lparr>gw_policy := policy\<rparr>;
               audit = AuditContext_with_policy_version audit (pd_policy_version decision)
           in if \<not> pd_allowed decision
              then (Inl (AuditContext_denied env audit (PolicyReason (pd_reason decision)) EC_POLICY_DENIED), g1)
              else case (if cap_requires_approval c
                         then CapabilityGateway_check_approval env audit (ca_arguments q) (ca_approval q)
                         else Inr ()) of
                     Inl e \<Rightarrow> (Inl e, g1)
                   | Inr _ \<Rightarrow> CapabilityGateway_metered bops cops env g1 audit q))"

text \<open>\<open>_record\<close> and \<open>_observe\<close>: a sink that fails does not change what the caller is told.\<close>

definition CapabilityGateway_record ::
  "gateway_env \<Rightarrow> ('b, 'c) CapabilityGateway \<Rightarrow> ToolInvocation \<Rightarrow> ('b, 'c) CapabilityGateway" where
  "CapabilityGateway_record env g i =
     (if gw_audit g \<and> en_sink_stores env then g\<lparr>gw_trail := gw_trail g @ [i]\<rparr> else g)"

definition CapabilityGateway_observe ::
  "gateway_env \<Rightarrow> ('b, 'c) CapabilityGateway \<Rightarrow> ToolInvocation \<Rightarrow> ('b, 'c) CapabilityGateway" where
  "CapabilityGateway_observe env g i =
     (let g1 = g\<lparr>gw_mcp_calls := gw_mcp_calls g + 1\<rparr>;
          g2 = (if ti_outcome i = IO_DENIED
                then g1\<lparr>gw_permission_denials := gw_permission_denials g1 + 1\<rparr> else g1)
      in CapabilityGateway_record env g2 i)"

definition CapabilityGateway_invoke ::
  "'b Budgets \<Rightarrow> 'c Breaker \<Rightarrow> gateway_env \<Rightarrow> ('b, 'c) CapabilityGateway \<Rightarrow> invocation_call \<Rightarrow>
   (GatewayError + InvocationResult) \<times> ('b, 'c) CapabilityGateway" where
  "CapabilityGateway_invoke bops cops env g q =
     (case CapabilityGateway_invoke_inner bops cops env g q of
        (Inl (CapabilityDenied reason i), g1) \<Rightarrow>
          (Inl (CapabilityDenied reason i), CapabilityGateway_observe env g1 i)
      | (Inl (CapabilityFailed message i), g1) \<Rightarrow>
          (Inl (CapabilityFailed message i), CapabilityGateway_observe env g1 i)
      | (Inl e, g1) \<Rightarrow> (Inl e, g1)
      | (Inr r, g1) \<Rightarrow>
          (let g2 = CapabilityGateway_observe env g1 (ir_invocation r) in
           (Inr r, if InvocationResult_is_suspicious r
                   then g2\<lparr>gw_injection_flags := gw_injection_flags g2 + card (uc_injection_flags (ir_content r))\<rparr>
                   else g2)))"

text \<open>Several calls, of any jobs and callers, each in its own environment.\<close>

fun gateway_run ::
  "'b Budgets \<Rightarrow> 'c Breaker \<Rightarrow> ('b, 'c) CapabilityGateway \<Rightarrow> (gateway_env \<times> invocation_call) list \<Rightarrow>
   (GatewayError + InvocationResult) list \<times> ('b, 'c) CapabilityGateway" where
  "gateway_run bops cops g [] = ([], g)"
| "gateway_run bops cops g ((env, q) # rest) =
     (case CapabilityGateway_invoke bops cops env g q of
        (r, g1) \<Rightarrow> (case gateway_run bops cops g1 rest of (rs, g2) \<Rightarrow> (r # rs, g2)))"


section \<open>What one call does\<close>

text \<open>The conditions of a call that may be executed, as one predicate over the state before it.\<close>

definition call_authorized ::
  "gateway_env \<Rightarrow> ('b, 'c) CapabilityGateway \<Rightarrow> invocation_call \<Rightarrow> Capability \<Rightarrow> bool" where
  "call_authorized env g q c \<longleftrightarrow>
     CapabilityRegistry_resolve_for (gw_registry g) (ca_principal q) (ca_server q) (ca_capability_name q) = Inr c \<and>
     evaluate_allows (en_post env) (gw_policy g) (invocation_request q c) \<and>
     (cap_requires_approval c \<longrightarrow>
       (\<exists>ap. ca_approval q = Some ap \<and>
         ApprovalRequest_is_valid_for ap (cap_server c) (cap_name c) (ar_resource_id ap) (ca_arguments q)
           (en_approval_at env)))"

definition request_of :: "invocation_call \<Rightarrow> Capability \<Rightarrow> uuid \<times> ExecutionRequest" where
  "request_of q c = (ca_job_id q,
     \<lparr>xr_capability = c, xr_principal = ca_principal q, xr_arguments = ca_arguments q\<rparr>)"

text \<open>The record of a call carries who called what, with credential-shaped arguments removed.\<close>

definition invocation_records :: "invocation_call \<Rightarrow> ToolInvocation \<Rightarrow> bool" where
  "invocation_records q i \<longleftrightarrow> ToolInvocation_valid i \<and>
     ti_job_id i = ca_job_id q \<and> ti_task_id i = ca_task_id q \<and> ti_tenant_id i = pr_tenant_id (ca_principal q) \<and>
     ti_sanitized_arguments i = sanitize_arguments (ca_arguments q) \<and>
     ti_argument_digest i = argument_digest (ca_arguments q)"

definition context_of :: "invocation_call \<Rightarrow> AuditContext \<Rightarrow> bool" where
  "context_of q a \<longleftrightarrow> (\<exists>c version. a = invocation_audit_context q c version)"

lemma context_of_invocation [simp]:
  "context_of q (AuditContext_with_policy_version (invocation_audit_context q c v) w)"
  by (auto simp: context_of_def AuditContext_with_policy_version_def invocation_audit_context_def)

lemma context_capability [simp]:
  "ac_capability (AuditContext_with_policy_version (invocation_audit_context q c v) w) = c"
  "ac_job_id (AuditContext_with_policy_version (invocation_audit_context q c v) w) = ca_job_id q"
  by (simp_all add: AuditContext_with_policy_version_def invocation_audit_context_def)

lemma record_Inr:
  assumes "AuditContext_record env a d out err ms = Inr i" and "context_of q a"
  shows "invocation_records q i \<and> ti_authorization_decision i = d \<and> ti_outcome i = out \<and> ti_error_class i = err"
  using assms
  by (auto simp: AuditContext_record_def invocation_records_def context_of_def invocation_audit_context_def
      Let_def split: if_splits)

lemma record_Inl: "AuditContext_record env a d out err ms = Inl e \<Longrightarrow> e = InvalidInvocation"
  by (auto simp: AuditContext_record_def Let_def split: if_splits)

text \<open>The reasons that are a policy verdict.\<close>

fun policy_verdict :: "denial_reason \<Rightarrow> bool" where
  "policy_verdict (PolicyReason _) = True"
| "policy_verdict (ApprovalRequired _) = True"
| "policy_verdict (ApprovalRefused _) = True"
| "policy_verdict (BudgetReason _) = False"
| "policy_verdict (CircuitReason _) = False"

text \<open>What an exception tells of the call it ended, and whether the executor was reached.\<close>

fun error_spec :: "invocation_call \<Rightarrow> bool \<Rightarrow> GatewayError \<Rightarrow> bool" where
  "error_spec q sent (CapabilityDenied reason i) =
     (\<not> sent \<and> invocation_records q i \<and> ti_outcome i = IO_DENIED \<and>
      (ti_authorization_decision i = AD_DENY \<longleftrightarrow> policy_verdict reason))"
| "error_spec q sent (CapabilityFailed message i) =
     (sent \<and> invocation_records q i \<and> ti_outcome i = IO_FAILED \<and> ti_authorization_decision i = AD_ALLOW)"
| "error_spec q sent (CapabilityUnknown e) = (\<not> sent)"
| "error_spec q sent ExecutorError = sent"
| "error_spec q sent (SanitizeRaised e) = sent"
| "error_spec q sent _ = True"

fun outcome_spec :: "invocation_call \<Rightarrow> bool \<Rightarrow> GatewayError + InvocationResult \<Rightarrow> bool" where
  "outcome_spec q sent (Inl e) = error_spec q sent e"
| "outcome_spec q sent (Inr r) =
     (sent \<and> invocation_records q (ir_invocation r) \<and> ti_authorization_decision (ir_invocation r) = AD_ALLOW \<and>
      (ti_outcome (ir_invocation r) = IO_SUCCEEDED \<and> \<not> uc_truncated (ir_content r) \<or>
       ti_outcome (ir_invocation r) = IO_FAILED \<and> ti_error_class (ir_invocation r) = EC_RESULT_TOO_LARGE \<and>
       uc_truncated (ir_content r)))"

lemma denied_spec:
  assumes "context_of q a" and "policy_verdict reason \<longleftrightarrow> ec = EC_POLICY_DENIED"
  shows "error_spec q False (AuditContext_denied env a reason ec)"
proof (cases "AuditContext_record env a (if ec = EC_POLICY_DENIED then AD_DENY else AD_ALLOW) IO_DENIED ec 0")
  case (Inl e)
  with record_Inl show ?thesis by (fastforce simp: AuditContext_denied_def Let_def)
next
  case (Inr i)
  with record_Inr [OF Inr assms(1)] assms(2) show ?thesis by (simp add: AuditContext_denied_def Let_def)
qed

text \<open>What a call changes: the trail and the metrics are left to \<open>_observe\<close>.\<close>

definition same_books :: "('b, 'c) CapabilityGateway \<Rightarrow> ('b, 'c) CapabilityGateway \<Rightarrow> bool" where
  "same_books g g' \<longleftrightarrow> gw_trail g' = gw_trail g \<and> gw_audit g' = gw_audit g \<and> gw_registry g' = gw_registry g \<and>
     gw_permission_denials g' = gw_permission_denials g"

lemma execute_spec:
  assumes "CapabilityGateway_execute cops env g a p args = (r, g')" and "context_of q a"
  shows "gw_sent g' = gw_sent g @ [(ac_job_id a, \<lparr>xr_capability = ac_capability a, xr_principal = p, xr_arguments = args\<rparr>)] \<and>
    gw_budgets g' = gw_budgets g \<and> gw_policy g' = gw_policy g \<and> same_books g g' \<and> outcome_spec q True r"
  using assms record_Inr [OF _ assms(2)]
  by (auto simp: CapabilityGateway_execute_def same_books_def Let_def dest: record_Inl
      split: executor_answer.splits sum.splits prod.splits if_splits)

text \<open>
  Once authorized, either the call is refused and nothing is sent, or the reservation was
  granted, the circuit let it through and exactly this request went to the executor.
\<close>

definition metering_spec ::
  "'b Budgets \<Rightarrow> 'c Breaker \<Rightarrow> gateway_env \<Rightarrow> ('b, 'c) CapabilityGateway \<Rightarrow> invocation_call \<Rightarrow> Capability \<Rightarrow>
   ('b, 'c) CapabilityGateway \<Rightarrow> GatewayError + InvocationResult \<Rightarrow> bool" where
  "metering_spec bops cops env g q c g' r \<longleftrightarrow>
     gw_budgets g' = snd (bg_reserve_call bops (gw_budgets g) (ca_job_id q) (ca_budget q)) \<and>
     (gw_sent g' = gw_sent g \<and> outcome_spec q False r \<or>
      gw_sent g' = gw_sent g @ [request_of q c] \<and> outcome_spec q True r \<and>
      is_ok (fst (bg_reserve_call bops (gw_budgets g) (ca_job_id q) (ca_budget q))) \<and>
      is_ok (fst (br_ensure_closed cops (gw_breaker g) (cap_server c) (en_breaker_at env))))"

lemma metered_spec:
  assumes run: "CapabilityGateway_metered bops cops env g a q = (r, g')" and ctx: "context_of q a"
    and job: "ac_job_id a = ca_job_id q"
  shows "same_books g g' \<and> gw_policy g' = gw_policy g \<and> metering_spec bops cops env g q (ac_capability a) g' r"
proof -
  obtain res b where reserve: "bg_reserve_call bops (gw_budgets g) (ca_job_id q) (ca_budget q) = (res, b)"
    by (cases "bg_reserve_call bops (gw_budgets g) (ca_job_id q) (ca_budget q)")
  obtain adm k where admit:
    "br_ensure_closed cops (gw_breaker g) (cap_server (ac_capability a)) (en_breaker_at env) = (adm, k)"
    by (cases "br_ensure_closed cops (gw_breaker g) (cap_server (ac_capability a)) (en_breaker_at env)")
  show ?thesis
  proof (cases "is_ok res \<and> is_ok adm")
    case True
    then obtain n u where ok: "res = Inr n" "adm = Inr u" by (auto simp: is_ok_iff)
    let ?g = "g\<lparr>gw_budgets := b, gw_breaker := k\<rparr>"
    have "CapabilityGateway_execute cops env ?g a (ca_principal q) (ca_arguments q) = (r, g')"
      using run reserve admit ok by (simp add: CapabilityGateway_metered_def Let_def)
    from execute_spec [OF this ctx] show ?thesis
      using reserve admit ok job by (simp add: metering_spec_def same_books_def request_of_def)
  next
    case False
    with run reserve admit denied_spec [OF ctx] show ?thesis
      by (auto simp: CapabilityGateway_metered_def metering_spec_def same_books_def Let_def
          split: sum.splits LimitError.splits BreakerError.splits)
  qed
qed

definition mediation_spec ::
  "'b Budgets \<Rightarrow> 'c Breaker \<Rightarrow> gateway_env \<Rightarrow> ('b, 'c) CapabilityGateway \<Rightarrow> invocation_call \<Rightarrow>
   ('b, 'c) CapabilityGateway \<Rightarrow> GatewayError + InvocationResult \<Rightarrow> bool" where
  "mediation_spec bops cops env g q g' r \<longleftrightarrow>
     gw_sent g' = gw_sent g \<and> gw_budgets g' = gw_budgets g \<and> outcome_spec q False r \<or>
     (\<exists>c. call_authorized env g q c \<and> metering_spec bops cops env g q c g' r)"

lemma invoke_inner_spec:
  assumes run: "CapabilityGateway_invoke_inner bops cops env g q = (r, g')"
  shows "same_books g g' \<and> mediation_spec bops cops env g q g' r"
proof (cases "CapabilityRegistry_resolve_for (gw_registry g) (ca_principal q) (ca_server q) (ca_capability_name q)")
  case (Inl e)
  with run show ?thesis by (auto simp: CapabilityGateway_invoke_inner_def same_books_def mediation_spec_def)
next
  case (Inr c)
  obtain d pol where ev: "PolicyEngine_evaluate (en_post env) (gw_policy g) (invocation_request q c) = (d, pol)"
    by (cases "PolicyEngine_evaluate (en_post env) (gw_policy g) (invocation_request q c)")
  let ?a = "AuditContext_with_policy_version
    (invocation_audit_context q c (PolicyEngine_policy_version (gw_policy g))) (pd_policy_version d)"
  let ?g = "g\<lparr>gw_policy := pol\<rparr>"
  let ?chk = "if cap_requires_approval c
    then CapabilityGateway_check_approval env ?a (ca_arguments q) (ca_approval q) else Inr ()"
  consider (refused) "\<not> pd_allowed d" | (unapproved) e where "pd_allowed d" "?chk = Inl e"
    | (go) u where "pd_allowed d" "?chk = Inr u" by (cases ?chk) blast+
  then show ?thesis
  proof cases
    case refused
    with run Inr ev denied_spec [of q ?a] show ?thesis
      by (auto simp: CapabilityGateway_invoke_inner_def same_books_def mediation_spec_def)
  next
    case (unapproved e)
    have "error_spec q False e"
      using unapproved(2) denied_spec [of q ?a]
      by (auto simp: CapabilityGateway_check_approval_def Let_def split: if_splits option.splits sum.splits)
    with run Inr ev unapproved show ?thesis
      by (auto simp: CapabilityGateway_invoke_inner_def same_books_def mediation_spec_def)
  next
    case (go u)
    have "CapabilityGateway_metered bops cops env ?g ?a q = (r, g')"
      using run Inr ev go by (simp add: CapabilityGateway_invoke_inner_def)
    from metered_spec [OF this] have "same_books ?g g' \<and> metering_spec bops cops env ?g q c g' r" by simp
    moreover have "call_authorized env g q c"
      using Inr ev go
      by (auto simp: call_authorized_def CapabilityGateway_check_approval_def ApprovalRequest_authorize_def
          Let_def split: if_splits option.splits)
    ultimately show ?thesis by (auto simp: same_books_def mediation_spec_def metering_spec_def)
  qed
qed

text \<open>What the outer call adds: the record of the outcome, and the counters.\<close>

fun outcome_record :: "GatewayError + InvocationResult \<Rightarrow> ToolInvocation option" where
  "outcome_record (Inl (CapabilityDenied reason i)) = Some i"
| "outcome_record (Inl (CapabilityFailed message i)) = Some i"
| "outcome_record (Inr r) = Some (ir_invocation r)"
| "outcome_record (Inl _) = None"

lemma observe_sel [simp]:
  "gw_sent (CapabilityGateway_observe env g i) = gw_sent g"
  "gw_budgets (CapabilityGateway_observe env g i) = gw_budgets g"
  "gw_breaker (CapabilityGateway_observe env g i) = gw_breaker g"
  "gw_registry (CapabilityGateway_observe env g i) = gw_registry g"
  "gw_audit (CapabilityGateway_observe env g i) = gw_audit g"
  "gw_trail (CapabilityGateway_observe env g i) =
     (if gw_audit g \<and> en_sink_stores env then gw_trail g @ [i] else gw_trail g)"
  "gw_permission_denials (CapabilityGateway_observe env g i) =
     (if ti_outcome i = IO_DENIED then Suc (gw_permission_denials g) else gw_permission_denials g)"
  by (simp_all add: CapabilityGateway_observe_def CapabilityGateway_record_def Let_def)

lemma invoke_spec:
  assumes "CapabilityGateway_invoke bops cops env g q = (r, g')"
  shows "gw_audit g' = gw_audit g \<and> gw_registry g' = gw_registry g \<and> mediation_spec bops cops env g q g' r \<and>
    gw_trail g' = (case outcome_record r of
       Some i \<Rightarrow> if gw_audit g \<and> en_sink_stores env then gw_trail g @ [i] else gw_trail g
     | None \<Rightarrow> gw_trail g) \<and>
    gw_permission_denials g' = (case outcome_record r of
       Some i \<Rightarrow> if ti_outcome i = IO_DENIED then Suc (gw_permission_denials g) else gw_permission_denials g
     | None \<Rightarrow> gw_permission_denials g)"
proof -
  obtain r1 g1 where inner: "CapabilityGateway_invoke_inner bops cops env g q = (r1, g1)"
    by (cases "CapabilityGateway_invoke_inner bops cops env g q")
  note spec = invoke_inner_spec [OF inner]
  have r: "r = r1" and sel: "gw_sent g' = gw_sent g1" "gw_budgets g' = gw_budgets g1"
    using assms inner
    by (auto simp: CapabilityGateway_invoke_def Let_def split: sum.splits GatewayError.splits if_splits)
  have "mediation_spec bops cops env g q g' r"
    using spec r sel by (simp add: mediation_spec_def metering_spec_def)
  then show ?thesis
    using spec assms inner
    by (auto simp: CapabilityGateway_invoke_def same_books_def Let_def
        split: sum.splits GatewayError.splits if_splits)
qed


section \<open>Properties of the gateway\<close>

text \<open>
  C1. Nothing reaches an MCP server except through every check. Whatever the arguments, the
  policy and the two stores are, one call hands at most one request to the executor, and when it
  does, it is the caller's own request for a capability that was resolved for the caller, the
  policy allowed it, a capability that needs approval came with one that was granted, has not
  expired and is bound to this server, capability and argument digest, the job's budget granted
  a call, and the server's circuit let it through.
\<close>

theorem gateway_mediates_every_call:
  assumes "CapabilityGateway_invoke bops cops env g q = (r, g')"
  shows "gw_sent g' = gw_sent g \<or>
    (\<exists>c. gw_sent g' = gw_sent g @ [request_of q c] \<and>
       CapabilityRegistry_resolve_for (gw_registry g) (ca_principal q) (ca_server q) (ca_capability_name q) = Inr c \<and>
       evaluate_allows (en_post env) (gw_policy g) (invocation_request q c) \<and>
       (cap_requires_approval c \<longrightarrow>
         (\<exists>ap. ca_approval q = Some ap \<and> ar_status ap = AS_GRANTED \<and> en_approval_at env < ar_expires_at ap \<and>
           ar_mcp_server ap = cap_server c \<and> ar_capability ap = cap_name c \<and>
           ar_argument_digest ap = argument_digest (ca_arguments q))) \<and>
       is_ok (fst (bg_reserve_call bops (gw_budgets g) (ca_job_id q) (ca_budget q))) \<and>
       is_ok (fst (br_ensure_closed cops (gw_breaker g) (cap_server c) (en_breaker_at env))))"
  using invoke_spec [OF assms]
  by (auto simp: mediation_spec_def metering_spec_def call_authorized_def ApprovalRequest_is_valid_for_def)

text \<open>A gateway over the in-memory stores, with one capability that needs approval.\<close>

definition sample_capability :: Capability where
  "sample_capability = (Capability_default ''postgres'' ''run_analytical_query'' ''q'')\<lparr>cap_requires_approval := True\<rparr>"

definition sample_gateway :: "(BudgetLedger, CircuitBreaker) CapabilityGateway" where
  "sample_gateway = \<lparr>gw_registry = [((''postgres'', ''run_analytical_query''), sample_capability)],
     gw_policy = RegistryPolicyEngine LOCAL_POLICY_VERSION, gw_budgets = [], gw_breaker = sample_breaker,
     gw_audit = True, gw_trail = [], gw_sent = [], gw_mcp_calls = 0, gw_permission_denials = 0,
     gw_injection_flags = 0\<rparr>"

definition sample_env :: gateway_env where
  "sample_env = \<lparr>en_post = (\<lambda>_ _. HttpFailed), en_execute = (\<lambda>_. UpstreamError ''down'' EC_TIMEOUT),
     en_alnum = ascii_alnum, en_new_id = 9, en_approval_at = 50, en_breaker_at = 50, en_started = 50,
     en_failed_at = 60, en_finished = 2060, en_recorded_at = 70, en_sink_stores = True\<rparr>"

definition sample_call :: invocation_call where
  "sample_call = \<lparr>ca_principal = sample_principal, ca_job_id = 1, ca_task_id = 2, ca_server = ''postgres'',
     ca_capability_name = ''run_analytical_query'', ca_arguments = [(''sql'', VStr ''select 1'')],
     ca_budget = tiny_budget, ca_approval = Some granted_approval\<rparr>"

lemmas sample_defs = sample_gateway_def sample_capability_def sample_env_def sample_call_def
  sample_principal_def sample_breaker_def Capability_default_def

lemma sample_call_is_sent:
  "gw_sent (snd (CapabilityGateway_invoke BudgetLedger_ops CircuitBreaker_ops sample_env sample_gateway sample_call)) =
     [request_of sample_call sample_capability]"
  by (simp add: CapabilityGateway_invoke_def CapabilityGateway_invoke_inner_def CapabilityGateway_metered_def
      CapabilityGateway_execute_def CapabilityGateway_check_approval_def sample_defs
      CapabilityRegistry_resolve_for_def CapabilityRegistry_get_def RegistryPolicyEngine_evaluate_def
      Capability_is_available_to_tenant_def Capability_is_executable_by_def Capability_is_visible_to_def
      ALL_TENANTS_def clearance_covers_def Principal_has_any_role_def invocation_request_def
      AuditContext_with_policy_version_def invocation_audit_context_def
      ApprovalRequest_authorize_def ApprovalRequest_is_valid_for_def granted_approval_def sample_approval_def
      request_sensitive_tool_approval_def BudgetLedger_ops_def BudgetLedger_reserve_call_def
      BudgetLedger_usage_def JobUsage_zero_def tiny_budget_def CircuitBreaker_ops_def
      CircuitBreaker_ensure_closed_def CircuitBreaker_record_failure_def CircuitBreaker_refresh_def Circuit_new_def
      request_of_def Let_def split: sum.splits GatewayError.splits)

theorem gateway_mediates_every_call_witness:
  "gw_sent (snd (CapabilityGateway_invoke BudgetLedger_ops CircuitBreaker_ops sample_env sample_gateway sample_call)) =
     [request_of sample_call sample_capability] \<and>
   is_ok (fst (bg_reserve_call BudgetLedger_ops (gw_budgets sample_gateway) (ca_job_id sample_call)
     (ca_budget sample_call)))"
proof -
  obtain r g' where run:
    "CapabilityGateway_invoke BudgetLedger_ops CircuitBreaker_ops sample_env sample_gateway sample_call = (r, g')"
    by (cases "CapabilityGateway_invoke BudgetLedger_ops CircuitBreaker_ops sample_env sample_gateway sample_call")
  have "gw_sent g' = [request_of sample_call sample_capability]" "gw_sent sample_gateway = []"
    using sample_call_is_sent run by (simp_all add: sample_gateway_def)
  with gateway_mediates_every_call [OF run] have
    "is_ok (fst (bg_reserve_call BudgetLedger_ops (gw_budgets sample_gateway) (ca_job_id sample_call)
       (ca_budget sample_call)))" by auto
  with sample_call_is_sent show ?thesis by blast
qed

text \<open>
  What a record says of its call: the fields every record carries, and, by the way the call ended, what was
  answered, what the executor had answered, and whether a request was sent at all.
\<close>

definition call_fields :: "invocation_call \<Rightarrow> Capability \<Rightarrow> ToolInvocation \<Rightarrow> bool" where
  "call_fields q c i \<longleftrightarrow>
     ti_job_id i = ca_job_id q \<and> ti_task_id i = ca_task_id q \<and> ti_tenant_id i = pr_tenant_id (ca_principal q) \<and>
     ti_mcp_server i = cap_server c \<and> ti_capability i = cap_name c \<and>
     ti_sanitized_arguments i = sanitize_arguments (ca_arguments q) \<and> ti_argument_digest i = argument_digest (ca_arguments q)"

fun denial_class :: "denial_reason \<Rightarrow> ErrorClass" where
  "denial_class (PolicyReason _) = EC_POLICY_DENIED"
| "denial_class (ApprovalRequired _) = EC_POLICY_DENIED"
| "denial_class (ApprovalRefused _) = EC_POLICY_DENIED"
| "denial_class (BudgetReason (BudgetExhausted _ _ _)) = EC_BUDGET_EXHAUSTED"
| "denial_class (BudgetReason _) = EC_UPSTREAM_UNAVAILABLE"
| "denial_class (CircuitReason _) = EC_UPSTREAM_UNAVAILABLE"

fun told :: "gateway_env \<Rightarrow> invocation_call \<Rightarrow> Capability \<Rightarrow> bool \<Rightarrow> GatewayError + InvocationResult \<Rightarrow> bool" where
  "told env q c sent (Inl (CapabilityDenied reason i)) \<longleftrightarrow>
     \<not> sent \<and> call_fields q c i \<and> ToolInvocation_valid i \<and> ti_outcome i = IO_DENIED \<and> ti_error_class i = denial_class reason \<and>
     ti_authorization_decision i = (if denial_class reason = EC_POLICY_DENIED then AD_DENY else AD_ALLOW)"
| "told env q c sent (Inl (CapabilityFailed message i)) \<longleftrightarrow>
     sent \<and> call_fields q c i \<and> ToolInvocation_valid i \<and> ti_outcome i = IO_FAILED \<and> ti_authorization_decision i = AD_ALLOW \<and>
     en_execute env (snd (request_of q c)) = UpstreamError message (ti_error_class i)"
| "told env q c sent (Inr result) \<longleftrightarrow>
     sent \<and> call_fields q c (ir_invocation result) \<and> ToolInvocation_valid (ir_invocation result) \<and>
     ti_authorization_decision (ir_invocation result) = AD_ALLOW \<and>
     (\<exists>raw. en_execute env (snd (request_of q c)) = ExecutorText raw \<and>
        sanitize_result (en_alnum env) raw (cap_max_result_bytes c) = Inr (ir_content result)) \<and>
     (if uc_truncated (ir_content result)
      then ti_outcome (ir_invocation result) = IO_FAILED \<and> ti_error_class (ir_invocation result) = EC_RESULT_TOO_LARGE
      else ti_outcome (ir_invocation result) = IO_SUCCEEDED \<and> ti_error_class (ir_invocation result) = EC_NONE)"
| "told env q c sent (Inl ExecutorError) \<longleftrightarrow> sent \<and> en_execute env (snd (request_of q c)) = ExecutorRaised"
| "told env q c sent (Inl (SanitizeRaised e)) \<longleftrightarrow>
     sent \<and> (\<exists>raw. en_execute env (snd (request_of q c)) = ExecutorText raw \<and>
       sanitize_result (en_alnum env) raw (cap_max_result_bytes c) = Inl e)"
| "told env q c sent (Inl InvalidInvocation) \<longleftrightarrow> (\<exists>i. call_fields q c i \<and> \<not> ToolInvocation_valid i)"
| "told env q c sent (Inl (LimitRaised e)) \<longleftrightarrow> \<not> sent \<and> e = NegativeUsage"
| "told env q c sent (Inl (BreakerRaised e)) \<longleftrightarrow>
     (if sent then \<exists>message ec. en_execute env (snd (request_of q c)) = UpstreamError message ec else e = CircuitAssertion)"
| "told env q c sent (Inl (CapabilityUnknown e)) \<longleftrightarrow> False"

definition context_for :: "invocation_call \<Rightarrow> Capability \<Rightarrow> AuditContext \<Rightarrow> bool" where
  "context_for q c a \<longleftrightarrow> (\<exists>version. a = invocation_audit_context q c version)"

lemma context_for_invocation [simp]:
  "context_for q c (AuditContext_with_policy_version (invocation_audit_context q c v) w)"
  by (auto simp: context_for_def AuditContext_with_policy_version_def invocation_audit_context_def)

lemma record_told:
  assumes "context_for q c a"
  shows "AuditContext_record env a d out ec ms = Inr i \<Longrightarrow> call_fields q c i \<and> ToolInvocation_valid i \<and>
      ti_authorization_decision i = d \<and> ti_outcome i = out \<and> ti_error_class i = ec"
    and "AuditContext_record env a d out ec ms = Inl e \<Longrightarrow> e = InvalidInvocation \<and> (\<exists>i. call_fields q c i \<and> \<not> ToolInvocation_valid i)"
  using assms
  by (auto simp: AuditContext_record_def context_for_def invocation_audit_context_def call_fields_def Let_def split: if_splits
      intro!: exI)

lemma denied_told:
  assumes "context_for q c a" and "ec = denial_class reason"
  shows "told env q c False (Inl (AuditContext_denied env a reason ec))"
proof (cases "AuditContext_record env a (if ec = EC_POLICY_DENIED then AD_DENY else AD_ALLOW) IO_DENIED ec 0")
  case (Inl e)
  with record_told(2) [OF assms(1) Inl] show ?thesis by (simp add: AuditContext_denied_def Let_def)
next
  case (Inr i)
  with record_told(1) [OF assms(1) Inr] assms(2) show ?thesis by (simp add: AuditContext_denied_def Let_def)
qed

lemma execute_told:
  assumes run: "CapabilityGateway_execute cops env g a (ca_principal q) (ca_arguments q) = (r, g')" and ctx: "context_for q c a"
  shows "told env q c True r"
proof -
  have a: "ac_capability a = c" using ctx by (auto simp: context_for_def invocation_audit_context_def)
  note exec = run [unfolded CapabilityGateway_execute_def Let_def a]
  have rq: "snd (request_of q c) = \<lparr>xr_capability = c, xr_principal = ca_principal q, xr_arguments = ca_arguments q\<rparr>"
    by (simp add: request_of_def)
  show ?thesis
  proof (cases "en_execute env (snd (request_of q c))")
    case (ExecutorText raw)
    show ?thesis
    proof (cases "sanitize_result (en_alnum env) raw (cap_max_result_bytes c)")
      case (Inl e)
      with exec ExecutorText rq show ?thesis by auto
    next
      case (Inr content)
      with exec ExecutorText rq record_told [OF ctx] show ?thesis by (fastforce split: sum.splits if_splits)
    qed
  next
    case (UpstreamError message ec)
    with exec rq record_told [OF ctx] show ?thesis by (fastforce split: sum.splits prod.splits)
  next
    case ExecutorRaised
    with exec rq show ?thesis by auto
  qed
qed

lemma metered_told:
  assumes run: "CapabilityGateway_metered bops cops env g a q = (r, g')" and ctx: "context_for q c a"
  shows "\<exists>sent. gw_sent g' = gw_sent g @ (if sent then [request_of q c] else []) \<and> told env q c sent r"
proof -
  have a: "ac_capability a = c" "ac_job_id a = ca_job_id q" using ctx by (auto simp: context_for_def invocation_audit_context_def)
  obtain res b where reserve: "bg_reserve_call bops (gw_budgets g) (ca_job_id q) (ca_budget q) = (res, b)" by force
  obtain adm k where admit: "br_ensure_closed cops (gw_breaker g) (cap_server c) (en_breaker_at env) = (adm, k)" by force
  show ?thesis
  proof (cases "is_ok res \<and> is_ok adm")
    case True
    then obtain n u where ok: "res = Inr n" "adm = Inr u" by (auto simp: is_ok_iff)
    let ?g = "g\<lparr>gw_budgets := b, gw_breaker := k\<rparr>"
    have exec: "CapabilityGateway_execute cops env ?g a (ca_principal q) (ca_arguments q) = (r, g')"
      using run reserve admit ok by (simp add: CapabilityGateway_metered_def Let_def a)
    have "context_of q a" using ctx by (auto simp: context_for_def context_of_def)
    from execute_spec [OF exec this] execute_told [OF exec ctx] show ?thesis by (intro exI [of _ True]) (simp add: a request_of_def)
  next
    case False
    have "gw_sent g' = gw_sent g \<and> told env q c False r"
    proof (cases res)
      case (Inl e)
      with run reserve show ?thesis
        by (cases e) (auto simp: CapabilityGateway_metered_def intro!: denied_told [OF ctx])
    next
      case (Inr n)
      then obtain e where "adm = Inl e" using False by (cases adm) auto
      with Inr run reserve admit show ?thesis
        by (cases e) (auto simp: CapabilityGateway_metered_def a Let_def intro!: denied_told [OF ctx])
    qed
    then show ?thesis by (intro exI [of _ False]) simp
  qed
qed

lemma invoke_told:
  assumes run: "CapabilityGateway_invoke bops cops env g q = (r, g')"
    and c: "CapabilityRegistry_resolve_for (gw_registry g) (ca_principal q) (ca_server q) (ca_capability_name q) = Inr c"
  shows "\<exists>sent. gw_sent g' = gw_sent g @ (if sent then [request_of q c] else []) \<and> told env q c sent r"
proof -
  obtain r1 g1 where inner: "CapabilityGateway_invoke_inner bops cops env g q = (r1, g1)" by force
  have r: "r = r1" "gw_sent g' = gw_sent g1"
    using run inner by (auto simp: CapabilityGateway_invoke_def Let_def split: sum.splits GatewayError.splits if_splits)
  obtain d pol where ev: "PolicyEngine_evaluate (en_post env) (gw_policy g) (invocation_request q c) = (d, pol)" by force
  let ?a = "AuditContext_with_policy_version
    (invocation_audit_context q c (PolicyEngine_policy_version (gw_policy g))) (pd_policy_version d)"
  let ?chk = "if cap_requires_approval c then CapabilityGateway_check_approval env ?a (ca_arguments q) (ca_approval q) else Inr ()"
  have ac: "ac_capability ?a = c" by (simp add: AuditContext_with_policy_version_def invocation_audit_context_def)
  consider (refused) "\<not> pd_allowed d" | (unapproved) e where "pd_allowed d" "?chk = Inl e"
    | (go) u where "pd_allowed d" "?chk = Inr u" by (cases ?chk) blast+
  then show ?thesis unfolding r
  proof cases
    case refused
    with inner c ev show "\<exists>sent. gw_sent g1 = gw_sent g @ (if sent then [request_of q c] else []) \<and> told env q c sent r1"
      by (intro exI [of _ False]) (auto simp: CapabilityGateway_invoke_inner_def intro!: denied_told)
  next
    case (unapproved e)
    have "told env q c False (Inl e)"
      using unapproved(2)
      by (auto simp: CapabilityGateway_check_approval_def Let_def split: if_splits option.splits sum.splits intro!: denied_told)
    with inner c ev unapproved show "\<exists>sent. gw_sent g1 = gw_sent g @ (if sent then [request_of q c] else []) \<and> told env q c sent r1"
      by (intro exI [of _ False]) (auto simp: CapabilityGateway_invoke_inner_def)
  next
    case (go u)
    have "CapabilityGateway_metered bops cops env (g\<lparr>gw_policy := pol\<rparr>) ?a q = (r1, g1)"
      using inner c ev go by (simp add: CapabilityGateway_invoke_inner_def)
    from metered_told [OF this, of c] show "\<exists>sent. gw_sent g1 = gw_sent g @ (if sent then [request_of q c] else []) \<and> told env q c sent r1" by simp
  qed
qed


lemma sample_call_denied:
  "CapabilityGateway_invoke_inner BudgetLedger_ops CircuitBreaker_ops sample_env sample_gateway
     (sample_call\<lparr>ca_approval := None\<rparr>) =
   (Inl (AuditContext_denied sample_env
      (invocation_audit_context sample_call sample_capability LOCAL_POLICY_VERSION)
      (ApprovalRequired ''postgres.run_analytical_query'') EC_POLICY_DENIED), sample_gateway)"
  by (simp add: CapabilityGateway_invoke_inner_def
      CapabilityGateway_check_approval_def sample_defs Capability_qualified_name_def
      CapabilityRegistry_resolve_for_def CapabilityRegistry_get_def RegistryPolicyEngine_evaluate_def
      Capability_is_available_to_tenant_def Capability_is_executable_by_def Capability_is_visible_to_def
      ALL_TENANTS_def clearance_covers_def Principal_has_any_role_def invocation_request_def
      AuditContext_with_policy_version_def invocation_audit_context_def)

lemma sample_denied_valid:
  "\<exists>i. AuditContext_denied sample_env (invocation_audit_context sample_call sample_capability LOCAL_POLICY_VERSION)
     reason EC_POLICY_DENIED = CapabilityDenied reason i"
  using argument_digest_pattern
  by (auto simp: AuditContext_denied_def AuditContext_record_def invocation_audit_context_def sample_defs
      ToolInvocation_valid_def ToolInvocation_consistent_def bounded_text_def nonempty_text_def
      LOCAL_POLICY_VERSION_def Let_def)



section \<open>Calls of many jobs\<close>

definition sent_for :: "uuid \<Rightarrow> ('b, 'c) CapabilityGateway \<Rightarrow> nat" where
  "sent_for j g = length (filter (\<lambda>(k, rq). k = j) (gw_sent g))"

lemma sent_for_step:
  "gw_sent g' = gw_sent g \<Longrightarrow> sent_for j g' = sent_for j g"
  "gw_sent g' = gw_sent g @ [request_of q c] \<Longrightarrow>
    sent_for j g' = (if ca_job_id q = j then Suc (sent_for j g) else sent_for j g)"
  by (simp_all add: sent_for_def request_of_def)

context circuit_port
begin

text \<open>A server whose circuit is open, or whose circuit cannot be read, is not contacted.\<close>

lemma gateway_rested_not_contacted:
  assumes run: "CapabilityGateway_invoke bops ops env g q = (r, g')"
    and reg: "registry_inv (gw_registry g)" and inv: "inv (gw_breaker g)"
    and closed: "up (gw_breaker g) \<Longrightarrow> \<exists>t. view (gw_breaker g) (en_breaker_at env) (ca_server q) = Rested t"
  shows "gw_sent g' = gw_sent g"
proof (rule ccontr)
  assume "gw_sent g' \<noteq> gw_sent g"
  with invoke_spec [OF run] obtain c where
    c: "call_authorized env g q c" "is_ok (fst (br_ensure_closed ops (gw_breaker g) (cap_server c) (en_breaker_at env)))"
    by (auto simp: mediation_spec_def metering_spec_def)
  have "cap_server c = ca_server q"
    using c(1) resolve_for_server [OF reg] by (auto simp: call_authorized_def)
  then have ok: "is_ok (fst (br_ensure_closed ops (gw_breaker g) (ca_server q) (en_breaker_at env)))"
    using c(2) by simp
  show False
  proof (cases "up (gw_breaker g)")
    case True
    with ok closed ensure_closed_up [OF inv True, of "ca_server q" "en_breaker_at env"] show ?thesis
      by (auto simp: admission_def)
  next
    case False
    with ok ensure_closed_down [OF inv False, of "ca_server q" "en_breaker_at env"] show ?thesis by auto
  qed
qed

end

locale gateway_ports =
  bud: budget_port bops binv spent + cir: circuit_port cops thr cooldown cinv up view
  for bops :: "'b Budgets" and binv spent and cops :: "'c Breaker" and thr cooldown cinv up view
begin

text \<open>One call spends at least what it sends, and never takes a job past its allowance.\<close>

lemma invoke_spends:
  assumes run: "CapabilityGateway_invoke bops cops env g q = (r, g')" and inv: "binv (gw_budgets g)"
  shows "binv (gw_budgets g') \<and>
    int (sent_for j g') + tool_calls (spent (gw_budgets g) j) \<le> int (sent_for j g) + tool_calls (spent (gw_budgets g') j) \<and>
    (tool_calls (spent (gw_budgets g') j) = tool_calls (spent (gw_budgets g) j) \<or>
     ca_job_id q = j \<and> tool_calls (spent (gw_budgets g') j) \<le> max_tool_calls (ca_budget q))"
proof -
  obtain res b where reserve: "bg_reserve_call bops (gw_budgets g) (ca_job_id q) (ca_budget q) = (res, b)"
    by (cases "bg_reserve_call bops (gw_budgets g) (ca_job_id q) (ca_budget q)")
  from invoke_spec [OF run] have m: "mediation_spec bops cops env g q g' r" by blast
  then consider (same) "gw_sent g' = gw_sent g" "gw_budgets g' = gw_budgets g"
    | (refused) "gw_sent g' = gw_sent g" "gw_budgets g' = b"
    | (sent) c where "gw_sent g' = gw_sent g @ [request_of q c]" "gw_budgets g' = b" "is_ok res"
    using reserve unfolding mediation_spec_def metering_spec_def by (metis fst_conv snd_conv)
  then show ?thesis
  proof cases
    case same
    with inv sent_for_step(1) [OF same(1), of j] show ?thesis by simp
  next
    case refused
    show ?thesis
    proof (cases res)
      case (Inl e)
      with refused reserve bud.reserve_refused [OF inv, of "ca_job_id q" "ca_budget q" e b]
        sent_for_step(1) [OF refused(1), of j] show ?thesis by simp
    next
      case (Inr n)
      with refused reserve bud.reserve_granted [OF inv, of "ca_job_id q" "ca_budget q" n b]
        sent_for_step(1) [OF refused(1), of j] show ?thesis by auto
    qed
  next
    case sent
    then obtain n where "res = Inr n" by (auto simp: is_ok_iff)
    with sent reserve bud.reserve_granted [OF inv, of "ca_job_id q" "ca_budget q" n b]
      sent_for_step(2) [OF sent(1), of j] show ?thesis by auto
  qed
qed

lemma run_within_budget:
  "gateway_run bops cops g calls = (rs, g') \<Longrightarrow> binv (gw_budgets g) \<Longrightarrow>
   (\<forall>(env, q) \<in> set calls. ca_job_id q = j \<longrightarrow> max_tool_calls (ca_budget q) \<le> m) \<Longrightarrow>
   tool_calls (spent (gw_budgets g) j) \<le> m \<Longrightarrow>
   binv (gw_budgets g') \<and> tool_calls (spent (gw_budgets g') j) \<le> m \<and>
   int (sent_for j g') + tool_calls (spent (gw_budgets g) j) \<le> int (sent_for j g) + tool_calls (spent (gw_budgets g') j)"
proof (induction calls arbitrary: g rs)
  case (Cons call calls)
  obtain env q where call: "call = (env, q)" by (cases call)
  obtain r g1 where step: "CapabilityGateway_invoke bops cops env g q = (r, g1)"
    by (cases "CapabilityGateway_invoke bops cops env g q")
  obtain rs1 where rest: "gateway_run bops cops g1 calls = (rs1, g')"
    using Cons.prems(1) call step by (auto split: prod.splits)
  note s = invoke_spends [OF step Cons.prems(2), of j]
  have "tool_calls (spent (gw_budgets g1) j) \<le> m" using s Cons.prems(3,4) call by auto
  with Cons.IH [OF rest] s Cons.prems(3) show ?case by force
qed simp

end

interpretation mem_gateway: gateway_ports BudgetLedger_ops any_ledger BudgetLedger_usage
  CircuitBreaker_ops 3 default_cooldown "CircuitBreaker_inv 3 default_cooldown" always_up CircuitBreaker_view
  by unfold_locales

text \<open>
  C5. However many calls of however many jobs a gateway over the in-memory ledger serves, and
  whatever they ask for, the requests that reach an MCP server on behalf of a job are at most
  its tool-call allowance.
\<close>

theorem gateway_stays_within_tool_call_budget:
  assumes run: "gateway_run BudgetLedger_ops CircuitBreaker_ops g calls = (results, g')"
    and fresh: "sent_for j g = 0" "tool_calls (BudgetLedger_usage (gw_budgets g) j) = 0"
    and allowance: "\<forall>(env, q) \<in> set calls. ca_job_id q = j \<longrightarrow> max_tool_calls (ca_budget q) \<le> m" and "0 \<le> m"
  shows "int (sent_for j g') \<le> m"
  using mem_gateway.run_within_budget [OF run _ allowance] fresh \<open>0 \<le> m\<close> by (simp add: any_ledger_def)

theorem gateway_stays_within_tool_call_budget_witness:
  "int (sent_for 1 (snd (gateway_run BudgetLedger_ops CircuitBreaker_ops sample_gateway
     (replicate 5 (sample_env, sample_call))))) \<le> 2"
proof -
  obtain rs g' where run: "gateway_run BudgetLedger_ops CircuitBreaker_ops sample_gateway
      (replicate 5 (sample_env, sample_call)) = (rs, g')"
    by (cases "gateway_run BudgetLedger_ops CircuitBreaker_ops sample_gateway (replicate 5 (sample_env, sample_call))")
  have "max_tool_calls (ca_budget sample_call) = 2" by (simp add: sample_call_def tiny_budget_def)
  moreover have "sent_for 1 sample_gateway = 0" "tool_calls (BudgetLedger_usage (gw_budgets sample_gateway) 1) = 0"
    by (simp_all add: sent_for_def sample_gateway_def BudgetLedger_usage_def JobUsage_zero_def)
  ultimately show ?thesis
    using gateway_stays_within_tool_call_budget [OF run, of 1 2] run by simp
qed

text \<open>
  While a server's circuit is open the gateway sends it nothing, for any caller and any
  capability of the server.
\<close>

theorem gateway_never_contacts_rested_server:
  assumes "CapabilityGateway_invoke bops CircuitBreaker_ops env g q = (r, g')"
    and "registry_inv (gw_registry g)" and "CircuitBreaker_inv thr cd (gw_breaker g)" and "0 < cd"
    and "CircuitBreaker_view (gw_breaker g) (en_breaker_at env) (ca_server q) = Rested t"
  shows "gw_sent g' = gw_sent g"
  using circuit_port.gateway_rested_not_contacted [OF memory_circuit_port [OF assms(4)] assms(1,2,3)] assms(5)
  by blast

definition rested_gateway :: "(BudgetLedger, CircuitBreaker) CapabilityGateway" where
  "rested_gateway = sample_gateway\<lparr>gw_breaker := sample_breaker\<lparr>cb_circuits :=
     [(''postgres'', \<lparr>ci_failures = 2, ci_state = CS_OPEN, ci_opened_at = Some 45\<rparr>)]\<rparr>\<rparr>"

lemma sample_registry_inv: "registry_inv (gw_registry rested_gateway)"
  by (simp add: rested_gateway_def sample_defs registry_inv_def dict_wf_def Capability_valid_def
      Name_valid_def bounded_text_def name_start_def name_char_def)

theorem gateway_never_contacts_rested_server_witness:
  "gw_sent (snd (CapabilityGateway_invoke BudgetLedger_ops CircuitBreaker_ops sample_env rested_gateway sample_call)) = []"
proof -
  obtain r g' where run:
    "CapabilityGateway_invoke BudgetLedger_ops CircuitBreaker_ops sample_env rested_gateway sample_call = (r, g')"
    by (cases "CapabilityGateway_invoke BudgetLedger_ops CircuitBreaker_ops sample_env rested_gateway sample_call")
  have "CircuitBreaker_inv 2 10 (gw_breaker rested_gateway)"
    by (auto simp: rested_gateway_def sample_breaker_def CircuitBreaker_inv_def split: if_splits)
  moreover have "CircuitBreaker_view (gw_breaker rested_gateway) (en_breaker_at sample_env) (ca_server sample_call) = Rested 45"
    by (simp add: rested_gateway_def sample_breaker_def CircuitBreaker_view_def sample_env_def sample_call_def)
  ultimately have "gw_sent g' = gw_sent rested_gateway"
    using gateway_never_contacts_rested_server [OF run sample_registry_inv] by simp
  with run show ?thesis by (simp add: rested_gateway_def sample_gateway_def)
qed

text \<open>
  C39. The gateway's approval check does not look at whose approval it is: changing the tenant,
  the job and the resource an approval was opened for never changes whether it is accepted.
\<close>

theorem approval_check_ignores_tenant_job_and_resource:
  "is_ok (CapabilityGateway_check_approval env a args
      (Some (ap\<lparr>ar_tenant_id := tenant, ar_job_id := job, ar_resource_id := res\<rparr>))) =
   is_ok (CapabilityGateway_check_approval env a args (Some ap))"
  by (simp add: CapabilityGateway_check_approval_def ApprovalRequest_authorize_def
      ApprovalRequest_is_valid_for_def Let_def)

end
