(* ===== verification/Redis.thy ===== *)
theory Redis
  imports Models "HOL-Library.Multiset"
begin

text \<open>
  The commands of the Redis server that the scripts of \<open>persistence/redis_state.py\<close> use. The
  server is not part of the platform, so the commands are a record of operations that every
  definition takes as an argument, and what the platform relies on is the locale \<open>redis_server\<close>:
  each law is the command's documented effect on the key it names and on no other. A script runs
  without interleaving. The laws are stated for a connection that lasts and counts below
  \<open>2^63\<close>. \<open>redis_clocked\<close> adds how keys expire as time passes. \<open>RedisServer\<close> is an instance of both,
  which shows that the laws can hold together.
\<close>

datatype redis_value = RInt int | RFloat pyfloat | RText string

record 'k Redis =
  rd_error :: "'k \<Rightarrow> string option"
  rd_time :: "'k \<Rightarrow> int"
  rd_hget :: "'k \<Rightarrow> string \<Rightarrow> string \<Rightarrow> redis_value option"
  rd_hset :: "'k \<Rightarrow> string \<Rightarrow> string \<Rightarrow> redis_value \<Rightarrow> 'k"
  rd_hincrby :: "'k \<Rightarrow> string \<Rightarrow> string \<Rightarrow> int \<Rightarrow> int \<times> 'k"
  rd_hincrbyfloat :: "'k \<Rightarrow> string \<Rightarrow> string \<Rightarrow> pyfloat \<Rightarrow> 'k"
  rd_pexpire :: "'k \<Rightarrow> string \<Rightarrow> int \<Rightarrow> 'k"
  rd_del :: "'k \<Rightarrow> string \<Rightarrow> 'k"
  rd_sadd :: "'k \<Rightarrow> string \<Rightarrow> string \<Rightarrow> 'k"
  rd_smembers :: "'k \<Rightarrow> string \<Rightarrow> string list"
  rd_zadd :: "'k \<Rightarrow> string \<Rightarrow> int \<Rightarrow> string \<Rightarrow> 'k"
  rd_zremrangebyscore :: "'k \<Rightarrow> string \<Rightarrow> int \<Rightarrow> 'k"
  rd_zrange :: "'k \<Rightarrow> string \<Rightarrow> (int \<times> string) list"

text \<open>\<open>EXPIRE\<close> counts seconds; \<open>ZCARD\<close> counts members; \<open>tonumber(HGET or '0')\<close> reads a count.\<close>

definition rd_expire :: "'k Redis \<Rightarrow> 'k \<Rightarrow> string \<Rightarrow> int \<Rightarrow> 'k" where
  "rd_expire rd k key seconds = rd_pexpire rd k key (1000 * seconds)"

definition rd_zcard :: "'k Redis \<Rightarrow> 'k \<Rightarrow> string \<Rightarrow> int" where
  "rd_zcard rd k key = int (length (rd_zrange rd k key))"

definition int_field :: "'k Redis \<Rightarrow> 'k \<Rightarrow> string \<Rightarrow> string \<Rightarrow> int" where
  "int_field rd k key f = (case rd_hget rd k key f of Some (RInt n) \<Rightarrow> n | _ \<Rightarrow> 0)"

definition float_field :: "'k Redis \<Rightarrow> 'k \<Rightarrow> string \<Rightarrow> string \<Rightarrow> pyfloat" where
  "float_field rd k key f = (case rd_hget rd k key f of Some (RFloat x) \<Rightarrow> x | _ \<Rightarrow> 0)"

text \<open>Fields a command may add to: absent, or of the type it adds.\<close>

definition int_typed :: "redis_value option \<Rightarrow> bool" where
  "int_typed v \<longleftrightarrow> (case v of None \<Rightarrow> True | Some (RInt _) \<Rightarrow> True | _ \<Rightarrow> False)"

definition float_typed :: "redis_value option \<Rightarrow> bool" where
  "float_typed v \<longleftrightarrow> (case v of None \<Rightarrow> True | Some (RFloat _) \<Rightarrow> True | _ \<Rightarrow> False)"

locale redis_server =
  fixes rd :: "'k Redis"
  assumes hset_hget: "rd_hget rd (rd_hset rd k key f v) = (rd_hget rd k)(key := (rd_hget rd k key)(f \<mapsto> v))"
    and hset_error: "rd_error rd (rd_hset rd k key f v) = rd_error rd k"
    and hincrby_hget: "int_typed (rd_hget rd k key f) \<Longrightarrow> rd_hincrby rd k key f n = (sum_of, k') \<Longrightarrow>
      sum_of = int_field rd k key f + n \<and> rd_hget rd k' = (rd_hget rd k)(key := (rd_hget rd k key)(f \<mapsto> RInt sum_of)) \<and>
      rd_error rd k' = rd_error rd k"
    and hincrbyfloat_hget: "float_typed (rd_hget rd k key f) \<Longrightarrow>
      rd_hget rd (rd_hincrbyfloat rd k key f amount) =
        (rd_hget rd k)(key := (rd_hget rd k key)(f \<mapsto> RFloat (float_field rd k key f + amount))) \<and>
      rd_error rd (rd_hincrbyfloat rd k key f amount) = rd_error rd k"
    and pexpire_keeps: "0 < ms \<Longrightarrow> rd_hget rd (rd_pexpire rd k key ms) = rd_hget rd k \<and>
      rd_zrange rd (rd_pexpire rd k key ms) = rd_zrange rd k \<and> rd_error rd (rd_pexpire rd k key ms) = rd_error rd k"
    and del_hget: "rd_hget rd (rd_del rd k key) = (rd_hget rd k)(key := (\<lambda>_. None)) \<and>
      rd_error rd (rd_del rd k key) = rd_error rd k"
    and sadd_keeps: "key' \<noteq> key \<Longrightarrow> rd_hget rd (rd_sadd rd k key m) key' = rd_hget rd k key'"
    and sadd_error: "rd_error rd (rd_sadd rd k key m) = rd_error rd k"
    and zrem_zrange: "mset (rd_zrange rd (rd_zremrangebyscore rd k key x) key') =
        (if key' = key then filter_mset (\<lambda>entry. x < fst entry) (mset (rd_zrange rd k key)) else mset (rd_zrange rd k key')) \<and>
      rd_error rd (rd_zremrangebyscore rd k key x) = rd_error rd k"
    and zadd_zrange: "member \<notin> snd ` set (rd_zrange rd k key) \<Longrightarrow>
      mset (rd_zrange rd (rd_zadd rd k key x member) key') =
        (if key' = key then add_mset (x, member) (mset (rd_zrange rd k key)) else mset (rd_zrange rd k key')) \<and>
      rd_error rd (rd_zadd rd k key x member) = rd_error rd k"
begin

lemma expire_keeps: "0 < s \<Longrightarrow> rd_hget rd (rd_expire rd k key s) = rd_hget rd k"
    "0 < s \<Longrightarrow> rd_error rd (rd_expire rd k key s) = rd_error rd k"
  using pexpire_keeps [of "1000 * s" k key] by (simp_all add: rd_expire_def)

end

section \<open>Time\<close>

text \<open>
  What the server's clock does to its keys. \<open>elapse t\<close> brings the server to the time \<open>t\<close>, in
  microseconds: a key whose deadline has come is gone, and every other key is as it was. \<open>PEXPIRE\<close>
  gives a key that exists a deadline counted from the server's time, and the increments keep whatever
  deadline there is.
\<close>

locale redis_clocked = redis_server rd for rd :: "'k Redis" +
  fixes elapse :: "int \<Rightarrow> 'k \<Rightarrow> 'k" and deadline :: "'k \<Rightarrow> string \<Rightarrow> int option"
  assumes elapse_time: "rd_time rd (elapse t k) = t"
    and elapse_hget: "rd_hget rd (elapse t k) key =
      (case deadline k key of Some d \<Rightarrow> if d \<le> t then (\<lambda>_. None) else rd_hget rd k key | None \<Rightarrow> rd_hget rd k key)"
    and elapse_deadline: "deadline (elapse t k) key =
      (case deadline k key of Some d \<Rightarrow> if d \<le> t then None else Some d | None \<Rightarrow> None)"
    and pexpire_deadline: "0 < ms \<Longrightarrow> rd_hget rd k key f \<noteq> None \<Longrightarrow>
      deadline (rd_pexpire rd k key ms) = (deadline k)(key \<mapsto> rd_time rd k + 1000 * ms)"
    and hincrby_deadline: "deadline (snd (rd_hincrby rd k key f n)) = deadline k \<and>
      rd_time rd (snd (rd_hincrby rd k key f n)) = rd_time rd k"
    and hincrbyfloat_deadline: "deadline (rd_hincrbyfloat rd k key f x) = deadline k \<and>
      rd_time rd (rd_hincrbyfloat rd k key f x) = rd_time rd k"
begin

lemma expire_deadline:
  "0 < s \<Longrightarrow> rd_hget rd k key f \<noteq> None \<Longrightarrow> deadline (rd_expire rd k key s) = (deadline k)(key \<mapsto> rd_time rd k + 1000000 * s)"
  using pexpire_deadline [of "1000 * s" k key f] by (simp add: rd_expire_def)

lemma elapse_hget_cases: "rd_hget rd (elapse t k) key = rd_hget rd k key \<or> rd_hget rd (elapse t k) key = (\<lambda>_. None)"
  by (simp add: elapse_hget split: option.split)

end

section \<open>An instance\<close>

record RedisServer =
  rs_error :: "string option"
  rs_time :: int
  rs_hashes :: "string \<Rightarrow> string \<Rightarrow> redis_value option"
  rs_sets :: "string \<Rightarrow> string list"
  rs_zsets :: "string \<Rightarrow> (int \<times> string) list"
  rs_deadlines :: "string \<Rightarrow> int option"

definition RedisServer_commands :: "RedisServer Redis" where
  "RedisServer_commands =
     \<lparr>rd_error = rs_error, rd_time = rs_time, rd_hget = rs_hashes,
      rd_hset = (\<lambda>k key f v. k\<lparr>rs_hashes := (rs_hashes k)(key := (rs_hashes k key)(f \<mapsto> v))\<rparr>),
      rd_hincrby = (\<lambda>k key f n.
        let m = (case rs_hashes k key f of Some (RInt c) \<Rightarrow> c | _ \<Rightarrow> 0) + n
        in (m, k\<lparr>rs_hashes := (rs_hashes k)(key := (rs_hashes k key)(f \<mapsto> RInt m))\<rparr>)),
      rd_hincrbyfloat = (\<lambda>k key f x.
        let y = (case rs_hashes k key f of Some (RFloat c) \<Rightarrow> c | _ \<Rightarrow> 0) + x
        in k\<lparr>rs_hashes := (rs_hashes k)(key := (rs_hashes k key)(f \<mapsto> RFloat y))\<rparr>),
      rd_pexpire = (\<lambda>k key ms. k\<lparr>rs_deadlines := (rs_deadlines k)(key \<mapsto> rs_time k + 1000 * ms)\<rparr>),
      rd_del = (\<lambda>k key. k\<lparr>rs_hashes := (rs_hashes k)(key := (\<lambda>_. None)), rs_sets := (rs_sets k)(key := []),
        rs_zsets := (rs_zsets k)(key := []), rs_deadlines := (rs_deadlines k)(key := None)\<rparr>),
      rd_sadd = (\<lambda>k key m. k\<lparr>rs_sets := (rs_sets k)(key := List.insert m (rs_sets k key))\<rparr>),
      rd_smembers = rs_sets,
      rd_zadd = (\<lambda>k key x m. k\<lparr>rs_zsets := (rs_zsets k)(key :=
        insort_key fst (x, m) (filter (\<lambda>(_, m'). m' \<noteq> m) (rs_zsets k key)))\<rparr>),
      rd_zremrangebyscore = (\<lambda>k key x. k\<lparr>rs_zsets := (rs_zsets k)(key :=
        filter (\<lambda>entry. x < fst entry) (rs_zsets k key))\<rparr>),
      rd_zrange = rs_zsets\<rparr>"

definition empty_redis :: RedisServer where
  "empty_redis = \<lparr>rs_error = None, rs_time = 0, rs_hashes = (\<lambda>_ _. None), rs_sets = (\<lambda>_. []),
     rs_zsets = (\<lambda>_. []), rs_deadlines = (\<lambda>_. None)\<rparr>"

interpretation redis: redis_server RedisServer_commands
proof
  fix k :: RedisServer and member key key' :: string and x :: int
  assume "member \<notin> snd ` set (rd_zrange RedisServer_commands k key)"
  then have "filter (\<lambda>(_, m'). m' \<noteq> member) (rs_zsets k key) = rs_zsets k key"
    by (intro filter_True) (force simp: RedisServer_commands_def)
  then show "mset (rd_zrange RedisServer_commands (rd_zadd RedisServer_commands k key x member) key') =
      (if key' = key then add_mset (x, member) (mset (rd_zrange RedisServer_commands k key))
       else mset (rd_zrange RedisServer_commands k key')) \<and>
      rd_error RedisServer_commands (rd_zadd RedisServer_commands k key x member) = rd_error RedisServer_commands k"
    by (simp add: RedisServer_commands_def)
qed (auto simp: RedisServer_commands_def int_field_def float_field_def Let_def)

definition RedisServer_at :: "int \<Rightarrow> RedisServer \<Rightarrow> RedisServer" where
  "RedisServer_at t k =
     (let gone = (\<lambda>key. case rs_deadlines k key of Some d \<Rightarrow> d \<le> t | None \<Rightarrow> False)
      in k\<lparr>rs_time := t, rs_hashes := (\<lambda>key. if gone key then (\<lambda>_. None) else rs_hashes k key),
          rs_sets := (\<lambda>key. if gone key then [] else rs_sets k key),
          rs_zsets := (\<lambda>key. if gone key then [] else rs_zsets k key),
          rs_deadlines := (\<lambda>key. if gone key then None else rs_deadlines k key)\<rparr>)"

interpretation clocked: redis_clocked RedisServer_commands RedisServer_at rs_deadlines
  by unfold_locales (auto simp: RedisServer_commands_def RedisServer_at_def Let_def split: option.splits)

end
