(* ===== verification/RedisState.thy ===== *)
theory RedisState
  imports Breaker Redis
begin

text \<open>
  Limits every worker shares (\<open>persistence/redis_state.py\<close>): the budget ledger and the circuit
  breaker whose counts live in Redis. The Lua scripts are functions over the server's commands.
  Both keep the contract of the in-memory components they replace, so what is proved of a client
  of \<open>budget_port\<close> or \<open>circuit_port\<close> holds of a deployment with many workers. What the expiry
  of a job's count does to the budget is in \<open>SharedLimits\<close>; the expiry of circuits and of rate windows is
  not modelled.
\<close>

section \<open>The scripts\<close>

definition USAGE_TTL :: int where
  "USAGE_TTL = 30 * 24 * 60 * 60"

definition RESERVE_CALL :: "'k Redis \<Rightarrow> 'k \<Rightarrow> string \<Rightarrow> int \<Rightarrow> int \<Rightarrow> int \<times> 'k" where
  "RESERVE_CALL rd k key limit ttl =
     (if int_field rd k key ''tool_calls'' \<ge> limit then (- 1, k)
      else let (claimed, k1) = rd_hincrby rd k key ''tool_calls'' 1
           in (claimed, rd_expire rd k1 key ttl))"

definition RECORD_AGENT_CALL ::
  "'k Redis \<Rightarrow> 'k \<Rightarrow> string \<Rightarrow> int \<Rightarrow> int \<Rightarrow> int \<Rightarrow> pyfloat \<Rightarrow> pyfloat \<Rightarrow> int \<Rightarrow> 'k" where
  "RECORD_AGENT_CALL rd k key corrections prompt completion cost active ttl =
     (let k1 = snd (rd_hincrby rd k key ''agent_calls'' 1);
          k2 = snd (rd_hincrby rd k1 key ''schema_corrections'' corrections);
          k3 = snd (rd_hincrby rd k2 key ''prompt_tokens'' prompt);
          k4 = snd (rd_hincrby rd k3 key ''completion_tokens'' completion);
          k5 = rd_hincrbyfloat rd k4 key ''cost_usd'' cost;
          k6 = rd_hincrbyfloat rd k5 key ''active_seconds'' active
      in rd_expire rd k6 key ttl)"

text \<open>\<open>_NOW\<close> and \<open>_REFRESH\<close>: the caller's time or the server's, and the circuit as it is by then.\<close>

definition NOW :: "'k Redis \<Rightarrow> 'k \<Rightarrow> datetime option \<Rightarrow> int" where
  "NOW rd k arg = (case arg of Some now \<Rightarrow> now | None \<Rightarrow> rd_time rd k)"

definition REFRESH :: "'k Redis \<Rightarrow> 'k \<Rightarrow> string \<Rightarrow> int \<Rightarrow> int \<Rightarrow> string \<times> int \<times> 'k" where
  "REFRESH rd k key now cooldown =
     (let state = (case rd_hget rd k key ''state'' of Some (RText s) \<Rightarrow> s | _ \<Rightarrow> ''closed'');
          opened = int_field rd k key ''opened_at''
      in if state = ''open'' \<and> now - opened \<ge> cooldown
         then (''half_open'', opened, rd_hset rd k key ''state'' (RText ''half_open''))
         else (state, opened, k))"

definition CIRCUIT_FAILURE ::
  "'k Redis \<Rightarrow> 'k \<Rightarrow> string \<Rightarrow> string \<Rightarrow> datetime option \<Rightarrow> int \<Rightarrow> int \<Rightarrow> string \<Rightarrow> 'k" where
  "CIRCUIT_FAILURE rd k key servers arg cooldown threshold server =
     (let now = NOW rd k arg;
          (state, opened, k1) = REFRESH rd k key now cooldown;
          k2 = (if state = ''half_open''
                then rd_hset rd (rd_hset rd (rd_hset rd k1 key ''state'' (RText ''open''))
                       key ''failures'' (RInt threshold)) key ''opened_at'' (RInt now)
                else let (failures, k') = rd_hincrby rd k1 key ''failures'' 1
                     in if failures \<ge> threshold
                        then rd_hset rd (rd_hset rd k' key ''state'' (RText ''open'')) key ''opened_at'' (RInt now)
                        else k');
          k3 = rd_sadd rd k2 servers server
      in rd_expire rd k3 key 86400)"


section \<open>The budget ledger\<close>

definition unavailable :: "string \<Rightarrow> LimitError" where
  "unavailable error = LimitStoreUnavailable (''the shared limit store is unavailable: '' @ error)"

definition usage_from :: "'k Redis \<Rightarrow> 'k \<Rightarrow> string \<Rightarrow> JobUsage" where
  "usage_from rd k key =
     \<lparr>tool_calls = int_field rd k key ''tool_calls'', agent_calls = int_field rd k key ''agent_calls'',
      schema_corrections = int_field rd k key ''schema_corrections'',
      prompt_tokens = int_field rd k key ''prompt_tokens'',
      completion_tokens = int_field rd k key ''completion_tokens'',
      cost_usd = float_field rd k key ''cost_usd'', active_seconds = float_field rd k key ''active_seconds''\<rparr>"

definition RedisBudgetLedger_key :: "string \<Rightarrow> uuid \<Rightarrow> string" where
  "RedisBudgetLedger_key key_prefix job_id = key_prefix @ '':budget:'' @ uuid_str job_id"

text \<open>The model \<open>JobUsage\<close> refuses negative figures with a \<open>ValueError\<close>.\<close>

definition validated_usage :: "JobUsage \<Rightarrow> LimitError + JobUsage" where
  "validated_usage u = (if JobUsage_valid u then Inr u else Inl NegativeUsage)"

definition RedisBudgetLedger_usage :: "'k Redis \<Rightarrow> string \<Rightarrow> 'k \<Rightarrow> uuid \<Rightarrow> LimitError + JobUsage" where
  "RedisBudgetLedger_usage rd key_prefix k job_id =
     (case rd_error rd k of Some e \<Rightarrow> Inl (unavailable e)
      | None \<Rightarrow> validated_usage (usage_from rd k (RedisBudgetLedger_key key_prefix job_id)))"

definition RedisBudgetLedger_remaining_calls ::
  "'k Redis \<Rightarrow> string \<Rightarrow> 'k \<Rightarrow> uuid \<Rightarrow> ResearchBudget \<Rightarrow> LimitError + int" where
  "RedisBudgetLedger_remaining_calls rd key_prefix k job_id budget =
     bind_result (RedisBudgetLedger_usage rd key_prefix k job_id) (\<lambda>u. Inr (max 0 (max_tool_calls budget - tool_calls u)))"

definition RedisBudgetLedger_reserve_call ::
  "'k Redis \<Rightarrow> string \<Rightarrow> 'k \<Rightarrow> uuid \<Rightarrow> ResearchBudget \<Rightarrow> (LimitError + int) \<times> 'k" where
  "RedisBudgetLedger_reserve_call rd key_prefix k job_id budget =
     (case rd_error rd k of
        Some e \<Rightarrow> (Inl (unavailable e), k)
      | None \<Rightarrow>
          let (claimed, k') = RESERVE_CALL rd k (RedisBudgetLedger_key key_prefix job_id) (max_tool_calls budget) USAGE_TTL
          in (if claimed < 0 then Inl (BudgetExhausted job_id (of_int (max_tool_calls budget)) ''tool-call'')
              else Inr claimed, k'))"

definition RedisBudgetLedger_ensure_within ::
  "'k Redis \<Rightarrow> string \<Rightarrow> 'k \<Rightarrow> uuid \<Rightarrow> ResearchBudget \<Rightarrow> LimitError + unit" where
  "RedisBudgetLedger_ensure_within rd key_prefix k job_id budget =
     bind_result (RedisBudgetLedger_usage rd key_prefix k job_id) (\<lambda>spent. check_spent job_id spent budget)"

definition RedisBudgetLedger_record_agent_call ::
  "'k Redis \<Rightarrow> string \<Rightarrow> 'k \<Rightarrow> uuid \<Rightarrow> agent_spend \<Rightarrow> (LimitError + JobUsage) \<times> 'k" where
  "RedisBudgetLedger_record_agent_call rd key_prefix k job_id s =
     (if spend_negative s then (Inl NegativeUsage, k)
      else case rd_error rd k of
        Some e \<Rightarrow> (Inl (unavailable e), k)
      | None \<Rightarrow>
          let key = RedisBudgetLedger_key key_prefix job_id;
              k' = RECORD_AGENT_CALL rd k key (sp_corrections s) (sp_prompt_tokens s) (sp_completion_tokens s)
                     (sp_cost_usd s) (sp_active_seconds s) USAGE_TTL
          in (validated_usage (usage_from rd k' key), k'))"

definition RedisBudgetLedger_ops :: "'k Redis \<Rightarrow> string \<Rightarrow> 'k Budgets" where
  "RedisBudgetLedger_ops rd key_prefix =
     \<lparr>bg_usage = RedisBudgetLedger_usage rd key_prefix,
      bg_remaining_calls = RedisBudgetLedger_remaining_calls rd key_prefix,
      bg_reserve_call = RedisBudgetLedger_reserve_call rd key_prefix,
      bg_ensure_within = RedisBudgetLedger_ensure_within rd key_prefix,
      bg_record_agent_call = RedisBudgetLedger_record_agent_call rd key_prefix\<rparr>"


section \<open>The circuit breaker\<close>

text \<open>
  The configuration of one \<open>RedisCircuitBreaker\<close>; \<open>rc_own_clock\<close> says whether a clock was
  supplied. An operation takes the reading of that clock.
\<close>

record RedisCircuitBreaker =
  rc_threshold :: int
  rc_cooldown :: timedelta
  rc_own_clock :: bool
  rc_prefix :: string

definition RedisCircuitBreaker_init :: "int \<Rightarrow> timedelta \<Rightarrow> bool \<Rightarrow> string \<Rightarrow> string + RedisCircuitBreaker" where
  "RedisCircuitBreaker_init failure_threshold cooldown own_clock key_prefix =
     (if failure_threshold < 1 then Inl ''failure_threshold must be at least 1''
      else Inr \<lparr>rc_threshold = failure_threshold, rc_cooldown = cooldown, rc_own_clock = own_clock, rc_prefix = key_prefix\<rparr>)"

definition RedisCircuitBreaker_key :: "RedisCircuitBreaker \<Rightarrow> string \<Rightarrow> string" where
  "RedisCircuitBreaker_key c server = rc_prefix c @ '':circuit:'' @ server"

definition RedisCircuitBreaker_servers :: "RedisCircuitBreaker \<Rightarrow> string" where
  "RedisCircuitBreaker_servers c = rc_prefix c @ '':circuits''"

definition RedisCircuitBreaker_now :: "RedisCircuitBreaker \<Rightarrow> datetime \<Rightarrow> datetime option" where
  "RedisCircuitBreaker_now c now = (if rc_own_clock c then Some now else None)"

definition CircuitState_of :: "string \<Rightarrow> CircuitState option" where
  "CircuitState_of s = (if s = ''closed'' then Some CS_CLOSED else if s = ''open'' then Some CS_OPEN
     else if s = ''half_open'' then Some CS_HALF_OPEN else None)"

definition RedisCircuitBreaker_read ::
  "'k Redis \<Rightarrow> RedisCircuitBreaker \<Rightarrow> 'k \<Rightarrow> string \<Rightarrow> datetime \<Rightarrow> (BreakerError + CircuitState \<times> int) \<times> 'k" where
  "RedisCircuitBreaker_read rd c k server now =
     (case rd_error rd k of
        Some e \<Rightarrow> (Inl (CircuitStoreUnavailable (''the shared limit store is unavailable: '' @ e)), k)
      | None \<Rightarrow>
          let (state, opened, k') = REFRESH rd k (RedisCircuitBreaker_key c server)
                (NOW rd k (RedisCircuitBreaker_now c now)) (rc_cooldown c)
          in (case CircuitState_of state of None \<Rightarrow> Inl CircuitAssertion | Some st \<Rightarrow> Inr (st, opened), k'))"

definition RedisCircuitBreaker_state_of ::
  "'k Redis \<Rightarrow> RedisCircuitBreaker \<Rightarrow> 'k \<Rightarrow> string \<Rightarrow> datetime \<Rightarrow> (BreakerError + CircuitState) \<times> 'k" where
  "RedisCircuitBreaker_state_of rd c k server now =
     (case RedisCircuitBreaker_read rd c k server now of
        (Inl e, k') \<Rightarrow> (Inl e, k') | (Inr (st, _), k') \<Rightarrow> (Inr st, k'))"

definition RedisCircuitBreaker_ensure_closed ::
  "'k Redis \<Rightarrow> RedisCircuitBreaker \<Rightarrow> 'k \<Rightarrow> string \<Rightarrow> datetime \<Rightarrow> (BreakerError + unit) \<times> 'k" where
  "RedisCircuitBreaker_ensure_closed rd c k server now =
     (case RedisCircuitBreaker_read rd c k server now of
        (Inl e, k') \<Rightarrow> (Inl e, k')
      | (Inr (st, opened), k') \<Rightarrow>
          (if st = CS_OPEN then Inl (CircuitOpen server (opened + rc_cooldown c)) else Inr (), k'))"

definition RedisCircuitBreaker_record_success :: "'k Redis \<Rightarrow> RedisCircuitBreaker \<Rightarrow> 'k \<Rightarrow> string \<Rightarrow> 'k" where
  "RedisCircuitBreaker_record_success rd c k server =
     (if rd_error rd k \<noteq> None then k
      else rd_sadd rd (rd_del rd k (RedisCircuitBreaker_key c server)) (RedisCircuitBreaker_servers c) server)"

definition RedisCircuitBreaker_record_failure ::
  "'k Redis \<Rightarrow> RedisCircuitBreaker \<Rightarrow> 'k \<Rightarrow> string \<Rightarrow> datetime \<Rightarrow> (BreakerError + unit) \<times> 'k" where
  "RedisCircuitBreaker_record_failure rd c k server now =
     (Inr (), if rd_error rd k \<noteq> None then k
              else CIRCUIT_FAILURE rd k (RedisCircuitBreaker_key c server) (RedisCircuitBreaker_servers c)
                     (RedisCircuitBreaker_now c now) (rc_cooldown c) (rc_threshold c) server)"

fun RedisCircuitBreaker_states_of ::
  "'k Redis \<Rightarrow> RedisCircuitBreaker \<Rightarrow> 'k \<Rightarrow> string list \<Rightarrow> datetime \<Rightarrow> (BreakerError + (string \<times> CircuitState) list) \<times> 'k" where
  "RedisCircuitBreaker_states_of rd c k [] now = (Inr [], k)"
| "RedisCircuitBreaker_states_of rd c k (s # ss) now =
     (case RedisCircuitBreaker_state_of rd c k s now of
        (Inl e, k') \<Rightarrow> (Inl e, k')
      | (Inr st, k') \<Rightarrow>
          (case RedisCircuitBreaker_states_of rd c k' ss now of
             (Inl e, k'') \<Rightarrow> (Inl e, k'') | (Inr rest, k'') \<Rightarrow> (Inr ((s, st) # rest), k'')))"

text \<open>Only an unreachable store is read as no circuits; a stored state that cannot be read is raised.\<close>

definition RedisCircuitBreaker_states ::
  "'k Redis \<Rightarrow> RedisCircuitBreaker \<Rightarrow> 'k \<Rightarrow> datetime \<Rightarrow> (BreakerError + (string \<times> CircuitState) list) \<times> 'k" where
  "RedisCircuitBreaker_states rd c k now =
     (if rd_error rd k \<noteq> None then (Inr [], k)
      else case RedisCircuitBreaker_states_of rd c k (sort (rd_smembers rd k (RedisCircuitBreaker_servers c))) now of
             (Inl (CircuitStoreUnavailable _), k') \<Rightarrow> (Inr [], k')
           | r \<Rightarrow> r)"

definition RedisCircuitBreaker_ops :: "'k Redis \<Rightarrow> RedisCircuitBreaker \<Rightarrow> 'k Breaker" where
  "RedisCircuitBreaker_ops rd c =
     \<lparr>br_state_of = RedisCircuitBreaker_state_of rd c, br_ensure_closed = RedisCircuitBreaker_ensure_closed rd c,
      br_record_success = RedisCircuitBreaker_record_success rd c,
      br_record_failure = RedisCircuitBreaker_record_failure rd c\<rparr>"

section \<open>The ledger keeps its contract\<close>

lemma budget_key_inject [simp]:
  "RedisBudgetLedger_key px a = RedisBudgetLedger_key px b \<longleftrightarrow> a = b"
  by (simp add: RedisBudgetLedger_key_def)

context redis_server
begin

definition ledger_inv :: "string \<Rightarrow> 'k \<Rightarrow> bool" where
  "ledger_inv px k \<longleftrightarrow> (\<forall>j. let h = rd_hget rd k (RedisBudgetLedger_key px j) in
     (\<forall>f \<in> {''tool_calls'', ''agent_calls'', ''schema_corrections'', ''prompt_tokens'', ''completion_tokens''}. int_typed (h f)) \<and>
     float_typed (h ''cost_usd'') \<and> float_typed (h ''active_seconds'') \<and>
     JobUsage_valid (usage_from rd k (RedisBudgetLedger_key px j)))"

definition ledger_spent :: "string \<Rightarrow> 'k \<Rightarrow> uuid \<Rightarrow> JobUsage" where
  "ledger_spent px k j = usage_from rd k (RedisBudgetLedger_key px j)"

text \<open>What the two scripts do to the figures of the job they name, and of no other.\<close>

lemma usage_from_cong: "rd_hget rd k' key' = rd_hget rd k key \<Longrightarrow> usage_from rd k' key' = usage_from rd k key"
  by (simp add: usage_from_def int_field_def float_field_def)

lemma hincrby_pair:
  assumes "int_typed (rd_hget rd k key f)"
  obtains k' where "rd_hincrby rd k key f n = (int_field rd k key f + n, k')"
    "rd_hget rd k' = (rd_hget rd k)(key := (rd_hget rd k key)(f \<mapsto> RInt (int_field rd k key f + n)))"
    "rd_error rd k' = rd_error rd k"
  using hincrby_hget [OF assms] by (cases "rd_hincrby rd k key f n") auto

lemma snd_hincrby:
  assumes "int_typed (rd_hget rd k key f)"
  shows "rd_hget rd (snd (rd_hincrby rd k key f n)) =
      (rd_hget rd k)(key := (rd_hget rd k key)(f \<mapsto> RInt (int_field rd k key f + n)))"
    "rd_error rd (snd (rd_hincrby rd k key f n)) = rd_error rd k"
  by (rule hincrby_pair [OF assms, of n]; simp)+

lemma RESERVE_CALL_claims:
  assumes "int_typed (rd_hget rd k key ''tool_calls'')" and "int_field rd k key ''tool_calls'' < limit"
  obtains k' where "RESERVE_CALL rd k key limit USAGE_TTL = (int_field rd k key ''tool_calls'' + 1, k')"
    "rd_hget rd k' = (rd_hget rd k)(key := (rd_hget rd k key)(''tool_calls'' \<mapsto> RInt (int_field rd k key ''tool_calls'' + 1)))"
proof -
  obtain k1 where "rd_hincrby rd k key ''tool_calls'' 1 = (int_field rd k key ''tool_calls'' + 1, k1)"
    "rd_hget rd k1 = (rd_hget rd k)(key := (rd_hget rd k key)(''tool_calls'' \<mapsto> RInt (int_field rd k key ''tool_calls'' + 1)))"
    using hincrby_pair [OF assms(1), of 1] by blast
  with assms(2) show ?thesis
    by (intro that [of "rd_expire rd k1 key USAGE_TTL"]) (simp_all add: RESERVE_CALL_def expire_keeps USAGE_TTL_def)
qed

lemma RECORD_AGENT_CALL_adds:
  assumes "\<And>f. f \<in> {''agent_calls'', ''schema_corrections'', ''prompt_tokens'', ''completion_tokens''} \<Longrightarrow>
      int_typed (rd_hget rd k key f)"
    and "float_typed (rd_hget rd k key ''cost_usd'')" and "float_typed (rd_hget rd k key ''active_seconds'')"
  shows "rd_hget rd (RECORD_AGENT_CALL rd k key co pt ct cost act USAGE_TTL) = (rd_hget rd k)(key := (rd_hget rd k key)
      (''agent_calls'' \<mapsto> RInt (int_field rd k key ''agent_calls'' + 1),
       ''schema_corrections'' \<mapsto> RInt (int_field rd k key ''schema_corrections'' + co),
       ''prompt_tokens'' \<mapsto> RInt (int_field rd k key ''prompt_tokens'' + pt),
       ''completion_tokens'' \<mapsto> RInt (int_field rd k key ''completion_tokens'' + ct),
       ''cost_usd'' \<mapsto> RFloat (float_field rd k key ''cost_usd'' + cost),
       ''active_seconds'' \<mapsto> RFloat (float_field rd k key ''active_seconds'' + act)))"
  using assms
  by (simp add: RECORD_AGENT_CALL_def Let_def expire_keeps USAGE_TTL_def hincrbyfloat_hget snd_hincrby
      int_field_def float_field_def)

lemma ledger_budget_port: "budget_port (RedisBudgetLedger_ops rd px) (ledger_inv px) (ledger_spent px)"
proof
  fix s s' j budget e u and spend :: agent_spend and n :: int
  assume inv: "ledger_inv px s"
  let ?key = "RedisBudgetLedger_key px j"
  have typed: "\<And>f. f \<in> {''tool_calls'', ''agent_calls'', ''schema_corrections'', ''prompt_tokens'', ''completion_tokens''} \<Longrightarrow>
      int_typed (rd_hget rd s ?key f)" "float_typed (rd_hget rd s ?key ''cost_usd'')"
      "float_typed (rd_hget rd s ?key ''active_seconds'')" and valid: "JobUsage_valid (ledger_spent px s j)"
    using inv by (auto simp: ledger_inv_def ledger_spent_def Let_def)
  have usage: "RedisBudgetLedger_usage rd px s j = (case rd_error rd s of Some e \<Rightarrow> Inl (unavailable e) | None \<Rightarrow> Inr (ledger_spent px s j))"
    using valid by (simp add: RedisBudgetLedger_usage_def validated_usage_def ledger_spent_def split: option.splits)
  show "bg_usage (RedisBudgetLedger_ops rd px) s j = Inr u \<Longrightarrow> u = ledger_spent px s j"
    by (simp add: RedisBudgetLedger_ops_def usage split: option.splits)
  show "bg_ensure_within (RedisBudgetLedger_ops rd px) s j budget = Inr () \<Longrightarrow> check_spent j (ledger_spent px s j) budget = Inr ()"
    by (simp add: RedisBudgetLedger_ops_def RedisBudgetLedger_ensure_within_def usage split: option.splits)
  have others: "ledger_spent px k' i = ledger_spent px s i"
    if "rd_hget rd k' = (rd_hget rd s)(?key := h)" "i \<noteq> j" for k' i h
    using that by (auto simp: ledger_spent_def intro!: usage_from_cong)
  have used: "int_field rd s ?key ''tool_calls'' = tool_calls (ledger_spent px s j)"
    by (simp add: ledger_spent_def usage_from_def)
  have claim: "\<exists>k'. RESERVE_CALL rd s ?key (max_tool_calls budget) USAGE_TTL = (tool_calls (ledger_spent px s j) + 1, k') \<and>
      ledger_inv px k' \<and> ledger_spent px k' = (ledger_spent px s)(j := (ledger_spent px s j)\<lparr>tool_calls := tool_calls (ledger_spent px s j) + 1\<rparr>)"
    if room: "tool_calls (ledger_spent px s j) < max_tool_calls budget"
  proof -
    obtain k' where k': "RESERVE_CALL rd s ?key (max_tool_calls budget) USAGE_TTL = (tool_calls (ledger_spent px s j) + 1, k')"
      "rd_hget rd k' = (rd_hget rd s)(?key := (rd_hget rd s ?key)(''tool_calls'' \<mapsto> RInt (tool_calls (ledger_spent px s j) + 1)))"
      using RESERVE_CALL_claims [OF typed(1), of "max_tool_calls budget"] room used by auto
    have "ledger_spent px k' j = (ledger_spent px s j)\<lparr>tool_calls := tool_calls (ledger_spent px s j) + 1\<rparr>"
      by (simp add: ledger_spent_def usage_from_def int_field_def float_field_def k'(2))
    moreover have "ledger_inv px k'"
      using inv valid others [OF k'(2)] calculation
      by (auto simp: ledger_inv_def Let_def k'(2) int_typed_def JobUsage_valid_def ledger_spent_def)
    ultimately show ?thesis using k'(1) others [OF k'(2)] by (auto simp: fun_eq_iff)
  qed
  show "bg_reserve_call (RedisBudgetLedger_ops rd px) s j budget = (Inr n, s') \<Longrightarrow>
      ledger_inv px s' \<and> tool_calls (ledger_spent px s j) < max_tool_calls budget \<and> n = tool_calls (ledger_spent px s' j) \<and>
      ledger_spent px s' = (ledger_spent px s)(j := (ledger_spent px s j)\<lparr>tool_calls := tool_calls (ledger_spent px s j) + 1\<rparr>)"
    using claim used
    by (cases "tool_calls (ledger_spent px s j) < max_tool_calls budget")
      (auto simp: RedisBudgetLedger_ops_def RedisBudgetLedger_reserve_call_def RESERVE_CALL_def split: option.splits if_splits)
  show "bg_reserve_call (RedisBudgetLedger_ops rd px) s j budget = (Inl e, s') \<Longrightarrow> ledger_inv px s' \<and> ledger_spent px s' = ledger_spent px s"
    using claim used valid inv
    by (cases "tool_calls (ledger_spent px s j) < max_tool_calls budget")
      (auto simp: RedisBudgetLedger_ops_def RedisBudgetLedger_reserve_call_def RESERVE_CALL_def JobUsage_valid_def
        split: option.splits if_splits)
  let ?k' = "RECORD_AGENT_CALL rd s ?key (sp_corrections spend) (sp_prompt_tokens spend) (sp_completion_tokens spend)
      (sp_cost_usd spend) (sp_active_seconds spend) USAGE_TTL"
  have hget: "rd_hget rd ?k' = (rd_hget rd s)(?key := (rd_hget rd s ?key)
      (''agent_calls'' \<mapsto> RInt (int_field rd s ?key ''agent_calls'' + 1),
       ''schema_corrections'' \<mapsto> RInt (int_field rd s ?key ''schema_corrections'' + sp_corrections spend),
       ''prompt_tokens'' \<mapsto> RInt (int_field rd s ?key ''prompt_tokens'' + sp_prompt_tokens spend),
       ''completion_tokens'' \<mapsto> RInt (int_field rd s ?key ''completion_tokens'' + sp_completion_tokens spend),
       ''cost_usd'' \<mapsto> RFloat (float_field rd s ?key ''cost_usd'' + sp_cost_usd spend),
       ''active_seconds'' \<mapsto> RFloat (float_field rd s ?key ''active_seconds'' + sp_active_seconds spend)))"
    by (rule RECORD_AGENT_CALL_adds) (use typed in auto)
  have spent': "ledger_spent px ?k' j = add_spend spend (ledger_spent px s j)"
    by (simp add: ledger_spent_def usage_from_def add_spend_def hget int_field_def float_field_def)
  have valid': "JobUsage_valid (ledger_spent px ?k' j)" if "\<not> spend_negative spend"
    using valid that by (auto simp: spent' add_spend_def JobUsage_valid_def spend_negative_def)
  have inv': "ledger_inv px ?k'" if "\<not> spend_negative spend"
    using inv valid' [OF that] others [OF hget]
    by (auto simp: ledger_inv_def Let_def hget int_typed_def float_typed_def ledger_spent_def)
  show "bg_record_agent_call (RedisBudgetLedger_ops rd px) s j spend = (Inr u, s') \<Longrightarrow>
      ledger_inv px s' \<and> \<not> spend_negative spend \<and> u = add_spend spend (ledger_spent px s j) \<and>
      ledger_spent px s' = (ledger_spent px s)(j := add_spend spend (ledger_spent px s j))"
    using inv' valid' spent' others [OF hget]
    by (auto simp: RedisBudgetLedger_ops_def RedisBudgetLedger_record_agent_call_def validated_usage_def ledger_spent_def
        Let_def fun_eq_iff split: option.splits if_splits)
  show "bg_record_agent_call (RedisBudgetLedger_ops rd px) s j spend = (Inl e, s') \<Longrightarrow>
      ledger_inv px s' \<and> ledger_spent px s' = ledger_spent px s"
    using inv valid'
    by (auto simp: RedisBudgetLedger_ops_def RedisBudgetLedger_record_agent_call_def validated_usage_def ledger_spent_def
        Let_def split: option.splits if_splits)
qed

end

interpretation redis_budget: budget_port "RedisBudgetLedger_ops RedisServer_commands px"
  "redis.ledger_inv px" "redis.ledger_spent px" for px
  by (rule redis.ledger_budget_port)

section \<open>The breaker keeps its contract\<close>

lemma circuit_key_inject [simp]: "RedisCircuitBreaker_key c a = RedisCircuitBreaker_key c b \<longleftrightarrow> a = b"
  by (simp add: RedisCircuitBreaker_key_def)

lemma circuit_key_servers [simp]: "RedisCircuitBreaker_key c a \<noteq> RedisCircuitBreaker_servers c"
  by (simp add: RedisCircuitBreaker_key_def RedisCircuitBreaker_servers_def)

text \<open>A stored circuit: its state, its failures and when it opened.\<close>

definition stored_state :: "(string \<Rightarrow> redis_value option) \<Rightarrow> string" where
  "stored_state h = (case h ''state'' of Some (RText s) \<Rightarrow> s | _ \<Rightarrow> ''closed'')"

definition stored_int :: "(string \<Rightarrow> redis_value option) \<Rightarrow> string \<Rightarrow> int" where
  "stored_int h f = (case h f of Some (RInt n) \<Rightarrow> n | _ \<Rightarrow> 0)"

definition stored_ok :: "int \<Rightarrow> (string \<Rightarrow> redis_value option) \<Rightarrow> bool" where
  "stored_ok thr h \<longleftrightarrow> stored_state h \<in> {''closed'', ''open'', ''half_open''} \<and> int_typed (h ''failures'') \<and>
     (stored_state h = ''open'' \<longrightarrow> thr \<le> stored_int h ''failures'')"

definition stored_view :: "timedelta \<Rightarrow> datetime \<Rightarrow> (string \<Rightarrow> redis_value option) \<Rightarrow> circuit_view" where
  "stored_view cooldown now h =
     (if stored_state h = ''open'' then settle cooldown now (Rested (stored_int h ''opened_at''))
      else if stored_state h = ''half_open'' then Probing else Counting (stored_int h ''failures''))"

definition stored_refresh :: "timedelta \<Rightarrow> datetime \<Rightarrow> (string \<Rightarrow> redis_value option) \<Rightarrow> string \<Rightarrow> redis_value option" where
  "stored_refresh cooldown now h =
     (if stored_state h = ''open'' \<and> now - stored_int h ''opened_at'' \<ge> cooldown
      then h(''state'' \<mapsto> RText ''half_open'') else h)"

definition stored_count :: "int \<Rightarrow> datetime \<Rightarrow> (string \<Rightarrow> redis_value option) \<Rightarrow> string \<Rightarrow> redis_value option" where
  "stored_count thr now h =
     (let n = stored_int h ''failures'' + 1 in
      if stored_state h = ''half_open''
      then h(''state'' \<mapsto> RText ''open'', ''failures'' \<mapsto> RInt thr, ''opened_at'' \<mapsto> RInt now)
      else if n \<ge> thr then h(''failures'' \<mapsto> RInt n, ''state'' \<mapsto> RText ''open'', ''opened_at'' \<mapsto> RInt now)
      else h(''failures'' \<mapsto> RInt n))"

definition stored_failure :: "int \<Rightarrow> timedelta \<Rightarrow> datetime \<Rightarrow> (string \<Rightarrow> redis_value option) \<Rightarrow> string \<Rightarrow> redis_value option" where
  "stored_failure thr cooldown now h = stored_count thr now (stored_refresh cooldown now h)"

lemma stored_state_upd [simp]:
  "stored_state (h(f \<mapsto> v)) = (if f = ''state'' then (case v of RText s \<Rightarrow> s | _ \<Rightarrow> ''closed'') else stored_state h)"
  by (simp add: stored_state_def)

lemma stored_int_upd [simp]:
  "stored_int (h(f \<mapsto> v)) g = (if g = f then (case v of RInt n \<Rightarrow> n | _ \<Rightarrow> 0) else stored_int h g)"
  by (simp add: stored_int_def)

lemma int_typed_simps [simp]: "int_typed (Some (RInt n))" "int_typed None"
  by (simp_all add: int_typed_def)

text \<open>How a stored circuit shows what its view says.\<close>

definition shows_view :: "int \<Rightarrow> (string \<Rightarrow> redis_value option) \<Rightarrow> circuit_view \<Rightarrow> bool" where
  "shows_view thr h v \<longleftrightarrow> (case v of
       Counting n \<Rightarrow> stored_state h = ''closed'' \<and> stored_int h ''failures'' = n
     | Probing \<Rightarrow> stored_state h = ''half_open''
     | Rested t \<Rightarrow> stored_state h = ''open'' \<and> stored_int h ''opened_at'' = t \<and> thr \<le> stored_int h ''failures'')"

lemma stored_view_refresh:
  assumes "stored_ok thr h"
  shows "stored_ok thr (stored_refresh cooldown now h)"
    "stored_view cooldown now (stored_refresh cooldown now h) = stored_view cooldown now h"
    "shows_view thr (stored_refresh cooldown now h) (stored_view cooldown now h)"
    "stored_int (stored_refresh cooldown now h) ''opened_at'' = stored_int h ''opened_at''"
  using assms by (auto simp: stored_ok_def stored_view_def stored_refresh_def settle_def shows_view_def)

lemma stored_count_view:
  assumes "shows_view thr h v" and "int_typed (h ''failures'')" and "0 < cooldown"
  shows "stored_ok thr (stored_count thr now h)" "stored_view cooldown now (stored_count thr now h) = count_failure thr now v"
  using assms by (auto simp: stored_count_def stored_ok_def stored_view_def shows_view_def count_failure_def Let_def
      split: circuit_view.splits)

lemma stored_view_failure:
  assumes "stored_ok thr h" and "0 < cooldown"
  shows "stored_ok thr (stored_failure thr cooldown now h)"
    "stored_view cooldown now (stored_failure thr cooldown now h) = count_failure thr now (stored_view cooldown now h)"
proof -
  have "int_typed (stored_refresh cooldown now h ''failures'')"
    using stored_view_refresh(1) [OF assms(1)] by (simp add: stored_ok_def)
  from stored_count_view [OF stored_view_refresh(3) [OF assms(1)] this assms(2), of now]
  show "stored_ok thr (stored_failure thr cooldown now h)"
    "stored_view cooldown now (stored_failure thr cooldown now h) = count_failure thr now (stored_view cooldown now h)"
    by (simp_all add: stored_failure_def)
qed

context redis_server
begin

definition circuit_inv :: "RedisCircuitBreaker \<Rightarrow> 'k \<Rightarrow> bool" where
  "circuit_inv c k \<longleftrightarrow> (\<forall>s. stored_ok (rc_threshold c) (rd_hget rd k (RedisCircuitBreaker_key c s)))"

definition reachable :: "'k \<Rightarrow> bool" where
  "reachable k \<longleftrightarrow> rd_error rd k = None"

definition circuit_view_of :: "RedisCircuitBreaker \<Rightarrow> 'k \<Rightarrow> datetime \<Rightarrow> string \<Rightarrow> circuit_view" where
  "circuit_view_of c k now s = stored_view (rc_cooldown c) now (rd_hget rd k (RedisCircuitBreaker_key c s))"

lemma REFRESH_spec:
  obtains k' where "REFRESH rd k key now cooldown = (stored_state (stored_refresh cooldown now (rd_hget rd k key)),
      stored_int (rd_hget rd k key) ''opened_at'', k')"
    "rd_hget rd k' = (rd_hget rd k)(key := stored_refresh cooldown now (rd_hget rd k key))" "rd_error rd k' = rd_error rd k"
proof -
  have read: "(case rd_hget rd k key ''state'' of Some (RText s) \<Rightarrow> s | _ \<Rightarrow> ''closed'') = stored_state (rd_hget rd k key)"
    "int_field rd k key ''opened_at'' = stored_int (rd_hget rd k key) ''opened_at''"
    by (simp_all add: stored_state_def stored_int_def int_field_def)
  show ?thesis
  proof (cases "stored_state (rd_hget rd k key) = ''open'' \<and> now - stored_int (rd_hget rd k key) ''opened_at'' \<ge> cooldown")
    case True
    then show ?thesis
      by (intro that [of "rd_hset rd k key ''state'' (RText ''half_open'')"])
        (simp_all add: REFRESH_def stored_refresh_def hset_hget hset_error read Let_def)
  next
    case False
    then show ?thesis by (intro that [of k]) (auto simp: REFRESH_def stored_refresh_def read Let_def)
  qed
qed

lemma CIRCUIT_FAILURE_spec:
  assumes "int_typed (rd_hget rd k key ''failures'')" and "key \<noteq> servers"
  shows "rd_hget rd (CIRCUIT_FAILURE rd k key servers (Some now) cooldown thr server) key' =
      (if key' = key then stored_failure thr cooldown now (rd_hget rd k key)
       else if key' = servers then rd_hget rd (CIRCUIT_FAILURE rd k key servers (Some now) cooldown thr server) key'
       else rd_hget rd k key')"
    "rd_error rd (CIRCUIT_FAILURE rd k key servers (Some now) cooldown thr server) = rd_error rd k"
proof -
  let ?h1 = "stored_refresh cooldown now (rd_hget rd k key)"
  obtain k1 where k1: "REFRESH rd k key now cooldown = (stored_state ?h1, stored_int (rd_hget rd k key) ''opened_at'', k1)"
    "rd_hget rd k1 = (rd_hget rd k)(key := ?h1)" "rd_error rd k1 = rd_error rd k"
    by (rule REFRESH_spec)
  have typed: "int_typed (rd_hget rd k1 key ''failures'')"
    using assms(1) by (simp add: k1(2) stored_refresh_def)
  have count: "int_field rd k1 key ''failures'' = stored_int ?h1 ''failures''"
    by (simp add: int_field_def stored_int_def k1(2))
  obtain k2 where k2: "rd_hincrby rd k1 key ''failures'' 1 = (stored_int ?h1 ''failures'' + 1, k2)"
    "rd_hget rd k2 = (rd_hget rd k1)(key := ?h1(''failures'' \<mapsto> RInt (stored_int ?h1 ''failures'' + 1)))" "rd_error rd k2 = rd_error rd k1"
    using hincrby_pair [OF typed, of 1] unfolding count by (auto simp: k1(2))
  show "rd_hget rd (CIRCUIT_FAILURE rd k key servers (Some now) cooldown thr server) key' =
      (if key' = key then stored_failure thr cooldown now (rd_hget rd k key)
       else if key' = servers then rd_hget rd (CIRCUIT_FAILURE rd k key servers (Some now) cooldown thr server) key'
       else rd_hget rd k key')"
    using assms(2) by (auto simp: CIRCUIT_FAILURE_def NOW_def k1 k2 stored_failure_def stored_count_def Let_def expire_keeps sadd_keeps hset_hget)
  show "rd_error rd (CIRCUIT_FAILURE rd k key servers (Some now) cooldown thr server) = rd_error rd k"
    by (simp add: CIRCUIT_FAILURE_def NOW_def k1 k2 Let_def expire_keeps sadd_error hset_error)
qed

lemma redis_circuit_port:
  assumes own: "rc_own_clock c" and cd: "0 < rc_cooldown c"
  shows "circuit_port (RedisCircuitBreaker_ops rd c) (rc_threshold c) (rc_cooldown c) (circuit_inv c) reachable (circuit_view_of c)"
proof
  fix k s now later
  show "0 < rc_cooldown c" by (rule cd)
  show "circuit_view_of c k later s = settle (rc_cooldown c) later (circuit_view_of c k now s)" if "now \<le> later"
    using that by (auto simp: circuit_view_of_def stored_view_def settle_def)
  show "\<exists>e. br_ensure_closed (RedisCircuitBreaker_ops rd c) k s now = (Inl e, k)" if "\<not> reachable k"
    using that by (auto simp: RedisCircuitBreaker_ops_def RedisCircuitBreaker_ensure_closed_def RedisCircuitBreaker_read_def reachable_def)
  assume inv: "circuit_inv c k" and up: "reachable k"
  let ?key = "RedisCircuitBreaker_key c s"
  let ?h = "rd_hget rd k ?key"
  have ok: "stored_ok (rc_threshold c) ?h" using inv by (simp add: circuit_inv_def)
  show "\<exists>k'. br_ensure_closed (RedisCircuitBreaker_ops rd c) k s now =
        (admission (rc_cooldown c) s (circuit_view_of c k now s), k') \<and>
      circuit_inv c k' \<and> reachable k' \<and> circuit_view_of c k' now = circuit_view_of c k now"
  proof -
    obtain k' where k': "REFRESH rd k ?key now (rc_cooldown c) =
        (stored_state (stored_refresh (rc_cooldown c) now ?h), stored_int ?h ''opened_at'', k')"
      "rd_hget rd k' = (rd_hget rd k)(?key := stored_refresh (rc_cooldown c) now ?h)" "rd_error rd k' = rd_error rd k"
      by (rule REFRESH_spec)
    have "br_ensure_closed (RedisCircuitBreaker_ops rd c) k s now = (admission (rc_cooldown c) s (circuit_view_of c k now s), k')"
      using up own stored_view_refresh(3,4) [OF ok, of "rc_cooldown c" now]
      by (auto simp: RedisCircuitBreaker_ops_def RedisCircuitBreaker_ensure_closed_def RedisCircuitBreaker_read_def
          RedisCircuitBreaker_now_def NOW_def reachable_def k' circuit_view_of_def admission_def CircuitState_of_def
          shows_view_def split: circuit_view.splits)
    moreover have "circuit_inv c k'" using inv stored_view_refresh(1) [OF ok] by (auto simp: circuit_inv_def k'(2))
    moreover have "circuit_view_of c k' now = circuit_view_of c k now"
      using stored_view_refresh(2) [OF ok] by (auto simp: circuit_view_of_def k'(2) fun_eq_iff)
    ultimately show ?thesis using up k'(3) by (auto simp: reachable_def)
  qed
  have keep: "circuit_inv c k' \<and> (\<forall>now. circuit_view_of c k' now = (circuit_view_of c k now)(s := stored_view (rc_cooldown c) now h))"
    if "\<And>s'. rd_hget rd k' (RedisCircuitBreaker_key c s') = (if s' = s then h else rd_hget rd k (RedisCircuitBreaker_key c s'))"
      and "stored_ok (rc_threshold c) h" for k' h
    using that inv by (auto simp: circuit_inv_def circuit_view_of_def intro!: ext)
  show "circuit_inv c (br_record_success (RedisCircuitBreaker_ops rd c) k s) \<and>
      reachable (br_record_success (RedisCircuitBreaker_ops rd c) k s) \<and>
      circuit_view_of c (br_record_success (RedisCircuitBreaker_ops rd c) k s) now = (circuit_view_of c k now)(s := Counting 0)"
  proof -
    let ?k' = "rd_sadd rd (rd_del rd k ?key) (RedisCircuitBreaker_servers c) s"
    have "br_record_success (RedisCircuitBreaker_ops rd c) k s = ?k'"
      using up by (simp add: RedisCircuitBreaker_ops_def RedisCircuitBreaker_record_success_def reachable_def)
    moreover have "reachable ?k'" using up by (simp add: reachable_def sadd_error del_hget)
    moreover have "circuit_inv c ?k' \<and> (\<forall>now. circuit_view_of c ?k' now =
        (circuit_view_of c k now)(s := stored_view (rc_cooldown c) now (\<lambda>_. None)))"
      by (rule keep) (simp_all add: sadd_keeps del_hget stored_ok_def stored_state_def int_typed_def)
    ultimately show ?thesis by (simp add: stored_view_def stored_state_def stored_int_def)
  qed
  show "\<exists>k'. br_record_failure (RedisCircuitBreaker_ops rd c) k s now = (Inr (), k') \<and> circuit_inv c k' \<and> reachable k' \<and>
      circuit_view_of c k' now = (circuit_view_of c k now)(s := count_failure (rc_threshold c) now (circuit_view_of c k now s))"
  proof -
    let ?k' = "CIRCUIT_FAILURE rd k ?key (RedisCircuitBreaker_servers c) (Some now) (rc_cooldown c) (rc_threshold c) s"
    have typed: "int_typed (?h ''failures'')" using ok by (simp add: stored_ok_def)
    note failure = CIRCUIT_FAILURE_spec [OF typed circuit_key_servers, of now "rc_cooldown c" "rc_threshold c" s]
    have "br_record_failure (RedisCircuitBreaker_ops rd c) k s now = (Inr (), ?k')"
      using up own by (simp add: RedisCircuitBreaker_ops_def RedisCircuitBreaker_record_failure_def reachable_def RedisCircuitBreaker_now_def)
    moreover have "reachable ?k'" using up failure(2) by (simp add: reachable_def)
    moreover have "circuit_inv c ?k' \<and> (\<forall>now'. circuit_view_of c ?k' now' =
        (circuit_view_of c k now')(s := stored_view (rc_cooldown c) now' (stored_failure (rc_threshold c) (rc_cooldown c) now ?h)))"
      using stored_view_failure(1) [OF ok cd] by (intro keep) (simp_all add: failure(1))
    ultimately show ?thesis using stored_view_failure(2) [OF ok cd, of now] by (simp add: circuit_view_of_def)
  qed
qed

end

end
