(* ===== verification/SharedLimits.thy ===== *)
theory SharedLimits
  imports Gateway RedisState
begin

text \<open>
  The gateway over the shared stores: the budget ledger and the circuit breaker of
  \<open>persistence/redis_state.py\<close> stand where the in-memory ones stood, for any server that keeps the
  laws \<open>redis_server\<close>; and several workers' gateways over one store whose keys expire, for any server
  that keeps the laws \<open>redis_clocked\<close>.
\<close>

definition default_shared_breaker :: RedisCircuitBreaker where
  "default_shared_breaker = \<lparr>rc_threshold = 3, rc_cooldown = default_cooldown, rc_own_clock = True, rc_prefix = ''research''\<rparr>"

lemma default_shared_breaker_simps [simp]:
  "rc_threshold default_shared_breaker = 3" "rc_cooldown default_shared_breaker = default_cooldown"
  "rc_own_clock default_shared_breaker" "0 < default_cooldown"
  by (simp_all add: default_shared_breaker_def default_cooldown_def)

interpretation redis_circuit: circuit_port "RedisCircuitBreaker_ops RedisServer_commands default_shared_breaker" 3
  default_cooldown "redis.circuit_inv default_shared_breaker" redis.reachable "redis.circuit_view_of default_shared_breaker"
  using redis.redis_circuit_port [of default_shared_breaker] by simp

interpretation redis_gateway: gateway_ports "RedisBudgetLedger_ops RedisServer_commands ''research''"
  "redis.ledger_inv ''research''" "redis.ledger_spent ''research''"
  "RedisCircuitBreaker_ops RedisServer_commands default_shared_breaker" 3 default_cooldown
  "redis.circuit_inv default_shared_breaker" redis.reachable "redis.circuit_view_of default_shared_breaker"
  by unfold_locales

text \<open>
  While no key expires, the reservations of any number of workers grant a job that has spent none at most
  its allowance, in whatever order they arrive, and the stored count is exactly the calls granted.
\<close>

lemma shared_grants_within_allowance:
  assumes laws: "redis_server rd" and inv: "redis_server.ledger_inv rd px k"
    and run: "reserve_calls (RedisBudgetLedger_ops rd px) k reqs = (results, k')"
    and fresh: "int_field rd k (RedisBudgetLedger_key px j) ''tool_calls'' = 0"
    and allowance: "\<forall>(i, budget) \<in> set reqs. i = j \<longrightarrow> max_tool_calls budget \<le> m" and "0 \<le> m"
  shows "int (granted_to j results) \<le> m \<and>
    int_field rd k' (RedisBudgetLedger_key px j) ''tool_calls'' = int (granted_to j results)"
proof -
  note port = redis_server.ledger_budget_port [OF laws, of px]
  have spent: "tool_calls (redis_server.ledger_spent rd px k j) = int_field rd k (RedisBudgetLedger_key px j) ''tool_calls''" for k
    by (simp add: redis_server.ledger_spent_def [OF laws] usage_from_def)
  have "tool_calls (redis_server.ledger_spent rd px k' j) \<le> m"
    using budget_port.reserve_calls_bounded [OF port inv run _ allowance] fresh spent \<open>0 \<le> m\<close> by simp
  then show ?thesis
    using budget_port.reserve_calls_counts [OF port inv run, of j] fresh by (simp add: spent)
qed

section \<open>Workers that share a store\<close>

text \<open>
  A platform of several workers: each has a gateway of its own, with its registry, policy, breaker and
  trail, and all count in one store. A step happens at a time: a worker serves one call of its gateway,
  or a worker records what an agent spent. A step of a worker that does not exist does nothing.
\<close>

record ('k, 'c) fleet =
  fl_store :: 'k
  fl_workers :: "('k, 'c) CapabilityGateway list"

datatype fleet_step =
    Serve (step_time: int) nat gateway_env invocation_call
  | Spend (step_time: int) uuid agent_spend

fun fleet_next ::
  "'k Redis \<Rightarrow> (int \<Rightarrow> 'k \<Rightarrow> 'k) \<Rightarrow> string \<Rightarrow> 'c Breaker \<Rightarrow> ('k, 'c) fleet \<Rightarrow> fleet_step \<Rightarrow> ('k, 'c) fleet" where
  "fleet_next rd elapse px cops f (Serve now w env q) =
     (if w < length (fl_workers f)
      then let g' = snd (CapabilityGateway_invoke (RedisBudgetLedger_ops rd px) cops env
                           ((fl_workers f ! w)\<lparr>gw_budgets := elapse now (fl_store f)\<rparr>) q)
           in f\<lparr>fl_store := gw_budgets g', fl_workers := (fl_workers f)[w := g']\<rparr>
      else f)"
| "fleet_next rd elapse px cops f (Spend now i spend) =
     f\<lparr>fl_store := snd (RedisBudgetLedger_record_agent_call rd px (elapse now (fl_store f)) i spend)\<rparr>"

definition fleet_run ::
  "'k Redis \<Rightarrow> (int \<Rightarrow> 'k \<Rightarrow> 'k) \<Rightarrow> string \<Rightarrow> 'c Breaker \<Rightarrow> ('k, 'c) fleet \<Rightarrow> fleet_step list \<Rightarrow> ('k, 'c) fleet" where
  "fleet_run rd elapse px cops f steps = fold (\<lambda>s f. fleet_next rd elapse px cops f s) steps f"

text \<open>What the fleet has sent for a job, and the steps that serve it.\<close>

definition fleet_sent :: "uuid \<Rightarrow> ('k, 'c) fleet \<Rightarrow> int" where
  "fleet_sent j f = (\<Sum>g\<leftarrow>fl_workers f. int (sent_for j g))"

definition serves :: "uuid \<Rightarrow> fleet_step \<Rightarrow> bool" where
  "serves j s \<longleftrightarrow> (case s of Serve _ _ _ q \<Rightarrow> ca_job_id q = j | Spend _ _ _ \<Rightarrow> False)"

lemma serves_simps [simp]: "serves j (Serve t w env q) \<longleftrightarrow> ca_job_id q = j" "\<not> serves j (Spend t i spend)"
  by (simp_all add: serves_def)

lemma sum_list_update_add: "w < length xs \<Longrightarrow> sum_list (xs[w := xs ! w + n]) = sum_list xs + (n :: int)"
  by (induction xs arbitrary: w) (auto split: nat.splits)

lemma fleet_sent_update:
  assumes "w < length (fl_workers f)" and "sent_for j g = sent_for j (fl_workers f ! w) + n"
  shows "fleet_sent j (f\<lparr>fl_store := k, fl_workers := (fl_workers f)[w := g]\<rparr>) = fleet_sent j f + int n"
  using assms sum_list_update_add [of w "map (\<lambda>g. int (sent_for j g)) (fl_workers f)" "int n"]
  by (simp add: fleet_sent_def map_update)

text \<open>One call of a gateway, as far as the store and the count of requests see it.\<close>

lemma invoke_store:
  assumes "CapabilityGateway_invoke bops cops env g q = (r, g')"
  shows "gw_budgets g' = gw_budgets g \<and> sent_for j g' = sent_for j g \<or>
    gw_budgets g' = snd (bg_reserve_call bops (gw_budgets g) (ca_job_id q) (ca_budget q)) \<and>
    (sent_for j g' = sent_for j g \<or>
     ca_job_id q = j \<and> is_ok (fst (bg_reserve_call bops (gw_budgets g) (ca_job_id q) (ca_budget q))) \<and> sent_for j g' = Suc (sent_for j g))"
proof -
  have "mediation_spec bops cops env g q g' r" using invoke_spec [OF assms] by blast
  then show ?thesis unfolding mediation_spec_def metering_spec_def
    using sent_for_step(1) [of g' g j] sent_for_step(2) [of g' g q _ j] by (auto split: if_splits)
qed

context redis_clocked
begin

lemma ledger_inv_elapse:
  assumes "ledger_inv px k"
  shows "ledger_inv px (elapse t k)"
proof -
  have "(let h = rd_hget rd (elapse t k) key in
     (\<forall>f \<in> {''tool_calls'', ''agent_calls'', ''schema_corrections'', ''prompt_tokens'', ''completion_tokens''}. int_typed (h f)) \<and>
     float_typed (h ''cost_usd'') \<and> float_typed (h ''active_seconds'') \<and> JobUsage_valid (usage_from rd (elapse t k) key))"
    if "key = RedisBudgetLedger_key px j" for key j
  proof (cases "rd_hget rd (elapse t k) key = rd_hget rd k key")
    case True
    with assms that usage_from_cong [OF True] show ?thesis by (auto simp: ledger_inv_def Let_def)
  next
    case False
    then have "rd_hget rd (elapse t k) key = (\<lambda>_. None)" using elapse_hget_cases by blast
    then show ?thesis by (simp add: int_typed_def float_typed_def usage_from_def int_field_def float_field_def JobUsage_valid_def)
  qed
  then show ?thesis unfolding ledger_inv_def by blast
qed

text \<open>A reservation that is granted, and only that, counts one call and renews the key's deadline.\<close>

lemma reserve_clocked:
  assumes inv: "ledger_inv px k" and run: "bg_reserve_call (RedisBudgetLedger_ops rd px) k i budget = (res, k')"
  shows "ledger_inv px k' \<and> (k' = k \<and> \<not> is_ok res \<or>
    is_ok res \<and> tool_calls (ledger_spent px k i) < max_tool_calls budget \<and>
    ledger_spent px k' = (ledger_spent px k)(i := (ledger_spent px k i)\<lparr>tool_calls := tool_calls (ledger_spent px k i) + 1\<rparr>) \<and>
    deadline k' = (deadline k)(RedisBudgetLedger_key px i \<mapsto> rd_time rd k + 1000000 * USAGE_TTL))"
proof -
  let ?key = "RedisBudgetLedger_key px i"
  note port = ledger_budget_port [of px]
  have typed: "int_typed (rd_hget rd k ?key ''tool_calls'')" and "0 \<le> tool_calls (usage_from rd k ?key)"
    using inv by (auto simp: ledger_inv_def Let_def JobUsage_valid_def)
  then have count: "0 \<le> int_field rd k ?key ''tool_calls''" by (simp add: usage_from_def)
  show ?thesis
  proof (cases "rd_error rd k = None \<and> int_field rd k ?key ''tool_calls'' < max_tool_calls budget")
    case True
    obtain k1 where k1: "rd_hincrby rd k ?key ''tool_calls'' 1 = (int_field rd k ?key ''tool_calls'' + 1, k1)"
      "rd_hget rd k1 ?key ''tool_calls'' \<noteq> None"
      by (rule hincrby_pair [OF typed, of 1]) simp
    have "deadline k1 = deadline k" "rd_time rd k1 = rd_time rd k" using hincrby_deadline [of k ?key "''tool_calls''" 1] k1(1) by auto
    then have "deadline (rd_expire rd k1 ?key USAGE_TTL) = (deadline k)(?key \<mapsto> rd_time rd k + 1000000 * USAGE_TTL)"
      using expire_deadline [OF _ k1(2), of USAGE_TTL] by (simp add: USAGE_TTL_def)
    moreover have result: "res = Inr (int_field rd k ?key ''tool_calls'' + 1)" "k' = rd_expire rd k1 ?key USAGE_TTL"
      using run True k1(1) count by (auto simp: RedisBudgetLedger_ops_def RedisBudgetLedger_reserve_call_def RESERVE_CALL_def)
    ultimately show ?thesis using budget_port.reserve_granted [OF port inv, of i budget _ k'] run by auto
  next
    case False
    then have "k' = k" "\<not> is_ok res" using run
      by (auto simp: RedisBudgetLedger_ops_def RedisBudgetLedger_reserve_call_def RESERVE_CALL_def split: option.splits)
    with inv show ?thesis by simp
  qed
qed

text \<open>Recording what an agent spent counts no call, and renews the key's deadline or changes nothing.\<close>

lemma record_clocked:
  assumes inv: "ledger_inv px k" and run: "RedisBudgetLedger_record_agent_call rd px k i spend = (res, k')"
  shows "ledger_inv px k' \<and> (\<forall>j. tool_calls (ledger_spent px k' j) = tool_calls (ledger_spent px k j)) \<and>
    (deadline k' = deadline k \<or> deadline k' = (deadline k)(RedisBudgetLedger_key px i \<mapsto> rd_time rd k + 1000000 * USAGE_TTL))"
proof -
  let ?key = "RedisBudgetLedger_key px i"
  let ?k' = "RECORD_AGENT_CALL rd k ?key (sp_corrections spend) (sp_prompt_tokens spend) (sp_completion_tokens spend)
      (sp_cost_usd spend) (sp_active_seconds spend) USAGE_TTL"
  have run': "bg_record_agent_call (RedisBudgetLedger_ops rd px) k i spend = (res, k')" using run by (simp add: RedisBudgetLedger_ops_def)
  have typed: "\<And>f. f \<in> {''agent_calls'', ''schema_corrections'', ''prompt_tokens'', ''completion_tokens''} \<Longrightarrow>
      int_typed (rd_hget rd k ?key f)" "float_typed (rd_hget rd k ?key ''cost_usd'')" "float_typed (rd_hget rd k ?key ''active_seconds'')"
    using inv by (auto simp: ledger_inv_def Let_def)
  have last: "deadline (rd_expire rd k0 ?key USAGE_TTL) = (deadline k)(?key \<mapsto> rd_time rd k + 1000000 * USAGE_TTL)"
    if "rd_hget rd (rd_expire rd k0 ?key USAGE_TTL) ?key ''active_seconds'' \<noteq> None" "deadline k0 = deadline k" "rd_time rd k0 = rd_time rd k" for k0
    using that expire_deadline [of USAGE_TTL k0 ?key "''active_seconds''"] expire_keeps(1) [of USAGE_TTL k0 ?key] by (simp add: USAGE_TTL_def)
  have "rd_hget rd ?k' ?key ''active_seconds'' \<noteq> None" by (subst RECORD_AGENT_CALL_adds) (use typed in auto)
  then have "deadline ?k' = (deadline k)(?key \<mapsto> rd_time rd k + 1000000 * USAGE_TTL)"
    unfolding RECORD_AGENT_CALL_def Let_def by (rule last) (simp_all add: hincrby_deadline hincrbyfloat_deadline)
  moreover have "k' = k \<or> k' = ?k'"
    using run by (auto simp: RedisBudgetLedger_record_agent_call_def Let_def split: if_splits option.splits)
  moreover have "ledger_inv px k' \<and> (\<forall>j. tool_calls (ledger_spent px k' j) = tool_calls (ledger_spent px k j))"
    using run' by (cases res)
      (auto dest!: budget_port.record_adds [OF ledger_budget_port inv] budget_port.record_refused [OF ledger_budget_port inv] simp: add_spend_def)
  ultimately show ?thesis by auto
qed

text \<open>
  The state of a fleet while a job is still to be served: what was sent for it is in the store's count,
  the count is within the allowance, and the key outlives every step that serves the job.
\<close>

definition counted :: "string \<Rightarrow> uuid \<Rightarrow> int \<Rightarrow> fleet_step list \<Rightarrow> ('k, 'c) fleet \<Rightarrow> bool" where
  "counted px j m steps f \<longleftrightarrow> ledger_inv px (fl_store f) \<and>
     fleet_sent j f \<le> tool_calls (ledger_spent px (fl_store f) j) \<and> tool_calls (ledger_spent px (fl_store f) j) \<le> m \<and>
     (tool_calls (ledger_spent px (fl_store f) j) = 0 \<or>
      (\<exists>t. (\<forall>s \<in> set steps. t \<le> step_time s \<and> (serves j s \<longrightarrow> step_time s < t + 1000000 * USAGE_TTL)) \<and>
        (\<forall>d. deadline (fl_store f) (RedisBudgetLedger_key px j) = Some d \<longrightarrow> t + 1000000 * USAGE_TTL \<le> d)))"

lemma counted_tl: "counted px j m (s # steps) f \<Longrightarrow> counted px j m steps f"
  unfolding counted_def by (elim conjE disjE exE) (auto intro: exI)

lemma counted_elapse:
  assumes "counted px j m (s # steps) f" and "\<exists>s' \<in> set (s # steps). serves j s'" and "sorted (map step_time (s # steps))"
  shows "counted px j m (s # steps) (f\<lparr>fl_store := elapse (step_time s) (fl_store f)\<rparr>)"
proof -
  let ?key = "RedisBudgetLedger_key px j" and ?K = "elapse (step_time s) (fl_store f)"
  have inv: "ledger_inv px ?K" using assms(1) ledger_inv_elapse by (simp add: counted_def)
  have sent: "fleet_sent j (f\<lparr>fl_store := ?K\<rparr>) = fleet_sent j f" by (simp add: fleet_sent_def)
  show ?thesis
  proof (cases "tool_calls (ledger_spent px (fl_store f) j) = 0")
    case True
    have "tool_calls (ledger_spent px ?K j) = 0"
      using True elapse_hget_cases [of "step_time s" "fl_store f" ?key] by (auto simp: ledger_spent_def usage_from_def int_field_def)
    with assms(1) True inv sent show ?thesis by (simp add: counted_def)
  next
    case False
    then obtain t where t: "\<forall>s' \<in> set (s # steps). t \<le> step_time s' \<and> (serves j s' \<longrightarrow> step_time s' < t + 1000000 * USAGE_TTL)"
      "\<forall>d. deadline (fl_store f) ?key = Some d \<longrightarrow> t + 1000000 * USAGE_TTL \<le> d"
      using assms(1) by (auto simp: counted_def)
    obtain s' where "s' \<in> set (s # steps)" "serves j s'" using assms(2) by blast
    then have "step_time s < t + 1000000 * USAGE_TTL" using t(1) assms(3) by fastforce
    then have "\<forall>d. deadline (fl_store f) ?key = Some d \<longrightarrow> \<not> d \<le> step_time s" using t(2) by force
    then have hget: "rd_hget rd ?K ?key = rd_hget rd (fl_store f) ?key" and deadline: "deadline ?K ?key = deadline (fl_store f) ?key"
      by (auto simp: elapse_hget elapse_deadline split: option.split)
    have "ledger_spent px ?K j = ledger_spent px (fl_store f) j" using usage_from_cong [OF hget] by (simp add: ledger_spent_def)
    with assms(1) inv sent deadline show ?thesis by (simp add: counted_def)
  qed
qed

lemma counted_next:
  assumes start: "counted px j m (s # steps) f" and due: "\<exists>s' \<in> set (s # steps). serves j s'" and order: "sorted (map step_time (s # steps))"
    and window: "\<forall>s' \<in> set (s # steps). serves j s \<longrightarrow> serves j s' \<longrightarrow> step_time s' < step_time s + 1000000 * USAGE_TTL"
    and allowance: "\<And>t w env q. s = Serve t w env q \<Longrightarrow> ca_job_id q = j \<Longrightarrow> max_tool_calls (ca_budget q) \<le> m"
  shows "counted px j m steps (fleet_next rd elapse px cops f s)"
proof -
  let ?key = "RedisBudgetLedger_key px j"
  define K where "K = elapse (step_time s) (fl_store f)"
  have time: "rd_time rd K = step_time s" by (simp add: K_def elapse_time)
  have now: "counted px j m (s # steps) (f\<lparr>fl_store := K\<rparr>)" using counted_elapse [OF start due order] by (simp add: K_def)
  then have inv: "ledger_inv px K" by (simp add: counted_def)
  have kept: "counted px j m steps (f\<lparr>fl_store := K\<rparr>)" by (rule counted_tl [OF now])
  show ?thesis
  proof (cases s)
    case (Spend t i spend)
    obtain res k' where run: "RedisBudgetLedger_record_agent_call rd px K i spend = (res, k')" by fastforce
    note r = record_clocked [OF inv run]
    have "fleet_next rd elapse px cops f s = f\<lparr>fl_store := k'\<rparr>" using Spend run by (simp add: K_def)
    moreover have "fleet_sent j (f\<lparr>fl_store := k'\<rparr>) = fleet_sent j (f\<lparr>fl_store := K\<rparr>)" by (simp add: fleet_sent_def)
    moreover have "deadline k' ?key = deadline K ?key \<or> deadline k' ?key = Some (step_time s + 1000000 * USAGE_TTL)"
      using r time by auto
    ultimately show ?thesis using now r by (auto simp: counted_def)
  next
    case (Serve t w env q)
    show ?thesis
    proof (cases "w < length (fl_workers f)")
      case False
      with Serve counted_tl [OF start] show ?thesis by simp
    next
      case True
      let ?g = "(fl_workers f ! w)\<lparr>gw_budgets := K\<rparr>"
      obtain r g' where run: "CapabilityGateway_invoke (RedisBudgetLedger_ops rd px) cops env ?g q = (r, g')" by fastforce
      obtain res k' where reserve: "bg_reserve_call (RedisBudgetLedger_ops rd px) K (ca_job_id q) (ca_budget q) = (res, k')" by fastforce
      have f': "fleet_next rd elapse px cops f s = f\<lparr>fl_store := gw_budgets g', fl_workers := (fl_workers f)[w := g']\<rparr>"
        using Serve True run by (simp add: K_def)
      have g: "sent_for j ?g = sent_for j (fl_workers f ! w)" by (simp add: sent_for_def)
      have sent: "fleet_sent j (fleet_next rd elapse px cops f s) = fleet_sent j (f\<lparr>fl_store := K\<rparr>) + int n"
        if "sent_for j g' = sent_for j ?g + n" for n
        using fleet_sent_update [OF True, of j g' n "gw_budgets g'"] that g f' by (simp add: fleet_sent_def)
      note c = reserve_clocked [OF inv reserve]
      from invoke_store [OF run, of j] reserve c consider
          (same) "gw_budgets g' = K" "sent_for j g' = sent_for j ?g + 0"
        | (granted) n where "gw_budgets g' = k'" "is_ok res" "sent_for j g' = sent_for j ?g + n" "n \<le> (if ca_job_id q = j then 1 else 0)"
        by (auto split: if_splits)
      then show ?thesis
      proof cases
        case same
        with kept sent [OF same(2)] f' show ?thesis by (simp add: counted_def)
      next
        case granted
        with c have k': "ledger_inv px k'" "tool_calls (ledger_spent px K (ca_job_id q)) < max_tool_calls (ca_budget q)"
          "ledger_spent px k' = (ledger_spent px K)(ca_job_id q := (ledger_spent px K (ca_job_id q))\<lparr>tool_calls := tool_calls (ledger_spent px K (ca_job_id q)) + 1\<rparr>)"
          "deadline k' = (deadline K)(RedisBudgetLedger_key px (ca_job_id q) \<mapsto> step_time s + 1000000 * USAGE_TTL)"
          using time by auto
        show ?thesis
        proof (cases "ca_job_id q = j")
          case False
          with kept k' sent [OF granted(3)] granted(1,4) f' show ?thesis by (simp add: counted_def)
        next
          case True
          have "\<forall>s' \<in> set steps. step_time s \<le> step_time s' \<and> (serves j s' \<longrightarrow> step_time s' < step_time s + 1000000 * USAGE_TTL)"
            using order window Serve True by auto
          moreover have "tool_calls (ledger_spent px k' j) \<le> m" using k'(2,3) allowance [OF Serve True] True by simp
          moreover have "fleet_sent j (fleet_next rd elapse px cops f s) \<le> tool_calls (ledger_spent px k' j)"
            using sent [OF granted(3)] granted(4) True kept k'(3) by (simp add: counted_def)
          ultimately show ?thesis using k'(1,4) True f' granted(1) by (auto simp: counted_def)
        qed
      qed
    qed
  qed
qed

lemma not_serving_sends_nothing:
  assumes "\<not> serves j s"
  shows "fleet_sent j (fleet_next rd elapse px cops f s) = fleet_sent j f"
proof (cases s)
  case (Spend t i spend)
  then show ?thesis by (simp add: fleet_sent_def)
next
  case (Serve t w env q)
  let ?g = "(fl_workers f ! w)\<lparr>gw_budgets := elapse t (fl_store f)\<rparr>"
  obtain r g' where run: "CapabilityGateway_invoke (RedisBudgetLedger_ops rd px) cops env ?g q = (r, g')" by fastforce
  have "sent_for j g' = sent_for j (fl_workers f ! w) + 0"
    using invoke_store [OF run, of j] assms Serve by (auto simp: sent_for_def)
  from fleet_sent_update [OF _ this] show ?thesis using Serve run by (auto simp: Let_def)
qed

lemma fleet_bounded:
  "sorted (map step_time steps) \<Longrightarrow>
   (\<forall>s \<in> set steps. \<forall>s' \<in> set steps. serves j s \<longrightarrow> serves j s' \<longrightarrow> step_time s' < step_time s + 1000000 * USAGE_TTL) \<Longrightarrow>
   (\<forall>t w env q. Serve t w env q \<in> set steps \<longrightarrow> ca_job_id q = j \<longrightarrow> max_tool_calls (ca_budget q) \<le> m) \<Longrightarrow>
   fleet_sent j f \<le> m \<Longrightarrow> ((\<exists>s \<in> set steps. serves j s) \<Longrightarrow> counted px j m steps f) \<Longrightarrow>
   fleet_sent j (fleet_run rd elapse px cops f steps) \<le> m"
proof (induction steps arbitrary: f)
  case (Cons s steps)
  let ?f' = "fleet_next rd elapse px cops f s"
  have "fleet_sent j ?f' \<le> m \<and> ((\<exists>s \<in> set steps. serves j s) \<longrightarrow> counted px j m steps ?f')"
  proof (cases "\<exists>s' \<in> set (s # steps). serves j s'")
    case True
    have "counted px j m steps ?f'"
      by (rule counted_next [OF Cons.prems(5) [OF True] True Cons.prems(1)]) (use Cons.prems(2,3) in auto)
    then show ?thesis by (auto simp: counted_def)
  next
    case False
    with Cons.prems(4) not_serving_sends_nothing [of j s px cops f] show ?thesis by auto
  qed
  moreover have "fleet_run rd elapse px cops f (s # steps) = fleet_run rd elapse px cops ?f' steps" by (simp add: fleet_run_def)
  ultimately show ?case using Cons.IH [of ?f'] Cons.prems(1-3) by auto
qed (simp add: fleet_run_def)

end

text \<open>
  C33. Workers that share one store share one budget. However the calls of any number of workers'
  gateways interleave with each other, with calls for other jobs and with the recording of what agents
  spend, and however time passes and keys expire in between, the requests sent for a job that has made
  no call yet are at most its tool-call allowance, as long as all calls made for the job fall within less
  than 30 days (which is what \<open>USAGE_TTL\<close> keeps a count for; a job whose calls are further apart may find
  its count expired and starts over).
\<close>

theorem shared_budget_never_exceeded:
  assumes laws: "redis_clocked rd elapse deadline" and inv: "redis_server.ledger_inv rd px (fl_store f)"
    and fresh: "int_field rd (fl_store f) (RedisBudgetLedger_key px j) ''tool_calls'' = 0" "\<forall>g \<in> set (fl_workers f). sent_for j g = 0"
    and order: "sorted (map step_time steps)"
    and window: "\<forall>a \<in> set steps. \<forall>b \<in> set steps. serves j a \<longrightarrow> serves j b \<longrightarrow> step_time b < step_time a + 30 * 24 * 60 * 60 * 1000000"
    and allowance: "\<forall>t w env q. Serve t w env q \<in> set steps \<longrightarrow> ca_job_id q = j \<longrightarrow> max_tool_calls (ca_budget q) \<le> m" and "0 \<le> m"
  shows "fleet_sent j (fleet_run rd elapse px cops f steps) \<le> m"
proof (rule redis_clocked.fleet_bounded [OF laws order _ allowance])
  have server: "redis_server rd" using laws by (rule redis_clocked.axioms(1))
  have zero: "map (\<lambda>g. int (sent_for j g)) (fl_workers f) = map (\<lambda>_. 0) (fl_workers f)" using fresh(2) by simp
  have none: "fleet_sent j f = 0" unfolding fleet_sent_def zero by (rule sum_list_0)
  with \<open>0 \<le> m\<close> show "fleet_sent j f \<le> m" by simp
  show "redis_clocked.counted rd deadline px j m steps f"
    using inv fresh(1) none \<open>0 \<le> m\<close> by (simp add: redis_clocked.counted_def [OF laws] redis_server.ledger_spent_def [OF server] usage_from_def)
  show "\<forall>s \<in> set steps. \<forall>s' \<in> set steps. serves j s \<longrightarrow> serves j s' \<longrightarrow> step_time s' < step_time s + 1000000 * USAGE_TTL"
    using window by (simp add: USAGE_TTL_def)
qed

lemma empty_redis_ledger: "redis.ledger_inv px empty_redis"
  unfolding redis.ledger_inv_def
  by (simp add: empty_redis_def RedisServer_commands_def usage_from_def int_field_def float_field_def
      JobUsage_valid_def float_typed_def)

definition shared_gateway :: "RedisServer \<Rightarrow> (RedisServer, CircuitBreaker) CapabilityGateway" where
  "shared_gateway k = \<lparr>gw_registry = [((''postgres'', ''run_analytical_query''), sample_capability)],
     gw_policy = RegistryPolicyEngine LOCAL_POLICY_VERSION, gw_budgets = k, gw_breaker = sample_breaker,
     gw_audit = True, gw_trail = [], gw_sent = [], gw_mcp_calls = 0, gw_permission_denials = 0,
     gw_injection_flags = 0\<rparr>"

text \<open>Two workers serve the sample job in turn, one hour apart, five times.\<close>

theorem shared_budget_never_exceeded_witness:
  "fleet_sent 1 (fleet_run RedisServer_commands RedisServer_at ''research'' CircuitBreaker_ops
     \<lparr>fl_store = empty_redis, fl_workers = [shared_gateway empty_redis, shared_gateway empty_redis]\<rparr>
     [Serve 0 0 sample_env sample_call, Serve 3600000000 1 sample_env sample_call, Serve 7200000000 0 sample_env sample_call,
      Serve 10800000000 1 sample_env sample_call, Serve 14400000000 0 sample_env sample_call]) \<le> 2"
proof (rule shared_budget_never_exceeded [OF clocked.redis_clocked_axioms])
  show "redis.ledger_inv ''research'' (fl_store \<lparr>fl_store = empty_redis, fl_workers = [shared_gateway empty_redis, shared_gateway empty_redis]\<rparr>)"
    by (simp add: empty_redis_ledger)
qed (auto simp: shared_gateway_def sent_for_def sample_call_def tiny_budget_def empty_redis_def RedisServer_commands_def int_field_def)

text \<open>Why the window is needed: once the key's deadline has come, the next reservation is the first again.\<close>

lemma expired_count_starts_over:
  assumes laws: "redis_clocked rd elapse deadline" and "deadline k (RedisBudgetLedger_key px j) = Some d" and "d \<le> t"
    and up: "rd_error rd (elapse t k) = None" and some: "1 \<le> max_tool_calls budget"
  shows "fst (RedisBudgetLedger_reserve_call rd px (elapse t k) j budget) = Inr 1"
proof -
  let ?key = "RedisBudgetLedger_key px j"
  have "rd_hget rd (elapse t k) ?key = (\<lambda>_. None)" using redis_clocked.elapse_hget [OF laws] assms(2,3) by simp
  then have "int_typed (rd_hget rd (elapse t k) ?key ''tool_calls'')" "int_field rd (elapse t k) ?key ''tool_calls'' = 0"
    by (simp_all add: int_typed_def int_field_def)
  then obtain k' where "RESERVE_CALL rd (elapse t k) ?key (max_tool_calls budget) USAGE_TTL = (1, k')"
    using redis_server.RESERVE_CALL_claims [OF redis_clocked.axioms(1) [OF laws], of "elapse t k" ?key "max_tool_calls budget"] some by auto
  with up show ?thesis by (simp add: RedisBudgetLedger_reserve_call_def)
qed

text \<open>
  The shared limits fail closed: while the store that counts budgets cannot be reached, the
  gateway sends nothing to any MCP server, whoever calls and whatever for.
\<close>

theorem unreachable_store_sends_nothing:
  assumes "CapabilityGateway_invoke (RedisBudgetLedger_ops rd px) cops env g q = (r, g')"
    and "rd_error rd (gw_budgets g) \<noteq> None"
  shows "gw_sent g' = gw_sent g \<and> gw_budgets g' = gw_budgets g"
proof -
  have "\<exists>e. bg_reserve_call (RedisBudgetLedger_ops rd px) (gw_budgets g) j b = (Inl e, gw_budgets g)" for j b
    using assms(2) by (auto simp: RedisBudgetLedger_ops_def RedisBudgetLedger_reserve_call_def)
  moreover have "mediation_spec (RedisBudgetLedger_ops rd px) cops env g q g' r"
    using invoke_spec [OF assms(1)] by blast
  ultimately show ?thesis unfolding mediation_spec_def metering_spec_def
    by (metis fst_conv is_ok_simps(1) snd_conv)
qed

theorem unreachable_store_sends_nothing_witness:
  "gw_sent (snd (CapabilityGateway_invoke (RedisBudgetLedger_ops RedisServer_commands ''research'') CircuitBreaker_ops
     sample_env (shared_gateway (empty_redis\<lparr>rs_error := Some ''refused''\<rparr>)) sample_call)) = []"
proof -
  let ?g = "shared_gateway (empty_redis\<lparr>rs_error := Some ''refused''\<rparr>)"
  obtain r g' where run: "CapabilityGateway_invoke (RedisBudgetLedger_ops RedisServer_commands ''research'') CircuitBreaker_ops
      sample_env ?g sample_call = (r, g')" by fastforce
  from unreachable_store_sends_nothing [OF run] run show ?thesis
    by (simp add: shared_gateway_def RedisServer_commands_def)
qed

text \<open>
  A server that one worker has seen fail is rested by every worker: once the failures recorded
  by all of them reach the threshold, every worker is refused until the cooldown has passed since
  the last failure, and then the next call is a probe.
\<close>

theorem shared_circuit_rests_server:
  assumes laws: "redis_server rd" and own: "rc_own_clock c" and cd: "0 < rc_cooldown c"
    and empty: "\<And>s f. rd_hget rd k (RedisCircuitBreaker_key c s) f = None" and up: "rd_error rd k = None"
    and times: "sorted (ts @ [t])" and count: "int (length ts) + 1 = rc_threshold c"
  shows "\<forall>now. t \<le> now \<longrightarrow>
    fst (RedisCircuitBreaker_ensure_closed rd c
          (record_failures (RedisCircuitBreaker_ops rd c) k server (ts @ [t])) server now) =
      (if now < t + rc_cooldown c then Inl (CircuitOpen server (t + rc_cooldown c)) else Inr ())"
proof -
  note port = redis_server.redis_circuit_port [OF laws own cd]
  let ?k' = "record_failures (RedisCircuitBreaker_ops rd c) k server (ts @ [t])"
  have none: "rd_hget rd k (RedisCircuitBreaker_key c s) = (\<lambda>_. None)" for s using empty by auto
  have inv: "redis_server.circuit_inv rd c k" "redis_server.reachable rd k"
    "\<And>now. redis_server.circuit_view_of rd c k now server = Counting 0"
    using up by (auto simp: redis_server.circuit_inv_def [OF laws] redis_server.reachable_def [OF laws]
        redis_server.circuit_view_of_def [OF laws] none stored_ok_def stored_view_def stored_state_def stored_int_def)
  have inv': "redis_server.circuit_inv rd c ?k'" "redis_server.reachable rd ?k'"
    using circuit_port.record_failures_inv [OF port inv(1,2)] by auto
  have rest: "redis_server.circuit_view_of rd c ?k' t server = Rested t"
    using circuit_port.record_failures_rest [OF port inv(1,2) inv(3), of "hd (ts @ [t])" "ts @ [t]"] times count
    by (cases ts) auto
  have ops: "br_ensure_closed (RedisCircuitBreaker_ops rd c) = RedisCircuitBreaker_ensure_closed rd c"
    by (simp add: RedisCircuitBreaker_ops_def)
  show ?thesis
    using circuit_port.rested_refuses [OF port inv' rest] circuit_port.rested_probes(1) [OF port inv' rest]
    by (auto simp: ops)
qed

theorem shared_circuit_rests_server_witness:
  "fst (RedisCircuitBreaker_ensure_closed RedisServer_commands default_shared_breaker
     (record_failures (RedisCircuitBreaker_ops RedisServer_commands default_shared_breaker) empty_redis ''web'' ([5, 6] @ [9]))
     ''web'' 10) = Inl (CircuitOpen ''web'' (9 + default_cooldown))"
  using shared_circuit_rests_server [OF redis.redis_server_axioms, of default_shared_breaker empty_redis "[5, 6]" 9 "''web''",
      rule_format, of 10]
  by (simp add: empty_redis_def RedisServer_commands_def default_cooldown_def)

end
