(* ===== verification/Rows.thy ===== *)
theory Rows
  imports Jobs "HOL-Library.Monad_Syntax"
begin

text \<open>
  How the durable repository (\<open>persistence/postgres.py\<close>) writes the records of the domain as rows
  and \<open>model_validate\<close> reads them back. A row maps column names to values; a JSONB column holds a
  JSON value. JSONB does not keep the order of an object's keys and Python's comparison of dictionaries
  does not look at it; the model keeps the order it was given.
\<close>

section \<open>Column values\<close>

datatype jsonb =
    JNull | JBool bool | JInt int | JFloat pyfloat | JText string | JArr "jsonb list" | JObj "(string \<times> jsonb) list"

datatype sql_value =
    SNull | SText string | SUni unicode | SUuid uuid | STime datetime | SInt int | SFloat pyfloat | SBool bool | SJson jsonb

type_synonym row = "(string, sql_value) dict"

definition opt_value :: "('a \<Rightarrow> sql_value) \<Rightarrow> 'a option \<Rightarrow> sql_value" where
  "opt_value f x = (case x of None \<Rightarrow> SNull | Some y \<Rightarrow> f y)"

text \<open>Reading a column at the type its field has; \<open>None\<close> is a validation error.\<close>

definition col_text :: "row \<Rightarrow> string \<Rightarrow> string option" where
  "col_text r c = (case dict_get r c of Some (SText s) \<Rightarrow> Some s | _ \<Rightarrow> None)"

definition col_opt_text :: "row \<Rightarrow> string \<Rightarrow> string option option" where
  "col_opt_text r c = (case dict_get r c of Some (SText s) \<Rightarrow> Some (Some s) | Some SNull \<Rightarrow> Some None | _ \<Rightarrow> None)"

definition col_uni :: "row \<Rightarrow> string \<Rightarrow> unicode option" where
  "col_uni r c = (case dict_get r c of Some (SUni s) \<Rightarrow> Some s | _ \<Rightarrow> None)"

definition col_uuid :: "row \<Rightarrow> string \<Rightarrow> uuid option" where
  "col_uuid r c = (case dict_get r c of Some (SUuid u) \<Rightarrow> Some u | _ \<Rightarrow> None)"

definition col_time :: "row \<Rightarrow> string \<Rightarrow> datetime option" where
  "col_time r c = (case dict_get r c of Some (STime t) \<Rightarrow> Some t | _ \<Rightarrow> None)"

definition col_opt_time :: "row \<Rightarrow> string \<Rightarrow> datetime option option" where
  "col_opt_time r c = (case dict_get r c of Some (STime t) \<Rightarrow> Some (Some t) | Some SNull \<Rightarrow> Some None | _ \<Rightarrow> None)"

definition col_int :: "row \<Rightarrow> string \<Rightarrow> int option" where
  "col_int r c = (case dict_get r c of Some (SInt i) \<Rightarrow> Some i | _ \<Rightarrow> None)"

definition col_opt_int :: "row \<Rightarrow> string \<Rightarrow> int option option" where
  "col_opt_int r c = (case dict_get r c of Some (SInt i) \<Rightarrow> Some (Some i) | Some SNull \<Rightarrow> Some None | _ \<Rightarrow> None)"

definition col_float :: "row \<Rightarrow> string \<Rightarrow> pyfloat option" where
  "col_float r c = (case dict_get r c of Some (SFloat q) \<Rightarrow> Some q | _ \<Rightarrow> None)"

definition col_bool :: "row \<Rightarrow> string \<Rightarrow> bool option" where
  "col_bool r c = (case dict_get r c of Some (SBool b) \<Rightarrow> Some b | _ \<Rightarrow> None)"

definition col_json :: "row \<Rightarrow> string \<Rightarrow> jsonb option" where
  "col_json r c = (case dict_get r c of Some (SJson j) \<Rightarrow> Some j | _ \<Rightarrow> None)"

lemmas col_defs = col_text_def col_opt_text_def col_uni_def col_uuid_def col_time_def col_opt_time_def col_int_def
  col_opt_int_def col_float_def col_bool_def col_json_def

text \<open>Members of a JSON object, and lists of texts and identifiers.\<close>

definition obj_int :: "jsonb \<Rightarrow> string \<Rightarrow> int option" where
  "obj_int v k = (case v of JObj kvs \<Rightarrow> (case dict_get kvs k of Some (JInt i) \<Rightarrow> Some i | _ \<Rightarrow> None) | _ \<Rightarrow> None)"

definition obj_float :: "jsonb \<Rightarrow> string \<Rightarrow> pyfloat option" where
  "obj_float v k = (case v of
     JObj kvs \<Rightarrow> (case dict_get kvs k of Some (JFloat q) \<Rightarrow> Some q | Some (JInt i) \<Rightarrow> Some (of_int i) | _ \<Rightarrow> None)
   | _ \<Rightarrow> None)"

fun map_opt :: "('a \<Rightarrow> 'b option) \<Rightarrow> 'a list \<Rightarrow> 'b list option" where
  "map_opt f [] = Some []"
| "map_opt f (x # xs) = do { y \<leftarrow> f x; ys \<leftarrow> map_opt f xs; Some (y # ys) }"

lemma map_opt_map [simp]: "(\<And>x. x \<in> set xs \<Longrightarrow> f (g x) = Some (h x)) \<Longrightarrow> map_opt f (map g xs) = Some (map h xs)"
  by (induction xs) auto

definition arr_texts :: "jsonb \<Rightarrow> string list option" where
  "arr_texts v = (case v of JArr vs \<Rightarrow> map_opt (\<lambda>x. case x of JText s \<Rightarrow> Some s | _ \<Rightarrow> None) vs | _ \<Rightarrow> None)"

definition arr_uuids :: "jsonb \<Rightarrow> uuid list option" where
  "arr_uuids v = do { ss \<leftarrow> arr_texts v; map_opt uuid_parse ss }"

definition json_texts :: "string list \<Rightarrow> jsonb" where
  "json_texts ss = JArr (map JText ss)"

definition json_uuids :: "uuid list \<Rightarrow> jsonb" where
  "json_uuids us = json_texts (map uuid_str us)"

lemma arr_texts_json [simp]: "arr_texts (json_texts ss) = Some ss"
  by (simp add: arr_texts_def json_texts_def map_opt_map [where h = "\<lambda>x. x"])

lemma arr_uuids_json [simp]: "arr_uuids (json_uuids us) = Some us"
  by (simp add: arr_uuids_def json_uuids_def map_opt_map [where h = "\<lambda>x. x"] uuid_roundtrip)

text \<open>The arguments of a call as JSON.\<close>

fun json_of :: "pyval \<Rightarrow> jsonb" where
  "json_of VNone = JNull"
| "json_of (VBool b) = JBool b"
| "json_of (VInt i) = JInt i"
| "json_of (VStr s) = JText s"
| "json_of (VList vs) = JArr (map json_of vs)"
| "json_of (VDict kvs) = JObj (map (\<lambda>(k, v). (k, json_of v)) kvs)"

fun of_json :: "jsonb \<Rightarrow> pyval option" where
  "of_json JNull = Some VNone"
| "of_json (JBool b) = Some (VBool b)"
| "of_json (JInt i) = Some (VInt i)"
| "of_json (JFloat q) = None"
| "of_json (JText s) = Some (VStr s)"
| "of_json (JArr vs) = map_option VList (those (map of_json vs))"
| "of_json (JObj kvs) = map_option VDict (those (map (\<lambda>(k, v). map_option (Pair k) (of_json v)) kvs))"

lemma those_map_Some: "(\<And>x. x \<in> set xs \<Longrightarrow> f x = Some (g x)) \<Longrightarrow> those (map f xs) = Some (map g xs)"
  by (induction xs) auto

lemma of_json_json_of [simp]: "of_json (json_of v) = Some v"
proof (induction v)
  case (VList vs)
  then have "those (map (\<lambda>v. of_json (json_of v)) vs) = Some (map (\<lambda>v. v) vs)" by (intro those_map_Some) auto
  then show ?case by (simp add: o_def)
next
  case (VDict kvs)
  have "those (map (\<lambda>p. map_option (Pair (fst p)) (of_json (json_of (snd p)))) kvs) = Some (map (\<lambda>p. p) kvs)"
    by (intro those_map_Some) (use VDict in \<open>fastforce simp: split_beta snds.simps\<close>)
  then show ?case by (simp add: o_def split_beta)
qed simp_all


section \<open>Enumerations\<close>

definition enum_of :: "('a \<Rightarrow> string) \<Rightarrow> 'a list \<Rightarrow> string \<Rightarrow> 'a option" where
  "enum_of f members s = find (\<lambda>x. f x = s) members"

definition JobStatus_of :: "string \<Rightarrow> JobStatus option" where
  "JobStatus_of = enum_of JobStatus_value
     [JS_CREATED, JS_PLANNING, JS_RESEARCHING, JS_ANALYZING, JS_REVIEW_REQUIRED, JS_REPORTING, JS_COMPLETED, JS_FAILED, JS_PARTIAL]"

definition TrustLevel_of :: "string \<Rightarrow> TrustLevel option" where
  "TrustLevel_of = enum_of TrustLevel_value [TL_PRIMARY, TL_SECONDARY, TL_UNVERIFIED]"

fun CriticVerdict_value :: "CriticVerdict \<Rightarrow> string" where
  "CriticVerdict_value CV_PENDING = ''pending''"
| "CriticVerdict_value CV_SUPPORTED = ''supported''"
| "CriticVerdict_value CV_UNSUPPORTED = ''unsupported''"
| "CriticVerdict_value CV_CONTRADICTED = ''contradicted''"

definition CriticVerdict_of :: "string \<Rightarrow> CriticVerdict option" where
  "CriticVerdict_of = enum_of CriticVerdict_value [CV_PENDING, CV_SUPPORTED, CV_UNSUPPORTED, CV_CONTRADICTED]"

fun ReviewerStatus_value :: "ReviewerStatus \<Rightarrow> string" where
  "ReviewerStatus_value RS_NOT_REQUIRED = ''not_required''"
| "ReviewerStatus_value RS_PENDING = ''pending''"
| "ReviewerStatus_value RS_APPROVED = ''approved''"
| "ReviewerStatus_value RS_REJECTED = ''rejected''"

definition ReviewerStatus_of :: "string \<Rightarrow> ReviewerStatus option" where
  "ReviewerStatus_of = enum_of ReviewerStatus_value [RS_NOT_REQUIRED, RS_PENDING, RS_APPROVED, RS_REJECTED]"

fun AuthorizationDecision_value :: "AuthorizationDecision \<Rightarrow> string" where
  "AuthorizationDecision_value AD_ALLOW = ''allow''"
| "AuthorizationDecision_value AD_DENY = ''deny''"

definition AuthorizationDecision_of :: "string \<Rightarrow> AuthorizationDecision option" where
  "AuthorizationDecision_of = enum_of AuthorizationDecision_value [AD_ALLOW, AD_DENY]"

fun InvocationOutcome_value :: "InvocationOutcome \<Rightarrow> string" where
  "InvocationOutcome_value IO_PENDING = ''pending''"
| "InvocationOutcome_value IO_SUCCEEDED = ''succeeded''"
| "InvocationOutcome_value IO_FAILED = ''failed''"
| "InvocationOutcome_value IO_DENIED = ''denied''"

definition InvocationOutcome_of :: "string \<Rightarrow> InvocationOutcome option" where
  "InvocationOutcome_of = enum_of InvocationOutcome_value [IO_PENDING, IO_SUCCEEDED, IO_FAILED, IO_DENIED]"

fun ErrorClass_value :: "ErrorClass \<Rightarrow> string" where
  "ErrorClass_value EC_NONE = ''none''"
| "ErrorClass_value EC_POLICY_DENIED = ''policy_denied''"
| "ErrorClass_value EC_INVALID_ARGUMENTS = ''invalid_arguments''"
| "ErrorClass_value EC_UPSTREAM_UNAVAILABLE = ''upstream_unavailable''"
| "ErrorClass_value EC_TIMEOUT = ''timeout''"
| "ErrorClass_value EC_RESULT_TOO_LARGE = ''result_too_large''"
| "ErrorClass_value EC_BUDGET_EXHAUSTED = ''budget_exhausted''"
| "ErrorClass_value EC_UNEXPECTED = ''unexpected''"

definition ErrorClass_of :: "string \<Rightarrow> ErrorClass option" where
  "ErrorClass_of = enum_of ErrorClass_value [EC_NONE, EC_POLICY_DENIED, EC_INVALID_ARGUMENTS, EC_UPSTREAM_UNAVAILABLE,
     EC_TIMEOUT, EC_RESULT_TOO_LARGE, EC_BUDGET_EXHAUSTED, EC_UNEXPECTED]"

lemma enum_roundtrip [simp]:
  "JobStatus_of (JobStatus_value s) = Some s" "TrustLevel_of (TrustLevel_value l) = Some l" "AccessClass_of (AccessClass_value c) = Some c"
  "CriticVerdict_of (CriticVerdict_value v) = Some v" "ReviewerStatus_of (ReviewerStatus_value w) = Some w"
  "AuthorizationDecision_of (AuthorizationDecision_value d) = Some d" "InvocationOutcome_of (InvocationOutcome_value x) = Some x"
  "ErrorClass_of (ErrorClass_value e) = Some e"
proof -
  show "JobStatus_of (JobStatus_value s) = Some s" by (cases s) (simp_all add: JobStatus_of_def enum_of_def)
  show "TrustLevel_of (TrustLevel_value l) = Some l" by (cases l) (simp_all add: TrustLevel_of_def enum_of_def)
  show "AccessClass_of (AccessClass_value c) = Some c" by (cases c) (simp_all add: AccessClass_of_def)
  show "CriticVerdict_of (CriticVerdict_value v) = Some v" by (cases v) (simp_all add: CriticVerdict_of_def enum_of_def)
  show "ReviewerStatus_of (ReviewerStatus_value w) = Some w" by (cases w) (simp_all add: ReviewerStatus_of_def enum_of_def)
  show "AuthorizationDecision_of (AuthorizationDecision_value d) = Some d" by (cases d) (simp_all add: AuthorizationDecision_of_def enum_of_def)
  show "InvocationOutcome_of (InvocationOutcome_value x) = Some x" by (cases x) (simp_all add: InvocationOutcome_of_def enum_of_def)
  show "ErrorClass_of (ErrorClass_value e) = Some e" by (cases e) (simp_all add: ErrorClass_of_def enum_of_def)
qed


section \<open>The parameters of a statement and the rows read back\<close>

definition budget_json :: "ResearchBudget \<Rightarrow> jsonb" where
  "budget_json b = JObj
     [(''max_tool_calls'', JInt (max_tool_calls b)), (''max_tokens'', JInt (max_tokens b)),
      (''max_runtime_seconds'', JInt (max_runtime_seconds b)), (''max_cost_usd'', JFloat (max_cost_usd b))]"

definition usage_json :: "JobUsage \<Rightarrow> jsonb" where
  "usage_json u = JObj
     [(''tool_calls'', JInt (tool_calls u)), (''agent_calls'', JInt (agent_calls u)), (''schema_corrections'', JInt (schema_corrections u)),
      (''prompt_tokens'', JInt (prompt_tokens u)), (''completion_tokens'', JInt (completion_tokens u)), (''cost_usd'', JFloat (cost_usd u)),
      (''active_seconds'', JFloat (active_seconds u))]"

definition job_parameters :: "ResearchJob \<Rightarrow> row" where
  "job_parameters job =
     [(''id'', SUuid (rj_id job)), (''tenant_id'', SText (rj_tenant_id job)), (''requester_id'', SText (rj_requester_id job)),
      (''question'', SText (rj_question job)), (''constraints'', SJson (json_texts (rj_constraints job))),
      (''source_requirements'', SJson (json_texts (rj_source_requirements job))),
      (''budget'', SJson (budget_json (rj_budget job))),
      (''clearance'', SText (AccessClass_value (rj_clearance job))),
      (''usage'', SJson (usage_json (rj_usage job))),
      (''status'', SText (JobStatus_value (rj_status job))), (''status_detail'', opt_value SText (rj_status_detail job)),
      (''workflow_id'', opt_value SText (rj_workflow_id job)), (''workflow_run_id'', opt_value SText (rj_workflow_run_id job)),
      (''created_at'', STime (rj_created_at job)), (''updated_at'', STime (rj_updated_at job))]"

definition budget_of_json :: "jsonb \<Rightarrow> ResearchBudget option" where
  "budget_of_json v = do {
     calls \<leftarrow> obj_int v ''max_tool_calls''; tokens \<leftarrow> obj_int v ''max_tokens'';
     seconds \<leftarrow> obj_int v ''max_runtime_seconds''; cost \<leftarrow> obj_float v ''max_cost_usd'';
     Some \<lparr>max_tool_calls = calls, max_tokens = tokens, max_runtime_seconds = seconds, max_cost_usd = cost\<rparr> }"

definition usage_of_json :: "jsonb \<Rightarrow> JobUsage option" where
  "usage_of_json v = do {
     calls \<leftarrow> obj_int v ''tool_calls''; agents \<leftarrow> obj_int v ''agent_calls''; corrections \<leftarrow> obj_int v ''schema_corrections'';
     prompt \<leftarrow> obj_int v ''prompt_tokens''; completion \<leftarrow> obj_int v ''completion_tokens'';
     cost \<leftarrow> obj_float v ''cost_usd''; seconds \<leftarrow> obj_float v ''active_seconds'';
     Some \<lparr>tool_calls = calls, agent_calls = agents, schema_corrections = corrections, prompt_tokens = prompt,
           completion_tokens = completion, cost_usd = cost, active_seconds = seconds\<rparr> }"

text \<open>\<open>model_validate\<close> builds the record and runs its validators.\<close>

definition validated :: "('a \<Rightarrow> bool) \<Rightarrow> 'a \<Rightarrow> 'a option" where
  "validated P x = (if P x then Some x else None)"

definition job_of_row :: "row \<Rightarrow> ResearchJob option" where
  "job_of_row r = do {
     i \<leftarrow> col_uuid r ''id''; tenant \<leftarrow> col_text r ''tenant_id''; requester \<leftarrow> col_text r ''requester_id'';
     question \<leftarrow> col_text r ''question''; cs \<leftarrow> col_json r ''constraints''; constraints \<leftarrow> arr_texts cs;
     ss \<leftarrow> col_json r ''source_requirements''; sources \<leftarrow> arr_texts ss;
     b \<leftarrow> col_json r ''budget''; budget \<leftarrow> budget_of_json b; c \<leftarrow> col_text r ''clearance''; clearance \<leftarrow> AccessClass_of c;
     u \<leftarrow> col_json r ''usage''; usage \<leftarrow> usage_of_json u; s \<leftarrow> col_text r ''status''; status \<leftarrow> JobStatus_of s;
     detail \<leftarrow> col_opt_text r ''status_detail''; workflow \<leftarrow> col_opt_text r ''workflow_id''; run \<leftarrow> col_opt_text r ''workflow_run_id'';
     created \<leftarrow> col_time r ''created_at''; updated \<leftarrow> col_time r ''updated_at'';
     validated ResearchJob_valid
       \<lparr>rj_id = i, rj_tenant_id = tenant, rj_requester_id = requester, rj_question = question, rj_constraints = constraints,
        rj_source_requirements = sources, rj_budget = budget, rj_clearance = clearance, rj_usage = usage, rj_status = status,
        rj_status_detail = detail, rj_workflow_id = workflow, rj_workflow_run_id = run, rj_created_at = created, rj_updated_at = updated\<rparr> }"

definition evidence_parameters :: "EvidenceRecord \<Rightarrow> row" where
  "evidence_parameters e =
     [(''id'', SUuid (ev_id e)), (''tenant_id'', SText (ev_tenant_id e)), (''job_id'', SUuid (ev_job_id e)), (''excerpt'', SUni (ev_excerpt e)),
      (''source_uri'', SText (ev_source_uri e)), (''title'', opt_value SText (ev_title e)), (''author'', opt_value SText (ev_author e)),
      (''published_at'', opt_value STime (ev_published_at e)), (''trust_level'', SText (TrustLevel_value (ev_trust_level e))),
      (''access_class'', SText (AccessClass_value (ev_access_class e))), (''content_hash'', SText (ev_content_hash e)),
      (''producing_task_id'', SUuid (ev_producing_task_id e)), (''tool_invocation_id'', SUuid (ev_tool_invocation_id e)),
      (''retrieved_at'', STime (ev_retrieved_at e))]"

definition evidence_of_row :: "datetime \<Rightarrow> row \<Rightarrow> EvidenceRecord option" where
  "evidence_of_row now r = do {
     i \<leftarrow> col_uuid r ''id''; tenant \<leftarrow> col_text r ''tenant_id''; j \<leftarrow> col_uuid r ''job_id''; excerpt \<leftarrow> col_uni r ''excerpt'';
     uri \<leftarrow> col_text r ''source_uri''; title \<leftarrow> col_opt_text r ''title''; author \<leftarrow> col_opt_text r ''author'';
     published \<leftarrow> col_opt_time r ''published_at''; l \<leftarrow> col_text r ''trust_level''; level \<leftarrow> TrustLevel_of l;
     c \<leftarrow> col_text r ''access_class''; access \<leftarrow> AccessClass_of c; h \<leftarrow> col_text r ''content_hash'';
     task \<leftarrow> col_uuid r ''producing_task_id''; invocation \<leftarrow> col_uuid r ''tool_invocation_id''; retrieved \<leftarrow> col_time r ''retrieved_at'';
     validated (EvidenceRecord_valid now)
       \<lparr>ev_excerpt = excerpt, ev_source_uri = uri, ev_title = title, ev_author = author, ev_published_at = published,
        ev_trust_level = level, ev_access_class = access, ev_content_hash = h, ev_producing_task_id = task,
        ev_tool_invocation_id = invocation, ev_id = i, ev_job_id = j, ev_tenant_id = tenant, ev_retrieved_at = retrieved\<rparr> }"

definition invocation_parameters :: "ToolInvocation \<Rightarrow> row" where
  "invocation_parameters i =
     [(''id'', SUuid (ti_id i)), (''tenant_id'', SText (ti_tenant_id i)), (''job_id'', SUuid (ti_job_id i)), (''task_id'', SUuid (ti_task_id i)),
      (''mcp_server'', SText (ti_mcp_server i)), (''capability'', SText (ti_capability i)),
      (''sanitized_arguments'', SJson (json_of (VDict (ti_sanitized_arguments i)))), (''argument_digest'', SText (ti_argument_digest i)),
      (''policy_version'', SText (ti_policy_version i)),
      (''authorization_decision'', SText (AuthorizationDecision_value (ti_authorization_decision i))),
      (''outcome'', SText (InvocationOutcome_value (ti_outcome i))), (''error_class'', SText (ErrorClass_value (ti_error_class i))),
      (''started_at'', STime (ti_started_at i)), (''duration_ms'', opt_value SInt (ti_duration_ms i))]"

definition invocation_of_row :: "row \<Rightarrow> ToolInvocation option" where
  "invocation_of_row r = do {
     i \<leftarrow> col_uuid r ''id''; tenant \<leftarrow> col_text r ''tenant_id''; j \<leftarrow> col_uuid r ''job_id''; task \<leftarrow> col_uuid r ''task_id'';
     server \<leftarrow> col_text r ''mcp_server''; capability \<leftarrow> col_text r ''capability''; a \<leftarrow> col_json r ''sanitized_arguments'';
     v \<leftarrow> of_json a; args \<leftarrow> (case v of VDict kvs \<Rightarrow> Some kvs | _ \<Rightarrow> None);
     digest \<leftarrow> col_text r ''argument_digest''; policy \<leftarrow> col_text r ''policy_version'';
     d \<leftarrow> col_text r ''authorization_decision''; decision \<leftarrow> AuthorizationDecision_of d;
     x \<leftarrow> col_text r ''outcome''; outcome \<leftarrow> InvocationOutcome_of x; e \<leftarrow> col_text r ''error_class''; err \<leftarrow> ErrorClass_of e;
     started \<leftarrow> col_time r ''started_at''; duration \<leftarrow> col_opt_int r ''duration_ms'';
     validated ToolInvocation_valid
       \<lparr>ti_id = i, ti_job_id = j, ti_task_id = task, ti_tenant_id = tenant, ti_mcp_server = server, ti_capability = capability,
        ti_sanitized_arguments = args, ti_argument_digest = digest, ti_policy_version = policy, ti_authorization_decision = decision,
        ti_outcome = outcome, ti_error_class = err, ti_started_at = started, ti_duration_ms = duration\<rparr> }"

text \<open>The row the statement builds from \<open>_finding_parameters\<close>, under the names of its columns.\<close>

definition finding_parameters :: "FindingRecord \<Rightarrow> nat \<Rightarrow> row" where
  "finding_parameters f position =
     [(''id'', SUuid (fr_id f)), (''tenant_id'', SText (fr_tenant_id f)), (''job_id'', SUuid (fr_job_id f)), (''claim'', SText (fi_claim f)),
      (''supporting_evidence_ids'', SJson (json_uuids (fi_supporting_evidence_ids f))),
      (''contradicting_evidence_ids'', SJson (json_uuids (fi_contradicting_evidence_ids f))),
      (''calculation_ids'', SJson (json_uuids (fi_calculation_ids f))), (''confidence'', SFloat (fi_confidence f)),
      (''critic_verdict'', SText (CriticVerdict_value (fi_critic_verdict f))),
      (''reviewer_status'', SText (ReviewerStatus_value (fi_reviewer_status f))), (''recorded_at'', STime (fr_recorded_at f)),
      (''position'', SInt (int position))]"

definition finding_of_row :: "row \<Rightarrow> FindingRecord option" where
  "finding_of_row r = do {
     i \<leftarrow> col_uuid r ''id''; tenant \<leftarrow> col_text r ''tenant_id''; j \<leftarrow> col_uuid r ''job_id''; claim \<leftarrow> col_text r ''claim'';
     s \<leftarrow> col_json r ''supporting_evidence_ids''; supporting \<leftarrow> arr_uuids s;
     c \<leftarrow> col_json r ''contradicting_evidence_ids''; contradicting \<leftarrow> arr_uuids c;
     k \<leftarrow> col_json r ''calculation_ids''; calculations \<leftarrow> arr_uuids k; confidence \<leftarrow> col_float r ''confidence'';
     v \<leftarrow> col_text r ''critic_verdict''; verdict \<leftarrow> CriticVerdict_of v;
     w \<leftarrow> col_text r ''reviewer_status''; reviewer \<leftarrow> ReviewerStatus_of w; recorded \<leftarrow> col_time r ''recorded_at'';
     validated FindingRecord_valid
       \<lparr>fi_claim = claim, fi_supporting_evidence_ids = supporting, fi_contradicting_evidence_ids = contradicting,
        fi_calculation_ids = calculations, fi_confidence = confidence, fi_critic_verdict = verdict, fi_reviewer_status = reviewer,
        fr_id = i, fr_job_id = j, fr_tenant_id = tenant, fr_recorded_at = recorded\<rparr> }"

definition publication_parameters :: "ReportPublication \<Rightarrow> row" where
  "publication_parameters p =
     [(''tenant_id'', SText (pu_tenant_id p)), (''job_id'', SUuid (pu_job_id p)), (''published_at'', STime (pu_published_at p)),
      (''report_key'', SText (pu_report_key p)), (''markdown_key'', SText (pu_markdown_key p)), (''manifest_key'', SText (pu_manifest_key p)),
      (''evidence_key'', SText (pu_evidence_key p)), (''report_sha256'', SText (pu_report_sha256 p)), (''is_partial'', SBool (pu_is_partial p)),
      (''drifted_evidence_ids'', SJson (json_uuids (pu_drifted_evidence_ids p))),
      (''report_access_class'', SText (AccessClass_value (pu_report_access_class p))),
      (''manifest_access_class'', SText (AccessClass_value (pu_manifest_access_class p)))]"

definition publication_of_row :: "row \<Rightarrow> ReportPublication option" where
  "publication_of_row r = do {
     tenant \<leftarrow> col_text r ''tenant_id''; j \<leftarrow> col_uuid r ''job_id''; published \<leftarrow> col_time r ''published_at'';
     report \<leftarrow> col_text r ''report_key''; markdown \<leftarrow> col_text r ''markdown_key''; manifest \<leftarrow> col_text r ''manifest_key'';
     evidence \<leftarrow> col_text r ''evidence_key''; sha \<leftarrow> col_text r ''report_sha256''; part \<leftarrow> col_bool r ''is_partial'';
     d \<leftarrow> col_json r ''drifted_evidence_ids''; drifted \<leftarrow> arr_uuids d;
     c \<leftarrow> col_text r ''report_access_class''; report_class \<leftarrow> AccessClass_of c;
     m \<leftarrow> col_text r ''manifest_access_class''; manifest_class \<leftarrow> AccessClass_of m;
     validated ReportPublication_valid
      \<lparr>pu_job_id = j, pu_tenant_id = tenant, pu_published_at = published, pu_report_key = report, pu_markdown_key = markdown,
        pu_manifest_key = manifest, pu_evidence_key = evidence, pu_report_sha256 = sha, pu_is_partial = part,
        pu_drifted_evidence_ids = drifted, pu_report_access_class = report_class, pu_manifest_access_class = manifest_class\<rparr> }"


section \<open>Round trips\<close>

lemma opt_value_simps [simp]:
  "opt_value f None = SNull" "opt_value f (Some y) = f y"
  by (simp_all add: opt_value_def)

lemma col_opt_column [simp]:
  "dict_get r c = Some (opt_value SText x) \<Longrightarrow> col_opt_text r c = Some x"
  "dict_get r c = Some (opt_value STime y) \<Longrightarrow> col_opt_time r c = Some y"
  "dict_get r c = Some (opt_value SInt z) \<Longrightarrow> col_opt_int r c = Some z"
  by ((cases x, simp_all add: col_opt_text_def)[1], (cases y, simp_all add: col_opt_time_def)[1],
      (cases z, simp_all add: col_opt_int_def)[1])

lemma col_column [simp]:
  "dict_get r c = Some (SText s) \<Longrightarrow> col_text r c = Some s"
  "dict_get r c = Some (SUni u) \<Longrightarrow> col_uni r c = Some u"
  "dict_get r c = Some (SUuid i) \<Longrightarrow> col_uuid r c = Some i"
  "dict_get r c = Some (STime t) \<Longrightarrow> col_time r c = Some t"
  "dict_get r c = Some (SFloat q) \<Longrightarrow> col_float r c = Some q"
  "dict_get r c = Some (SBool b) \<Longrightarrow> col_bool r c = Some b"
  "dict_get r c = Some (SJson j) \<Longrightarrow> col_json r c = Some j"
  by (simp_all add: col_defs)

lemma budget_json_roundtrip [simp]: "budget_of_json (budget_json b) = Some b"
  by (cases b) (simp add: budget_of_json_def budget_json_def obj_int_def obj_float_def)

lemma usage_json_roundtrip [simp]: "usage_of_json (usage_json u) = Some u"
  by (cases u) (simp add: usage_of_json_def usage_json_def obj_int_def obj_float_def)

lemma job_row: "job_of_row (job_parameters job) = validated ResearchJob_valid job"
  by (cases job) (simp add: job_of_row_def job_parameters_def)

lemma evidence_row: "evidence_of_row now (evidence_parameters e) = validated (EvidenceRecord_valid now) e"
  by (cases e) (simp add: evidence_of_row_def evidence_parameters_def)

lemma invocation_row: "invocation_of_row (invocation_parameters i) = validated ToolInvocation_valid i"
  by (cases i) (simp add: invocation_of_row_def invocation_parameters_def del: json_of.simps)

lemma finding_row: "finding_of_row (finding_parameters f n) = validated FindingRecord_valid f"
  by (cases f) (simp add: finding_of_row_def finding_parameters_def)

lemma publication_row: "publication_of_row (publication_parameters p) = validated ReportPublication_valid p"
  by (cases p) (simp add: publication_of_row_def publication_parameters_def)

lemmas row_roundtrips = job_row evidence_row invocation_row finding_row publication_row

text \<open>
  C18. Writing a record of the domain as a row and validating the row on the way back gives exactly
  that record when it satisfies its model's constraints, and a validation error when it does not:
  no stored value is silently changed, and none that is invalid is ever served.
\<close>

theorem stored_records_read_back:
  "job_of_row (job_parameters job) = (if ResearchJob_valid job then Some job else None) \<and>
   evidence_of_row now (evidence_parameters e) = (if EvidenceRecord_valid now e then Some e else None) \<and>
   invocation_of_row (invocation_parameters i) = (if ToolInvocation_valid i then Some i else None) \<and>
   finding_of_row (finding_parameters f n) = (if FindingRecord_valid f then Some f else None) \<and>
   publication_of_row (publication_parameters p) = (if ReportPublication_valid p then Some p else None)"
  by (simp add: row_roundtrips validated_def)

end
