(* ===== verification/Postgres.thy ===== *)
theory Postgres
  imports Rows
begin

text \<open>
  The durable repository (\<open>persistence/postgres.py\<close>) over the tables of \<open>persistence/schema.py\<close>.
  A statement runs in a session: the attributes of the connected role and the tenant the
  transaction declared. The tables' policies and keys are part of the statements, so the model
  has both lines of defence the code relies on. The order in which the engine scans rows that a
  statement's \<open>ORDER BY\<close> leaves open is a parameter, \<open>scan\<close>. Ends with the isolation of tenants and
  the refinement of the in-memory repository.
\<close>

datatype PgError =
    PgJob JobError
  | PgUniqueViolation
  | PgForeignKeyViolation
  | PgRowSecurity
  | PgDataError
  | PgValidationError

section \<open>Roles, sessions and the tenant policy\<close>

record pg_role =
  rolsuper :: bool
  rolbypassrls :: bool

definition database_isolation_is_enforced :: "pg_role option \<Rightarrow> bool" where
  "database_isolation_is_enforced row = (case row of None \<Rightarrow> False | Some r \<Rightarrow> \<not> (rolsuper r \<or> rolbypassrls r))"

record session =
  se_role :: pg_role
  se_tenant :: "string option"

definition acting_for :: "pg_role \<Rightarrow> string \<Rightarrow> session" where
  "acting_for role tenant_id = \<lparr>se_role = role, se_tenant = Some tenant_id\<rparr>"

definition row_tenant :: "row \<Rightarrow> string \<Rightarrow> bool" where
  "row_tenant r t \<longleftrightarrow> dict_get r ''tenant_id'' = Some (SText t)"

text \<open>\<open>tenant_id = current_setting(\<dots>, true)\<close>: an unset setting is null and admits no row. A superuser
  or a role with BYPASSRLS is exempt.\<close>

definition tenant_isolation :: "session \<Rightarrow> row \<Rightarrow> bool" where
  "tenant_isolation s r \<longleftrightarrow> rolsuper (se_role s) \<or> rolbypassrls (se_role s) \<or>
     (case se_tenant s of None \<Rightarrow> False | Some t \<Rightarrow> row_tenant r t)"


section \<open>Statements\<close>

text \<open>PostgreSQL refuses the character U+0000 in text and in JSON, and text that is not valid Unicode.\<close>

definition text_storable :: "string \<Rightarrow> bool" where
  "text_storable s \<longleftrightarrow> CHR 0x00 \<notin> set s"

fun json_storable :: "jsonb \<Rightarrow> bool" where
  "json_storable (JText s) = text_storable s"
| "json_storable (JArr vs) = list_all json_storable vs"
| "json_storable (JObj kvs) = list_all (\<lambda>(k, v). text_storable k \<and> json_storable v) kvs"
| "json_storable _ = True"

fun value_storable :: "sql_value \<Rightarrow> bool" where
  "value_storable (SText s) = text_storable s"
| "value_storable (SUni u) = list_all (\<lambda>c. c \<noteq> 0 \<and> \<not> (0xD800 \<le> c \<and> c \<le> 0xDFFF)) u"
| "value_storable (SJson j) = json_storable j"
| "value_storable _ = True"

definition row_storable :: "row \<Rightarrow> bool" where
  "row_storable r \<longleftrightarrow> list_all (\<lambda>(c, v). value_storable v) r"

definition same_key :: "string list \<Rightarrow> row \<Rightarrow> row \<Rightarrow> bool" where
  "same_key columns r r' \<longleftrightarrow> list_all (\<lambda>c. dict_get r c = dict_get r' c) columns"

definition sql_select :: "session \<Rightarrow> (row \<Rightarrow> bool) \<Rightarrow> row list \<Rightarrow> row list" where
  "sql_select s P rows = filter (\<lambda>r. tenant_isolation s r \<and> P r) rows"

text \<open>An insertion is checked against the policy and the primary key; \<open>on_conflict\<close> says what happens to a
  row that holds the key already: an error, nothing, or the update of its columns.\<close>

datatype on_conflict = Refuse | DoNothing | DoUpdate

definition sql_insert :: "session \<Rightarrow> string list \<Rightarrow> on_conflict \<Rightarrow> row \<Rightarrow> row list \<Rightarrow> PgError + row list" where
  "sql_insert s key conflict new rows =
     (if \<not> row_storable new then Inl PgDataError
      else if \<not> tenant_isolation s new then Inl PgRowSecurity
      else if \<not> list_ex (same_key key new) rows then Inr (rows @ [new])
      else (case conflict of
          Refuse \<Rightarrow> Inl PgUniqueViolation
        | DoNothing \<Rightarrow> Inr rows
        | DoUpdate \<Rightarrow> if list_ex (\<lambda>r. same_key key new r \<and> \<not> tenant_isolation s r) rows then Inl PgRowSecurity
            else Inr (map (\<lambda>r. if same_key key new r then new else r) rows)))"

definition set_columns :: "string list \<Rightarrow> row \<Rightarrow> row \<Rightarrow> row" where
  "set_columns columns parameters r =
     fold (\<lambda>c r'. case dict_get parameters c of None \<Rightarrow> r' | Some v \<Rightarrow> dict_set c v r') columns r"

text \<open>The rows after an update and the number of rows it touched.\<close>

definition sql_update ::
  "session \<Rightarrow> (row \<Rightarrow> bool) \<Rightarrow> (row \<Rightarrow> row) \<Rightarrow> row list \<Rightarrow> PgError + row list \<times> nat" where
  "sql_update s P change rows =
     (let touched = sql_select s P rows in
      if \<not> list_all row_storable (map change touched) then Inl PgDataError
      else if \<not> list_all (tenant_isolation s) (map change touched) then Inl PgRowSecurity
      else Inr (map (\<lambda>r. if tenant_isolation s r \<and> P r then change r else r) rows, length touched))"

definition sql_delete :: "session \<Rightarrow> (row \<Rightarrow> bool) \<Rightarrow> row list \<Rightarrow> row list" where
  "sql_delete s P rows = filter (\<lambda>r. \<not> (tenant_isolation s r \<and> P r)) rows"


section \<open>The repository\<close>

record pg_tables =
  research_jobs :: "row list"
  evidence_records :: "row list"
  tool_invocations :: "row list"
  findings_table :: "row list"
  report_publications :: "row list"

definition empty_schema :: pg_tables where
  "empty_schema = \<lparr>research_jobs = [], evidence_records = [], tool_invocations = [], findings_table = [], report_publications = []\<rparr>"

definition is_job :: "string \<Rightarrow> uuid \<Rightarrow> row \<Rightarrow> bool" where
  "is_job t j r \<longleftrightarrow> row_tenant r t \<and> dict_get r ''id'' = Some (SUuid j)"

definition of_job :: "string \<Rightarrow> uuid \<Rightarrow> row \<Rightarrow> bool" where
  "of_job t j r \<longleftrightarrow> row_tenant r t \<and> dict_get r ''job_id'' = Some (SUuid j)"

text \<open>\<open>FOREIGN KEY (tenant_id, job_id) REFERENCES research_jobs\<close>; the check is not subject to the policies.\<close>

definition job_referenced :: "pg_tables \<Rightarrow> row \<Rightarrow> bool" where
  "job_referenced db r \<longleftrightarrow>
     list_ex (\<lambda>job. dict_get job ''tenant_id'' = dict_get r ''tenant_id'' \<and> dict_get job ''id'' = dict_get r ''job_id'') (research_jobs db)"

definition time_column :: "string \<Rightarrow> row \<Rightarrow> datetime" where
  "time_column c r = (case col_time r c of None \<Rightarrow> 0 | Some t \<Rightarrow> t)"

definition int_column :: "string \<Rightarrow> row \<Rightarrow> int" where
  "int_column c r = (case col_int r c of None \<Rightarrow> 0 | Some i \<Rightarrow> i)"

definition model_validate :: "(row \<Rightarrow> 'a option) \<Rightarrow> row \<Rightarrow> PgError + 'a" where
  "model_validate f r = (case f r of None \<Rightarrow> Inl PgValidationError | Some x \<Rightarrow> Inr x)"

definition model_validate_all :: "(row \<Rightarrow> 'a option) \<Rightarrow> row list \<Rightarrow> PgError + 'a list" where
  "model_validate_all f rs = (case map_opt f rs of None \<Rightarrow> Inl PgValidationError | Some xs \<Rightarrow> Inr xs)"

definition PostgresJobRepository_add :: "pg_role \<Rightarrow> pg_tables \<Rightarrow> ResearchJob \<Rightarrow> PgError + pg_tables" where
  "PostgresJobRepository_add role db job =
     bind_result (sql_insert (acting_for role (rj_tenant_id job)) [''tenant_id'', ''id''] Refuse (job_parameters job) (research_jobs db))
       (\<lambda>rows. Inr (db\<lparr>research_jobs := rows\<rparr>))"

definition PostgresJobRepository_get ::
  "pg_role \<Rightarrow> (row list \<Rightarrow> row list) \<Rightarrow> pg_tables \<Rightarrow> string \<Rightarrow> uuid \<Rightarrow> PgError + ResearchJob" where
  "PostgresJobRepository_get role scan db tenant_id job_id =
     (case scan (sql_select (acting_for role tenant_id) (is_job tenant_id job_id) (research_jobs db)) of
        [] \<Rightarrow> Inl (PgJob (JobNotFound job_id))
      | r # _ \<Rightarrow> model_validate job_of_row r)"

definition PostgresJobRepository_list ::
  "pg_role \<Rightarrow> (row list \<Rightarrow> row list) \<Rightarrow> pg_tables \<Rightarrow> string \<Rightarrow> PgError + ResearchJob list" where
  "PostgresJobRepository_list role scan db tenant_id =
     model_validate_all job_of_row (sort_key_reverse (time_column ''created_at'')
       (scan (sql_select (acting_for role tenant_id) (\<lambda>r. row_tenant r tenant_id) (research_jobs db))))"

definition updated_columns :: "string list" where
  "updated_columns = [''status'', ''status_detail'', ''usage'', ''workflow_id'', ''workflow_run_id'', ''updated_at'']"

definition PostgresJobRepository_update :: "pg_role \<Rightarrow> pg_tables \<Rightarrow> ResearchJob \<Rightarrow> PgError + pg_tables" where
  "PostgresJobRepository_update role db job =
     bind_result (sql_update (acting_for role (rj_tenant_id job)) (is_job (rj_tenant_id job) (rj_id job))
         (set_columns updated_columns (job_parameters job)) (research_jobs db))
       (\<lambda>(rows, updated). if updated = 0 then Inl (PgJob (JobNotFound (rj_id job))) else Inr (db\<lparr>research_jobs := rows\<rparr>))"

text \<open>An insertion into a table whose rows refer to a job.\<close>

definition insert_for_job ::
  "pg_role \<Rightarrow> pg_tables \<Rightarrow> string \<Rightarrow> string list \<Rightarrow> on_conflict \<Rightarrow> row \<Rightarrow> row list \<Rightarrow> PgError + row list" where
  "insert_for_job role db tenant_id key conflict new rows =
     bind_result (sql_insert (acting_for role tenant_id) key conflict new rows)
       (\<lambda>rows'. if job_referenced db new then Inr rows' else Inl PgForeignKeyViolation)"

definition PostgresJobRepository_add_evidence ::
  "pg_role \<Rightarrow> (row list \<Rightarrow> row list) \<Rightarrow> pg_tables \<Rightarrow> EvidenceRecord \<Rightarrow> PgError + pg_tables" where
  "PostgresJobRepository_add_evidence role scan db e =
     bind_result (PostgresJobRepository_get role scan db (ev_tenant_id e) (ev_job_id e)) (\<lambda>_.
       bind_result (insert_for_job role db (ev_tenant_id e) [''tenant_id'', ''id''] Refuse (evidence_parameters e) (evidence_records db))
         (\<lambda>rows. Inr (db\<lparr>evidence_records := rows\<rparr>)))"

definition PostgresJobRepository_list_evidence ::
  "pg_role \<Rightarrow> (row list \<Rightarrow> row list) \<Rightarrow> datetime \<Rightarrow> pg_tables \<Rightarrow> string \<Rightarrow> uuid \<Rightarrow> PgError + EvidenceRecord list" where
  "PostgresJobRepository_list_evidence role scan now db tenant_id job_id =
     bind_result (PostgresJobRepository_get role scan db tenant_id job_id) (\<lambda>_.
       model_validate_all (evidence_of_row now) (sort_key (time_column ''retrieved_at'')
         (scan (sql_select (acting_for role tenant_id) (of_job tenant_id job_id) (evidence_records db)))))"

definition PostgresJobRepository_record_invocation ::
  "pg_role \<Rightarrow> pg_tables \<Rightarrow> ToolInvocation \<Rightarrow> PgError + pg_tables" where
  "PostgresJobRepository_record_invocation role db i =
     bind_result (sql_insert (acting_for role (ti_tenant_id i)) [''tenant_id'', ''id''] DoNothing (invocation_parameters i) (tool_invocations db))
       (\<lambda>rows. Inr (db\<lparr>tool_invocations := rows\<rparr>))"

definition PostgresJobRepository_list_invocations ::
  "pg_role \<Rightarrow> (row list \<Rightarrow> row list) \<Rightarrow> pg_tables \<Rightarrow> string \<Rightarrow> uuid \<Rightarrow> PgError + ToolInvocation list" where
  "PostgresJobRepository_list_invocations role scan db tenant_id job_id =
     model_validate_all invocation_of_row (sort_key (time_column ''started_at'')
       (scan (sql_select (acting_for role tenant_id) (of_job tenant_id job_id) (tool_invocations db))))"

text \<open>Delete and insert share a transaction: an error on any row rolls all of it back.\<close>

fun insert_findings ::
  "pg_role \<Rightarrow> pg_tables \<Rightarrow> string \<Rightarrow> nat \<Rightarrow> FindingRecord list \<Rightarrow> row list \<Rightarrow> PgError + row list" where
  "insert_findings role db tenant_id position [] rows = Inr rows"
| "insert_findings role db tenant_id position (f # fs) rows =
     bind_result (insert_for_job role db tenant_id [''tenant_id'', ''id''] Refuse (finding_parameters f position) rows)
       (insert_findings role db tenant_id (position + 1) fs)"

definition PostgresJobRepository_replace_findings ::
  "pg_role \<Rightarrow> (row list \<Rightarrow> row list) \<Rightarrow> pg_tables \<Rightarrow> string \<Rightarrow> uuid \<Rightarrow> FindingRecord list \<Rightarrow> PgError + pg_tables" where
  "PostgresJobRepository_replace_findings role scan db tenant_id job_id findings =
     bind_result (PostgresJobRepository_get role scan db tenant_id job_id) (\<lambda>_.
       bind_result (insert_findings role db tenant_id 0 findings
           (sql_delete (acting_for role tenant_id) (of_job tenant_id job_id) (findings_table db)))
         (\<lambda>rows. Inr (db\<lparr>findings_table := rows\<rparr>)))"

definition PostgresJobRepository_list_findings ::
  "pg_role \<Rightarrow> (row list \<Rightarrow> row list) \<Rightarrow> pg_tables \<Rightarrow> string \<Rightarrow> uuid \<Rightarrow> PgError + FindingRecord list" where
  "PostgresJobRepository_list_findings role scan db tenant_id job_id =
     bind_result (PostgresJobRepository_get role scan db tenant_id job_id) (\<lambda>_.
       model_validate_all finding_of_row (sort_key (int_column ''position'')
         (scan (sql_select (acting_for role tenant_id) (of_job tenant_id job_id) (findings_table db)))))"

definition PostgresJobRepository_record_publication ::
  "pg_role \<Rightarrow> (row list \<Rightarrow> row list) \<Rightarrow> pg_tables \<Rightarrow> ReportPublication \<Rightarrow> PgError + pg_tables" where
  "PostgresJobRepository_record_publication role scan db p =
     bind_result (PostgresJobRepository_get role scan db (pu_tenant_id p) (pu_job_id p)) (\<lambda>_.
       bind_result (insert_for_job role db (pu_tenant_id p) [''tenant_id'', ''job_id''] DoUpdate (publication_parameters p)
           (report_publications db))
         (\<lambda>rows. Inr (db\<lparr>report_publications := rows\<rparr>)))"

definition PostgresJobRepository_get_publication ::
  "pg_role \<Rightarrow> (row list \<Rightarrow> row list) \<Rightarrow> pg_tables \<Rightarrow> string \<Rightarrow> uuid \<Rightarrow> PgError + ReportPublication option" where
  "PostgresJobRepository_get_publication role scan db tenant_id job_id =
     bind_result (PostgresJobRepository_get role scan db tenant_id job_id) (\<lambda>_.
       case scan (sql_select (acting_for role tenant_id) (of_job tenant_id job_id) (report_publications db)) of
         [] \<Rightarrow> Inr None
       | r # _ \<Rightarrow> bind_result (model_validate publication_of_row r) (\<lambda>p. Inr (Some p)))"

text \<open>The calls that write, for either repository.\<close>

datatype repo_op =
    RAdd ResearchJob
  | RUpdate ResearchJob
  | RAddEvidence EvidenceRecord
  | RRecordInvocation ToolInvocation
  | RReplaceFindings string uuid "FindingRecord list"
  | RRecordPublication ReportPublication

fun repo_op_tenant :: "repo_op \<Rightarrow> string" where
  "repo_op_tenant (RAdd job) = rj_tenant_id job"
| "repo_op_tenant (RUpdate job) = rj_tenant_id job"
| "repo_op_tenant (RAddEvidence e) = ev_tenant_id e"
| "repo_op_tenant (RRecordInvocation i) = ti_tenant_id i"
| "repo_op_tenant (RReplaceFindings t j fs) = t"
| "repo_op_tenant (RRecordPublication p) = pu_tenant_id p"

fun pg_apply :: "pg_role \<Rightarrow> (row list \<Rightarrow> row list) \<Rightarrow> pg_tables \<Rightarrow> repo_op \<Rightarrow> PgError + pg_tables" where
  "pg_apply role scan db (RAdd job) = PostgresJobRepository_add role db job"
| "pg_apply role scan db (RUpdate job) = PostgresJobRepository_update role db job"
| "pg_apply role scan db (RAddEvidence e) = PostgresJobRepository_add_evidence role scan db e"
| "pg_apply role scan db (RRecordInvocation i) = PostgresJobRepository_record_invocation role db i"
| "pg_apply role scan db (RReplaceFindings t j fs) = PostgresJobRepository_replace_findings role scan db t j fs"
| "pg_apply role scan db (RRecordPublication p) = PostgresJobRepository_record_publication role scan db p"


section \<open>Tenants are isolated\<close>

definition tenant_part :: "string \<Rightarrow> row list \<Rightarrow> row list" where
  "tenant_part t rows = filter (\<lambda>r. row_tenant r t) rows"

definition tenant_rows :: "string \<Rightarrow> pg_tables \<Rightarrow> pg_tables" where
  "tenant_rows t db =
     \<lparr>research_jobs = tenant_part t (research_jobs db), evidence_records = tenant_part t (evidence_records db),
      tool_invocations = tenant_part t (tool_invocations db), findings_table = tenant_part t (findings_table db),
      report_publications = tenant_part t (report_publications db)\<rparr>"

lemma row_tenant_unique: "row_tenant r t \<Longrightarrow> row_tenant r u \<Longrightarrow> t = u"
  by (simp add: row_tenant_def)

lemma enforced_policy:
  "database_isolation_is_enforced (Some role) \<Longrightarrow> tenant_isolation (acting_for role t) r \<longleftrightarrow> row_tenant r t"
  by (simp add: database_isolation_is_enforced_def tenant_isolation_def acting_for_def)

lemma select_acting:
  "(\<And>r. P r \<Longrightarrow> row_tenant r t) \<Longrightarrow> sql_select (acting_for role t) P rows = filter P rows"
  by (auto simp: sql_select_def tenant_isolation_def acting_for_def intro!: filter_cong)

lemma job_predicates_tenant: "is_job t j r \<Longrightarrow> row_tenant r t" "of_job t j r \<Longrightarrow> row_tenant r t"
  by (simp_all add: is_job_def of_job_def)

lemmas select_simps [simp] =
  select_acting [OF job_predicates_tenant(1)] select_acting [OF job_predicates_tenant(2)]
  select_acting [where P = "\<lambda>r. row_tenant r t" and t = t for t, simplified]

lemma filter_tenant_part: "(\<And>r. P r \<Longrightarrow> row_tenant r t) \<Longrightarrow> filter P (tenant_part t rows) = filter P rows"
  by (auto simp: tenant_part_def intro!: filter_cong)

lemma filter_tenant_part_simps [simp]:
  "filter (is_job t j) (tenant_part t rows) = filter (is_job t j) rows"
  "filter (of_job t j) (tenant_part t rows) = filter (of_job t j) rows"
  "filter (\<lambda>r. row_tenant r t) (tenant_part t rows) = filter (\<lambda>r. row_tenant r t) rows"
  by (simp_all add: filter_tenant_part job_predicates_tenant)

lemma insert_keeps_others:
  assumes "database_isolation_is_enforced (Some role)" and "sql_insert (acting_for role t) key c new rows = Inr rows'" and "u \<noteq> t"
  shows "tenant_part u rows' = tenant_part u rows"
proof -
  have new: "row_tenant new t" using assms(1,2) by (auto simp: sql_insert_def enforced_policy split: if_splits)
  then have other: "\<not> row_tenant new u" using row_tenant_unique assms(3) by blast
  show ?thesis
  proof (cases "list_ex (same_key key new) rows \<and> c = DoUpdate")
    case True
    with assms(2) have rows': "rows' = map (\<lambda>r. if same_key key new r then new else r) rows"
      and own: "\<forall>r \<in> set rows. same_key key new r \<longrightarrow> row_tenant r t"
      using enforced_policy [OF assms(1)] by (auto simp: sql_insert_def list_ex_iff split: if_splits)
    have "filter (\<lambda>r. row_tenant r u) (map (\<lambda>r. if same_key key new r then new else r) xs) = filter (\<lambda>r. row_tenant r u) xs"
      if "\<forall>r \<in> set xs. same_key key new r \<longrightarrow> row_tenant r t" for xs
      using that by (induction xs) (use other row_tenant_unique assms(3) in \<open>auto\<close>)
    with rows' own show ?thesis by (simp add: tenant_part_def)
  next
    case False
    with assms(2) other show ?thesis by (auto simp: sql_insert_def tenant_part_def split: if_splits on_conflict.splits)
  qed
qed

lemma update_keeps_others:
  assumes "database_isolation_is_enforced (Some role)" and "sql_update (acting_for role t) P change rows = Inr (rows', n)" and "u \<noteq> t"
  shows "tenant_part u rows' = tenant_part u rows"
proof -
  have rows': "rows' = map (\<lambda>r. if row_tenant r t \<and> P r then change r else r) rows"
    and own: "\<forall>r \<in> set rows. row_tenant r t \<and> P r \<longrightarrow> row_tenant (change r) t"
    using assms(1,2) by (auto simp: sql_update_def sql_select_def enforced_policy list_all_iff Let_def split: if_splits)
  have "filter (\<lambda>r. row_tenant r u) (map (\<lambda>r. if row_tenant r t \<and> P r then change r else r) xs) = filter (\<lambda>r. row_tenant r u) xs"
    if "\<forall>r \<in> set xs. row_tenant r t \<and> P r \<longrightarrow> row_tenant (change r) t" for xs
    using that by (induction xs) (use row_tenant_unique assms(3) in \<open>auto\<close>)
  with rows' own show ?thesis by (simp add: tenant_part_def)
qed

lemma delete_keeps_others:
  "database_isolation_is_enforced (Some role) \<Longrightarrow> u \<noteq> t \<Longrightarrow>
   tenant_part u (sql_delete (acting_for role t) P rows) = tenant_part u rows"
  by (auto simp: sql_delete_def tenant_part_def enforced_policy dest: row_tenant_unique intro!: filter_cong)

lemma insert_for_job_keeps_others:
  "database_isolation_is_enforced (Some role) \<Longrightarrow> insert_for_job role db t key c new rows = Inr rows' \<Longrightarrow> u \<noteq> t \<Longrightarrow>
   tenant_part u rows' = tenant_part u rows"
  by (auto simp: insert_for_job_def bind_result_Inr_iff split: if_splits dest: insert_keeps_others)

lemma insert_findings_keeps_others:
  "database_isolation_is_enforced (Some role) \<Longrightarrow> insert_findings role db t n fs rows = Inr rows' \<Longrightarrow> u \<noteq> t \<Longrightarrow>
   tenant_part u rows' = tenant_part u rows"
proof (induction fs arbitrary: n rows)
  case (Cons f fs)
  then show ?case by (auto simp: bind_result_Inr_iff dest: insert_for_job_keeps_others)
qed simp

lemma apply_keeps_others:
  assumes "database_isolation_is_enforced (Some role)" and "pg_apply role scan db op = Inr db'" and "u \<noteq> repo_op_tenant op"
  shows "tenant_rows u db' = tenant_rows u db"
  using assms(2,3) insert_keeps_others [OF assms(1)] update_keeps_others [OF assms(1)] insert_for_job_keeps_others [OF assms(1)]
    insert_findings_keeps_others [OF assms(1)] delete_keeps_others [OF assms(1)]
  by (cases op) (fastforce simp: PostgresJobRepository_add_def PostgresJobRepository_update_def PostgresJobRepository_add_evidence_def
      PostgresJobRepository_record_invocation_def PostgresJobRepository_replace_findings_def PostgresJobRepository_record_publication_def
      bind_result_Inr_iff tenant_rows_def split: if_splits)+

lemma get_own_rows [simp]: "PostgresJobRepository_get role scan (tenant_rows t db) t j = PostgresJobRepository_get role scan db t j"
  by (simp add: PostgresJobRepository_get_def tenant_rows_def)

text \<open>
  C16. Tenant isolation at the database boundary: connected as a role the policies bind, a transaction
  that declared a tenant reads no row of another one whatever its predicate is, one that declared none
  reads nothing, and no call of the repository changes a row of another tenant. For any role, what the
  repository answers a tenant depends on that tenant's rows alone.
\<close>

theorem database_isolates_tenants:
  assumes "database_isolation_is_enforced (Some role)"
  shows "(\<forall>P rows r. r \<in> set (sql_select (acting_for role t) P rows) \<longrightarrow> row_tenant r t) \<and>
    (\<forall>P rows. sql_select \<lparr>se_role = role, se_tenant = None\<rparr> P rows = []) \<and>
    (\<forall>scan op db'. pg_apply role scan db op = Inr db' \<and> repo_op_tenant op \<noteq> t \<longrightarrow> tenant_rows t db' = tenant_rows t db) \<and>
    (\<forall>any scan now j.
      PostgresJobRepository_get any scan (tenant_rows t db) t j = PostgresJobRepository_get any scan db t j \<and>
      PostgresJobRepository_list any scan (tenant_rows t db) t = PostgresJobRepository_list any scan db t \<and>
      PostgresJobRepository_list_evidence any scan now (tenant_rows t db) t j = PostgresJobRepository_list_evidence any scan now db t j \<and>
      PostgresJobRepository_list_invocations any scan (tenant_rows t db) t j = PostgresJobRepository_list_invocations any scan db t j \<and>
      PostgresJobRepository_list_findings any scan (tenant_rows t db) t j = PostgresJobRepository_list_findings any scan db t j \<and>
      PostgresJobRepository_get_publication any scan (tenant_rows t db) t j = PostgresJobRepository_get_publication any scan db t j)"
proof (intro conjI allI impI)
  show "r \<in> set (sql_select (acting_for role t) P rows) \<Longrightarrow> row_tenant r t" for P rows r
    using enforced_policy [OF assms] by (simp add: sql_select_def)
  show "sql_select \<lparr>se_role = role, se_tenant = None\<rparr> P rows = []" for P rows
    using assms by (simp add: sql_select_def tenant_isolation_def database_isolation_is_enforced_def)
  show "pg_apply role scan db op = Inr db' \<and> repo_op_tenant op \<noteq> t \<Longrightarrow> tenant_rows t db' = tenant_rows t db" for scan op db'
    using apply_keeps_others [OF assms] by metis
qed (simp_all add: PostgresJobRepository_list_def PostgresJobRepository_list_evidence_def PostgresJobRepository_list_invocations_def
    PostgresJobRepository_list_findings_def PostgresJobRepository_get_publication_def tenant_rows_def
    get_own_rows [unfolded tenant_rows_def])


section \<open>The durable repository refines the in-memory one\<close>

fun im_apply :: "InMemoryJobRepository \<Rightarrow> repo_op \<Rightarrow> JobError + InMemoryJobRepository" where
  "im_apply r (RAdd job) = Inr (InMemoryJobRepository_add r job)"
| "im_apply r (RUpdate job) = InMemoryJobRepository_update r job"
| "im_apply r (RAddEvidence e) = InMemoryJobRepository_add_evidence r e"
| "im_apply r (RRecordInvocation i) = Inr (InMemoryJobRepository_record_invocation r i)"
| "im_apply r (RReplaceFindings t j fs) = InMemoryJobRepository_replace_findings r t j fs"
| "im_apply r (RRecordPublication p) = InMemoryJobRepository_record_publication r p"

text \<open>The error a call raises, if any, and the store after it.\<close>

definition call :: "'r \<Rightarrow> 'e + 'r \<Rightarrow> 'e option \<times> 'r" where
  "call r res = (case res of Inl e \<Rightarrow> (Some e, r) | Inr r' \<Rightarrow> (None, r'))"

fun im_run :: "InMemoryJobRepository \<Rightarrow> repo_op list \<Rightarrow> JobError option list \<times> InMemoryJobRepository" where
  "im_run r [] = ([], r)"
| "im_run r (op # ops) = (let (e, r1) = call r (im_apply r op); (es, r2) = im_run r1 ops in (e # es, r2))"

fun pg_run :: "pg_role \<Rightarrow> (row list \<Rightarrow> row list) \<Rightarrow> pg_tables \<Rightarrow> repo_op list \<Rightarrow> PgError option list \<times> pg_tables" where
  "pg_run role scan db [] = ([], db)"
| "pg_run role scan db (op # ops) =
     (let (e, db1) = call db (pg_apply role scan db op); (es, db2) = pg_run role scan db1 ops in (e # es, db2))"

text \<open>The calls the service makes: records that satisfy their models, storable text, generated identifiers
  that are new to the tenant, updates that keep what the job was commissioned with.\<close>

definition ids_of :: "('a \<Rightarrow> uuid) \<Rightarrow> string \<Rightarrow> (uuid \<Rightarrow> bool) \<Rightarrow> (job_key, 'a list) dict \<Rightarrow> uuid list" where
  "ids_of f t P d = concat [map f xs. ((u, j), xs) \<leftarrow> d, u = t \<and> P j]"

definition same_columns :: "ResearchJob \<Rightarrow> ResearchJob \<Rightarrow> bool" where
  "same_columns old job \<longleftrightarrow> same_commission old job \<and> rj_constraints old = rj_constraints job \<and>
     rj_source_requirements old = rj_source_requirements job"

fun admissible :: "datetime \<Rightarrow> InMemoryJobRepository \<Rightarrow> repo_op \<Rightarrow> bool" where
  "admissible now r (RAdd job) \<longleftrightarrow> ResearchJob_valid job \<and> row_storable (job_parameters job) \<and>
     dict_get (im_jobs r) (rj_tenant_id job, rj_id job) = None"
| "admissible now r (RUpdate job) \<longleftrightarrow> ResearchJob_valid job \<and> row_storable (job_parameters job) \<and>
     (case dict_get (im_jobs r) (rj_tenant_id job, rj_id job) of None \<Rightarrow> True | Some old \<Rightarrow> same_columns old job)"
| "admissible now r (RAddEvidence e) \<longleftrightarrow> EvidenceRecord_valid now e \<and> row_storable (evidence_parameters e) \<and>
     ev_id e \<notin> set (ids_of ev_id (ev_tenant_id e) (\<lambda>_. True) (im_evidence r))"
| "admissible now r (RRecordInvocation i) \<longleftrightarrow> ToolInvocation_valid i \<and> row_storable (invocation_parameters i) \<and>
     ti_id i \<notin> set (ids_of ti_id (ti_tenant_id i) (\<lambda>j. j \<noteq> ti_job_id i) (im_invocations r))"
| "admissible now r (RReplaceFindings t j fs) \<longleftrightarrow>
     list_all (\<lambda>f. FindingRecord_valid f \<and> fr_tenant_id f = t \<and> fr_job_id f = j \<and> row_storable (finding_parameters f 0)) fs \<and>
     distinct (map fr_id fs) \<and> set (map fr_id fs) \<inter> set (ids_of fr_id t (\<lambda>k. k \<noteq> j) (im_findings r)) = {}"
| "admissible now r (RRecordPublication p) \<longleftrightarrow> ReportPublication_valid p \<and> row_storable (publication_parameters p)"

fun admissible_run :: "datetime \<Rightarrow> InMemoryJobRepository \<Rightarrow> repo_op list \<Rightarrow> bool" where
  "admissible_run now r [] \<longleftrightarrow> True"
| "admissible_run now r (op # ops) \<longleftrightarrow> admissible now r op \<and> admissible_run now (snd (call r (im_apply r op))) ops"

text \<open>The abstraction: what the tables hold of a store.\<close>

definition table_holds :: "('a list \<Rightarrow> row list) \<Rightarrow> row list \<Rightarrow> (job_key \<Rightarrow> 'a list) \<Rightarrow> bool" where
  "table_holds enc rows g \<longleftrightarrow> (\<forall>r \<in> set rows. \<exists>t j. of_job t j r) \<and> (\<forall>t j. filter (of_job t j) rows = enc (g (t, j)))"

definition finding_rows :: "FindingRecord list \<Rightarrow> row list" where
  "finding_rows fs = map (\<lambda>(n, f). finding_parameters f n) (enumerate 0 fs)"

definition published :: "InMemoryJobRepository \<Rightarrow> job_key \<Rightarrow> ReportPublication list" where
  "published r key = (case dict_get (im_publications r) key of None \<Rightarrow> [] | Some p \<Rightarrow> [p])"

definition holds :: "pg_tables \<Rightarrow> InMemoryJobRepository \<Rightarrow> bool" where
  "holds db r \<longleftrightarrow>
     research_jobs db = map (\<lambda>(k, job). job_parameters job) (im_jobs r) \<and>
     table_holds (map evidence_parameters) (evidence_records db) (listed (im_evidence r)) \<and>
     table_holds (map invocation_parameters) (tool_invocations db) (listed (im_invocations r)) \<and>
     table_holds finding_rows (findings_table db) (listed (im_findings r)) \<and>
     table_holds (map publication_parameters) (report_publications db) (published r)"

definition well_stored :: "datetime \<Rightarrow> InMemoryJobRepository \<Rightarrow> bool" where
  "well_stored now r \<longleftrightarrow>
     dict_wf (im_jobs r) \<and> (\<forall>(k, job) \<in> set (im_jobs r). k = (rj_tenant_id job, rj_id job) \<and> ResearchJob_valid job) \<and>
     (\<forall>k. list_all (EvidenceRecord_valid now) (listed (im_evidence r) k)) \<and>
     (\<forall>k. list_all ToolInvocation_valid (listed (im_invocations r) k)) \<and>
     (\<forall>k. list_all FindingRecord_valid (listed (im_findings r) k)) \<and>
     (\<forall>k p. dict_get (im_publications r) k = Some p \<longrightarrow> ReportPublication_valid p)"

lemma row_key_simps [simp]:
  "row_tenant (job_parameters job) t \<longleftrightarrow> rj_tenant_id job = t"
  "is_job t j (job_parameters job) \<longleftrightarrow> rj_tenant_id job = t \<and> rj_id job = j"
  "of_job t j (evidence_parameters e) \<longleftrightarrow> ev_tenant_id e = t \<and> ev_job_id e = j"
  "of_job t j (invocation_parameters i) \<longleftrightarrow> ti_tenant_id i = t \<and> ti_job_id i = j"
  "of_job t j (finding_parameters f n) \<longleftrightarrow> fr_tenant_id f = t \<and> fr_job_id f = j"
  "of_job t j (publication_parameters p) \<longleftrightarrow> pu_tenant_id p = t \<and> pu_job_id p = j"
  by (simp_all add: row_tenant_def is_job_def of_job_def job_parameters_def evidence_parameters_def invocation_parameters_def
      finding_parameters_def publication_parameters_def)

lemma same_key_simps [simp]:
  "same_key [''tenant_id'', ''id''] (job_parameters job) (job_parameters job') \<longleftrightarrow>
     rj_tenant_id job = rj_tenant_id job' \<and> rj_id job = rj_id job'"
  "same_key [''tenant_id'', ''id''] (evidence_parameters e) (evidence_parameters e') \<longleftrightarrow>
     ev_tenant_id e = ev_tenant_id e' \<and> ev_id e = ev_id e'"
  "same_key [''tenant_id'', ''id''] (invocation_parameters i) (invocation_parameters i') \<longleftrightarrow>
     ti_tenant_id i = ti_tenant_id i' \<and> ti_id i = ti_id i'"
  "same_key [''tenant_id'', ''id''] (finding_parameters f n) (finding_parameters f' n') \<longleftrightarrow>
     fr_tenant_id f = fr_tenant_id f' \<and> fr_id f = fr_id f'"
  by (simp_all add: same_key_def job_parameters_def evidence_parameters_def invocation_parameters_def finding_parameters_def)

lemma policy_own_rows [simp]:
  "tenant_isolation (acting_for role (rj_tenant_id job)) (job_parameters job)"
  "tenant_isolation (acting_for role (ev_tenant_id e)) (evidence_parameters e)"
  "tenant_isolation (acting_for role (ti_tenant_id i)) (invocation_parameters i)"
  "tenant_isolation (acting_for role (fr_tenant_id f)) (finding_parameters f n)"
  "tenant_isolation (acting_for role (pu_tenant_id p)) (publication_parameters p)"
  by (simp_all add: tenant_isolation_def acting_for_def row_tenant_def job_parameters_def evidence_parameters_def
      invocation_parameters_def finding_parameters_def publication_parameters_def)

lemma of_job_unique: "of_job t j r \<Longrightarrow> of_job t' j' r \<Longrightarrow> t' = t \<and> j' = j"
  by (simp add: of_job_def row_tenant_def)

lemma set_listed: "listed (dict_set k xs d) = (listed d)(k := xs)"
  by (simp add: listed_def fun_eq_iff)

lemma published_set: "published (r\<lparr>im_publications := dict_set k p (im_publications r)\<rparr>) = (published r)(k := [p])"
  by (simp add: published_def fun_eq_iff)

lemma published_single: "length (published r key) \<le> 1"
  by (simp add: published_def split: option.splits)

lemma ids_of_listed:
  assumes "x \<in> set (listed d (t, j))" and "P j"
  shows "f x \<in> set (ids_of f t P d)"
proof -
  obtain xs where "dict_get d (t, j) = Some xs" "x \<in> set xs"
    using assms(1) by (cases "dict_get d (t, j)") (auto simp: listed_def)
  then have "((t, j), xs) \<in> set d" "x \<in> set xs" by (auto dest: map_of_SomeD)
  with assms(2) show ?thesis unfolding ids_of_def by auto (use \<open>x \<in> set xs\<close> in force)
qed

lemma table_holds_rows: "table_holds enc rows g \<Longrightarrow> of_job t j r \<Longrightarrow> r \<in> set rows \<longleftrightarrow> r \<in> set (enc (g (t, j)))"
  by (metis (mono_tags, lifting) filter_set mem_Collect_eq set_filter table_holds_def)

lemma table_holds_key: "table_holds enc rows g \<Longrightarrow> r \<in> set (enc (g (t, j))) \<Longrightarrow> of_job t j r"
  by (metis (mono_tags, lifting) mem_Collect_eq set_filter table_holds_def)

lemma table_holds_ex:
  assumes "table_holds enc rows g"
  shows "list_ex P rows \<longleftrightarrow> (\<exists>t j. \<exists>r \<in> set (enc (g (t, j))). P r)"
  using assms table_holds_rows [OF assms] table_holds_key [OF assms] unfolding list_ex_iff table_holds_def by blast

lemma table_holds_append:
  assumes "table_holds enc rows g" and "of_job t j r" and "enc xs = enc (g (t, j)) @ [r]"
  shows "table_holds enc (rows @ [r]) (g((t, j) := xs))"
proof -
  have "of_job t' j' r \<longleftrightarrow> (t', j') = (t, j)" for t' j' using of_job_unique [OF assms(2)] assms(2) by blast
  then have "filter (of_job t' j') (rows @ [r]) = enc ((g((t, j) := xs)) (t', j'))" for t' j'
    using assms by (simp add: table_holds_def)
  with assms(1,2) show ?thesis unfolding table_holds_def by auto
qed

text \<open>Jobs.\<close>

lemma job_rows_find:
  assumes "dict_wf d" and "\<forall>(k, job) \<in> set d. k = (rj_tenant_id job, rj_id job) \<and> ResearchJob_valid job"
  shows "filter (is_job t j) (map (\<lambda>(k, job). job_parameters job) d) =
    (case dict_get d (t, j) of None \<Rightarrow> [] | Some job \<Rightarrow> [job_parameters job])"
  using assms
proof (induction d)
  case (Cons kj d)
  obtain t' j' job where kj: "kj = ((t', j'), job)" by (metis prod.exhaust)
  have none: "dict_get d (t', j') = None" using Cons.prems(1) kj by (simp add: dict_wf_def map_of_eq_None_iff)
  have "rj_tenant_id job = t'" "rj_id job = j'" using Cons.prems(2) kj by auto
  with Cons.IH Cons.prems none kj show ?case by (auto simp: dict_wf_def split: option.splits)
qed simp

lemma single_scan: "mset (scan [r]) = mset [r] \<Longrightarrow> scan [r] = [r]"
  by simp

lemma empty_scan: "mset (scan []) = mset [] \<Longrightarrow> scan [] = []"
  by simp

lemma get_agrees:
  assumes scan: "\<forall>rs. mset (scan rs) = mset rs" and "holds db r" and "well_stored now r"
  shows "PostgresJobRepository_get role scan db t j = map_sum PgJob id (InMemoryJobRepository_get r t j)"
proof -
  have rows: "filter (is_job t j) (research_jobs db) =
      (case dict_get (im_jobs r) (t, j) of None \<Rightarrow> [] | Some job \<Rightarrow> [job_parameters job])"
    using assms(2,3) job_rows_find by (auto simp: holds_def well_stored_def)
  have valid: "dict_get (im_jobs r) (t, j) = Some job \<Longrightarrow> ResearchJob_valid job" for job
    using assms(3) by (auto simp: well_stored_def dest!: map_of_SomeD)
  show ?thesis
    using rows valid single_scan [of scan] empty_scan [of scan] scan
    by (auto simp: PostgresJobRepository_get_def InMemoryJobRepository_get_def model_validate_def row_roundtrips validated_def
        split: option.splits)
qed

lemma set_columns_job:
  assumes "same_columns old job"
  shows "set_columns updated_columns (job_parameters job) (job_parameters old) = job_parameters job"
  using assms by (simp add: set_columns_def updated_columns_def job_parameters_def same_columns_def same_commission_def)

lemma job_rows_update:
  assumes "dict_wf d" and "\<forall>(k, job) \<in> set d. k = (rj_tenant_id job, rj_id job) \<and> ResearchJob_valid job"
    and "dict_get d (rj_tenant_id job, rj_id job) = Some old" and "same_columns old job"
  shows "map (\<lambda>r. if is_job (rj_tenant_id job) (rj_id job) r then set_columns updated_columns (job_parameters job) r else r)
      (map (\<lambda>(k, job). job_parameters job) d) =
    map (\<lambda>(k, job). job_parameters job) (dict_set (rj_tenant_id job, rj_id job) job d)"
  using assms(1-3)
proof (induction d)
  case (Cons kj d)
  obtain t' j' job' where kj: "kj = ((t', j'), job')" by (metis prod.exhaust)
  have key: "rj_tenant_id job' = t'" "rj_id job' = j'" using Cons.prems(2) kj by auto
  show ?case
  proof (cases "(t', j') = (rj_tenant_id job, rj_id job)")
    case True
    then have "job' = old" using Cons.prems(3) kj by simp
    moreover have "(k, x) \<in> set d \<Longrightarrow> \<not> is_job (rj_tenant_id job) (rj_id job) (job_parameters x)" for k x
      using True Cons.prems(1,2) kj by (force simp: dict_wf_def)
    ultimately show ?thesis using True kj key set_columns_job [OF assms(4)] by (auto simp: split_beta)
  next
    case False
    with Cons kj key show ?thesis by (auto simp: dict_wf_def)
  qed
qed simp

text \<open>One call on both repositories.\<close>

definition agrees_after :: "datetime \<Rightarrow> PgError + pg_tables \<Rightarrow> JobError + InMemoryJobRepository \<Rightarrow> bool" where
  "agrees_after now p m \<longleftrightarrow> (case m of
     Inl e \<Rightarrow> p = Inl (PgJob e)
   | Inr r' \<Rightarrow> (\<exists>db'. p = Inr db' \<and> holds db' r' \<and> well_stored now r'))"

lemma agrees_after_simps [simp]:
  "agrees_after now p (Inl e) \<longleftrightarrow> p = Inl (PgJob e)"
  "agrees_after now (Inr db') (Inr r') \<longleftrightarrow> holds db' r' \<and> well_stored now r'"
  by (simp_all add: agrees_after_def)

lemma agrees_after_get:
  assumes "\<forall>rs. mset (scan rs) = mset rs" and "holds db r" and "well_stored now r"
    and "\<And>job. dict_get (im_jobs r) (t, j) = Some job \<Longrightarrow> agrees_after now p m"
  shows "agrees_after now (bind_result (PostgresJobRepository_get role scan db t j) (\<lambda>_. p))
    (bind_result (InMemoryJobRepository_get r t j) (\<lambda>_. m))"
  using assms(4) get_agrees [OF assms(1-3)] by (cases "dict_get (im_jobs r) (t, j)") (auto simp: InMemoryJobRepository_get_def)

lemma job_referenced_holds:
  assumes "holds db r" and "well_stored now r" and "dict_get (im_jobs r) (t, j) = Some job" and "of_job t j new"
  shows "job_referenced db new"
proof -
  have "((t, j), job) \<in> set (im_jobs r)" using assms(3) by (rule map_of_SomeD)
  then have "job_parameters job \<in> set (research_jobs db)" "is_job t j (job_parameters job)"
    using assms(1,2) by (force simp: holds_def, auto simp: well_stored_def)
  with assms(4) show ?thesis by (auto simp: job_referenced_def list_ex_iff is_job_def of_job_def row_tenant_def simp del: row_key_simps)
qed

lemma well_stored_put_job:
  assumes "well_stored now r" and "ResearchJob_valid job"
  shows "well_stored now (r\<lparr>im_jobs := dict_set (rj_tenant_id job, rj_id job) job (im_jobs r)\<rparr>)"
proof -
  have "(k, x) \<in> set (dict_set (rj_tenant_id job, rj_id job) job d) \<Longrightarrow> (k, x) \<in> set d \<or> (k, x) = ((rj_tenant_id job, rj_id job), job)"
    for k x d by (induction d) (auto split: if_splits)
  then have "\<forall>(k, x) \<in> set (dict_set (rj_tenant_id job, rj_id job) job (im_jobs r)). k = (rj_tenant_id x, rj_id x) \<and> ResearchJob_valid x"
    using assms unfolding well_stored_def by blast
  with assms(1) show ?thesis by (simp add: well_stored_def)
qed

lemma add_agrees:
  assumes "holds db r" and "well_stored now r" and "admissible now r (RAdd job)"
  shows "agrees_after now (PostgresJobRepository_add role db job) (Inr (InMemoryJobRepository_add r job))"
proof -
  have "(k, x) \<in> set (im_jobs r) \<Longrightarrow> \<not> (rj_tenant_id job = rj_tenant_id x \<and> rj_id job = rj_id x)" for k x
    using assms(2,3) weak_map_of_SomeI [of k x "im_jobs r"] by (auto simp: well_stored_def)
  then have "\<not> list_ex (same_key [''tenant_id'', ''id''] (job_parameters job)) (research_jobs db)"
    using assms(1) by (simp add: holds_def list_ex_iff split_beta) (metis prod.collapse)
  then have "PostgresJobRepository_add role db job = Inr (db\<lparr>research_jobs := research_jobs db @ [job_parameters job]\<rparr>)"
    using assms(3) by (simp add: PostgresJobRepository_add_def sql_insert_def)
  moreover have "holds (db\<lparr>research_jobs := research_jobs db @ [job_parameters job]\<rparr>) (InMemoryJobRepository_add r job)"
    using assms(1,3) by (simp add: holds_def InMemoryJobRepository_add_def dict_set_new published_def [abs_def])
  ultimately show ?thesis
    using well_stored_put_job [OF assms(2)] assms(3) by (simp add: InMemoryJobRepository_add_def)
qed

lemma update_agrees:
  assumes "holds db r" and "well_stored now r" and "admissible now r (RUpdate job)"
  shows "agrees_after now (PostgresJobRepository_update role db job) (InMemoryJobRepository_update r job)"
proof (cases "dict_get (im_jobs r) (rj_tenant_id job, rj_id job)")
  case None
  have "filter (is_job (rj_tenant_id job) (rj_id job)) (research_jobs db) = []"
    using job_rows_find [of "im_jobs r" "rj_tenant_id job" "rj_id job"] None assms(1,2) by (simp add: holds_def well_stored_def)
  with None show ?thesis
    by (simp add: PostgresJobRepository_update_def InMemoryJobRepository_update_def sql_update_def Let_def)
next
  case (Some old)
  let ?rows = "map (\<lambda>(k, job). job_parameters job) (dict_set (rj_tenant_id job, rj_id job) job (im_jobs r))"
  have old: "same_columns old job" using Some assms(3) by simp
  have touched: "filter (is_job (rj_tenant_id job) (rj_id job)) (research_jobs db) = [job_parameters old]"
    using job_rows_find [of "im_jobs r" "rj_tenant_id job" "rj_id job"] Some assms(1,2) by (simp add: holds_def well_stored_def)
  have policy: "tenant_isolation (acting_for role (rj_tenant_id job)) x \<and> is_job (rj_tenant_id job) (rj_id job) x \<longleftrightarrow>
      is_job (rj_tenant_id job) (rj_id job) x" for x
    by (auto simp: tenant_isolation_def acting_for_def is_job_def)
  have "PostgresJobRepository_update role db job = Inr (db\<lparr>research_jobs := ?rows\<rparr>)"
    using touched set_columns_job [OF old] assms job_rows_update [OF _ _ Some old]
    by (simp add: PostgresJobRepository_update_def sql_update_def policy holds_def well_stored_def Let_def)
  moreover have "holds (db\<lparr>research_jobs := ?rows\<rparr>) (r\<lparr>im_jobs := dict_set (rj_tenant_id job, rj_id job) job (im_jobs r)\<rparr>)"
    using assms(1) by (simp add: holds_def published_def [abs_def])
  ultimately show ?thesis
    using Some well_stored_put_job [OF assms(2)] assms(3) by (simp add: InMemoryJobRepository_update_def)
qed

lemma add_evidence_agrees:
  assumes scan: "\<forall>rs. mset (scan rs) = mset rs" and "holds db r" and "well_stored now r" and "admissible now r (RAddEvidence e)"
  shows "agrees_after now (PostgresJobRepository_add_evidence role scan db e) (InMemoryJobRepository_add_evidence r e)"
proof -
  let ?key = "(ev_tenant_id e, ev_job_id e)" and ?new = "evidence_parameters e"
  have table: "table_holds (map evidence_parameters) (evidence_records db) (listed (im_evidence r))" using assms(2) by (simp add: holds_def)
  have "ev_id e' \<noteq> ev_id e \<or> ev_tenant_id e' \<noteq> ev_tenant_id e" if "e' \<in> set (listed (im_evidence r) (t, j))" for e' t j
    using ids_of_listed [OF that, of "\<lambda>_. True" ev_id] table_holds_key [OF table, of "evidence_parameters e'" t j] that assms(4) by auto
  then have fresh: "\<not> list_ex (same_key [''tenant_id'', ''id''] ?new) (evidence_records db)"
    unfolding table_holds_ex [OF table] by simp metis
  have holds: "holds (db\<lparr>evidence_records := evidence_records db @ [?new]\<rparr>)
      (r\<lparr>im_evidence := dict_set ?key (listed (im_evidence r) ?key @ [e]) (im_evidence r)\<rparr>)"
    using assms(2) table_holds_append [OF table, of "ev_tenant_id e" "ev_job_id e" ?new "listed (im_evidence r) ?key @ [e]"]
    by (simp add: holds_def set_listed published_def [abs_def])
  have stored: "well_stored now (r\<lparr>im_evidence := dict_set ?key (listed (im_evidence r) ?key @ [e]) (im_evidence r)\<rparr>)"
    using assms(3,4) by (simp add: well_stored_def set_listed)
  show ?thesis unfolding PostgresJobRepository_add_evidence_def InMemoryJobRepository_add_evidence_def Let_def
  proof (rule agrees_after_get [OF assms(1-3)])
    fix job assume "dict_get (im_jobs r) ?key = Some job"
    from job_referenced_holds [OF assms(2,3) this, of ?new] fresh assms(4) holds stored
    show "agrees_after now (bind_result (insert_for_job role db (ev_tenant_id e) [''tenant_id'', ''id''] Refuse ?new (evidence_records db))
        (\<lambda>rows. Inr (db\<lparr>evidence_records := rows\<rparr>)))
      (Inr (r\<lparr>im_evidence := dict_set ?key (listed (im_evidence r) ?key @ [e]) (im_evidence r)\<rparr>))"
      by (simp add: insert_for_job_def sql_insert_def)
  qed
qed

lemma record_invocation_agrees:
  assumes "holds db r" and "well_stored now r" and "admissible now r (RRecordInvocation i)"
  shows "agrees_after now (PostgresJobRepository_record_invocation role db i) (Inr (InMemoryJobRepository_record_invocation r i))"
proof -
  let ?key = "(ti_tenant_id i, ti_job_id i)" and ?new = "invocation_parameters i"
  let ?recorded = "listed (im_invocations r) ?key"
  have table: "table_holds (map invocation_parameters) (tool_invocations db) (listed (im_invocations r))" using assms(1) by (simp add: holds_def)
  have other: "j = ti_job_id i" if "x \<in> set (listed (im_invocations r) (ti_tenant_id i, j))" "ti_id x = ti_id i" for x j
    using ids_of_listed [OF that(1), of "\<lambda>j. j \<noteq> ti_job_id i" ti_id] that(2) assms(3) by auto
  have own: "ti_tenant_id x = t" if "x \<in> set (listed (im_invocations r) (t, j))" for x t j
    using table_holds_key [OF table, of "invocation_parameters x" t j] that by auto
  have conflict: "list_ex (same_key [''tenant_id'', ''id''] ?new) (tool_invocations db) \<longleftrightarrow> list_ex (\<lambda>x. ti_id x = ti_id i) ?recorded"
  proof
    assume "list_ex (same_key [''tenant_id'', ''id''] ?new) (tool_invocations db)"
    then obtain t j x where x: "x \<in> set (listed (im_invocations r) (t, j))" "ti_tenant_id x = ti_tenant_id i" "ti_id x = ti_id i"
      unfolding table_holds_ex [OF table] by auto
    with own [OF x(1)] other [of x j] show "list_ex (\<lambda>x. ti_id x = ti_id i) ?recorded" by (auto simp: list_ex_iff)
  next
    assume "list_ex (\<lambda>x. ti_id x = ti_id i) ?recorded"
    then obtain x where "x \<in> set ?recorded" "ti_id x = ti_id i" by (auto simp: list_ex_iff)
    moreover from this have "ti_tenant_id x = ti_tenant_id i" using own by blast
    ultimately have "\<exists>y \<in> set (map invocation_parameters ?recorded). same_key [''tenant_id'', ''id''] ?new y"
      by (intro bexI [of _ "invocation_parameters x"]) simp_all
    then show "list_ex (same_key [''tenant_id'', ''id''] ?new) (tool_invocations db)"
      unfolding table_holds_ex [OF table] by blast
  qed
  have holds: "holds (db\<lparr>tool_invocations := (if list_ex (\<lambda>x. ti_id x = ti_id i) ?recorded then tool_invocations db
        else tool_invocations db @ [?new])\<rparr>) (InMemoryJobRepository_record_invocation r i)"
    using assms(1) table_holds_append [OF table, of "ti_tenant_id i" "ti_job_id i" ?new "?recorded @ [i]"]
    by (simp add: holds_def set_listed published_def [abs_def] InMemoryJobRepository_record_invocation_def Let_def)
  have "well_stored now (InMemoryJobRepository_record_invocation r i)"
    using assms(2,3) by (simp add: well_stored_def set_listed InMemoryJobRepository_record_invocation_def Let_def)
  with holds conflict assms(3) show ?thesis
    by (cases "list_ex (\<lambda>x. ti_id x = ti_id i) ?recorded") (simp_all add: PostgresJobRepository_record_invocation_def sql_insert_def)
qed

lemma finding_rows_Nil [simp]: "finding_rows [] = []"
  by (simp add: finding_rows_def)

lemma finding_rows_snoc: "finding_rows (fs @ [f]) = finding_rows fs @ [finding_parameters f (length fs)]"
  by (simp add: finding_rows_def enumerate_append_eq)

lemma finding_storable: "row_storable (finding_parameters f n) \<longleftrightarrow> row_storable (finding_parameters f 0)"
  by (simp add: row_storable_def finding_parameters_def)

lemma in_finding_rows: "r \<in> set (finding_rows fs) \<longleftrightarrow> (\<exists>n < length fs. r = finding_parameters (fs ! n) n)"
  by (force simp: finding_rows_def in_set_enumerate_eq)

lemma insert_findings_holds:
  assumes "\<And>new. of_job t j new \<Longrightarrow> job_referenced db new"
    and "list_all (\<lambda>f. fr_tenant_id f = t \<and> fr_job_id f = j \<and> row_storable (finding_parameters f 0)) fs"
    and "table_holds finding_rows rows (g((t, j) := before))" and "distinct (map fr_id (before @ fs))"
    and "\<And>k f f'. k \<noteq> j \<Longrightarrow> f' \<in> set (g (t, k)) \<Longrightarrow> f \<in> set fs \<Longrightarrow> fr_id f' \<noteq> fr_id f"
  shows "\<exists>rows'. insert_findings role db t (length before) fs rows = Inr rows' \<and> table_holds finding_rows rows' (g((t, j) := before @ fs))"
  using assms(2-5)
proof (induction fs arbitrary: before rows)
  case (Cons f fs)
  let ?new = "finding_parameters f (length before)" and ?g = "g((t, j) := before)"
  have f: "fr_tenant_id f = t" "fr_job_id f = j" "row_storable ?new" using Cons.prems(1) finding_storable by auto
  have ref: "job_referenced db ?new" using assms(1) [of ?new] f by simp
  have "\<not> same_key [''tenant_id'', ''id''] ?new r" if "r \<in> set (finding_rows (?g (u, k)))" for r u k
  proof -
    obtain n where n: "n < length (?g (u, k))" "r = finding_parameters (?g (u, k) ! n) n" using \<open>r \<in> _\<close> in_finding_rows by blast
    have "of_job u k r" by (rule table_holds_key [OF Cons.prems(2) that])
    then have "fr_tenant_id (?g (u, k) ! n) = u" using n by simp
    moreover have "fr_id (?g (u, k) ! n) \<noteq> fr_id f" if "u = t"
      using Cons.prems(3) Cons.prems(4) [of k "g (t, k) ! n" f] n(1) that by (cases "k = j") (auto simp: image_iff, metis nth_mem)
    ultimately show ?thesis using n(2) f(1) by auto
  qed
  then have "\<not> list_ex (same_key [''tenant_id'', ''id''] ?new) rows" unfolding table_holds_ex [OF Cons.prems(2)] by blast
  then have ins: "insert_for_job role db t [''tenant_id'', ''id''] Refuse ?new rows = Inr (rows @ [?new])"
    using f ref policy_own_rows(4) [of role f "length before"] by (simp add: insert_for_job_def sql_insert_def)
  have "table_holds finding_rows (rows @ [?new]) (?g((t, j) := before @ [f]))"
    by (rule table_holds_append [OF Cons.prems(2)]) (use f in \<open>simp_all add: finding_rows_snoc\<close>)
  then have "table_holds finding_rows (rows @ [?new]) (g((t, j) := before @ [f]))" by (simp only: fun_upd_upd)
  from Cons.IH [OF _ this] Cons.prems(1,3,4) ins show ?case by auto
qed simp

lemma table_holds_delete:
  assumes "table_holds enc rows g" and "enc [] = []"
  shows "table_holds enc (sql_delete (acting_for role t) (of_job t j) rows) (g((t, j) := []))"
proof -
  have rows: "sql_delete (acting_for role t) (of_job t j) rows = filter (\<lambda>r. \<not> of_job t j r) rows"
    by (auto simp: sql_delete_def tenant_isolation_def acting_for_def of_job_def intro!: filter_cong)
  have "filter (of_job t' j') (filter (\<lambda>r. \<not> of_job t j r) rows) = (if (t', j') = (t, j) then [] else filter (of_job t' j') rows)" for t' j'
    using of_job_unique [of t' j' _ t j] by (auto intro!: filter_cong simp: filter_empty_conv)
  with assms show ?thesis by (auto simp: table_holds_def rows)
qed

lemma replace_findings_agrees:
  assumes scan: "\<forall>rs. mset (scan rs) = mset rs" and "holds db r" and "well_stored now r" and "admissible now r (RReplaceFindings t j fs)"
  shows "agrees_after now (PostgresJobRepository_replace_findings role scan db t j fs) (InMemoryJobRepository_replace_findings r t j fs)"
  unfolding PostgresJobRepository_replace_findings_def InMemoryJobRepository_replace_findings_def
proof (rule agrees_after_get [OF assms(1-3)])
  fix job assume job: "dict_get (im_jobs r) (t, j) = Some job"
  let ?rows = "sql_delete (acting_for role t) (of_job t j) (findings_table db)" and ?g = "listed (im_findings r)"
  have adm: "list_all (\<lambda>f. fr_tenant_id f = t \<and> fr_job_id f = j \<and> row_storable (finding_parameters f 0)) fs" "distinct (map fr_id fs)"
    "list_all FindingRecord_valid fs"
    using assms(4) by (auto simp: list_all_iff)
  have table: "table_holds finding_rows ?rows (?g((t, j) := []))"
    using assms(2) table_holds_delete [where enc = finding_rows] by (simp add: holds_def)
  have other: "fr_id f' \<noteq> fr_id f" if "k \<noteq> j" "f' \<in> set (?g (t, k))" "f \<in> set fs" for k f f'
    using ids_of_listed [OF that(2), of "\<lambda>k. k \<noteq> j" fr_id] that assms(4) by auto
  obtain rows' where rows': "insert_findings role db t 0 fs ?rows = Inr rows'" "table_holds finding_rows rows' (?g((t, j) := fs))"
    using insert_findings_holds [of t j db fs ?rows ?g "[]" role] job_referenced_holds [OF assms(2,3) job] adm table other by auto
  have "holds (db\<lparr>findings_table := rows'\<rparr>) (r\<lparr>im_findings := dict_set (t, j) fs (im_findings r)\<rparr>)"
    using assms(2) rows'(2) by (simp add: holds_def set_listed published_def [abs_def])
  moreover have "well_stored now (r\<lparr>im_findings := dict_set (t, j) fs (im_findings r)\<rparr>)"
    using assms(3) adm(3) by (simp add: well_stored_def set_listed)
  ultimately show "agrees_after now (bind_result (insert_findings role db t 0 fs ?rows) (\<lambda>rows. Inr (db\<lparr>findings_table := rows\<rparr>)))
      (Inr (r\<lparr>im_findings := dict_set (t, j) fs (im_findings r)\<rparr>))"
    using rows'(1) by simp
qed

lemma publication_key: "same_key [''tenant_id'', ''job_id''] (publication_parameters p) = of_job (pu_tenant_id p) (pu_job_id p)"
  by (auto simp: fun_eq_iff same_key_def of_job_def row_tenant_def publication_parameters_def)

lemma upsert_publication:
  assumes "table_holds (map publication_parameters) rows g" and "length (g (pu_tenant_id p, pu_job_id p)) \<le> 1"
    and "row_storable (publication_parameters p)"
  shows "\<exists>rows'. sql_insert (acting_for role (pu_tenant_id p)) [''tenant_id'', ''job_id''] DoUpdate (publication_parameters p) rows = Inr rows' \<and>
    table_holds (map publication_parameters) rows' (g((pu_tenant_id p, pu_job_id p) := [p]))"
proof -
  let ?t = "pu_tenant_id p" and ?j = "pu_job_id p" and ?new = "publication_parameters p"
  have own: "filter (of_job ?t ?j) rows = map publication_parameters (g (?t, ?j))" using assms(1) by (simp add: table_holds_def)
  show ?thesis
  proof (cases "g (?t, ?j)")
    case Nil
    then have "\<not> list_ex (of_job ?t ?j) rows" using own by (auto simp: list_ex_iff filter_empty_conv)
    with assms(3) table_holds_append [OF assms(1), of ?t ?j ?new "[p]"] Nil show ?thesis
      by (simp add: sql_insert_def publication_key)
  next
    case (Cons q qs)
    then have one: "filter (of_job ?t ?j) rows = [publication_parameters q]" using own assms(2) by simp
    let ?rows = "map (\<lambda>r. if of_job ?t ?j r then ?new else r) rows"
    have "list_ex (of_job ?t ?j) rows" using one by (metis filter_eq_Cons_iff list_ex_iff in_set_conv_decomp)
    moreover have "\<not> list_ex (\<lambda>r. of_job ?t ?j r \<and> \<not> tenant_isolation (acting_for role ?t) r) rows"
      by (auto simp: list_ex_iff tenant_isolation_def acting_for_def of_job_def)
    ultimately have ins: "sql_insert (acting_for role ?t) [''tenant_id'', ''job_id''] DoUpdate ?new rows = Inr ?rows"
      using assms(3) by (simp add: sql_insert_def publication_key)
    have "filter (of_job t j) (map (\<lambda>r. if of_job ?t ?j r then ?new else r) xs) =
        (if (t, j) = (?t, ?j) then map (\<lambda>_. ?new) (filter (of_job ?t ?j) xs) else filter (of_job t j) xs)" for t j xs
      by (induction xs) (auto dest: of_job_unique)
    with one assms(1) have "table_holds (map publication_parameters) ?rows (g((?t, ?j) := [p]))"
      by (auto simp: table_holds_def)
    with ins show ?thesis by blast
  qed
qed

lemma record_publication_agrees:
  assumes scan: "\<forall>rs. mset (scan rs) = mset rs" and "holds db r" and "well_stored now r" and "admissible now r (RRecordPublication p)"
  shows "agrees_after now (PostgresJobRepository_record_publication role scan db p) (InMemoryJobRepository_record_publication r p)"
  unfolding PostgresJobRepository_record_publication_def InMemoryJobRepository_record_publication_def
proof (rule agrees_after_get [OF assms(1-3)])
  fix job assume job: "dict_get (im_jobs r) (pu_tenant_id p, pu_job_id p) = Some job"
  let ?r = "r\<lparr>im_publications := dict_set (pu_tenant_id p, pu_job_id p) p (im_publications r)\<rparr>"
  obtain rows' where rows': "sql_insert (acting_for role (pu_tenant_id p)) [''tenant_id'', ''job_id''] DoUpdate
        (publication_parameters p) (report_publications db) = Inr rows'"
    "table_holds (map publication_parameters) rows' ((published r)((pu_tenant_id p, pu_job_id p) := [p]))"
    using upsert_publication [of "report_publications db" "published r" p role] published_single assms(2,4)
    by (auto simp: holds_def)
  have "holds (db\<lparr>report_publications := rows'\<rparr>) ?r" using assms(2) rows'(2) by (simp add: holds_def published_set)
  moreover have "well_stored now ?r" using assms(3,4) by (simp add: well_stored_def)
  ultimately show "agrees_after now (bind_result (insert_for_job role db (pu_tenant_id p) [''tenant_id'', ''job_id''] DoUpdate
        (publication_parameters p) (report_publications db)) (\<lambda>rows. Inr (db\<lparr>report_publications := rows\<rparr>))) (Inr ?r)"
    using rows'(1) job_referenced_holds [OF assms(2,3) job, of "publication_parameters p"] by (simp add: insert_for_job_def)
qed

lemma apply_agrees:
  assumes "\<forall>rs. mset (scan rs) = mset rs" and "holds db r" and "well_stored now r" and "admissible now r op"
  shows "agrees_after now (pg_apply role scan db op) (im_apply r op)"
  using assms add_agrees update_agrees add_evidence_agrees record_invocation_agrees replace_findings_agrees record_publication_agrees
  by (cases op) (simp_all del: admissible.simps)

lemma run_agrees:
  assumes "\<forall>rs. mset (scan rs) = mset rs" and "holds db r" and "well_stored now r" and "admissible_run now r ops"
  shows "fst (pg_run role scan db ops) = map (map_option PgJob) (fst (im_run r ops)) \<and>
    holds (snd (pg_run role scan db ops)) (snd (im_run r ops)) \<and> well_stored now (snd (im_run r ops))"
  using assms(2-4)
proof (induction ops arbitrary: db r)
  case (Cons op ops)
  have agrees: "agrees_after now (pg_apply role scan db op) (im_apply r op)"
    using apply_agrees [OF assms(1)] Cons.prems by simp
  show ?case
  proof (cases "im_apply r op")
    case (Inl e)
    with agrees Cons.IH [of db r] Cons.prems show ?thesis by (simp add: call_def split_beta)
  next
    case (Inr r')
    with agrees obtain db' where "pg_apply role scan db op = Inr db'" "holds db' r'" "well_stored now r'"
      by (auto simp: agrees_after_def)
    with Inr Cons.IH [of db' r'] Cons.prems show ?thesis by (simp add: call_def split_beta)
  qed
qed simp

text \<open>What is read agrees: the same records, in the order the statement asks for.\<close>

lemma map_opt_all: "(\<And>x. x \<in> set xs \<Longrightarrow> f (g x) = Some x) \<Longrightarrow> map_opt f (map g xs) = Some xs"
  using map_opt_map [of xs f g "\<lambda>x. x"] by simp

lemma decode_permuted:
  assumes "mset zs = mset (map enc xs)" and "\<And>x. x \<in> set xs \<Longrightarrow> dec (enc x) = Some x"
  shows "\<exists>ys. model_validate_all dec zs = Inr ys \<and> mset ys = mset xs \<and> zs = map enc ys"
proof -
  let ?ys = "map (\<lambda>z. the (dec z)) zs"
  have set: "set zs = enc ` set xs" using arg_cong [OF assms(1), of set_mset] by simp
  have "mset ?ys = image_mset (\<lambda>z. the (dec z)) (mset (map enc xs))" using assms(1) by simp
  also have "\<dots> = image_mset (\<lambda>x. x) (mset xs)"
    unfolding mset_map multiset.map_comp by (rule image_mset_cong) (simp add: assms(2))
  finally have perm: "mset ?ys = mset xs" by simp
  have zs: "map enc ?ys = zs" unfolding map_map by (rule map_idI) (use set assms(2) in auto)
  have "map_opt dec (map enc ?ys) = Some ?ys"
    by (rule map_opt_all) (metis assms(2) perm set_mset_mset)
  with perm zs show ?thesis by (intro exI [of _ ?ys]) (simp add: model_validate_all_def)
qed

lemma decode_sorted:
  fixes key :: "'a \<Rightarrow> 'b::linorder"
  assumes "\<forall>rs. mset (scan rs) = mset rs" and "\<And>x. x \<in> set xs \<Longrightarrow> dec (enc x) = Some x" and "\<And>x. k (enc x) = key x"
  shows "\<exists>ys. model_validate_all dec (sort_key k (scan (map enc xs))) = Inr ys \<and> mset ys = mset xs \<and> sorted (map key ys)"
proof -
  obtain ys where ys: "model_validate_all dec (sort_key k (scan (map enc xs))) = Inr ys" "mset ys = mset xs"
    "sort_key k (scan (map enc xs)) = map enc ys"
    using decode_permuted [of "sort_key k (scan (map enc xs))" enc xs dec] assms(1,2) by auto
  have "sorted (map k (map enc ys))" unfolding ys(3) [symmetric] by (rule sorted_sort_key)
  with ys assms(3) show ?thesis by (auto simp: o_def)
qed

definition answers_agree ::
  "pg_role \<Rightarrow> (row list \<Rightarrow> row list) \<Rightarrow> datetime \<Rightarrow> pg_tables \<Rightarrow> InMemoryJobRepository \<Rightarrow> string \<Rightarrow> uuid \<Rightarrow> bool" where
  "answers_agree role scan now db r t j \<longleftrightarrow>
     PostgresJobRepository_get role scan db t j = map_sum PgJob id (InMemoryJobRepository_get r t j) \<and>
     (\<exists>jobs. PostgresJobRepository_list role scan db t = Inr jobs \<and> mset jobs = mset (InMemoryJobRepository_list r t) \<and>
        sorted (rev (map rj_created_at jobs))) \<and>
     (case InMemoryJobRepository_list_evidence r t j of
        Inl e \<Rightarrow> PostgresJobRepository_list_evidence role scan now db t j = Inl (PgJob e)
      | Inr es \<Rightarrow> (\<exists>es'. PostgresJobRepository_list_evidence role scan now db t j = Inr es' \<and> mset es' = mset es \<and>
          sorted (map ev_retrieved_at es'))) \<and>
     (\<exists>is. PostgresJobRepository_list_invocations role scan db t j = Inr is \<and>
        mset is = mset (InMemoryJobRepository_list_invocations r t j) \<and> sorted (map ti_started_at is)) \<and>
     PostgresJobRepository_list_findings role scan db t j = map_sum PgJob id (InMemoryJobRepository_list_findings r t j) \<and>
     PostgresJobRepository_get_publication role scan db t j = map_sum PgJob id (InMemoryJobRepository_get_publication r t j)"

lemma time_columns [simp]:
  "time_column ''created_at'' (job_parameters job) = rj_created_at job"
  "time_column ''retrieved_at'' (evidence_parameters e) = ev_retrieved_at e"
  "time_column ''started_at'' (invocation_parameters i) = ti_started_at i"
  "int_column ''position'' (finding_parameters f n) = int n"
  by (simp_all add: time_column_def int_column_def col_int_def job_parameters_def evidence_parameters_def invocation_parameters_def
      finding_parameters_def)

lemma tenant_job_rows:
  "filter (\<lambda>r. row_tenant r t) (map (\<lambda>(k, job). job_parameters job) d) =
   map job_parameters (filter (\<lambda>job. rj_tenant_id job = t) (map snd d))"
  by (induction d) auto

lemma tenant_jobs:
  assumes "\<forall>(k, job) \<in> set d. k = (rj_tenant_id job, rj_id job) \<and> ResearchJob_valid job"
  shows "[job. ((u, i), job) \<leftarrow> d, u = t] = filter (\<lambda>job. rj_tenant_id job = t) (map snd d)"
  using assms by (induction d) auto

lemma list_agrees:
  assumes scan: "\<forall>rs. mset (scan rs) = mset rs" and "holds db r" and "well_stored now r"
  shows "\<exists>jobs. PostgresJobRepository_list role scan db t = Inr jobs \<and> mset jobs = mset (InMemoryJobRepository_list r t) \<and>
    sorted (rev (map rj_created_at jobs))"
proof -
  let ?jobs = "filter (\<lambda>job. rj_tenant_id job = t) (map snd (im_jobs r))" and ?k = "time_column ''created_at''"
  let ?zs = "sort_key_reverse ?k (scan (map job_parameters ?jobs))"
  have rows: "filter (\<lambda>r. row_tenant r t) (research_jobs db) = map job_parameters ?jobs"
    using assms(2) by (simp add: holds_def tenant_job_rows)
  have valid: "job_of_row (job_parameters job) = Some job" if "job \<in> set ?jobs" for job
    using that assms(3) by (auto simp: well_stored_def row_roundtrips validated_def)
  have "mset ?zs = mset (map job_parameters ?jobs)" using scan by (simp add: sort_key_reverse_def)
  from decode_permuted [OF this valid] obtain ys where ys: "model_validate_all job_of_row ?zs = Inr ys" "mset ys = mset ?jobs"
    "?zs = map job_parameters ys" by blast
  have "sorted (map ?k (rev ?zs))" by (simp only: sort_key_reverse_def rev_rev_ident sorted_sort_key)
  then have "sorted (rev (map rj_created_at ys))" unfolding ys(3) by (simp add: rev_map [symmetric] o_def)
  moreover have "mset (InMemoryJobRepository_list r t) = mset ?jobs"
    using tenant_jobs [of "im_jobs r" t] assms(3) by (simp add: InMemoryJobRepository_list_def sort_key_reverse_def well_stored_def)
  ultimately show ?thesis using ys by (simp add: PostgresJobRepository_list_def rows)
qed

lemma table_rows: "table_holds enc rows g \<Longrightarrow> filter (of_job t j) rows = enc (g (t, j))"
  by (simp add: table_holds_def)

lemma list_evidence_agrees:
  assumes scan: "\<forall>rs. mset (scan rs) = mset rs" and "holds db r" and "well_stored now r"
  shows "case InMemoryJobRepository_list_evidence r t j of
      Inl e \<Rightarrow> PostgresJobRepository_list_evidence role scan now db t j = Inl (PgJob e)
    | Inr es \<Rightarrow> (\<exists>es'. PostgresJobRepository_list_evidence role scan now db t j = Inr es' \<and> mset es' = mset es \<and>
        sorted (map ev_retrieved_at es'))"
proof -
  have valid: "evidence_of_row now (evidence_parameters e) = Some e" if "e \<in> set (listed (im_evidence r) (t, j))" for e
    using that assms(3) by (auto simp: well_stored_def row_roundtrips validated_def list_all_iff)
  have rows: "filter (of_job t j) (evidence_records db) = map evidence_parameters (listed (im_evidence r) (t, j))"
    using assms(2) table_rows by (auto simp: holds_def)
  from decode_sorted [where enc = evidence_parameters and dec = "evidence_of_row now"
    and k = "time_column ''retrieved_at''" and key = ev_retrieved_at, OF scan valid time_columns(2)]
  show ?thesis using get_agrees [OF assms, of role t j]
    by (auto simp: PostgresJobRepository_list_evidence_def InMemoryJobRepository_list_evidence_def rows bind_result_def
        split: sum.splits)
qed

lemma list_invocations_agrees:
  assumes scan: "\<forall>rs. mset (scan rs) = mset rs" and "holds db r" and "well_stored now r"
  shows "\<exists>is. PostgresJobRepository_list_invocations role scan db t j = Inr is \<and>
    mset is = mset (InMemoryJobRepository_list_invocations r t j) \<and> sorted (map ti_started_at is)"
proof -
  have valid: "invocation_of_row (invocation_parameters i) = Some i" if "i \<in> set (listed (im_invocations r) (t, j))" for i
    using that assms(3) by (auto simp: well_stored_def row_roundtrips validated_def list_all_iff)
  have rows: "filter (of_job t j) (tool_invocations db) = map invocation_parameters (listed (im_invocations r) (t, j))"
    using assms(2) table_rows by (auto simp: holds_def)
  from decode_sorted [where enc = invocation_parameters and dec = invocation_of_row
    and k = "time_column ''started_at''" and key = ti_started_at, OF scan valid time_columns(3)]
  show ?thesis by (auto simp: PostgresJobRepository_list_invocations_def InMemoryJobRepository_list_invocations_def rows)
qed

lemma list_findings_agrees:
  assumes scan: "\<forall>rs. mset (scan rs) = mset rs" and "holds db r" and "well_stored now r"
  shows "PostgresJobRepository_list_findings role scan db t j = map_sum PgJob id (InMemoryJobRepository_list_findings r t j)"
proof -
  let ?fs = "listed (im_findings r) (t, j)"
  have keys: "map (int_column ''position'') (finding_rows ?fs) = map int [0..<length ?fs]"
    by (rule nth_equalityI) (simp_all add: finding_rows_def enumerate_eq_zip)
  then have "inj_on (int_column ''position'') (set (finding_rows ?fs))"
    by (metis distinct_map distinct_upt inj_on_of_nat)
  then have sorted: "sort_key (int_column ''position'') (scan (finding_rows ?fs)) = finding_rows ?fs"
    using sort_key_inj_key_eq [of "scan (finding_rows ?fs)" "finding_rows ?fs" "int_column ''position''"]
      mset_eq_setD [of "scan (finding_rows ?fs)" "finding_rows ?fs"] scan keys by (simp add: sorted_map mono_def)
  have valid: "FindingRecord_valid f" if "f \<in> set ?fs" for f using assms(3) that by (auto simp: well_stored_def list_all_iff)
  have "map_opt finding_of_row (finding_rows ?fs) = Some (map snd (enumerate 0 ?fs))"
    unfolding finding_rows_def using valid by (intro map_opt_map) (auto simp: in_set_enumerate_eq row_roundtrips validated_def)
  then have "model_validate_all finding_of_row (finding_rows ?fs) = Inr ?fs" by (simp add: model_validate_all_def)
  moreover have "filter (of_job t j) (findings_table db) = finding_rows ?fs" using assms(2) table_rows by (auto simp: holds_def)
  ultimately show ?thesis using sorted get_agrees [OF assms, of role t j]
    by (auto simp: PostgresJobRepository_list_findings_def InMemoryJobRepository_list_findings_def bind_result_def split: sum.splits)
qed

lemma get_publication_agrees:
  assumes scan: "\<forall>rs. mset (scan rs) = mset rs" and "holds db r" and "well_stored now r"
  shows "PostgresJobRepository_get_publication role scan db t j = map_sum PgJob id (InMemoryJobRepository_get_publication r t j)"
proof -
  have "filter (of_job t j) (report_publications db) = map publication_parameters (published r (t, j))"
    using assms(2) table_rows by (auto simp: holds_def)
  moreover have "\<forall>p. dict_get (im_publications r) (t, j) = Some p \<longrightarrow> ReportPublication_valid p"
    using assms(3) by (simp add: well_stored_def)
  ultimately show ?thesis using get_agrees [OF assms, of role t j] scan single_scan [of scan] empty_scan [of scan]
    by (auto simp: PostgresJobRepository_get_publication_def InMemoryJobRepository_get_publication_def bind_result_def
        published_def model_validate_def row_roundtrips validated_def split: sum.splits option.splits)
qed

lemma empty_holds: "holds empty_schema InMemoryJobRepository_init" "well_stored now InMemoryJobRepository_init"
  by (simp_all add: holds_def well_stored_def empty_schema_def InMemoryJobRepository_init_def table_holds_def listed_def published_def)

text \<open>
  C17. The durable repository refines the in-memory one: for any sequence of calls the service can make from
  an empty database, whatever order the engine scans rows in, both raise the same errors at the same
  calls, and afterwards every query answers alike: the same job, findings and publication, and the
  same jobs, evidence and audit records in the order the query promises.
\<close>

theorem postgres_refines_in_memory:
  assumes "\<forall>rs. mset (scan rs) = mset rs" and "admissible_run now InMemoryJobRepository_init ops"
  shows "fst (pg_run role scan empty_schema ops) = map (map_option PgJob) (fst (im_run InMemoryJobRepository_init ops)) \<and>
    (\<forall>t j. answers_agree role scan now (snd (pg_run role scan empty_schema ops)) (snd (im_run InMemoryJobRepository_init ops)) t j)"
proof -
  let ?db = "snd (pg_run role scan empty_schema ops)" and ?r = "snd (im_run InMemoryJobRepository_init ops)"
  have run: "fst (pg_run role scan empty_schema ops) = map (map_option PgJob) (fst (im_run InMemoryJobRepository_init ops))"
    and held: "holds ?db ?r" "well_stored now ?r"
    using run_agrees [OF assms(1) empty_holds assms(2)] by blast+
  show ?thesis unfolding answers_agree_def
    by (intro conjI allI run get_agrees list_agrees list_evidence_agrees list_invocations_agrees list_findings_agrees
        get_publication_agrees) (use assms(1) held in blast)+
qed

definition sample_job :: ResearchJob where
  "sample_job = new_job 1 0 ''acme'' ''u'' sample_command AC_INTERNAL"

definition sample_invocation :: ToolInvocation where
  "sample_invocation =
     \<lparr>ti_id = 7, ti_job_id = 1, ti_task_id = 2, ti_tenant_id = ''acme'', ti_mcp_server = ''s'', ti_capability = ''c'',
      ti_sanitized_arguments = [], ti_argument_digest = ''sha256:'' @ replicate 64 CHR ''0'', ti_policy_version = ''v'',
      ti_authorization_decision = AD_DENY, ti_outcome = IO_DENIED, ti_error_class = EC_POLICY_DENIED, ti_started_at = 1,
      ti_duration_ms = None\<rparr>"

definition sample_calls :: "repo_op list" where
  "sample_calls =
     [RAdd sample_job, RRecordInvocation sample_invocation,
      RUpdate (sample_job\<lparr>rj_status := JS_PLANNING, rj_updated_at := 5\<rparr>), RUpdate (sample_job\<lparr>rj_id := 2\<rparr>)]"

theorem postgres_refines_in_memory_witness:
  "length (fst (pg_run \<lparr>rolsuper = False, rolbypassrls = False\<rparr> rev empty_schema sample_calls)) = 4 \<and>
   answers_agree \<lparr>rolsuper = False, rolbypassrls = False\<rparr> rev 9
     (snd (pg_run \<lparr>rolsuper = False, rolbypassrls = False\<rparr> rev empty_schema sample_calls))
     (snd (im_run InMemoryJobRepository_init sample_calls)) ''acme'' 1"
proof -
  have "admissible_run 9 InMemoryJobRepository_init sample_calls" by code_simp
  from postgres_refines_in_memory [OF _ this, of rev "\<lparr>rolsuper = False, rolbypassrls = False\<rparr>"] show ?thesis
    by (simp add: sample_calls_def Let_def split_beta)
qed

text \<open>A role the policies bind.\<close>

theorem database_isolates_tenants_witness:
  "tenant_rows ''acme'' (snd (call empty_schema (pg_apply \<lparr>rolsuper = False, rolbypassrls = False\<rparr> rev empty_schema
     (RAdd (sample_job\<lparr>rj_tenant_id := ''evil''\<rparr>))))) = tenant_rows ''acme'' empty_schema"
proof -
  have role: "database_isolation_is_enforced (Some \<lparr>rolsuper = False, rolbypassrls = False\<rparr>)"
    by (simp add: database_isolation_is_enforced_def)
  show ?thesis
  proof (cases "pg_apply \<lparr>rolsuper = False, rolbypassrls = False\<rparr> rev empty_schema (RAdd (sample_job\<lparr>rj_tenant_id := ''evil''\<rparr>))")
    case (Inr db')
    with database_isolates_tenants [OF role, of "''acme''" empty_schema, THEN conjunct2, THEN conjunct2, THEN conjunct1,
        rule_format, of rev "RAdd (sample_job\<lparr>rj_tenant_id := ''evil''\<rparr>)" db']
    show ?thesis by (simp add: call_def)
  qed (simp add: call_def)
qed

end
