(* ===== verification/ServerText.thy ===== *)
theory ServerText
  imports Encoding
begin

text \<open>
  What the tool servers under \<open>mcp/servers/\<close> share: Python's \<open>repr\<close> of a string, which their
  refusals quote, and the outcome of a tool call, which is either a text or an error.
\<close>

section \<open>Quoted strings\<close>

definition is_printable :: "nat \<Rightarrow> bool" where
  "is_printable n \<longleftrightarrow> 32 \<le> n \<and> n < 127 \<or> 161 \<le> n \<and> n \<noteq> 173"

definition repr_char :: "char \<Rightarrow> char \<Rightarrow> string" where
  "repr_char quote c = (let n = (of_char c :: nat) in
     if c = quote \<or> n = 92 then [CHR 0x5C, c]
     else if n = 9 then [CHR 0x5C, CHR ''t'']
     else if n = 10 then [CHR 0x5C, CHR ''n'']
     else if n = 13 then [CHR 0x5C, CHR ''r'']
     else if is_printable n then [c]
     else CHR 0x5C # CHR ''x'' # hex_digits 2 n)"

text \<open>\<open>repr(s)\<close>: double quotes only when the string has a single quote and no double quote.\<close>

definition py_repr :: "string \<Rightarrow> string" where
  "py_repr s = (let quote = (if CHR 0x27 \<in> set s \<and> CHR 0x22 \<notin> set s then CHR 0x22 else CHR 0x27)
     in quote # concat (map (repr_char quote) s) @ [quote])"

text \<open>\<open>str(v)\<close> of a JSON value: a string is itself, everything else its \<open>repr\<close>.\<close>

fun val_repr :: "pyval \<Rightarrow> string" where
  "val_repr VNone = ''None''"
| "val_repr (VBool b) = (if b then ''True'' else ''False'')"
| "val_repr (VInt i) = py_str_int i"
| "val_repr (VStr s) = py_repr s"
| "val_repr (VList vs) = ''['' @ py_join '', '' (map val_repr vs) @ '']''"
| "val_repr (VDict kvs) = ''{'' @ py_join '', '' (map (\<lambda>(k, v). py_repr k @ '': '' @ val_repr v) kvs) @ ''}''"

definition py_str :: "pyval \<Rightarrow> string" where
  "py_str v = (case v of VStr s \<Rightarrow> s | _ \<Rightarrow> val_repr v)"

text \<open>The truth of a value.\<close>

definition py_truth :: "pyval \<Rightarrow> bool" where
  "py_truth v = (case v of VNone \<Rightarrow> False | VBool b \<Rightarrow> b | VInt i \<Rightarrow> i \<noteq> 0 | VStr s \<Rightarrow> s \<noteq> []
     | VList vs \<Rightarrow> vs \<noteq> [] | VDict kvs \<Rightarrow> kvs \<noteq> [])"


text \<open>What a \<open>for\<close> loop over a value yields; \<open>None\<close> is the \<open>TypeError\<close> of a value that cannot be iterated.\<close>

definition py_iter :: "pyval \<Rightarrow> pyval list option" where
  "py_iter v = (case v of
     VList vs \<Rightarrow> Some vs
   | VDict kvs \<Rightarrow> Some (map (\<lambda>(k, _). VStr k) kvs)
   | VStr s \<Rightarrow> Some (map (\<lambda>c. VStr [c]) s)
   | _ \<Rightarrow> None)"

text \<open>\<open>xs[:limit]\<close>, where a negative limit drops from the end.\<close>

definition py_take :: "int \<Rightarrow> 'a list \<Rightarrow> 'a list" where
  "py_take n xs = (if n \<ge> 0 then take (nat n) xs else take (length xs - nat (- n)) xs)"

lemma length_py_take: "0 \<le> n \<Longrightarrow> int (length (py_take n xs)) \<le> n"
  by (simp add: py_take_def)

text \<open>\<open>json.dumps(v, separators=(",", ":"))\<close>, which keeps the order of the keys.\<close>

fun json_text :: "pyval \<Rightarrow> string" where
  "json_text VNone = ''null''"
| "json_text (VBool b) = (if b then ''true'' else ''false'')"
| "json_text (VInt i) = py_str_int i"
| "json_text (VStr s) = json_string s"
| "json_text (VList vs) = ''['' @ py_join '','' (map json_text vs) @ '']''"
| "json_text (VDict kvs) = ''{'' @ py_join '','' (map (\<lambda>(k, v). json_string k @ '':'' @ json_text v) kvs) @ ''}''"


section \<open>Words and lines\<close>

text \<open>\<open>s.split()\<close>: the maximal runs of characters that are not white space.\<close>

fun words_from :: "string \<Rightarrow> string \<Rightarrow> string list" where
  "words_from w [] = (if w = [] then [] else [w])"
| "words_from w (c # cs) =
     (if is_space c then (if w = [] then words_from [] cs else w # words_from [] cs)
      else words_from (w @ [c]) cs)"

definition py_words :: "string \<Rightarrow> string list" where
  "py_words s = words_from [] s"

text \<open>\<open>s.splitlines()\<close> on code points below 256; a carriage return before a line feed counts once.\<close>

definition is_line_end :: "char \<Rightarrow> bool" where
  "is_line_end c \<longleftrightarrow> (let n = (of_char c :: nat) in 10 \<le> n \<and> n \<le> 13 \<or> 28 \<le> n \<and> n \<le> 30 \<or> n = 133)"

fun lines_from :: "string \<Rightarrow> string \<Rightarrow> string list" where
  "lines_from l [] = (if l = [] then [] else [l])"
| "lines_from l (c # cs) =
     (if is_line_end c
      then l # lines_from [] (if c = CHR 0x0D \<and> take 1 cs = [CHR 0x0A] then drop 1 cs else cs)
      else lines_from (l @ [c]) cs)"

definition py_splitlines :: "string \<Rightarrow> string list" where
  "py_splitlines s = lines_from [] s"

lemma words_from_nonspace:
  assumes "v \<in> set (words_from w s)" and "list_all (\<lambda>c. \<not> is_space c) w"
  shows "v \<noteq> [] \<and> list_all (\<lambda>c. \<not> is_space c) v"
  using assms
proof (induction s arbitrary: w)
  case (Cons c s)
  from Cons.prems consider "v \<in> set (words_from [] s)" | "v = w" "w \<noteq> []" | "\<not> is_space c" "v \<in> set (words_from (w @ [c]) s)"
    by (auto split: if_splits)
  then show ?case by cases (use Cons.IH Cons.prems(2) in auto)
qed (auto split: if_splits)

lemma py_words_nonspace: "v \<in> set (py_words s) \<Longrightarrow> v \<noteq> [] \<and> list_all (\<lambda>c. \<not> is_space c) v"
  using words_from_nonspace [of v "[]" s] by (simp add: py_words_def)

lemma set_words_from: "v \<in> set (words_from w s) \<Longrightarrow> set v \<subseteq> set w \<union> set s"
  by (induction w s rule: words_from.induct) (auto split: if_splits)

lemma set_py_words: "v \<in> set (py_words s) \<Longrightarrow> set v \<subseteq> set s"
  unfolding py_words_def using set_words_from [of v "[]" s] by simp


section \<open>Tool outcomes\<close>

text \<open>
  A tool answers a refusal as a \<open>ValueError\<close> with a message; an exception it does not expect
  escapes from it unchanged.
\<close>

datatype 'e ToolError = ToolRefused string | ToolEscaped 'e

definition tool_result :: "('e \<Rightarrow> string option) \<Rightarrow> 'e + 'a \<Rightarrow> 'e ToolError + 'a" where
  "tool_result message r = (case r of
     Inr x \<Rightarrow> Inr x
   | Inl e \<Rightarrow> Inl (case message e of None \<Rightarrow> ToolEscaped e | Some m \<Rightarrow> ToolRefused m))"

lemma tool_result_Inr_iff [simp]: "tool_result message r = Inr x \<longleftrightarrow> r = Inr x"
  by (auto simp: tool_result_def split: sum.splits)

end
