(* ===== verification/Provenance.thy ===== *)
theory Provenance
  imports Contracts Registry Invocations ServerText
begin

text \<open>
  Evidence from what the platform itself observed (\<open>agents/provenance.py\<close>): the ledger of a task's
  tool calls, and the verification that turns a researcher's claims into evidence records or
  refuses the whole submission. Unicode composition (NFC) is outside the program and the
  parameter \<open>nfc\<close> of the definitions that compare or hash text.
\<close>

section \<open>Normal form and content hash\<close>

text \<open>\<open>str.split()\<close> on code points: the characters for which \<open>str.isspace\<close> holds separate the words.\<close>

definition is_white :: "nat \<Rightarrow> bool" where
  "is_white n \<longleftrightarrow> 9 \<le> n \<and> n \<le> 13 \<or> 28 \<le> n \<and> n \<le> 32 \<or> n = 133 \<or> n = 160 \<or> n = 5760 \<or> 8192 \<le> n \<and> n \<le> 8202 \<or>
     n = 8232 \<or> n = 8233 \<or> n = 8239 \<or> n = 8287 \<or> n = 12288"

fun white_words :: "unicode \<Rightarrow> unicode \<Rightarrow> unicode list" where
  "white_words w [] = (if w = [] then [] else [w])"
| "white_words w (c # cs) =
     (if is_white c then (if w = [] then white_words [] cs else w # white_words [] cs)
      else white_words (w @ [c]) cs)"

definition normalize_text :: "(unicode \<Rightarrow> unicode) \<Rightarrow> unicode \<Rightarrow> unicode" where
  "normalize_text nfc s = py_join [32] (white_words [] (nfc s))"

definition hash_content :: "(unicode \<Rightarrow> unicode) \<Rightarrow> unicode \<Rightarrow> string" where
  "hash_content nfc s = ''sha256:'' @ sha256_hexdigest (utf8_encode (normalize_text nfc s))"


section \<open>What a call returned\<close>

definition SUMMARISING_CAPABILITIES :: "(string \<times> string) set" where
  "SUMMARISING_CAPABILITIES = {(''web-research'', ''search'')}"

definition argument_text :: "arguments \<Rightarrow> string \<Rightarrow> string" where
  "argument_text args k = (case dict_get args k of None \<Rightarrow> [] | Some v \<Rightarrow> py_str v)"

definition source_of :: "Capability \<Rightarrow> string \<Rightarrow> arguments \<Rightarrow> string" where
  "source_of c tenant_id args =
     (let key = (cap_server c, cap_name c) in
      if key = (''web-research'', ''fetch'') then py_strip (argument_text args ''url'')
      else if key = (''filesystem'', ''read_document'')
      then ''workspace://'' @ tenant_id @ ''/'' @ py_lstrip_char CHR ''/'' (argument_text args ''path'')
      else if cap_server c = ''github'' then ''https://github.com/'' @ py_strip (argument_text args ''repository'')
      else cap_server c @ ''://'' @ cap_name c @ ''/'' @ take 16 (py_removeprefix (argument_digest args) ''sha256:''))"

record ObservedContent =
  oc_invocation :: ToolInvocation
  oc_capability :: Capability
  oc_arguments :: arguments
  oc_text :: unicode

definition ObservedContent_source_uri :: "ObservedContent \<Rightarrow> string" where
  "ObservedContent_source_uri ob = source_of (oc_capability ob) (ti_tenant_id (oc_invocation ob)) (oc_arguments ob)"

definition ObservedContent_trust_level :: "ObservedContent \<Rightarrow> TrustLevel" where
  "ObservedContent_trust_level ob =
     (if (cap_server (oc_capability ob), cap_name (oc_capability ob)) \<in> SUMMARISING_CAPABILITIES then TL_SECONDARY else TL_PRIMARY)"

definition ObservedContent_access_class :: "ObservedContent \<Rightarrow> AccessClass" where
  "ObservedContent_access_class ob = cap_max_access_class (oc_capability ob)"

type_synonym EvidenceLedger = "(uuid, ObservedContent) dict"

definition EvidenceLedger_record ::
  "EvidenceLedger \<Rightarrow> ToolInvocation \<Rightarrow> Capability \<Rightarrow> arguments \<Rightarrow> unicode \<Rightarrow> EvidenceLedger" where
  "EvidenceLedger_record l i c args s =
     dict_set (ti_id i) \<lparr>oc_invocation = i, oc_capability = c, oc_arguments = args, oc_text = s\<rparr> l"

definition EvidenceLedger_get :: "EvidenceLedger \<Rightarrow> uuid \<Rightarrow> ObservedContent option" where
  "EvidenceLedger_get l i = dict_get l i"

definition EvidenceLedger_len :: "EvidenceLedger \<Rightarrow> nat" where
  "EvidenceLedger_len l = length l"


section \<open>Claims\<close>

record EvidenceClaim =
  cl_excerpt :: unicode
  cl_tool_invocation_id :: uuid
  cl_title :: "string option"
  cl_author :: "string option"
  cl_published_at :: "datetime option"

definition EvidenceClaim_valid :: "EvidenceClaim \<Rightarrow> bool" where
  "EvidenceClaim_valid c \<longleftrightarrow> nonempty_text (cl_excerpt c) \<and> opt_text 500 (cl_title c) \<and> opt_text 200 (cl_author c)"

record EvidenceClaims =
  cs_claims :: "EvidenceClaim list"
  cs_unmet_requirements :: "string list"

definition EvidenceClaims_valid :: "EvidenceClaims \<Rightarrow> bool" where
  "EvidenceClaims_valid s \<longleftrightarrow>
     1 \<le> length (cs_claims s) \<and> length (cs_claims s) \<le> 100 \<and> list_all EvidenceClaim_valid (cs_claims s) \<and>
     length (cs_unmet_requirements s) \<le> 20 \<and> list_all nonempty_text (cs_unmet_requirements s)"

text \<open>A refused submission, or a record the domain model does not accept.\<close>

datatype ClaimsError = UnverifiableEvidence string | ClaimsInvalid

definition evidence_record :: "(unicode \<Rightarrow> unicode) \<Rightarrow> uuid \<Rightarrow> ObservedContent \<Rightarrow> EvidenceClaim \<Rightarrow> EvidenceRecordCreate" where
  "evidence_record nfc task_id ob c =
     \<lparr>ev_excerpt = normalize_text nfc (cl_excerpt c), ev_source_uri = ObservedContent_source_uri ob, ev_title = cl_title c,
      ev_author = cl_author c, ev_published_at = cl_published_at c, ev_trust_level = ObservedContent_trust_level ob,
      ev_access_class = ObservedContent_access_class ob, ev_content_hash = hash_content nfc (cl_excerpt c),
      ev_producing_task_id = task_id, ev_tool_invocation_id = cl_tool_invocation_id c\<rparr>"

text \<open>The loop over the claims: the problems found and the records built so far, in order.\<close>

fun verify_each ::
  "(unicode \<Rightarrow> unicode) \<Rightarrow> EvidenceLedger \<Rightarrow> uuid \<Rightarrow> datetime \<Rightarrow> nat \<Rightarrow> EvidenceClaim list \<Rightarrow>
   string list \<Rightarrow> string list \<Rightarrow> EvidenceRecordCreate list \<Rightarrow> ClaimsError + string list \<times> EvidenceRecordCreate list" where
  "verify_each nfc ledger task_id now index [] seen problems records = Inr (problems, records)"
| "verify_each nfc ledger task_id now index (c # cs) seen problems records =
     (let at_claim = ''claims.'' @ py_str_nat index @ '': ''; call = uuid_str (cl_tool_invocation_id c) in
      case EvidenceLedger_get ledger (cl_tool_invocation_id c) of
        None \<Rightarrow> verify_each nfc ledger task_id now (index + 1) cs seen
          (problems @ [at_claim @ call @ '' is not a tool call this task made; cite the tool_invocation_id printed at the top of a tool result''])
          records
      | Some ob \<Rightarrow>
          if \<not> py_contains (normalize_text nfc (oc_text ob)) (normalize_text nfc (cl_excerpt c))
          then verify_each nfc ledger task_id now (index + 1) cs seen
            (problems @ [at_claim @ ''the excerpt does not appear in the output of tool call '' @ call @ ''; quote the result exactly''])
            records
          else (let content_hash = hash_content nfc (cl_excerpt c) in
            if content_hash \<in> set seen
            then verify_each nfc ledger task_id now (index + 1) cs seen
              (problems @ [at_claim @ ''the same excerpt was submitted more than once'']) records
            else (let r = evidence_record nfc task_id ob c in
              if EvidenceRecordCreate_valid now r
              then verify_each nfc ledger task_id now (index + 1) cs (content_hash # seen) problems (records @ [r])
              else Inl ClaimsInvalid)))"

definition verify_claims ::
  "(unicode \<Rightarrow> unicode) \<Rightarrow> EvidenceLedger \<Rightarrow> uuid \<Rightarrow> datetime \<Rightarrow> EvidenceClaims \<Rightarrow> ClaimsError + EvidenceSubmission" where
  "verify_claims nfc ledger task_id now claims =
     bind_result (verify_each nfc ledger task_id now 0 (cs_claims claims) [] [] []) (\<lambda>(problems, records).
       if problems \<noteq> [] then Inl (UnverifiableEvidence (py_join ''; '' problems))
       else (let s = \<lparr>es_records = records, es_unmet_requirements = cs_unmet_requirements claims\<rparr> in
             if EvidenceSubmission_valid now s then Inr s else Inl ClaimsInvalid))"


section \<open>Verified evidence\<close>

text \<open>The record a claim is entitled to, if any.\<close>

definition claim_record ::
  "(unicode \<Rightarrow> unicode) \<Rightarrow> EvidenceLedger \<Rightarrow> uuid \<Rightarrow> EvidenceClaim \<Rightarrow> EvidenceRecordCreate option" where
  "claim_record nfc ledger task_id c =
     (case EvidenceLedger_get ledger (cl_tool_invocation_id c) of
        None \<Rightarrow> None
      | Some ob \<Rightarrow> if py_contains (normalize_text nfc (oc_text ob)) (normalize_text nfc (cl_excerpt c))
          then Some (evidence_record nfc task_id ob c) else None)"

lemma claim_record_hash: "claim_record nfc l t c = Some r \<Longrightarrow> ev_content_hash r = hash_content nfc (cl_excerpt c)"
  by (auto simp: claim_record_def evidence_record_def split: option.splits if_splits)

lemma hash_content_pattern: "sha256_pattern (hash_content nfc s)"
  using set_sha256_hexdigest
  by (auto simp: sha256_pattern_def hash_content_def list_all_iff is_lower_hex_def)

text \<open>Problems only accumulate.\<close>

lemma verify_each_problems:
  "verify_each nfc l t now k cs seen ps rs = Inr (ps', rs') \<Longrightarrow> prefix ps ps'"
proof (induction cs arbitrary: k seen ps rs)
  case (Cons c cs)
  from Cons.prems show ?case by (auto simp: Let_def split: option.splits if_splits dest!: Cons.IH append_prefixD)
qed simp

lemma verify_each_clean:
  "verify_each nfc l t now k cs seen [] rs = Inr ([], rs') \<longleftrightarrow>
   (\<exists>new. those (map (claim_record nfc l t) cs) = Some new \<and> rs' = rs @ new \<and> list_all (EvidenceRecordCreate_valid now) new \<and>
     distinct (map ev_content_hash new) \<and> set (map ev_content_hash new) \<inter> set seen = {})"
proof (induction cs arbitrary: k seen rs)
  case (Cons c cs)
  have blocked: "verify_each nfc l t now k' cs seen' [p] rs'' \<noteq> Inr ([], rs')" for k' seen' p rs''
    using verify_each_problems [of nfc l t now k' cs seen' "[p]" rs''] by fastforce
  show ?case
  proof (cases "claim_record nfc l t c")
    case None
    with blocked show ?thesis by (auto simp: claim_record_def Let_def split: option.splits if_splits)
  next
    case (Some r)
    then obtain ob where ob: "EvidenceLedger_get l (cl_tool_invocation_id c) = Some ob"
      "py_contains (normalize_text nfc (oc_text ob)) (normalize_text nfc (cl_excerpt c))" "r = evidence_record nfc t ob c"
      by (auto simp: claim_record_def split: option.splits if_splits)
    note h = claim_record_hash [OF Some]
    show ?thesis
    proof (cases "hash_content nfc (cl_excerpt c) \<in> set seen \<or> \<not> EvidenceRecordCreate_valid now r")
      case True
      with ob Some h blocked show ?thesis by (auto simp: Let_def)
    next
      case False
      with ob Some h Cons.IH [of "k + 1" "hash_content nfc (cl_excerpt c) # seen" "rs @ [r]"] show ?thesis by (auto simp: Let_def)
    qed
  qed
qed auto

lemma verify_claims_records:
  "verify_claims nfc ledger task_id now claims = Inr s \<longleftrightarrow>
   (those (map (claim_record nfc ledger task_id) (cs_claims claims)) = Some (es_records s) \<and>
    es_unmet_requirements s = cs_unmet_requirements claims \<and> EvidenceSubmission_valid now s)"
proof -
  have "verify_claims nfc ledger task_id now claims = Inr s \<longleftrightarrow>
      verify_each nfc ledger task_id now 0 (cs_claims claims) [] [] [] = Inr ([], es_records s) \<and>
      es_unmet_requirements s = cs_unmet_requirements claims \<and> EvidenceSubmission_valid now s"
    by (cases s) (auto simp: verify_claims_def bind_result_Inr_iff Let_def split: if_splits)
  also have "\<dots> \<longleftrightarrow> those (map (claim_record nfc ledger task_id) (cs_claims claims)) = Some (es_records s) \<and>
      es_unmet_requirements s = cs_unmet_requirements claims \<and> EvidenceSubmission_valid now s"
    by (auto simp: verify_each_clean EvidenceSubmission_valid_def)
  finally show ?thesis .
qed

lemma those_in: "those (map f xs) = Some ys \<Longrightarrow> y \<in> set ys \<Longrightarrow> \<exists>x \<in> set xs. f x = Some y"
  by (induction xs arbitrary: ys) (auto split: option.splits)

text \<open>
  A submission is accepted exactly when every claim names a call recorded in the task's ledger whose
  output contains the claimed excerpt, no excerpt is claimed twice and the resulting records satisfy their
  model. The records are then the platform's own: source, trust, access class and content hash come from
  the recorded call and the excerpt's text, one per claim and in their order; one bad claim refuses all.
\<close>

theorem evidence_is_what_a_call_returned:
  "verify_claims nfc ledger task_id now claims = Inr s \<longleftrightarrow>
   (those (map (claim_record nfc ledger task_id) (cs_claims claims)) = Some (es_records s) \<and>
    es_unmet_requirements s = cs_unmet_requirements claims \<and> EvidenceSubmission_valid now s)"
  by (rule verify_claims_records)

end
