(* ===== verification/AgentLoop.thy ===== *)
theory AgentLoop
  imports Activities Provenance
begin

text \<open>
  Asking an agent for its contract (\<open>agents/validation.py\<close>, \<open>agents/flow.py\<close>, \<open>agents/crew.py\<close>): a response
  is parsed, validated and checked, and a rejected one is corrected a bounded number of times. The
  agent, the JSON decoder and the validation of a decoded document against a schema are parameters.
  An agent acts on a world of its own (its tools), which the checks may read. Tracing is left out.
\<close>

section \<open>One response\<close>

text \<open>A \<open>ValidationError\<close> with the path and message of each problem, or another \<open>ValueError\<close>.\<close>

datatype failure = ValidationFailure "(string list \<times> string) list" | ValueFailure string

definition describe_validation_failure :: "(string list \<times> string) list \<Rightarrow> string" where
  "describe_validation_failure problems =
     py_join ''; '' (map (\<lambda>(loc, msg). (let path = py_join ''.'' loc in if path = [] then ''(root)'' else path) @ '': '' @ msg) problems)"

fun failure_text :: "failure \<Rightarrow> string" where
  "failure_text (ValidationFailure problems) = describe_validation_failure problems"
| "failure_text (ValueFailure message) = message"

record ('d, 'c) contract =
  co_name :: string
  co_schema :: string
  co_loads :: "unicode \<Rightarrow> string + 'd"
  co_validate :: "'d \<Rightarrow> (string list \<times> string) list + 'c"

text \<open>\<open>str.strip()\<close> on code points.\<close>

definition strip_white :: "unicode \<Rightarrow> unicode" where
  "strip_white s = rev (dropWhile is_white (rev (dropWhile is_white s)))"

definition parse_agent_output :: "('d, 'c) contract \<Rightarrow> unicode \<Rightarrow> failure + 'c" where
  "parse_agent_output k raw =
     (let s = strip_white raw in
      if s = [] then Inl (ValueFailure ''the agent returned an empty response'')
      else (case co_loads k s of
          Inl msg \<Rightarrow> Inl (ValueFailure (''the agent response is not valid JSON: '' @ msg))
        | Inr document \<Rightarrow> (case co_validate k document of Inl ps \<Rightarrow> Inl (ValidationFailure ps) | Inr c \<Rightarrow> Inr c)))"

text \<open>The parsed contract once its references are verified, or what to tell the agent.\<close>

definition judged :: "('d, 'c) contract \<Rightarrow> ('s \<Rightarrow> 'c \<Rightarrow> failure + unit) option \<Rightarrow> 's \<Rightarrow> unicode \<Rightarrow> string + 'c" where
  "judged k verify s raw =
     (case parse_agent_output k raw of
        Inl f \<Rightarrow> Inl (failure_text f)
      | Inr c \<Rightarrow> (case verify of
            None \<Rightarrow> Inr c
          | Some check \<Rightarrow> (case check s c of Inl f \<Rightarrow> Inl (failure_text f) | Inr _ \<Rightarrow> Inr c)))"


section \<open>Bounded correction\<close>

definition DEFAULT_MAX_ATTEMPTS :: int where
  "DEFAULT_MAX_ATTEMPTS = 3"

text \<open>How asking ends without a contract: attempts used up, an exception of the agent, or an answer of another type.\<close>

datatype 'x AgentError =
    SchemaCorrectionExhausted string int "string list"
  | AgentRaised 'x
  | NotAnAgentOutput
  | NoAttemptAllowed

text \<open>\<open>BoundedSchemaCorrection.resolve\<close>: \<open>produce\<close> is told what was wrong with the previous response.\<close>

fun correction_rounds ::
  "('d, 'c) contract \<Rightarrow> ('s \<Rightarrow> 'c \<Rightarrow> failure + unit) option \<Rightarrow> (string option \<Rightarrow> 's \<Rightarrow> ('x AgentError + unicode) \<times> 's) \<Rightarrow> int \<Rightarrow>
   nat \<Rightarrow> string option \<Rightarrow> string list \<Rightarrow> 's \<Rightarrow> ('x AgentError + 'c) \<times> string list \<times> 's" where
  "correction_rounds k verify produce max_attempts 0 correction failures s =
     (Inl (SchemaCorrectionExhausted (co_name k) max_attempts failures), failures, s)"
| "correction_rounds k verify produce max_attempts (Suc n) correction failures s =
     (case produce correction s of
        (Inl e, s') \<Rightarrow> (Inl e, failures, s')
      | (Inr raw, s') \<Rightarrow>
          (case judged k verify s' raw of
             Inr c \<Rightarrow> (Inr c, failures, s')
           | Inl f \<Rightarrow> correction_rounds k verify produce max_attempts n (Some f) (failures @ [f]) s'))"

definition BoundedSchemaCorrection_resolve ::
  "int \<Rightarrow> ('d, 'c) contract \<Rightarrow> (string option \<Rightarrow> 's \<Rightarrow> ('x AgentError + unicode) \<times> 's) \<Rightarrow> ('s \<Rightarrow> 'c \<Rightarrow> failure + unit) option \<Rightarrow> 's \<Rightarrow>
   ('x AgentError + 'c) \<times> string list \<times> 's" where
  "BoundedSchemaCorrection_resolve max_attempts k produce verify s =
     (if max_attempts < 1 then (Inl NoAttemptAllowed, [], s)
      else correction_rounds k verify produce max_attempts (nat max_attempts) None [] s)"

definition BoundedSchemaCorrection_attempts_used :: "string list \<Rightarrow> nat" where
  "BoundedSchemaCorrection_attempts_used failures = length failures"


section \<open>The flow\<close>

text \<open>What the agent answers to a message: an exception, something that is no agent output, or its text and usage.\<close>

type_synonym agent_usage = "(usage_figure \<times> usage_figure) option"
type_synonym ('s, 'x) kickoff_agent = "unicode \<Rightarrow> 's \<Rightarrow> ('x + (unicode \<times> agent_usage) option) \<times> 's"

record ContractState =
  fl_attempts :: int
  fl_raw :: unicode
  fl_failures :: "string list"

definition ContractState_new :: ContractState where
  "ContractState_new = \<lparr>fl_attempts = 0, fl_raw = [], fl_failures = []\<rparr>"

datatype flow_outcome = ACCEPTED | REJECTED | EXHAUSTED

definition AgentContractFlow_ask ::
  "('s, 'x) kickoff_agent \<Rightarrow> unicode \<Rightarrow> ContractState \<Rightarrow> AgentCallStats \<Rightarrow> 's \<Rightarrow> ('x AgentError + unit) \<times> ContractState \<times> AgentCallStats \<times> 's" where
  "AgentContractFlow_ask agent message st stats s =
     (let st1 = st\<lparr>fl_attempts := fl_attempts st + 1\<rparr> in
      case agent message s of
        (Inl x, s') \<Rightarrow> (Inl (AgentRaised x), st1, stats, s')
      | (Inr None, s') \<Rightarrow> (Inl NotAnAgentOutput, st1, stats, s')
      | (Inr (Some (raw, usage)), s') \<Rightarrow> (Inr (), st1\<lparr>fl_raw := raw\<rparr>, AgentCallStats_observe stats usage, s'))"

definition AgentContractFlow_judge ::
  "('d, 'c) contract \<Rightarrow> ('s \<Rightarrow> 'c \<Rightarrow> failure + unit) option \<Rightarrow> int \<Rightarrow> ContractState \<Rightarrow> 's \<Rightarrow> flow_outcome \<times> 'c option \<times> ContractState" where
  "AgentContractFlow_judge k verify max_attempts st s =
     (case judged k verify s (fl_raw st) of
        Inr c \<Rightarrow> (ACCEPTED, Some c, st)
      | Inl f \<Rightarrow> (if fl_attempts st \<ge> max_attempts then EXHAUSTED else REJECTED, None, st\<lparr>fl_failures := fl_failures st @ [f]\<rparr>))"

definition correction_message :: "unicode \<Rightarrow> string \<Rightarrow> unicode" where
  "correction_message instructions f =
     instructions @ [10, 10] @ codes (''Your previous response was rejected: '' @ f) @ [10] @
     codes ''Respond again with the corrected JSON only, and nothing else.''"

text \<open>The stages after the first request: judge, and while the response is rejected, correct and judge again.\<close>

function flow_stages ::
  "('d, 'c) contract \<Rightarrow> ('s \<Rightarrow> 'c \<Rightarrow> failure + unit) option \<Rightarrow> ('s, 'x) kickoff_agent \<Rightarrow> unicode \<Rightarrow> int \<Rightarrow> ContractState \<Rightarrow> AgentCallStats \<Rightarrow> 's \<Rightarrow>
   ('x AgentError + 'c option) \<times> ContractState \<times> AgentCallStats \<times> 's" where
  "flow_stages k verify agent instructions max_attempts st stats s =
     (case AgentContractFlow_judge k verify max_attempts st s of
        (ACCEPTED, c, st1) \<Rightarrow> (Inr c, st1, stats, s)
      | (EXHAUSTED, c, st1) \<Rightarrow> (Inr None, st1, stats, s)
      | (REJECTED, c, st1) \<Rightarrow>
          (case AgentContractFlow_ask agent (correction_message instructions (last (fl_failures st1))) st1 stats s of
             (Inl e, st2, stats2, s2) \<Rightarrow> (Inl e, st2, stats2, s2)
           | (Inr _, st2, stats2, s2) \<Rightarrow> flow_stages k verify agent instructions max_attempts st2 stats2 s2))"
  by pat_completeness auto

lemma ask_attempts: "AgentContractFlow_ask agent message st stats s = (r, st', stats', s') \<Longrightarrow> fl_attempts st' = fl_attempts st + 1"
  by (auto simp: AgentContractFlow_ask_def Let_def split: prod.splits sum.splits option.splits)

lemma judge_rejected:
  "AgentContractFlow_judge k verify max_attempts st s = (REJECTED, c, st') \<Longrightarrow> fl_attempts st' = fl_attempts st \<and> fl_attempts st < max_attempts"
  by (auto simp: AgentContractFlow_judge_def split: sum.splits if_splits)

termination flow_stages
  by (relation "measure (\<lambda>(k, verify, agent, instructions, max_attempts, st, stats, s). nat (max_attempts - fl_attempts st))")
    (auto simp: eq_commute [of "(_, _)"] dest!: judge_rejected dest: ask_attempts)

declare flow_stages.simps [simp del]

definition AgentContractFlow_accepted :: "('d, 'c) contract \<Rightarrow> ContractState \<Rightarrow> 'c option \<Rightarrow> 'x AgentError + 'c" where
  "AgentContractFlow_accepted k st c =
     (case c of None \<Rightarrow> Inl (SchemaCorrectionExhausted (co_name k) (fl_attempts st) (fl_failures st)) | Some x \<Rightarrow> Inr x)"

text \<open>The whole step: the flow is started and its accepted contract read.\<close>

definition AgentContractFlow_run ::
  "('d, 'c) contract \<Rightarrow> ('s \<Rightarrow> 'c \<Rightarrow> failure + unit) option \<Rightarrow> ('s, 'x) kickoff_agent \<Rightarrow> unicode \<Rightarrow> int \<Rightarrow> AgentCallStats \<Rightarrow> 's \<Rightarrow>
   ('x AgentError + 'c) \<times> ContractState \<times> AgentCallStats \<times> 's" where
  "AgentContractFlow_run k verify agent instructions max_attempts stats s =
     (if max_attempts < 1 then (Inl NoAttemptAllowed, ContractState_new, stats, s)
      else (case AgentContractFlow_ask agent instructions ContractState_new stats s of
          (Inl e, st1, stats1, s1) \<Rightarrow> (Inl e, st1, stats1, s1)
        | (Inr _, st1, stats1, s1) \<Rightarrow>
            (case flow_stages k verify agent instructions max_attempts st1 stats1 s1 of
               (Inl e, st2, stats2, s2) \<Rightarrow> (Inl e, st2, stats2, s2)
             | (Inr c, st2, stats2, s2) \<Rightarrow> (AgentContractFlow_accepted k st2 c, st2, stats2, s2))))"

definition describe_contract :: "('d, 'c) contract \<Rightarrow> unicode" where
  "describe_contract k =
     codes (''Respond with a single JSON object for a '' @ co_name k @ '', and nothing else: no prose and no code fence. '' @
       ''Use exactly the field names in this JSON Schema, and return an instance of it, not the schema itself.'') @ [10] @ codes (co_schema k)"

definition request_agent_output ::
  "('d, 'c) contract \<Rightarrow> ('s, 'x) kickoff_agent \<Rightarrow> unicode \<Rightarrow> int \<Rightarrow> ('s \<Rightarrow> 'c \<Rightarrow> failure + unit) option \<Rightarrow> AgentCallStats \<Rightarrow> 's \<Rightarrow>
   ('x AgentError + 'c) \<times> ContractState \<times> AgentCallStats \<times> 's" where
  "request_agent_output k agent instructions max_attempts verify stats s =
     AgentContractFlow_run k verify agent (instructions @ [10, 10] @ describe_contract k) max_attempts stats s"


section \<open>The flow and the reference loop\<close>

text \<open>The agent as a producer of responses: the first message, or the correction that names the failure.\<close>

definition produce_from :: "('s, 'x) kickoff_agent \<Rightarrow> unicode \<Rightarrow> string option \<Rightarrow> 's \<Rightarrow> ('x AgentError + unicode) \<times> 's" where
  "produce_from agent instructions correction s =
     (case agent (case correction of None \<Rightarrow> instructions | Some f \<Rightarrow> correction_message instructions f) s of
        (Inl x, s') \<Rightarrow> (Inl (AgentRaised x), s')
      | (Inr None, s') \<Rightarrow> (Inl NotAnAgentOutput, s')
      | (Inr (Some (raw, usage)), s') \<Rightarrow> (Inr raw, s'))"

text \<open>What both loops tell of a step: the result, the failures and the world after it.\<close>

definition flow_view ::
  "('d, 'c) contract \<Rightarrow> ('x AgentError + 'c option) \<times> ContractState \<times> AgentCallStats \<times> 's \<Rightarrow> ('x AgentError + 'c) \<times> string list \<times> 's" where
  "flow_view k res = (case res of (r, st, stats, s) \<Rightarrow>
     (case r of Inl e \<Rightarrow> Inl e | Inr c \<Rightarrow> AgentContractFlow_accepted k st c, fl_failures st, s))"

lemma flow_stages_rounds:
  assumes "fl_attempts st \<le> max_attempts"
  shows "flow_view k (flow_stages k verify agent instructions max_attempts st stats s) =
    (case judged k verify s (fl_raw st) of
       Inr c \<Rightarrow> (Inr c, fl_failures st, s)
     | Inl f \<Rightarrow> correction_rounds k verify (produce_from agent instructions) max_attempts (nat (max_attempts - fl_attempts st))
         (Some f) (fl_failures st @ [f]) s)"
  using assms
proof (induction k verify agent instructions max_attempts st stats s rule: flow_stages.induct)
  case (1 k verify agent instructions max_attempts st stats s)
  show ?case
  proof (cases "judged k verify s (fl_raw st)")
    case (Inr c)
    then show ?thesis
      by (simp add: flow_stages.simps flow_view_def AgentContractFlow_judge_def AgentContractFlow_accepted_def)
  next
    case (Inl f)
    show ?thesis
    proof (cases "fl_attempts st \<ge> max_attempts")
      case True
      with Inl 1(2) show ?thesis
        by (simp add: flow_stages.simps flow_view_def AgentContractFlow_judge_def AgentContractFlow_accepted_def)
    next
      case False
      let ?st = "st\<lparr>fl_failures := fl_failures st @ [f]\<rparr>"
      have judge: "AgentContractFlow_judge k verify max_attempts st s = (REJECTED, None, ?st)"
        using Inl False by (simp add: AgentContractFlow_judge_def)
      have n: "nat (max_attempts - fl_attempts st) = Suc (nat (max_attempts - (fl_attempts st + 1)))" using False by simp
      obtain r st2 stats2 s2 where ask: "AgentContractFlow_ask agent (correction_message instructions f) ?st stats s = (r, st2, stats2, s2)"
        by (metis prod.exhaust)
      then have ask': "AgentContractFlow_ask agent (correction_message instructions (last (fl_failures ?st))) ?st stats s = (r, st2, stats2, s2)"
        by simp
      have st2: "fl_attempts st2 = fl_attempts st + 1" "fl_failures st2 = fl_failures st @ [f]"
        using ask by (auto simp: AgentContractFlow_ask_def Let_def split: prod.splits sum.splits option.splits)
      have prod: "produce_from agent instructions (Some f) s = (case r of Inl e \<Rightarrow> Inl e | Inr _ \<Rightarrow> Inr (fl_raw st2), s2)"
        using ask by (auto simp: AgentContractFlow_ask_def produce_from_def Let_def split: prod.splits sum.splits option.splits)
      show ?thesis
      proof (cases r)
        case (Inl e)
        with judge ask st2 n prod \<open>judged k verify s (fl_raw st) = Inl f\<close> show ?thesis
          by (simp add: flow_stages.simps flow_view_def)
      next
        case (Inr u)
        have "flow_view k (flow_stages k verify agent instructions max_attempts st2 stats2 s2) =
          (case judged k verify s2 (fl_raw st2) of
             Inr c \<Rightarrow> (Inr c, fl_failures st2, s2)
           | Inl f \<Rightarrow> correction_rounds k verify (produce_from agent instructions) max_attempts (nat (max_attempts - fl_attempts st2))
               (Some f) (fl_failures st2 @ [f]) s2)"
          using 1(1) [OF judge [symmetric] refl refl ask' [symmetric] Inr refl refl] False st2 by simp
        with judge ask st2 n prod Inr \<open>judged k verify s (fl_raw st) = Inl f\<close> show ?thesis
          by (subst flow_stages.simps) (simp split: sum.splits)
      qed
    qed
  qed
qed

lemma flow_run_resolve:
  "(case AgentContractFlow_run k verify agent instructions max_attempts stats s of (r, st, stats', s') \<Rightarrow> (r, fl_failures st, s')) =
   BoundedSchemaCorrection_resolve max_attempts k (produce_from agent instructions) verify s"
proof (cases "max_attempts < 1")
  case True
  then show ?thesis by (simp add: AgentContractFlow_run_def BoundedSchemaCorrection_resolve_def ContractState_new_def)
next
  case False
  obtain r st1 stats1 s1 where ask: "AgentContractFlow_ask agent instructions ContractState_new stats s = (r, st1, stats1, s1)"
    by (metis prod.exhaust)
  have st1: "fl_attempts st1 = 1" "fl_failures st1 = []"
    using ask by (auto simp: AgentContractFlow_ask_def ContractState_new_def Let_def split: prod.splits sum.splits option.splits)
  have prod: "produce_from agent instructions None s = (case r of Inl e \<Rightarrow> Inl e | Inr _ \<Rightarrow> Inr (fl_raw st1), s1)"
    using ask by (auto simp: AgentContractFlow_ask_def produce_from_def Let_def split: prod.splits sum.splits option.splits)
  have n: "nat max_attempts = Suc (nat (max_attempts - 1))" using False by simp
  show ?thesis
  proof (cases r)
    case (Inl e)
    with False ask st1 prod n show ?thesis by (simp add: AgentContractFlow_run_def BoundedSchemaCorrection_resolve_def)
  next
    case (Inr u)
    obtain r2 st2 stats2 s2 where stages: "flow_stages k verify agent instructions max_attempts st1 stats1 s1 = (r2, st2, stats2, s2)"
      by (metis prod.exhaust)
    have "(case AgentContractFlow_run k verify agent instructions max_attempts stats s of (r, st, stats', s') \<Rightarrow> (r, fl_failures st, s')) =
        flow_view k (flow_stages k verify agent instructions max_attempts st1 stats1 s1)"
      using False ask Inr stages by (simp add: AgentContractFlow_run_def flow_view_def split: sum.splits)
    also have "\<dots> = BoundedSchemaCorrection_resolve max_attempts k (produce_from agent instructions) verify s"
      using flow_stages_rounds [of st1 max_attempts k verify agent instructions stats1 s1] False st1 prod n Inr
      by (simp add: BoundedSchemaCorrection_resolve_def split: sum.splits)
    finally show ?thesis .
  qed
qed

text \<open>How many responses a step asks for, and what is counted of them.\<close>

lemma flow_stages_bound:
  assumes "flow_stages k verify agent instructions max_attempts st stats s = (r, st', stats', s')" and "fl_attempts st \<le> max_attempts"
  shows "fl_attempts st \<le> fl_attempts st' \<and> fl_attempts st' \<le> max_attempts \<and>
    st_attempts stats' - st_attempts stats \<le> fl_attempts st' - fl_attempts st \<and>
    (is_ok r \<longrightarrow> st_attempts stats' - st_attempts stats = fl_attempts st' - fl_attempts st)"
  using assms
proof (induction k verify agent instructions max_attempts st stats s arbitrary: r st' stats' s' rule: flow_stages.induct)
  case (1 k verify agent instructions max_attempts st stats s)
  obtain o1 c st1 where judge: "AgentContractFlow_judge k verify max_attempts st s = (o1, c, st1)" by (metis prod.exhaust)
  have st1: "fl_attempts st1 = fl_attempts st" using judge by (auto simp: AgentContractFlow_judge_def split: sum.splits)
  show ?case
  proof (cases "o1 = REJECTED")
    case False
    with 1(2,3) judge st1 show ?thesis by (cases o1) (simp_all add: flow_stages.simps)
  next
    case True
    note lt = judge_rejected [OF judge [unfolded True]]
    obtain r2 st2 stats2 s2 where ask:
      "AgentContractFlow_ask agent (correction_message instructions (last (fl_failures st1))) st1 stats s = (r2, st2, stats2, s2)"
      by (metis prod.exhaust)
    note a = ask_attempts [OF ask]
    have stats2: "st_attempts stats2 = st_attempts stats + (if is_ok r2 then 1 else 0)"
      using ask by (auto simp: AgentContractFlow_ask_def AgentCallStats_observe_def Let_def split: prod.splits sum.splits option.splits)
    show ?thesis
    proof (cases r2)
      case (Inl e)
      with 1(2) judge ask True have "r = Inl e" "st' = st2" "stats' = stats2" by (auto simp: flow_stages.simps)
      with Inl a lt stats2 show ?thesis by simp
    next
      case (Inr u)
      then have "flow_stages k verify agent instructions max_attempts st2 stats2 s2 = (r, st', stats', s')"
        using 1(2) judge ask True by (subst (asm) flow_stages.simps) simp
      from 1(1) [OF judge [symmetric] True refl ask [symmetric] Inr refl refl this] a lt stats2 Inr show ?thesis by auto
    qed
  qed
qed

lemma resolve_verified:
  "correction_rounds k verify produce m n correction failures s = (Inr c, fs, s') \<Longrightarrow> \<exists>raw. judged k verify s' raw = Inr c"
  by (induction n arbitrary: correction failures s) (auto split: prod.splits sum.splits)

text \<open>
  C21. One agent step behaves as the bounded correction loop it implements: run as a flow of stages it gives
  the result, the failures and the effects of asking again with the last failure until a response is
  accepted or the attempts are used up. It always ends, asks at most the allowed number of times, and
  what it returns parsed, satisfied its schema and passed its check.
\<close>

theorem agent_step_is_bounded_correction:
  assumes "AgentContractFlow_run k verify agent instructions max_attempts stats s = (r, st, stats', s')"
  shows "(r, fl_failures st, s') = BoundedSchemaCorrection_resolve max_attempts k (produce_from agent instructions) verify s \<and>
    fl_attempts st \<le> max 0 max_attempts \<and> st_attempts stats' - st_attempts stats \<le> fl_attempts st \<and>
    (\<forall>c. r = Inr c \<longrightarrow> (\<exists>raw. parse_agent_output k raw = Inr c \<and> (\<forall>check. verify = Some check \<longrightarrow> is_ok (check s' c))))"
proof (intro conjI allI impI)
  show res: "(r, fl_failures st, s') = BoundedSchemaCorrection_resolve max_attempts k (produce_from agent instructions) verify s"
    using flow_run_resolve [of k verify agent instructions max_attempts stats s] assms by simp
  have "fl_attempts st \<le> max 0 max_attempts \<and> st_attempts stats' - st_attempts stats \<le> fl_attempts st"
  proof (cases "max_attempts < 1")
    case True
    with assms show ?thesis by (auto simp: AgentContractFlow_run_def ContractState_new_def)
  next
    case False
    obtain r1 st1 stats1 s1 where ask: "AgentContractFlow_ask agent instructions ContractState_new stats s = (r1, st1, stats1, s1)"
      by (metis prod.exhaust)
    have st1: "fl_attempts st1 = 1" "st_attempts stats1 - st_attempts stats \<le> 1"
      using ask by (auto simp: AgentContractFlow_ask_def AgentCallStats_observe_def ContractState_new_def Let_def
          split: prod.splits sum.splits option.splits)
    obtain r2 st2 stats2 s2 where stages: "flow_stages k verify agent instructions max_attempts st1 stats1 s1 = (r2, st2, stats2, s2)"
      by (metis prod.exhaust)
    from flow_stages_bound [OF stages] st1 False assms ask stages show ?thesis
      by (auto simp: AgentContractFlow_run_def split: sum.splits)
  qed
  then show "fl_attempts st \<le> max 0 max_attempts" "st_attempts stats' - st_attempts stats \<le> fl_attempts st" by auto
  fix c assume "r = Inr c"
  then have "correction_rounds k verify (produce_from agent instructions) max_attempts (nat max_attempts) None [] s = (Inr c, fl_failures st, s')"
    using res by (simp add: BoundedSchemaCorrection_resolve_def split: if_splits)
  from resolve_verified [OF this] obtain raw where "judged k verify s' raw = Inr c" by blast
  then show "\<exists>raw. parse_agent_output k raw = Inr c \<and> (\<forall>check. verify = Some check \<longrightarrow> is_ok (check s' c))"
    by (auto simp: judged_def is_ok_iff split: sum.splits option.splits)
qed

text \<open>An agent that needs one correction.\<close>

definition sample_contract :: "(unicode, unicode) contract" where
  "sample_contract = \<lparr>co_name = ''Plan'', co_schema = ''{}'', co_loads = Inr,
     co_validate = (\<lambda>d. if d = [111, 107] then Inr d else Inl [([''tasks''], ''Field required'')])\<rparr>"

definition sample_agent :: "(nat, unit) kickoff_agent" where
  "sample_agent message s = (Inr (Some (if s = 0 then [110, 111] else [111, 107, 10], None)), s + 1)"

lemma sample_produce:
  "produce_from sample_agent m c 0 = (Inr [110, 111], Suc 0)" "produce_from sample_agent m c (Suc 0) = (Inr [111, 107, 10], 2)"
  by (simp_all add: produce_from_def sample_agent_def)

lemma sample_judged:
  "judged sample_contract None (s :: nat) [110, 111] = Inl ''tasks: Field required''"
  "judged sample_contract None (s :: nat) [111, 107, 10] = Inr [111, 107]"
  by (simp_all add: judged_def parse_agent_output_def sample_contract_def strip_white_def is_white_def describe_validation_failure_def Let_def)

theorem agent_step_is_bounded_correction_witness:
  "\<exists>st stats'. AgentContractFlow_run sample_contract None sample_agent [63] 3 AgentCallStats_new 0 = (Inr [111, 107], st, stats', 2) \<and>
     fl_failures st = [''tasks: Field required''] \<and> fl_attempts st \<le> 3"
proof -
  obtain r st stats' s' where run: "AgentContractFlow_run sample_contract None sample_agent [63] 3 AgentCallStats_new 0 = (r, st, stats', s')"
    by (metis prod.exhaust)
  have "correction_rounds sample_contract None (produce_from sample_agent [63]) 3 (Suc (Suc (Suc 0))) None [] 0 =
      (Inr [111, 107], [''tasks: Field required''], 2)"
    by (simp add: sample_produce sample_judged)
  then have "BoundedSchemaCorrection_resolve 3 sample_contract (produce_from sample_agent [63]) None 0 =
      (Inr [111, 107], [''tasks: Field required''], 2)"
    by (simp add: BoundedSchemaCorrection_resolve_def numeral_3_eq_3 del: correction_rounds.simps)
  with run agent_step_is_bounded_correction [OF run] show ?thesis by auto
qed

end
