(* ===== verification/Checks.thy ===== *)
theory Checks
  imports Contracts ServerText
begin

text \<open>
  Whether an agent's references are real (\<open>agents/checks.py\<close>). Each check compares identifiers with
  what the job recorded and raises a \<open>ValueError\<close> that lists the problems; here \<open>Inl\<close> of its text.
\<close>

definition unknown_ids :: "uuid list \<Rightarrow> uuid set \<Rightarrow> string list" where
  "unknown_ids cited known = sorted_list_of_set (uuid_str ` (set cited - known))"

text \<open>A list of texts as an f-string shows it.\<close>

definition shown_list :: "string list \<Rightarrow> string" where
  "shown_list ss = val_repr (VList (map VStr ss))"

definition raise_problems :: "string list \<Rightarrow> string + unit" where
  "raise_problems problems = (if problems \<noteq> [] then Inl (py_join ''; '' problems) else Inr ())"

definition unknown_problem :: "string \<Rightarrow> nat \<Rightarrow> string \<Rightarrow> uuid list \<Rightarrow> uuid set \<Rightarrow> string list" where
  "unknown_problem part index message cited known =
     (let unknown = unknown_ids cited known in
      if unknown = [] then [] else [part @ ''.'' @ py_str_nat index @ '': '' @ message @ shown_list unknown])"

definition check_analysis :: "AnalysisResult \<Rightarrow> EvidenceRecord list \<Rightarrow> string + unit" where
  "check_analysis analysis evidence =
     (let known = set (map ev_id evidence) in
      raise_problems
        (concat (map (\<lambda>(index, f). unknown_problem ''findings'' index ''cites evidence that was never recorded: ''
            (pf_supporting_evidence_ids f @ pf_contradicting_evidence_ids f) known) (enumerate 0 (an_findings analysis))) @
         concat (map (\<lambda>(index, c). unknown_problem ''calculations'' index ''uses evidence that was never recorded: ''
            (cc_input_evidence_ids c) known) (enumerate 0 (an_calculations analysis)))))"

definition check_review :: "CriticReview \<Rightarrow> AnalysisResult \<Rightarrow> EvidenceRecord list \<Rightarrow> string + unit" where
  "check_review review analysis evidence =
     (let known = set (map ev_id evidence);
          proposed = map pf_claim (an_findings analysis);
          judged = map cv_claim (cr_verdicts review);
          contested = pf_claim ` {f \<in> set (an_findings analysis). pf_contradicting_evidence_ids f \<noteq> []}
      in raise_problems
        (concat (map (\<lambda>(index, v).
            (if cv_claim v \<notin> set proposed
             then [''verdicts.'' @ py_str_nat index @ '': judges a claim the analyst did not propose; repeat each proposed claim word for word''] else []) @
            unknown_problem ''verdicts'' index ''names conflicting evidence that was never recorded: '' (cv_conflicting_evidence_ids v) known)
            (enumerate 0 (cr_verdicts review))) @
         concat (map (\<lambda>(index, v).
            if cv_verdict v = CV_SUPPORTED \<and> cv_claim v \<in> contested
            then [''verdicts.'' @ py_str_nat index @ '': the analyst recorded evidence contradicting this claim, so it cannot be marked supported; '' @
                  ''mark it contradicted and name that evidence, or unsupported''] else [])
            (enumerate 0 (cr_verdicts review))) @
         concat (map (\<lambda>(index, claim).
            if claim \<notin> set judged then [''proposed finding '' @ py_str_nat index @ '' was given no verdict''] else [])
            (enumerate 0 proposed))))"

text \<open>The identifiers a report cites are a set; a citation that is no identifier raises too.\<close>

definition check_report :: "ResearchReport \<Rightarrow> EvidenceRecord list \<Rightarrow> string + unit" where
  "check_report report evidence =
     (let by_id = dict_of (map (\<lambda>r. (ev_id r, r)) evidence) in
      bind_result (ResearchReport_cited_evidence_ids report) (\<lambda>cited.
        let unknown = sorted_list_of_set (uuid_str ` {i \<in> cited. case dict_get by_id i of None \<Rightarrow> True | Some r \<Rightarrow> False});
            restricted = sorted_list_of_set (uuid_str ` {i \<in> cited. case dict_get by_id i of None \<Rightarrow> False | Some r \<Rightarrow> \<not> EvidenceRecord_is_publishable r})
        in raise_problems
          ((if unknown = [] then [] else [''cites evidence that was never recorded: '' @ shown_list unknown]) @
           (if restricted = [] then [] else [''cites restricted evidence that must not be published: '' @ shown_list restricted]))))"


section \<open>What passing a check means\<close>

lemma raise_problems_Inr: "raise_problems ps = Inr () \<longleftrightarrow> ps = []"
  by (simp add: raise_problems_def)

lemma unknown_problem_Nil: "unknown_problem part n message cited known = [] \<longleftrightarrow> set cited \<subseteq> known"
  by (simp add: unknown_problem_def unknown_ids_def Let_def)

lemma concat_enumerate_Nil:
  "concat (map (\<lambda>(n, x). f n x) (enumerate 0 xs)) = [] \<longleftrightarrow> (\<forall>n < length xs. f n (xs ! n) = [])"
proof
  assume "concat (map (\<lambda>(n, x). f n x) (enumerate 0 xs)) = []"
  then have "f n x = []" if "(n, x) \<in> set (enumerate 0 xs)" for n x using that by fastforce
  then show "\<forall>n < length xs. f n (xs ! n) = []" by (simp add: in_set_enumerate_eq)
qed (auto simp: in_set_enumerate_eq)

lemma cited_finite: "ResearchReport_cited_evidence_ids report = Inr cited \<Longrightarrow> finite cited"
  by (auto simp: ResearchReport_cited_evidence_ids_def bind_result_Inr_iff)

lemma check_analysis_passes:
  "check_analysis a evidence = Inr () \<longleftrightarrow>
   (\<forall>f \<in> set (an_findings a). set (pf_supporting_evidence_ids f) \<union> set (pf_contradicting_evidence_ids f) \<subseteq> set (map ev_id evidence)) \<and>
   (\<forall>c \<in> set (an_calculations a). set (cc_input_evidence_ids c) \<subseteq> set (map ev_id evidence))"
  by (simp only: check_analysis_def Let_def raise_problems_Inr append_is_Nil_conv concat_enumerate_Nil unknown_problem_Nil all_set_conv_all_nth set_append)

lemma check_review_passes:
  "check_review review a evidence = Inr () \<longleftrightarrow>
   set (map cv_claim (cr_verdicts review)) = set (map pf_claim (an_findings a)) \<and>
   (\<forall>v \<in> set (cr_verdicts review). set (cv_conflicting_evidence_ids v) \<subseteq> set (map ev_id evidence) \<and>
      (cv_verdict v = CV_SUPPORTED \<longrightarrow> (\<forall>f \<in> set (an_findings a). pf_claim f = cv_claim v \<longrightarrow> pf_contradicting_evidence_ids f = [])))"
proof -
  have if_Nil: "(if P then [x] else []) = [] \<longleftrightarrow> \<not> P" for P and x :: string by simp
  have passes: "check_review review a evidence = Inr () \<longleftrightarrow>
      (\<forall>v \<in> set (cr_verdicts review). \<not> cv_claim v \<notin> set (map pf_claim (an_findings a)) \<and>
        set (cv_conflicting_evidence_ids v) \<subseteq> set (map ev_id evidence)) \<and>
      (\<forall>v \<in> set (cr_verdicts review). \<not> (cv_verdict v = CV_SUPPORTED \<and>
        cv_claim v \<in> pf_claim ` {f \<in> set (an_findings a). pf_contradicting_evidence_ids f \<noteq> []})) \<and>
      (\<forall>c \<in> set (map pf_claim (an_findings a)). \<not> c \<notin> set (map cv_claim (cr_verdicts review)))"
    unfolding check_review_def Let_def raise_problems_Inr append_is_Nil_conv concat_enumerate_Nil unknown_problem_Nil if_Nil all_set_conv_all_nth
    by (rule refl)
  have same: "set (map cv_claim (cr_verdicts review)) = set (map pf_claim (an_findings a)) \<longleftrightarrow>
      (\<forall>v \<in> set (cr_verdicts review). cv_claim v \<in> set (map pf_claim (an_findings a))) \<and>
      (\<forall>c \<in> set (map pf_claim (an_findings a)). c \<in> set (map cv_claim (cr_verdicts review)))"
    by auto
  have contested: "c \<in> pf_claim ` {f \<in> A. Q f} \<longleftrightarrow> (\<exists>f \<in> A. pf_claim f = c \<and> Q f)" for c A Q by auto
  show ?thesis
    unfolding passes same contested not_not ball_conj_distrib de_Morgan_conj imp_conv_disj bex_simps ball_simps
    by (auto simp only: ball_conj_distrib)
qed

lemma check_report_passes:
  "check_report report evidence = Inr () \<longleftrightarrow>
   (\<exists>cited. ResearchReport_cited_evidence_ids report = Inr cited \<and>
     (\<forall>i \<in> cited. \<exists>r. dict_get (dict_of (map (\<lambda>r. (ev_id r, r)) evidence)) i = Some r \<and> EvidenceRecord_is_publishable r))"
proof -
  let ?get = "dict_get (dict_of (map (\<lambda>r. (ev_id r, r)) evidence))"
  have "check_report report evidence = Inr () \<longleftrightarrow> (\<exists>cited. ResearchReport_cited_evidence_ids report = Inr cited \<and>
      {i \<in> cited. case ?get i of None \<Rightarrow> True | Some r \<Rightarrow> False} = {} \<and>
      {i \<in> cited. case ?get i of None \<Rightarrow> False | Some r \<Rightarrow> \<not> EvidenceRecord_is_publishable r} = {})"
    by (auto simp: check_report_def bind_result_Inr_iff raise_problems_Inr sorted_list_of_set_eq_Nil_iff Let_def cited_finite split: if_splits)
  then show ?thesis by (fastforce split: option.splits)
qed

text \<open>
  C22. An agent's output passes its check exactly when its references are real: an analysis cites and
  computes with recorded evidence only; a review judges exactly the proposed claims, names recorded
  evidence, and supports no claim the analyst recorded evidence against; a report cites recorded evidence
  that may be published, and nothing else.
\<close>

theorem checks_accept_exactly_real_references:
  "(check_analysis a evidence = Inr () \<longleftrightarrow>
     (\<forall>f \<in> set (an_findings a). set (pf_supporting_evidence_ids f) \<union> set (pf_contradicting_evidence_ids f) \<subseteq> set (map ev_id evidence)) \<and>
     (\<forall>c \<in> set (an_calculations a). set (cc_input_evidence_ids c) \<subseteq> set (map ev_id evidence))) \<and>
   (check_review review a evidence = Inr () \<longleftrightarrow>
     set (map cv_claim (cr_verdicts review)) = set (map pf_claim (an_findings a)) \<and>
     (\<forall>v \<in> set (cr_verdicts review). set (cv_conflicting_evidence_ids v) \<subseteq> set (map ev_id evidence) \<and>
        (cv_verdict v = CV_SUPPORTED \<longrightarrow> (\<forall>f \<in> set (an_findings a). pf_claim f = cv_claim v \<longrightarrow> pf_contradicting_evidence_ids f = [])))) \<and>
   (check_report report evidence = Inr () \<longleftrightarrow>
     (\<exists>cited. ResearchReport_cited_evidence_ids report = Inr cited \<and>
       (\<forall>i \<in> cited. \<exists>r. dict_get (dict_of (map (\<lambda>r. (ev_id r, r)) evidence)) i = Some r \<and> EvidenceRecord_is_publishable r)))"
  by (intro conjI check_analysis_passes check_review_passes check_report_passes)

text \<open>An analysis that cites a record the job does not have, and the verdict on it.\<close>

theorem checks_accept_exactly_real_references_witness:
  "check_analysis \<lparr>an_findings = [\<lparr>pf_claim = ''c'', pf_supporting_evidence_ids = [3], pf_contradicting_evidence_ids = [], pf_calculation_ids = [],
     pf_confidence = 1\<rparr>], an_calculations = []\<rparr> [] \<noteq> Inr () \<and>
   check_review \<lparr>cr_verdicts = [\<lparr>cv_claim = ''c'', cv_verdict = CV_SUPPORTED, cv_reasoning = ''r'', cv_conflicting_evidence_ids = []\<rparr>],
     cr_coverage_gaps = []\<rparr> \<lparr>an_findings = [\<lparr>pf_claim = ''c'', pf_supporting_evidence_ids = [3], pf_contradicting_evidence_ids = [],
     pf_calculation_ids = [], pf_confidence = 1\<rparr>], an_calculations = []\<rparr> [] = Inr ()"
  using checks_accept_exactly_real_references
    [of "\<lparr>an_findings = [\<lparr>pf_claim = ''c'', pf_supporting_evidence_ids = [3], pf_contradicting_evidence_ids = [], pf_calculation_ids = [],
       pf_confidence = 1\<rparr>], an_calculations = []\<rparr>" "[]"
     "\<lparr>cr_verdicts = [\<lparr>cv_claim = ''c'', cv_verdict = CV_SUPPORTED, cv_reasoning = ''r'', cv_conflicting_evidence_ids = []\<rparr>],
       cr_coverage_gaps = []\<rparr>"]
  by simp

end
