(* ===== verification/AgentSteps.thy ===== *)
theory AgentSteps
  imports AgentLoop AgentTools Checks
begin

text \<open>
  The activities that run the agents (\<open>workflow/activities.py\<close>, \<open>agents/crew.py\<close>): what each
  specialist is, what it is asked, which tools it is handed and which check its answer has to pass.
  An agent is a parameter that acts on the gateway and on the ledger of its task; the decoding and
  the validation of its answers are pydantic's, the parameters in \<open>models\<close>. Metrics are left out.
\<close>

section \<open>The specialists\<close>

record AgentSpec =
  sc_role :: string
  sc_goal :: string
  sc_backstory :: string
  sc_contract :: string

fun AGENT_SPECS :: "AgentRole \<Rightarrow> AgentSpec" where
  "AGENT_SPECS AR_PLANNER =
     \<lparr>sc_role = ''Research planner'',
      sc_goal = ''Decompose the research assignment into ordered tasks with explicit evidence '' @
        ''requirements, assigning each to the specialist who should carry it out.'',
      sc_backstory = ''You read a research request and the metadata of the tools available to the '' @
        ''crew, and you break the work into tasks the researcher, analyst, critic and '' @
        ''reporter can execute. You never call a tool yourself.'',
      sc_contract = ''ResearchPlan''\<rparr>"
| "AGENT_SPECS AR_RESEARCHER =
     \<lparr>sc_role = ''Researcher'',
      sc_goal = ''Collect dated, source-attributed evidence for one task using only approved tools.'',
      sc_backstory = ''You gather evidence through the tools you were given, never from your own '' @
        ''recollection, and you record what you could not find rather than guessing at it. '' @
        ''Every excerpt you submit is quoted exactly from a tool result and names that '' @
        ''result's tool_invocation_id, because the platform checks each one.'',
      sc_contract = ''EvidenceClaims''\<rparr>"
| "AGENT_SPECS AR_ANALYST =
     \<lparr>sc_role = ''Analyst'',
      sc_goal = ''Compare the collected evidence and perform any calculations the findings depend on.'',
      sc_backstory = ''You turn evidence into claims. Every claim you propose names the evidence and '' @
        ''calculations it rests on, so a critic can check it without redoing your work.'',
      sc_contract = ''AnalysisResult''\<rparr>"
| "AGENT_SPECS AR_CRITIC =
     \<lparr>sc_role = ''Critic'',
      sc_goal = ''Judge each proposed claim against the evidence and name what the research '' @ ''failed to cover.'',
      sc_backstory = ''You are the last check before a person sees this research. A claim you cannot '' @
        ''verify against evidence is not supported, and a contradiction you find must name '' @
        ''the evidence it conflicts with.'',
      sc_contract = ''CriticReview''\<rparr>"
| "AGENT_SPECS AR_REPORTER =
     \<lparr>sc_role = ''Reporter'',
      sc_goal = ''Write the final report from claims the critic supported, citing evidence for '' @ ''every factual sentence.'',
      sc_backstory = ''You write for a reader who will follow every citation back to its source, so you '' @
        ''never state a fact you cannot cite and you say plainly when the report is partial.'',
      sc_contract = ''ResearchReport''\<rparr>"

text \<open>The framework's agent, as \<open>build_agent\<close> configures it.\<close>

record 'l crew_agent =
  ag_role :: string
  ag_goal :: string
  ag_backstory :: string
  ag_llm :: 'l
  ag_tools :: "CapabilityTool list"
  ag_allow_delegation :: bool

definition build_agent :: "AgentRole \<Rightarrow> 'l \<Rightarrow> CapabilityTool list option \<Rightarrow> 'l crew_agent" where
  "build_agent role llm tools =
     (let spec = AGENT_SPECS role in
      \<lparr>ag_role = sc_role spec, ag_goal = sc_goal spec, ag_backstory = sc_backstory spec, ag_llm = llm,
       ag_tools = (case tools of None \<Rightarrow> [] | Some ts \<Rightarrow> ts), ag_allow_delegation = False\<rparr>)"


section \<open>The activities' collaborators\<close>

text \<open>
  What an agent acts on: the gateway and the ledger of its task. The clock is that of the platform
  when the answer came back.
\<close>

record ('b, 'c) agent_world =
  aw_gateway :: "('b, 'c) CapabilityGateway"
  aw_ledger :: "EvidenceLedger option"
  aw_now :: datetime

text \<open>Pydantic's side: the schema of a named contract, the JSON decoder, and each contract's validation.\<close>

record 'd models =
  md_schema :: "string \<Rightarrow> string"
  md_loads :: "unicode \<Rightarrow> string + 'd"
  md_plan :: "'d \<Rightarrow> (string list \<times> string) list + ResearchPlan"
  md_claims :: "'d \<Rightarrow> (string list \<times> string) list + EvidenceClaims"
  md_analysis :: "'d \<Rightarrow> (string list \<times> string) list + AnalysisResult"
  md_review :: "'d \<Rightarrow> (string list \<times> string) list + CriticReview"
  md_report :: "'d \<Rightarrow> (string list \<times> string) list + ResearchReport"
  md_refused :: "EvidenceClaims \<Rightarrow> (string list \<times> string) list"

record ('b, 'c, 'd, 'x) ResearchActivities =
  ra_registry :: CapabilityRegistry
  ra_build_agent :: "AgentRole \<Rightarrow> CapabilityTool list \<Rightarrow> (('b, 'c) agent_world, 'x) kickoff_agent"
  ra_approval_provider :: "Capability \<Rightarrow> arguments \<Rightarrow> ApprovalRequest option"
  ra_pricing :: TokenPricing
  ra_models :: "'d models"

definition contract_for :: "'d models \<Rightarrow> AgentRole \<Rightarrow> ('d \<Rightarrow> (string list \<times> string) list + 'o) \<Rightarrow> ('d, 'o) contract" where
  "contract_for m role validate =
     (let name = sc_contract (AGENT_SPECS role) in
      \<lparr>co_name = name, co_schema = md_schema m name, co_loads = md_loads m, co_validate = validate\<rparr>)"

text \<open>How a step ends without a result.\<close>

datatype 'x StepError = StepLimit LimitError | StepAgent "'x AgentError" | StepClaims ClaimsError | StepNotAnAgent

definition spend_of :: "TokenPricing \<Rightarrow> AgentCallStats \<Rightarrow> pyfloat \<Rightarrow> agent_spend" where
  "spend_of pricing stats seconds =
     \<lparr>sp_prompt_tokens = st_prompt_tokens stats, sp_completion_tokens = st_completion_tokens stats,
      sp_cost_usd = TokenPricing_cost_of pricing (st_prompt_tokens stats) (st_completion_tokens stats),
      sp_active_seconds = seconds, sp_corrections = AgentCallStats_corrections stats\<rparr>"

text \<open>
  \<open>_ask\<close>: the budget is checked, the agent asked, and what it spent recorded whether it succeeded or
  not, on the budgets as its tools left them. \<open>seconds\<close> is what the monotonic clock measured.
\<close>

definition ResearchActivities_ask ::
  "'b Budgets \<Rightarrow> ('b, 'c, 'd, 'x) ResearchActivities \<Rightarrow> pyfloat \<Rightarrow> ResearchJob \<Rightarrow> ('d, 'o) contract \<Rightarrow>
   (('b, 'c) agent_world, 'x) kickoff_agent \<Rightarrow> unicode \<Rightarrow> (('b, 'c) agent_world \<Rightarrow> 'o \<Rightarrow> failure + unit) option \<Rightarrow>
   ('b, 'c) agent_world \<Rightarrow> ('x StepError + 'o) \<times> ('b, 'c) agent_world" where
  "ResearchActivities_ask bops self seconds job k agent instructions verify w =
     (case bg_ensure_within bops (gw_budgets (aw_gateway w)) (rj_id job) (rj_budget job) of
        Inl e \<Rightarrow> (Inl (StepLimit e), w)
      | Inr _ \<Rightarrow>
          (case request_agent_output k agent instructions DEFAULT_MAX_ATTEMPTS verify AgentCallStats_new w of
             (r, st, stats, w1) \<Rightarrow>
               (case bg_record_agent_call bops (gw_budgets (aw_gateway w1)) (rj_id job) (spend_of (ra_pricing self) stats seconds) of
                  (recorded, b) \<Rightarrow>
                    (let w2 = w1\<lparr>aw_gateway := (aw_gateway w1)\<lparr>gw_budgets := b\<rparr>\<rparr> in
                     case recorded of
                       Inl e \<Rightarrow> (Inl (StepLimit e), w2)
                     | Inr _ \<Rightarrow> (case r of Inl e \<Rightarrow> (Inl (StepAgent e), w2) | Inr result \<Rightarrow> (Inr result, w2))))))"


section \<open>The activities\<close>

text \<open>\<open>', '.join(items) or alternative\<close>\<close>

definition joined_or :: "string list \<Rightarrow> string \<Rightarrow> string" where
  "joined_or items alternative = (let s = py_join '', '' items in if s = [] then alternative else s)"

definition plan_instructions :: "CapabilityRegistry \<Rightarrow> ResearchJob \<Rightarrow> unicode" where
  "plan_instructions registry job =
     codes (''Research question: '' @ rj_question job) @ [10] @
     codes (''Constraints: '' @ joined_or (rj_constraints job) ''none'') @ [10] @
     codes (''Source requirements: '' @ joined_or (rj_source_requirements job) ''none'') @ [10, 10] @
     codes ''Capabilities available to the crew:'' @ [10] @
     py_join [10] (map codes (describe_visible_capabilities registry (principal_for job AR_PLANNER))) @ [10, 10] @
     codes ''Decompose this into a ResearchPlan.''"

definition ResearchActivities_plan ::
  "'b Budgets \<Rightarrow> ('b, 'c, 'd, 'x) ResearchActivities \<Rightarrow> pyfloat \<Rightarrow> ResearchJob \<Rightarrow> ('b, 'c) agent_world \<Rightarrow>
   ('x StepError + ResearchPlan) \<times> ('b, 'c) agent_world" where
  "ResearchActivities_plan bops self seconds job w =
     ResearchActivities_ask bops self seconds job (contract_for (ra_models self) AR_PLANNER (md_plan (ra_models self)))
       (ra_build_agent self AR_PLANNER []) (plan_instructions (ra_registry self) job) None w"

definition research_instructions :: "ResearchTask \<Rightarrow> unicode" where
  "research_instructions task =
     codes (''Objective: '' @ rt_objective task) @ [10] @
     codes (''Evidence requirements: '' @ joined_or (rt_evidence_requirements task) ''none stated'') @ [10] @
     codes (''Source restrictions: '' @ joined_or (rt_source_restrictions task) ''none'') @ [10, 10] @
     codes (''Collect evidence with your tools and produce EvidenceClaims. Each claim '' @
       ''quotes an excerpt exactly as a tool returned it and gives the '' @
       ''tool_invocation_id printed at the top of that tool result. Record any '' @
       ''requirement you could not meet instead of guessing at it.'')"

text \<open>A refusal of claims as the correction loop sees it: a \<open>ValueError\<close>, or a model's \<open>ValidationError\<close>.\<close>

definition claims_checked :: "(unicode \<Rightarrow> unicode) \<Rightarrow> 'd models \<Rightarrow> uuid \<Rightarrow> ('b, 'c) agent_world \<Rightarrow> EvidenceClaims \<Rightarrow> failure + unit" where
  "claims_checked nfc m task_id w claims =
     (case verify_claims nfc (case aw_ledger w of None \<Rightarrow> [] | Some l \<Rightarrow> l) task_id (aw_now w) claims of
        Inl (UnverifiableEvidence msg) \<Rightarrow> Inl (ValueFailure msg)
      | Inl ClaimsInvalid \<Rightarrow> Inl (ValidationFailure (md_refused m claims))
      | Inr _ \<Rightarrow> Inr ())"

text \<open>\<open>later\<close> is the time that passes until the claims are verified once more.\<close>

definition ResearchActivities_research ::
  "(unicode \<Rightarrow> unicode) \<Rightarrow> 'b Budgets \<Rightarrow> ('b, 'c, 'd, 'x) ResearchActivities \<Rightarrow> pyfloat \<Rightarrow> timedelta \<Rightarrow> ResearchJob \<Rightarrow> ResearchTask \<Rightarrow>
   ('b, 'c) agent_world \<Rightarrow> ('x StepError + EvidenceSubmission) \<times> ('b, 'c) agent_world" where
  "ResearchActivities_research nfc bops self seconds later job task w =
     (case build_agent_tools (ra_registry self) (principal_for job AR_RESEARCHER) (rj_id job) (rt_id task) (rj_budget job)
             (ra_approval_provider self) of
        None \<Rightarrow> (Inl StepNotAnAgent, w)
      | Some tools \<Rightarrow>
          (case ResearchActivities_ask bops self seconds job (contract_for (ra_models self) AR_RESEARCHER (md_claims (ra_models self)))
              (ra_build_agent self AR_RESEARCHER tools) (research_instructions task)
              (Some (claims_checked nfc (ra_models self) (rt_id task))) (w\<lparr>aw_ledger := Some []\<rparr>) of
             (Inl e, w') \<Rightarrow> (Inl e, w')
           | (Inr claims, w') \<Rightarrow>
               (case verify_claims nfc (case aw_ledger w' of None \<Rightarrow> [] | Some l \<Rightarrow> l) (rt_id task) (aw_now w' + later) claims of
                  Inl e \<Rightarrow> (Inl (StepClaims e), w')
                | Inr submission \<Rightarrow> (Inr submission, w'))))"

definition checked :: "(string + unit) \<Rightarrow> failure + unit" where
  "checked r = (case r of Inl msg \<Rightarrow> Inl (ValueFailure msg) | Inr _ \<Rightarrow> Inr ())"

text \<open>
  The analyst, the critic and the reporter are handed tools under a task identifier of their own
  and no ledger: what they read cannot become evidence.
\<close>

definition checked_step ::
  "'b Budgets \<Rightarrow> ('b, 'c, 'd, 'x) ResearchActivities \<Rightarrow> pyfloat \<Rightarrow> uuid \<Rightarrow> ResearchJob \<Rightarrow> AgentRole \<Rightarrow>
   ('d \<Rightarrow> (string list \<times> string) list + 'o) \<Rightarrow> unicode \<Rightarrow> ('o \<Rightarrow> string + unit) \<Rightarrow> ('b, 'c) agent_world \<Rightarrow>
   ('x StepError + 'o) \<times> ('b, 'c) agent_world" where
  "checked_step bops self seconds task_id job role validate instructions check w =
     (case build_agent_tools (ra_registry self) (principal_for job role) (rj_id job) task_id (rj_budget job) (ra_approval_provider self) of
        None \<Rightarrow> (Inl StepNotAnAgent, w)
      | Some tools \<Rightarrow>
          ResearchActivities_ask bops self seconds job (contract_for (ra_models self) role validate) (ra_build_agent self role tools)
            instructions (Some (\<lambda>_ result. checked (check result))) (w\<lparr>aw_ledger := None\<rparr>))"

definition ResearchActivities_analyze ::
  "'b Budgets \<Rightarrow> ('b, 'c, 'd, 'x) ResearchActivities \<Rightarrow> pyfloat \<Rightarrow> uuid \<Rightarrow> ResearchJob \<Rightarrow> EvidenceRecord list \<Rightarrow> ('b, 'c) agent_world \<Rightarrow>
   ('x StepError + AnalysisResult) \<times> ('b, 'c) agent_world" where
  "ResearchActivities_analyze bops self seconds task_id job evidence w =
     checked_step bops self seconds task_id job AR_ANALYST (md_analysis (ra_models self))
       (codes (''Research question: '' @ rj_question job) @ [10, 10] @ codes ''Evidence collected so far:'' @ [10] @
        describe_evidence evidence @ [10, 10] @
        codes (''Compare this evidence and produce an AnalysisResult. Every finding must cite '' @
          ''the evidence identifiers above; do not invent one.''))
       (\<lambda>proposed. check_analysis proposed evidence) w"

definition ResearchActivities_critique ::
  "'b Budgets \<Rightarrow> ('b, 'c, 'd, 'x) ResearchActivities \<Rightarrow> pyfloat \<Rightarrow> uuid \<Rightarrow> ResearchJob \<Rightarrow> AnalysisResult \<Rightarrow> EvidenceRecord list \<Rightarrow>
   ('b, 'c) agent_world \<Rightarrow> ('x StepError + CriticReview) \<times> ('b, 'c) agent_world" where
  "ResearchActivities_critique bops self seconds task_id job analysis evidence w =
     checked_step bops self seconds task_id job AR_CRITIC (md_review (ra_models self))
       (codes ''Proposed findings:'' @ [10] @
        py_join [10] (map (\<lambda>f. codes (''- '' @ pf_claim f @ '' (supported by '' @
          shown_list (map uuid_str (pf_supporting_evidence_ids f)) @ '')'')) (an_findings analysis)) @ [10, 10] @
        codes ''Evidence collected:'' @ [10] @ describe_evidence evidence @ [10, 10] @
        codes ''Judge each claim against the evidence and produce a CriticReview.'')
       (\<lambda>review. check_review review analysis evidence) w"

definition ResearchActivities_report ::
  "'b Budgets \<Rightarrow> ('b, 'c, 'd, 'x) ResearchActivities \<Rightarrow> pyfloat \<Rightarrow> uuid \<Rightarrow> ResearchJob \<Rightarrow> CriticReview \<Rightarrow> EvidenceRecord list \<Rightarrow>
   ('b, 'c) agent_world \<Rightarrow> ('x StepError + ResearchReport) \<times> ('b, 'c) agent_world" where
  "ResearchActivities_report bops self seconds task_id job critique evidence w =
     checked_step bops self seconds task_id job AR_REPORTER (md_report (ra_models self))
       (codes (''Research question: '' @ rj_question job) @ [10, 10] @ codes ''Claims the critic supported:'' @ [10] @
        py_join [10] (map (\<lambda>claim. codes (''- '' @ claim)) (CriticReview_supported_claims critique)) @ [10, 10] @
        codes ''Evidence collected:'' @ [10] @ describe_evidence evidence @ [10, 10] @
        codes (''Write the ResearchReport. Cite evidence for every factual sentence, using the '' @
          ''identifiers above in square brackets. If the coverage gaps below mean the '' @
          ''report cannot be complete, mark it partial: '' @ joined_or (cr_coverage_gaps critique) ''none'' @ ''.''))
       (\<lambda>written. check_report written evidence) w"


section \<open>What a step does to its world\<close>

definition stats_ok :: "AgentCallStats \<Rightarrow> bool" where
  "stats_ok s \<longleftrightarrow> 0 \<le> st_prompt_tokens s \<and> 0 \<le> st_completion_tokens s"

lemma count_figure_nonneg [simp]: "0 \<le> count_figure v"
  by (simp add: count_figure_def split: usage_figure.split)

lemma observe_ok: "stats_ok s \<Longrightarrow> stats_ok (AgentCallStats_observe s usage)"
  by (auto simp: stats_ok_def AgentCallStats_observe_def Let_def split: option.splits prod.splits)

lemma new_stats_ok [simp]: "stats_ok AgentCallStats_new"
  by (simp add: stats_ok_def AgentCallStats_new_def)

lemma ask_keeps:
  assumes "AgentContractFlow_ask agent message st stats s = (r, st', stats', s')"
    and agent: "\<And>m s r s'. agent m s = (r, s') \<Longrightarrow> R s \<Longrightarrow> R s'" and "R s" "stats_ok stats"
  shows "R s' \<and> stats_ok stats'"
proof -
  obtain a s1 where a: "agent message s = (a, s1)" by fastforce
  from agent [OF a] assms a observe_ok [OF assms(4)] show ?thesis
    by (auto simp: AgentContractFlow_ask_def Let_def split: sum.splits option.splits)
qed

lemma stages_keep:
  assumes "flow_stages k verify agent i n st stats s = (r, st', stats', s')"
    and "\<And>m s r s'. agent m s = (r, s') \<Longrightarrow> R s \<Longrightarrow> R s'" and "R s" "stats_ok stats"
  shows "R s' \<and> stats_ok stats'"
  using assms
proof (induction k verify agent i n st stats s rule: flow_stages.induct)
  case (1 k verify agent i n st stats s)
  obtain o1 c st1 where judge: "AgentContractFlow_judge k verify n st s = (o1, c, st1)" by (metis prod.exhaust)
  show ?case
  proof (cases "o1 = REJECTED")
    case False
    with 1(2-) judge show ?thesis by (cases o1) (simp_all add: flow_stages.simps)
  next
    case True
    obtain a st2 stats2 s2 where ask:
      "AgentContractFlow_ask agent (correction_message i (last (fl_failures st1))) st1 stats s = (a, st2, stats2, s2)"
      by (metis prod.exhaust)
    have kept: "R s2 \<and> stats_ok stats2" by (rule ask_keeps [OF ask 1(3)]) (use 1(4,5) in auto)
    show ?thesis
    proof (cases a)
      case (Inl e)
      with 1(2) judge True ask kept show ?thesis by (simp add: flow_stages.simps)
    next
      case (Inr u)
      then have "flow_stages k verify agent i n st2 stats2 s2 = (r, st', stats', s')"
        using 1(2) judge ask True by (subst (asm) flow_stages.simps) simp
      from 1(1) [OF judge [symmetric] True refl ask [symmetric] Inr refl refl this] 1(3) kept show ?thesis by blast
    qed
  qed
qed

lemma request_keeps:
  assumes "request_agent_output k agent instructions n verify stats s = (r, st, stats', s')"
    and "\<And>m s r s'. agent m s = (r, s') \<Longrightarrow> R s \<Longrightarrow> R s'" and "R s" "stats_ok stats"
  shows "R s' \<and> stats_ok stats'"
proof (cases "n < 1")
  case True
  with assms show ?thesis by (auto simp: request_agent_output_def AgentContractFlow_run_def)
next
  case False
  let ?i = "instructions @ [10, 10] @ describe_contract k"
  obtain a st1 stats1 s1 where ask: "AgentContractFlow_ask agent ?i ContractState_new stats s = (a, st1, stats1, s1)"
    by (metis prod.exhaust)
  have kept: "R s1 \<and> stats_ok stats1" by (rule ask_keeps [OF ask assms(2)]) (use assms(3,4) in auto)
  obtain r2 st2 stats2 s2 where stages: "flow_stages k verify agent ?i n st1 stats1 s1 = (r2, st2, stats2, s2)"
    by (metis prod.exhaust)
  have "R s2 \<and> stats_ok stats2" by (rule stages_keep [OF stages assms(2)]) (use kept in auto)
  with assms(1) False ask stages kept show ?thesis
    by (auto simp: request_agent_output_def AgentContractFlow_run_def split: sum.splits)
qed

lemma request_verified:
  assumes "request_agent_output k agent instructions n (Some check) stats s = (Inr c, st, stats', s')"
  shows "check s' c = Inr ()"
proof -
  let ?i = "instructions @ [10, 10] @ describe_contract k"
  have "BoundedSchemaCorrection_resolve n k (produce_from agent ?i) (Some check) s = (Inr c, fl_failures st, s')"
    using flow_run_resolve [of k "Some check" agent ?i n stats s] assms by (simp add: request_agent_output_def)
  then obtain raw where "judged k (Some check) s' raw = Inr c"
    using resolve_verified [of k "Some check" _ n "nat n"] by (fastforce simp: BoundedSchemaCorrection_resolve_def split: if_splits)
  then show ?thesis by (auto simp: judged_def split: sum.splits)
qed

text \<open>What is reached from a world by calls of the given tools.\<close>

definition worked ::
  "'b Budgets \<Rightarrow> 'c Breaker \<Rightarrow> CapabilityTool list \<Rightarrow> ('b, 'c) agent_world \<Rightarrow> ('b, 'c) agent_world \<Rightarrow> bool" where
  "worked bops cops tools w w' \<longleftrightarrow>
     (\<exists>calls answers. (\<forall>(env, tool, kwargs) \<in> set calls. tool \<in> set tools) \<and>
        tool_session bops cops (aw_gateway w) (aw_ledger w) calls = (answers, aw_gateway w', aw_ledger w'))"

text \<open>
  An agent reaches the platform through the tools it was handed and nothing else: whatever it is
  asked, it leaves the gateway and the ledger as some calls of its tools leave them.
\<close>

definition works_with :: "'b Budgets \<Rightarrow> 'c Breaker \<Rightarrow> CapabilityTool list \<Rightarrow> (('b, 'c) agent_world, 'x) kickoff_agent \<Rightarrow> bool" where
  "works_with bops cops tools agent \<longleftrightarrow> (\<forall>message w r w'. agent message w = (r, w') \<longrightarrow> worked bops cops tools w w')"

lemma tool_session_append:
  assumes "tool_session bops cops g l calls = (as, g1, l1)" and "tool_session bops cops g1 l1 next_calls = (bs, g2, l2)"
  shows "tool_session bops cops g l (calls @ next_calls) = (as @ bs, g2, l2)"
  using assms
proof (induction calls arbitrary: g l as)
  case (Cons call calls)
  obtain env tool kwargs where call: "call = (env, tool, kwargs)" by (metis prod.exhaust)
  obtain a ga la where run: "CapabilityTool_run bops cops env g l tool kwargs = (a, ga, la)" by (metis prod.exhaust)
  obtain rest gr lr where rest: "tool_session bops cops ga la calls = (rest, gr, lr)" by (metis prod.exhaust)
  with Cons.prems(1) call run have same: "gr = g1" "lr = l1" "as = a # rest" by auto
  from Cons.IH [OF rest [unfolded same] Cons.prems(2)] call run same show ?case by simp
qed simp

lemma session_ledger:
  "tool_session bops cops g (Some l) calls = (answers, g', l') \<Longrightarrow> \<exists>l1. l' = Some l1"
proof (induction calls arbitrary: g l answers)
  case (Cons call calls)
  obtain env tool kwargs where call: "call = (env, tool, kwargs)" by (metis prod.exhaust)
  obtain a g1 l1 where run: "CapabilityTool_run bops cops env g (Some l) tool kwargs = (a, g1, Some l1)"
    using run_ledger [of bops cops env g l tool kwargs] by (metis prod.exhaust)
  with Cons.prems Cons.IH [of g1 l1] call show ?case by (auto split: prod.splits)
qed auto

lemma worked_refl: "worked bops cops tools w w"
  unfolding worked_def by (rule exI [of _ "[]"]) simp

lemma worked_step:
  assumes "works_with bops cops tools agent" and "agent m w1 = (r, w2)" and "worked bops cops tools w w1"
  shows "worked bops cops tools w w2"
proof -
  obtain next_calls bs where next_calls: "\<forall>(env, tool, kwargs) \<in> set next_calls. tool \<in> set tools"
    "tool_session bops cops (aw_gateway w1) (aw_ledger w1) next_calls = (bs, aw_gateway w2, aw_ledger w2)"
    using assms(1,2) unfolding works_with_def worked_def by blast
  obtain calls as where calls: "\<forall>(env, tool, kwargs) \<in> set calls. tool \<in> set tools"
    "tool_session bops cops (aw_gateway w) (aw_ledger w) calls = (as, aw_gateway w1, aw_ledger w1)"
    using assms(3) unfolding worked_def by blast
  have "\<forall>(env, tool, kwargs) \<in> set (calls @ next_calls). tool \<in> set tools" using calls(1) next_calls(1) by auto
  with tool_session_append [OF calls(2) next_calls(2)] show ?thesis unfolding worked_def by blast
qed


section \<open>Accounting\<close>

text \<open>What a job spent, its tool calls aside.\<close>

abbreviation besides_calls :: "JobUsage \<Rightarrow> JobUsage" where
  "besides_calls u \<equiv> u\<lparr>tool_calls := 0\<rparr>"

context gateway_ports
begin

lemma invoke_besides_calls:
  assumes run: "CapabilityGateway_invoke bops cops env g q = (r, g')" and inv: "binv (gw_budgets g)"
  shows "binv (gw_budgets g') \<and> besides_calls (spent (gw_budgets g') j) = besides_calls (spent (gw_budgets g) j)"
proof -
  obtain res b where reserve: "bg_reserve_call bops (gw_budgets g) (ca_job_id q) (ca_budget q) = (res, b)"
    by (cases "bg_reserve_call bops (gw_budgets g) (ca_job_id q) (ca_budget q)")
  from invoke_spec [OF run] reserve have "gw_budgets g' = gw_budgets g \<or> gw_budgets g' = b"
    by (auto simp: mediation_spec_def metering_spec_def)
  moreover have "binv b \<and> besides_calls (spent b j) = besides_calls (spent (gw_budgets g) j)"
    using reserve bud.reserve_refused [OF inv] bud.reserve_granted [OF inv] by (cases res) (auto simp: fun_upd_apply)
  ultimately show ?thesis using inv by auto
qed

lemma session_besides_calls:
  assumes "tool_session bops cops g l calls = (answers, g', l')" and "binv (gw_budgets g)"
  shows "binv (gw_budgets g') \<and> besides_calls (spent (gw_budgets g') j) = besides_calls (spent (gw_budgets g) j)"
  using assms
proof (induction calls arbitrary: g l answers)
  case (Cons call calls)
  obtain env tool kwargs where call: "call = (env, tool, kwargs)" by (metis prod.exhaust)
  obtain a g1 l1 where run: "CapabilityTool_run bops cops env g l tool kwargs = (a, g1, l1)" by (metis prod.exhaust)
  then have "g1 = g \<or> (\<exists>q r. CapabilityGateway_invoke bops cops env g q = (r, g1))"
    by (auto simp: CapabilityTool_run_def split: option.splits prod.splits sum.splits GatewayError.splits)
  then have "binv (gw_budgets g1) \<and> besides_calls (spent (gw_budgets g1) j) = besides_calls (spent (gw_budgets g) j)"
    using Cons.prems(2) invoke_besides_calls by blast
  with Cons call run show ?case by (force split: prod.splits)
qed simp

lemma ask_accounts:
  assumes ask: "ResearchActivities_ask bops self seconds job k agent instructions verify w = (r, w')"
    and agent: "works_with bops cops tools agent" and inv: "binv (gw_budgets (aw_gateway w))"
    and within: "bg_ensure_within bops (gw_budgets (aw_gateway w)) (rj_id job) (rj_budget job) = Inr ()"
  shows "\<exists>answer st stats w1 recorded b.
    request_agent_output k agent instructions DEFAULT_MAX_ATTEMPTS verify AgentCallStats_new w = (answer, st, stats, w1) \<and>
    worked bops cops tools w w1 \<and> stats_ok stats \<and> binv (gw_budgets (aw_gateway w1)) \<and>
    (\<forall>j. besides_calls (spent (gw_budgets (aw_gateway w1)) j) = besides_calls (spent (gw_budgets (aw_gateway w)) j)) \<and>
    bg_record_agent_call bops (gw_budgets (aw_gateway w1)) (rj_id job) (spend_of (ra_pricing self) stats seconds) = (recorded, b) \<and>
    w' = w1\<lparr>aw_gateway := (aw_gateway w1)\<lparr>gw_budgets := b\<rparr>\<rparr> \<and>
    r = (case recorded of Inl e \<Rightarrow> Inl (StepLimit e) | Inr _ \<Rightarrow> map_sum StepAgent (\<lambda>x. x) answer)"
proof -
  obtain answer st stats w1 where req:
    "request_agent_output k agent instructions DEFAULT_MAX_ATTEMPTS verify AgentCallStats_new w = (answer, st, stats, w1)"
    by (metis prod.exhaust)
  obtain recorded b where noted: "bg_record_agent_call bops (gw_budgets (aw_gateway w1)) (rj_id job) (spend_of (ra_pricing self) stats seconds) = (recorded, b)"
    by fastforce
  have "worked bops cops tools w w1 \<and> stats_ok stats"
    by (rule request_keeps [OF req]) (use worked_step [OF agent] worked_refl in auto)
  moreover from this obtain calls answers where
    "tool_session bops cops (aw_gateway w) (aw_ledger w) calls = (answers, aw_gateway w1, aw_ledger w1)"
    unfolding worked_def by blast
  note session_besides_calls [OF this inv]
  moreover have "w' = w1\<lparr>aw_gateway := (aw_gateway w1)\<lparr>gw_budgets := b\<rparr>\<rparr> \<and>
      r = (case recorded of Inl e \<Rightarrow> Inl (StepLimit e) | Inr _ \<Rightarrow> map_sum StepAgent (\<lambda>x. x) answer)"
    using ask within req noted by (auto simp: ResearchActivities_ask_def Let_def split: sum.splits)
  ultimately show ?thesis using req noted by blast
qed

end

lemma spend_of_nonneg:
  assumes "stats_ok stats" "TokenPricing_valid pricing" "0 \<le> seconds"
  shows "\<not> spend_negative (spend_of pricing stats seconds)"
  using assms
  by (auto simp: spend_negative_def spend_of_def stats_ok_def TokenPricing_valid_def TokenPricing_cost_of_def
      AgentCallStats_corrections_def not_less divide_less_0_iff)

text \<open>
  C20. An agent is called within its job's budget and its spend is recorded. A job that has used up its
  tokens, its cost or its time is refused before the model is asked, and nothing changes. Otherwise the
  step ends as asking the agent ends, in success or in failure, and the job's usage grows by exactly
  one agent call with the tokens of every attempt, their price, the time and the corrections; besides
  that only tool calls were counted, and of other jobs nothing else.
\<close>

theorem agent_call_is_budgeted_and_recorded:
  assumes ask: "ResearchActivities_ask BudgetLedger_ops self seconds job k agent instructions verify w = (r, w')"
    and agent: "works_with BudgetLedger_ops CircuitBreaker_ops tools agent"
    and "TokenPricing_valid (ra_pricing self)" and "0 \<le> seconds"
  shows "case check_spent (rj_id job) (BudgetLedger_usage (gw_budgets (aw_gateway w)) (rj_id job)) (rj_budget job) of
      Inl e \<Rightarrow> r = Inl (StepLimit e) \<and> w' = w
    | Inr _ \<Rightarrow> \<exists>answer st stats w1.
        request_agent_output k agent instructions DEFAULT_MAX_ATTEMPTS verify AgentCallStats_new w = (answer, st, stats, w1) \<and>
        r = map_sum StepAgent (\<lambda>x. x) answer \<and>
        (\<forall>j. besides_calls (BudgetLedger_usage (gw_budgets (aw_gateway w')) j) =
          (if j = rj_id job then add_spend (spend_of (ra_pricing self) stats seconds) else (\<lambda>u. u))
            (besides_calls (BudgetLedger_usage (gw_budgets (aw_gateway w)) j)))"
proof (cases "check_spent (rj_id job) (BudgetLedger_usage (gw_budgets (aw_gateway w)) (rj_id job)) (rj_budget job)")
  case (Inl e)
  with ask show ?thesis by (auto simp: ResearchActivities_ask_def BudgetLedger_ops_def BudgetLedger_ensure_within_def)
next
  case (Inr u)
  then have "bg_ensure_within BudgetLedger_ops (gw_budgets (aw_gateway w)) (rj_id job) (rj_budget job) = Inr ()"
    by (simp add: BudgetLedger_ops_def BudgetLedger_ensure_within_def)
  from mem_gateway.ask_accounts [OF ask agent _ this] obtain answer st stats w1 recorded b where s:
    "request_agent_output k agent instructions DEFAULT_MAX_ATTEMPTS verify AgentCallStats_new w = (answer, st, stats, w1)"
    "stats_ok stats"
    "\<forall>j. besides_calls (BudgetLedger_usage (gw_budgets (aw_gateway w1)) j) = besides_calls (BudgetLedger_usage (gw_budgets (aw_gateway w)) j)"
    "bg_record_agent_call BudgetLedger_ops (gw_budgets (aw_gateway w1)) (rj_id job) (spend_of (ra_pricing self) stats seconds) = (recorded, b)"
    "w' = w1\<lparr>aw_gateway := (aw_gateway w1)\<lparr>gw_budgets := b\<rparr>\<rparr>"
    "r = (case recorded of Inl e \<Rightarrow> Inl (StepLimit e) | Inr _ \<Rightarrow> map_sum StepAgent (\<lambda>x. x) answer)"
    by (auto simp: any_ledger_def)
  have "\<not> spend_negative (spend_of (ra_pricing self) stats seconds)" using spend_of_nonneg s(2) assms(3,4) by blast
  with s(4) have b: "is_ok recorded" "BudgetLedger_usage b = (BudgetLedger_usage (gw_budgets (aw_gateway w1)))
      (rj_id job := add_spend (spend_of (ra_pricing self) stats seconds) (BudgetLedger_usage (gw_budgets (aw_gateway w1)) (rj_id job)))"
    by (auto simp: BudgetLedger_ops_def BudgetLedger_record_agent_call_def Let_def)
  have "besides_calls (add_spend x u) = add_spend x (besides_calls u)" for x u by (simp add: add_spend_def)
  with s b Inr show ?thesis by (auto simp: is_ok_iff)
qed

text \<open>A researcher that fetches one page with its first tool and quotes it.\<close>

definition fetch_models :: "unit models" where
  "fetch_models = \<lparr>md_schema = (\<lambda>_. ''{}''), md_loads = (\<lambda>_. Inr ()), md_plan = (\<lambda>_. Inl []), md_claims = (\<lambda>_. Inr sample_claims),
     md_analysis = (\<lambda>_. Inl []), md_review = (\<lambda>_. Inl []), md_report = (\<lambda>_. Inl []), md_refused = (\<lambda>_. [])\<rparr>"

definition fetch_agent :: "CapabilityTool list \<Rightarrow> ((BudgetLedger, CircuitBreaker) agent_world, unit) kickoff_agent" where
  "fetch_agent tools message w =
     (case tool_session BudgetLedger_ops CircuitBreaker_ops (aw_gateway w) (aw_ledger w)
        (map (\<lambda>tool. (fetch_env, tool, [(''url'', VStr ''http://a/'')])) (take 1 tools)) of
        (answers, g, l) \<Rightarrow> (Inr (Some ([123, 125], Some (Figure 7, Figure 3))), w\<lparr>aw_gateway := g, aw_ledger := l\<rparr>))"

definition fetch_activities :: "(BudgetLedger, CircuitBreaker, unit, unit) ResearchActivities" where
  "fetch_activities = \<lparr>ra_registry = gw_registry fetch_gateway, ra_build_agent = (\<lambda>role. fetch_agent), ra_approval_provider = no_approval,
     ra_pricing = \<lparr>tp_input_per_million_usd = 3, tp_output_per_million_usd = 15\<rparr>, ra_models = fetch_models\<rparr>"

definition fetch_job :: ResearchJob where
  "fetch_job = (new_job 1 0 ''acme'' ''u'' sample_command AC_INTERNAL)\<lparr>rj_budget := tiny_budget\<rparr>"

definition fetch_world :: "(BudgetLedger, CircuitBreaker) agent_world" where
  "fetch_world = \<lparr>aw_gateway = fetch_gateway, aw_ledger = Some [], aw_now = 5\<rparr>"

abbreviation fetch_tools :: "CapabilityTool list" where
  "fetch_tools \<equiv> [build_tool (principal_for fetch_job AR_RESEARCHER) 1 2 tiny_budget no_approval fetch_capability]"

lemma fetch_agent_works: "works_with BudgetLedger_ops CircuitBreaker_ops tools (fetch_agent tools)"
  unfolding works_with_def
proof (intro allI impI)
  fix message w r w' assume agent: "fetch_agent tools message w = (r, w')"
  let ?calls = "map (\<lambda>tool. (fetch_env, tool, [(''url'', VStr ''http://a/'')])) (take 1 tools)"
  have own: "\<forall>(env, tool, kwargs) \<in> set ?calls. tool \<in> set tools" by (auto dest: in_set_takeD)
  obtain answers g l where session:
    "tool_session BudgetLedger_ops CircuitBreaker_ops (aw_gateway w) (aw_ledger w) ?calls = (answers, g, l)" by (metis prod.exhaust)
  have "w' = w\<lparr>aw_gateway := g, aw_ledger := l\<rparr>" using agent unfolding fetch_agent_def session by simp
  with own session show "worked BudgetLedger_ops CircuitBreaker_ops tools w w'" unfolding worked_def by fastforce
qed

lemma fetch_agent_asked:
  "\<exists>st w1 i. request_agent_output (contract_for fetch_models AR_RESEARCHER (md_claims fetch_models)) (fetch_agent fetch_tools) instructions
      DEFAULT_MAX_ATTEMPTS (Some (claims_checked (\<lambda>x. x) fetch_models 2)) AgentCallStats_new fetch_world =
    (Inr sample_claims, st, \<lparr>st_attempts = 1, st_prompt_tokens = 7, st_completion_tokens = 3\<rparr>, w1) \<and>
    aw_ledger w1 = Some [(9, \<lparr>oc_invocation = i, oc_capability = fetch_capability, oc_arguments = [(''url'', VStr ''http://a/'')], oc_text = [97]\<rparr>)] \<and>
    ti_tenant_id i = ''acme'' \<and> aw_now w1 = 5"
proof -
  have p: "pr_tenant_id (principal_for fetch_job AR_RESEARCHER) = ''acme''"
    "pr_agent_role (principal_for fetch_job AR_RESEARCHER) = Some AR_RESEARCHER"
    "pr_clearance (principal_for fetch_job AR_RESEARCHER) = AC_INTERNAL"
    by (simp_all add: principal_for_def Principal_for_agent_def fetch_job_def new_job_def)
  obtain i g' a where run: "CapabilityTool_run BudgetLedger_ops CircuitBreaker_ops fetch_env fetch_gateway (Some []) (hd fetch_tools)
      [(''url'', VStr ''http://a/'')] = (a, g', Some [(9, \<lparr>oc_invocation = i, oc_capability = fetch_capability,
        oc_arguments = [(''url'', VStr ''http://a/'')], oc_text = [97]\<rparr>)])" "ti_tenant_id i = ''acme''"
    using fetch_runs [OF p] by auto
  let ?w = "fetch_world\<lparr>aw_gateway := g', aw_ledger := Some [(9, \<lparr>oc_invocation = i, oc_capability = fetch_capability,
        oc_arguments = [(''url'', VStr ''http://a/'')], oc_text = [97]\<rparr>)]\<rparr>"
  have agent: "fetch_agent fetch_tools m fetch_world = (Inr (Some ([123, 125], Some (Figure 7, Figure 3))), ?w)" for m
    using run(1) by (simp add: fetch_agent_def fetch_world_def)
  obtain s where "verify_claims (\<lambda>x. x) [(9, \<lparr>oc_invocation = i, oc_capability = fetch_capability,
      oc_arguments = [(''url'', VStr ''http://a/'')], oc_text = [97]\<rparr>)] 2 5 sample_claims = Inr s"
    using sample_claims_verified [OF run(2)] by blast
  then have "judged (contract_for fetch_models AR_RESEARCHER (md_claims fetch_models)) (Some (claims_checked (\<lambda>x. x) fetch_models 2)) ?w [123, 125] =
      Inr sample_claims"
    by (simp add: judged_def parse_agent_output_def strip_white_def is_white_def contract_for_def fetch_models_def claims_checked_def
        fetch_world_def Let_def)
  note judged = this
  have ask: "AgentContractFlow_ask (fetch_agent fetch_tools) m ContractState_new AgentCallStats_new fetch_world =
      (Inr (), \<lparr>fl_attempts = 1, fl_raw = [123, 125], fl_failures = []\<rparr>, \<lparr>st_attempts = 1, st_prompt_tokens = 7, st_completion_tokens = 3\<rparr>, ?w)" for m
    unfolding AgentContractFlow_ask_def agent
    by (simp add: ContractState_new_def AgentCallStats_observe_def AgentCallStats_new_def count_figure_def)
  have "flow_stages (contract_for fetch_models AR_RESEARCHER (md_claims fetch_models)) (Some (claims_checked (\<lambda>x. x) fetch_models 2))
      (fetch_agent fetch_tools) m 3 \<lparr>fl_attempts = 1, fl_raw = [123, 125], fl_failures = []\<rparr>
      \<lparr>st_attempts = 1, st_prompt_tokens = 7, st_completion_tokens = 3\<rparr> ?w =
      (Inr (Some sample_claims), \<lparr>fl_attempts = 1, fl_raw = [123, 125], fl_failures = []\<rparr>,
       \<lparr>st_attempts = 1, st_prompt_tokens = 7, st_completion_tokens = 3\<rparr>, ?w)" for m
    by (subst flow_stages.simps) (simp add: AgentContractFlow_judge_def judged)
  then show ?thesis
    unfolding request_agent_output_def AgentContractFlow_run_def DEFAULT_MAX_ATTEMPTS_def ask
    using run(2) by (simp add: AgentContractFlow_accepted_def fetch_world_def)
qed

theorem agent_call_is_budgeted_and_recorded_witness:
  "\<exists>w'. ResearchActivities_ask BudgetLedger_ops fetch_activities 2 fetch_job (contract_for fetch_models AR_RESEARCHER (md_claims fetch_models))
      (fetch_agent fetch_tools) [63] (Some (claims_checked (\<lambda>x. x) fetch_models 2)) fetch_world = (Inr sample_claims, w') \<and>
     prompt_tokens (BudgetLedger_usage (gw_budgets (aw_gateway w')) 1) = 7 \<and>
     cost_usd (BudgetLedger_usage (gw_budgets (aw_gateway w')) 1) = 66 / 1000000"
proof -
  let ?k = "contract_for fetch_models AR_RESEARCHER (md_claims fetch_models)"
  obtain r w' where ask: "ResearchActivities_ask BudgetLedger_ops fetch_activities 2 fetch_job ?k (fetch_agent fetch_tools) [63]
      (Some (claims_checked (\<lambda>x. x) fetch_models 2)) fetch_world = (r, w')" by fastforce
  obtain st w1 where req: "request_agent_output ?k (fetch_agent fetch_tools) [63] DEFAULT_MAX_ATTEMPTS
      (Some (claims_checked (\<lambda>x. x) fetch_models 2)) AgentCallStats_new fetch_world =
      (Inr sample_claims, st, \<lparr>st_attempts = 1, st_prompt_tokens = 7, st_completion_tokens = 3\<rparr>, w1)"
    using fetch_agent_asked by blast
  have job: "rj_id fetch_job = 1" "rj_budget fetch_job = tiny_budget" by (simp_all add: fetch_job_def new_job_def)
  have zero: "BudgetLedger_usage (gw_budgets (aw_gateway fetch_world)) 1 = JobUsage_zero"
    by (simp add: fetch_world_def fetch_gateway_def sample_gateway_def BudgetLedger_usage_def)
  have within: "check_spent 1 JobUsage_zero tiny_budget = Inr ()"
    by (simp add: check_spent_def JobUsage_zero_def tiny_budget_def default_budget_def total_tokens_def)
  have r: "r = Inr sample_claims" and
    spent: "besides_calls (BudgetLedger_usage (gw_budgets (aw_gateway w')) 1) =
      add_spend (spend_of (ra_pricing fetch_activities) \<lparr>st_attempts = 1, st_prompt_tokens = 7, st_completion_tokens = 3\<rparr> 2) (besides_calls JobUsage_zero)"
    using agent_call_is_budgeted_and_recorded [OF ask fetch_agent_works] req job zero within
    by (auto simp: fetch_activities_def TokenPricing_valid_def)
  have "prompt_tokens (BudgetLedger_usage (gw_budgets (aw_gateway w')) 1) = 7"
    using arg_cong [OF spent, of prompt_tokens] by (simp add: add_spend_def spend_of_def JobUsage_zero_def)
  moreover have "cost_usd (BudgetLedger_usage (gw_budgets (aw_gateway w')) 1) = 66 / 1000000"
    using arg_cong [OF spent, of cost_usd]
    by (simp add: add_spend_def spend_of_def fetch_activities_def TokenPricing_cost_of_def JobUsage_zero_def)
  ultimately show ?thesis using ask r by simp
qed


section \<open>Where evidence comes from\<close>

lemma ask_ok:
  assumes "ResearchActivities_ask bops self seconds job k agent instructions (Some check) w = (Inr c, w')"
    and "works_with bops cops tools agent"
  shows "\<exists>w1. worked bops cops tools w w1 \<and> check w1 c = Inr () \<and> aw_ledger w' = aw_ledger w1 \<and> aw_now w' = aw_now w1 \<and>
    gw_sent (aw_gateway w') = gw_sent (aw_gateway w1)"
proof -
  obtain answer st stats w1 where req:
    "request_agent_output k agent instructions DEFAULT_MAX_ATTEMPTS (Some check) AgentCallStats_new w = (answer, st, stats, w1)"
    by (metis prod.exhaust)
  have w1: "worked bops cops tools w w1 \<and> stats_ok stats"
    by (rule request_keeps [OF req]) (use worked_step [OF assms(2)] worked_refl in auto)
  have "answer = Inr c \<and> aw_ledger w' = aw_ledger w1 \<and> aw_now w' = aw_now w1 \<and> gw_sent (aw_gateway w') = gw_sent (aw_gateway w1)"
    using assms(1) req by (auto simp: ResearchActivities_ask_def Let_def split: sum.splits prod.splits)
  with request_verified req w1 show ?thesis by metis
qed

lemma later_valid: "EvidenceSubmission_valid now s \<Longrightarrow> now \<le> now' \<Longrightarrow> EvidenceSubmission_valid now' s"
  by (fastforce simp: EvidenceSubmission_valid_def EvidenceRecordCreate_valid_def list_all_iff split: option.splits)

lemma verify_later: "verify_claims nfc l t now claims = Inr s \<Longrightarrow> now \<le> now' \<Longrightarrow> verify_claims nfc l t now' claims = Inr s"
  by (auto simp: verify_claims_records intro: later_valid)

lemma tools_offered:
  assumes "registry_inv reg" and "build_agent_tools reg p job_id task_id budget provider = Some tools" and "tool \<in> set tools"
  shows "offered reg tool \<and> ct_principal tool = p \<and> ct_job_id tool = job_id \<and> ct_capability tool \<in> set (dict_values reg) \<and>
    Capability_is_executable_by (ct_capability tool) p"
proof -
  obtain c where c: "c \<in> set (CapabilityRegistry_discover reg p)" "Capability_is_executable_by c p" "tool = build_tool p job_id task_id budget provider c"
    using assms(2,3) by (auto simp: build_agent_tools_def split: if_splits)
  then have "c \<in> set (dict_values reg)" "Capability_is_visible_to c p" by (auto simp: set_discover)
  with c registry_get_iff [OF assms(1)] show ?thesis by (auto simp: offered_def resolve_for_Inr_iff)
qed

lemma principal_for_sel [simp]:
  "pr_tenant_id (principal_for job role) = rj_tenant_id job" "pr_clearance (principal_for job role) = rj_clearance job"
  by (simp_all add: principal_for_def Principal_for_agent_def)

lemma research_parts:
  assumes "ResearchActivities_research nfc bops self seconds later job task w = (r, w')" and "0 \<le> later"
    and "\<forall>tools. works_with bops cops tools (ra_build_agent self AR_RESEARCHER tools)"
  shows "(\<exists>e. r = Inl (StepLimit e)) \<or> (\<exists>e. r = Inl (StepAgent e)) \<or> r = Inl StepNotAnAgent \<or>
    (\<exists>s claims tools calls answers l g.
      r = Inr s \<and> verify_claims nfc l (rt_id task) (aw_now w' + later) claims = Inr s \<and>
      build_agent_tools (ra_registry self) (principal_for job AR_RESEARCHER) (rj_id job) (rt_id task) (rj_budget job)
        (ra_approval_provider self) = Some tools \<and>
      (\<forall>(env, tool, kwargs) \<in> set calls. tool \<in> set tools) \<and>
      tool_session bops cops (aw_gateway w) (Some []) calls = (answers, g, Some l) \<and> gw_sent (aw_gateway w') = gw_sent g)"
proof (cases "build_agent_tools (ra_registry self) (principal_for job AR_RESEARCHER) (rj_id job) (rt_id task) (rj_budget job)
    (ra_approval_provider self)")
  case None
  with assms(1) show ?thesis by (simp add: ResearchActivities_research_def)
next
  case (Some tools)
  let ?k = "contract_for (ra_models self) AR_RESEARCHER (md_claims (ra_models self))"
  let ?w = "w\<lparr>aw_ledger := Some []\<rparr>"
  obtain a w1 where ask: "ResearchActivities_ask bops self seconds job ?k (ra_build_agent self AR_RESEARCHER tools) (research_instructions task)
      (Some (claims_checked nfc (ra_models self) (rt_id task))) ?w = (a, w1)" by fastforce
  show ?thesis
  proof (cases a)
    case (Inl e)
    then have "r = Inl e" using assms(1) Some ask by (simp add: ResearchActivities_research_def)
    moreover have "(\<exists>e'. e = StepLimit e') \<or> (\<exists>e'. e = StepAgent e')"
      using ask Inl by (auto simp: ResearchActivities_ask_def Let_def split: sum.splits prod.splits)
    ultimately show ?thesis by blast
  next
    case (Inr claims)
    from ask_ok [OF ask [unfolded Inr]] assms(3) obtain w2 where w2: "worked bops cops tools ?w w2"
      "claims_checked nfc (ra_models self) (rt_id task) w2 claims = Inr ()" "aw_ledger w1 = aw_ledger w2" "aw_now w1 = aw_now w2"
      "gw_sent (aw_gateway w1) = gw_sent (aw_gateway w2)" by blast
    then obtain calls answers where session: "\<forall>(env, tool, kwargs) \<in> set calls. tool \<in> set tools"
      "tool_session bops cops (aw_gateway w) (Some []) calls = (answers, aw_gateway w2, aw_ledger w2)"
      unfolding worked_def by auto
    from session_ledger [OF session(2)] obtain l where l: "aw_ledger w2 = Some l" by blast
    with w2(2) obtain s where "verify_claims nfc l (rt_id task) (aw_now w2) claims = Inr s"
      by (auto simp: claims_checked_def split: sum.splits ClaimsError.splits)
    then have s: "verify_claims nfc l (rt_id task) (aw_now w1 + later) claims = Inr s"
      by (rule verify_later) (use w2(4) assms(2) in simp)
    then have "r = Inr s" "w' = w1" using assms(1) Some ask Inr w2(3) l by (simp_all add: ResearchActivities_research_def)
    then have "r = Inr s \<and> verify_claims nfc l (rt_id task) (aw_now w' + later) claims = Inr s \<and>
        tool_session bops cops (aw_gateway w) (Some []) calls = (answers, aw_gateway w2, Some l) \<and>
        gw_sent (aw_gateway w') = gw_sent (aw_gateway w2)"
      using s session(2) w2(5) l by simp
    then show ?thesis
      by (intro disjI2 exI [of _ s] exI [of _ claims] exI [of _ tools] exI [of _ calls] exI [of _ answers] exI [of _ l] exI [of _ "aw_gateway w2"])
        (use Some session(1) in simp)
  qed
qed

text \<open>
  C19. The evidence of a research step went through the gateway. The step never fails on claims it has
  already accepted, and every record it returns goes back to a request that was sent for its job: to
  a capability the job's researcher may execute, within the requester's clearance, and whose answer,
  once sanitized, contains the recorded excerpt. Source, access class, invocation and task are those
  of that call. This holds for every agent that reaches the platform through its tools only.
\<close>

theorem research_evidence_passed_the_gateway:
  assumes run: "ResearchActivities_research nfc bops self seconds later job task w = (r, w')" and "0 \<le> later"
    and reg: "registry_inv (ra_registry self)" "gw_registry (aw_gateway w) = ra_registry self"
    and agent: "\<forall>tools. works_with bops cops tools (ra_build_agent self AR_RESEARCHER tools)"
  shows "(\<forall>e. r \<noteq> Inl (StepClaims e)) \<and>
    (\<forall>s. r = Inr s \<longrightarrow> (\<forall>ev \<in> set (es_records s). \<exists>(env :: gateway_env) c args raw content.
       c \<in> set (dict_values (ra_registry self)) \<and> Capability_is_executable_by c (principal_for job AR_RESEARCHER) \<and>
       clearance_covers (rj_clearance job) (ev_access_class ev) \<and>
       (rj_id job, \<lparr>xr_capability = c, xr_principal = principal_for job AR_RESEARCHER, xr_arguments = args\<rparr>) \<in> set (gw_sent (aw_gateway w')) \<and>
       en_execute env \<lparr>xr_capability = c, xr_principal = principal_for job AR_RESEARCHER, xr_arguments = args\<rparr> = ExecutorText raw \<and>
       sanitize_result (en_alnum env) raw (cap_max_result_bytes c) = Inr content \<and>
       py_contains (normalize_text nfc (uc_text content)) (ev_excerpt ev) \<and>
       ev_source_uri ev = source_of c (rj_tenant_id job) args \<and> ev_access_class ev = cap_max_access_class c \<and>
       ev_tool_invocation_id ev = en_new_id env \<and> ev_producing_task_id ev = rt_id task))"
proof (intro conjI allI impI ballI)
  note parts = research_parts [OF run assms(2) agent]
  show "r \<noteq> Inl (StepClaims e)" for e using parts by auto
  fix s ev assume "r = Inr s" and ev: "ev \<in> set (es_records s)"
  with parts obtain claims tools calls answers l g where p:
    "verify_claims nfc l (rt_id task) (aw_now w' + later) claims = Inr s"
    "build_agent_tools (ra_registry self) (principal_for job AR_RESEARCHER) (rj_id job) (rt_id task) (rj_budget job)
      (ra_approval_provider self) = Some tools"
    "\<forall>(env, tool, kwargs) \<in> set calls. tool \<in> set tools"
    "tool_session bops cops (aw_gateway w) (Some []) calls = (answers, g, Some l)" "gw_sent (aw_gateway w') = gw_sent g"
    by auto
  have "\<forall>(env, tool, kwargs) \<in> set calls. offered (gw_registry (aw_gateway w)) tool"
    using tools_offered [OF reg(1) p(2)] p(3) reg(2) by auto
  from accepted_evidence_passed_the_gateway [OF p(4) this p(1) ev] obtain env tool kwargs args raw content where o:
    "(env, tool, kwargs) \<in> set calls" "ev_tool_invocation_id ev = en_new_id env"
    "request_of (tool_call tool args) (ct_capability tool) \<in> set (gw_sent g)"
    "en_execute env (snd (request_of (tool_call tool args) (ct_capability tool))) = ExecutorText raw"
    "sanitize_result (en_alnum env) raw (cap_max_result_bytes (ct_capability tool)) = Inr content"
    "py_contains (normalize_text nfc (uc_text content)) (ev_excerpt ev)"
    "ev_source_uri ev = source_of (ct_capability tool) (pr_tenant_id (ct_principal tool)) args"
    "ev_access_class ev = cap_max_access_class (ct_capability tool)" "ev_producing_task_id ev = rt_id task" by blast
  have "tool \<in> set tools" using p(3) o(1) by auto
  note t = tools_offered [OF reg(1) p(2) this]
  then have "clearance_covers (rj_clearance job) (cap_max_access_class (ct_capability tool))"
    by (auto simp: Capability_is_executable_by_def Capability_is_visible_to_def split: if_splits)
  note covered = this
  let ?q = "\<lparr>xr_capability = ct_capability tool, xr_principal = principal_for job AR_RESEARCHER, xr_arguments = args\<rparr>"
  have "(rj_id job, ?q) \<in> set (gw_sent (aw_gateway w'))" "en_execute env ?q = ExecutorText raw"
    "ev_source_uri ev = source_of (ct_capability tool) (rj_tenant_id job) args"
    using o t p(5) by (simp_all add: request_of_def tool_call_def)
  with o(2,5,6,8,9) t covered show "\<exists>(env :: gateway_env) c args raw content.
       c \<in> set (dict_values (ra_registry self)) \<and> Capability_is_executable_by c (principal_for job AR_RESEARCHER) \<and>
       clearance_covers (rj_clearance job) (ev_access_class ev) \<and>
       (rj_id job, \<lparr>xr_capability = c, xr_principal = principal_for job AR_RESEARCHER, xr_arguments = args\<rparr>) \<in> set (gw_sent (aw_gateway w')) \<and>
       en_execute env \<lparr>xr_capability = c, xr_principal = principal_for job AR_RESEARCHER, xr_arguments = args\<rparr> = ExecutorText raw \<and>
       sanitize_result (en_alnum env) raw (cap_max_result_bytes c) = Inr content \<and>
       py_contains (normalize_text nfc (uc_text content)) (ev_excerpt ev) \<and>
       ev_source_uri ev = source_of c (rj_tenant_id job) args \<and> ev_access_class ev = cap_max_access_class c \<and>
       ev_tool_invocation_id ev = en_new_id env \<and> ev_producing_task_id ev = rt_id task"
    by metis
qed

definition fetch_task :: ResearchTask where
  "fetch_task = \<lparr>rt_id = 2, rt_job_id = 1, rt_tenant_id = ''acme'', rt_objective = ''o'', rt_assigned_agent = AR_RESEARCHER,
     rt_dependencies = [], rt_evidence_requirements = [''e''], rt_source_restrictions = [], rt_state = TS_PENDING, rt_retry_count = 0,
     rt_max_retries = 2, rt_created_at = 0, rt_updated_at = 0\<rparr>"

lemma fetch_registry_inv: "registry_inv (gw_registry fetch_gateway)"
  by (simp add: registry_inv_def dict_wf_def fetch_gateway_def fetch_capability_def Capability_default_def Capability_valid_def
      Name_valid_def bounded_text_def name_start_def name_char_def)

lemma fetch_tools_built:
  "build_agent_tools (gw_registry fetch_gateway) (principal_for fetch_job AR_RESEARCHER) 1 2 tiny_budget no_approval = Some fetch_tools"
  by (simp add: build_agent_tools_def fetch_gateway_def fetch_capability_def Capability_default_def CapabilityRegistry_discover_def
      principal_for_def Principal_for_agent_def fetch_job_def new_job_def Capability_is_executable_by_def Capability_is_visible_to_def
      Capability_is_available_to_tenant_def ALL_TENANTS_def clearance_covers_def)

theorem research_evidence_passed_the_gateway_witness:
  "\<exists>s w' ev. ResearchActivities_research (\<lambda>x. x) BudgetLedger_ops fetch_activities 2 1 fetch_job fetch_task fetch_world = (Inr s, w') \<and>
     ev \<in> set (es_records s) \<and> ev_producing_task_id ev = 2 \<and>
     (\<exists>args. (1, \<lparr>xr_capability = fetch_capability, xr_principal = principal_for fetch_job AR_RESEARCHER, xr_arguments = args\<rparr>)
        \<in> set (gw_sent (aw_gateway w')))"
proof -
  let ?k = "contract_for fetch_models AR_RESEARCHER (md_claims fetch_models)"
  let ?check = "Some (claims_checked (\<lambda>x. x) fetch_models 2)"
  obtain st w1 i where req: "request_agent_output ?k (fetch_agent fetch_tools) (research_instructions fetch_task) DEFAULT_MAX_ATTEMPTS
      ?check AgentCallStats_new fetch_world = (Inr sample_claims, st, \<lparr>st_attempts = 1, st_prompt_tokens = 7, st_completion_tokens = 3\<rparr>, w1)"
    "aw_ledger w1 = Some [(9, \<lparr>oc_invocation = i, oc_capability = fetch_capability, oc_arguments = [(''url'', VStr ''http://a/'')], oc_text = [97]\<rparr>)]"
    "ti_tenant_id i = ''acme''" "aw_now w1 = 5"
    using fetch_agent_asked by blast
  have job: "rj_id fetch_job = 1" "rj_budget fetch_job = tiny_budget" by (simp_all add: fetch_job_def new_job_def)
  have "bg_ensure_within BudgetLedger_ops (gw_budgets (aw_gateway fetch_world)) 1 tiny_budget = Inr ()"
    by (simp add: BudgetLedger_ops_def BudgetLedger_ensure_within_def check_spent_def fetch_world_def fetch_gateway_def sample_gateway_def
        BudgetLedger_usage_def JobUsage_zero_def tiny_budget_def default_budget_def total_tokens_def)
  moreover obtain u b where "bg_record_agent_call BudgetLedger_ops (gw_budgets (aw_gateway w1)) 1
      (spend_of (ra_pricing fetch_activities) \<lparr>st_attempts = 1, st_prompt_tokens = 7, st_completion_tokens = 3\<rparr> 2) = (Inr u, b)"
    using spend_of_nonneg [of "\<lparr>st_attempts = 1, st_prompt_tokens = 7, st_completion_tokens = 3\<rparr>" "ra_pricing fetch_activities" 2]
    by (auto simp: BudgetLedger_ops_def BudgetLedger_record_agent_call_def stats_ok_def TokenPricing_valid_def fetch_activities_def Let_def)
  ultimately obtain w' where ask: "ResearchActivities_ask BudgetLedger_ops fetch_activities 2 fetch_job ?k (fetch_agent fetch_tools)
      (research_instructions fetch_task) ?check fetch_world = (Inr sample_claims, w')" "aw_ledger w' = aw_ledger w1" "aw_now w' = 5"
    using req job by (auto simp: ResearchActivities_ask_def)
  obtain s where s: "verify_claims (\<lambda>x. x) [(9, \<lparr>oc_invocation = i, oc_capability = fetch_capability,
      oc_arguments = [(''url'', VStr ''http://a/'')], oc_text = [97]\<rparr>)] 2 5 sample_claims = Inr s" "length (es_records s) = 1"
    using sample_claims_verified [OF req(3)] by blast
  then obtain ev where ev: "ev \<in> set (es_records s)" by (cases "es_records s") auto
  have sel: "ra_registry fetch_activities = gw_registry fetch_gateway" "ra_build_agent fetch_activities = (\<lambda>role. fetch_agent)"
    "ra_approval_provider fetch_activities = no_approval" "ra_models fetch_activities = fetch_models" "rt_id fetch_task = 2"
    "fetch_world\<lparr>aw_ledger := Some []\<rparr> = fetch_world" "gw_registry (aw_gateway fetch_world) = gw_registry fetch_gateway"
    by (simp_all add: fetch_activities_def fetch_task_def fetch_world_def)
  have "verify_claims (\<lambda>x. x) (case aw_ledger w' of None \<Rightarrow> [] | Some l \<Rightarrow> l) 2 (aw_now w' + 1) sample_claims = Inr s"
    using verify_later [OF s(1), of 6] ask(2,3) req(2) by simp
  then have run: "ResearchActivities_research (\<lambda>x. x) BudgetLedger_ops fetch_activities 2 1 fetch_job fetch_task fetch_world = (Inr s, w')"
    unfolding ResearchActivities_research_def sel job fetch_tools_built using ask(1) by simp
  have "set (dict_values (gw_registry fetch_gateway)) = {fetch_capability}" by (simp add: fetch_gateway_def)
  with research_evidence_passed_the_gateway [OF run, of CircuitBreaker_ops] fetch_agent_works fetch_registry_inv sel job ev run
  show ?thesis by (metis (no_types, lifting) singletonD zero_le_one)
qed

end
