(* ===== verification/Reasons.thy ===== *)
theory Reasons
  imports Gateway Publication
begin

text \<open>
  The texts of the reasons a call was refused or failed for (\<open>mcp/breaker.py\<close>,
  \<open>domain/approvals.py\<close>, \<open>mcp/registry.py\<close>), with \<open>datetime.isoformat\<close> and the \<open>g\<close> format of numbers
  they use.
\<close>

section \<open>Times and numbers\<close>

text \<open>\<open>isoformat\<close> of a moment in UTC; microseconds are shown when there are any.\<close>

definition iso_datetime :: "datetime \<Rightarrow> string" where
  "iso_datetime t =
     (let day = t mod 86400000000; s = day div 1000000; us = day mod 1000000 in
      iso_date t @ ''T'' @ pad_zero 2 (nat (s div 3600)) @ '':'' @ pad_zero 2 (nat (s div 60 mod 60)) @ '':'' @ pad_zero 2 (nat (s mod 60)) @
      (if us = 0 then [] else ''.'' @ pad_zero 6 (nat us)) @ ''+00:00'')"

definition round_half_even :: "rat \<Rightarrow> int" where
  "round_half_even y =
     (let f = \<lfloor>y\<rfloor>; r = y - of_int f in if r < 1 / 2 \<or> r = 1 / 2 \<and> even f then f else f + 1)"

text \<open>The decimal exponent of a positive number: the \<open>e\<close> with \<open>10 ^ e \<le> x < 10 ^ (e + 1)\<close>.\<close>

definition decimal_exponent :: "rat \<Rightarrow> int" where
  "decimal_exponent x =
     (if x \<ge> 1 then int (length (py_str_nat (nat \<lfloor>x\<rfloor>))) - 1
      else (let k = length (py_str_nat (nat \<lfloor>1 / x\<rfloor>)) in if 1 / x = 10 ^ (k - 1) then 1 - int k else - int k))"

definition scaled :: "rat \<Rightarrow> int \<Rightarrow> rat" where
  "scaled x k = (if k \<ge> 0 then x * 10 ^ nat k else x / 10 ^ nat (- k))"

definition with_fraction :: "string \<Rightarrow> string \<Rightarrow> string" where
  "with_fraction whole digits =
     (let f = rev (dropWhile (\<lambda>c. c = CHR ''0'') (rev digits)) in if f = [] then whole else whole @ ''.'' @ f)"

text \<open>\<open>format(x, 'g')\<close>: six significant digits, trailing zeros dropped, an exponent when it is small or large.\<close>

definition format_g :: "rat \<Rightarrow> string" where
  "format_g x0 =
     (if x0 = 0 then ''0''
      else (let x = \<bar>x0\<bar>; e0 = decimal_exponent x; m0 = round_half_even (scaled x (5 - e0));
                m = (if m0 = 1000000 then 100000 else m0); e = (if m0 = 1000000 then e0 + 1 else e0);
                digits = py_str_nat (nat m); sign = (if x0 < 0 then ''-'' else [])
            in sign @ (if -4 \<le> e \<and> e < 6
              then (if e \<ge> 0 then with_fraction (take (nat (e + 1)) digits) (drop (nat (e + 1)) digits)
                    else with_fraction ''0'' (replicate (nat (- e - 1)) CHR ''0'' @ digits))
              else with_fraction (take 1 digits) (drop 1 digits) @ ''e'' @ (if e < 0 then ''-'' else ''+'') @ pad_zero 2 (nat \<bar>e\<bar>))))"


section \<open>Reasons\<close>

fun LimitError_text :: "LimitError \<Rightarrow> string" where
  "LimitError_text (BudgetExhausted job_id limit kind) =
     ''job '' @ uuid_str job_id @ '' reached its '' @ format_g limit @ '' '' @ kind @ '' budget''"
| "LimitError_text (LimitStoreUnavailable message) = message"
| "LimitError_text NegativeUsage = ''recorded usage cannot be negative''"

fun BreakerError_text :: "BreakerError \<Rightarrow> string" where
  "BreakerError_text (CircuitOpen server until) = ''circuit for '' @ server @ '' is open until '' @ iso_datetime until"
| "BreakerError_text (CircuitStoreUnavailable message) = message"
| "BreakerError_text CircuitAssertion = []"

fun ApprovalStatus_value :: "ApprovalStatus \<Rightarrow> string" where
  "ApprovalStatus_value AS_PENDING = ''pending''"
| "ApprovalStatus_value AS_GRANTED = ''granted''"
| "ApprovalStatus_value AS_REJECTED = ''rejected''"
| "ApprovalStatus_value AS_EXPIRED = ''expired''"

fun ApprovalError_text :: "ApprovalError \<Rightarrow> string" where
  "ApprovalError_text (AlreadyDecided i status) = ''approval '' @ uuid_str i @ '' was already '' @ ApprovalStatus_value status"
| "ApprovalError_text (ApprovalMismatch i server capability resource) =
     ''approval '' @ uuid_str i @ '' does not authorize '' @ server @ ''.'' @ capability @ '' on '' @ resource"

fun RegistryError_text :: "RegistryError \<Rightarrow> string" where
  "RegistryError_text (CapabilityNotFound server name) = ''capability '' @ server @ ''.'' @ name @ '' is not registered''"
| "RegistryError_text (DuplicateCapability qualified_name) = qualified_name @ '' is already registered''"

fun denial_text :: "denial_reason \<Rightarrow> string" where
  "denial_text (PolicyReason reason) = reason"
| "denial_text (ApprovalRequired qualified_name) = qualified_name @ '' requires reviewer approval''"
| "denial_text (ApprovalRefused e) = ApprovalError_text e"
| "denial_text (BudgetReason e) = LimitError_text e"
| "denial_text (CircuitReason e) = BreakerError_text e"

end
