(* ===== verification/Urls.thy ===== *)
theory Urls
  imports Encoding
begin

text \<open>
  \<open>urllib.parse.urlsplit\<close> and the attributes of its result, as the web boundary uses them. The
  library's check of a bracketed or non-ASCII network location, which may raise \<open>ValueError\<close>, is
  the parameter \<open>netloc_ok\<close>.
\<close>

record SplitResult =
  us_scheme :: string
  us_netloc :: string
  us_path :: string
  us_query :: string
  us_fragment :: string

definition ascii_alpha :: "char \<Rightarrow> bool" where
  "ascii_alpha c \<longleftrightarrow> (let n = (of_char c :: nat) in 65 \<le> n \<and> n \<le> 90 \<or> 97 \<le> n \<and> n \<le> 122)"

definition ascii_digit :: "char \<Rightarrow> bool" where
  "ascii_digit c \<longleftrightarrow> (let n = (of_char c :: nat) in 48 \<le> n \<and> n \<le> 57)"

definition scheme_char :: "char \<Rightarrow> bool" where
  "scheme_char c \<longleftrightarrow> ascii_alpha c \<or> ascii_digit c \<or> c \<in> {CHR ''+'', CHR ''-'', CHR ''.''}"

text \<open>Leading control characters and spaces are dropped, and tabs and line breaks everywhere.\<close>

definition unsafe_removed :: "string \<Rightarrow> string" where
  "unsafe_removed url = filter (\<lambda>c. (of_char c :: nat) \<notin> {9, 10, 13}) (dropWhile (\<lambda>c. (of_char c :: nat) \<le> 32) url)"

definition split_scheme :: "string \<Rightarrow> string \<times> string" where
  "split_scheme url = (let (s, sep, rest) = py_partition CHR '':'' url in
     if sep \<and> s \<noteq> [] \<and> ascii_alpha (hd s) \<and> list_all scheme_char s then (py_lower s, rest) else ([], url))"

definition netloc_end :: "char \<Rightarrow> bool" where
  "netloc_end c \<longleftrightarrow> c \<in> {CHR ''/'', CHR ''?'', CHR ''#''}"

definition urlsplit :: "(string \<Rightarrow> bool) \<Rightarrow> string \<Rightarrow> SplitResult option" where
  "urlsplit netloc_ok url0 =
     (let (scheme, url) = split_scheme (unsafe_removed url0);
          (netloc, url) = (if take 2 url = ''//''
                           then (takeWhile (\<lambda>c. \<not> netloc_end c) (drop 2 url), dropWhile (\<lambda>c. \<not> netloc_end c) (drop 2 url))
                           else ([], url))
      in if (CHR ''['' \<in> set netloc) \<noteq> (CHR '']'' \<in> set netloc) \<or> \<not> netloc_ok netloc then None
         else let (url, _, fragment) = py_partition CHR ''#'' url;
                  (path, _, query) = py_partition CHR ''?'' url
              in Some \<lparr>us_scheme = scheme, us_netloc = netloc, us_path = path, us_query = query, us_fragment = fragment\<rparr>)"

text \<open>\<open>rpartition('@')\<close>: what precedes the last \<open>@\<close>, if any, and what follows it.\<close>

definition rpartition :: "char \<Rightarrow> string \<Rightarrow> string \<times> bool \<times> string" where
  "rpartition d s = (let (b, sep, a) = py_partition d (rev s) in if sep then (rev a, True, rev b) else ([], False, s))"

definition us_username :: "SplitResult \<Rightarrow> string option" where
  "us_username p = (let (userinfo, have_info, _) = rpartition CHR ''@'' (us_netloc p) in
     if have_info then Some (fst (py_partition CHR '':'' userinfo)) else None)"

definition us_password :: "SplitResult \<Rightarrow> string option" where
  "us_password p = (let (userinfo, have_info, _) = rpartition CHR ''@'' (us_netloc p);
                        (_, have_password, password) = py_partition CHR '':'' userinfo
     in if have_info \<and> have_password then Some password else None)"

definition us_hostinfo :: "SplitResult \<Rightarrow> string \<times> string" where
  "us_hostinfo p =
     (let hostinfo = snd (snd (rpartition CHR ''@'' (us_netloc p)));
          (_, have_open_br, bracketed) = py_partition CHR ''['' hostinfo
      in if have_open_br
         then let (hostname, _, port) = py_partition CHR '']'' bracketed in (hostname, snd (snd (py_partition CHR '':'' port)))
         else let (hostname, _, port) = py_partition CHR '':'' hostinfo in (hostname, port))"

text \<open>\<open>hostname\<close> is \<open>None\<close> when empty; a zone after \<open>%\<close> keeps its case. \<open>port\<close> may raise \<open>ValueError\<close>.\<close>

definition us_hostname :: "SplitResult \<Rightarrow> string option" where
  "us_hostname p = (let hostname = fst (us_hostinfo p); (name, percent, zone) = py_partition CHR ''%'' hostname
     in if hostname = [] then None
        else Some (py_lower name @ (if percent then CHR ''%'' # zone else [])))"

definition us_port :: "SplitResult \<Rightarrow> nat option option" where
  "us_port p = (let port = snd (us_hostinfo p) in
     if port = [] then Some None
     else if list_all ascii_digit port \<and> py_int_of_digits port \<le> 65535 then Some (Some (py_int_of_digits port))
     else None)"

section \<open>What a split URL can hold\<close>

lemma py_partition_spec:
  "py_partition d s = (a, sep, b) \<Longrightarrow> d \<notin> set a \<and> (if sep then s = a @ d # b else a = s \<and> b = [])"
  by (induction d s arbitrary: a sep b rule: py_partition.induct) (auto split: if_splits prod.splits)

lemma py_partition_found [simp]: "d \<notin> set a \<Longrightarrow> py_partition d (a @ d # b) = (a, True, b)"
  by (induction a) auto

lemma py_partition_missing [simp]: "d \<notin> set s \<Longrightarrow> py_partition d s = (s, False, [])"
  by (induction s) auto

lemma py_partition_set:
  "py_partition d s = (a, sep, b) \<Longrightarrow> set a \<subseteq> set s \<and> set b \<subseteq> set s"
  using py_partition_spec [of d s a sep b] by (auto split: if_splits)

lemma rpartition_spec: "rpartition d s = (a, sep, b) \<Longrightarrow> d \<notin> set b \<and> set b \<subseteq> set s"
proof -
  assume r: "rpartition d s = (a, sep, b)"
  obtain x f y where p: "py_partition d (rev s) = (x, f, y)" by (cases "py_partition d (rev s)")
  from py_partition_spec [OF p] py_partition_set [OF p] r p show ?thesis
    by (auto simp: rpartition_def split: if_splits)
qed

lemma rpartition_missing [simp]: "d \<notin> set s \<Longrightarrow> rpartition d s = ([], False, s)"
  by (simp add: rpartition_def)

text \<open>Lowering keeps every character that is not a letter.\<close>

lemma lower_char_small: "(of_char d :: nat) < 65 \<Longrightarrow> lower_char c = d \<longleftrightarrow> c = d"
  by (auto simp: lower_char_def Let_def)

lemma lower_char_idem [simp]: "lower_char (lower_char c) = lower_char c"
  by (simp add: lower_char_def Let_def)

lemma py_lower_idem [simp]: "py_lower (py_lower s) = py_lower s"
  by (simp add: py_lower_def)

lemma py_lower_small: "(of_char d :: nat) < 65 \<Longrightarrow> d \<in> set (py_lower s) \<longleftrightarrow> d \<in> set s"
proof -
  assume d: "(of_char d :: nat) < 65"
  have "d \<in> set (py_lower s) \<longleftrightarrow> (\<exists>c \<in> set s. lower_char c = d)" by (auto simp: py_lower_def)
  also have "\<dots> \<longleftrightarrow> d \<in> set s" by (simp add: lower_char_small [OF d])
  finally show ?thesis .
qed

lemma hostinfo_set: "set (fst (us_hostinfo p)) \<subseteq> set (us_netloc p) - {CHR ''@''}"
proof -
  obtain a f h where r: "rpartition CHR ''@'' (us_netloc p) = (a, f, h)" by (cases "rpartition CHR ''@'' (us_netloc p)")
  obtain x g br where b: "py_partition CHR ''['' h = (x, g, br)" by (cases "py_partition CHR ''['' h")
  obtain h1 g1 p1 where b1: "py_partition CHR '']'' br = (h1, g1, p1)" by (cases "py_partition CHR '']'' br")
  obtain h2 g2 p2 where b2: "py_partition CHR '':'' h = (h2, g2, p2)" by (cases "py_partition CHR '':'' h")
  have "set (fst (us_hostinfo p)) \<subseteq> set h"
    using py_partition_set [OF b] py_partition_set [OF b1] py_partition_set [OF b2] by (auto simp: us_hostinfo_def r b b1 b2)
  with rpartition_spec [OF r] show ?thesis by blast
qed

lemma hostname_small:
  assumes "us_hostname p = Some h" and "d \<in> set (py_lower h)" and "(of_char d :: nat) < 65"
  shows "d \<in> set (us_netloc p) - {CHR ''@''}"
proof -
  obtain n f z where b: "py_partition CHR ''%'' (fst (us_hostinfo p)) = (n, f, z)"
    by (cases "py_partition CHR ''%'' (fst (us_hostinfo p))")
  have "h = py_lower n @ (if f then CHR ''%'' # z else [])"
    using assms(1) by (auto simp: us_hostname_def b split: if_splits)
  moreover have "d \<in> set h" using assms(2,3) by (simp add: py_lower_small)
  ultimately have "d \<in> set n \<or> d \<in> set z \<or> f \<and> d = CHR ''%''" using assms(3) by (auto simp: py_lower_small split: if_splits)
  then have "d \<in> set (fst (us_hostinfo p))" using py_partition_spec [OF b] by (auto split: if_splits)
  with hostinfo_set show ?thesis by blast
qed

definition unsafe_char :: "char \<Rightarrow> bool" where
  "unsafe_char c \<longleftrightarrow> (of_char c :: nat) \<in> {9, 10, 13}"

lemma urlsplit_parts:
  assumes "urlsplit ok u = Some p"
  shows "\<forall>c \<in> set (us_netloc p). \<not> netloc_end c \<and> \<not> unsafe_char c"
    and "us_netloc p \<noteq> [] \<Longrightarrow> us_path p = [] \<or> hd (us_path p) = CHR ''/''"
    and "\<forall>c \<in> set (us_path p). c \<notin> {CHR ''#'', CHR ''?''} \<and> \<not> unsafe_char c"
    and "\<forall>c \<in> set (us_query p). c \<noteq> CHR ''#'' \<and> \<not> unsafe_char c"
proof -
  obtain s r where sr: "split_scheme (unsafe_removed u) = (s, r)" by (cases "split_scheme (unsafe_removed u)")
  have safe: "\<forall>c \<in> set r. \<not> unsafe_char c"
  proof -
    obtain a f b where q: "py_partition CHR '':'' (unsafe_removed u) = (a, f, b)"
      by (cases "py_partition CHR '':'' (unsafe_removed u)")
    have "set r \<subseteq> set (unsafe_removed u)"
      using sr py_partition_set [OF q] by (auto simp: split_scheme_def q Let_def split: if_splits)
    then show ?thesis by (auto simp: unsafe_removed_def unsafe_char_def)
  qed
  define n where "n = (if take 2 r = ''//'' then takeWhile (\<lambda>c. \<not> netloc_end c) (drop 2 r) else [])"
  define rest where "rest = (if take 2 r = ''//'' then dropWhile (\<lambda>c. \<not> netloc_end c) (drop 2 r) else r)"
  obtain x f1 fr where x: "py_partition CHR ''#'' rest = (x, f1, fr)" by (cases "py_partition CHR ''#'' rest")
  obtain pa f2 qu where pa: "py_partition CHR ''?'' x = (pa, f2, qu)" by (cases "py_partition CHR ''?'' x")
  have p: "us_netloc p = n" "us_path p = pa" "us_query p = qu"
    using assms sr x pa unfolding urlsplit_def n_def rest_def
    by (auto simp: Let_def split: if_splits prod.splits)
  have sub: "set rest \<subseteq> set r" "set n \<subseteq> set r"
    by (auto simp: rest_def n_def dest: set_dropWhileD in_set_dropD set_takeWhileD split: if_splits)
  show "\<forall>c \<in> set (us_netloc p). \<not> netloc_end c \<and> \<not> unsafe_char c"
    using safe sub(2) by (auto simp: p n_def dest: set_takeWhileD)
  show "\<forall>c \<in> set (us_path p). c \<notin> {CHR ''#'', CHR ''?''} \<and> \<not> unsafe_char c"
    "\<forall>c \<in> set (us_query p). c \<noteq> CHR ''#'' \<and> \<not> unsafe_char c"
    using py_partition_spec [OF x] py_partition_spec [OF pa] py_partition_set [OF x] py_partition_set [OF pa] safe sub(1)
    by (auto simp: p split: if_splits)
  show "us_path p = [] \<or> hd (us_path p) = CHR ''/''" if "us_netloc p \<noteq> []"
  proof -
    have "take 2 r = ''//''" using that by (auto simp: p n_def split: if_splits)
    then have "rest = [] \<or> netloc_end (hd rest)"
      using hd_dropWhile [of "\<lambda>c. \<not> netloc_end c" "drop 2 r"] by (simp add: rest_def) blast
    then show ?thesis
      using py_partition_spec [OF x] py_partition_spec [OF pa]
      by (cases pa; cases x) (auto simp: p netloc_end_def split: if_splits)
  qed
qed

text \<open>A URL that is put together from clean parts is split into the same parts again.\<close>

lemma urlsplit_rebuilt:
  assumes "ok host" and "\<forall>c \<in> set host. \<not> netloc_end c \<and> \<not> unsafe_char c \<and> c \<notin> {CHR '':'', CHR ''['', CHR '']'', CHR ''@''}"
    and "\<forall>c \<in> set rest. c \<noteq> CHR ''#'' \<and> \<not> unsafe_char c" and "rest \<noteq> []" and "hd rest = CHR ''/''"
    and "host \<noteq> []" and "py_lower host = host"
  obtains p where "urlsplit ok (''https://'' @ host @ rest) = Some p" "us_scheme p = ''https''" "us_hostname p = Some host"
    "us_username p = None" "us_password p = None" "us_port p = Some None"
proof -
  have clean: "unsafe_removed (''https://'' @ host @ rest) = ''https://'' @ host @ rest"
    using assms(2,3) by (auto simp: unsafe_removed_def unsafe_char_def intro!: filter_True)
  have scheme: "split_scheme (''https://'' @ host @ rest) = (''https'', ''//'' @ host @ rest)"
    by (simp add: split_scheme_def ascii_alpha_def scheme_char_def py_lower_def lower_char_def)
  have cut: "takeWhile (\<lambda>c. \<not> netloc_end c) (host @ rest) = host" "dropWhile (\<lambda>c. \<not> netloc_end c) (host @ rest) = rest"
    using assms(2,4,5) by (cases rest; simp add: takeWhile_append2 dropWhile_append2 netloc_end_def)+
  have br: "CHR ''['' \<notin> set host" "CHR '']'' \<notin> set host" "CHR '':'' \<notin> set host" "CHR ''@'' \<notin> set host" using assms(2) by auto
  obtain path f q where q: "py_partition CHR ''?'' rest = (path, f, q)" by (cases "py_partition CHR ''?'' rest")
  define p where "p = \<lparr>us_scheme = ''https'', us_netloc = host, us_path = path, us_query = q, us_fragment = []\<rparr>"
  have "CHR ''#'' \<notin> set rest" using assms(3) by auto
  then have "urlsplit ok (''https://'' @ host @ rest) = Some p"
    unfolding urlsplit_def clean scheme using assms(1) br q by (simp add: cut p_def)
  moreover have "us_hostinfo p = (host, [])" using br by (simp add: us_hostinfo_def p_def)
  moreover have "us_hostname p = Some host"
  proof -
    obtain n f z where b: "py_partition CHR ''%'' host = (n, f, z)" by (cases "py_partition CHR ''%'' host")
    have "py_lower n @ (if f then CHR ''%'' # z else []) = host"
    proof -
      have "host = n @ (if f then CHR ''%'' # z else [])" using py_partition_spec [OF b] by (auto split: if_splits)
      moreover have "py_lower n = n"
        using calculation assms(7) by (auto simp: py_lower_def split: if_splits)
      ultimately show ?thesis by simp
    qed
    then show ?thesis using assms(6) calculation(2) by (simp add: us_hostname_def b)
  qed
  ultimately show ?thesis using br
    by (intro that [of p]) (simp_all add: p_def us_username_def us_password_def us_port_def)
qed

text \<open>And only such a URL: with a colon or a bracket in the host, what is split off again is another host, or nothing.\<close>

lemma hostname_length: "us_hostname p = Some h \<Longrightarrow> length h = length (fst (us_hostinfo p))"
proof -
  assume h: "us_hostname p = Some h"
  obtain n f z where b: "py_partition CHR ''%'' (fst (us_hostinfo p)) = (n, f, z)"
    by (cases "py_partition CHR ''%'' (fst (us_hostinfo p))")
  from h b py_partition_spec [OF b] show ?thesis by (auto simp: us_hostname_def py_lower_def split: if_splits)
qed

lemma hostinfo_shorter:
  assumes "CHR ''@'' \<notin> set (us_netloc p)" and "CHR '':'' \<in> set (us_netloc p) \<or> CHR ''['' \<in> set (us_netloc p)"
  shows "length (fst (us_hostinfo p)) < length (us_netloc p)"
proof -
  let ?h = "us_netloc p"
  obtain x g br where b: "py_partition CHR ''['' ?h = (x, g, br)" by (cases "py_partition CHR ''['' ?h")
  obtain h1 g1 p1 where b1: "py_partition CHR '']'' br = (h1, g1, p1)" by (cases "py_partition CHR '']'' br")
  obtain h2 g2 p2 where b2: "py_partition CHR '':'' ?h = (h2, g2, p2)" by (cases "py_partition CHR '':'' ?h")
  show ?thesis
  proof (cases g)
    case True
    then have "length br < length ?h" "length h1 \<le> length br" using py_partition_spec [OF b] py_partition_spec [OF b1] by (auto split: if_splits)
    with True assms(1) show ?thesis by (simp add: us_hostinfo_def b b1)
  next
    case False
    then have "CHR '':'' \<in> set ?h" using assms(2) py_partition_spec [OF b] by auto
    then have "length h2 < length ?h" using py_partition_spec [OF b2] by (cases g2) auto
    with False assms(1) show ?thesis by (simp add: us_hostinfo_def b b2)
  qed
qed

lemma urlsplit_rebuilt_only:
  assumes "urlsplit ok (''https://'' @ host @ rest) = Some p" and "us_hostname p = Some host"
    and "\<forall>c \<in> set host. \<not> netloc_end c \<and> \<not> unsafe_char c \<and> c \<noteq> CHR ''@''"
    and "\<forall>c \<in> set rest. c \<noteq> CHR ''#'' \<and> \<not> unsafe_char c" and "rest \<noteq> []" and "hd rest = CHR ''/''"
  shows "ok host \<and> set host \<inter> {CHR '':'', CHR ''['', CHR '']''} = {}"
proof -
  have clean: "unsafe_removed (''https://'' @ host @ rest) = ''https://'' @ host @ rest"
    using assms(3,4) by (auto simp: unsafe_removed_def unsafe_char_def intro!: filter_True)
  have scheme: "split_scheme (''https://'' @ host @ rest) = (''https'', ''//'' @ host @ rest)"
    by (simp add: split_scheme_def ascii_alpha_def scheme_char_def py_lower_def lower_char_def)
  have cut: "takeWhile (\<lambda>c. \<not> netloc_end c) (host @ rest) = host" "dropWhile (\<lambda>c. \<not> netloc_end c) (host @ rest) = rest"
    using assms(3,5,6) by (cases rest; simp add: takeWhile_append2 dropWhile_append2 netloc_end_def)+
  have net: "us_netloc p = host" "ok host" "CHR ''['' \<in> set host \<longleftrightarrow> CHR '']'' \<in> set host"
    using assms(1) unfolding urlsplit_def clean scheme by (auto simp: cut Let_def split: prod.splits if_splits)
  have "\<not> (CHR '':'' \<in> set host \<or> CHR ''['' \<in> set host)"
    using hostinfo_shorter [of p] hostname_length [OF assms(2)] assms(3) net(1) by auto
  with net show ?thesis by auto
qed

end
