(* ===== verification/Artifacts.thy ===== *)
theory Artifacts
  imports ServerText Urls
begin

text \<open>
  Where reports, manifests and evidence bundles are stored (\<open>application/artifacts.py\<close>,
  \<open>persistence/object_store.py\<close>). An artifact is addressed by a tenant and a name; the key is built
  here. The interface \<open>ArtifactStore\<close> is a locale that the in-memory store and the object store
  both interpret; the object store's server is modelled as far as its client is used.
\<close>

section \<open>Keys\<close>

text \<open>\<open>urllib.parse.quote\<close> with no safe characters: what is not unreserved is percent-encoded, byte by byte.\<close>

definition unreserved :: "nat \<Rightarrow> bool" where
  "unreserved n \<longleftrightarrow> 48 \<le> n \<and> n \<le> 57 \<or> 65 \<le> n \<and> n \<le> 90 \<or> 97 \<le> n \<and> n \<le> 122 \<or> n = 95 \<or> n = 46 \<or> n = 45 \<or> n = 126"

definition hex_upper :: "nat \<Rightarrow> char" where
  "hex_upper n = ''0123456789ABCDEF'' ! (n mod 16)"

definition percent :: "nat \<Rightarrow> string" where
  "percent n = [CHR ''%'', hex_upper (n div 16), hex_upper n]"

definition quote :: "string \<Rightarrow> string" where
  "quote s = concat (map (\<lambda>n. if unreserved n then [char_of n] else percent n) (utf8_encode (codes s)))"

definition tenant_segment :: "string \<Rightarrow> string" where
  "tenant_segment tenant_id = concat (map (\<lambda>c. if c = CHR ''.'' then ''%2E'' else [c]) (quote tenant_id))"

text \<open>\<open>_SEGMENT.fullmatch\<close>\<close>

definition SEGMENT :: "string \<Rightarrow> bool" where
  "SEGMENT s = (case s of [] \<Rightarrow> False
     | c # cs \<Rightarrow> (ascii_alpha c \<or> ascii_digit c) \<and> length cs \<le> 199 \<and>
         list_all (\<lambda>x. ascii_alpha x \<or> ascii_digit x \<or> x = CHR ''.'' \<or> x = CHR ''_'' \<or> x = CHR ''-'') cs)"

text \<open>What the stores raise; an error of the object store carries its code.\<close>

datatype ArtifactError = ArtifactNotFound string | InvalidArtifactName string | S3Error string

definition artifact_key :: "string \<Rightarrow> string \<Rightarrow> ArtifactError + string" where
  "artifact_key tenant_id name =
     (if tenant_id = [] then Inl (InvalidArtifactName ''an artifact must belong to a tenant'')
      else if \<not> list_all (\<lambda>segment. SEGMENT segment \<and> \<not> py_contains segment ''..'') (py_split CHR ''/'' name)
      then Inl (InvalidArtifactName (py_repr name @ '' is not a valid artifact name''))
      else Inr (''tenants/'' @ tenant_segment tenant_id @ ''/'' @ name))"

definition job_artifact :: "uuid \<Rightarrow> string \<Rightarrow> string" where
  "job_artifact job_id filename = ''jobs/'' @ uuid_str job_id @ ''/'' @ filename"


section \<open>Stores\<close>

record StoredArtifact =
  sa_key :: string
  sa_size :: nat
  sa_content_type :: string

record 'a ArtifactStore =
  as_put :: "'a \<Rightarrow> string \<Rightarrow> string \<Rightarrow> byte list \<Rightarrow> string \<Rightarrow> (ArtifactError + StoredArtifact) \<times> 'a"
  as_get :: "'a \<Rightarrow> string \<Rightarrow> string \<Rightarrow> ArtifactError + byte list"

type_synonym InMemoryArtifactStore = "(string, byte list) dict"

definition InMemoryArtifactStore_put ::
  "InMemoryArtifactStore \<Rightarrow> string \<Rightarrow> string \<Rightarrow> byte list \<Rightarrow> string \<Rightarrow> (ArtifactError + StoredArtifact) \<times> InMemoryArtifactStore" where
  "InMemoryArtifactStore_put a tenant_id name data content_type =
     (case artifact_key tenant_id name of
        Inl e \<Rightarrow> (Inl e, a)
      | Inr key \<Rightarrow> (Inr \<lparr>sa_key = key, sa_size = length data, sa_content_type = content_type\<rparr>, dict_set key data a))"

definition InMemoryArtifactStore_get :: "InMemoryArtifactStore \<Rightarrow> string \<Rightarrow> string \<Rightarrow> ArtifactError + byte list" where
  "InMemoryArtifactStore_get a tenant_id name =
     (case artifact_key tenant_id name of
        Inl e \<Rightarrow> Inl e
      | Inr key \<Rightarrow> (case dict_get a key of None \<Rightarrow> Inl (ArtifactNotFound name) | Some data \<Rightarrow> Inr data))"

definition InMemoryArtifactStore_ops :: "InMemoryArtifactStore ArtifactStore" where
  "InMemoryArtifactStore_ops = \<lparr>as_put = InMemoryArtifactStore_put, as_get = InMemoryArtifactStore_get\<rparr>"

text \<open>The object store's client, on the state of the server: a bucket holds objects under keys.\<close>

record 'm S3Client =
  s3_bucket_exists :: "'m \<Rightarrow> string \<Rightarrow> bool"
  s3_make_bucket :: "'m \<Rightarrow> string \<Rightarrow> (string + unit) \<times> 'm"
  s3_put_object :: "'m \<Rightarrow> string \<Rightarrow> string \<Rightarrow> byte list \<Rightarrow> string \<Rightarrow> (string + unit) \<times> 'm"
  s3_get_object :: "'m \<Rightarrow> string \<Rightarrow> string \<Rightarrow> string + byte list"

definition MISSING :: "string set" where
  "MISSING = {''NoSuchKey'', ''NoSuchObject'', ''NoSuchBucket''}"

definition MinioArtifactStore_ensure_bucket :: "'m S3Client \<Rightarrow> string \<Rightarrow> 'm \<Rightarrow> (ArtifactError + unit) \<times> 'm" where
  "MinioArtifactStore_ensure_bucket client bucket m =
     (if s3_bucket_exists client m bucket then (Inr (), m)
      else (case s3_make_bucket client m bucket of
          (Inr _, m') \<Rightarrow> (Inr (), m')
        | (Inl code, m') \<Rightarrow>
            if code \<notin> {''BucketAlreadyOwnedByYou'', ''BucketAlreadyExists''} then (Inl (S3Error code), m') else (Inr (), m')))"

definition MinioArtifactStore_put ::
  "'m S3Client \<Rightarrow> string \<Rightarrow> 'm \<Rightarrow> string \<Rightarrow> string \<Rightarrow> byte list \<Rightarrow> string \<Rightarrow> (ArtifactError + StoredArtifact) \<times> 'm" where
  "MinioArtifactStore_put client bucket m tenant_id name data content_type =
     (case artifact_key tenant_id name of
        Inl e \<Rightarrow> (Inl e, m)
      | Inr key \<Rightarrow>
          (case s3_put_object client m bucket key data content_type of
             (Inl code, m') \<Rightarrow> (Inl (S3Error code), m')
           | (Inr _, m') \<Rightarrow> (Inr \<lparr>sa_key = key, sa_size = length data, sa_content_type = content_type\<rparr>, m')))"

definition MinioArtifactStore_get :: "'m S3Client \<Rightarrow> string \<Rightarrow> 'm \<Rightarrow> string \<Rightarrow> string \<Rightarrow> ArtifactError + byte list" where
  "MinioArtifactStore_get client bucket m tenant_id name =
     (case artifact_key tenant_id name of
        Inl e \<Rightarrow> Inl e
      | Inr key \<Rightarrow>
          (case s3_get_object client m bucket key of
             Inl code \<Rightarrow> if code \<in> MISSING then Inl (ArtifactNotFound name) else Inl (S3Error code)
           | Inr data \<Rightarrow> Inr data))"

definition MinioArtifactStore_ops :: "'m S3Client \<Rightarrow> string \<Rightarrow> 'm ArtifactStore" where
  "MinioArtifactStore_ops client bucket =
     \<lparr>as_put = MinioArtifactStore_put client bucket, as_get = MinioArtifactStore_get client bucket\<rparr>"

text \<open>\<open>netloc_ok\<close> is what \<open>urlsplit\<close> checks of a bracketed host; the client is opened for a host with or without TLS.\<close>

datatype endpoint_error = EndpointRefused string | EndpointMalformed | BucketRefused ArtifactError

definition build_artifact_store ::
  "(string \<Rightarrow> bool) \<Rightarrow> (string \<Rightarrow> bool \<Rightarrow> 'm S3Client) \<Rightarrow> 'm \<Rightarrow> string \<Rightarrow> string \<Rightarrow> (endpoint_error + 'm ArtifactStore) \<times> 'm" where
  "build_artifact_store netloc_ok connect m endpoint bucket =
     (case urlsplit netloc_ok endpoint of
        None \<Rightarrow> (Inl EndpointMalformed, m)
      | Some parts \<Rightarrow>
          if us_scheme parts \<notin> {''http'', ''https''} \<or> us_netloc parts = []
          then (Inl (EndpointRefused ''the artifact endpoint must be an http(s) URL such as http://minio:9000''), m)
          else (let client = connect (us_netloc parts) (us_scheme parts = ''https'') in
            case MinioArtifactStore_ensure_bucket client bucket m of
              (Inl e, m') \<Rightarrow> (Inl (BucketRefused e), m')
            | (Inr _, m') \<Rightarrow> (Inr (MinioArtifactStore_ops client bucket), m')))"


section \<open>Keys are injective\<close>

text \<open>A code whose words are never extended by one another reads back uniquely.\<close>

lemma concat_map_unique:
  assumes code: "\<And>a b x y. a \<in> A \<Longrightarrow> b \<in> A \<Longrightarrow> f a @ x = f b @ y \<Longrightarrow> a = b" and ne: "\<And>a. f a \<noteq> []"
    and "concat (map f xs) = concat (map f ys)" and "set xs \<subseteq> A" "set ys \<subseteq> A"
  shows "xs = ys"
  using assms(3-)
proof (induction xs arbitrary: ys)
  case Nil
  then show ?case using ne by (cases ys) auto
next
  case (Cons x xs)
  then obtain y ys' where ys: "ys = y # ys'" using ne by (cases ys) auto
  with Cons.prems code have "x = y" by (metis concat.simps(2) list.set_intros(1) list.simps(9) subsetD)
  with ys Cons.prems Cons.IH [of ys'] show ?case by simp
qed

lemma utf8_char_unique:
  assumes "m < 256" "n < 256" "utf8_char m @ x = utf8_char n @ y"
  shows "m = n"
proof -
  have u: "utf8_char k = (if k < 128 then [k] else [192 + k div 64, 128 + k mod 64])" if "k < 256" for k
    using that by (simp add: utf8_char_def)
  consider "m < 128" "n < 128" | "m < 128" "\<not> n < 128" | "\<not> m < 128" "n < 128" | "\<not> m < 128" "\<not> n < 128" by blast
  then show ?thesis
  proof cases
    case 4
    with assms(3) have "m div 64 = n div 64" "m mod 64 = n mod 64" by (simp_all add: u [OF assms(1)] u [OF assms(2)])
    then show ?thesis using div_mult_mod_eq [of m 64] div_mult_mod_eq [of n 64] by linarith
  qed (use assms(3) in \<open>simp_all add: u [OF assms(1)] u [OF assms(2)]\<close>)
qed

lemma codes_less: "set (codes s) \<subseteq> {..<256}"
  by (auto simp: codes_def)

lemma utf8_codes_inject:
  assumes "utf8_encode (codes s) = utf8_encode (codes t)"
  shows "s = t"
proof -
  have "codes s = codes t"
  proof (rule concat_map_unique [of "{..<256}" utf8_char])
    show "concat (map utf8_char (codes s)) = concat (map utf8_char (codes t))" using assms by (simp add: utf8_encode_def)
    show "a = b" if "a \<in> {..<256}" "b \<in> {..<256}" "utf8_char a @ x = utf8_char b @ y" for a b x y
      using utf8_char_unique [OF _ _ that(3)] that(1,2) by simp
  qed (use codes_less in simp_all)
  then show "s = t" by (simp add: codes_def inj_map_eq_map [OF inj_of_char])
qed

lemma utf8_codes_bytes: "set (utf8_encode (codes s)) \<subseteq> {..<256}"
proof -
  have "set (utf8_char n) \<subseteq> {..<256}" if "n < 256" for n using that by (auto simp: utf8_char_def)
  then show ?thesis using codes_less [of s] by (fastforce simp: utf8_encode_def)
qed

text \<open>One byte of a tenant segment: itself when it is unreserved and no dot, percent-encoded otherwise.\<close>

definition segment_byte :: "nat \<Rightarrow> string" where
  "segment_byte n = (if unreserved n \<and> n \<noteq> 46 then [char_of n] else percent n)"

lemma hex_upper_inject: "hex_upper m = hex_upper n \<Longrightarrow> m mod 16 = n mod 16"
proof -
  assume "hex_upper m = hex_upper n"
  then have "''0123456789ABCDEF'' ! (m mod 16) = ''0123456789ABCDEF'' ! (n mod 16)" by (simp add: hex_upper_def)
  moreover have "distinct ''0123456789ABCDEF''" by simp
  moreover have "m mod 16 < length ''0123456789ABCDEF''" "n mod 16 < length ''0123456789ABCDEF''" by simp_all
  ultimately show "m mod 16 = n mod 16" using nth_eq_iff_index_eq by blast
qed

lemma hex_upper_plain: "hex_upper n \<in> set ''0123456789ABCDEF''"
proof -
  have "n mod 16 < length ''0123456789ABCDEF''" by simp
  then show ?thesis unfolding hex_upper_def by (rule nth_mem)
qed

lemma char_of_unreserved: "unreserved n \<Longrightarrow> of_char (char_of n :: char) = n"
proof -
  assume "unreserved n"
  then have "n < 256" by (auto simp: unreserved_def)
  then show ?thesis by simp
qed

lemma segment_byte_cases:
  "n < 256 \<Longrightarrow> segment_byte n = [char_of n] \<and> unreserved n \<and> n \<noteq> 46 \<or> segment_byte n = percent n \<and> \<not> (unreserved n \<and> n \<noteq> 46)"
  by (simp add: segment_byte_def)

lemma unreserved_char: "unreserved n \<Longrightarrow> (char_of n :: char) = c \<longleftrightarrow> n = of_char c"
  using char_of_unreserved [of n] by auto

lemma unreserved_plain: "unreserved n \<Longrightarrow> (char_of n :: char) \<noteq> CHR ''%'' \<and> (char_of n :: char) \<noteq> CHR ''/''"
  by (auto simp: unreserved_char) (simp_all add: unreserved_def)

lemma segment_byte_unique:
  assumes "m < 256" "n < 256" "segment_byte m @ x = segment_byte n @ y"
  shows "m = n"
proof -
  consider (plain) "segment_byte m = [char_of m]" "unreserved m" "segment_byte n = [char_of n]" "unreserved n"
    | (percent) "segment_byte m = percent m" "segment_byte n = percent n"
    | (left) "segment_byte m = [char_of m]" "unreserved m" "segment_byte n = percent n"
    | (right) "segment_byte m = percent m" "segment_byte n = [char_of n]" "unreserved n"
    using segment_byte_cases [OF assms(1)] segment_byte_cases [OF assms(2)] by blast
  then show ?thesis
  proof cases
    case plain
    with assms(3) have "(char_of m :: char) = char_of n" by simp
    then show ?thesis using char_of_unreserved plain(2,4) by metis
  next
    case percent
    with assms(3) have "hex_upper (m div 16) = hex_upper (n div 16)" "hex_upper m = hex_upper n" by (simp_all add: percent_def)
    then have "m div 16 mod 16 = n div 16 mod 16" "m mod 16 = n mod 16" by (auto dest: hex_upper_inject)
    moreover have "m div 16 mod 16 = m div 16" "n div 16 mod 16 = n div 16" using assms(1,2) by auto
    ultimately show ?thesis using div_mult_mod_eq [of m 16] div_mult_mod_eq [of n 16] by linarith
  next
    case left
    with assms(3) unreserved_plain [of m] show ?thesis by (simp add: percent_def)
  next
    case right
    with assms(3) unreserved_plain [of n] show ?thesis by (simp add: percent_def)
  qed
qed

lemma tenant_segment_bytes: "tenant_segment t = concat (map segment_byte (utf8_encode (codes t)))"
proof -
  let ?dot = "\<lambda>c. if c = CHR ''.'' then ''%2E'' else [c]"
  have hex: "hex_upper n \<noteq> CHR ''.''" for n using hex_upper_plain [of n] by auto
  have "concat (map ?dot (if unreserved n then [char_of n] else percent n)) = segment_byte n" for n
  proof (cases "unreserved n")
    case True
    then have "(char_of n :: char) = CHR ''.'' \<longleftrightarrow> n = 46" by (simp add: unreserved_char)
    with True show ?thesis by (simp add: segment_byte_def percent_def hex_upper_def)
  next
    case False
    with hex show ?thesis by (simp add: segment_byte_def percent_def)
  qed
  then have "concat (map ?dot (concat (map (\<lambda>n. if unreserved n then [char_of n] else percent n) ns))) = concat (map segment_byte ns)" for ns
    by (induction ns) simp_all
  then show ?thesis unfolding tenant_segment_def quote_def .
qed

lemma tenant_segment_inject: "tenant_segment s = tenant_segment t \<Longrightarrow> s = t"
proof -
  assume eq: "tenant_segment s = tenant_segment t"
  have "utf8_encode (codes s) = utf8_encode (codes t)"
  proof (rule concat_map_unique [of "{..<256}" segment_byte])
    show "concat (map segment_byte (utf8_encode (codes s))) = concat (map segment_byte (utf8_encode (codes t)))"
      using eq by (simp add: tenant_segment_bytes)
    show "a = b" if "a \<in> {..<256}" "b \<in> {..<256}" "segment_byte a @ x = segment_byte b @ y" for a b x y
      using segment_byte_unique [OF _ _ that(3)] that(1,2) by simp
  qed (use utf8_codes_bytes in \<open>simp_all add: segment_byte_def percent_def\<close>)
  then show "s = t" by (rule utf8_codes_inject)
qed

lemma tenant_segment_no_slash: "CHR ''/'' \<notin> set (tenant_segment t)"
proof -
  have hex: "CHR ''/'' \<noteq> hex_upper n" for n using hex_upper_plain [of n] by auto
  have "CHR ''/'' \<notin> set (segment_byte n)" for n
  proof (cases "unreserved n \<and> n \<noteq> 46")
    case True
    with unreserved_plain [of n] show ?thesis by (auto simp: segment_byte_def)
  next
    case False
    then show ?thesis by (simp only: segment_byte_def percent_def if_False list.simps hex simp_thms char.inject set_simps insert_iff empty_iff)
  qed
  then show ?thesis unfolding tenant_segment_bytes by auto
qed

lemma artifact_key_Inr:
  "artifact_key t n = Inr k \<Longrightarrow> k = ''tenants/'' @ tenant_segment t @ ''/'' @ n"
  by (simp add: artifact_key_def split: if_splits)

lemma append_sep_inject:
  "x \<notin> set xs \<Longrightarrow> x \<notin> set ys \<Longrightarrow> xs @ x # us = ys @ x # vs \<longleftrightarrow> xs = ys \<and> us = vs"
proof (induction xs arbitrary: ys)
  case Nil
  then show ?case by (cases ys) auto
next
  case (Cons z xs)
  then show ?case by (cases ys) auto
qed

lemma artifact_key_inject:
  assumes "artifact_key t n = Inr k" "artifact_key t' n' = Inr k"
  shows "t = t' \<and> n = n'"
proof -
  have "tenant_segment t @ CHR ''/'' # n = tenant_segment t' @ CHR ''/'' # n'"
    using artifact_key_Inr [OF assms(1)] artifact_key_Inr [OF assms(2)] by simp
  then have "tenant_segment t = tenant_segment t' \<and> n = n'"
    by (simp add: append_sep_inject tenant_segment_no_slash)
  then show ?thesis using tenant_segment_inject by blast
qed


text \<open>A job's own artifacts always have a key.\<close>

lemma py_split_sep: "d \<notin> set xs \<Longrightarrow> py_split d (xs @ d # ys) = xs # py_split d ys"
  by (induction xs) auto

lemma py_split_single: "d \<notin> set xs \<Longrightarrow> py_split d xs = [xs]"
  by (induction xs) auto

lemma uuid_str_chars:
  assumes "c \<in> set (uuid_str n)"
  shows "is_hex c \<or> c = CHR ''-''"
proof (cases "c = CHR ''-''")
  case False
  with assms have "c \<in> set (filter (\<lambda>c. c \<noteq> CHR ''-'') (uuid_str n))" by simp
  then show ?thesis unfolding uuid_str_digits by (simp add: hex_digits_chars)
qed simp

lemma length_uuid_str: "length (uuid_str n) = 36"
  by (simp add: uuid_str_def Let_def)

lemma uuid_str_hd: "is_hex (hd (uuid_str n))"
proof -
  let ?h = "hex_digits 32 (unat n)"
  have "uuid_str n = take 8 ?h @ ''-'' @ py_join ''-'' [take 4 (drop 8 ?h), take 4 (drop 12 ?h), take 4 (drop 16 ?h), drop 20 ?h]"
    by (simp add: uuid_str_def Let_def)
  moreover have "take 8 ?h \<noteq> []" by (metis length_greater_0_conv length_hex_digits length_take min_less_iff_conj zero_less_numeral)
  ultimately have "hd (uuid_str n) \<in> set ?h" by (metis hd_append2 hd_in_set in_set_takeD)
  then show ?thesis using hex_digits_chars by blast
qed

lemma is_hex_alnum: "is_hex c \<Longrightarrow> ascii_alpha c \<or> ascii_digit c"
  by (auto simp: is_hex_def ascii_alpha_def ascii_digit_def Let_def)

lemma uuid_segment: "SEGMENT (uuid_str n) \<and> \<not> py_contains (uuid_str n) ''..''"
proof -
  obtain c cs where cs: "uuid_str n = c # cs" using length_uuid_str [of n] by (cases "uuid_str n") auto
  have "ascii_alpha c \<or> ascii_digit c" using uuid_str_hd [of n] is_hex_alnum cs by simp
  moreover have "list_all (\<lambda>x. ascii_alpha x \<or> ascii_digit x \<or> x = CHR ''.'' \<or> x = CHR ''_'' \<or> x = CHR ''-'') cs"
    using uuid_str_chars [of _ n] is_hex_alnum cs by (fastforce simp: list_all_iff)
  moreover have "CHR ''.'' \<notin> set (uuid_str n)" using uuid_str_chars [of "CHR ''.''" n] by (auto simp: is_hex_def)
  then have "\<not> py_contains (uuid_str n) ''..''" using set_mono_sublist [of "''..''" "uuid_str n"] by auto
  ultimately show ?thesis using length_uuid_str [of n] cs by (simp add: SEGMENT_def)
qed

lemma job_artifact_key:
  assumes "t \<noteq> []" and "SEGMENT f" "\<not> py_contains f ''..''" "CHR ''/'' \<notin> set f"
  shows "artifact_key t (job_artifact j f) = Inr (''tenants/'' @ tenant_segment t @ ''/jobs/'' @ uuid_str j @ ''/'' @ f)"
proof -
  have "CHR ''/'' \<notin> set (uuid_str j)" using uuid_str_chars [of "CHR ''/''" j] by (auto simp: is_hex_def)
  then have "py_split CHR ''/'' (job_artifact j f) = [''jobs'', uuid_str j, f]"
    using py_split_sep [of "CHR ''/''" "''jobs''" "uuid_str j @ ''/'' @ f"] py_split_sep [of "CHR ''/''" "uuid_str j" f] assms(4)
    by (simp add: job_artifact_def py_split_single)
  moreover have "SEGMENT ''jobs'' \<and> \<not> py_contains ''jobs'' ''..''"
    by (simp add: SEGMENT_def ascii_alpha_def sublist_code)
  ultimately show ?thesis using assms(1-3) uuid_segment [of j] by (simp add: artifact_key_def job_artifact_def)
qed


section \<open>What a store promises\<close>

text \<open>Writes one after another: those that were accepted, and the store after them.\<close>

fun put_all ::
  "'a ArtifactStore \<Rightarrow> 'a \<Rightarrow> (string \<times> string \<times> byte list \<times> string) list \<Rightarrow> ((string \<times> string) \<times> byte list) list \<times> 'a" where
  "put_all store a [] = ([], a)"
| "put_all store a ((tenant_id, name, data, content_type) # ps) =
     (case as_put store a tenant_id name data content_type of
        (r, a1) \<Rightarrow> (case put_all store a1 ps of (ws, a2) \<Rightarrow> (if is_ok r then ((tenant_id, name), data) # ws else ws, a2)))"

text \<open>The last accepted write to one tenant's name.\<close>

definition latest :: "((string \<times> string) \<times> byte list) list \<Rightarrow> string \<Rightarrow> string \<Rightarrow> byte list option" where
  "latest ws tenant_id name = map_of (rev ws) (tenant_id, name)"

lemma latest_simps [simp]:
  "latest [] t n = None"
  "latest ((key, d) # ws) t n = (case latest ws t n of Some x \<Rightarrow> Some x | None \<Rightarrow> if key = (t, n) then Some d else None)"
  by (auto simp: latest_def map_add_def split: option.splits)

locale artifact_store =
  fixes store :: "'a ArtifactStore" and inv :: "'a \<Rightarrow> bool" and held :: "'a \<Rightarrow> string \<Rightarrow> byte list option"
  assumes put_stores: "inv a \<Longrightarrow> artifact_key t n = Inr k \<Longrightarrow> as_put store a t n d ct = (Inr sa, a') \<Longrightarrow>
      inv a' \<and> held a' = (held a)(k \<mapsto> d) \<and> sa = \<lparr>sa_key = k, sa_size = length d, sa_content_type = ct\<rparr>"
    and put_raises: "inv a \<Longrightarrow> as_put store a t n d ct = (Inl e, a') \<Longrightarrow> inv a' \<and> held a' = held a"
    and put_invalid: "artifact_key t n = Inl e \<Longrightarrow> as_put store a t n d ct = (Inl e, a)"
    and get_reads: "inv a \<Longrightarrow> as_get store a t n =
      (case artifact_key t n of Inl e \<Rightarrow> Inl e
       | Inr k \<Rightarrow> (case held a k of None \<Rightarrow> Inl (ArtifactNotFound n) | Some d \<Rightarrow> Inr d))"
begin

lemma put_result:
  assumes "inv a" and "as_put store a t n d ct = (r, a')"
  shows "inv a' \<and> (case r of Inl e \<Rightarrow> held a' = held a | Inr sa \<Rightarrow> (\<exists>k. artifact_key t n = Inr k \<and> held a' = (held a)(k \<mapsto> d) \<and> sa_key sa = k))"
proof (cases r)
  case (Inl e)
  with put_raises [OF assms(1)] assms(2) show ?thesis by simp
next
  case (Inr sa)
  then obtain k where k: "artifact_key t n = Inr k" using put_invalid assms(2) by (cases "artifact_key t n") auto
  from put_stores [OF assms(1) k, of d ct sa a'] assms(2) Inr k show ?thesis by simp
qed

lemma put_all_held:
  assumes "inv a" and "put_all store a ps = (ws, a')"
  shows "inv a' \<and> (\<forall>t n k. artifact_key t n = Inr k \<longrightarrow> held a' k = (case latest ws t n of Some d \<Rightarrow> Some d | None \<Rightarrow> held a k))"
  using assms
proof (induction ps arbitrary: a ws)
  case (Cons p ps)
  obtain t1 n1 d1 ct where p: "p = (t1, n1, d1, ct)" by (metis prod.exhaust)
  obtain r a1 where put: "as_put store a t1 n1 d1 ct = (r, a1)" by fastforce
  obtain ws1 where rest: "put_all store a1 ps = (ws1, a')" "ws = (if is_ok r then ((t1, n1), d1) # ws1 else ws1)"
    using Cons.prems(2) p put by (auto split: prod.splits)
  note r = put_result [OF Cons.prems(1) put]
  then have ih: "inv a' \<and> (\<forall>t n k. artifact_key t n = Inr k \<longrightarrow> held a' k = (case latest ws1 t n of Some d \<Rightarrow> Some d | None \<Rightarrow> held a1 k))"
    using Cons.IH [OF _ rest(1)] by blast
  show ?case
  proof (cases r)
    case (Inl e)
    with r have "held a1 = held a" by simp
    from ih [unfolded this] rest(2) Inl show ?thesis by simp
  next
    case (Inr sa)
    with r obtain k1 where k1: "artifact_key t1 n1 = Inr k1" "held a1 = (held a)(k1 \<mapsto> d1)" by auto
    have same: "k = k1 \<longleftrightarrow> (t1, n1) = (t, n)" if "artifact_key t n = Inr k" for t n k
      using artifact_key_inject [OF k1(1), of t n] that k1(1) by auto
    show ?thesis using ih rest(2) Inr k1(2) same by (auto split: option.splits)
  qed
qed simp

lemma puts_accepted:
  assumes total: "\<And>a t n d ct. inv a \<Longrightarrow> is_ok (artifact_key t n) \<Longrightarrow> is_ok (fst (as_put store a t n d ct))"
    and "inv a" and "put_all store a ps = (ws, a')"
  shows "ws = [((t, n), d). (t, n, d, ct) \<leftarrow> ps, is_ok (artifact_key t n)]"
  using assms(2,3)
proof (induction ps arbitrary: a ws)
  case (Cons p ps)
  obtain t1 n1 d1 ct where p: "p = (t1, n1, d1, ct)" by (metis prod.exhaust)
  obtain r a1 where put: "as_put store a t1 n1 d1 ct = (r, a1)" by fastforce
  have r: "is_ok r \<longleftrightarrow> is_ok (artifact_key t1 n1)"
  proof (cases "artifact_key t1 n1")
    case (Inl e)
    with put_invalid [OF Inl, of a d1 ct] put show ?thesis by simp
  next
    case (Inr k)
    with total [OF Cons.prems(1), of t1 n1 d1 ct] put show ?thesis by simp
  qed
  obtain ws1 where rest: "put_all store a1 ps = (ws1, a')" "ws = (if is_ok r then ((t1, n1), d1) # ws1 else ws1)"
    using Cons.prems(2) p put by (auto split: prod.splits)
  have "inv a1" using put_result [OF Cons.prems(1) put] by simp
  from Cons.IH [OF this rest(1)] rest(2) r p show ?case by simp
qed simp

lemma get_after_puts:
  assumes "inv a" and "put_all store a ps = (ws, a')"
  shows "as_get store a' t n =
    (case artifact_key t n of Inl e \<Rightarrow> Inl e
     | Inr k \<Rightarrow> (case latest ws t n of Some d \<Rightarrow> Inr d | None \<Rightarrow> as_get store a t n))"
  using put_all_held [OF assms] get_reads [of a' t n] get_reads [OF assms(1), of t n]
  by (cases "artifact_key t n") (auto split: option.splits)

end


section \<open>The two stores keep the promise\<close>

definition any_store :: "InMemoryArtifactStore \<Rightarrow> bool" where
  "any_store a \<longleftrightarrow> True"

interpretation mem_artifacts: artifact_store InMemoryArtifactStore_ops any_store dict_get
  by unfold_locales (auto simp: InMemoryArtifactStore_ops_def InMemoryArtifactStore_put_def InMemoryArtifactStore_get_def any_store_def
      fun_eq_iff split: sum.splits option.splits)

text \<open>An S3 server: each bucket is a map from keys to objects.\<close>

type_synonym S3Server = "(string, (string, byte list) dict) dict"

definition S3Server_client :: "S3Server S3Client" where
  "S3Server_client =
     \<lparr>s3_bucket_exists = (\<lambda>m b. dict_get m b \<noteq> None),
      s3_make_bucket = (\<lambda>m b. if dict_get m b \<noteq> None then (Inl ''BucketAlreadyOwnedByYou'', m) else (Inr (), dict_set b [] m)),
      s3_put_object = (\<lambda>m b k d ct. case dict_get m b of
         None \<Rightarrow> (Inl ''NoSuchBucket'', m) | Some objects \<Rightarrow> (Inr (), dict_set b (dict_set k d objects) m)),
      s3_get_object = (\<lambda>m b k. case dict_get m b of
         None \<Rightarrow> Inl ''NoSuchBucket'' | Some objects \<Rightarrow> (case dict_get objects k of None \<Rightarrow> Inl ''NoSuchKey'' | Some d \<Rightarrow> Inr d))\<rparr>"

definition bucket_held :: "string \<Rightarrow> S3Server \<Rightarrow> string \<Rightarrow> byte list option" where
  "bucket_held b m k = Option.bind (dict_get m b) (\<lambda>objects. dict_get objects k)"

interpretation minio_artifacts: artifact_store "MinioArtifactStore_ops S3Server_client b" "\<lambda>m. dict_get m b \<noteq> None" "bucket_held b" for b
  by unfold_locales (auto simp: MinioArtifactStore_ops_def MinioArtifactStore_put_def MinioArtifactStore_get_def S3Server_client_def
      bucket_held_def MISSING_def fun_eq_iff split: sum.splits option.splits)

text \<open>
  Artifacts are kept per tenant and name. Whatever is written to the in-memory store or to the object
  store, by whichever tenants and under whichever names, an artifact reads back as the last accepted
  write of that tenant to that name, and no write of another tenant or to another name changes it. A name
  that could leave the tenant's prefix is refused, and every other write is accepted.
\<close>

theorem artifacts_are_kept_per_tenant:
  "(case put_all InMemoryArtifactStore_ops [] ps of (ws, a) \<Rightarrow>
      ws = [((t, n), d). (t, n, d, ct) \<leftarrow> ps, is_ok (artifact_key t n)] \<and>
      as_get InMemoryArtifactStore_ops a tenant_id name =
        (case artifact_key tenant_id name of Inl e \<Rightarrow> Inl e
         | Inr k \<Rightarrow> (case latest ws tenant_id name of Some d \<Rightarrow> Inr d | None \<Rightarrow> Inl (ArtifactNotFound name)))) \<and>
   (case MinioArtifactStore_ensure_bucket S3Server_client bucket m of (r, m1) \<Rightarrow>
      r = Inr () \<and>
      (case put_all (MinioArtifactStore_ops S3Server_client bucket) m1 ps of (ws, m2) \<Rightarrow>
        ws = [((t, n), d). (t, n, d, ct) \<leftarrow> ps, is_ok (artifact_key t n)] \<and>
        as_get (MinioArtifactStore_ops S3Server_client bucket) m2 tenant_id name =
          (case artifact_key tenant_id name of Inl e \<Rightarrow> Inl e
           | Inr k \<Rightarrow> (case latest ws tenant_id name of Some d \<Rightarrow> Inr d
              | None \<Rightarrow> as_get (MinioArtifactStore_ops S3Server_client bucket) m tenant_id name))))"
proof (intro conjI)
  let ?accepted = "[((t, n), d). (t, n, d, ct) \<leftarrow> ps, is_ok (artifact_key t n)]"
  obtain ws a where mem: "put_all InMemoryArtifactStore_ops [] ps = (ws, a)" by fastforce
  have "ws = ?accepted"
    by (rule mem_artifacts.puts_accepted [OF _ _ mem])
      (auto simp: InMemoryArtifactStore_ops_def InMemoryArtifactStore_put_def any_store_def is_ok_iff)
  moreover have "as_get InMemoryArtifactStore_ops [] tenant_id name =
      (case artifact_key tenant_id name of Inl e \<Rightarrow> Inl e | Inr k \<Rightarrow> Inl (ArtifactNotFound name))"
    by (simp add: InMemoryArtifactStore_ops_def InMemoryArtifactStore_get_def split: sum.split)
  ultimately show "case put_all InMemoryArtifactStore_ops [] ps of (ws, a) \<Rightarrow> ws = ?accepted \<and>
      as_get InMemoryArtifactStore_ops a tenant_id name =
        (case artifact_key tenant_id name of Inl e \<Rightarrow> Inl e
         | Inr k \<Rightarrow> (case latest ws tenant_id name of Some d \<Rightarrow> Inr d | None \<Rightarrow> Inl (ArtifactNotFound name)))"
    using mem mem_artifacts.get_after_puts [OF _ mem, of tenant_id name] by (simp add: any_store_def split: sum.split option.split)
  obtain r m1 where ens: "MinioArtifactStore_ensure_bucket S3Server_client bucket m = (r, m1)" by fastforce
  then have m1: "r = Inr ()" "dict_get m1 bucket \<noteq> None" and same:
    "as_get (MinioArtifactStore_ops S3Server_client bucket) m1 tenant_id name = as_get (MinioArtifactStore_ops S3Server_client bucket) m tenant_id name"
    by (auto simp: MinioArtifactStore_ensure_bucket_def S3Server_client_def MinioArtifactStore_ops_def MinioArtifactStore_get_def
        MISSING_def split: if_splits sum.splits option.splits)
  obtain ws2 m2 where obj: "put_all (MinioArtifactStore_ops S3Server_client bucket) m1 ps = (ws2, m2)" by fastforce
  have acc: "ws2 = ?accepted"
    by (rule minio_artifacts.puts_accepted [OF _ m1(2) obj])
      (auto simp: MinioArtifactStore_ops_def MinioArtifactStore_put_def S3Server_client_def is_ok_iff)
  show "case MinioArtifactStore_ensure_bucket S3Server_client bucket m of (r, m1) \<Rightarrow> r = Inr () \<and>
      (case put_all (MinioArtifactStore_ops S3Server_client bucket) m1 ps of (ws, m2) \<Rightarrow> ws = ?accepted \<and>
        as_get (MinioArtifactStore_ops S3Server_client bucket) m2 tenant_id name =
          (case artifact_key tenant_id name of Inl e \<Rightarrow> Inl e
           | Inr k \<Rightarrow> (case latest ws tenant_id name of Some d \<Rightarrow> Inr d
              | None \<Rightarrow> as_get (MinioArtifactStore_ops S3Server_client bucket) m tenant_id name)))"
    unfolding ens obj prod.case by (intro conjI m1(1) acc minio_artifacts.get_after_puts [OF m1(2) obj, of tenant_id name, unfolded same])
qed

end
