(* ===== verification/Executor.thy ===== *)
theory Executor
  imports Gateway Jobs Reasons Artifacts
begin

text \<open>
  What stands behind the gateway's executor: \<open>FastMCPExecutor\<close> (\<open>mcp/fastmcp_executor.py\<close>), which
  calls a server in process or over HTTP, the service tokens of remote calls
  (\<open>mcp/service_tokens.py\<close>), and the evidence server (\<open>mcp/servers/evidence_server.py\<close>). The MCP
  client is a parameter: what a call of a tool at a target answers.
\<close>

section \<open>Service tokens\<close>

definition EXPIRY_MARGIN_SECONDS :: pyfloat where
  "EXPIRY_MARGIN_SECONDS = 30"

datatype TokenUnavailable = TokenUnavailable string

text \<open>What the token endpoint answers: the name of the exception a bad answer raises, or the token and its lifetime.\<close>

type_synonym token_answer = "string + string \<times> pyfloat"

record ClientCredentialsTokens =
  cct_token :: "string option"
  cct_expires_at :: pyfloat

definition ClientCredentialsTokens_init :: ClientCredentialsTokens where
  "ClientCredentialsTokens_init = \<lparr>cct_token = None, cct_expires_at = 0\<rparr>"

text \<open>The form a token is asked for with; the answer is the endpoint's.\<close>

definition token_form :: "string option \<Rightarrow> (string \<times> string) list" where
  "token_form audience =
     (''grant_type'', ''client_credentials'') #
     (case audience of None \<Rightarrow> [] | Some a \<Rightarrow> if a = [] then [] else [(''audience'', a)])"

definition ClientCredentialsTokens_request ::
  "((string \<times> string) list \<Rightarrow> token_answer) \<Rightarrow> string option \<Rightarrow> TokenUnavailable + string \<times> pyfloat" where
  "ClientCredentialsTokens_request post audience =
     (case post (token_form audience) of
        Inl error_name \<Rightarrow> Inl (TokenUnavailable (error_name @ '' from the token endpoint''))
      | Inr granted \<Rightarrow> Inr granted)"

text \<open>\<open>__call__\<close>: \<open>now\<close> is the clock when the cached token is looked at, \<open>later\<close> after a new one was granted.\<close>

definition ClientCredentialsTokens_call ::
  "((string \<times> string) list \<Rightarrow> token_answer) \<Rightarrow> string option \<Rightarrow> pyfloat \<Rightarrow> pyfloat \<Rightarrow> ClientCredentialsTokens \<Rightarrow>
   (TokenUnavailable + string) \<times> ClientCredentialsTokens" where
  "ClientCredentialsTokens_call post audience now later s =
     (case cct_token s of
        Some token \<Rightarrow>
          if now \<ge> cct_expires_at s
          then (case ClientCredentialsTokens_request post audience of
              Inl e \<Rightarrow> (Inl e, s)
            | Inr (token', lifetime) \<Rightarrow>
                (Inr token', \<lparr>cct_token = Some token', cct_expires_at = later + max 0 (lifetime - EXPIRY_MARGIN_SECONDS)\<rparr>))
          else (Inr token, s)
      | None \<Rightarrow>
          (case ClientCredentialsTokens_request post audience of
             Inl e \<Rightarrow> (Inl e, s)
           | Inr (token', lifetime) \<Rightarrow>
               (Inr token', \<lparr>cct_token = Some token', cct_expires_at = later + max 0 (lifetime - EXPIRY_MARGIN_SECONDS)\<rparr>)))"


section \<open>The executor\<close>

text \<open>An in-process server, by the name it was built for, or the URL of a remote one.\<close>

datatype Target = LocalServer string | RemoteServer string

definition REFUSAL_MARKERS :: "string list" where
  "REFUSAL_MARKERS = [''source refused'', ''rate limited'', ''validation error'', ''must identify'']"

definition classify :: "string \<Rightarrow> executor_answer" where
  "classify message =
     (if list_ex (\<lambda>marker. py_contains (py_lower message) marker) REFUSAL_MARKERS
      then UpstreamError message EC_INVALID_ARGUMENTS else UpstreamError message EC_UPSTREAM_UNAVAILABLE)"

text \<open>A call of a tool raised, did not answer in time, or gave content blocks, of which those with text count.\<close>

datatype mcp_answer = CallRaised string | CallTimedOut | CallContent "unicode option list"

record mcp_call =
  mc_target :: Target
  mc_tool :: string
  mc_arguments :: arguments
  mc_token :: "string option"
  mc_timeout :: pyfloat

record FastMCPExecutor =
  fx_servers :: "(string, Target) dict"
  fx_has_tokens :: bool

definition FastMCPExecutor_init :: "(string, Target) dict \<Rightarrow> bool \<Rightarrow> string + FastMCPExecutor" where
  "FastMCPExecutor_init servers has_tokens =
     (if servers = [] then Inl ''at least one MCP server must be registered''
      else Inr \<lparr>fx_servers = servers, fx_has_tokens = has_tokens\<rparr>)"

text \<open>\<open>_token_for\<close>: \<open>provided\<close> is what the token provider answers, with the text of its failure.\<close>

definition FastMCPExecutor_token_for :: "FastMCPExecutor \<Rightarrow> string + string \<Rightarrow> Target \<Rightarrow> executor_answer + string option" where
  "FastMCPExecutor_token_for fx provided target =
     (case target of
        LocalServer _ \<Rightarrow> Inr None
      | RemoteServer _ \<Rightarrow>
          if \<not> fx_has_tokens fx then Inr None
          else (case provided of
              Inl e \<Rightarrow> Inl (UpstreamError (''a service token could not be obtained: '' @ e) EC_UPSTREAM_UNAVAILABLE)
            | Inr token \<Rightarrow> Inr (Some token)))"

definition FastMCPExecutor_call :: "(mcp_call \<Rightarrow> mcp_answer) \<Rightarrow> mcp_call \<Rightarrow> executor_answer" where
  "FastMCPExecutor_call client call =
     (case client call of
        CallRaised message \<Rightarrow> classify message
      | CallTimedOut \<Rightarrow> UpstreamError ''the capability did not respond in time'' EC_TIMEOUT
      | CallContent blocks \<Rightarrow>
          (let text = py_join [10] (List.map_filter (\<lambda>block. case block of None \<Rightarrow> None | Some t \<Rightarrow> if t = [] then None else Some t) blocks) in
           if text = [] then UpstreamError (mc_tool call @ '' returned no readable content'') EC_UPSTREAM_UNAVAILABLE
           else ExecutorText text))"

text \<open>The calls made on the way, at most one, are returned with the answer.\<close>

definition FastMCPExecutor_execute ::
  "(mcp_call \<Rightarrow> mcp_answer) \<Rightarrow> string + string \<Rightarrow> FastMCPExecutor \<Rightarrow> ExecutionRequest \<Rightarrow> executor_answer \<times> mcp_call list" where
  "FastMCPExecutor_execute client provided fx request =
     (let capability = xr_capability request in
      case dict_get (fx_servers fx) (cap_server capability) of
        None \<Rightarrow> (UpstreamError (''MCP server '' @ cap_server capability @ '' is not reachable'') EC_UPSTREAM_UNAVAILABLE, [])
      | Some target \<Rightarrow>
          (case FastMCPExecutor_token_for fx provided target of
             Inl e \<Rightarrow> (e, [])
           | Inr token \<Rightarrow>
               (let call = \<lparr>mc_target = target, mc_tool = cap_name capability,
                            mc_arguments = dict_set ''tenant_id'' (VStr (pr_tenant_id (xr_principal request))) (xr_arguments request),
                            mc_token = token, mc_timeout = cap_timeout_seconds capability\<rparr> in
                (FastMCPExecutor_call client call, [call]))))"


section \<open>The evidence server\<close>

text \<open>\<open>UUID(text)\<close>: the prefixes and braces it drops, and \<open>int(hex, 16)\<close> on the 32 characters left.\<close>

fun py_remove :: "string \<Rightarrow> string \<Rightarrow> string" where
  "py_remove p [] = []"
| "py_remove p (c # cs) = (if p \<noteq> [] \<and> prefix p (c # cs) then py_remove p (drop (length p - 1) cs) else c # py_remove p cs)"

fun hex_number :: "bool \<Rightarrow> nat \<Rightarrow> string \<Rightarrow> nat option" where
  "hex_number ended acc [] = (if ended then Some acc else None)"
| "hex_number ended acc (c # cs) =
     (if is_hex c then hex_number True (16 * acc + hex_value c) cs
      else if c = CHR ''_'' \<and> ended then hex_number False acc cs else None)"

definition int_base16 :: "string \<Rightarrow> int option" where
  "int_base16 s =
     (let body = py_strip s;
          negative = (body \<noteq> [] \<and> hd body = CHR ''-'');
          digits = (if body \<noteq> [] \<and> hd body \<in> {CHR ''-'', CHR ''+''} then tl body else body);
          plain = (if prefix ''0x'' digits \<or> prefix ''0X'' digits
                   then (if length digits > 2 \<and> digits ! 2 = CHR ''_'' then drop 3 digits else drop 2 digits) else digits) in
      map_option (\<lambda>n. if negative then - int n else int n) (hex_number False 0 plain))"

definition py_uuid :: "string \<Rightarrow> uuid option" where
  "py_uuid s =
     (let bare = py_remove ''uuid:'' (py_remove ''urn:'' s);
          is_brace = (\<lambda>c. c = CHR ''{'' \<or> c = CHR ''}'');
          hex = filter (\<lambda>c. c \<noteq> CHR ''-'') (rev (dropWhile is_brace (rev (dropWhile is_brace bare)))) in
      if length hex \<noteq> 32 then None
      else (case int_base16 hex of
          None \<Rightarrow> None
        | Some n \<Rightarrow> if 0 \<le> n \<and> n < 2 ^ 128 then Some (word_of_int n) else None))"

text \<open>A string of code points as \<open>json.dumps\<close> writes it: escapes below 256 as before, surrogate pairs above the first plane.\<close>

definition json_escape :: "nat \<Rightarrow> string" where
  "json_escape n = [CHR 0x5C, CHR ''u''] @ hex_digits 4 n"

definition json_code :: "nat \<Rightarrow> string" where
  "json_code n =
     (if n < 256 then json_char (char_of n)
      else if n < 65536 then json_escape n
      else json_escape (55296 + (n - 65536) div 1024) @ json_escape (56320 + (n - 65536) mod 1024))"

definition json_unicode :: "unicode \<Rightarrow> string" where
  "json_unicode s = [CHR 0x22] @ concat (map json_code s) @ [CHR 0x22]"

record evidence_view =
  vw_id :: string
  vw_excerpt :: unicode
  vw_source_uri :: string
  vw_title :: "string option"
  vw_published_at :: "string option"
  vw_retrieved_at :: string
  vw_trust_level :: string
  vw_content_hash :: string

definition view_of :: "EvidenceRecord \<Rightarrow> evidence_view" where
  "view_of e =
     \<lparr>vw_id = uuid_str (ev_id e), vw_excerpt = ev_excerpt e, vw_source_uri = ev_source_uri e, vw_title = ev_title e,
      vw_published_at = map_option iso_datetime (ev_published_at e), vw_retrieved_at = iso_datetime (ev_retrieved_at e),
      vw_trust_level = TrustLevel_value (ev_trust_level e), vw_content_hash = ev_content_hash e\<rparr>"

definition json_optional :: "string option \<Rightarrow> string" where
  "json_optional s = (case s of None \<Rightarrow> ''null'' | Some t \<Rightarrow> json_string t)"

definition json_view :: "evidence_view \<Rightarrow> string" where
  "json_view v =
     ''{'' @ py_join '',''
       (map (\<lambda>(k, x). json_string k @ '':'' @ x)
          [(''id'', json_string (vw_id v)), (''excerpt'', json_unicode (vw_excerpt v)), (''source_uri'', json_string (vw_source_uri v)),
           (''title'', json_optional (vw_title v)), (''published_at'', json_optional (vw_published_at v)),
           (''retrieved_at'', json_string (vw_retrieved_at v)), (''trust_level'', json_string (vw_trust_level v)),
           (''content_hash'', json_string (vw_content_hash v))]) @ ''}''"

text \<open>A \<open>ValueError\<close> with its text, or an error of the source that is not caught.\<close>

datatype EvidenceError = EvidenceRefused string | EvidenceSource JobError

definition EvidenceService_retrieve ::
  "'r JobRepository \<Rightarrow> 'r \<Rightarrow> string \<Rightarrow> string \<Rightarrow> string option \<Rightarrow> EvidenceError + evidence_view list" where
  "EvidenceService_retrieve repo r tenant_id job_id evidence_id =
     (if tenant_id = [] \<or> py_strip tenant_id = [] then Inl (EvidenceRefused ''an evidence call must identify its tenant'')
      else (case (py_uuid job_id, case evidence_id of None \<Rightarrow> Some None | Some x \<Rightarrow> if x = [] then Some None else map_option Some (py_uuid x)) of
          (Some job, Some wanted) \<Rightarrow>
            (case jr_list_evidence repo r tenant_id job of
               Inl (JobNotFound _) \<Rightarrow> Inl (EvidenceRefused (''no evidence is recorded for job '' @ job_id))
             | Inl e \<Rightarrow> Inl (EvidenceSource e)
             | Inr records \<Rightarrow> Inr (map view_of (filter (\<lambda>e. wanted = None \<or> wanted = Some (ev_id e)) records)))
        | _ \<Rightarrow> Inl (EvidenceRefused ''job_id and evidence_id must be identifiers'')))"

definition retrieve_tool ::
  "'r JobRepository \<Rightarrow> 'r \<Rightarrow> string \<Rightarrow> string \<Rightarrow> string option \<Rightarrow> EvidenceError ToolError + string" where
  "retrieve_tool repo r tenant_id job_id evidence_id =
     (case EvidenceService_retrieve repo r tenant_id job_id evidence_id of
        Inl (EvidenceRefused e) \<Rightarrow> Inl (ToolRefused (''validation error: '' @ e))
      | Inl e \<Rightarrow> Inl (ToolEscaped e)
      | Inr views \<Rightarrow> Inr (''['' @ py_join '','' (map json_view views) @ '']''))"


section \<open>What a call carries\<close>

text \<open>
  C36. Whatever arguments an agent produced, a call reaches at most one server, the one registered for the
  capability, under the capability's own tool name and with the tenant of the authenticated principal in
  place of any tenant the agent named; every other argument is passed as it is. A service token goes to
  remote servers only. Text comes back only from such a call.
\<close>

theorem mcp_calls_carry_the_callers_tenant:
  assumes "FastMCPExecutor_execute client provided fx request = (answer, calls)"
  shows "length calls \<le> 1 \<and>
    (\<forall>call \<in> set calls.
       dict_get (fx_servers fx) (cap_server (xr_capability request)) = Some (mc_target call) \<and>
       mc_tool call = cap_name (xr_capability request) \<and>
       dict_get (mc_arguments call) ''tenant_id'' = Some (VStr (pr_tenant_id (xr_principal request))) \<and>
       (\<forall>k. k \<noteq> ''tenant_id'' \<longrightarrow> dict_get (mc_arguments call) k = dict_get (xr_arguments request) k) \<and>
       (mc_token call \<noteq> None \<longrightarrow> (\<exists>url. mc_target call = RemoteServer url) \<and> provided = Inr (the (mc_token call)))) \<and>
    (\<forall>text. answer = ExecutorText text \<longrightarrow> text \<noteq> [] \<and>
       (\<exists>call blocks. calls = [call] \<and> client call = CallContent blocks \<and> (\<forall>b \<in> set blocks. b = None \<or> b = Some [] \<or> sublist (the b) text)))"
proof -
  have joined: "sublist x (py_join s xs)" if "x \<in> set xs" for x s and xs :: "unicode list"
    using that
  proof (induction xs rule: induct_list012)
    case (3 y z zs)
    have "sublist (py_join s (z # zs)) (y @ s @ py_join s (z # zs))" by (metis append.assoc append_Nil2 sublist_appendI)
    with 3 show ?case by (auto intro: sublist_order.order_trans)
  qed auto
  have answered: "T \<noteq> [] \<and> (\<exists>blocks. client call = CallContent blocks \<and> (\<forall>b \<in> set blocks. b = None \<or> b = Some [] \<or> sublist (the b) T))"
    if call: "FastMCPExecutor_call client call = ExecutorText T" for call T
  proof (cases "client call")
    case (CallContent blocks)
    let ?kept = "List.map_filter (\<lambda>block. case block of None \<Rightarrow> None | Some t \<Rightarrow> if t = [] then None else Some t) blocks"
    have T: "T = py_join [10] ?kept" "T \<noteq> []" using call CallContent by (auto simp: FastMCPExecutor_call_def Let_def split: if_splits)
    have "the b \<in> set ?kept" if "b \<in> set blocks" "b \<noteq> None" "b \<noteq> Some []" for b
      using that by (induction blocks) (auto simp: map_filter_simps split: option.splits)
    then have "b = None \<or> b = Some [] \<or> sublist (the b) T" if "b \<in> set blocks" for b
      unfolding T(1) using that joined by blast
    with T(2) CallContent show ?thesis by blast
  qed (use call in \<open>auto simp: FastMCPExecutor_call_def classify_def split: if_splits\<close>)
  show ?thesis using assms answered
    by (auto simp: FastMCPExecutor_execute_def FastMCPExecutor_token_for_def Let_def
        split: option.splits sum.splits Target.splits if_splits)
qed

text \<open>An agent of one tenant that names another.\<close>

theorem mcp_calls_carry_the_callers_tenant_witness:
  "\<exists>call. FastMCPExecutor_execute (\<lambda>_. CallContent [Some [72]]) (Inl ''none'')
      \<lparr>fx_servers = [(''evidence'', LocalServer ''evidence'')], fx_has_tokens = False\<rparr>
      \<lparr>xr_capability = Capability_default ''evidence'' ''retrieve'' ''d'',
       xr_principal = \<lparr>pr_tenant_id = ''acme'', pr_subject_id = ''u'', pr_roles = {}, pr_agent_role = Some AR_CRITIC, pr_clearance = AC_INTERNAL\<rparr>,
       xr_arguments = [(''tenant_id'', VStr ''evil''), (''job_id'', VStr ''j'')]\<rparr> = (ExecutorText [72], [call]) \<and>
     dict_get (mc_arguments call) ''tenant_id'' = Some (VStr ''acme'')"
proof -
  let ?rq = "\<lparr>xr_capability = Capability_default ''evidence'' ''retrieve'' ''d'',
       xr_principal = \<lparr>pr_tenant_id = ''acme'', pr_subject_id = ''u'', pr_roles = {}, pr_agent_role = Some AR_CRITIC, pr_clearance = AC_INTERNAL\<rparr>,
       xr_arguments = [(''tenant_id'', VStr ''evil''), (''job_id'', VStr ''j'')]\<rparr>"
  let ?fx = "\<lparr>fx_servers = [(''evidence'', LocalServer ''evidence'')], fx_has_tokens = False\<rparr>"
  obtain call where run: "FastMCPExecutor_execute (\<lambda>_. CallContent [Some [72]]) (Inl ''none'') ?fx ?rq = (ExecutorText [72], [call])"
    by (simp add: FastMCPExecutor_execute_def FastMCPExecutor_token_for_def FastMCPExecutor_call_def Capability_default_def Let_def map_filter_simps)
  from mcp_calls_carry_the_callers_tenant [OF run] have "dict_get (mc_arguments call) ''tenant_id'' = Some (VStr ''acme'')" by simp
  with run show ?thesis by blast
qed


section \<open>What the evidence server gives\<close>

lemma py_remove_other: "c \<in> set p \<Longrightarrow> c \<notin> set s \<Longrightarrow> py_remove p s = s"
proof (induction s)
  case (Cons x xs)
  then have "\<not> prefix p (x # xs)" using set_mono_prefix by fastforce
  with Cons show ?case by simp
qed simp

lemma hex_number_digits:
  "list_all is_hex s \<Longrightarrow> s \<noteq> [] \<or> ended \<Longrightarrow> hex_number ended acc s = Some (foldl (\<lambda>a c. 16 * a + hex_value c) acc s)"
  by (induction s arbitrary: ended acc) auto

lemma hex_not_special: "is_hex c \<Longrightarrow> \<not> is_space c \<and> c \<notin> {CHR ''-'', CHR ''+'', CHR ''x'', CHR ''X'', CHR ''_'', CHR ''u'', CHR ''{'', CHR ''}''}"
  by (auto simp: is_hex_def is_space_def Let_def)

lemma strip_hex: "list_all is_hex s \<Longrightarrow> py_strip s = s"
proof -
  assume hex: "list_all is_hex s"
  have "dropWhile is_space xs = xs" if "list_all is_hex xs" for xs using that hex_not_special by (cases xs) auto
  from this [of s] this [of "rev s"] hex show ?thesis by (simp add: py_strip_def py_rstrip_def py_lstrip_def)
qed

lemma int_base16_hex:
  assumes "list_all is_hex h" and "h \<noteq> []"
  shows "int_base16 h = Some (int (foldl (\<lambda>a c. 16 * a + hex_value c) 0 h))"
proof -
  have "is_hex (hd h)" using assms by (cases h) auto
  then have sign: "hd h \<noteq> CHR ''-''" "hd h \<noteq> CHR ''+''" using hex_not_special by auto
  have "CHR ''x'' \<notin> set h" "CHR ''X'' \<notin> set h" using assms(1) by (auto simp: list_all_iff is_hex_def)
  then have "\<not> prefix ''0x'' h" "\<not> prefix ''0X'' h" using set_mono_prefix [of "''0x''" h] set_mono_prefix [of "''0X''" h] by auto
  with sign hex_number_digits [OF assms(1), of False 0] assms(2) show ?thesis by (simp add: int_base16_def strip_hex [OF assms(1)] Let_def)
qed

lemma py_uuid_str: "py_uuid (uuid_str n) = Some n"
proof -
  let ?h = "hex_digits 32 (unat n)"
  have hex: "list_all is_hex ?h" by (simp add: list_all_iff hex_digits_chars)
  have len: "length ?h = 32" by simp
  have chars: "is_hex c \<or> c = CHR ''-''" if "c \<in> set (uuid_str n)" for c using uuid_str_chars [OF that] .
  have "CHR ''u'' \<notin> set (uuid_str n)" using chars [of "CHR ''u''"] by (auto simp: is_hex_def)
  then have bare: "py_remove ''uuid:'' (py_remove ''urn:'' (uuid_str n)) = uuid_str n"
    using py_remove_other [of "CHR ''u''" "''urn:''" "uuid_str n"] py_remove_other [of "CHR ''u''" "''uuid:''" "uuid_str n"] by simp
  have "dropWhile (\<lambda>c. c = CHR ''{'' \<or> c = CHR ''}'') xs = xs" if "set xs \<subseteq> set (uuid_str n)" for xs
  proof -
    have "CHR ''{'' \<notin> set (uuid_str n)" "CHR ''}'' \<notin> set (uuid_str n)" using chars [of "CHR ''{''"] chars [of "CHR ''}''"] by (auto simp: is_hex_def)
    then show ?thesis using that by (cases xs) auto
  qed
  from this [of "uuid_str n"] this [of "rev (uuid_str n)"]
  have braces: "rev (dropWhile (\<lambda>c. c = CHR ''{'' \<or> c = CHR ''}'') (rev (dropWhile (\<lambda>c. c = CHR ''{'' \<or> c = CHR ''}'') (uuid_str n)))) = uuid_str n" by simp
  have "int_base16 ?h = Some (int (unat n mod 16 ^ 32))"
    using int_base16_hex [OF hex] len hex_digits_value [of 32 "unat n"] by (metis length_0_conv numeral_eq_iff semiring_norm(76) zero_neq_numeral)
  also have "unat n mod 16 ^ 32 = unat n"
  proof -
    have "unat n < 16 ^ 32" using unsigned_less [of n] by simp
    then show ?thesis by (rule mod_less)
  qed
  finally have int: "int_base16 ?h = Some (int (unat n))" .
  have "int (unat n) < 2 ^ 128" using unsigned_less [of n] by (simp add: of_nat_less_numeral_power_cancel_iff)
  with int len bare braces show ?thesis by (simp add: py_uuid_def uuid_str_digits Let_def)
qed

end
