(* ===== verification/EvidenceAccess.thy ===== *)
theory EvidenceAccess
  imports AgentSteps Executor
begin

text \<open>
  What an agent that calls the evidence tool is given, from its tool call (\<open>agents/tools.py\<close>) over the gateway and
  the executor (\<open>mcp/fastmcp_executor.py\<close>) to the evidence server (\<open>mcp/servers/evidence_server.py\<close>) and back.
  FastMCP, which carries the call, is outside: what is relied on is that it hands a call whose arguments fit the
  tool's signature to the tool, and returns the tool's text or its error.
\<close>

definition evidence_answer :: "InMemoryJobRepository \<Rightarrow> arguments \<Rightarrow> mcp_answer option" where
  "evidence_answer r args =
     (if list_all (\<lambda>(k, _). k \<in> {''tenant_id'', ''job_id'', ''evidence_id''}) args
      then (case (dict_get args ''tenant_id'', dict_get args ''job_id'',
                  case dict_get args ''evidence_id'' of None \<Rightarrow> Some None | Some VNone \<Rightarrow> Some None | Some (VStr x) \<Rightarrow> Some (Some x) | _ \<Rightarrow> None) of
          (Some (VStr tenant), Some (VStr job), Some wanted) \<Rightarrow>
            Some (case retrieve_tool InMemoryJobRepository_ops r tenant job wanted of
                    Inr text \<Rightarrow> CallContent [Some (codes text)]
                  | Inl (ToolRefused m) \<Rightarrow> CallRaised m
                  | Inl (ToolEscaped _) \<Rightarrow> CallRaised [])
        | _ \<Rightarrow> None)
      else None)"

definition serves_evidence :: "(mcp_call \<Rightarrow> mcp_answer) \<Rightarrow> InMemoryJobRepository \<Rightarrow> bool" where
  "serves_evidence client r \<longleftrightarrow>
     (\<forall>call answer. mc_target call = LocalServer ''evidence'' \<and> mc_tool call = ''retrieve'' \<and>
        evidence_answer r (mc_arguments call) = Some answer \<longrightarrow> client call = answer)"

lemma evidence_capability [simp]:
  "cap_server (hd EVIDENCE) = ''evidence''" "cap_name (hd EVIDENCE) = ''retrieve''" "cap_max_result_bytes (hd EVIDENCE) = 524288"
  by (simp_all add: EVIDENCE_def Capability_default_def)

lemma evidence_executable:
  assumes "role \<in> {AR_CRITIC, AR_REPORTER, AR_ANALYST}" and "rj_clearance job = AC_INTERNAL"
  shows "Capability_is_executable_by (hd EVIDENCE) (principal_for job role)"
  using assms by (auto simp: EVIDENCE_def Capability_default_def Capability_is_executable_by_def Capability_is_visible_to_def
      Capability_is_available_to_tenant_def clearance_covers_def EVIDENCE_READERS_def ANALYSTS_def principal_for_def Principal_for_agent_def ALL_TENANTS_def)

text \<open>The tool's own arguments: the job is the one the agent works on, whatever it named.\<close>

lemma evidence_tool_arguments:
  assumes "tool_arguments (build_tool p j task budget provider (hd EVIDENCE)) kwargs = Some args"
  shows "dict_get args ''job_id'' = Some (VStr (uuid_str j))"
  using assms by (auto simp: tool_arguments_def Let_def split: if_splits)

lemma dict_set_keys: "list_all (\<lambda>(k, _). P k) d \<Longrightarrow> P k \<Longrightarrow> list_all (\<lambda>(k, _). P k) (dict_set k v d)"
  by (induction d) (auto split: if_splits)

text \<open>
  C38. Which agent may read a record does not depend on the record's access class. An agent of a role that reads
  evidence, working for a requester with internal clearance, may execute the evidence tool; whatever job or tenant it
  names in the call, the executor is answered with every record of its own job, restricted ones included, as the
  server writes them; and when the call through the gateway returns a text, it is what sanitizing left of that answer.
\<close>

theorem agents_read_evidence_of_every_class:
  assumes stored: "InMemoryJobRepository_get r (rj_tenant_id job) (rj_id job) = Inr job" and "py_strip (rj_tenant_id job) \<noteq> []"
    and "rj_clearance job = AC_INTERNAL" and "role \<in> {AR_CRITIC, AR_REPORTER, AR_ANALYST}"
    and server: "dict_get (fx_servers fx) ''evidence'' = Some (LocalServer ''evidence'')" and client: "serves_evidence client r"
    and env: "\<And>request. en_execute env request = fst (FastMCPExecutor_execute client provided fx request)"
    and args: "tool_arguments (build_tool (principal_for job role) (rj_id job) task budget provider (hd EVIDENCE)) kwargs = Some args"
    and named: "list_all (\<lambda>(k, _). k \<in> {''tenant_id'', ''job_id'', ''evidence_id''}) args" and all: "dict_get args ''evidence_id'' = None"
  shows "Capability_is_executable_by (hd EVIDENCE) (principal_for job role) \<and>
    en_execute env \<lparr>xr_capability = hd EVIDENCE, xr_principal = principal_for job role, xr_arguments = args\<rparr> =
      ExecutorText (codes (''['' @ py_join '','' (map (\<lambda>e. json_view (view_of e)) (listed (im_evidence r) (rj_tenant_id job, rj_id job))) @ '']'')) \<and>
    (\<forall>bops cops g l text g' l'.
       CapabilityRegistry_resolve_for (gw_registry g) (principal_for job role) ''evidence'' ''retrieve'' = Inr (hd EVIDENCE) \<longrightarrow>
       CapabilityTool_run bops cops env g l (build_tool (principal_for job role) (rj_id job) task budget provider (hd EVIDENCE)) kwargs =
         (Inr (AnswerText text), g', l') \<longrightarrow>
       (\<exists>result. text = tool_text result \<and>
          sanitize_result (en_alnum env)
            (codes (''['' @ py_join '','' (map (\<lambda>e. json_view (view_of e)) (listed (im_evidence r) (rj_tenant_id job, rj_id job))) @ '']''))
            524288 = Inr (ir_content result)))"
proof -
  let ?p = "principal_for job role" and ?tool = "build_tool (principal_for job role) (rj_id job) task budget provider (hd EVIDENCE)"
  let ?json = "''['' @ py_join '','' (map (\<lambda>e. json_view (view_of e)) (listed (im_evidence r) (rj_tenant_id job, rj_id job))) @ '']''"
  let ?rq = "\<lparr>xr_capability = hd EVIDENCE, xr_principal = ?p, xr_arguments = args\<rparr>"
  have t: "rj_tenant_id job \<noteq> []" using assms(2) by (auto simp: py_strip_def py_rstrip_def py_lstrip_def)
  have retrieved: "retrieve_tool InMemoryJobRepository_ops r (rj_tenant_id job) (uuid_str (rj_id job)) None = Inr ?json"
    using t assms(2) stored by (simp add: retrieve_tool_def EvidenceService_retrieve_def py_uuid_str InMemoryJobRepository_ops_def
        InMemoryJobRepository_list_evidence_def o_def)
  have "list_all (\<lambda>(k, _). k \<in> {''tenant_id'', ''job_id'', ''evidence_id''}) (dict_set ''tenant_id'' (VStr (rj_tenant_id job)) args)"
    by (rule dict_set_keys [OF named]) simp
  then have "evidence_answer r (dict_set ''tenant_id'' (VStr (rj_tenant_id job)) args) = Some (CallContent [Some (codes ?json)])"
    using evidence_tool_arguments [OF args] all retrieved by (simp add: evidence_answer_def)
  then have answered: "client \<lparr>mc_target = LocalServer ''evidence'', mc_tool = ''retrieve'',
      mc_arguments = dict_set ''tenant_id'' (VStr (rj_tenant_id job)) args, mc_token = None, mc_timeout = cap_timeout_seconds (hd EVIDENCE)\<rparr> =
      CallContent [Some (codes ?json)]" using client by (simp add: serves_evidence_def)
  have reply: "en_execute env ?rq = ExecutorText (codes ?json)"
    using answered by (simp add: env FastMCPExecutor_execute_def server FastMCPExecutor_token_for_def FastMCPExecutor_call_def Let_def
        map_filter_simps codes_def)
  have sanitized: "\<exists>result. x = tool_text result \<and> sanitize_result (en_alnum env) (codes ?json) 524288 = Inr (ir_content result)"
    if resolve: "CapabilityRegistry_resolve_for (gw_registry g) ?p ''evidence'' ''retrieve'' = Inr (hd EVIDENCE)"
      and run: "CapabilityTool_run bops cops env g l ?tool kwargs = (Inr (AnswerText x), g', l')" for bops cops g l x g' l'
  proof -
    obtain result where invoked: "CapabilityGateway_invoke bops cops env g (tool_call ?tool args) = (Inr result, g')" "x = tool_text result"
      using run args by (auto simp: CapabilityTool_run_def split: prod.splits sum.splits GatewayError.splits)
    have "CapabilityRegistry_resolve_for (gw_registry g) (ca_principal (tool_call ?tool args)) (ca_server (tool_call ?tool args))
        (ca_capability_name (tool_call ?tool args)) = Inr (hd EVIDENCE)" using resolve by (simp add: tool_call_def)
    from invoke_result [OF invoked(1) this] invoked(2) reply show ?thesis by (auto simp: request_of_def tool_call_def)
  qed
  show ?thesis using evidence_executable [OF assms(4,3)] reply sanitized by blast
qed

text \<open>A restricted record in the store of the sample job, and a critic that names another job.\<close>

definition restricted_record :: EvidenceRecord where
  "restricted_record =
     \<lparr>ev_excerpt = [83], ev_source_uri = ''u'', ev_title = None, ev_author = None, ev_published_at = None, ev_trust_level = TL_UNVERIFIED,
      ev_access_class = AC_RESTRICTED, ev_content_hash = ''h'', ev_producing_task_id = 0, ev_tool_invocation_id = 0,
      ev_id = 9, ev_job_id = 1, ev_tenant_id = ''acme'', ev_retrieved_at = 0\<rparr>"

definition evidence_job :: ResearchJob where
  "evidence_job = new_job 1 0 ''acme'' ''u'' sample_command AC_INTERNAL"

definition evidence_client :: "InMemoryJobRepository \<Rightarrow> mcp_call \<Rightarrow> mcp_answer" where
  "evidence_client r call = (case evidence_answer r (mc_arguments call) of None \<Rightarrow> CallRaised ''validation error'' | Some answer \<Rightarrow> answer)"

theorem agents_read_evidence_of_every_class_witness:
  "\<exists>r args. InMemoryJobRepository_add_evidence sample_store restricted_record = Inr r \<and> ev_access_class restricted_record = AC_RESTRICTED \<and>
     tool_arguments (build_tool (principal_for evidence_job AR_CRITIC) (rj_id evidence_job) 2 tiny_budget no_approval (hd EVIDENCE))
       [(''job_id'', VStr (uuid_str 7))] = Some args \<and>
     fst (FastMCPExecutor_execute (evidence_client r) (Inl ''none'') \<lparr>fx_servers = [(''evidence'', LocalServer ''evidence'')], fx_has_tokens = False\<rparr>
       \<lparr>xr_capability = hd EVIDENCE, xr_principal = principal_for evidence_job AR_CRITIC, xr_arguments = args\<rparr>) =
     ExecutorText (codes (''['' @ json_view (view_of restricted_record) @ '']''))"
proof -
  obtain r where r: "InMemoryJobRepository_add_evidence sample_store restricted_record = Inr r"
    by (simp add: InMemoryJobRepository_add_evidence_def restricted_record_def sample_store_def InMemoryJobRepository_add_def
        InMemoryJobRepository_get_def InMemoryJobRepository_init_def Let_def)
  have job: "rj_tenant_id evidence_job = ''acme''" "rj_id evidence_job = 1" "rj_clearance evidence_job = AC_INTERNAL"
    by (simp_all add: evidence_job_def new_job_def)
  have get: "InMemoryJobRepository_get r (rj_tenant_id evidence_job) (rj_id evidence_job) = Inr evidence_job"
    and ev: "listed (im_evidence r) (rj_tenant_id evidence_job, rj_id evidence_job) = [restricted_record]"
    unfolding job using r by (auto simp: InMemoryJobRepository_add_evidence_def restricted_record_def sample_store_def InMemoryJobRepository_add_def
        InMemoryJobRepository_get_def InMemoryJobRepository_init_def listed_def evidence_job_def Let_def)
  have blank: "py_strip (rj_tenant_id evidence_job) \<noteq> []" unfolding job by code_simp
  have client: "serves_evidence (evidence_client r) r" by (simp add: serves_evidence_def evidence_client_def)
  let ?fx = "\<lparr>fx_servers = [(''evidence'', LocalServer ''evidence'')], fx_has_tokens = False\<rparr>"
  let ?env = "sample_env\<lparr>en_execute := (\<lambda>request. fst (FastMCPExecutor_execute (evidence_client r) (Inl ''none'') ?fx request))\<rparr>"
  let ?args = "[(''job_id'', VStr (uuid_str 1))]"
  have args: "tool_arguments (build_tool (principal_for evidence_job AR_CRITIC) (rj_id evidence_job) 2 tiny_budget no_approval (hd EVIDENCE))
      [(''job_id'', VStr (uuid_str 7))] = Some ?args" by (simp add: tool_arguments_def job)
  have "en_execute ?env \<lparr>xr_capability = hd EVIDENCE, xr_principal = principal_for evidence_job AR_CRITIC, xr_arguments = ?args\<rparr> =
      ExecutorText (codes (''['' @ py_join '','' (map (\<lambda>e. json_view (view_of e)) [restricted_record]) @ '']''))"
    by (rule agents_read_evidence_of_every_class [where fx = ?fx and env = ?env and provided = "Inl ''none''",
          OF get blank job(3) _ _ client _ args, THEN conjunct2, THEN conjunct1, unfolded ev]) simp_all
  then have "fst (FastMCPExecutor_execute (evidence_client r) (Inl ''none'') ?fx
      \<lparr>xr_capability = hd EVIDENCE, xr_principal = principal_for evidence_job AR_CRITIC, xr_arguments = ?args\<rparr>) =
      ExecutorText (codes (''['' @ json_view (view_of restricted_record) @ '']''))" by simp
  moreover have "ev_access_class restricted_record = AC_RESTRICTED" by (simp add: restricted_record_def)
  ultimately show ?thesis using r args by blast
qed

end
