(* ===== verification/Auth.thy ===== *)
theory Auth
  imports Registry ServerText
begin

text \<open>
  Who is calling: access tokens and the principal their claims give (\<open>auth.py\<close>), and the
  dependency that identifies every request (\<open>api/dependencies.py\<close>). The token library is a
  parameter: \<open>key_for\<close> resolves a signing key (\<open>None\<close> stands for any failure) and \<open>decode\<close> is
  \<open>jwt.decode\<close> with the arguments the code passes. Claims are the JSON values of \<open>pyval\<close>.
\<close>

section \<open>Access tokens\<close>

definition ACCEPTED_ALGORITHMS :: "string list" where
  "ACCEPTED_ALGORITHMS = [''RS256'', ''RS384'', ''RS512'', ''ES256'', ''ES384'']"

definition CLOCK_LEEWAY_SECONDS :: int where
  "CLOCK_LEEWAY_SECONDS = 30"

datatype TokenRejected = TokenRejected string

type_synonym claims = "(string \<times> pyval) list"

record ClaimMapping =
  cm_tenant_claim :: string
  cm_clearance_claim :: string
  cm_roles_claim :: string

definition ClaimMapping_default :: ClaimMapping where
  "ClaimMapping_default =
     \<lparr>cm_tenant_claim = ''tenant_id'', cm_clearance_claim = ''clearance'', cm_roles_claim = ''realm_access.roles''\<rparr>"

text \<open>\<open>_read_path\<close>: a dotted path through nested mappings; an absent entry is \<open>None\<close>.\<close>

fun read_segments :: "pyval \<Rightarrow> string list \<Rightarrow> pyval" where
  "read_segments current [] = current"
| "read_segments current (segment # segments) =
     (case current of
        VDict d \<Rightarrow> read_segments (case dict_get d segment of None \<Rightarrow> VNone | Some v \<Rightarrow> v) segments
      | _ \<Rightarrow> VNone)"

definition read_path :: "claims \<Rightarrow> string \<Rightarrow> pyval" where
  "read_path cl path = read_segments (VDict cl) (py_split CHR ''.'' path)"

definition ClaimMapping_read_roles :: "ClaimMapping \<Rightarrow> claims \<Rightarrow> Role set" where
  "ClaimMapping_read_roles cm cl =
     (case read_path cl (cm_roles_claim cm) of
        VList names \<Rightarrow> set (List.map_filter (\<lambda>name. Role_of (py_lower (py_strip (py_str name)))) names)
      | _ \<Rightarrow> {})"

definition ClaimMapping_read_tenant :: "ClaimMapping \<Rightarrow> claims \<Rightarrow> TokenRejected + string" where
  "ClaimMapping_read_tenant cm cl =
     (let missing = Inl (TokenRejected (''the token carries no '' @ cm_tenant_claim cm @ '' claim'')) in
      case read_path cl (cm_tenant_claim cm) of
        VStr tenant \<Rightarrow> if py_strip tenant = [] then missing else Inr (py_strip tenant)
      | _ \<Rightarrow> missing)"

definition ClaimMapping_read_clearance :: "ClaimMapping \<Rightarrow> claims \<Rightarrow> TokenRejected + AccessClass" where
  "ClaimMapping_read_clearance cm cl =
     (let raw = read_path cl (cm_clearance_claim cm) in
      if raw = VNone then Inr AC_PUBLIC
      else (case AccessClass_of (py_lower (py_strip (py_str raw))) of
          Some c \<Rightarrow> Inr c
        | None \<Rightarrow> Inl (TokenRejected (val_repr raw @ '' is not a recognized clearance''))))"

text \<open>
  What \<open>jwt.decode\<close> raises, by the handlers of \<open>verify\<close>; \<open>InvalidTokenError\<close> covers every other invalid
  token, and \<open>DecodeRaised\<close> an exception that is none, such as a key that does not fit the token's algorithm.
\<close>

datatype DecodeError = ExpiredSignatureError | InvalidAudienceError | InvalidIssuerError | InvalidTokenError string | DecodeRaised string

record decode_options =
  jo_algorithms :: "string list"
  jo_issuer :: string
  jo_audience :: string
  jo_leeway :: int
  jo_require :: "string list"

record 'k token_library =
  tl_key_for :: "string \<Rightarrow> 'k option"
  tl_decode :: "string \<Rightarrow> 'k \<Rightarrow> decode_options \<Rightarrow> DecodeError + claims"

record TokenVerifier =
  tv_issuer :: string
  tv_audience :: string
  tv_mapping :: ClaimMapping

definition TokenVerifier_init :: "string \<Rightarrow> string \<Rightarrow> ClaimMapping option \<Rightarrow> string + TokenVerifier" where
  "TokenVerifier_init issuer audience mapping =
     (if issuer = [] then Inl ''a token issuer is required''
      else if audience = [] then Inl ''a token audience is required''
      else Inr \<lparr>tv_issuer = issuer, tv_audience = audience,
                tv_mapping = (case mapping of None \<Rightarrow> ClaimMapping_default | Some m \<Rightarrow> m)\<rparr>)"

definition TokenVerifier_options :: "TokenVerifier \<Rightarrow> decode_options" where
  "TokenVerifier_options tv =
     \<lparr>jo_algorithms = ACCEPTED_ALGORITHMS, jo_issuer = tv_issuer tv, jo_audience = tv_audience tv,
      jo_leeway = CLOCK_LEEWAY_SECONDS, jo_require = [''exp'', ''iat'', ''iss'', ''aud'', ''sub'']\<rparr>"

text \<open>A refused token, or what \<open>verify\<close> does not catch: the \<open>ValueError\<close> of \<open>Principal\<close> and other exceptions of the decoder.\<close>

datatype VerifyError = Rejected TokenRejected | PrincipalInvalid | VerifyRaised string

fun DecodeError_rejection :: "DecodeError \<Rightarrow> VerifyError" where
  "DecodeError_rejection ExpiredSignatureError = Rejected (TokenRejected ''the access token has expired'')"
| "DecodeError_rejection InvalidAudienceError = Rejected (TokenRejected ''the access token was issued for another audience'')"
| "DecodeError_rejection InvalidIssuerError = Rejected (TokenRejected ''the access token was issued by another authority'')"
| "DecodeError_rejection (InvalidTokenError e) = Rejected (TokenRejected (''the access token is not valid: '' @ e))"
| "DecodeError_rejection (DecodeRaised e) = VerifyRaised e"

definition claimed_subject :: "claims \<Rightarrow> string" where
  "claimed_subject cl = py_strip (case dict_get cl ''sub'' of None \<Rightarrow> [] | Some v \<Rightarrow> py_str v)"

definition claimed_principal :: "TokenVerifier \<Rightarrow> claims \<Rightarrow> VerifyError + Principal" where
  "claimed_principal tv cl =
     (let subject = claimed_subject cl in
      if subject = [] then Inl (Rejected (TokenRejected ''the token carries no subject''))
      else (case ClaimMapping_read_tenant (tv_mapping tv) cl of
          Inl e \<Rightarrow> Inl (Rejected e)
        | Inr tenant \<Rightarrow>
            (case ClaimMapping_read_clearance (tv_mapping tv) cl of
               Inl e \<Rightarrow> Inl (Rejected e)
             | Inr clearance \<Rightarrow>
                 (let p = \<lparr>pr_tenant_id = tenant, pr_subject_id = subject,
                           pr_roles = ClaimMapping_read_roles (tv_mapping tv) cl,
                           pr_agent_role = None, pr_clearance = clearance\<rparr> in
                  if Principal_valid p then Inr p else Inl PrincipalInvalid))))"

definition TokenVerifier_verify :: "'k token_library \<Rightarrow> TokenVerifier \<Rightarrow> string \<Rightarrow> VerifyError + Principal" where
  "TokenVerifier_verify lib tv token =
     (let candidate = py_strip token in
      if candidate = [] then Inl (Rejected (TokenRejected ''no access token was presented''))
      else (case tl_key_for lib candidate of
          None \<Rightarrow> Inl (Rejected (TokenRejected ''the token signing key could not be resolved''))
        | Some key \<Rightarrow>
            (case tl_decode lib candidate key (TokenVerifier_options tv) of
               Inl e \<Rightarrow> Inl (DecodeError_rejection e)
             | Inr cl \<Rightarrow> claimed_principal tv cl)))"

definition bearer_token :: "string option \<Rightarrow> TokenRejected + string" where
  "bearer_token header_value =
     (case header_value of
        None \<Rightarrow> Inl (TokenRejected ''no Authorization header was presented'')
      | Some value \<Rightarrow>
          if value = [] then Inl (TokenRejected ''no Authorization header was presented'')
          else (let (scheme, _, token) = py_partition CHR '' '' value in
            if py_lower scheme \<noteq> ''bearer'' \<or> py_strip token = []
            then Inl (TokenRejected ''the Authorization header must present a bearer token'')
            else Inr (py_strip token)))"


section \<open>The identity of a request\<close>

definition DEFAULT_ROLES :: "Role set" where
  "DEFAULT_ROLES = {R_REQUESTER}"

record RequestIdentity =
  ri_tenant_id :: string
  ri_requester_id :: string
  ri_roles :: "Role set"
  ri_clearance :: AccessClass

definition RequestIdentity_of :: "Principal \<Rightarrow> RequestIdentity" where
  "RequestIdentity_of p =
     \<lparr>ri_tenant_id = pr_tenant_id p, ri_requester_id = pr_subject_id p, ri_roles = pr_roles p,
      ri_clearance = pr_clearance p\<rparr>"

definition RequestIdentity_principal :: "RequestIdentity \<Rightarrow> Principal" where
  "RequestIdentity_principal i =
     \<lparr>pr_tenant_id = ri_tenant_id i, pr_subject_id = ri_requester_id i, pr_roles = ri_roles i,
      pr_agent_role = None, pr_clearance = ri_clearance i\<rparr>"

text \<open>An error a request is answered with: one raised by the code, by its status and detail, or one nothing catches.\<close>

datatype HTTPException = HTTPException nat string | Unhandled string

text \<open>The roles a comma-separated list names; the first unknown one is reported.\<close>

fun roles_of :: "string list \<Rightarrow> string + Role set" where
  "roles_of [] = Inr {}"
| "roles_of (item # items) =
     (if py_strip item = [] then roles_of items
      else (case Role_of (py_strip item) of
          None \<Rightarrow> Inl (py_repr (py_strip item) @ '' is not a valid Role'')
        | Some r \<Rightarrow> bind_result (roles_of items) (\<lambda>rs. Inr (insert r rs))))"

definition parse_roles :: "string option \<Rightarrow> HTTPException + Role set" where
  "parse_roles raw =
     (case raw of
        None \<Rightarrow> Inr DEFAULT_ROLES
      | Some s \<Rightarrow>
          if py_strip s = [] then Inr DEFAULT_ROLES
          else (case roles_of (py_split CHR '','' s) of
              Inl e \<Rightarrow> Inl (HTTPException 400 (''unknown role: '' @ e))
            | Inr rs \<Rightarrow> Inr rs))"

definition parse_clearance :: "string option \<Rightarrow> HTTPException + AccessClass" where
  "parse_clearance raw =
     (case raw of
        None \<Rightarrow> Inr AC_PUBLIC
      | Some s \<Rightarrow>
          if py_strip s = [] then Inr AC_PUBLIC
          else (case AccessClass_of (py_strip s) of
              None \<Rightarrow> Inl (HTTPException 400 (''unknown clearance: '' @ s))
            | Some c \<Rightarrow> Inr c))"

record request_headers =
  rh_authorization :: "string option"
  rh_tenant_id :: "string option"
  rh_requester_id :: "string option"
  rh_roles :: "string option"
  rh_clearance :: "string option"

text \<open>The \<open>max_length\<close> of each header parameter, which the framework checks before the function is called.\<close>

definition header_within :: "nat \<Rightarrow> string option \<Rightarrow> bool" where
  "header_within n h = (case h of None \<Rightarrow> True | Some s \<Rightarrow> length s \<le> n)"

definition headers_valid :: "request_headers \<Rightarrow> bool" where
  "headers_valid h \<longleftrightarrow> header_within 100 (rh_tenant_id h) \<and> header_within 200 (rh_requester_id h) \<and>
     header_within 200 (rh_roles h) \<and> header_within 50 (rh_clearance h)"

definition stated :: "string option \<Rightarrow> string" where
  "stated h = (case h of None \<Rightarrow> [] | Some s \<Rightarrow> s)"

definition token_identity :: "'k token_library \<Rightarrow> TokenVerifier \<Rightarrow> string option \<Rightarrow> HTTPException + RequestIdentity" where
  "token_identity lib tv authorization =
     (case bearer_token authorization of
        Inl (TokenRejected e) \<Rightarrow> Inl (HTTPException 401 e)
      | Inr token \<Rightarrow>
          (case TokenVerifier_verify lib tv token of
             Inl (Rejected (TokenRejected e)) \<Rightarrow> Inl (HTTPException 401 e)
           | Inl PrincipalInvalid \<Rightarrow> Inl (Unhandled ''ValueError'')
           | Inl (VerifyRaised e) \<Rightarrow> Inl (Unhandled e)
           | Inr p \<Rightarrow> Inr (RequestIdentity_of p)))"

definition request_identity ::
  "'k token_library \<Rightarrow> TokenVerifier option \<Rightarrow> request_headers \<Rightarrow> HTTPException + RequestIdentity" where
  "request_identity lib verifier h =
     (case verifier of
        Some tv \<Rightarrow> token_identity lib tv (rh_authorization h)
      | None \<Rightarrow>
          if stated (rh_tenant_id h) = [] \<or> stated (rh_requester_id h) = []
          then Inl (HTTPException 401 ''X-Tenant-ID and X-Requester-ID are required while no token issuer is configured'')
          else bind_result (parse_roles (rh_roles h)) (\<lambda>roles.
            bind_result (parse_clearance (rh_clearance h)) (\<lambda>clearance.
              Inr \<lparr>ri_tenant_id = stated (rh_tenant_id h), ri_requester_id = stated (rh_requester_id h),
                   ri_roles = roles, ri_clearance = clearance\<rparr>)))"

definition Identity ::
  "'k token_library \<Rightarrow> TokenVerifier option \<Rightarrow> request_headers \<Rightarrow> HTTPException + RequestIdentity" where
  "Identity lib verifier h =
     (if \<not> headers_valid h then Inl (HTTPException 422 ''validation error'') else request_identity lib verifier h)"


section \<open>What an identity rests on\<close>

lemma identity_of_principal [simp]: "RequestIdentity_of (RequestIdentity_principal i) = i"
  by (simp add: RequestIdentity_of_def RequestIdentity_principal_def)

lemma read_tenant_Inr:
  "ClaimMapping_read_tenant cm cl = Inr t \<longleftrightarrow>
   (\<exists>s. read_path cl (cm_tenant_claim cm) = VStr s \<and> t = py_strip s \<and> t \<noteq> [])"
  by (auto simp: ClaimMapping_read_tenant_def Let_def split: pyval.splits if_splits)

lemma AccessClass_of_iff: "AccessClass_of s = Some c \<longleftrightarrow> s = AccessClass_value c"
  by (cases c) (auto simp: AccessClass_of_def)

lemma AccessClass_of_None: "AccessClass_of s = None \<longleftrightarrow> (\<forall>c. s \<noteq> AccessClass_value c)"
  using AccessClass_of_iff [of s] by (metis option.exhaust option.distinct(1))

lemma AccessClass_value_inject [simp]: "AccessClass_value a = AccessClass_value b \<longleftrightarrow> a = b"
  by (cases a; cases b) simp_all

lemma read_clearance_Inr:
  "ClaimMapping_read_clearance cm cl = Inr c \<longleftrightarrow>
   (read_path cl (cm_clearance_claim cm) = VNone \<and> c = AC_PUBLIC \<or>
    read_path cl (cm_clearance_claim cm) \<noteq> VNone \<and>
    py_lower (py_strip (py_str (read_path cl (cm_clearance_claim cm)))) = AccessClass_value c)"
  by (auto simp: ClaimMapping_read_clearance_def Let_def AccessClass_of_iff AccessClass_of_None split: option.splits)

lemma Role_of_iff: "Role_of s = Some r \<longleftrightarrow> s = Role_value r"
  by (cases r) (auto simp: Role_of_def)

lemma Role_value_inject [simp]: "Role_value a = Role_value b \<longleftrightarrow> a = b"
  by (cases a; cases b) simp_all

lemma Role_of_value [simp]: "Role_of (Role_value r) = Some r"
  by (simp add: Role_of_iff)

lemma read_roles_iff:
  "r \<in> ClaimMapping_read_roles cm cl \<longleftrightarrow>
   (\<exists>names. read_path cl (cm_roles_claim cm) = VList names \<and>
     (\<exists>name \<in> set names. py_lower (py_strip (py_str name)) = Role_value r))"
proof -
  have "set (List.map_filter (\<lambda>name. Role_of (f name)) names) = {r. \<exists>name \<in> set names. f name = Role_value r}"
    for f :: "pyval \<Rightarrow> string" and names
    by (induction names) (auto simp: map_filter_simps Role_of_iff split: option.splits)
  then show ?thesis by (simp add: ClaimMapping_read_roles_def split: pyval.splits)
qed

text \<open>The identity a set of claims states: \<open>claims_state\<close> reads as the claims do, without the order of the checks.\<close>

definition claims_state :: "ClaimMapping \<Rightarrow> claims \<Rightarrow> RequestIdentity \<Rightarrow> bool" where
  "claims_state cm cl i \<longleftrightarrow>
     (\<exists>s. read_path cl (cm_tenant_claim cm) = VStr s \<and> ri_tenant_id i = py_strip s) \<and> ri_tenant_id i \<noteq> [] \<and>
     (\<exists>v. dict_get cl ''sub'' = Some v \<and> ri_requester_id i = py_strip (py_str v)) \<and> ri_requester_id i \<noteq> [] \<and>
     (\<forall>r. r \<in> ri_roles i \<longleftrightarrow> (\<exists>names. read_path cl (cm_roles_claim cm) = VList names \<and>
        (\<exists>name \<in> set names. py_lower (py_strip (py_str name)) = Role_value r))) \<and>
     (if read_path cl (cm_clearance_claim cm) = VNone then ri_clearance i = AC_PUBLIC
      else py_lower (py_strip (py_str (read_path cl (cm_clearance_claim cm)))) = AccessClass_value (ri_clearance i))"

lemma py_strip_Nil [simp]: "py_strip [] = []"
  by (simp add: py_strip_def py_rstrip_def py_lstrip_def)

lemma claims_state_reads:
  "claims_state cm cl i \<longleftrightarrow> ClaimMapping_read_tenant cm cl = Inr (ri_tenant_id i) \<and>
     ClaimMapping_read_clearance cm cl = Inr (ri_clearance i) \<and> ri_roles i = ClaimMapping_read_roles cm cl \<and>
     ri_requester_id i = claimed_subject cl \<and> ri_requester_id i \<noteq> []"
proof -
  have subject: "(\<exists>v. dict_get cl ''sub'' = Some v \<and> u = py_strip (py_str v)) \<and> u \<noteq> [] \<and> Q \<longleftrightarrow> u = claimed_subject cl \<and> u \<noteq> [] \<and> Q" for u Q
    by (cases "dict_get cl ''sub''") (auto simp: claimed_subject_def)
  have tenant: "(\<exists>s. read_path cl (cm_tenant_claim cm) = VStr s \<and> u = py_strip s) \<and> u \<noteq> [] \<and> Q \<longleftrightarrow>
      ClaimMapping_read_tenant cm cl = Inr u \<and> Q" for u Q by (auto simp: read_tenant_Inr)
  have clearance: "(if read_path cl (cm_clearance_claim cm) = VNone then c = AC_PUBLIC
      else py_lower (py_strip (py_str (read_path cl (cm_clearance_claim cm)))) = AccessClass_value c) \<longleftrightarrow>
      ClaimMapping_read_clearance cm cl = Inr c" for c by (simp add: read_clearance_Inr)
  have roles: "(\<forall>r. r \<in> R \<longleftrightarrow> (\<exists>names. read_path cl (cm_roles_claim cm) = VList names \<and>
      (\<exists>name \<in> set names. py_lower (py_strip (py_str name)) = Role_value r))) \<longleftrightarrow> R = ClaimMapping_read_roles cm cl" for R
    by (simp only: set_eq_iff read_roles_iff)
  show ?thesis unfolding claims_state_def tenant subject roles clearance by (simp only: conj_ac)
qed

lemma claimed_principal_Inr:
  "claimed_principal tv cl = Inr p \<longleftrightarrow> pr_agent_role p = None \<and> claims_state (tv_mapping tv) cl (RequestIdentity_of p)"
proof -
  have eq: "p = \<lparr>pr_tenant_id = t, pr_subject_id = s, pr_roles = rs, pr_agent_role = None, pr_clearance = c\<rparr> \<longleftrightarrow>
      pr_agent_role p = None \<and> RequestIdentity_of p = \<lparr>ri_tenant_id = t, ri_requester_id = s, ri_roles = rs, ri_clearance = c\<rparr>"
    for t s rs c by (cases p) (auto simp: RequestIdentity_of_def)
  have tenant: "t \<noteq> []" if "ClaimMapping_read_tenant cm cl = Inr t" for t cm using that by (auto simp: read_tenant_Inr)
  have "claimed_principal tv cl = Inr p \<longleftrightarrow> (\<exists>t c. ClaimMapping_read_tenant (tv_mapping tv) cl = Inr t \<and>
      ClaimMapping_read_clearance (tv_mapping tv) cl = Inr c \<and> claimed_subject cl \<noteq> [] \<and>
      p = \<lparr>pr_tenant_id = t, pr_subject_id = claimed_subject cl, pr_roles = ClaimMapping_read_roles (tv_mapping tv) cl,
           pr_agent_role = None, pr_clearance = c\<rparr>)"
    by (cases "ClaimMapping_read_tenant (tv_mapping tv) cl"; cases "ClaimMapping_read_clearance (tv_mapping tv) cl")
      (auto simp: claimed_principal_def Let_def Principal_valid_def dest: tenant)
  also have "\<dots> \<longleftrightarrow> pr_agent_role p = None \<and> claims_state (tv_mapping tv) cl (RequestIdentity_of p)"
    unfolding eq claims_state_reads by (auto simp: RequestIdentity_of_def)
  finally show ?thesis .
qed

lemma claimed_principal_never_invalid: "claimed_principal tv cl \<noteq> Inl PrincipalInvalid"
proof -
  have "Principal_valid \<lparr>pr_tenant_id = t, pr_subject_id = s, pr_roles = rs, pr_agent_role = None, pr_clearance = c\<rparr>"
    if "ClaimMapping_read_tenant cm cl = Inr t" "s \<noteq> []" for t s rs c cm
    using that by (auto simp: Principal_valid_def read_tenant_Inr)
  then show ?thesis by (auto simp: claimed_principal_def Let_def split: sum.splits)
qed

lemma claimed_principal_valid: "claimed_principal tv cl = Inr p \<Longrightarrow> Principal_valid (RequestIdentity_principal (RequestIdentity_of p))"
  unfolding claimed_principal_Inr by (auto simp: claims_state_def Principal_valid_def RequestIdentity_principal_def)

lemma dropWhile_space_strip: "dropWhile is_space (dropWhile is_space s) = dropWhile is_space s"
  by (induction s) auto

lemma py_strip_strip [simp]: "py_strip (py_strip s) = py_strip s"
proof -
  have tail: "dropWhile is_space (rev (dropWhile is_space (rev s))) = rev (dropWhile is_space (rev s))"
    if "s = [] \<or> \<not> is_space (hd s)" for s
  proof (cases "dropWhile is_space (rev s)")
    case Nil
    then show ?thesis by (simp only: Nil rev.simps dropWhile.simps)
  next
    case (Cons c cs)
    then obtain us where "rev s = us @ c # cs" by (metis takeWhile_dropWhile_id)
    then have s: "s = rev cs @ c # rev us" by (metis append.assoc append_Cons append_Nil rev.simps(2) rev_append rev_rev_ident)
    then have "rev (c # cs) \<noteq> []" "hd (rev (c # cs)) = hd s" by (cases cs rule: rev_cases; simp)+
    then show ?thesis using that s Cons by (cases "rev (c # cs)") auto
  qed
  have "dropWhile is_space s = [] \<or> \<not> is_space (hd (dropWhile is_space s))" by (metis hd_dropWhile)
  from tail [OF this] show ?thesis by (simp add: py_strip_def py_rstrip_def py_lstrip_def dropWhile_space_strip)
qed

lemma bearer_token_stripped: "bearer_token h = Inr token \<Longrightarrow> py_strip token = token \<and> token \<noteq> []"
  by (auto simp: bearer_token_def split: option.splits if_splits prod.splits)

lemma token_identity_iff:
  "token_identity lib tv authorization = Inr i \<longleftrightarrow>
   (\<exists>token key cl. bearer_token authorization = Inr token \<and> tl_key_for lib token = Some key \<and>
      tl_decode lib token key (TokenVerifier_options tv) = Inr cl \<and> claims_state (tv_mapping tv) cl i)"
proof -
  have verify: "token_identity lib tv authorization = Inr i \<longleftrightarrow>
      (\<exists>token p. bearer_token authorization = Inr token \<and> TokenVerifier_verify lib tv token = Inr p \<and> i = RequestIdentity_of p)"
    by (auto simp: token_identity_def split: sum.splits VerifyError.splits TokenRejected.splits)
  have principal: "TokenVerifier_verify lib tv token = Inr p \<longleftrightarrow>
      (\<exists>key cl. tl_key_for lib token = Some key \<and> tl_decode lib token key (TokenVerifier_options tv) = Inr cl \<and> claimed_principal tv cl = Inr p)"
    if "bearer_token authorization = Inr token" for token p
    using bearer_token_stripped [OF that] by (auto simp: TokenVerifier_verify_def Let_def split: option.splits sum.splits)
  have "i = RequestIdentity_of p \<and> claimed_principal tv cl = Inr p \<longleftrightarrow> p = RequestIdentity_principal i \<and> claims_state (tv_mapping tv) cl i" for p cl
    unfolding claimed_principal_Inr by (cases p; cases i) (auto simp: RequestIdentity_principal_def RequestIdentity_of_def)
  then have claims: "(\<exists>p. i = RequestIdentity_of p \<and> claimed_principal tv cl = Inr p) \<longleftrightarrow> claims_state (tv_mapping tv) cl i" for cl by simp
  show ?thesis unfolding verify using principal claims by metis
qed

lemma decode_rejection_cases: "(\<exists>r. DecodeError_rejection e = Rejected r) \<or> (\<exists>x. e = DecodeRaised x \<and> DecodeError_rejection e = VerifyRaised x)"
  by (cases e) simp_all

lemma claimed_principal_never_raised: "claimed_principal tv cl \<noteq> Inl (VerifyRaised x)"
  by (auto simp: claimed_principal_def Let_def split: sum.splits)

lemma token_identity_errors:
  assumes "token_identity lib tv authorization = Inl e"
  shows "(\<exists>detail. e = HTTPException 401 detail) \<or>
    (\<exists>token key x. bearer_token authorization = Inr token \<and> tl_key_for lib token = Some key \<and>
       tl_decode lib token key (TokenVerifier_options tv) = Inl (DecodeRaised x) \<and> e = Unhandled x)"
proof (cases "bearer_token authorization")
  case (Inl r)
  with assms show ?thesis by (cases r) (auto simp: token_identity_def)
next
  case (Inr token)
  note stripped = bearer_token_stripped [OF Inr]
  show ?thesis
  proof (cases "TokenVerifier_verify lib tv token")
    case (Inr p)
    with assms \<open>bearer_token authorization = Inr token\<close> show ?thesis by (simp add: token_identity_def)
  next
    case (Inl v)
    consider (refused) r where "v = Rejected r" | (raised) key x where "tl_key_for lib token = Some key"
        "tl_decode lib token key (TokenVerifier_options tv) = Inl (DecodeRaised x)" "v = VerifyRaised x"
      using Inl stripped claimed_principal_never_invalid [of tv] claimed_principal_never_raised [of tv] decode_rejection_cases
      by (auto simp: TokenVerifier_verify_def Let_def split: option.splits sum.splits if_splits; metis VerifyError.exhaust)
    then show ?thesis
    proof cases
      case refused
      with assms Inl \<open>bearer_token authorization = Inr token\<close> show ?thesis by (cases r) (auto simp: token_identity_def)
    next
      case raised
      with assms Inl \<open>bearer_token authorization = Inr token\<close> show ?thesis by (auto simp: token_identity_def)
    qed
  qed
qed

text \<open>
  C6. With a token issuer configured, a request is identified by a verified token and by nothing else. It is
  accepted exactly when the Authorization header presents a bearer token whose signing key the realm
  publishes, which the token library accepts for one of the asymmetric algorithms, this issuer, this
  audience and with the required claims, and the identity is then what those claims state: the roles
  the platform knows, and the lowest clearance when none is stated. Any other request is refused: with a 401; with a 422
  when a development header is longer than its parameter allows, which the framework checks although an issuer is
  configured; or with an unhandled error when the token library raises what is not an invalid token. No content of
  a development header gives or changes an identity: two requests with one Authorization header that are both
  accepted have the same one.
\<close>

theorem identity_rests_on_the_verified_token:
  "(\<forall>i. Identity lib (Some tv) h = Inr i \<longleftrightarrow> headers_valid h \<and>
      (\<exists>token key cl. bearer_token (rh_authorization h) = Inr token \<and> tl_key_for lib token = Some key \<and>
         tl_decode lib token key
           \<lparr>jo_algorithms = [''RS256'', ''RS384'', ''RS512'', ''ES256'', ''ES384''], jo_issuer = tv_issuer tv,
            jo_audience = tv_audience tv, jo_leeway = 30, jo_require = [''exp'', ''iat'', ''iss'', ''aud'', ''sub'']\<rparr> = Inr cl \<and>
         claims_state (tv_mapping tv) cl i)) \<and>
   (\<forall>e. Identity lib (Some tv) h = Inl e \<longrightarrow>
      (if \<not> headers_valid h then e = HTTPException 422 ''validation error''
       else (\<exists>detail. e = HTTPException 401 detail) \<or>
         (\<exists>token key opts x. bearer_token (rh_authorization h) = Inr token \<and> tl_key_for lib token = Some key \<and>
            tl_decode lib token key opts = Inl (DecodeRaised x) \<and> e = Unhandled x))) \<and>
   (\<forall>h'. headers_valid h' \<and> headers_valid h \<and> rh_authorization h' = rh_authorization h \<longrightarrow>
      Identity lib (Some tv) h' = Identity lib (Some tv) h)"
proof (cases "headers_valid h")
  case False
  then show ?thesis by (simp add: Identity_def)
next
  case valid: True
  have opts: "TokenVerifier_options tv = \<lparr>jo_algorithms = [''RS256'', ''RS384'', ''RS512'', ''ES256'', ''ES384''], jo_issuer = tv_issuer tv,
      jo_audience = tv_audience tv, jo_leeway = 30, jo_require = [''exp'', ''iat'', ''iss'', ''aud'', ''sub'']\<rparr>"
    by (simp add: TokenVerifier_options_def ACCEPTED_ALGORITHMS_def CLOCK_LEEWAY_SECONDS_def)
  have identity: "Identity lib (Some tv) h' = token_identity lib tv (rh_authorization h')" if "headers_valid h'" for h'
    using that by (simp add: Identity_def request_identity_def)
  have errors: "(\<exists>detail. e = HTTPException 401 detail) \<or>
      (\<exists>token key opts x. bearer_token (rh_authorization h) = Inr token \<and> tl_key_for lib token = Some key \<and>
         tl_decode lib token key opts = Inl (DecodeRaised x) \<and> e = Unhandled x)"
    if "token_identity lib tv (rh_authorization h) = Inl e" for e using token_identity_errors [OF that] by blast
  show ?thesis unfolding identity [OF valid] opts [symmetric] token_identity_iff
    using valid errors by (simp add: identity)
qed

text \<open>A token library that knows one token.\<close>

definition sample_library :: "unit token_library" where
  "sample_library =
     \<lparr>tl_key_for = (\<lambda>token. if token = ''t0k'' then Some () else None),
      tl_decode = (\<lambda>token key opts. if jo_issuer opts = ''realm'' then
        Inr [(''sub'', VStr ''ann''), (''tenant_id'', VStr '' acme ''), (''clearance'', VStr ''Internal''),
             (''realm_access'', VDict [(''roles'', VList [VStr ''Reviewer'', VStr ''offline_access''])])]
        else Inl InvalidIssuerError)\<rparr>"

definition sample_headers :: request_headers where
  "sample_headers = \<lparr>rh_authorization = Some ''Bearer t0k'', rh_tenant_id = Some ''other'', rh_requester_id = Some ''eve'',
     rh_roles = Some ''administrator'', rh_clearance = Some ''restricted''\<rparr>"

definition sample_verifier :: TokenVerifier where
  "sample_verifier = \<lparr>tv_issuer = ''realm'', tv_audience = ''api'', tv_mapping = ClaimMapping_default\<rparr>"

lemmas sample_identity_defs = sample_library_def sample_headers_def sample_verifier_def ClaimMapping_default_def

theorem identity_rests_on_the_verified_token_witness:
  "headers_valid sample_headers \<and>
   Identity sample_library (Some sample_verifier) sample_headers =
     Inr \<lparr>ri_tenant_id = ''acme'', ri_requester_id = ''ann'', ri_roles = {R_REVIEWER}, ri_clearance = AC_INTERNAL\<rparr>"
proof
  show valid: "headers_valid sample_headers" by (simp add: headers_valid_def header_within_def sample_headers_def)
  have bearer: "bearer_token (Some ''Bearer t0k'') = Inr ''t0k''"
    by code_simp
  have claims: "claims_state ClaimMapping_default
      [(''sub'', VStr ''ann''), (''tenant_id'', VStr '' acme ''), (''clearance'', VStr ''Internal''),
       (''realm_access'', VDict [(''roles'', VList [VStr ''Reviewer'', VStr ''offline_access''])])]
      \<lparr>ri_tenant_id = ''acme'', ri_requester_id = ''ann'', ri_roles = {R_REVIEWER}, ri_clearance = AC_INTERNAL\<rparr>"
    unfolding claims_state_reads by code_simp
  show "Identity sample_library (Some sample_verifier) sample_headers =
     Inr \<lparr>ri_tenant_id = ''acme'', ri_requester_id = ''ann'', ri_roles = {R_REVIEWER}, ri_clearance = AC_INTERNAL\<rparr>"
    by (rule identity_rests_on_the_verified_token [THEN conjunct1, THEN spec, THEN iffD2], intro conjI exI valid)
      (use bearer claims in \<open>simp_all add: sample_identity_defs\<close>)
qed

text \<open>
  C35. Whatever identifies a request, the identity is well formed: the principal a handler derives from it,
  for the caller or for an agent acting for the caller, passes the check of \<open>Principal\<close>, so deriving it
  never raises. Without a token issuer the tenant and the requester fit the bounds of a job record, and the
  roles and the clearance are those the headers name, or the least privileged ones.
\<close>

theorem identity_is_well_formed:
  assumes "Identity lib verifier h = Inr i"
  shows "Principal_valid (RequestIdentity_principal i) \<and>
    Principal_valid (Principal_for_agent (RequestIdentity_principal i) role) \<and>
    (verifier = None \<longrightarrow> bounded_text 1 100 (ri_tenant_id i) \<and> bounded_text 1 200 (ri_requester_id i) \<and>
       (if py_strip (stated (rh_roles h)) = [] then ri_roles i = {R_REQUESTER}
        else ri_roles i = {r. \<exists>item \<in> set (py_split CHR '','' (stated (rh_roles h))). py_strip item = Role_value r}) \<and>
       (if py_strip (stated (rh_clearance h)) = [] then ri_clearance i = AC_PUBLIC
        else py_strip (stated (rh_clearance h)) = AccessClass_value (ri_clearance i)))"
proof -
  have roles_of: "rs = {r. \<exists>item \<in> set items. py_strip item = Role_value r}" if "roles_of items = Inr rs" for items rs
    using that
  proof (induction items arbitrary: rs)
    case (Cons item items)
    have "[] \<noteq> Role_value r" for r by (cases r) simp_all
    with Cons show ?case by (auto simp: Role_of_iff bind_result_def split: if_splits option.splits sum.splits)
  qed simp
  have parsed: "if py_strip (stated raw) = [] then rs = {R_REQUESTER}
      else rs = {r. \<exists>item \<in> set (py_split CHR '','' (stated raw)). py_strip item = Role_value r}"
    if "parse_roles raw = Inr rs" for raw rs
    using that roles_of by (auto simp: parse_roles_def DEFAULT_ROLES_def stated_def split: option.splits if_splits sum.splits)
  have cleared: "if py_strip (stated raw) = [] then c = AC_PUBLIC else py_strip (stated raw) = AccessClass_value c"
    if "parse_clearance raw = Inr c" for raw c
    using that by (auto simp: parse_clearance_def stated_def AccessClass_of_iff split: option.splits if_splits)
  show ?thesis
  proof (cases verifier)
    case (Some tv)
    have "headers_valid h" using assms by (auto simp: Identity_def split: if_splits)
    then have "Principal_valid (RequestIdentity_principal i)"
      using assms Some claimed_principal_valid by (auto simp: Identity_def request_identity_def token_identity_def TokenVerifier_verify_def
          Let_def split: sum.splits VerifyError.splits TokenRejected.splits option.splits if_splits)
    then show ?thesis using Some by (simp add: Principal_valid_def Principal_for_agent_def)
  next
    case None
    have h: "header_within 100 (rh_tenant_id h)" "header_within 200 (rh_requester_id h)"
      "stated (rh_tenant_id h) \<noteq> []" "stated (rh_requester_id h) \<noteq> []"
      and i: "ri_tenant_id i = stated (rh_tenant_id h)" "ri_requester_id i = stated (rh_requester_id h)"
        "parse_roles (rh_roles h) = Inr (ri_roles i)" "parse_clearance (rh_clearance h) = Inr (ri_clearance i)"
      using assms None by (auto simp: Identity_def request_identity_def headers_valid_def bind_result_def split: if_splits sum.splits)
    have "Principal_valid (RequestIdentity_principal i)" "Principal_valid (Principal_for_agent (RequestIdentity_principal i) role)"
      using h(3,4) i(1,2) by (simp_all add: Principal_valid_def RequestIdentity_principal_def Principal_for_agent_def)
    moreover have bounds: "bounded_text 1 n (stated s)" if "header_within n s" "stated s \<noteq> []" for n s
      using that by (cases s) (auto simp: bounded_text_def header_within_def stated_def Suc_le_eq)
    moreover have "bounded_text 1 100 (ri_tenant_id i)" "bounded_text 1 200 (ri_requester_id i)"
      using bounds [OF h(1,3)] bounds [OF h(2,4)] i(1,2) by simp_all
    ultimately show ?thesis by (intro conjI impI parsed [OF i(3)] cleared [OF i(4)])
  qed
qed

theorem identity_is_well_formed_witness:
  "\<exists>i. Identity sample_library None sample_headers = Inr i \<and> bounded_text 1 100 (ri_tenant_id i) \<and> ri_roles i \<noteq> {}"
proof -
  let ?i = "\<lparr>ri_tenant_id = ''other'', ri_requester_id = ''eve'', ri_roles = {R_ADMINISTRATOR}, ri_clearance = AC_RESTRICTED\<rparr>"
  have "Identity sample_library None sample_headers = Inr ?i" by code_simp
  with identity_is_well_formed [OF this] show ?thesis by force
qed

end
