(* ===== verification/Publishing.thy ===== *)
theory Publishing
  imports Artifacts Reasons Activities Provenance
begin

text \<open>
  The publication of a finished job (\<open>workflow/publishing.py\<close>): cited sources are read once more
  through the gateway, four artifacts are written under the job's own prefix, and the record that
  points at them is stored last. The JSON forms of the report, the manifest and the evidence bundle
  are the schema library's: the parameters in \<open>dumps\<close>. Metrics are left out.
\<close>

section \<open>Reading a source again\<close>

text \<open>
  The arguments of the call that reads a source again; \<open>None\<close> when it has no address. A source that
  cannot be split as a URL raises; \<open>netloc_ok\<close> is the library's check of a network location.
\<close>

definition refetch_arguments ::
  "(string \<Rightarrow> bool) \<Rightarrow> EvidenceRecord \<Rightarrow> ToolInvocation option \<Rightarrow> string + arguments option" where
  "refetch_arguments netloc_ok r invocation =
     (case invocation of
        None \<Rightarrow> Inr None
      | Some i \<Rightarrow>
          (let key = (ti_mcp_server i, ti_capability i) in
           if key = (''web-research'', ''fetch'') then Inr (Some [(''url'', VStr (ev_source_uri r))])
           else if key = (''filesystem'', ''read_document'')
           then (case urlsplit netloc_ok (ev_source_uri r) of
               None \<Rightarrow> Inl ''Invalid URL''
             | Some parts \<Rightarrow> Inr (Some [(''path'', VStr (py_lstrip_char CHR ''/'' (us_path parts)))]))
           else Inr None))"

text \<open>An exception that escapes from a check.\<close>

datatype CheckError = SourceMalformed string | CheckRaised GatewayError

definition reread_call :: "ResearchJob \<Rightarrow> EvidenceRecord \<Rightarrow> ToolInvocation \<Rightarrow> arguments \<Rightarrow> invocation_call" where
  "reread_call job r i args =
     \<lparr>ca_principal = principal_for job AR_RESEARCHER, ca_job_id = rj_id job, ca_task_id = ev_producing_task_id r,
      ca_server = ti_mcp_server i, ca_capability_name = ti_capability i, ca_arguments = args,
      ca_budget = rj_budget job, ca_approval = None\<rparr>"

definition GatewaySourceChecker_check ::
  "(unicode \<Rightarrow> unicode) \<Rightarrow> (string \<Rightarrow> bool) \<Rightarrow> 'b Budgets \<Rightarrow> 'c Breaker \<Rightarrow> gateway_env \<Rightarrow> datetime \<Rightarrow> ('b, 'c) CapabilityGateway \<Rightarrow>
   ResearchJob \<Rightarrow> EvidenceRecord \<Rightarrow> ToolInvocation option \<Rightarrow> (CheckError + SourceCheck) \<times> ('b, 'c) CapabilityGateway" where
  "GatewaySourceChecker_check nfc netloc_ok bops cops env now g job r invocation =
     (let checked = (\<lambda>status detail. \<lparr>sc_evidence_id = ev_id r, sc_status = status, sc_checked_at = now, sc_detail = detail\<rparr>) in
      case (refetch_arguments netloc_ok r invocation, invocation) of
        (Inl e, _) \<Rightarrow> (Inl (SourceMalformed e), g)
      | (Inr (Some args), Some i) \<Rightarrow>
          (case CapabilityGateway_invoke bops cops env g (reread_call job r i args) of
             (Inl (CapabilityDenied reason _), g') \<Rightarrow> (Inr (checked DS_UNAVAILABLE (Some (take 500 (denial_text reason)))), g')
           | (Inl (CapabilityFailed message _), g') \<Rightarrow> (Inr (checked DS_UNAVAILABLE (Some (take 500 message))), g')
           | (Inl (CapabilityUnknown e), g') \<Rightarrow> (Inr (checked DS_UNAVAILABLE (Some (take 500 (RegistryError_text e)))), g')
           | (Inl e, g') \<Rightarrow> (Inl (CheckRaised e), g')
           | (Inr result, g') \<Rightarrow>
               (if py_contains (normalize_text nfc (uc_text (ir_content result))) (normalize_text nfc (ev_excerpt r))
                then (Inr (checked DS_UNCHANGED None), g')
                else (Inr (checked DS_DRIFTED (Some ''the captured excerpt is no longer present at the source'')), g')))
      | _ \<Rightarrow> (Inr (checked DS_NOT_CHECKED (Some ''this kind of source has no address to read again'')), g))"


section \<open>Publishing\<close>

definition REPORT_JSON :: string where "REPORT_JSON = ''report.json''"
definition REPORT_MARKDOWN :: string where "REPORT_MARKDOWN = ''report.md''"
definition MANIFEST :: string where "MANIFEST = ''provenance-manifest.json''"
definition EVIDENCE_BUNDLE :: string where "EVIDENCE_BUNDLE = ''evidence.json''"

record dumps =
  du_report :: "ResearchReport \<Rightarrow> byte list"
  du_manifest :: "ProvenanceManifest \<Rightarrow> byte list"
  du_evidence :: "EvidenceRecord list \<Rightarrow> byte list"

text \<open>\<open>SourceChecker\<close>: looks at one source, on a state of its own.\<close>

type_synonym ('s, 'x) SourceChecker = "'s \<Rightarrow> ResearchJob \<Rightarrow> EvidenceRecord \<Rightarrow> ToolInvocation option \<Rightarrow> ('x + SourceCheck) \<times> 's"

datatype 'x PublishError = PublishJob JobError | PublishText string | PublishSource 'x | PublishArtifact ArtifactError | PublishInvalid

fun check_each ::
  "('s, 'x) SourceChecker \<Rightarrow> ResearchJob \<Rightarrow> uuid set \<Rightarrow> (uuid, ToolInvocation) dict \<Rightarrow> 's \<Rightarrow> EvidenceRecord list \<Rightarrow>
   ('x PublishError + SourceCheck list) \<times> 's" where
  "check_each check job cited by_id s [] = (Inr [], s)"
| "check_each check job cited by_id s (r # rs) =
     (if ev_id r \<notin> cited then check_each check job cited by_id s rs
      else (case check s job r (dict_get by_id (ev_tool_invocation_id r)) of
          (Inl e, s') \<Rightarrow> (Inl (PublishSource e), s')
        | (Inr c, s') \<Rightarrow>
            (case check_each check job cited by_id s' rs of
               (Inl e, s'') \<Rightarrow> (Inl e, s'')
             | (Inr cs, s'') \<Rightarrow> (Inr (c # cs), s''))))"

definition PublicationActivities_check_sources ::
  "('s, 'x) SourceChecker option \<Rightarrow> 's \<Rightarrow> ResearchJob \<Rightarrow> ResearchReport \<Rightarrow> EvidenceRecord list \<Rightarrow> ToolInvocation list \<Rightarrow>
   ('x PublishError + SourceCheck list) \<times> 's" where
  "PublicationActivities_check_sources sources s job report evidence invocations =
     (case sources of
        None \<Rightarrow> (Inr [], s)
      | Some check \<Rightarrow>
          if evidence = [] then (Inr [], s)
          else (case ResearchReport_cited_evidence_ids report of
              Inl e \<Rightarrow> (Inl (PublishText e), s)
            | Inr cited \<Rightarrow> check_each check job cited (dict_of (map (\<lambda>i. (ti_id i, i)) invocations)) s evidence))"

text \<open>The four writes in order; the first that is refused ends the publication.\<close>

fun put_each :: "'a ArtifactStore \<Rightarrow> string \<Rightarrow> 'a \<Rightarrow> (string \<times> byte list \<times> string) list \<Rightarrow> (ArtifactError + unit) \<times> 'a" where
  "put_each store tenant a [] = (Inr (), a)"
| "put_each store tenant a ((name, data, content_type) # ps) =
     (case as_put store a tenant name data content_type of
        (Inl e, a') \<Rightarrow> (Inl e, a')
      | (Inr _, a') \<Rightarrow> put_each store tenant a' ps)"

definition publication_record ::
  "datetime \<Rightarrow> ResearchJob \<Rightarrow> byte list \<Rightarrow> ProvenanceManifest \<Rightarrow> uuid set \<Rightarrow> EvidenceRecord list \<Rightarrow> ReportPublication" where
  "publication_record now job body manifest cited evidence =
     \<lparr>pu_job_id = rj_id job, pu_tenant_id = rj_tenant_id job, pu_published_at = now,
      pu_report_key = job_artifact (rj_id job) REPORT_JSON, pu_markdown_key = job_artifact (rj_id job) REPORT_MARKDOWN,
      pu_manifest_key = job_artifact (rj_id job) MANIFEST, pu_evidence_key = job_artifact (rj_id job) EVIDENCE_BUNDLE,
      pu_report_sha256 = sha256_of body, pu_is_partial = pm_is_partial manifest,
      pu_drifted_evidence_ids = ProvenanceManifest_drifted_evidence_ids manifest,
      pu_report_access_class = most_restrictive (map ev_access_class (filter (\<lambda>r. ev_id r \<in> cited) evidence)),
      pu_manifest_access_class = most_restrictive (map ev_access_class evidence)\<rparr>"

definition published_files ::
  "dumps \<Rightarrow> ResearchJob \<Rightarrow> ResearchReport \<Rightarrow> string \<Rightarrow> ProvenanceManifest \<Rightarrow> EvidenceRecord list \<Rightarrow> (string \<times> byte list \<times> string) list" where
  "published_files dump job report markdown manifest evidence =
     [(job_artifact (rj_id job) REPORT_JSON, du_report dump report, ''application/json''),
      (job_artifact (rj_id job) REPORT_MARKDOWN, utf8_encode (codes markdown), ''text/markdown; charset=utf-8''),
      (job_artifact (rj_id job) MANIFEST, du_manifest dump manifest, ''application/json''),
      (job_artifact (rj_id job) EVIDENCE_BUNDLE, du_evidence dump (filter EvidenceRecord_is_publishable evidence), ''application/json'')]"

text \<open>Evidence, findings and the audit trail of the job, as the service lists them.\<close>

definition job_material ::
  "'r JobRepository \<Rightarrow> 'r \<Rightarrow> ResearchJob \<Rightarrow> JobError + EvidenceRecord list \<times> FindingRecord list \<times> ToolInvocation list" where
  "job_material repo r job =
     bind_result (jr_list_evidence repo r (rj_tenant_id job) (rj_id job)) (\<lambda>evidence.
       bind_result (jr_list_findings repo r (rj_tenant_id job) (rj_id job)) (\<lambda>findings.
         bind_result (ResearchJobService_list_invocations repo r (rj_tenant_id job) (rj_id job)) (\<lambda>invocations.
           Inr (evidence, findings, invocations))))"

text \<open>What is written and recorded, once the sources were checked.\<close>

definition publish_texts ::
  "dumps \<Rightarrow> datetime \<Rightarrow> datetime \<Rightarrow> ResearchJob \<Rightarrow> ResearchReport \<Rightarrow> string list \<Rightarrow> FindingRecord list \<Rightarrow> EvidenceRecord list \<Rightarrow>
   ToolInvocation list \<Rightarrow> SourceCheck list \<Rightarrow> string + (string \<times> byte list \<times> string) list \<times> ReportPublication" where
  "publish_texts dump generated_at now job report shortfalls findings evidence invocations checks =
     bind_result (build_manifest (du_report dump) generated_at job report shortfalls findings evidence invocations checks) (\<lambda>manifest.
       bind_result (render_markdown job report shortfalls evidence checks) (\<lambda>markdown.
         bind_result (ResearchReport_cited_evidence_ids report) (\<lambda>cited.
           Inr (published_files dump job report markdown manifest evidence,
                publication_record now job (du_report dump report) manifest cited evidence))))"

definition PublicationActivities_publish ::
  "dumps \<Rightarrow> 'r JobRepository \<Rightarrow> 'a ArtifactStore \<Rightarrow> ('s, 'x) SourceChecker option \<Rightarrow> datetime \<Rightarrow> datetime \<Rightarrow>
   'r \<Rightarrow> 'a \<Rightarrow> 's \<Rightarrow> ResearchJob \<Rightarrow> ResearchReport \<Rightarrow> string list \<Rightarrow> ('x PublishError + ReportPublication) \<times> 'r \<times> 'a \<times> 's" where
  "PublicationActivities_publish dump repo store sources generated_at now r a s job report shortfalls =
     (case job_material repo r job of
        Inl e \<Rightarrow> (Inl (PublishJob e), r, a, s)
      | Inr (evidence, findings, invocations) \<Rightarrow>
          (case PublicationActivities_check_sources sources s job report evidence invocations of
             (Inl e, s') \<Rightarrow> (Inl e, r, a, s')
           | (Inr checks, s') \<Rightarrow>
               (case publish_texts dump generated_at now job report shortfalls findings evidence invocations checks of
                  Inl e \<Rightarrow> (Inl (PublishText e), r, a, s')
                | Inr (files, publication) \<Rightarrow>
                    (case put_each store (rj_tenant_id job) a files of
                       (Inl e, a') \<Rightarrow> (Inl (PublishArtifact e), r, a', s')
                     | (Inr _, a') \<Rightarrow>
                         (if \<not> (bounded_text 1 100 (pu_tenant_id publication) \<and> sha256_pattern (pu_report_sha256 publication))
                          then (Inl PublishInvalid, r, a', s')
                          else (case jr_record_publication repo r publication of
                              Inl e \<Rightarrow> (Inl (PublishJob e), r, a', s')
                            | Inr r' \<Rightarrow> (Inr publication, r', a', s')))))))"


section \<open>What a publication leaves behind\<close>

lemma sha256_of_pattern: "sha256_pattern (sha256_of data)"
  using set_sha256_hexdigest by (auto simp: sha256_pattern_def sha256_of_def list_all_iff is_lower_hex_def)

lemma job_artifact_inject [simp]: "job_artifact j f = job_artifact j f' \<longleftrightarrow> f = f'"
  by (simp add: job_artifact_def)

lemmas file_names = REPORT_JSON_def REPORT_MARKDOWN_def MANIFEST_def EVIDENCE_BUNDLE_def

lemma published_files_distinct: "distinct (map fst (published_files dump job report markdown manifest evidence))"
  by (simp add: published_files_def file_names)

lemma published_files_names:
  "fst ` set (published_files dump job report markdown manifest evidence) =
   job_artifact (rj_id job) ` {REPORT_JSON, REPORT_MARKDOWN, MANIFEST, EVIDENCE_BUNDLE}"
  by (auto simp: published_files_def)

context artifact_store
begin

lemma put_frame:
  assumes "inv a" and "as_put store a t n d ct = (r, a1)" and "t' \<noteq> t \<or> n' \<noteq> n"
  shows "as_get store a1 t' n' = as_get store a t' n'"
proof -
  have inv1: "inv a1" using put_result [OF assms(1,2)] by simp
  have "held a1 k = held a k" if k: "artifact_key t' n' = Inr k" for k
  proof (cases r)
    case (Inl e)
    then show ?thesis using put_result [OF assms(1,2)] by simp
  next
    case (Inr sa)
    then obtain k1 where k1: "artifact_key t n = Inr k1" "held a1 = (held a)(k1 \<mapsto> d)" using put_result [OF assms(1,2)] by auto
    then have "k \<noteq> k1" using artifact_key_inject [of t n k1 t' n'] k assms(3) by blast
    with k1(2) show ?thesis by simp
  qed
  then show ?thesis by (simp add: get_reads [OF inv1] get_reads [OF assms(1)] split: sum.split)
qed

text \<open>An accepted list of writes under distinct names holds each of them; other names keep their content.\<close>

lemma put_each_held:
  assumes "inv a" and "put_each store t a files = (res, a')"
  shows "inv a' \<and> (\<forall>t' n. t' \<noteq> t \<or> n \<notin> fst ` set files \<longrightarrow> as_get store a' t' n = as_get store a t' n) \<and>
    (res = Inr () \<longrightarrow> distinct (map fst files) \<longrightarrow> (\<forall>(n, d, ct) \<in> set files. as_get store a' t n = Inr d))"
  using assms
proof (induction files arbitrary: a)
  case (Cons entry files)
  obtain n d ct where entry: "entry = (n, d, ct)" by (metis prod.exhaust)
  obtain r a1 where put: "as_put store a t n d ct = (r, a1)" by fastforce
  note others = put_frame [OF Cons.prems(1) put]
  show ?case
  proof (cases r)
    case (Inl e)
    with Cons.prems(2) entry put put_result [OF Cons.prems(1) put] others show ?thesis by auto
  next
    case (Inr sa)
    then obtain k where k: "inv a1" "artifact_key t n = Inr k" "held a1 k = Some d"
      using put_result [OF Cons.prems(1) put] by auto
    have rest: "put_each store t a1 files = (res, a')" using Cons.prems(2) entry put Inr by simp
    note ih = Cons.IH [OF k(1) rest]
    have "as_get store a1 t n = Inr d" using get_reads [OF k(1), of t n] k(2,3) by simp
    with ih others entry show ?thesis by auto
  qed
qed simp

end

text \<open>A repository that also reads back the publication it was given.\<close>

locale publication_repository = job_repository repo inv slice
  for repo :: "'r JobRepository" and inv and slice +
  assumes publication_written: "inv r \<Longrightarrow> jr_record_publication repo r p = Inr r' \<Longrightarrow>
    ts_publication (slice r' (pu_tenant_id p)) = (ts_publication (slice r (pu_tenant_id p)))(pu_job_id p \<mapsto> p) \<and>
    ts_evidence (slice r' (pu_tenant_id p)) = ts_evidence (slice r (pu_tenant_id p))"

interpretation mem_publications: publication_repository InMemoryJobRepository_ops InMemoryJobRepository_inv InMemoryJobRepository_slice
  by unfold_locales (auto simp: InMemoryJobRepository_ops_def InMemoryJobRepository_record_publication_def InMemoryJobRepository_slice_def
      bind_result_Inr_iff fun_eq_iff)

locale publishing = publication_repository repo inv slice + arts: artifact_store store ainv held
  for repo :: "'r JobRepository" and inv and slice and store :: "'a ArtifactStore" and ainv and held
begin

lemma material_read:
  "job_material repo r job = Inr (evidence, findings, invocations) \<Longrightarrow>
   evidence = ts_evidence (slice r (rj_tenant_id job)) (rj_id job) \<and> ts_job (slice r (rj_tenant_id job)) (rj_id job) \<noteq> None"
  by (auto simp: job_material_def evidence_reads get_reads bind_result_Inr_iff)

lemma publish_parts:
  assumes run: "PublicationActivities_publish dump repo store sources generated_at now r a s job report shortfalls = (res, r', a', s')"
    and inv: "inv r" "ainv a"
  shows "inv r' \<and> ainv a' \<and> (\<forall>e. res = Inl e \<longrightarrow> r' = r) \<and>
    (\<forall>t n. t \<noteq> rj_tenant_id job \<or> n \<notin> job_artifact (rj_id job) ` {REPORT_JSON, REPORT_MARKDOWN, MANIFEST, EVIDENCE_BUNDLE} \<longrightarrow>
       as_get store a' t n = as_get store a t n) \<and>
    (\<forall>p. res = Inr p \<longrightarrow> (\<exists>evidence findings invocations checks files.
       job_material repo r job = Inr (evidence, findings, invocations) \<and>
       publish_texts dump generated_at now job report shortfalls findings evidence invocations checks = Inr (files, p) \<and>
       jr_record_publication repo r p = Inr r' \<and>
       (\<forall>(n, d, ct) \<in> set files. as_get store a' (rj_tenant_id job) n = Inr d)))"
proof (cases "job_material repo r job")
  case (Inl e)
  with run inv show ?thesis by (auto simp: PublicationActivities_publish_def)
next
  case (Inr m)
  obtain evidence findings invocations where m: "m = (evidence, findings, invocations)" by (metis prod.exhaust)
  obtain c s1 where checks: "PublicationActivities_check_sources sources s job report evidence invocations = (c, s1)" by fastforce
  show ?thesis
  proof (cases "\<exists>cs files p. c = Inr cs \<and>
      publish_texts dump generated_at now job report shortfalls findings evidence invocations cs = Inr (files, p)")
    case False
    then have "(\<exists>e. res = Inl e) \<and> r' = r \<and> a' = a"
      using run Inr m checks by (auto simp: PublicationActivities_publish_def split: sum.splits prod.splits)
    with inv show ?thesis by auto
  next
    case True
    then obtain cs files p where c: "c = Inr cs"
      "publish_texts dump generated_at now job report shortfalls findings evidence invocations cs = Inr (files, p)" by blast
    have files: "fst ` set files = job_artifact (rj_id job) ` {REPORT_JSON, REPORT_MARKDOWN, MANIFEST, EVIDENCE_BUNDLE}" "distinct (map fst files)"
      using c(2) published_files_names [of dump job report _ _ evidence] published_files_distinct [of dump job report _ _ evidence]
      unfolding publish_texts_def bind_result_Inr_iff by (metis Inr_inject prod.inject)+
    obtain w a1 where puts: "put_each store (rj_tenant_id job) a files = (w, a1)" by fastforce
    note held = arts.put_each_held [OF inv(2) puts, unfolded files(1)]
    have same: "a' = a1" using run Inr m checks c puts
      by (auto simp: PublicationActivities_publish_def split: sum.splits if_splits)
    have "inv r' \<and> (\<forall>e. res = Inl e \<longrightarrow> r' = r) \<and> (\<forall>q. res = Inr q \<longrightarrow> q = p \<and> w = Inr () \<and> jr_record_publication repo r p = Inr r')"
      using run Inr m checks c puts inv(1) publication_writes [OF inv(1), of p]
      by (auto simp: PublicationActivities_publish_def split: sum.splits if_splits)
    with held same files(2) Inr m c show ?thesis by blast
  qed
qed

lemma publish_result:
  assumes run: "PublicationActivities_publish dump repo store sources generated_at now r a s job report shortfalls = (Inr p, r', a', s')"
    and inv: "inv r" "ainv a"
  defines "evidence \<equiv> ts_evidence (slice r (rj_tenant_id job)) (rj_id job)"
  shows "jr_get_publication repo r' (rj_tenant_id job) (rj_id job) = Inr (Some p) \<and>
    as_get store a' (rj_tenant_id job) (pu_report_key p) = Inr (du_report dump report) \<and>
    pu_report_sha256 p = sha256_of (du_report dump report) \<and> is_ok (as_get store a' (rj_tenant_id job) (pu_markdown_key p)) \<and>
    as_get store a' (rj_tenant_id job) (pu_evidence_key p) = Inr (du_evidence dump (filter EvidenceRecord_is_publishable evidence)) \<and>
    (\<exists>m. as_get store a' (rj_tenant_id job) (pu_manifest_key p) = Inr (du_manifest dump m) \<and>
       pm_report_sha256 m = pu_report_sha256 p \<and> map me_id (pm_evidence m) = map ev_id evidence) \<and>
    pu_manifest_access_class p = most_restrictive (map ev_access_class evidence) \<and>
    (\<exists>cited. ResearchReport_cited_evidence_ids report = Inr cited \<and>
       pu_report_access_class p = most_restrictive (map ev_access_class (filter (\<lambda>e. ev_id e \<in> cited) evidence)))"
proof -
  obtain ev findings invocations checks files where parts:
    "job_material repo r job = Inr (ev, findings, invocations)"
    "publish_texts dump generated_at now job report shortfalls findings ev invocations checks = Inr (files, p)"
    "jr_record_publication repo r p = Inr r'" and files: "\<forall>(n, d, ct) \<in> set files. as_get store a' (rj_tenant_id job) n = Inr d"
    using publish_parts [OF run inv] by blast
  have ev: "ev = evidence" and known: "ts_job (slice r (rj_tenant_id job)) (rj_id job) \<noteq> None"
    using material_read [OF parts(1)] by (simp_all add: evidence_def)
  obtain manifest markdown cited where tx: "build_manifest (du_report dump) generated_at job report shortfalls findings ev invocations checks = Inr manifest"
    "ResearchReport_cited_evidence_ids report = Inr cited" "files = published_files dump job report markdown manifest ev"
    "p = publication_record now job (du_report dump report) manifest cited ev"
    using parts(2) by (auto simp: publish_texts_def bind_result_Inr_iff)
  have m: "pm_report_sha256 manifest = sha256_of (du_report dump report)" "map me_id (pm_evidence manifest) = map ev_id ev"
    using tx(1,2) by (auto simp: build_manifest_def listed_evidence_def Let_def)
  have p: "pu_tenant_id p = rj_tenant_id job" "pu_job_id p = rj_id job" by (simp_all add: tx(4) publication_record_def)
  have "jr_get_publication repo r' (rj_tenant_id job) (rj_id job) = Inr (Some p)"
    using publication_written [OF inv(1) parts(3)] publication_writes [OF inv(1) parts(3)] known p
    by (auto simp: publication_reads get_reads)
  moreover have "as_get store a' (rj_tenant_id job) (pu_report_key p) = Inr (du_report dump report)"
    "is_ok (as_get store a' (rj_tenant_id job) (pu_markdown_key p))"
    "as_get store a' (rj_tenant_id job) (pu_manifest_key p) = Inr (du_manifest dump manifest)"
    "as_get store a' (rj_tenant_id job) (pu_evidence_key p) = Inr (du_evidence dump (filter EvidenceRecord_is_publishable evidence))"
    using files by (simp_all add: tx(3,4) ev published_files_def publication_record_def)
  moreover have "pu_report_sha256 p = sha256_of (du_report dump report)"
    "pu_manifest_access_class p = most_restrictive (map ev_access_class evidence)"
    "pu_report_access_class p = most_restrictive (map ev_access_class (filter (\<lambda>e. ev_id e \<in> cited) evidence))"
    by (simp_all add: tx(4) ev publication_record_def)
  ultimately show ?thesis using m tx(2) ev by auto
qed

end

interpretation mem_publishing: publishing InMemoryJobRepository_ops InMemoryJobRepository_inv InMemoryJobRepository_slice
  InMemoryArtifactStore_ops any_store dict_get
  by unfold_locales

interpretation minio_publishing: publishing InMemoryJobRepository_ops InMemoryJobRepository_inv InMemoryJobRepository_slice
  "MinioArtifactStore_ops S3Server_client b" "\<lambda>m. dict_get m b \<noteq> None" "bucket_held b" for b
  by unfold_locales

text \<open>What a publication record promises of the artifacts a tenant can read.\<close>

definition publication_complete ::
  "dumps \<Rightarrow> ResearchReport \<Rightarrow> EvidenceRecord list \<Rightarrow> (string \<Rightarrow> ArtifactError + byte list) \<Rightarrow> ReportPublication \<Rightarrow> bool" where
  "publication_complete dump report evidence stored p \<longleftrightarrow>
     stored (pu_report_key p) = Inr (du_report dump report) \<and> pu_report_sha256 p = sha256_of (du_report dump report) \<and>
     is_ok (stored (pu_markdown_key p)) \<and>
     stored (pu_evidence_key p) = Inr (du_evidence dump (filter EvidenceRecord_is_publishable evidence)) \<and>
     (\<exists>manifest. stored (pu_manifest_key p) = Inr (du_manifest dump manifest) \<and> pm_report_sha256 manifest = pu_report_sha256 p \<and>
        map me_id (pm_evidence manifest) = map ev_id evidence) \<and>
     (\<exists>cited. ResearchReport_cited_evidence_ids report = Inr cited \<and>
        (\<forall>c. clearance_covers c (pu_report_access_class p) \<longleftrightarrow> (\<forall>e \<in> set evidence. ev_id e \<in> cited \<longrightarrow> clearance_covers c (ev_access_class e)))) \<and>
     (\<forall>c. clearance_covers c (pu_manifest_access_class p) \<longleftrightarrow> (\<forall>e \<in> set evidence. clearance_covers c (ev_access_class e)))"

context publishing
begin

lemma publish_complete:
  assumes "PublicationActivities_publish dump repo store sources generated_at now r a s job report shortfalls = (Inr p, r', a', s')"
    and "inv r" "ainv a"
  shows "jr_get_publication repo r' (rj_tenant_id job) (rj_id job) = Inr (Some p) \<and>
    publication_complete dump report (ts_evidence (slice r (rj_tenant_id job)) (rj_id job)) (as_get store a' (rj_tenant_id job)) p"
  using publish_result [OF assms] unfolding publication_complete_def by (auto simp: covers_most_restrictive_iff)

end

text \<open>
  C13. A publication points at what was written. When publishing fails, no publication is recorded. When it
  succeeds, the stored record's keys read back, in the job's own tenant, the report whose digest the
  record and the manifest both carry, the rendered report, the manifest that lists the job's evidence,
  and a bundle of only the evidence that may be published. A reader is cleared for the report exactly
  when cleared for every source it cites, and for the manifest exactly when cleared for every source the
  job read. No artifact of another tenant or another job is touched.
\<close>

theorem publication_points_at_what_was_written:
  assumes run: "PublicationActivities_publish dump InMemoryJobRepository_ops (MinioArtifactStore_ops S3Server_client b) sources generated_at now r m s
      job report shortfalls = (res, r', m', s')"
    and inv: "InMemoryJobRepository_inv r" "dict_get m b \<noteq> None"
  shows "(\<forall>e. res = Inl e \<longrightarrow> r' = r) \<and>
    (\<forall>t n. t \<noteq> rj_tenant_id job \<or> n \<notin> job_artifact (rj_id job) ` {REPORT_JSON, REPORT_MARKDOWN, MANIFEST, EVIDENCE_BUNDLE} \<longrightarrow>
       MinioArtifactStore_get S3Server_client b m' t n = MinioArtifactStore_get S3Server_client b m t n) \<and>
    (\<forall>p. res = Inr p \<longrightarrow>
       InMemoryJobRepository_get_publication r' (rj_tenant_id job) (rj_id job) = Inr (Some p) \<and>
       publication_complete dump report (listed (im_evidence r) (rj_tenant_id job, rj_id job))
         (MinioArtifactStore_get S3Server_client b m' (rj_tenant_id job)) p)"
proof (intro conjI)
  have sel: "as_get (MinioArtifactStore_ops S3Server_client b) = MinioArtifactStore_get S3Server_client b"
    "jr_get_publication InMemoryJobRepository_ops = InMemoryJobRepository_get_publication"
    "ts_evidence (InMemoryJobRepository_slice r (rj_tenant_id job)) (rj_id job) = listed (im_evidence r) (rj_tenant_id job, rj_id job)"
    by (simp_all add: MinioArtifactStore_ops_def InMemoryJobRepository_ops_def InMemoryJobRepository_slice_def)
  note frame = minio_publishing.publish_parts [OF run inv, unfolded sel]
  show "\<forall>e. res = Inl e \<longrightarrow> r' = r" using frame by (elim conjE)
  show "\<forall>t n. t \<noteq> rj_tenant_id job \<or> n \<notin> job_artifact (rj_id job) ` {REPORT_JSON, REPORT_MARKDOWN, MANIFEST, EVIDENCE_BUNDLE} \<longrightarrow>
      MinioArtifactStore_get S3Server_client b m' t n = MinioArtifactStore_get S3Server_client b m t n" using frame by (elim conjE)
  show "\<forall>p. res = Inr p \<longrightarrow> InMemoryJobRepository_get_publication r' (rj_tenant_id job) (rj_id job) = Inr (Some p) \<and>
      publication_complete dump report (listed (im_evidence r) (rj_tenant_id job, rj_id job))
        (MinioArtifactStore_get S3Server_client b m' (rj_tenant_id job)) p"
  proof (intro allI impI)
    fix p assume "res = Inr p"
    from minio_publishing.publish_complete [OF run [unfolded this] inv, unfolded sel]
    show "InMemoryJobRepository_get_publication r' (rj_tenant_id job) (rj_id job) = Inr (Some p) \<and>
      publication_complete dump report (listed (im_evidence r) (rj_tenant_id job, rj_id job))
        (MinioArtifactStore_get S3Server_client b m' (rj_tenant_id job)) p" .
  qed
qed

text \<open>A report without sections is published for the job of the sample store.\<close>

definition sample_dumps :: dumps where
  "sample_dumps = \<lparr>du_report = (\<lambda>_. [123, 125]), du_manifest = (\<lambda>_. [91, 93]), du_evidence = (\<lambda>_. [])\<rparr>"

definition sample_report :: ResearchReport where
  "sample_report = \<lparr>re_title = ''t'', re_sections = [], re_is_partial = False, re_omitted_because = []\<rparr>"

lemma file_keys:
  assumes "t \<noteq> []" and "f \<in> {REPORT_JSON, REPORT_MARKDOWN, MANIFEST, EVIDENCE_BUNDLE}"
  shows "\<exists>k. artifact_key t (job_artifact j f) = Inr k"
proof -
  have "SEGMENT f \<and> \<not> py_contains f ''..'' \<and> CHR ''/'' \<notin> set f"
    using assms(2) by (auto simp: file_names SEGMENT_def ascii_alpha_def ascii_digit_def sublist_code)
  with job_artifact_key [OF assms(1), of f j] show ?thesis by blast
qed

lemma sample_publication:
  "\<exists>p r' m'. PublicationActivities_publish sample_dumps InMemoryJobRepository_ops (MinioArtifactStore_ops S3Server_client ''b'')
      (None :: (unit, unit) SourceChecker option) 5 6 sample_store [(''b'', [])] () (new_job 1 0 ''acme'' ''u'' sample_command AC_INTERNAL)
      sample_report [] = (Inr p, r', m', ())"
proof -
  let ?job = "new_job 1 0 ''acme'' ''u'' sample_command AC_INTERNAL"
  obtain res r' m' where run: "PublicationActivities_publish sample_dumps InMemoryJobRepository_ops (MinioArtifactStore_ops S3Server_client ''b'')
      (None :: (unit, unit) SourceChecker option) 5 6 sample_store [(''b'', [])] () ?job sample_report [] = (res, r', m', ())"
    by (cases "PublicationActivities_publish sample_dumps InMemoryJobRepository_ops (MinioArtifactStore_ops S3Server_client ''b'')
      (None :: (unit, unit) SourceChecker option) 5 6 sample_store [(''b'', [])] () ?job sample_report []") auto
  obtain k1 k2 k3 k4 where keys: "artifact_key ''acme'' (job_artifact 1 REPORT_JSON) = Inr k1" "artifact_key ''acme'' (job_artifact 1 REPORT_MARKDOWN) = Inr k2"
    "artifact_key ''acme'' (job_artifact 1 MANIFEST) = Inr k3" "artifact_key ''acme'' (job_artifact 1 EVIDENCE_BUNDLE) = Inr k4"
    using file_keys [of "''acme''" REPORT_JSON 1] file_keys [of "''acme''" REPORT_MARKDOWN 1] file_keys [of "''acme''" MANIFEST 1]
      file_keys [of "''acme''" EVIDENCE_BUNDLE 1] by auto
  have material: "job_material InMemoryJobRepository_ops sample_store ?job = Inr ([], [], [])"
    by (simp add: job_material_def InMemoryJobRepository_ops_def sample_store_def InMemoryJobRepository_add_def InMemoryJobRepository_init_def
        InMemoryJobRepository_list_evidence_def InMemoryJobRepository_list_findings_def ResearchJobService_list_invocations_def
        InMemoryJobRepository_list_invocations_def InMemoryJobRepository_get_def listed_def)
  have cited: "ResearchReport_cited_evidence_ids sample_report = Inr {}" by (simp add: ResearchReport_cited_evidence_ids_def sample_report_def)
  obtain markdown where markdown: "render_markdown ?job sample_report [] [] [] = Inr markdown"
    by (simp add: render_markdown_def sample_report_def)
  obtain manifest where manifest: "build_manifest (du_report sample_dumps) 5 ?job sample_report [] [] [] [] [] = Inr manifest"
    by (simp add: build_manifest_def cited)
  define files where "files = published_files sample_dumps ?job sample_report markdown manifest []"
  define p where "p = publication_record 6 ?job (du_report sample_dumps sample_report) manifest {} []"
  have texts: "publish_texts sample_dumps 5 6 ?job sample_report [] [] [] [] [] = Inr (files, p)"
    by (simp add: publish_texts_def markdown manifest cited files_def p_def)
  have p: "pu_tenant_id p = ''acme''" "pu_job_id p = 1" "sha256_pattern (pu_report_sha256 p)"
    "map fst files = map (job_artifact 1) [REPORT_JSON, REPORT_MARKDOWN, MANIFEST, EVIDENCE_BUNDLE]"
    using sha256_of_pattern by (simp_all add: files_def p_def published_files_def publication_record_def)
  have puts: "\<exists>m'. put_each (MinioArtifactStore_ops S3Server_client ''b'') ''acme'' [(''b'', [])] files = (Inr (), m')"
    using p(4) keys by (auto simp: map_eq_Cons_conv MinioArtifactStore_ops_def MinioArtifactStore_put_def S3Server_client_def)
  have "\<exists>r'. jr_record_publication InMemoryJobRepository_ops sample_store p = Inr r'"
    using p(1,2) by (simp add: InMemoryJobRepository_ops_def InMemoryJobRepository_record_publication_def InMemoryJobRepository_get_def sample_store_def
        InMemoryJobRepository_add_def)
  then have "res = Inr p"
    using run material texts p puts
    by (auto simp: PublicationActivities_publish_def PublicationActivities_check_sources_def bounded_text_def)
  with run show ?thesis by blast
qed

theorem publication_points_at_what_was_written_witness:
  "\<exists>p r' m'. PublicationActivities_publish sample_dumps InMemoryJobRepository_ops (MinioArtifactStore_ops S3Server_client ''b'')
      (None :: (unit, unit) SourceChecker option) 5 6 sample_store [(''b'', [])] () (new_job 1 0 ''acme'' ''u'' sample_command AC_INTERNAL)
      sample_report [] = (Inr p, r', m', ()) \<and>
     MinioArtifactStore_get S3Server_client ''b'' m' ''acme'' (pu_report_key p) = Inr [123, 125]"
proof -
  obtain p r' m' where run: "PublicationActivities_publish sample_dumps InMemoryJobRepository_ops (MinioArtifactStore_ops S3Server_client ''b'')
      (None :: (unit, unit) SourceChecker option) 5 6 sample_store [(''b'', [])] () (new_job 1 0 ''acme'' ''u'' sample_command AC_INTERNAL)
      sample_report [] = (Inr p, r', m', ())" using sample_publication by blast
  from publication_points_at_what_was_written [OF run sample_store_inv] run show ?thesis
    by (auto simp: publication_complete_def sample_dumps_def)
qed


section \<open>What is read again\<close>

lemma partition_takeWhile: "fst (py_partition d s) = takeWhile (\<lambda>c. c \<noteq> d) s"
  by (induction s) (auto split: prod.splits)

lemma takeWhile_twice: "takeWhile P (takeWhile Q s) = takeWhile (\<lambda>c. P c \<and> Q c) s"
  by (induction s) auto

lemma unsafe_removed_safe:
  "s = [] \<or> (of_char (hd s) :: nat) > 32 \<Longrightarrow> \<forall>c \<in> set s. \<not> unsafe_char c \<Longrightarrow> unsafe_removed s = s"
proof -
  assume start: "s = [] \<or> (of_char (hd s) :: nat) > 32" and safe: "\<forall>c \<in> set s. \<not> unsafe_char c"
  have "dropWhile (\<lambda>c. (of_char c :: nat) \<le> 32) s = s" using start by (cases s) auto
  moreover have "filter (\<lambda>c. (of_char c :: nat) \<notin> {9, 10, 13}) s = s"
    using safe by (intro filter_True) (simp add: unsafe_char_def)
  ultimately show ?thesis by (simp add: unsafe_removed_def)
qed

lemma workspace_split:
  assumes t: "\<forall>c \<in> set t. \<not> netloc_end c \<and> \<not> unsafe_char c \<and> c \<notin> {CHR ''['', CHR '']''}" "netloc_ok t"
    and q: "\<forall>c \<in> set q. \<not> unsafe_char c"
  shows "\<exists>parts. urlsplit netloc_ok (''workspace://'' @ t @ ''/'' @ q) = Some parts \<and>
    us_path parts = CHR ''/'' # takeWhile (\<lambda>c. c \<noteq> CHR ''?'' \<and> c \<noteq> CHR ''#'') q"
proof -
  let ?u = "''workspace://'' @ t @ ''/'' @ q"
  have "\<forall>c \<in> set ''workspace:///''. \<not> unsafe_char c" by (simp add: unsafe_char_def)
  then have "unsafe_removed ?u = ?u" using t(1) q by (intro unsafe_removed_safe) auto
  moreover have "py_partition CHR '':'' ?u = (''workspace'', True, ''//'' @ t @ ''/'' @ q)"
    using py_partition_found [of "CHR '':''" "''workspace''" "''//'' @ t @ ''/'' @ q"] by simp
  ultimately have scheme: "split_scheme (unsafe_removed ?u) = (py_lower ''workspace'', ''//'' @ t @ ''/'' @ q)"
    by (simp add: split_scheme_def scheme_char_def ascii_alpha_def)
  have host: "takeWhile (\<lambda>c. \<not> netloc_end c) (t @ CHR ''/'' # q) = t" "dropWhile (\<lambda>c. \<not> netloc_end c) (t @ CHR ''/'' # q) = CHR ''/'' # q"
    using t(1) by (auto simp: takeWhile_append2 dropWhile_append2 netloc_end_def)
  have "CHR ''['' \<notin> set t" "CHR '']'' \<notin> set t" using t(1) by auto
  then obtain parts where parts: "urlsplit netloc_ok ?u = Some parts"
    "us_path parts = fst (py_partition CHR ''?'' (fst (py_partition CHR ''#'' (CHR ''/'' # q))))"
    using t(2) unfolding urlsplit_def scheme
    by (cases "py_partition CHR ''#'' (CHR ''/'' # q)"; cases "py_partition CHR ''?'' (fst (py_partition CHR ''#'' (CHR ''/'' # q)))")
      (simp add: host Let_def del: py_partition.simps)
  have "us_path parts = takeWhile (\<lambda>c. c \<noteq> CHR ''?'') (takeWhile (\<lambda>c. c \<noteq> CHR ''#'') (CHR ''/'' # q))"
    using parts(2) by (simp only: partition_takeWhile)
  with parts(1) show ?thesis by (auto simp: takeWhile_twice)
qed

text \<open>
  A captured document is read again by its path, cut at the first question mark or hash: for evidence
  whose source is the one recorded for a workspace document, the publication asks for the captured
  path itself when it contains neither character, and for a different document when it does.
\<close>

theorem document_reread_path_is_cut:
  assumes "\<forall>c \<in> set tenant_id. \<not> netloc_end c \<and> \<not> unsafe_char c \<and> c \<notin> {CHR ''['', CHR '']''}" "netloc_ok tenant_id"
    and "\<forall>c \<in> set path. \<not> unsafe_char c" and "cap_server c = ''filesystem''" "cap_name c = ''read_document''"
    and "ev_source_uri r = source_of c tenant_id [(''path'', VStr path)]" and "ti_mcp_server i = ''filesystem''" "ti_capability i = ''read_document''"
  shows "refetch_arguments netloc_ok r (Some i) =
    Inr (Some [(''path'', VStr (takeWhile (\<lambda>c. c \<noteq> CHR ''?'' \<and> c \<noteq> CHR ''#'') (py_lstrip_char CHR ''/'' path)))])"
proof -
  let ?q = "py_lstrip_char CHR ''/'' path"
  let ?cut = "takeWhile (\<lambda>c. c \<noteq> CHR ''?'' \<and> c \<noteq> CHR ''#'') ?q"
  have "\<forall>c \<in> set ?q. \<not> unsafe_char c" using assms(3) by (auto simp: py_lstrip_char_def dest: set_dropWhileD)
  from workspace_split [where netloc_ok = netloc_ok, OF assms(1,2) this] obtain parts where
    parts: "urlsplit netloc_ok (''workspace://'' @ tenant_id @ ''/'' @ ?q) = Some parts" "us_path parts = CHR ''/'' # ?cut" by blast
  have source: "ev_source_uri r = ''workspace://'' @ tenant_id @ ''/'' @ ?q"
    using assms(4-6) by (simp add: source_of_def argument_text_def py_str_def Let_def)
  have "?q = [] \<or> hd ?q \<noteq> CHR ''/''" using hd_dropWhile [of "\<lambda>c. c = CHR ''/''" path] unfolding py_lstrip_char_def by blast
  then have "?cut = [] \<or> hd ?cut \<noteq> CHR ''/''" by (cases ?q) auto
  moreover have "py_lstrip_char CHR ''/'' (CHR ''/'' # cut) = cut" if "cut = [] \<or> hd cut \<noteq> CHR ''/''" for cut
    using that by (cases cut) (auto simp: py_lstrip_char_def)
  ultimately have "py_lstrip_char CHR ''/'' (CHR ''/'' # ?cut) = ?cut" by blast
  with parts source assms(7,8) show ?thesis by (simp add: refetch_arguments_def)
qed

theorem document_reread_path_is_cut_witness:
  "\<exists>r i c. ev_source_uri r = source_of c ''acme'' [(''path'', VStr ''a#1.md'')] \<and>
     refetch_arguments (\<lambda>_. True) r (Some i) = Inr (Some [(''path'', VStr ''a'')])"
proof -
  define c where "c = Capability_default ''filesystem'' ''read_document'' ''d''"
  obtain r :: EvidenceRecord where r: "ev_source_uri r = source_of c ''acme'' [(''path'', VStr ''a#1.md'')]"
    by (metis EvidenceRecordCreate.select_convs(2))
  obtain i :: ToolInvocation where i: "ti_mcp_server i = ''filesystem''" "ti_capability i = ''read_document''"
    by (metis ToolInvocation.select_convs(5,6))
  have "refetch_arguments (\<lambda>_. True) r (Some i) =
      Inr (Some [(''path'', VStr (takeWhile (\<lambda>c. c \<noteq> CHR ''?'' \<and> c \<noteq> CHR ''#'') (py_lstrip_char CHR ''/'' ''a#1.md'')))])"
    by (rule document_reread_path_is_cut [OF _ _ _ _ _ r i])
      (simp_all add: netloc_end_def unsafe_char_def c_def Capability_default_def)
  then show ?thesis using r by (auto simp: py_lstrip_char_def)
qed

end
