(* ===== verification/Starter.thy ===== *)
theory Starter
  imports Orchestration
begin

text \<open>
  Handing a job to a durable execution: the port of \<open>application/workflows.py\<close> as a record of
  operations, and its Temporal implementation (\<open>workflow/starter.py\<close>). The Temporal service is a
  parameter; the locale \<open>temporal_service\<close> names what the code relies on: an identifier runs at
  most one execution at a time, and starting it again is refused.
\<close>

section \<open>The port\<close>

text \<open>The two errors the port documents, and any other exception, which its callers do not catch.\<close>

datatype WorkflowError = WorkflowUnavailable string | WorkflowNotRunning string | WorkflowRaised string

record WorkflowCheckpoint =
  wc_workflow_id :: string
  wc_workflow_run_id :: string

record 'w WorkflowStarter =
  ws_start :: "'w \<Rightarrow> ResearchJob \<Rightarrow> (WorkflowError + WorkflowCheckpoint) \<times> 'w"
  ws_submit_reviewer_decision :: "'w \<Rightarrow> ResearchJob \<Rightarrow> ReviewerDecision \<Rightarrow> (WorkflowError + unit) \<times> 'w"


section \<open>The Temporal implementation\<close>

definition workflow_id_for :: "uuid \<Rightarrow> string" where
  "workflow_id_for job_id = ''research-job-'' @ uuid_str job_id"

definition TASK_QUEUE :: string where
  "TASK_QUEUE = ''research-jobs''"

text \<open>
  The client of the service. Opening it can fail with an error the code catches (an RPC, runtime or
  operating-system error) or with another one; the status of an RPC error tells a missing execution
  from the rest.
\<close>

datatype ConnectError = Unreachable string | ConnectRaised string

datatype RPCError = RPCError bool string

datatype StartError = WorkflowAlreadyStartedError | StartRPCError RPCError

record 'v temporal_client =
  tc_connect :: "'v \<Rightarrow> (ConnectError + unit) \<times> 'v"
  tc_start_workflow :: "'v \<Rightarrow> ResearchJob \<Rightarrow> string \<Rightarrow> string \<Rightarrow> (StartError + string option) \<times> 'v"
  tc_describe :: "'v \<Rightarrow> string \<Rightarrow> RPCError + string option"
  tc_signal :: "'v \<Rightarrow> string \<Rightarrow> ReviewerDecision \<Rightarrow> (RPCError + unit) \<times> 'v"

text \<open>Whether the client is open, and the service.\<close>

record 'v TemporalWorkflowStarter =
  tw_connected :: bool
  tw_service :: 'v

definition TemporalWorkflowStarter_init :: "'v \<Rightarrow> 'v TemporalWorkflowStarter" where
  "TemporalWorkflowStarter_init v = \<lparr>tw_connected = False, tw_service = v\<rparr>"

definition TemporalWorkflowStarter_connected ::
  "'v temporal_client \<Rightarrow> 'v TemporalWorkflowStarter \<Rightarrow> (WorkflowError + unit) \<times> 'v TemporalWorkflowStarter" where
  "TemporalWorkflowStarter_connected tc w =
     (if tw_connected w then (Inr (), w)
      else (case tc_connect tc (tw_service w) of
          (Inr _, v) \<Rightarrow> (Inr (), \<lparr>tw_connected = True, tw_service = v\<rparr>)
        | (Inl (Unreachable e), v) \<Rightarrow>
            (Inl (WorkflowUnavailable (''the workflow service could not be reached: '' @ e)), w\<lparr>tw_service := v\<rparr>)
        | (Inl (ConnectRaised e), v) \<Rightarrow> (Inl (WorkflowRaised e), w\<lparr>tw_service := v\<rparr>)))"

definition run_id_or :: "string option \<Rightarrow> string" where
  "run_id_or run_id = (case run_id of None \<Rightarrow> [] | Some s \<Rightarrow> s)"

definition TemporalWorkflowStarter_start ::
  "'v temporal_client \<Rightarrow> 'v TemporalWorkflowStarter \<Rightarrow> ResearchJob \<Rightarrow> (WorkflowError + WorkflowCheckpoint) \<times> 'v TemporalWorkflowStarter" where
  "TemporalWorkflowStarter_start tc w job =
     (case TemporalWorkflowStarter_connected tc w of
        (Inl e, w1) \<Rightarrow> (Inl e, w1)
      | (Inr _, w1) \<Rightarrow>
          (let workflow_id = workflow_id_for (rj_id job) in
           case tc_start_workflow tc (tw_service w1) job workflow_id TASK_QUEUE of
             (Inr run_id, v) \<Rightarrow> (Inr \<lparr>wc_workflow_id = workflow_id, wc_workflow_run_id = run_id_or run_id\<rparr>, w1\<lparr>tw_service := v\<rparr>)
           | (Inl (StartRPCError (RPCError _ e)), v) \<Rightarrow>
               (Inl (WorkflowUnavailable (''the workflow could not be started: '' @ e)), w1\<lparr>tw_service := v\<rparr>)
           | (Inl WorkflowAlreadyStartedError, v) \<Rightarrow>
               (case tc_describe tc v workflow_id of
                  Inl (RPCError _ e) \<Rightarrow> (Inl (WorkflowRaised e), w1\<lparr>tw_service := v\<rparr>)
                | Inr run_id \<Rightarrow> (Inr \<lparr>wc_workflow_id = workflow_id, wc_workflow_run_id = run_id_or run_id\<rparr>, w1\<lparr>tw_service := v\<rparr>))))"

definition signalled_workflow :: "ResearchJob \<Rightarrow> string" where
  "signalled_workflow job =
     (case rj_workflow_id job of
        None \<Rightarrow> workflow_id_for (rj_id job)
      | Some wid \<Rightarrow> if wid = [] then workflow_id_for (rj_id job) else wid)"

definition TemporalWorkflowStarter_submit_reviewer_decision ::
  "'v temporal_client \<Rightarrow> 'v TemporalWorkflowStarter \<Rightarrow> ResearchJob \<Rightarrow> ReviewerDecision \<Rightarrow> (WorkflowError + unit) \<times> 'v TemporalWorkflowStarter" where
  "TemporalWorkflowStarter_submit_reviewer_decision tc w job decision =
     (case TemporalWorkflowStarter_connected tc w of
        (Inl e, w1) \<Rightarrow> (Inl e, w1)
      | (Inr _, w1) \<Rightarrow>
          (case tc_signal tc (tw_service w1) (signalled_workflow job) decision of
             (Inr _, v) \<Rightarrow> (Inr (), w1\<lparr>tw_service := v\<rparr>)
           | (Inl (RPCError not_found e), v) \<Rightarrow>
               (Inl (if not_found then WorkflowNotRunning (''job '' @ uuid_str (rj_id job) @ '' has no running workflow to review'')
                     else WorkflowUnavailable (''the reviewer decision could not be delivered: '' @ e)), w1\<lparr>tw_service := v\<rparr>)))"

definition TemporalWorkflowStarter_ops :: "'v temporal_client \<Rightarrow> 'v TemporalWorkflowStarter WorkflowStarter" where
  "TemporalWorkflowStarter_ops tc =
     \<lparr>ws_start = TemporalWorkflowStarter_start tc,
      ws_submit_reviewer_decision = TemporalWorkflowStarter_submit_reviewer_decision tc\<rparr>"


section \<open>A job runs once\<close>

datatype starter_request = StartJob ResearchJob | SubmitDecision ResearchJob ReviewerDecision

text \<open>The checkpoints of the accepted starts, and the starter after all requests.\<close>

fun starter_requests ::
  "'v temporal_client \<Rightarrow> 'v TemporalWorkflowStarter \<Rightarrow> starter_request list \<Rightarrow>
   (ResearchJob \<times> WorkflowCheckpoint) list \<times> 'v TemporalWorkflowStarter" where
  "starter_requests tc w [] = ([], w)"
| "starter_requests tc w (StartJob job # reqs) =
     (case TemporalWorkflowStarter_start tc w job of
        (res, w1) \<Rightarrow> (case starter_requests tc w1 reqs of
           (answers, w2) \<Rightarrow> (case res of Inl _ \<Rightarrow> answers | Inr c \<Rightarrow> (job, c) # answers, w2)))"
| "starter_requests tc w (SubmitDecision job d # reqs) =
     (case TemporalWorkflowStarter_submit_reviewer_decision tc w job d of (res, w1) \<Rightarrow> starter_requests tc w1 reqs)"

text \<open>
  What the service promises: \<open>running v\<close> gives the run of each identifier with a running execution,
  and \<open>starts v\<close> the identifiers under which an execution was ever started, in order.
\<close>

locale temporal_service =
  fixes tc :: "'v temporal_client" and running :: "'v \<Rightarrow> string \<Rightarrow> string option" and starts :: "'v \<Rightarrow> string list"
  assumes connect_keeps: "tc_connect tc v = (c, v') \<Longrightarrow> running v' = running v \<and> starts v' = starts v"
    and start_runs: "tc_start_workflow tc v job wid queue = (Inr run_id, v') \<Longrightarrow>
      running v wid = None \<and> (\<exists>x. run_id = Some x \<and> running v' = (running v)(wid \<mapsto> x)) \<and> starts v' = starts v @ [wid]"
    and start_refused: "tc_start_workflow tc v job wid queue = (Inl e, v') \<Longrightarrow> running v' = running v \<and> starts v' = starts v"
    and start_free: "tc_start_workflow tc v job wid queue = (Inl WorkflowAlreadyStartedError, v') \<Longrightarrow> running v wid \<noteq> None"
    and describe_running: "running v wid \<noteq> None \<Longrightarrow> tc_describe tc v wid = Inr x \<Longrightarrow> x = running v wid"
    and signal_keeps: "tc_signal tc v wid d = (s, v') \<Longrightarrow> running v' = running v \<and> starts v' = starts v"
begin

lemma connected_keeps:
  assumes "TemporalWorkflowStarter_connected tc w = (c, w')"
  shows "running (tw_service w') = running (tw_service w) \<and> starts (tw_service w') = starts (tw_service w)"
  using assms connect_keeps
  by (auto simp: TemporalWorkflowStarter_connected_def split: if_splits prod.splits sum.splits ConnectError.splits)

text \<open>What starting a job does: the identifier's one execution, new or already running, owns it.\<close>

lemma start_result:
  assumes "TemporalWorkflowStarter_start tc w job = (res, w')"
  shows "(\<forall>c. res = Inr c \<longrightarrow> wc_workflow_id c = workflow_id_for (rj_id job) \<and>
        running (tw_service w') (workflow_id_for (rj_id job)) = Some (wc_workflow_run_id c)) \<and>
    (\<forall>wid. wid \<noteq> workflow_id_for (rj_id job) \<longrightarrow> running (tw_service w') wid = running (tw_service w) wid) \<and>
    (starts (tw_service w') = starts (tw_service w) \<and> running (tw_service w') = running (tw_service w) \<or>
     starts (tw_service w') = starts (tw_service w) @ [workflow_id_for (rj_id job)] \<and>
       running (tw_service w) (workflow_id_for (rj_id job)) = None \<and> (\<exists>c. res = Inr c))"
proof -
  let ?wid = "workflow_id_for (rj_id job)"
  obtain c w1 where conn: "TemporalWorkflowStarter_connected tc w = (c, w1)" by fastforce
  note keeps = connected_keeps [OF conn]
  obtain s v where start: "tc_start_workflow tc (tw_service w1) job ?wid TASK_QUEUE = (s, v)" by fastforce
  show ?thesis
  proof (cases c)
    case (Inl e)
    with assms conn keeps show ?thesis by (auto simp: TemporalWorkflowStarter_start_def)
  next
    case (Inr u)
    show ?thesis
    proof (cases s)
      case (Inr run_id)
      from start_runs [OF start [unfolded this]] assms conn \<open>c = Inr u\<close> start this keeps show ?thesis
        by (auto simp: TemporalWorkflowStarter_start_def run_id_or_def Let_def)
    next
      case (Inl e)
      note refused = start_refused [OF start [unfolded Inl]]
      show ?thesis
      proof (cases e)
        case WorkflowAlreadyStartedError
        have "running v ?wid \<noteq> None" using start_free [of "tw_service w1" job ?wid TASK_QUEUE v] start Inl WorkflowAlreadyStartedError refused by auto
        with describe_running [of v ?wid] assms conn \<open>c = Inr u\<close> start Inl WorkflowAlreadyStartedError keeps refused show ?thesis
          by (auto simp: TemporalWorkflowStarter_start_def run_id_or_def Let_def split: sum.splits RPCError.splits)
      next
        case (StartRPCError f)
        then show ?thesis using assms conn \<open>c = Inr u\<close> start Inl keeps refused
          by (cases f) (auto simp: TemporalWorkflowStarter_start_def Let_def)
      qed
    qed
  qed
qed

lemma submit_result:
  assumes "TemporalWorkflowStarter_submit_reviewer_decision tc w job d = (res, w')"
  shows "running (tw_service w') = running (tw_service w) \<and> starts (tw_service w') = starts (tw_service w)"
proof -
  obtain c w1 where conn: "TemporalWorkflowStarter_connected tc w = (c, w1)" by fastforce
  obtain s v where signal: "tc_signal tc (tw_service w1) (signalled_workflow job) d = (s, v)" by fastforce
  show ?thesis using assms conn connected_keeps [OF conn] signal signal_keeps [OF signal]
    by (cases c; cases s) (auto simp: TemporalWorkflowStarter_submit_reviewer_decision_def split: RPCError.splits)
qed

text \<open>Requests for several jobs, one after another: starts and reviewer decisions.\<close>

lemma requests_result:
  "starter_requests tc w reqs = (answers, w') \<Longrightarrow>
   (\<forall>wid x. running (tw_service w) wid = Some x \<longrightarrow> running (tw_service w') wid = Some x) \<and>
   (\<forall>(job, c) \<in> set answers. wc_workflow_id c = workflow_id_for (rj_id job) \<and>
      running (tw_service w') (workflow_id_for (rj_id job)) = Some (wc_workflow_run_id c)) \<and>
   (distinct (starts (tw_service w)) \<and> set (starts (tw_service w)) \<subseteq> dom (running (tw_service w)) \<longrightarrow>
      distinct (starts (tw_service w')) \<and> set (starts (tw_service w')) \<subseteq> dom (running (tw_service w')))"
proof (induction reqs arbitrary: w answers)
  case (Cons req reqs)
  show ?case
  proof (cases req)
    case (StartJob job)
    obtain res w1 where start: "TemporalWorkflowStarter_start tc w job = (res, w1)" by fastforce
    obtain as w2 where rest: "starter_requests tc w1 reqs = (as, w2)" by fastforce
    have eq: "w2 = w'" "answers = (case res of Inl e \<Rightarrow> as | Inr c \<Rightarrow> (job, c) # as)"
      using Cons.prems StartJob start rest by (auto split: sum.splits)
    note IH = Cons.IH [OF rest [unfolded eq(1)]]
    note r = start_result [OF start]
    have kept: "running (tw_service w1) wid = Some x" if "running (tw_service w) wid = Some x" for wid x
      using r that by (cases "wid = workflow_id_for (rj_id job)") auto
    have inv: "distinct (starts (tw_service w1)) \<and> set (starts (tw_service w1)) \<subseteq> dom (running (tw_service w1))"
      if "distinct (starts (tw_service w)) \<and> set (starts (tw_service w)) \<subseteq> dom (running (tw_service w))"
    proof -
      have "dom (running (tw_service w)) \<subseteq> dom (running (tw_service w1))" using kept by blast
      then show ?thesis using r that by (auto simp: subset_iff domIff)
    qed
    have "\<forall>(job, c) \<in> set answers. wc_workflow_id c = workflow_id_for (rj_id job) \<and>
        running (tw_service w') (workflow_id_for (rj_id job)) = Some (wc_workflow_run_id c)"
      using IH r eq(2) by (cases res) auto
    with IH kept inv show ?thesis by blast
  next
    case (SubmitDecision job d)
    obtain res w1 where submit: "TemporalWorkflowStarter_submit_reviewer_decision tc w job d = (res, w1)" by fastforce
    with Cons.IH [of w1 answers] Cons.prems SubmitDecision submit_result [OF submit] show ?thesis by simp
  qed
qed simp

end


text \<open>
  The Temporal service as the starter sees it: the run of each running identifier, the executions
  started, the signals delivered, and whether the service answers at all.
\<close>

record TemporalServer =
  tp_up :: bool
  tp_running :: "(string, string) dict"
  tp_starts :: "string list"
  tp_signals :: "(string \<times> ReviewerDecision) list"

definition TemporalServer_client :: "TemporalServer temporal_client" where
  "TemporalServer_client =
     \<lparr>tc_connect = (\<lambda>v. (if tp_up v then Inr () else Inl (Unreachable ''connection refused''), v)),
      tc_start_workflow = (\<lambda>v job wid queue.
        if \<not> tp_up v then (Inl (StartRPCError (RPCError False ''unavailable'')), v)
        else if dict_get (tp_running v) wid \<noteq> None then (Inl WorkflowAlreadyStartedError, v)
        else (let run_id = ''run-'' @ py_str_nat (length (tp_starts v)) in
          (Inr (Some run_id), v\<lparr>tp_running := dict_set wid run_id (tp_running v), tp_starts := tp_starts v @ [wid]\<rparr>))),
      tc_describe = (\<lambda>v wid. if \<not> tp_up v then Inl (RPCError False ''unavailable'')
        else (case dict_get (tp_running v) wid of None \<Rightarrow> Inl (RPCError True ''not found'') | Some x \<Rightarrow> Inr (Some x))),
      tc_signal = (\<lambda>v wid d. if \<not> tp_up v then (Inl (RPCError False ''unavailable''), v)
        else if dict_get (tp_running v) wid = None then (Inl (RPCError True ''not found''), v)
        else (Inr (), v\<lparr>tp_signals := tp_signals v @ [(wid, d)]\<rparr>))\<rparr>"

interpretation temporal: temporal_service TemporalServer_client "\<lambda>v. dict_get (tp_running v)" tp_starts
  by unfold_locales (auto simp: TemporalServer_client_def Let_def fun_eq_iff split: if_splits option.splits)

text \<open>
  However often and in whatever order jobs are started and reviewed, no job is given a second execution
  while one of its is running: every accepted start of one job reports the same execution, the one that
  is running under the identifier derived from the job, and executions of different jobs are different.
\<close>

theorem job_runs_under_one_execution:
  assumes "starter_requests TemporalServer_client w reqs = (answers, w')"
    and "distinct (tp_starts (tw_service w))" "\<forall>wid \<in> set (tp_starts (tw_service w)). dict_get (tp_running (tw_service w)) wid \<noteq> None"
  shows "distinct (tp_starts (tw_service w')) \<and>
    (\<forall>(job, c) \<in> set answers. wc_workflow_id c = ''research-job-'' @ uuid_str (rj_id job) \<and>
       dict_get (tp_running (tw_service w')) (wc_workflow_id c) = Some (wc_workflow_run_id c)) \<and>
    (\<forall>(job, c) \<in> set answers. \<forall>(job', c') \<in> set answers. (wc_workflow_id c = wc_workflow_id c') = (rj_id job = rj_id job') \<and>
       (rj_id job = rj_id job' \<longrightarrow> c = c'))"
proof -
  note r = temporal.requests_result [OF assms(1)]
  have started: "wc_workflow_id c = ''research-job-'' @ uuid_str (rj_id job) \<and>
      dict_get (tp_running (tw_service w')) (wc_workflow_id c) = Some (wc_workflow_run_id c)" if "(job, c) \<in> set answers" for job c
    using r that by (auto simp: workflow_id_for_def)
  have "distinct (tp_starts (tw_service w'))" using r assms(2,3) by (auto simp: subset_iff domIff)
  moreover have "(wc_workflow_id c = wc_workflow_id c') = (rj_id job = rj_id job') \<and> (rj_id job = rj_id job' \<longrightarrow> c = c')"
    if "(job, c) \<in> set answers" "(job', c') \<in> set answers" for job c job' c'
  proof -
    have "(wc_workflow_id c = wc_workflow_id c') = (rj_id job = rj_id job')" using started that uuid_str_inject by auto
    moreover have "c = c'" if "wc_workflow_id c = wc_workflow_id c'"
      using started \<open>(job, c) \<in> set answers\<close> \<open>(job', c') \<in> set answers\<close> that by (metis WorkflowCheckpoint.equality option.inject unit_eq)
    ultimately show ?thesis by blast
  qed
  ultimately show ?thesis using started by blast
qed

definition sample_temporal :: "TemporalServer TemporalWorkflowStarter" where
  "sample_temporal = TemporalWorkflowStarter_init \<lparr>tp_up = True, tp_running = [], tp_starts = [], tp_signals = []\<rparr>"

theorem job_runs_under_one_execution_witness:
  "\<exists>answers w'. starter_requests TemporalServer_client sample_temporal
      (map (\<lambda>k. StartJob (new_job k 0 ''acme'' ''u'' sample_command AC_PUBLIC)) [1, 2, 1]) = (answers, w') \<and>
     length answers = 3 \<and> length (tp_starts (tw_service w')) = 2 \<and> distinct (tp_starts (tw_service w'))"
proof -
  let ?reqs = "map (\<lambda>k. StartJob (new_job k 0 ''acme'' ''u'' sample_command AC_PUBLIC)) [1, 2, 1]"
  obtain answers w' where run: "starter_requests TemporalServer_client sample_temporal ?reqs = (answers, w')" by fastforce
  then have "length answers = 3 \<and> length (tp_starts (tw_service w')) = 2"
    by (auto simp: sample_temporal_def TemporalWorkflowStarter_init_def TemporalWorkflowStarter_start_def
        TemporalWorkflowStarter_connected_def TemporalServer_client_def workflow_id_for_def Let_def)
  with job_runs_under_one_execution [OF run] run show ?thesis
    by (auto simp: sample_temporal_def TemporalWorkflowStarter_init_def)
qed

end
