(* ===== verification/Api.thy ===== *)
theory Api
  imports Auth Publishing Starter
begin

text \<open>
  The HTTP interface (\<open>api/routes.py\<close>): one definition per handler, over the job service, the
  registry, the workflow starter and the artifact store the router was created with. A handler returns
  its answer or the \<open>HTTPException\<close> it raises; \<open>Unhandled\<close> is an exception no handler catches, which
  the framework answers with a 500. Requests reach a handler with a parsed body and an identity
  (\<open>Auth\<close>).
\<close>

section \<open>Handlers\<close>

definition REVIEWERS :: "Role set" where
  "REVIEWERS = {R_REVIEWER, R_ADMINISTRATOR}"

definition WITHHELD :: string where
  "WITHHELD = ''X-Withheld-Count''"

datatype ReportFormat = RF_JSON | RF_MARKDOWN

record ('r, 'w, 'a) router =
  ro_repository :: "'r JobRepository"
  ro_registry :: CapabilityRegistry
  ro_workflows :: "'w WorkflowStarter option"
  ro_artifacts :: "'a ArtifactStore option"

text \<open>An answer with the headers the handler sets.\<close>

record 'b reply =
  rp_body :: 'b
  rp_headers :: "(string \<times> string) list"

definition job_not_found :: "JobError \<Rightarrow> HTTPException" where
  "job_not_found e = (case e of JobNotFound _ \<Rightarrow> HTTPException 404 ''research job not found'' | _ \<Rightarrow> Unhandled ''ValueError'')"

definition job_answer :: "JobError + 'b \<Rightarrow> HTTPException + 'b" where
  "job_answer res = (case res of Inl e \<Rightarrow> Inl (job_not_found e) | Inr x \<Rightarrow> Inr x)"

definition published :: "('r, 'w, 'a) router \<Rightarrow> 'r \<Rightarrow> RequestIdentity \<Rightarrow> uuid \<Rightarrow> HTTPException + ReportPublication" where
  "published ro r identity job_id =
     (case jr_get_publication (ro_repository ro) r (ri_tenant_id identity) job_id of
        Inl e \<Rightarrow> Inl (job_not_found e)
      | Inr None \<Rightarrow> Inl (HTTPException 404 ''this research job has not published a report'')
      | Inr (Some p) \<Rightarrow> Inr p)"

definition require_clearance :: "RequestIdentity \<Rightarrow> AccessClass \<Rightarrow> string \<Rightarrow> HTTPException + unit" where
  "require_clearance identity needed what =
     (if \<not> clearance_covers (ri_clearance identity) needed
      then Inl (HTTPException 403 (what @ '' draws on '' @ AccessClass_value needed @ '' sources, which your '' @
             AccessClass_value (ri_clearance identity) @ '' clearance does not cover''))
      else Inr ())"

definition stored :: "('r, 'w, 'a) router \<Rightarrow> 'a \<Rightarrow> RequestIdentity \<Rightarrow> string \<Rightarrow> HTTPException + byte list" where
  "stored ro a identity name =
     (case ro_artifacts ro of
        None \<Rightarrow> Inl (HTTPException 503 ''no artifact store is configured'')
      | Some artifacts \<Rightarrow>
          (case as_get artifacts a (ri_tenant_id identity) name of
             Inl (ArtifactNotFound _) \<Rightarrow> Inl (HTTPException 404 ''the published artifact is no longer stored'')
           | Inl _ \<Rightarrow> Inl (Unhandled ''artifact store'')
           | Inr data \<Rightarrow> Inr data))"

definition discover_capabilities :: "('r, 'w, 'a) router \<Rightarrow> RequestIdentity \<Rightarrow> AgentRole option \<Rightarrow> Capability list" where
  "discover_capabilities ro identity acting_agent =
     (let principal = RequestIdentity_principal identity in
      CapabilityRegistry_discover (ro_registry ro)
        (case acting_agent of None \<Rightarrow> principal | Some role \<Rightarrow> Principal_for_agent principal role))"

text \<open>
  \<open>create_job\<close>: \<open>new_id\<close> is the identifier drawn for the job, \<open>now\<close> and \<open>later\<close> are the clock
  when the job is stored and when its status or its checkpoint is.
\<close>

definition create_job ::
  "('r, 'w, 'a) router \<Rightarrow> uuid \<Rightarrow> datetime \<Rightarrow> datetime \<Rightarrow> 'r \<Rightarrow> 'w \<Rightarrow> ResearchJobCreate \<Rightarrow> RequestIdentity \<Rightarrow>
   (HTTPException + ResearchJob) \<times> 'r \<times> 'w" where
  "create_job ro new_id now later r w command identity =
     (case ResearchJobService_create (ro_repository ro) new_id now r (ri_tenant_id identity) (ri_requester_id identity)
             command (ri_clearance identity) of
        Inl _ \<Rightarrow> (Inl (Unhandled ''ValidationError''), r, w)
      | Inr (job, r1) \<Rightarrow>
          (case ro_workflows ro of
             None \<Rightarrow> (Inr job, r1, w)
           | Some workflows \<Rightarrow>
               (case ws_start workflows w job of
                  (Inl (WorkflowUnavailable e), w1) \<Rightarrow>
                    (case ResearchJobService_transition (ro_repository ro) later r1 (rj_tenant_id job) (rj_id job) JS_FAILED None None of
                       Inl _ \<Rightarrow> (Inl (Unhandled ''transition''), r1, w1)
                     | Inr (_, r2) \<Rightarrow>
                         (Inl (HTTPException 503 (''research job '' @ uuid_str (rj_id job) @ '' was recorded but could not be started: '' @ e)), r2, w1))
                | (Inl _, w1) \<Rightarrow> (Inl (Unhandled ''workflow''), r1, w1)
                | (Inr checkpoint, w1) \<Rightarrow>
                    (case ResearchJobService_record_checkpoint (ro_repository ro) later r1 (rj_tenant_id job) (rj_id job)
                            (wc_workflow_id checkpoint) (wc_workflow_run_id checkpoint) of
                       Inl _ \<Rightarrow> (Inl (Unhandled ''checkpoint''), r1, w1)
                     | Inr (job', r2) \<Rightarrow> (Inr job', r2, w1)))))"

definition review_job ::
  "('r, 'w, 'a) router \<Rightarrow> 'r \<Rightarrow> 'w \<Rightarrow> uuid \<Rightarrow> ReviewerDecision \<Rightarrow> RequestIdentity \<Rightarrow> (HTTPException + ResearchJob) \<times> 'w" where
  "review_job ro r w job_id decision identity =
     (if ri_roles identity \<inter> REVIEWERS = {} then (Inl (HTTPException 403 ''only a reviewer may decide a review''), w)
      else (case jr_get (ro_repository ro) r (ri_tenant_id identity) job_id of
          Inl e \<Rightarrow> (Inl (job_not_found e), w)
        | Inr job \<Rightarrow>
            if rj_requester_id job = ri_requester_id identity \<and> R_ADMINISTRATOR \<notin> ri_roles identity
            then (Inl (HTTPException 403 ''a requester cannot review their own research job''), w)
            else if rj_status job \<noteq> JS_REVIEW_REQUIRED
            then (Inl (HTTPException 409 (''research job is '' @ JobStatus_value (rj_status job) @ '', not awaiting review'')), w)
            else (case ro_workflows ro of
                None \<Rightarrow> (Inl (HTTPException 503 ''workflows are not enabled''), w)
              | Some workflows \<Rightarrow>
                  (case ws_submit_reviewer_decision workflows w job decision of
                     (Inl (WorkflowNotRunning e), w1) \<Rightarrow> (Inl (HTTPException 409 e), w1)
                   | (Inl (WorkflowUnavailable e), w1) \<Rightarrow> (Inl (HTTPException 503 e), w1)
                   | (Inl (WorkflowRaised e), w1) \<Rightarrow> (Inl (Unhandled e), w1)
                   | (Inr _, w1) \<Rightarrow> (Inr job, w1)))))"

definition list_jobs :: "('r, 'w, 'a) router \<Rightarrow> 'r \<Rightarrow> RequestIdentity \<Rightarrow> ResearchJob list" where
  "list_jobs ro r identity = jr_list (ro_repository ro) r (ri_tenant_id identity)"

definition get_job :: "('r, 'w, 'a) router \<Rightarrow> 'r \<Rightarrow> uuid \<Rightarrow> RequestIdentity \<Rightarrow> HTTPException + ResearchJob" where
  "get_job ro r job_id identity = job_answer (jr_get (ro_repository ro) r (ri_tenant_id identity) job_id)"

text \<open>\<open>transition_job\<close> also answers a \<open>ValueError\<close>, which a refused transition is, with a 409.\<close>

definition transition_refusal :: "JobError \<Rightarrow> HTTPException" where
  "transition_refusal e = (case e of
     JobNotFound _ \<Rightarrow> HTTPException 404 ''research job not found''
   | TransitionRefused (InvalidStateTransition a b) \<Rightarrow>
       HTTPException 409 (''cannot transition research job from '' @ JobStatus_value a @ '' to '' @ JobStatus_value b)
   | ValidationError \<Rightarrow> HTTPException 409 ''validation error'')"

definition transition_job ::
  "('r, 'w, 'a) router \<Rightarrow> datetime \<Rightarrow> 'r \<Rightarrow> uuid \<Rightarrow> JobStatus \<Rightarrow> RequestIdentity \<Rightarrow> (HTTPException + ResearchJob) \<times> 'r" where
  "transition_job ro now r job_id target identity =
     (case jr_get (ro_repository ro) r (ri_tenant_id identity) job_id of
        Inl e \<Rightarrow> (Inl (transition_refusal e), r)
      | Inr job \<Rightarrow>
          if rj_workflow_id job \<noteq> None
          then (Inl (HTTPException 409 ''this research job is run by a workflow and cannot be moved by hand''), r)
          else (case ResearchJobService_transition (ro_repository ro) now r (ri_tenant_id identity) job_id target None None of
              Inl e \<Rightarrow> (Inl (transition_refusal e), r)
            | Inr (job', r') \<Rightarrow> (Inr job', r')))"

definition add_evidence ::
  "(unicode \<Rightarrow> unicode) \<Rightarrow> ('r, 'w, 'a) router \<Rightarrow> uuid \<Rightarrow> datetime \<Rightarrow> 'r \<Rightarrow> uuid \<Rightarrow> EvidenceRecordCreate \<Rightarrow> RequestIdentity \<Rightarrow>
   (HTTPException + EvidenceRecord) \<times> 'r" where
  "add_evidence nfc ro new_id now r job_id command identity =
     (if ev_content_hash command \<noteq> hash_content nfc (ev_excerpt command)
      then (Inl (HTTPException 422 ''content_hash is not the hash of the excerpt''), r)
      else (case require_clearance identity (ev_access_class command) ''this evidence'' of
          Inl e \<Rightarrow> (Inl e, r)
        | Inr _ \<Rightarrow>
            (case ResearchJobService_add_evidence (ro_repository ro) new_id now r (ri_tenant_id identity) job_id
                    (command\<lparr>ev_trust_level := TL_UNVERIFIED\<rparr>) of
               Inl e \<Rightarrow> (Inl (job_not_found e), r)
             | Inr (e, r') \<Rightarrow> (Inr e, r'))))"

text \<open>The records a clearance covers, and how many were held back.\<close>

definition withholding :: "('b \<Rightarrow> bool) \<Rightarrow> 'b list \<Rightarrow> 'b list reply" where
  "withholding readable records =
     \<lparr>rp_body = filter readable records,
      rp_headers = [(WITHHELD, py_str_nat (length records - length (filter readable records)))]\<rparr>"

definition list_evidence ::
  "('r, 'w, 'a) router \<Rightarrow> 'r \<Rightarrow> uuid \<Rightarrow> RequestIdentity \<Rightarrow> HTTPException + EvidenceRecord list reply" where
  "list_evidence ro r job_id identity =
     bind_result (job_answer (jr_list_evidence (ro_repository ro) r (ri_tenant_id identity) job_id)) (\<lambda>evidence.
       Inr (withholding (\<lambda>e. clearance_covers (ri_clearance identity) (ev_access_class e)) evidence))"

definition hidden_evidence :: "RequestIdentity \<Rightarrow> EvidenceRecord list \<Rightarrow> uuid set" where
  "hidden_evidence identity evidence =
     ev_id ` set (filter (\<lambda>e. \<not> clearance_covers (ri_clearance identity) (ev_access_class e)) evidence)"

definition list_findings ::
  "('r, 'w, 'a) router \<Rightarrow> 'r \<Rightarrow> uuid \<Rightarrow> RequestIdentity \<Rightarrow> HTTPException + FindingRecord list reply" where
  "list_findings ro r job_id identity =
     bind_result (job_answer (jr_list_findings (ro_repository ro) r (ri_tenant_id identity) job_id)) (\<lambda>findings.
       bind_result (job_answer (jr_list_evidence (ro_repository ro) r (ri_tenant_id identity) job_id)) (\<lambda>evidence.
         Inr (withholding (\<lambda>f. hidden_evidence identity evidence \<inter>
                (set (fi_supporting_evidence_ids f) \<union> set (fi_contradicting_evidence_ids f)) = {}) findings)))"

definition get_report ::
  "('r, 'w, 'a) router \<Rightarrow> 'r \<Rightarrow> 'a \<Rightarrow> uuid \<Rightarrow> RequestIdentity \<Rightarrow> ReportFormat \<Rightarrow> HTTPException + byte list reply" where
  "get_report ro r a job_id identity format =
     bind_result (published ro r identity job_id) (\<lambda>p.
       bind_result (require_clearance identity (pu_report_access_class p) ''this report'') (\<lambda>_.
         bind_result (stored ro a identity (if format = RF_MARKDOWN then pu_markdown_key p else pu_report_key p)) (\<lambda>data.
           Inr \<lparr>rp_body = data,
                rp_headers = [(''X-Report-SHA256'', pu_report_sha256 p),
                  (''X-Report-Partial'', if pu_is_partial p then ''true'' else ''false''),
                  (''content-type'', if format = RF_MARKDOWN then ''text/markdown; charset=utf-8'' else ''application/json'')]\<rparr>)))"

definition get_manifest ::
  "('r, 'w, 'a) router \<Rightarrow> 'r \<Rightarrow> 'a \<Rightarrow> uuid \<Rightarrow> RequestIdentity \<Rightarrow> HTTPException + byte list reply" where
  "get_manifest ro r a job_id identity =
     bind_result (published ro r identity job_id) (\<lambda>p.
       bind_result (require_clearance identity (pu_manifest_access_class p) ''this manifest'') (\<lambda>_.
         bind_result (stored ro a identity (pu_manifest_key p)) (\<lambda>data.
           Inr \<lparr>rp_body = data, rp_headers = [(''content-type'', ''application/json'')]\<rparr>)))"

definition classification_of :: "('r, 'w, 'a) router \<Rightarrow> ToolInvocation \<Rightarrow> AccessClass" where
  "classification_of ro call =
     (case CapabilityRegistry_get (ro_registry ro) (ti_mcp_server call) (ti_capability call) of
        Inl _ \<Rightarrow> AC_RESTRICTED
      | Inr c \<Rightarrow> cap_max_access_class c)"

definition list_invocations ::
  "('r, 'w, 'a) router \<Rightarrow> 'r \<Rightarrow> uuid \<Rightarrow> RequestIdentity \<Rightarrow> HTTPException + ToolInvocation list reply" where
  "list_invocations ro r job_id identity =
     bind_result (job_answer (ResearchJobService_list_invocations (ro_repository ro) r (ri_tenant_id identity) job_id)) (\<lambda>trail.
       Inr (withholding (\<lambda>call. clearance_covers (ri_clearance identity) (classification_of ro call)) trail))"


section \<open>What requests do to the record\<close>

text \<open>The requests that can change something, and the record and the workflows after one of them.\<close>

datatype api_request =
    ApiCreate uuid datetime datetime ResearchJobCreate RequestIdentity
  | ApiReview uuid ReviewerDecision RequestIdentity
  | ApiTransition datetime uuid JobStatus RequestIdentity
  | ApiAddEvidence uuid datetime uuid EvidenceRecordCreate RequestIdentity

fun req_identity :: "api_request \<Rightarrow> RequestIdentity" where
  "req_identity (ApiCreate i now later c u) = u"
| "req_identity (ApiReview j d u) = u"
| "req_identity (ApiTransition now j s u) = u"
| "req_identity (ApiAddEvidence i now j c u) = u"

fun api_step :: "(unicode \<Rightarrow> unicode) \<Rightarrow> ('r, 'w, 'a) router \<Rightarrow> 'r \<times> 'w \<Rightarrow> api_request \<Rightarrow> 'r \<times> 'w" where
  "api_step nfc ro (r, w) (ApiCreate i now later c u) = snd (create_job ro i now later r w c u)"
| "api_step nfc ro (r, w) (ApiReview j d u) = (r, snd (review_job ro r w j d u))"
| "api_step nfc ro (r, w) (ApiTransition now j s u) = (snd (transition_job ro now r j s u), w)"
| "api_step nfc ro (r, w) (ApiAddEvidence i now j c u) = (snd (add_evidence nfc ro i now r j c u), w)"

definition api_run :: "(unicode \<Rightarrow> unicode) \<Rightarrow> ('r, 'w, 'a) router \<Rightarrow> 'r \<times> 'w \<Rightarrow> api_request list \<Rightarrow> 'r \<times> 'w" where
  "api_run nfc ro s reqs = foldl (api_step nfc ro) s reqs"

lemma api_run_simps [simp]:
  "api_run nfc ro s [] = s" "api_run nfc ro s (q # qs) = api_run nfc ro (api_step nfc ro s q) qs"
  by (simp_all add: api_run_def)

text \<open>The job whose stored record a call of the service can write.\<close>

fun job_written :: "service_op \<Rightarrow> job_key option" where
  "job_written (OpCreate i now t u c a) = Some (t, i)"
| "job_written (OpTransition now t j s d u) = Some (t, j)"
| "job_written (OpCheckpoint now t j w x) = Some (t, j)"
| "job_written _ = None"

text \<open>
  A request changes the record only by calls of the service for the caller's own tenant, and writes a
  job only when it creates it or when no workflow runs it.
\<close>

lemma create_job_ops:
  "\<exists>ops. fst (snd (create_job ro i now later r w c u)) = service_run (ro_repository ro) r ops \<and>
     (\<forall>op \<in> set ops. op_tenant op = ri_tenant_id u \<and> job_written op = Some (ri_tenant_id u, i))"
proof (cases "ResearchJobService_create (ro_repository ro) i now r (ri_tenant_id u) (ri_requester_id u) c (ri_clearance u)")
  case (Inl e)
  then show ?thesis by (intro exI [of _ "[]"]) (simp add: create_job_def)
next
  case (Inr res)
  obtain job r1 where res: "res = (job, r1)" by fastforce
  let ?create = "OpCreate i now (ri_tenant_id u) (ri_requester_id u) c (ri_clearance u)"
  have job: "rj_tenant_id job = ri_tenant_id u" "rj_id job = i" using Inr res by (auto simp: ResearchJobService_create_def Let_def split: if_splits)
  have step: "service_step (ro_repository ro) r ?create = r1" using Inr res by (simp add: after_def)
  obtain answer w1 where start: "(case ro_workflows ro of None \<Rightarrow> (Inl (WorkflowRaised []), w) | Some ws \<Rightarrow> ws_start ws w job) = (answer, w1)"
    by fastforce
  consider (none) "ro_workflows ro = None" | (unavailable) ws e where "ro_workflows ro = Some ws" "answer = Inl (WorkflowUnavailable e)"
    | (raised) ws e where "ro_workflows ro = Some ws" "answer = Inl e" "\<nexists>m. e = WorkflowUnavailable m"
    | (started) ws cp where "ro_workflows ro = Some ws" "answer = Inr cp"
    by (cases "ro_workflows ro"; cases answer) (blast+)
  then show ?thesis
  proof cases
    case none
    with Inr res step show ?thesis by (intro exI [of _ "[?create]"]) (simp add: create_job_def)
  next
    case unavailable
    with Inr res step start job show ?thesis
      by (intro exI [of _ "[?create, OpTransition later (ri_tenant_id u) (rj_id job) JS_FAILED None None]"])
        (auto simp: create_job_def after_def split: sum.splits)
  next
    case raised
    with Inr res step start show ?thesis
      by (intro exI [of _ "[?create]"]) (auto simp: create_job_def split: WorkflowError.splits)
  next
    case started
    with Inr res step start job show ?thesis
      by (intro exI [of _ "[?create, OpCheckpoint later (ri_tenant_id u) (rj_id job) (wc_workflow_id cp) (wc_workflow_run_id cp)]"])
        (auto simp: create_job_def after_def split: sum.splits)
  qed
qed

lemma api_step_ops:
  "\<exists>ops. fst (api_step nfc ro s q) = service_run (ro_repository ro) (fst s) ops \<and>
     (\<forall>op \<in> set ops. op_tenant op = ri_tenant_id (req_identity q) \<and>
        (\<forall>t j. job_written op = Some (t, j) \<longrightarrow> t = ri_tenant_id (req_identity q) \<and>
           ((\<exists>now later c. q = ApiCreate j now later c (req_identity q)) \<or>
            (\<exists>job. jr_get (ro_repository ro) (fst s) t j = Inr job \<and> rj_workflow_id job = None))))"
proof (cases s; cases q)
  fix r w i now later c u assume "s = (r, w)" "q = ApiCreate i now later c u"
  then show ?thesis using create_job_ops [of ro i now later r w c u] by fastforce
next
  fix r w j d u assume "s = (r, w)" "q = ApiReview j d u"
  then show ?thesis by (intro exI [of _ "[]"]) simp
next
  fix r w now j st u assume q: "s = (r, w)" "q = ApiTransition now j st u"
  have "\<exists>ops. snd (transition_job ro now r j st u) = service_run (ro_repository ro) r ops \<and>
      (ops = [] \<or> ops = [OpTransition now (ri_tenant_id u) j st None None] \<and>
         (\<exists>job. jr_get (ro_repository ro) r (ri_tenant_id u) j = Inr job \<and> rj_workflow_id job = None))"
  proof (cases "jr_get (ro_repository ro) r (ri_tenant_id u) j")
    case (Inr job)
    then show ?thesis
      by (intro exI [of _ "if rj_workflow_id job \<noteq> None then [] else [OpTransition now (ri_tenant_id u) j st None None]"])
        (auto simp: transition_job_def after_def split: sum.splits)
  qed (intro exI [of _ "[]"], simp add: transition_job_def)
  then obtain ops where "snd (transition_job ro now r j st u) = service_run (ro_repository ro) r ops"
    "ops = [] \<or> ops = [OpTransition now (ri_tenant_id u) j st None None] \<and>
         (\<exists>job. jr_get (ro_repository ro) r (ri_tenant_id u) j = Inr job \<and> rj_workflow_id job = None)" by blast
  with q show ?thesis by (intro exI [of _ ops]) auto
next
  fix r w i now j c u assume "s = (r, w)" "q = ApiAddEvidence i now j c u"
  moreover have "\<exists>ops. snd (add_evidence nfc ro i now r j c u) = service_run (ro_repository ro) r ops \<and>
      set ops \<subseteq> {OpAddEvidence i now (ri_tenant_id u) j (c\<lparr>ev_trust_level := TL_UNVERIFIED\<rparr>)}"
    by (rule exI [of _ "if ev_content_hash c \<noteq> hash_content nfc (ev_excerpt c) \<or> \<not> clearance_covers (ri_clearance u) (ev_access_class c) then []
        else [OpAddEvidence i now (ri_tenant_id u) j (c\<lparr>ev_trust_level := TL_UNVERIFIED\<rparr>)]"])
      (auto simp: add_evidence_def require_clearance_def after_def split: sum.splits)
  ultimately show ?thesis by fastforce
qed

context job_repository
begin

lemma api_run_other:
  assumes "ro_repository ro = repo" and "inv (fst s)" and "\<forall>q \<in> set reqs. ri_tenant_id (req_identity q) \<noteq> t"
  shows "inv (fst (api_run nfc ro s reqs)) \<and> slice (fst (api_run nfc ro s reqs)) t = slice (fst s) t"
  using assms(2,3)
proof (induction reqs arbitrary: s)
  case (Cons q qs)
  obtain ops where ops: "fst (api_step nfc ro s q) = service_run repo (fst s) ops" "\<forall>op \<in> set ops. op_tenant op = ri_tenant_id (req_identity q)"
    using api_step_ops [of nfc ro s q] assms(1) by blast
  then have "inv (fst (api_step nfc ro s q)) \<and> slice (fst (api_step nfc ro s q)) t = slice (fst s) t"
    using run_inv_other [OF Cons.prems(1), of ops t] Cons.prems(2) by auto
  with Cons.IH [of "api_step nfc ro s q"] Cons.prems(2) show ?case by simp
qed simp

lemma update_frame:
  assumes "inv r" and "jr_update repo r new = Inr r'" and "(rj_tenant_id new, rj_id new) \<noteq> (t, j)"
  shows "ts_job (slice r' t) j = ts_job (slice r t) j"
  using update_writes [OF assms(1,2)] assms(3) by (cases "rj_tenant_id new = t") auto

lemma transition_key: "ResearchJob_transition_to now job s d u = Inr new \<Longrightarrow> rj_tenant_id new = rj_tenant_id job \<and> rj_id new = rj_id job"
  by (auto simp: ResearchJob_transition_to_def split: if_splits)

lemma step_job_frame:
  assumes "inv r" and "job_written op \<noteq> Some (t, j)"
  shows "ts_job (slice (service_step repo r op) t) j = ts_job (slice r t) j"
proof (cases "op_tenant op = t")
  case False
  then show ?thesis using step_inv_other [OF assms(1), of op] by auto
next
  case True
  show ?thesis
  proof (cases op)
    case (OpCreate i now t' u c a)
    then show ?thesis using True assms(2) add_writes [OF assms(1), of "new_job i now t u c a"]
      by (auto simp: ResearchJobService_create_def after_def Let_def)
  next
    case (OpTransition now t' j' s d u)
    have kept: "ts_job (slice r' t) j = ts_job (slice r t) j"
      if "ts_job (slice r t) j' = Some old" "ResearchJob_transition_to now old s d u = Inr new" "jr_update repo r new = Inr r'" for old new r'
      using update_frame [OF assms(1) that(3)] transition_key [OF that(2)] own_key [OF assms(1) that(1)] OpTransition True assms(2) by auto
    show ?thesis
    proof (cases "ResearchJobService_transition repo now r t j' s d u")
      case (Inr res)
      then obtain old new r' where "ts_job (slice r t) j' = Some old" "ResearchJob_transition_to now old s d u = Inr new" "jr_update repo r new = Inr r'"
        "res = (new, r')" by (auto simp: ResearchJobService_transition_def get_reads bind_result_Inr_iff split: sum.splits) (metis sum.exhaust)
      then show ?thesis using kept OpTransition True Inr by (simp add: after_def)
    qed (use OpTransition True in \<open>simp add: after_def\<close>)
  next
    case (OpCheckpoint now t' j' w x)
    have kept: "ts_job (slice r' t) j = ts_job (slice r t) j"
      if "ts_job (slice r t) j' = Some old" "jr_update repo r (ResearchJob_with_checkpoint now old w x) = Inr r'" for old r'
      using update_frame [OF assms(1) that(2)] own_key [OF assms(1) that(1)] OpCheckpoint True assms(2)
      by (auto simp: ResearchJob_with_checkpoint_def)
    show ?thesis
    proof (cases "ResearchJobService_record_checkpoint repo now r t j' w x")
      case (Inr res)
      then obtain old r' where "ts_job (slice r t) j' = Some old" "jr_update repo r (ResearchJob_with_checkpoint now old w x) = Inr r'"
        "snd res = r'" by (auto simp: ResearchJobService_record_checkpoint_def get_reads bind_result_Inr_iff Let_def)
      then show ?thesis using kept OpCheckpoint True Inr by (cases res) (simp add: after_def)
    qed (use OpCheckpoint True in \<open>simp add: after_def\<close>)
  next
    case (OpAddEvidence i now t' j' c)
    show ?thesis
    proof (cases "ResearchJobService_add_evidence repo i now r t j' c")
      case (Inr res)
      then obtain r' where "jr_add_evidence repo r (evidence_of i now t j' c) = Inr r'" "snd res = r'"
        by (auto simp: ResearchJobService_add_evidence_def bind_result_Inr_iff Let_def split: if_splits)
      moreover have "ev_tenant_id (evidence_of i now t j' c) = t" by (simp add: evidence_of_def EvidenceRecordCreate.extend_def)
      ultimately have "ts_job (slice r' t) = ts_job (slice r t)" using evidence_writes [OF assms(1)] by metis
      then show ?thesis using \<open>snd res = r'\<close> OpAddEvidence True Inr by (cases res) (simp add: after_def)
    qed (use OpAddEvidence True in \<open>simp add: after_def\<close>)
  next
    case (OpRecordInvocation i)
    then show ?thesis using True invocation_writes [OF assms(1), of i] by simp
  next
    case (OpRecordFindings i now t' j' fs)
    then show ?thesis using True findings_writes [OF assms(1)]
      by (auto simp: ResearchJobService_record_findings_def after_def bind_result_def Let_def split: sum.splits)
  next
    case (OpRecordPublication p)
    then show ?thesis using True publication_writes [OF assms(1)] by (auto split: sum.splits)
  qed
qed

lemma run_job_frame:
  "inv r \<Longrightarrow> \<forall>op \<in> set ops. job_written op \<noteq> Some (t, j) \<Longrightarrow>
   inv (service_run repo r ops) \<and> ts_job (slice (service_run repo r ops) t) j = ts_job (slice r t) j"
proof (induction ops arbitrary: r)
  case (Cons op ops)
  with step_job_frame [of r op t j] step_inv_other [of r op] show ?case by simp
qed simp

lemma api_run_job_frame:
  assumes "ro_repository ro = repo" and "inv (fst s)" and "ts_job (slice (fst s) t) j = Some job" and "rj_workflow_id job \<noteq> None"
    and "\<forall>now later c u. ApiCreate j now later c u \<in> set reqs \<longrightarrow> ri_tenant_id u \<noteq> t"
  shows "ts_job (slice (fst (api_run nfc ro s reqs)) t) j = Some job"
  using assms(2,3,5)
proof (induction reqs arbitrary: s)
  case (Cons q qs)
  obtain ops where ops: "fst (api_step nfc ro s q) = service_run repo (fst s) ops"
    "\<forall>op \<in> set ops. \<forall>t j. job_written op = Some (t, j) \<longrightarrow> t = ri_tenant_id (req_identity q) \<and>
       ((\<exists>now later c. q = ApiCreate j now later c (req_identity q)) \<or> (\<exists>job. jr_get repo (fst s) t j = Inr job \<and> rj_workflow_id job = None))"
    using api_step_ops [of nfc ro s q] assms(1) by blast
  have "job_written op \<noteq> Some (t, j)" if "op \<in> set ops" for op
  proof
    assume "job_written op = Some (t, j)"
    with ops(2) that have "t = ri_tenant_id (req_identity q)"
      "(\<exists>now later c. q = ApiCreate j now later c (req_identity q)) \<or> (\<exists>job. jr_get repo (fst s) t j = Inr job \<and> rj_workflow_id job = None)" by blast+
    with Cons.prems(2,3) assms(4) show False by (auto simp: get_reads) (metis list.set_intros(1))
  qed
  then have "inv (fst (api_step nfc ro s q)) \<and> ts_job (slice (fst (api_step nfc ro s q)) t) j = Some job"
    using run_job_frame [OF Cons.prems(1), of ops t j] ops(1) Cons.prems(2) by simp
  with Cons.IH [of "api_step nfc ro s q"] Cons.prems(3) show ?case by simp
qed simp

text \<open>The answers of the reading handlers are functions of the caller's tenant's part of the record.\<close>

lemma reads_of_slice:
  assumes "ro_repository ro = repo" and "slice r (ri_tenant_id u) = slice r' (ri_tenant_id u)"
  shows "list_jobs ro r u = list_jobs ro r' u" "get_job ro r j u = get_job ro r' j u"
    "list_evidence ro r j u = list_evidence ro r' j u" "list_findings ro r j u = list_findings ro r' j u"
    "list_invocations ro r j u = list_invocations ro r' j u"
    "get_report ro r a j u fmt = get_report ro r' a j u fmt" "get_manifest ro r a j u = get_manifest ro r' a j u"
proof -
  have get: "jr_get repo r (ri_tenant_id u) j = jr_get repo r' (ri_tenant_id u) j" for j using assms(2) by (simp add: get_reads)
  note reads = list_reads evidence_reads findings_reads invocations_reads publication_reads get assms
  show "list_jobs ro r u = list_jobs ro r' u" "get_job ro r j u = get_job ro r' j u"
    by (simp_all add: list_jobs_def get_job_def reads)
  show "list_evidence ro r j u = list_evidence ro r' j u" by (simp add: list_evidence_def reads)
  show "list_findings ro r j u = list_findings ro r' j u" by (simp add: list_findings_def reads)
  show "list_invocations ro r j u = list_invocations ro r' j u"
    by (simp add: list_invocations_def ResearchJobService_list_invocations_def reads)
  have "published ro r u j = published ro r' u j" by (simp add: published_def reads)
  then show "get_report ro r a j u fmt = get_report ro r' a j u fmt" "get_manifest ro r a j u = get_manifest ro r' a j u"
    by (simp_all add: get_report_def get_manifest_def)
qed

end

text \<open>
  C7. Tenants are isolated at the interface: no sequence of requests made by callers of other tenants, whatever
  jobs they name, changes any answer a caller gets about jobs, evidence, findings, the audit trail, the
  report or the manifest.
\<close>

theorem requests_of_other_tenants_change_no_answer:
  assumes ro: "ro_repository ro = InMemoryJobRepository_ops" and "InMemoryJobRepository_inv r"
    and "\<forall>q \<in> set reqs. ri_tenant_id (req_identity q) \<noteq> ri_tenant_id u" and "api_run nfc ro (r, w) reqs = (r', w')"
  shows "list_jobs ro r' u = list_jobs ro r u \<and> get_job ro r' j u = get_job ro r j u \<and>
    list_evidence ro r' j u = list_evidence ro r j u \<and> list_findings ro r' j u = list_findings ro r j u \<and>
    list_invocations ro r' j u = list_invocations ro r j u \<and>
    get_report ro r' a j u fmt = get_report ro r a j u fmt \<and> get_manifest ro r' a j u = get_manifest ro r a j u"
proof -
  have "InMemoryJobRepository_slice r' (ri_tenant_id u) = InMemoryJobRepository_slice r (ri_tenant_id u)"
    using mem_jobs.api_run_other [OF ro, of "(r, w)" reqs "ri_tenant_id u" nfc] assms(2-4) by simp
  from mem_jobs.reads_of_slice [OF ro this] show ?thesis by (intro conjI)
qed

definition sample_router :: "(InMemoryJobRepository, TemporalServer TemporalWorkflowStarter, S3Server) router" where
  "sample_router = \<lparr>ro_repository = InMemoryJobRepository_ops, ro_registry = [],
     ro_workflows = Some (TemporalWorkflowStarter_ops TemporalServer_client),
     ro_artifacts = Some (MinioArtifactStore_ops S3Server_client ''b'')\<rparr>"

definition sample_caller :: "string \<Rightarrow> string \<Rightarrow> AccessClass \<Rightarrow> RequestIdentity" where
  "sample_caller t u c = \<lparr>ri_tenant_id = t, ri_requester_id = u, ri_roles = {R_REQUESTER, R_REVIEWER}, ri_clearance = c\<rparr>"

theorem requests_of_other_tenants_change_no_answer_witness:
  "get_job sample_router (fst (api_run id sample_router (sample_store, sample_temporal)
     [ApiTransition 5 1 JS_FAILED (sample_caller ''evil'' ''v'' AC_RESTRICTED), ApiCreate 1 6 7 sample_command (sample_caller ''evil'' ''v'' AC_PUBLIC)]))
     1 (sample_caller ''acme'' ''u'' AC_PUBLIC) =
   get_job sample_router sample_store 1 (sample_caller ''acme'' ''u'' AC_PUBLIC)"
proof -
  let ?reqs = "[ApiTransition 5 1 JS_FAILED (sample_caller ''evil'' ''v'' AC_RESTRICTED), ApiCreate 1 6 7 sample_command (sample_caller ''evil'' ''v'' AC_PUBLIC)]"
  obtain r' w' where run: "api_run id sample_router (sample_store, sample_temporal) ?reqs = (r', w')" by fastforce
  have "get_job sample_router r' 1 (sample_caller ''acme'' ''u'' AC_PUBLIC) = get_job sample_router sample_store 1 (sample_caller ''acme'' ''u'' AC_PUBLIC)"
    using requests_of_other_tenants_change_no_answer [OF _ sample_store_inv _ run, of "sample_caller ''acme'' ''u'' AC_PUBLIC" 1]
    by (simp add: sample_router_def sample_caller_def)
  with run show ?thesis by simp
qed

text \<open>
  C11. A job a workflow runs is moved by that workflow alone: whatever requests arrive, from its own tenant or
  from others, its stored record stays exactly as it is. Creating a job draws a fresh identifier.
\<close>

theorem requests_leave_running_jobs_to_their_workflow:
  assumes ro: "ro_repository ro = InMemoryJobRepository_ops" and "InMemoryJobRepository_inv r"
    and "InMemoryJobRepository_get r t j = Inr job" and "rj_workflow_id job \<noteq> None"
    and "\<forall>now later c u. ApiCreate j now later c u \<in> set reqs \<longrightarrow> ri_tenant_id u \<noteq> t" and "api_run nfc ro (r, w) reqs = (r', w')"
  shows "InMemoryJobRepository_get r' t j = Inr job"
proof -
  have get: "InMemoryJobRepository_get r t j = found_or j (ts_job (InMemoryJobRepository_slice r t) j)" for r
    using mem_jobs.get_reads by (simp add: InMemoryJobRepository_ops_def)
  show ?thesis using mem_jobs.api_run_job_frame [OF ro, of "(r, w)" t j job reqs nfc] assms(2-6) by (simp add: get)
qed

definition running_store :: InMemoryJobRepository where
  "running_store = InMemoryJobRepository_add InMemoryJobRepository_init
     ((new_job 1 0 ''acme'' ''u'' sample_command AC_INTERNAL)\<lparr>rj_status := JS_REVIEW_REQUIRED, rj_workflow_id := Some ''research-job-1''\<rparr>)"

lemma running_store_inv: "InMemoryJobRepository_inv running_store"
  by (simp add: running_store_def InMemoryJobRepository_add_def InMemoryJobRepository_init_def InMemoryJobRepository_inv_def)

lemma running_store_get:
  "InMemoryJobRepository_get running_store ''acme'' 1 =
   Inr ((new_job 1 0 ''acme'' ''u'' sample_command AC_INTERNAL)\<lparr>rj_status := JS_REVIEW_REQUIRED, rj_workflow_id := Some ''research-job-1''\<rparr>)"
  by (simp add: running_store_def InMemoryJobRepository_add_def InMemoryJobRepository_init_def InMemoryJobRepository_get_def)

theorem requests_leave_running_jobs_to_their_workflow_witness:
  "InMemoryJobRepository_get (fst (api_run id sample_router (running_store, sample_temporal)
     [ApiTransition 5 1 JS_FAILED (sample_caller ''acme'' ''u'' AC_RESTRICTED), ApiCreate 2 6 7 sample_command (sample_caller ''acme'' ''v'' AC_PUBLIC)]))
     ''acme'' 1 = InMemoryJobRepository_get running_store ''acme'' 1"
proof -
  let ?reqs = "[ApiTransition 5 1 JS_FAILED (sample_caller ''acme'' ''u'' AC_RESTRICTED), ApiCreate 2 6 7 sample_command (sample_caller ''acme'' ''v'' AC_PUBLIC)]"
  obtain r' w' where run: "api_run id sample_router (running_store, sample_temporal) ?reqs = (r', w')" by fastforce
  show ?thesis
    using requests_leave_running_jobs_to_their_workflow [OF _ running_store_inv running_store_get _ _ run] run
    by (simp add: sample_router_def running_store_get)
qed

text \<open>
  C10. A review takes a second person. A reviewer's decision is delivered exactly when the caller is a reviewer or
  an administrator, the job is of the caller's tenant and awaits review, the caller did not request it or is
  an administrator, and the job's workflow is running; it then reaches that workflow once. In every other
  case nothing is delivered to any workflow.
\<close>

theorem review_takes_a_second_person:
  assumes ro: "ro_repository ro = InMemoryJobRepository_ops" "ro_workflows ro = Some (TemporalWorkflowStarter_ops TemporalServer_client)"
    and run: "review_job ro r w j d u = (res, w')"
  shows "((\<exists>job. res = Inr job) \<longleftrightarrow>
      (R_REVIEWER \<in> ri_roles u \<or> R_ADMINISTRATOR \<in> ri_roles u) \<and>
      (\<exists>job. InMemoryJobRepository_get r (ri_tenant_id u) j = Inr job \<and> rj_status job = JS_REVIEW_REQUIRED \<and>
         (rj_requester_id job \<noteq> ri_requester_id u \<or> R_ADMINISTRATOR \<in> ri_roles u) \<and>
         tp_up (tw_service w) \<and> dict_get (tp_running (tw_service w)) (signalled_workflow job) \<noteq> None)) \<and>
    tp_signals (tw_service w') = tp_signals (tw_service w) @ (case res of Inr job \<Rightarrow> [(signalled_workflow job, d)] | Inl e \<Rightarrow> [])"
proof -
  have submit: "ws_submit_reviewer_decision (TemporalWorkflowStarter_ops TemporalServer_client) = TemporalWorkflowStarter_submit_reviewer_decision TemporalServer_client"
    "jr_get InMemoryJobRepository_ops = InMemoryJobRepository_get"
    by (simp_all add: TemporalWorkflowStarter_ops_def InMemoryJobRepository_ops_def)
  have delivered: "let (s, w1) = TemporalWorkflowStarter_submit_reviewer_decision TemporalServer_client w job d in
      if tp_up (tw_service w) \<and> dict_get (tp_running (tw_service w)) (signalled_workflow job) \<noteq> None
      then s = Inr () \<and> tp_signals (tw_service w1) = tp_signals (tw_service w) @ [(signalled_workflow job, d)]
      else (\<exists>e. s = Inl e) \<and> tp_signals (tw_service w1) = tp_signals (tw_service w)" for job
    by (auto simp: TemporalWorkflowStarter_submit_reviewer_decision_def TemporalWorkflowStarter_connected_def TemporalServer_client_def)
  have roles: "ri_roles u \<inter> REVIEWERS = {} \<longleftrightarrow> \<not> (R_REVIEWER \<in> ri_roles u \<or> R_ADMINISTRATOR \<in> ri_roles u)" by (auto simp: REVIEWERS_def)
  show ?thesis
  proof (cases "InMemoryJobRepository_get r (ri_tenant_id u) j")
    case (Inl e)
    with run show ?thesis by (auto simp: review_job_def ro submit roles split: if_splits)
  next
    case (Inr job)
    obtain s w1 where s: "TemporalWorkflowStarter_submit_reviewer_decision TemporalServer_client w job d = (s, w1)" by fastforce
    from delivered [of job] run Inr s show ?thesis
      by (auto simp: review_job_def ro submit roles split: if_splits WorkflowError.splits)
  qed
qed

theorem review_takes_a_second_person_witness:
  "\<exists>res w'. review_job sample_router running_store
      \<lparr>tw_connected = False, tw_service = \<lparr>tp_up = True, tp_running = [(''research-job-1'', ''x'')], tp_starts = [], tp_signals = []\<rparr>\<rparr>
      1 RD_APPROVE (sample_caller ''acme'' ''v'' AC_PUBLIC) = (res, w') \<and>
     (\<exists>job. res = Inr job) \<and> tp_signals (tw_service w') = [(''research-job-1'', RD_APPROVE)]"
proof -
  let ?w = "\<lparr>tw_connected = False, tw_service = \<lparr>tp_up = True, tp_running = [(''research-job-1'', ''x'')], tp_starts = [], tp_signals = []\<rparr>\<rparr>"
  obtain res w' where run: "review_job sample_router running_store ?w 1 RD_APPROVE (sample_caller ''acme'' ''v'' AC_PUBLIC) = (res, w')" by fastforce
  note second = review_takes_a_second_person [OF _ _ run]
  obtain job where res: "res = Inr job"
    using second by (auto simp: sample_router_def sample_caller_def running_store_get signalled_workflow_def new_job_def)
  have "signalled_workflow job = ''research-job-1''"
    using run res by (auto simp: review_job_def sample_router_def sample_caller_def InMemoryJobRepository_ops_def running_store_get
        signalled_workflow_def split: if_splits prod.splits sum.splits WorkflowError.splits)
  with second have "tp_signals (tw_service w') = [(''research-job-1'', RD_APPROVE)]" by (simp add: sample_router_def res)
  with run res show ?thesis by blast
qed

text \<open>
  C12. A job that is created is on record whatever happens to its start, as the caller's, under the caller's own
  clearance. When the starter accepts it, the answer is the stored job with the execution that owns it; when
  the starter is unavailable, the answer is a 503 and the job is stored as failed with no execution. Only an
  error the starter does not document leaves a job that looks as if work were under way.
\<close>

theorem created_job_is_started_or_failed:
  assumes ro: "ro_repository ro = InMemoryJobRepository_ops" "ro_workflows ro = Some ws"
    and job: "job = new_job i now (ri_tenant_id u) (ri_requester_id u) command (ri_clearance u)" "ResearchJob_valid job"
    and run: "create_job ro i now later r w command u = (res, r', w')" "ws_start ws w job = (answer, w1)"
  shows "w' = w1 \<and>
    (case answer of
       Inr c \<Rightarrow> res = Inr (ResearchJob_with_checkpoint later job (wc_workflow_id c) (wc_workflow_run_id c)) \<and>
         InMemoryJobRepository_get r' (ri_tenant_id u) i = Inr (ResearchJob_with_checkpoint later job (wc_workflow_id c) (wc_workflow_run_id c))
     | Inl (WorkflowUnavailable e) \<Rightarrow> (\<exists>detail. res = Inl (HTTPException 503 detail)) \<and>
         InMemoryJobRepository_get r' (ri_tenant_id u) i = Inr (job\<lparr>rj_status := JS_FAILED, rj_updated_at := later\<rparr>)
     | Inl e \<Rightarrow> (\<exists>detail. res = Inl (Unhandled detail)) \<and> InMemoryJobRepository_get r' (ri_tenant_id u) i = Inr job)"
proof -
  note mem = InMemoryJobRepository_ops_def InMemoryJobRepository_add_def InMemoryJobRepository_get_def InMemoryJobRepository_update_def Let_def
  let ?r1 = "InMemoryJobRepository_add r job"
  have key: "rj_tenant_id job = ri_tenant_id u" "rj_id job = i" "rj_status job = JS_CREATED" "rj_status_detail job = None"
    by (simp_all add: job new_job_def)
  have create: "ResearchJobService_create InMemoryJobRepository_ops i now r (ri_tenant_id u) (ri_requester_id u) command (ri_clearance u) = Inr (job, ?r1)"
    using job by (simp add: ResearchJobService_create_def InMemoryJobRepository_ops_def Let_def)
  have "ResearchJob_transition_to later job JS_FAILED None None = Inr (job\<lparr>rj_status := JS_FAILED, rj_updated_at := later\<rparr>)"
    using key by (simp add: ResearchJob_transition_to_def trimmed_detail_def)
  then obtain r2 where failed: "ResearchJobService_transition InMemoryJobRepository_ops later ?r1 (ri_tenant_id u) i JS_FAILED None None =
      Inr (job\<lparr>rj_status := JS_FAILED, rj_updated_at := later\<rparr>, r2)"
    "InMemoryJobRepository_get r2 (ri_tenant_id u) i = Inr (job\<lparr>rj_status := JS_FAILED, rj_updated_at := later\<rparr>)"
    using key by (simp add: ResearchJobService_transition_def mem)
  have owned: "\<exists>r2. ResearchJobService_record_checkpoint InMemoryJobRepository_ops later ?r1 (ri_tenant_id u) i a b =
      Inr (ResearchJob_with_checkpoint later job a b, r2) \<and> InMemoryJobRepository_get r2 (ri_tenant_id u) i = Inr (ResearchJob_with_checkpoint later job a b)" for a b
    using key by (simp add: ResearchJobService_record_checkpoint_def ResearchJob_with_checkpoint_def mem)
  have added: "InMemoryJobRepository_get ?r1 (ri_tenant_id u) i = Inr job" using key by (simp add: mem)
  show ?thesis
  proof (cases answer)
    case (Inl e)
    then show ?thesis using run create failed key added by (cases e) (auto simp: create_job_def ro)
  next
    case (Inr c)
    with owned [of "wc_workflow_id c" "wc_workflow_run_id c"] run create key show ?thesis by (auto simp: create_job_def ro)
  qed
qed


theorem created_job_is_started_or_failed_witness:
  "\<exists>detail r'. create_job sample_router 7 0 1 sample_store
      (TemporalWorkflowStarter_init \<lparr>tp_up = False, tp_running = [], tp_starts = [], tp_signals = []\<rparr>)
      sample_command (sample_caller ''acme'' ''v'' AC_PUBLIC) =
      (Inl (HTTPException 503 detail), r', TemporalWorkflowStarter_init \<lparr>tp_up = False, tp_running = [], tp_starts = [], tp_signals = []\<rparr>) \<and>
     (\<exists>job. InMemoryJobRepository_get r' ''acme'' 7 = Inr job \<and> rj_status job = JS_FAILED)"
proof -
  let ?w = "TemporalWorkflowStarter_init \<lparr>tp_up = False, tp_running = [], tp_starts = [], tp_signals = []\<rparr>"
  let ?u = "sample_caller ''acme'' ''v'' AC_PUBLIC"
  let ?job = "new_job 7 0 (ri_tenant_id ?u) (ri_requester_id ?u) sample_command (ri_clearance ?u)"
  obtain res r' w' where run: "create_job sample_router 7 0 1 sample_store ?w sample_command ?u = (res, r', w')" by (metis prod.exhaust)
  have valid: "ResearchJob_valid ?job"
    by (simp add: ResearchJob_valid_def new_job_def sample_caller_def sample_command_def bounded_text_def nonempty_text_def
        default_budget_def ResearchBudget_valid_def JobUsage_valid_def JobUsage_zero_def opt_text_def)
  have start: "ws_start (TemporalWorkflowStarter_ops TemporalServer_client) ?w ?job =
      (Inl (WorkflowUnavailable ''the workflow service could not be reached: connection refused''), ?w)"
    by (simp add: TemporalWorkflowStarter_ops_def TemporalWorkflowStarter_start_def TemporalWorkflowStarter_connected_def
        TemporalWorkflowStarter_init_def TemporalServer_client_def)
  from created_job_is_started_or_failed [OF _ _ refl valid run start] run show ?thesis
    by (auto simp: sample_router_def sample_caller_def)
qed


section \<open>What a caller may read\<close>

lemma withheld_count: "\<exists>n. rp_headers (withholding P xs) = [(''X-Withheld-Count'', py_str_nat n)] \<and> length (rp_body (withholding P xs)) + n = length xs"
  by (intro exI [of _ "length xs - length (filter P xs)"]) (simp add: withholding_def WITHHELD_def)

text \<open>
  C9. A read shows exactly what the caller is cleared for. Of a job of the caller's tenant, the evidence shown is the
  recorded evidence within the caller's clearance; a finding is shown exactly when every record of the job it
  rests on or is contradicted by is shown to the same caller; a tool call is shown exactly when its capability
  is registered within the clearance, or to a caller cleared for everything when it is not registered. What is
  shown and the withheld count add up to what is recorded.
\<close>

theorem reads_withhold_exactly_what_is_not_cleared:
  assumes ro: "ro_repository ro = InMemoryJobRepository_ops" and "InMemoryJobRepository_get r (ri_tenant_id u) j = Inr job"
    and evs: "evs = listed (im_evidence r) (ri_tenant_id u, j)" and fs: "fs = listed (im_findings r) (ri_tenant_id u, j)"
    and calls: "calls = InMemoryJobRepository_list_invocations r (ri_tenant_id u) j"
  shows "\<exists>E F I n m k. list_evidence ro r j u = Inr E \<and> list_findings ro r j u = Inr F \<and> list_invocations ro r j u = Inr I \<and>
    set (rp_body E) = {e \<in> set evs. ev_access_class e \<le> ri_clearance u} \<and>
    set (rp_body F) = {f \<in> set fs. \<forall>e \<in> set evs. ev_id e \<in> set (fi_supporting_evidence_ids f) \<union> set (fi_contradicting_evidence_ids f) \<longrightarrow>
       e \<in> set (rp_body E)} \<and>
    set (rp_body I) = {c \<in> set calls. case CapabilityRegistry_get (ro_registry ro) (ti_mcp_server c) (ti_capability c) of
       Inr cap \<Rightarrow> cap_max_access_class cap \<le> ri_clearance u | Inl _ \<Rightarrow> ri_clearance u = AC_RESTRICTED} \<and>
    rp_headers E = [(''X-Withheld-Count'', py_str_nat n)] \<and> length (rp_body E) + n = length evs \<and>
    rp_headers F = [(''X-Withheld-Count'', py_str_nat m)] \<and> length (rp_body F) + m = length fs \<and>
    rp_headers I = [(''X-Withheld-Count'', py_str_nat k)] \<and> length (rp_body I) + k = length calls"
proof -
  define shown where "shown = (\<lambda>e. clearance_covers (ri_clearance u) (ev_access_class (e :: EvidenceRecord)))"
  define E where "E = withholding shown evs"
  define F where "F = withholding (\<lambda>f. hidden_evidence u evs \<inter> (set (fi_supporting_evidence_ids f) \<union> set (fi_contradicting_evidence_ids f)) = {}) fs"
  define I where "I = withholding (\<lambda>c. clearance_covers (ri_clearance u) (classification_of ro c)) calls"
  have handlers: "list_evidence ro r j u = Inr E" "list_findings ro r j u = Inr F" "list_invocations ro r j u = Inr I"
    using assms(2) by (simp_all add: list_evidence_def list_findings_def list_invocations_def E_def F_def I_def shown_def ro InMemoryJobRepository_ops_def
        InMemoryJobRepository_list_evidence_def InMemoryJobRepository_list_findings_def ResearchJobService_list_invocations_def job_answer_def evs fs calls)
  have top: "AC_RESTRICTED \<le> c \<longleftrightarrow> c = AC_RESTRICTED" for c by (cases c) (simp_all flip: clearance_covers_le add: clearance_covers_def)
  have "set (rp_body E) = {e \<in> set evs. ev_access_class e \<le> ri_clearance u}"
    by (simp add: E_def withholding_def shown_def clearance_covers_le)
  moreover have "set (rp_body F) = {f \<in> set fs. \<forall>e \<in> set evs. ev_id e \<in> set (fi_supporting_evidence_ids f) \<union> set (fi_contradicting_evidence_ids f) \<longrightarrow>
       e \<in> set (rp_body E)}"
    by (auto simp: F_def E_def withholding_def shown_def hidden_evidence_def)
  moreover have "set (rp_body I) = {c \<in> set calls. case CapabilityRegistry_get (ro_registry ro) (ti_mcp_server c) (ti_capability c) of
       Inr cap \<Rightarrow> cap_max_access_class cap \<le> ri_clearance u | Inl _ \<Rightarrow> ri_clearance u = AC_RESTRICTED}"
    by (auto simp: I_def withholding_def classification_of_def clearance_covers_le top split: sum.splits)
  moreover obtain n where "rp_headers E = [(''X-Withheld-Count'', py_str_nat n)]" "length (rp_body E) + n = length evs"
    using withheld_count [of shown evs, folded E_def] by blast
  moreover obtain m where "rp_headers F = [(''X-Withheld-Count'', py_str_nat m)]" "length (rp_body F) + m = length fs"
    using withheld_count [of "\<lambda>f. hidden_evidence u evs \<inter> (set (fi_supporting_evidence_ids f) \<union> set (fi_contradicting_evidence_ids f)) = {}" fs, folded F_def] by blast
  moreover obtain k where "rp_headers I = [(''X-Withheld-Count'', py_str_nat k)]" "length (rp_body I) + k = length calls"
    using withheld_count [of "\<lambda>c. clearance_covers (ri_clearance u) (classification_of ro c)" calls, folded I_def] by blast
  ultimately show ?thesis using handlers by blast
qed

theorem reads_withhold_exactly_what_is_not_cleared_witness:
  "\<exists>E. list_evidence sample_router running_store 1 (sample_caller ''acme'' ''v'' AC_PUBLIC) = Inr E \<and> rp_body E = []"
  using reads_withhold_exactly_what_is_not_cleared [of sample_router running_store "sample_caller ''acme'' ''v'' AC_PUBLIC" 1 _ _ _ _, OF _ _ refl refl refl]
  by (auto simp: sample_router_def sample_caller_def running_store_get) (auto simp: running_store_def InMemoryJobRepository_add_def InMemoryJobRepository_init_def listed_def)

lemma publish_keeps_jobs:
  assumes "PublicationActivities_publish dump InMemoryJobRepository_ops store sources generated_at now r a s job report shortfalls = (Inr p, r', a', s')"
  shows "im_jobs r' = im_jobs r"
  using assms by (auto simp: PublicationActivities_publish_def InMemoryJobRepository_ops_def InMemoryJobRepository_record_publication_def bind_result_Inr_iff
      split: sum.splits prod.splits if_splits)

text \<open>
  C8. What was published is what is served. After a publication, a caller of the job's tenant gets, byte for byte, the
  report that was published, under the digest the manifest records for it, exactly when cleared for every source
  the report cites, and the manifest exactly when cleared for every source the job read; otherwise the answer is
  a 403. A caller of a tenant that has no job of that identifier is told it does not exist.
\<close>

theorem published_report_is_served_to_cleared_readers:
  assumes ro: "ro_repository ro = InMemoryJobRepository_ops" "ro_artifacts ro = Some (MinioArtifactStore_ops S3Server_client b)"
    and run: "PublicationActivities_publish dump InMemoryJobRepository_ops (MinioArtifactStore_ops S3Server_client b) sources generated_at now r m s
      job report shortfalls = (Inr p, r', m', s')"
    and inv: "InMemoryJobRepository_inv r" "dict_get m b \<noteq> None"
    and evs: "evs = listed (im_evidence r) (rj_tenant_id job, rj_id job)"
  shows "\<exists>cited manifest. ResearchReport_cited_evidence_ids report = Inr cited \<and> map me_id (pm_evidence manifest) = map ev_id evs \<and>
    (\<forall>u. ri_tenant_id u = rj_tenant_id job \<longrightarrow>
       (if \<forall>e \<in> set evs. ev_id e \<in> cited \<longrightarrow> ev_access_class e \<le> ri_clearance u
        then \<exists>answer. get_report ro r' m' (rj_id job) u RF_JSON = Inr answer \<and> rp_body answer = du_report dump report \<and>
          (''X-Report-SHA256'', sha256_of (du_report dump report)) \<in> set (rp_headers answer) \<and>
          pm_report_sha256 manifest = sha256_of (du_report dump report)
        else \<exists>detail. get_report ro r' m' (rj_id job) u RF_JSON = Inl (HTTPException 403 detail)) \<and>
       (if \<forall>e \<in> set evs. ev_access_class e \<le> ri_clearance u
        then \<exists>answer. get_manifest ro r' m' (rj_id job) u = Inr answer \<and> rp_body answer = du_manifest dump manifest
        else \<exists>detail. get_manifest ro r' m' (rj_id job) u = Inl (HTTPException 403 detail))) \<and>
    (\<forall>u fmt. dict_get (im_jobs r) (ri_tenant_id u, rj_id job) = None \<longrightarrow>
       get_report ro r' m' (rj_id job) u fmt = Inl (HTTPException 404 ''research job not found''))"
proof -
  have sel: "as_get (MinioArtifactStore_ops S3Server_client b) = MinioArtifactStore_get S3Server_client b"
    "jr_get_publication InMemoryJobRepository_ops = InMemoryJobRepository_get_publication"
    "ts_evidence (InMemoryJobRepository_slice r (rj_tenant_id job)) (rj_id job) = evs"
    by (simp_all add: MinioArtifactStore_ops_def InMemoryJobRepository_ops_def InMemoryJobRepository_slice_def evs)
  from minio_publishing.publish_complete [OF run inv, unfolded sel]
  have p: "InMemoryJobRepository_get_publication r' (rj_tenant_id job) (rj_id job) = Inr (Some p)"
    and complete: "publication_complete dump report evs (MinioArtifactStore_get S3Server_client b m' (rj_tenant_id job)) p" by simp_all
  obtain manifest where manifest: "MinioArtifactStore_get S3Server_client b m' (rj_tenant_id job) (pu_manifest_key p) = Inr (du_manifest dump manifest)"
    "pm_report_sha256 manifest = pu_report_sha256 p" "map me_id (pm_evidence manifest) = map ev_id evs"
    using complete unfolding publication_complete_def by blast
  obtain cited where cited: "ResearchReport_cited_evidence_ids report = Inr cited"
    "\<And>c. clearance_covers c (pu_report_access_class p) \<longleftrightarrow> (\<forall>e \<in> set evs. ev_id e \<in> cited \<longrightarrow> clearance_covers c (ev_access_class e))"
    using complete unfolding publication_complete_def by blast
  have all: "clearance_covers c (pu_manifest_access_class p) \<longleftrightarrow> (\<forall>e \<in> set evs. clearance_covers c (ev_access_class e))" for c
    using complete unfolding publication_complete_def by blast
  have body: "MinioArtifactStore_get S3Server_client b m' (rj_tenant_id job) (pu_report_key p) = Inr (du_report dump report)"
    "pu_report_sha256 p = sha256_of (du_report dump report)" using complete unfolding publication_complete_def by blast+
  have report: "if \<forall>e \<in> set evs. ev_id e \<in> cited \<longrightarrow> ev_access_class e \<le> ri_clearance u
      then \<exists>answer. get_report ro r' m' (rj_id job) u RF_JSON = Inr answer \<and> rp_body answer = du_report dump report \<and>
        (''X-Report-SHA256'', sha256_of (du_report dump report)) \<in> set (rp_headers answer) \<and> pm_report_sha256 manifest = sha256_of (du_report dump report)
      else \<exists>detail. get_report ro r' m' (rj_id job) u RF_JSON = Inl (HTTPException 403 detail)"
    if "ri_tenant_id u = rj_tenant_id job" for u
    using that p body manifest(2) cited(2) [of "ri_clearance u"]
    by (simp add: get_report_def published_def stored_def require_clearance_def ro sel clearance_covers_le)
  have listing: "if \<forall>e \<in> set evs. ev_access_class e \<le> ri_clearance u
      then \<exists>answer. get_manifest ro r' m' (rj_id job) u = Inr answer \<and> rp_body answer = du_manifest dump manifest
      else \<exists>detail. get_manifest ro r' m' (rj_id job) u = Inl (HTTPException 403 detail)"
    if "ri_tenant_id u = rj_tenant_id job" for u
    using that p manifest(1) all [of "ri_clearance u"]
    by (simp add: get_manifest_def published_def stored_def require_clearance_def ro sel clearance_covers_le)
  have "im_jobs r' = im_jobs r" using publish_keeps_jobs [OF run] .
  then have missing: "get_report ro r' m' (rj_id job) u fmt = Inl (HTTPException 404 ''research job not found'')"
    if "dict_get (im_jobs r) (ri_tenant_id u, rj_id job) = None" for u fmt
    using that by (simp add: get_report_def published_def ro sel InMemoryJobRepository_get_publication_def InMemoryJobRepository_get_def job_not_found_def)
  show ?thesis using cited(1) manifest(3) report listing missing by blast
qed

theorem published_report_is_served_to_cleared_readers_witness:
  "\<exists>p r' m'. PublicationActivities_publish sample_dumps InMemoryJobRepository_ops (MinioArtifactStore_ops S3Server_client ''b'')
      (None :: (unit, unit) SourceChecker option) 5 6 sample_store [(''b'', [])] () (new_job 1 0 ''acme'' ''u'' sample_command AC_INTERNAL)
      sample_report [] = (Inr p, r', m', ()) \<and>
     (\<exists>answer. get_report sample_router r' m' 1 (sample_caller ''acme'' ''v'' AC_PUBLIC) RF_JSON = Inr answer \<and> rp_body answer = [123, 125]) \<and>
     get_report sample_router r' m' 1 (sample_caller ''evil'' ''v'' AC_RESTRICTED) RF_JSON = Inl (HTTPException 404 ''research job not found'')"
proof -
  obtain p r' m' where run: "PublicationActivities_publish sample_dumps InMemoryJobRepository_ops (MinioArtifactStore_ops S3Server_client ''b'')
      (None :: (unit, unit) SourceChecker option) 5 6 sample_store [(''b'', [])] () (new_job 1 0 ''acme'' ''u'' sample_command AC_INTERNAL)
      sample_report [] = (Inr p, r', m', ())" using sample_publication by blast
  have store: "listed (im_evidence sample_store) (''acme'', 1) = []" "dict_get (im_jobs sample_store) (''evil'', 1) = None"
    by (simp_all add: sample_store_def InMemoryJobRepository_add_def InMemoryJobRepository_init_def listed_def)
  have ro: "ro_repository sample_router = InMemoryJobRepository_ops" "ro_artifacts sample_router = Some (MinioArtifactStore_ops S3Server_client ''b'')"
    by (simp_all add: sample_router_def)
  have "(\<forall>u. ri_tenant_id u = ''acme'' \<longrightarrow> (\<exists>answer. get_report sample_router r' m' 1 u RF_JSON = Inr answer \<and> rp_body answer = [123, 125])) \<and>
      (\<forall>u fmt. dict_get (im_jobs sample_store) (ri_tenant_id u, 1) = None \<longrightarrow> get_report sample_router r' m' 1 u fmt = Inl (HTTPException 404 ''research job not found''))"
    using published_report_is_served_to_cleared_readers [OF ro run sample_store_inv _ refl] by (simp add: store sample_dumps_def) blast
  moreover have "ri_tenant_id (sample_caller t u c) = t" for t u c by (simp add: sample_caller_def)
  ultimately show ?thesis using run store(2) by metis
qed

end
