(* ===== verification/RateLimit.thy ===== *)
theory RateLimit
  imports RedisState
begin

text \<open>
  Request rates per tenant and host: \<open>SlidingWindowRateLimiter\<close> of \<open>mcp/servers/web_boundary.py\<close>,
  whose window is a deque in the server, and \<open>RedisRateLimiter\<close> of \<open>persistence/redis_state.py\<close>,
  whose window is a sorted set every replica shares. The contract \<open>rate_limiter\<close> is what both
  promise; from it, no window of time ever holds more requests than the limit.
\<close>

datatype RateError = RateLimitExceeded string int timedelta | RateStoreUnavailable string

section \<open>The window in memory\<close>

record SlidingWindowRateLimiter =
  sw_limit :: int
  sw_window :: timedelta
  sw_hits :: "(string, datetime list) dict"

definition SlidingWindowRateLimiter_init :: "int \<Rightarrow> timedelta \<Rightarrow> string + SlidingWindowRateLimiter" where
  "SlidingWindowRateLimiter_init limit window =
     (if limit < 1 then Inl ''a rate limit must allow at least one request''
      else Inr \<lparr>sw_limit = limit, sw_window = window, sw_hits = []\<rparr>)"

text \<open>The deque is pruned in place, so the pruned hits are the stored ones from then on.\<close>

definition SlidingWindowRateLimiter_hits :: "SlidingWindowRateLimiter \<Rightarrow> string \<Rightarrow> datetime list" where
  "SlidingWindowRateLimiter_hits w key = (case dict_get (sw_hits w) key of None \<Rightarrow> [] | Some hs \<Rightarrow> hs)"

definition SlidingWindowRateLimiter_prune ::
  "SlidingWindowRateLimiter \<Rightarrow> string \<Rightarrow> datetime \<Rightarrow> datetime list \<times> SlidingWindowRateLimiter" where
  "SlidingWindowRateLimiter_prune w key now =
     (let hits = dropWhile (\<lambda>h. h \<le> now - sw_window w) (SlidingWindowRateLimiter_hits w key)
      in (hits, w\<lparr>sw_hits := dict_set key hits (sw_hits w)\<rparr>))"

definition SlidingWindowRateLimiter_remaining ::
  "SlidingWindowRateLimiter \<Rightarrow> string \<Rightarrow> datetime \<Rightarrow> int \<times> SlidingWindowRateLimiter" where
  "SlidingWindowRateLimiter_remaining w key now =
     (let (hits, w') = SlidingWindowRateLimiter_prune w key now in (max 0 (sw_limit w - int (length hits)), w'))"

text \<open>The clock is read once to prune and once more to stamp the hit.\<close>

definition SlidingWindowRateLimiter_acquire ::
  "SlidingWindowRateLimiter \<Rightarrow> string \<Rightarrow> datetime \<Rightarrow> datetime \<Rightarrow> (RateError + int) \<times> SlidingWindowRateLimiter" where
  "SlidingWindowRateLimiter_acquire w key now stamp =
     (let (hits, w') = SlidingWindowRateLimiter_prune w key now in
      if int (length hits) \<ge> sw_limit w then (Inl (RateLimitExceeded key (sw_limit w) (sw_window w)), w')
      else let hits' = hits @ [stamp]
           in (Inr (sw_limit w - int (length hits')), w'\<lparr>sw_hits := dict_set key hits' (sw_hits w')\<rparr>))"


section \<open>The window in Redis\<close>

record RedisRateLimiter =
  rl_limit :: int
  rl_window :: timedelta
  rl_own_clock :: bool
  rl_prefix :: string

definition RedisRateLimiter_init :: "int \<Rightarrow> timedelta \<Rightarrow> bool \<Rightarrow> string \<Rightarrow> string + RedisRateLimiter" where
  "RedisRateLimiter_init limit window own_clock px =
     (if limit < 1 then Inl ''a rate limit must allow at least one request''
      else Inr \<lparr>rl_limit = limit, rl_window = window, rl_own_clock = own_clock, rl_prefix = px\<rparr>)"

definition RedisRateLimiter_key :: "RedisRateLimiter \<Rightarrow> string \<Rightarrow> string" where
  "RedisRateLimiter_key l key = rl_prefix l @ '':rate:'' @ key"

definition RedisRateLimiter_now :: "RedisRateLimiter \<Rightarrow> datetime \<Rightarrow> datetime option" where
  "RedisRateLimiter_now l now = (if rl_own_clock l then Some now else None)"

definition ACQUIRE :: "'k Redis \<Rightarrow> 'k \<Rightarrow> string \<Rightarrow> datetime option \<Rightarrow> int \<Rightarrow> int \<Rightarrow> string \<Rightarrow> int \<times> 'k" where
  "ACQUIRE rd k key arg window limit token =
     (let now = NOW rd k arg;
          k1 = rd_zremrangebyscore rd k key (now - window);
          used = rd_zcard rd k1 key
      in if used \<ge> limit then (- 1, k1)
         else let k2 = rd_zadd rd k1 key now token
              in (limit - used - 1, rd_pexpire rd k2 key \<lceil>of_int window / (1000 :: pyfloat)\<rceil>))"

definition REMAINING :: "'k Redis \<Rightarrow> 'k \<Rightarrow> string \<Rightarrow> datetime option \<Rightarrow> int \<Rightarrow> int \<times> 'k" where
  "REMAINING rd k key arg window =
     (let k1 = rd_zremrangebyscore rd k key (NOW rd k arg - window) in (rd_zcard rd k1 key, k1))"

definition RedisRateLimiter_remaining ::
  "'k Redis \<Rightarrow> RedisRateLimiter \<Rightarrow> 'k \<Rightarrow> string \<Rightarrow> datetime \<Rightarrow> (RateError + int) \<times> 'k" where
  "RedisRateLimiter_remaining rd l k key now =
     (case rd_error rd k of
        Some e \<Rightarrow> (Inl (RateStoreUnavailable (''the shared limit store is unavailable: '' @ e)), k)
      | None \<Rightarrow>
          let (used, k') = REMAINING rd k (RedisRateLimiter_key l key) (RedisRateLimiter_now l now) (rl_window l)
          in (Inr (max 0 (rl_limit l - used)), k'))"

definition RedisRateLimiter_acquire ::
  "'k Redis \<Rightarrow> RedisRateLimiter \<Rightarrow> 'k \<Rightarrow> string \<Rightarrow> datetime \<Rightarrow> string \<Rightarrow> (RateError + int) \<times> 'k" where
  "RedisRateLimiter_acquire rd l k key now token =
     (case rd_error rd k of
        Some e \<Rightarrow> (Inl (RateStoreUnavailable (''the shared limit store is unavailable: '' @ e)), k)
      | None \<Rightarrow>
          let (left, k') = ACQUIRE rd k (RedisRateLimiter_key l key) (RedisRateLimiter_now l now) (rl_window l) (rl_limit l) token
          in (if left < 0 then Inl (RateLimitExceeded key (rl_limit l) (rl_window l)) else Inr left, k'))"


section \<open>The contract\<close>

text \<open>
  A request: its key, the two clock readings and the token drawn for it. \<open>taken\<close> is the reading a
  limiter keeps. Requests come in the order of their readings and with tokens never drawn before.
\<close>

datatype rate_request = Req (rq_key: string) (rq_now: datetime) (rq_stamp: datetime) (rq_token: string)

type_synonym 'w acquire = "'w \<Rightarrow> rate_request \<Rightarrow> (RateError + int) \<times> 'w"

fun run_acquires :: "'w acquire \<Rightarrow> 'w \<Rightarrow> rate_request list \<Rightarrow> (rate_request \<times> (RateError + int)) list \<times> 'w" where
  "run_acquires acq w [] = ([], w)"
| "run_acquires acq w (q # qs) =
     (let (r, w1) = acq w q; (rs, w2) = run_acquires acq w1 qs in ((q, r) # rs, w2))"

fun in_order :: "datetime \<Rightarrow> rate_request list \<Rightarrow> bool" where
  "in_order t [] = True"
| "in_order t (q # qs) = (t \<le> rq_now q \<and> rq_now q \<le> rq_stamp q \<and> in_order (rq_stamp q) qs)"

definition granted_times :: "(rate_request \<Rightarrow> datetime) \<Rightarrow> string \<Rightarrow> (rate_request \<times> (RateError + int)) list \<Rightarrow> datetime list" where
  "granted_times taken key rs = map (\<lambda>(q, r). taken q) (filter (\<lambda>(q, r). rq_key q = key \<and> is_ok r) rs)"

lemma granted_times_simps [simp]:
  "granted_times taken key [] = []"
  "granted_times taken key ((q, r) # rs) =
     (if rq_key q = key \<and> is_ok r then taken q # granted_times taken key rs else granted_times taken key rs)"
  by (simp_all add: granted_times_def)

definition in_window :: "timedelta \<Rightarrow> datetime \<Rightarrow> datetime list \<Rightarrow> datetime list" where
  "in_window window e ts = filter (\<lambda>t. e - window < t \<and> t \<le> e) ts"

lemma in_window_simps [simp]:
  "in_window window e [] = []"
  "in_window window e (ts @ us) = in_window window e ts @ in_window window e us"
  "in_window window e (t # ts) = (if e - window < t \<and> t \<le> e then t # in_window window e ts else in_window window e ts)"
  by (simp_all add: in_window_def)

definition recent :: "datetime \<Rightarrow> datetime multiset \<Rightarrow> datetime multiset" where
  "recent cutoff hs = filter_mset (\<lambda>h. cutoff < h) hs"

lemma disjoint_insert_subset: "A \<subseteq> insert x B \<Longrightarrow> x \<notin> T \<Longrightarrow> B \<inter> T = {} \<Longrightarrow> A \<inter> T = {}"
  by blast

lemma filter_mset_weaken: "(\<And>x. P x \<Longrightarrow> Q x) \<Longrightarrow> filter_mset P hs \<subseteq># filter_mset Q hs"
  by (rule mset_subset_eqI) simp

lemma recent_recent: "c \<le> d \<Longrightarrow> recent d (recent c hs) = recent d hs"
  by (auto simp: recent_def filter_filter_mset intro!: filter_mset_cong)

lemma recent_union [simp]: "recent c (hs + ks) = recent c hs + recent c ks"
  by (simp add: recent_def)

locale rate_limiter =
  fixes acq :: "'w acquire" and limit :: int and window :: timedelta and taken :: "rate_request \<Rightarrow> datetime"
    and inv :: "'w \<Rightarrow> bool" and hits :: "'w \<Rightarrow> string \<Rightarrow> datetime multiset" and drawn :: "'w \<Rightarrow> string set"
  assumes window_pos: "0 < window" and limit_pos: "0 \<le> limit"
    and taken_between: "rq_now q \<le> rq_stamp q \<Longrightarrow> rq_now q \<le> taken q \<and> taken q \<le> rq_stamp q"
    and granted: "inv w \<Longrightarrow> \<forall>key. \<forall>h \<in># hits w key. h \<le> rq_now q \<Longrightarrow> rq_now q \<le> rq_stamp q \<Longrightarrow> rq_token q \<notin> drawn w \<Longrightarrow>
      acq w q = (Inr n, w') \<Longrightarrow> inv w' \<and> drawn w' \<subseteq> insert (rq_token q) (drawn w) \<and>
      hits w' = (hits w)(rq_key q := recent (rq_now q - window) (hits w (rq_key q)) + {#taken q#}) \<and>
      n = limit - int (size (hits w' (rq_key q))) \<and> 0 \<le> n"
    and refused: "inv w \<Longrightarrow> acq w q = (Inl e, w') \<Longrightarrow> inv w' \<and> drawn w' \<subseteq> drawn w \<and>
      (hits w' = hits w \<or> hits w' = (hits w)(rq_key q := recent (rq_now q - window) (hits w (rq_key q))))"
begin

text \<open>After any requests, the hits kept are those of the past grants that a later window can hold.\<close>

definition follows :: "'w \<Rightarrow> datetime \<Rightarrow> string \<Rightarrow> datetime list \<Rightarrow> bool" where
  "follows w t key past \<longleftrightarrow> inv w \<and> (\<forall>k. \<forall>h \<in># hits w k. h \<le> t) \<and> (\<forall>h \<in> set past. h \<le> t) \<and>
     recent (t - window) (mset past) = recent (t - window) (hits w key) \<and>
     (\<forall>e. int (length (in_window window e past)) \<le> limit)"

lemma follows_later:
  assumes "follows w t key past" and "t \<le> u"
  shows "follows w u key past"
proof -
  have "recent (u - window) (mset past) = recent (u - window) (hits w key)"
    using assms recent_recent [of "t - window" "u - window"] unfolding follows_def by (metis diff_right_mono)
  then show ?thesis using assms unfolding follows_def by (auto intro: order_trans)
qed

lemma follows_grant:
  assumes f: "follows w (rq_now q) key past" and stamp: "rq_now q \<le> rq_stamp q" and fresh: "rq_token q \<notin> drawn w"
    and acq: "acq w q = (Inr n, w')"
  shows "follows w' (rq_stamp q) key (if rq_key q = key then past @ [taken q] else past)"
proof -
  have tk: "rq_now q \<le> taken q" "taken q \<le> rq_stamp q" using taken_between [OF stamp] by auto
  have g: "inv w'" "hits w' = (hits w)(rq_key q := recent (rq_now q - window) (hits w (rq_key q)) + {#taken q#})"
    "n = limit - int (size (hits w' (rq_key q)))" "0 \<le> n"
    using granted [OF _ _ stamp fresh acq] f by (auto simp: follows_def)
  have old: "h \<le> rq_now q" if "h \<in># hits w k" for h k using f that by (auto simp: follows_def)
  have le: "h \<le> rq_stamp q" if "h \<in># hits w' k" for h k
    using that g(2) old [of h k] tk stamp by (auto simp: recent_def split: if_splits)
  show ?thesis
  proof (cases "rq_key q = key")
    case False
    with f g le show ?thesis using follows_later [OF f stamp] by (auto simp: follows_def)
  next
    case True
    have new: "recent (rq_now q - window) (mset (past @ [taken q])) = hits w' key"
      using f g(2) True tk(1) window_pos recent_recent [of "rq_now q - window" "rq_now q - window"]
      by (simp add: follows_def) (simp add: recent_def)
    have kept: "int (size (hits w' key)) \<le> limit" using g(3,4) True by simp
    have "int (length (in_window window e (past @ [taken q]))) \<le> limit" for e
    proof (cases "taken q \<le> e")
      case False
      with f show ?thesis by (simp add: follows_def)
    next
      case True
      have "length (in_window window e (past @ [taken q])) \<le> size (recent (rq_now q - window) (mset (past @ [taken q])))"
      proof -
        have "mset (in_window window e (past @ [taken q])) = filter_mset (\<lambda>t. e - window < t \<and> t \<le> e) (mset (past @ [taken q]))"
          by (simp add: in_window_def)
        also have "\<dots> \<subseteq># recent (rq_now q - window) (mset (past @ [taken q]))"
          unfolding recent_def using True tk(1) by (intro filter_mset_weaken) auto
        finally show ?thesis by (metis size_mset size_mset_mono)
      qed
      with kept new show ?thesis by simp
    qed
    moreover have "recent (rq_stamp q - window) (mset (past @ [taken q])) = recent (rq_stamp q - window) (hits w' key)"
      using new recent_recent [of "rq_now q - window" "rq_stamp q - window" "mset (past @ [taken q])"] stamp by simp
    moreover have "\<forall>h \<in> set past. h \<le> rq_stamp q" using f stamp by (auto simp: follows_def intro: order_trans)
    ultimately show ?thesis using True g(1) le tk(2) by (auto simp: follows_def)
  qed
qed

lemma follows_refusal:
  assumes f: "follows w (rq_now q) key past" and acq: "acq w q = (Inl e, w')"
  shows "follows w' (rq_now q) key past"
  using f refused [OF _ acq] recent_recent [of "rq_now q - window" "rq_now q - window" "hits w (rq_key q)"]
  by (auto simp: follows_def recent_def split: if_splits)

lemma run_follows:
  "follows w t key past \<Longrightarrow> in_order t qs \<Longrightarrow> distinct (map rq_token qs) \<Longrightarrow> drawn w \<inter> set (map rq_token qs) = {} \<Longrightarrow>
   run_acquires acq w qs = (rs, w') \<Longrightarrow> \<exists>u. follows w' u key (past @ granted_times taken key rs)"
proof (induction qs arbitrary: w t past rs)
  case Nil
  then show ?case by auto
next
  case (Cons q qs)
  obtain r w1 where step: "acq w q = (r, w1)" by (cases "acq w q")
  obtain rs1 where rest: "run_acquires acq w1 qs = (rs1, w')" "rs = (q, r) # rs1"
    using Cons.prems(5) step by (auto split: prod.splits)
  have now: "follows w (rq_now q) key past" using follows_later Cons.prems(1,2) by simp
  have order: "rq_now q \<le> rq_stamp q" "in_order (rq_stamp q) qs" using Cons.prems(2) by auto
  show ?case
  proof (cases r)
    case (Inl e)
    have "follows w1 (rq_stamp q) key past"
      using follows_later [OF follows_refusal [OF now] order(1)] step Inl by blast
    moreover have "drawn w1 \<inter> set (map rq_token qs) = {}"
      using refused [of w q e w1] step Inl now Cons.prems(4) by (auto simp: follows_def)
    ultimately show ?thesis using Cons.IH [OF _ order(2) _ _ rest(1)] Cons.prems(3) rest(2) Inl by auto
  next
    case (Inr n)
    have fresh: "rq_token q \<notin> drawn w" using Cons.prems(4) by auto
    have "follows w1 (rq_stamp q) key (if rq_key q = key then past @ [taken q] else past)"
      using follows_grant [OF now order(1) fresh] step Inr by blast
    moreover have "drawn w1 \<subseteq> insert (rq_token q) (drawn w)"
      using granted [of w q n w1] step Inr now order(1) fresh by (auto simp: follows_def)
    then have "drawn w1 \<inter> set (map rq_token qs) = {}"
      by (rule disjoint_insert_subset) (use Cons.prems(3,4) in auto)
    ultimately show ?thesis using Cons.IH [OF _ order(2) _ _ rest(1)] Cons.prems(3) rest(2) Inr by fastforce
  qed
qed

theorem window_never_exceeds_limit:
  assumes "inv w" and "\<And>key. hits w key = {#}" and "in_order t qs" and "distinct (map rq_token qs)"
    and "drawn w \<inter> set (map rq_token qs) = {}" and "run_acquires acq w qs = (rs, w')"
  shows "int (length (in_window window e (granted_times taken key rs))) \<le> limit"
proof -
  have "follows w t key []" using assms(1,2) limit_pos by (simp add: follows_def)
  from run_follows [OF this assms(3-6)] show ?thesis by (auto simp: follows_def)
qed

end


section \<open>The window in memory keeps the contract\<close>

definition memory_acquire :: "SlidingWindowRateLimiter acquire" where
  "memory_acquire w q = SlidingWindowRateLimiter_acquire w (rq_key q) (rq_now q) (rq_stamp q)"

definition memory_inv :: "int \<Rightarrow> timedelta \<Rightarrow> SlidingWindowRateLimiter \<Rightarrow> bool" where
  "memory_inv limit window w \<longleftrightarrow> sw_limit w = limit \<and> sw_window w = window \<and>
     (\<forall>key. sorted (SlidingWindowRateLimiter_hits w key))"

lemma hits_set [simp]:
  "SlidingWindowRateLimiter_hits (w\<lparr>sw_hits := dict_set key hs d\<rparr>) =
     (SlidingWindowRateLimiter_hits (w\<lparr>sw_hits := d\<rparr>))(key := hs)"
  by (auto simp: SlidingWindowRateLimiter_hits_def)

lemma dropWhile_sorted: "sorted hs \<Longrightarrow> dropWhile (\<lambda>h. h \<le> (c :: int)) hs = filter (\<lambda>h. c < h) hs"
  by (induction hs) (auto simp: filter_id_conv intro!: filter_True [symmetric])

lemma memory_rate_limiter:
  assumes "0 < window" and "1 \<le> limit"
  shows "rate_limiter memory_acquire limit window rq_stamp (memory_inv limit window)
    (\<lambda>w key. mset (SlidingWindowRateLimiter_hits w key)) (\<lambda>_. {})"
proof
  fix w w' q e and n :: int
  assume inv: "memory_inv limit window w"
  let ?hs = "filter (\<lambda>h. rq_now q - window < h) (SlidingWindowRateLimiter_hits w (rq_key q))"
  let ?pruned = "w\<lparr>sw_hits := dict_set (rq_key q) ?hs (sw_hits w)\<rparr>"
  have prune: "SlidingWindowRateLimiter_prune w (rq_key q) (rq_now q) = (?hs, ?pruned)"
    using inv by (simp add: SlidingWindowRateLimiter_prune_def memory_inv_def dropWhile_sorted Let_def)
  have sorted: "sorted (SlidingWindowRateLimiter_hits w key)" for key using inv by (simp add: memory_inv_def)
  have recent: "recent (rq_now q - window) (mset (SlidingWindowRateLimiter_hits w (rq_key q))) = mset ?hs"
    by (simp add: recent_def)
  show "memory_acquire w q = (Inl e, w') \<Longrightarrow> memory_inv limit window w' \<and> {} \<subseteq> {} \<and>
      ((\<lambda>key. mset (SlidingWindowRateLimiter_hits w' key)) = (\<lambda>key. mset (SlidingWindowRateLimiter_hits w key)) \<or>
       (\<lambda>key. mset (SlidingWindowRateLimiter_hits w' key)) = (\<lambda>key. mset (SlidingWindowRateLimiter_hits w key))
         (rq_key q := recent (rq_now q - window) (mset (SlidingWindowRateLimiter_hits w (rq_key q)))))"
    using inv sorted
    by (auto simp: memory_acquire_def SlidingWindowRateLimiter_acquire_def prune recent memory_inv_def sorted_wrt_filter Let_def
        fun_eq_iff split: if_splits)
  assume old: "\<forall>key. \<forall>h \<in># mset (SlidingWindowRateLimiter_hits w key). h \<le> rq_now q" and stamp: "rq_now q \<le> rq_stamp q"
  have le: "h \<le> rq_stamp q" if "h \<in> set (SlidingWindowRateLimiter_hits w key)" for h key
    using old stamp that by fastforce
  show "memory_acquire w q = (Inr n, w') \<Longrightarrow> memory_inv limit window w' \<and> {} \<subseteq> insert (rq_token q) {} \<and>
      (\<lambda>key. mset (SlidingWindowRateLimiter_hits w' key)) = (\<lambda>key. mset (SlidingWindowRateLimiter_hits w key))
         (rq_key q := recent (rq_now q - window) (mset (SlidingWindowRateLimiter_hits w (rq_key q))) + {#rq_stamp q#}) \<and>
      n = limit - int (size (mset (SlidingWindowRateLimiter_hits w' (rq_key q)))) \<and> 0 \<le> n"
    using inv sorted le
    by (auto simp: memory_acquire_def SlidingWindowRateLimiter_acquire_def prune recent memory_inv_def sorted_wrt_filter
        sorted_append Let_def fun_eq_iff split: if_splits)
qed (use assms in auto)

interpretation memory_rate: rate_limiter memory_acquire 30 60000000 rq_stamp "memory_inv 30 60000000"
  "\<lambda>w key. mset (SlidingWindowRateLimiter_hits w key)" "\<lambda>_. {}"
  by (rule memory_rate_limiter) simp_all

section \<open>The shared window keeps the contract\<close>

lemma rate_key_inject [simp]: "RedisRateLimiter_key l a = RedisRateLimiter_key l b \<longleftrightarrow> a = b"
  by (simp add: RedisRateLimiter_key_def)

definition redis_acquire :: "'k Redis \<Rightarrow> RedisRateLimiter \<Rightarrow> 'k acquire" where
  "redis_acquire rd l k q = RedisRateLimiter_acquire rd l k (rq_key q) (rq_now q) (rq_token q)"

definition redis_hits :: "'k Redis \<Rightarrow> RedisRateLimiter \<Rightarrow> 'k \<Rightarrow> string \<Rightarrow> datetime multiset" where
  "redis_hits rd l k key = image_mset fst (mset (rd_zrange rd k (RedisRateLimiter_key l key)))"

definition redis_drawn :: "'k Redis \<Rightarrow> RedisRateLimiter \<Rightarrow> 'k \<Rightarrow> string set" where
  "redis_drawn rd l k = {m. \<exists>key score. (score, m) \<in># mset (rd_zrange rd k (RedisRateLimiter_key l key))}"

context redis_server
begin

definition pruned :: "'k \<Rightarrow> string \<Rightarrow> int \<Rightarrow> (int \<times> string) multiset" where
  "pruned k key cutoff = filter_mset (\<lambda>entry. cutoff < fst entry) (mset (rd_zrange rd k key))"

lemma ACQUIRE_result:
  assumes "ACQUIRE rd k key (Some now) window limit token = (left, k')"
  shows "if int (size (pruned k key (now - window))) \<ge> limit
    then left = - 1 \<and> k' = rd_zremrangebyscore rd k key (now - window)
    else left = limit - int (size (pruned k key (now - window))) - 1"
proof -
  have "rd_zcard rd (rd_zremrangebyscore rd k key (now - window)) key = int (size (pruned k key (now - window)))"
    using zrem_zrange [of k key "now - window" key] unfolding rd_zcard_def pruned_def by (metis size_mset)
  with assms show ?thesis by (auto simp: ACQUIRE_def NOW_def Let_def split: if_splits)
qed

lemma ACQUIRE_adds:
  assumes "0 < window" and run: "ACQUIRE rd k key (Some now) window limit token = (left, k')" and "0 \<le> left"
    and fresh: "token \<notin> snd ` set (rd_zrange rd k key)"
  shows "mset (rd_zrange rd k' key') =
    (if key' = key then add_mset (now, token) (pruned k key (now - window)) else mset (rd_zrange rd k key'))"
proof -
  let ?k1 = "rd_zremrangebyscore rd k key (now - window)"
  have k1: "mset (rd_zrange rd ?k1 key'') = (if key'' = key then pruned k key (now - window) else mset (rd_zrange rd k key''))" for key''
    using zrem_zrange [of k key "now - window" key''] by (simp add: pruned_def)
  have "token \<notin> snd ` set_mset (mset (rd_zrange rd ?k1 key))"
    unfolding k1 using fresh by (auto simp: pruned_def)
  then have fresh1: "token \<notin> snd ` set (rd_zrange rd ?k1 key)" by simp
  have pos: "0 < \<lceil>of_int window / (1000 :: rat)\<rceil>" using assms(1) by simp
  have "k' = rd_pexpire rd (rd_zadd rd ?k1 key now token) key \<lceil>of_int window / (1000 :: rat)\<rceil>"
    using run assms(3) by (auto simp: ACQUIRE_def NOW_def Let_def split: if_splits)
  then show ?thesis using pexpire_keeps [OF pos] zadd_zrange [OF fresh1, of now key'] k1 by simp
qed

lemma pruned_hits:
  "image_mset fst (pruned k (RedisRateLimiter_key l key) c) = recent c (redis_hits rd l k key)"
  by (simp add: pruned_def recent_def redis_hits_def image_mset_filter_mset_swap)

lemma redis_rate_limiter:
  assumes own: "rl_own_clock l" and pos: "0 < rl_window l" "1 \<le> rl_limit l"
  shows "rate_limiter (redis_acquire rd l) (rl_limit l) (rl_window l) rq_now (\<lambda>_. True) (redis_hits rd l) (redis_drawn rd l)"
proof
  fix k k' q e and n :: int
  let ?key = "RedisRateLimiter_key l (rq_key q)"
  let ?left = "fst (ACQUIRE rd k ?key (Some (rq_now q)) (rl_window l) (rl_limit l) (rq_token q))"
  let ?k' = "snd (ACQUIRE rd k ?key (Some (rq_now q)) (rl_window l) (rl_limit l) (rq_token q))"
  have acq: "redis_acquire rd l k q = (case rd_error rd k of
      Some e \<Rightarrow> (Inl (RateStoreUnavailable (''the shared limit store is unavailable: '' @ e)), k)
    | None \<Rightarrow> (if ?left < 0 then Inl (RateLimitExceeded (rq_key q) (rl_limit l) (rl_window l)) else Inr ?left, ?k'))"
    using own by (cases "rd_error rd k")
      (simp_all add: redis_acquire_def RedisRateLimiter_acquire_def RedisRateLimiter_now_def case_prod_unfold Let_def)
  have res: "ACQUIRE rd k ?key (Some (rq_now q)) (rl_window l) (rl_limit l) (rq_token q) = (?left, ?k')" by simp
  have pr: "mset (rd_zrange rd (rd_zremrangebyscore rd k ?key (rq_now q - rl_window l)) key') =
      (if key' = ?key then pruned k ?key (rq_now q - rl_window l) else mset (rd_zrange rd k key'))" for key'
    using zrem_zrange [of k ?key "rq_now q - rl_window l" key'] by (simp add: pruned_def)
  show "redis_acquire rd l k q = (Inl e, k') \<Longrightarrow> True \<and> redis_drawn rd l k' \<subseteq> redis_drawn rd l k \<and>
      (redis_hits rd l k' = redis_hits rd l k \<or>
       redis_hits rd l k' = (redis_hits rd l k)(rq_key q := recent (rq_now q - rl_window l) (redis_hits rd l k (rq_key q))))"
  proof -
    assume run: "redis_acquire rd l k q = (Inl e, k')"
    consider "k' = k" | "k' = rd_zremrangebyscore rd k ?key (rq_now q - rl_window l)"
      using run acq ACQUIRE_result [OF res] by (auto split: option.splits if_splits)
    then show ?thesis
    proof cases
      case 2
      have "redis_hits rd l k' = (redis_hits rd l k)(rq_key q := recent (rq_now q - rl_window l) (redis_hits rd l k (rq_key q)))"
        unfolding 2 by (rule ext) (simp add: redis_hits_def pr, simp add: pruned_hits redis_hits_def [symmetric])
      moreover have "redis_drawn rd l k' \<subseteq> redis_drawn rd l k"
        unfolding 2 redis_drawn_def pr by (auto simp: pruned_def split: if_splits)
      ultimately show ?thesis by blast
    qed simp
  qed
  assume fresh: "rq_token q \<notin> redis_drawn rd l k"
  show "redis_acquire rd l k q = (Inr n, k') \<Longrightarrow> True \<and> redis_drawn rd l k' \<subseteq> insert (rq_token q) (redis_drawn rd l k) \<and>
      redis_hits rd l k' = (redis_hits rd l k)(rq_key q := recent (rq_now q - rl_window l) (redis_hits rd l k (rq_key q)) + {#rq_now q#}) \<and>
      n = rl_limit l - int (size (redis_hits rd l k' (rq_key q))) \<and> 0 \<le> n"
  proof -
    assume run: "redis_acquire rd l k q = (Inr n, k')"
    have n: "n = ?left" "0 \<le> ?left" "k' = ?k'" using run acq by (auto split: option.splits if_splits)
    have "rq_token q \<notin> snd ` set (rd_zrange rd k ?key)" using fresh by (force simp: redis_drawn_def)
    from ACQUIRE_adds [OF pos(1) res n(2) this] have
      add: "mset (rd_zrange rd k' key') = (if key' = ?key then add_mset (rq_now q, rq_token q) (pruned k ?key (rq_now q - rl_window l))
        else mset (rd_zrange rd k key'))" for key' by (simp add: n(3))
    have hits: "redis_hits rd l k' = (redis_hits rd l k)(rq_key q := recent (rq_now q - rl_window l) (redis_hits rd l k (rq_key q)) + {#rq_now q#})"
      by (rule ext) (simp add: redis_hits_def add, simp add: pruned_hits redis_hits_def [symmetric])
    moreover have "redis_drawn rd l k' \<subseteq> insert (rq_token q) (redis_drawn rd l k)"
      unfolding redis_drawn_def add by (auto simp: pruned_def split: if_splits)
    moreover have "n = rl_limit l - int (size (redis_hits rd l k' (rq_key q)))"
    proof -
      have "size (recent (rq_now q - rl_window l) (redis_hits rd l k (rq_key q))) = size (pruned k ?key (rq_now q - rl_window l))"
        by (metis pruned_hits size_image_mset)
      then show ?thesis using ACQUIRE_result [OF res] n(1,2) by (simp add: hits split: if_splits)
    qed
    ultimately show ?thesis using n by simp
  qed
qed (use assms in auto)

end

definition default_shared_limiter :: RedisRateLimiter where
  "default_shared_limiter = \<lparr>rl_limit = 30, rl_window = 60000000, rl_own_clock = True, rl_prefix = ''research''\<rparr>"

interpretation redis_rate: rate_limiter "redis_acquire RedisServer_commands default_shared_limiter" 30 60000000 rq_now
  "\<lambda>_. True" "redis_hits RedisServer_commands default_shared_limiter" "redis_drawn RedisServer_commands default_shared_limiter"
  using redis.redis_rate_limiter [of default_shared_limiter] by (simp add: default_shared_limiter_def)

section \<open>No window holds more than the limit\<close>

text \<open>
  A request rate is a bound on every window of time, not only on the ones that start when a
  request is made: over any run of requests in the order of the clock, the requests granted to a
  key with times in any interval of the window's length are at most the limit.
\<close>

theorem rate_window_never_exceeds_limit:
  assumes "SlidingWindowRateLimiter_init limit window = Inr w" and "0 < window" and "in_order t qs"
    and "distinct (map rq_token qs)" and "run_acquires memory_acquire w qs = (rs, w')"
  shows "int (length (in_window window e (granted_times rq_stamp key rs))) \<le> limit"
proof -
  have w: "w = \<lparr>sw_limit = limit, sw_window = window, sw_hits = []\<rparr>" "1 \<le> limit"
    using assms(1) by (auto simp: SlidingWindowRateLimiter_init_def split: if_splits)
  then have "memory_inv limit window w" "\<And>key. mset (SlidingWindowRateLimiter_hits w key) = {#}"
    by (auto simp: memory_inv_def SlidingWindowRateLimiter_hits_def)
  from rate_limiter.window_never_exceeds_limit [OF memory_rate_limiter [OF assms(2) w(2)] this assms(3,4) _ assms(5)]
  show ?thesis by simp
qed

theorem rate_window_never_exceeds_limit_witness:
  "int (length (in_window 10 12 (granted_times rq_stamp ''a'' (fst (run_acquires memory_acquire
     \<lparr>sw_limit = 2, sw_window = 10, sw_hits = []\<rparr> [Req ''a'' 1 1 ''t1'', Req ''a'' 5 6 ''t2'', Req ''a'' 9 9 ''t3'', Req ''a'' 12 12 ''t4'']))))) \<le> 2"
proof -
  let ?qs = "[Req ''a'' 1 1 ''t1'', Req ''a'' 5 6 ''t2'', Req ''a'' 9 9 ''t3'', Req ''a'' 12 12 ''t4'']"
  obtain rs w' where run: "run_acquires memory_acquire \<lparr>sw_limit = 2, sw_window = 10, sw_hits = []\<rparr> ?qs = (rs, w')"
    by (cases "run_acquires memory_acquire \<lparr>sw_limit = 2, sw_window = 10, sw_hits = []\<rparr> ?qs")
  have "int (length (in_window 10 12 (granted_times rq_stamp ''a'' rs))) \<le> 2"
    by (rule rate_window_never_exceeds_limit [OF _ _ _ _ run, where t = 0])
      (simp_all add: SlidingWindowRateLimiter_init_def)
  with run show ?thesis by simp
qed

text \<open>
  The same bound holds across replicas: when the window is kept in Redis, every interval of
  the window's length holds at most the limit, whichever replica granted each request.
\<close>

theorem shared_rate_window_never_exceeds_limit:
  assumes "redis_server rd" and "rl_own_clock l" and "0 < rl_window l" and "1 \<le> rl_limit l"
    and "\<And>key. rd_zrange rd k (RedisRateLimiter_key l key) = []" and "in_order t qs" and "distinct (map rq_token qs)"
    and "run_acquires (redis_acquire rd l) k qs = (rs, k')"
  shows "int (length (in_window (rl_window l) e (granted_times rq_now key rs))) \<le> rl_limit l"
  by (rule rate_limiter.window_never_exceeds_limit [OF redis_server.redis_rate_limiter [OF assms(1-4)] _ _ assms(6,7) _ assms(8)])
    (simp_all add: redis_hits_def redis_drawn_def assms(5))

theorem shared_rate_window_never_exceeds_limit_witness:
  "int (length (in_window 60000000 7 (granted_times rq_now ''a'' (fst (run_acquires
     (redis_acquire RedisServer_commands default_shared_limiter) empty_redis [Req ''a'' 1 1 ''t1'', Req ''a'' 5 6 ''t2'']))))) \<le> 30"
proof -
  let ?qs = "[Req ''a'' 1 1 ''t1'', Req ''a'' 5 6 ''t2'']"
  obtain rs k' where run: "run_acquires (redis_acquire RedisServer_commands default_shared_limiter) empty_redis ?qs = (rs, k')"
    by (cases "run_acquires (redis_acquire RedisServer_commands default_shared_limiter) empty_redis ?qs")
  have "int (length (in_window (rl_window default_shared_limiter) 7 (granted_times rq_now ''a'' rs))) \<le> rl_limit default_shared_limiter"
    by (rule shared_rate_window_never_exceeds_limit [OF redis.redis_server_axioms _ _ _ _ _ _ run, where t = 0])
      (simp_all add: default_shared_limiter_def empty_redis_def RedisServer_commands_def)
  with run show ?thesis by (simp add: default_shared_limiter_def)
qed

end
