(* ===== verification/WebBoundary.thy ===== *)
theory WebBoundary
  imports Urls RateLimit ServerText
begin

text \<open>
  The outbound-request boundary (\<open>mcp/servers/web_boundary.py\<close>) and the web research service that
  applies it (\<open>mcp/servers/web_research.py\<close>). Address parsing of \<open>ipaddress\<close>, the rate limiter and
  the backend are parameters; the limiters are those of the theory \<open>RateLimit\<close>.
\<close>

section \<open>The domain policy\<close>

definition ALLOWED_SCHEMES :: "string list" where
  "ALLOWED_SCHEMES = [''https'']"

definition BLOCKED_HOST_SUFFIXES :: "string list" where
  "BLOCKED_HOST_SUFFIXES = [''.local'', ''.localdomain'', ''.internal'', ''.intranet'', ''.corp'', ''.home.arpa'']"

definition CLOUD_METADATA_HOSTS :: "string list" where
  "CLOUD_METADATA_HOSTS = [''169.254.169.254'', ''metadata.google.internal'', ''metadata.goog'', ''instance-data'']"

record DomainPolicy =
  dp_domains :: "string list"
  dp_allow_subdomains :: bool

definition DomainPolicy_valid :: "DomainPolicy \<Rightarrow> bool" where
  "DomainPolicy_valid p \<longleftrightarrow> dp_domains p \<noteq> [] \<and>
     list_all (\<lambda>d. d \<noteq> [] \<and> d = py_lower (py_strip d) \<and> CHR ''/'' \<notin> set d) (dp_domains p)"

definition DomainPolicy_permits_host :: "DomainPolicy \<Rightarrow> string \<Rightarrow> bool" where
  "DomainPolicy_permits_host p host \<longleftrightarrow> host \<in> set (dp_domains p) \<or>
     dp_allow_subdomains p \<and> list_ex (\<lambda>d. py_endswith host (CHR ''.'' # d)) (dp_domains p)"

text \<open>What \<open>ipaddress.ip_address\<close> says of a host: \<open>None\<close> when it is not an address.\<close>

record ip_address =
  ip_is_private :: bool
  ip_is_loopback :: bool
  ip_is_link_local :: bool
  ip_is_reserved :: bool
  ip_is_multicast :: bool
  ip_is_unspecified :: bool

definition not_public :: "ip_address \<Rightarrow> bool" where
  "not_public a \<longleftrightarrow> ip_is_private a \<or> ip_is_loopback a \<or> ip_is_link_local a \<or> ip_is_reserved a \<or>
     ip_is_multicast a \<or> ip_is_unspecified a"

text \<open>The library as the boundary sees it.\<close>

record web_library =
  wl_netloc_ok :: "string \<Rightarrow> bool"
  wl_ip_address :: "string \<Rightarrow> ip_address option"

definition is_unroutable_address :: "web_library \<Rightarrow> string \<Rightarrow> bool" where
  "is_unroutable_address lib host = (case wl_ip_address lib host of None \<Rightarrow> False | Some a \<Rightarrow> not_public a)"

datatype WebError =
    SourceNotAllowed string
  | WebValueError string
  | WebRate RateError
  | WebLookup string
  | WebRuntime string
  | WebEscaped string

definition normalize_source_url :: "web_library \<Rightarrow> DomainPolicy \<Rightarrow> string \<Rightarrow> WebError + string" where
  "normalize_source_url lib policy url =
     (case urlsplit (wl_netloc_ok lib) (py_strip url) of
        None \<Rightarrow> Inl (WebValueError ''netloc'')
      | Some parts \<Rightarrow>
          let host = py_lower (case us_hostname parts of None \<Rightarrow> [] | Some h \<Rightarrow> h) in
          if py_lower (us_scheme parts) \<notin> set ALLOWED_SCHEMES
          then Inl (SourceNotAllowed (''scheme '' @ (if us_scheme parts = [] then ''(none)'' else us_scheme parts) @
                 '' is not permitted for research''))
          else if (case us_username parts of None \<Rightarrow> False | Some u \<Rightarrow> u \<noteq> []) \<or>
                  (case us_password parts of None \<Rightarrow> False | Some p \<Rightarrow> p \<noteq> [])
          then Inl (SourceNotAllowed ''a research URL must not carry embedded credentials'')
          else if host = [] then Inl (SourceNotAllowed ''a research URL must name a host'')
          else if host \<in> set CLOUD_METADATA_HOSTS \<or> is_unroutable_address lib host
          then Inl (SourceNotAllowed (''host '' @ host @ '' is not a public research source''))
          else if list_ex (\<lambda>suf. py_endswith host suf) BLOCKED_HOST_SUFFIXES
          then Inl (SourceNotAllowed (''host '' @ host @ '' resolves inside a private network''))
          else if \<not> DomainPolicy_permits_host policy host
          then Inl (SourceNotAllowed (''host '' @ host @ '' is not an approved research source''))
          else case us_port parts of
                 None \<Rightarrow> Inl (WebValueError ''port'')
               | Some port \<Rightarrow>
                   if port \<noteq> None \<and> port \<noteq> Some 443
                   then Inl (SourceNotAllowed (''port '' @ py_str_nat (the port) @ '' is not permitted for research''))
                   else Inr (''https://'' @ host @ (if us_path parts = [] then ''/'' else us_path parts) @
                          (if us_query parts = [] then [] else CHR ''?'' # us_query parts)))"

definition rate_limit_key :: "web_library \<Rightarrow> string \<Rightarrow> string \<Rightarrow> WebError + string" where
  "rate_limit_key lib tenant_id url =
     (case urlsplit (wl_netloc_ok lib) url of
        None \<Rightarrow> Inl (WebValueError ''netloc'')
      | Some parts \<Rightarrow> Inr (tenant_id @ ''|'' @
          py_lower (case us_hostname parts of None \<Rightarrow> ''unknown'' | Some h \<Rightarrow> h)))"


section \<open>The web research service\<close>

record SourceDocument =
  sd_url :: string
  sd_title :: string
  sd_text :: string

definition MAX_SEARCH_RESULTS :: int where
  "MAX_SEARCH_RESULTS = 10"

text \<open>
  What surrounds the service: the library, the limiter, the backend's answers and the clock
  readings and token of the one request made.
\<close>

record 'w web_env =
  we_lib :: web_library
  we_policy :: DomainPolicy
  we_acquire :: "'w acquire"
  we_request :: "string \<Rightarrow> rate_request"
  we_fetch :: "string \<Rightarrow> WebError + SourceDocument"
  we_search :: "string \<Rightarrow> int \<Rightarrow> WebError + SourceDocument list"

definition require_tenant :: "string \<Rightarrow> WebError + unit" where
  "require_tenant tenant_id =
     (if py_strip tenant_id = [] then Inl (WebValueError ''a web research call must identify its tenant'') else Inr ())"

definition is_fetchable :: "web_library \<Rightarrow> DomainPolicy \<Rightarrow> string \<Rightarrow> WebError + bool" where
  "is_fetchable lib policy url =
     (case normalize_source_url lib policy url of
        Inl (SourceNotAllowed _) \<Rightarrow> Inr False
      | Inl e \<Rightarrow> Inl e
      | Inr _ \<Rightarrow> Inr True)"

fun keep_fetchable :: "web_library \<Rightarrow> DomainPolicy \<Rightarrow> SourceDocument list \<Rightarrow> WebError + SourceDocument list" where
  "keep_fetchable lib policy [] = Inr []"
| "keep_fetchable lib policy (d # ds) =
     bind_result (is_fetchable lib policy (sd_url d)) (\<lambda>ok.
       bind_result (keep_fetchable lib policy ds) (\<lambda>rest. Inr (if ok then d # rest else rest)))"

text \<open>Each call returns its result, the limiter after it and the URLs it asked the backend for.\<close>

definition WebResearchService_search ::
  "'w web_env \<Rightarrow> 'w \<Rightarrow> string \<Rightarrow> string \<Rightarrow> int \<Rightarrow> (WebError + SourceDocument list) \<times> 'w" where
  "WebResearchService_search env w tenant_id query limit =
     (case require_tenant tenant_id of Inl e \<Rightarrow> (Inl e, w) | Inr _ \<Rightarrow>
      if py_strip query = [] then (Inl (WebValueError ''a search query must not be empty''), w)
      else case we_acquire env w (we_request env (tenant_id @ ''|search'')) of
        (Inl e, w') \<Rightarrow> (Inl (WebRate e), w')
      | (Inr _, w') \<Rightarrow>
          (bind_result (we_search env query (max 1 (min limit MAX_SEARCH_RESULTS)))
             (\<lambda>ds. keep_fetchable (we_lib env) (we_policy env) ds), w'))"

definition WebResearchService_fetch ::
  "'w web_env \<Rightarrow> 'w \<Rightarrow> string \<Rightarrow> string \<Rightarrow> (WebError + SourceDocument) \<times> 'w \<times> string list" where
  "WebResearchService_fetch env w tenant_id url =
     (case bind_result (require_tenant tenant_id) (\<lambda>_.
             bind_result (normalize_source_url (we_lib env) (we_policy env) url) (\<lambda>normalized.
               bind_result (rate_limit_key (we_lib env) tenant_id normalized) (\<lambda>key. Inr (normalized, key)))) of
        Inl e \<Rightarrow> (Inl e, w, [])
      | Inr (normalized, key) \<Rightarrow>
          (case we_acquire env w (we_request env key) of
             (Inl e, w') \<Rightarrow> (Inl (WebRate e), w', [])
           | (Inr _, w') \<Rightarrow>
               (bind_result (we_fetch env normalized) (\<lambda>d.
                  Inr \<lparr>sd_url = normalized, sd_title = sd_title d, sd_text = sd_text d\<rparr>), w', [normalized])))"


text \<open>The two tools of \<open>build_web_research_server\<close>, with the messages they give.\<close>

definition rate_message :: "RateError \<Rightarrow> string" where
  "rate_message e = (case e of
     RateLimitExceeded key limit window \<Rightarrow>
       ''rate limited: '' @ key @ '' exceeded '' @ py_str_int limit @ '' requests per '' @ py_str_int (sgn window * (\<bar>window\<bar> div 1000000)) @ ''s''
   | RateStoreUnavailable m \<Rightarrow> ''rate limit unavailable: '' @ m)"

definition search_tool :: "'w web_env \<Rightarrow> 'w \<Rightarrow> string \<Rightarrow> string \<Rightarrow> int \<Rightarrow> (WebError ToolError + string) \<times> 'w" where
  "search_tool env w tenant_id query limit =
     (let (r, w') = WebResearchService_search env w tenant_id query limit in
      (bind_result (tool_result (\<lambda>e. case e of WebRate e \<Rightarrow> Some (rate_message e) | _ \<Rightarrow> None) r) (\<lambda>documents.
         Inr (json_text (VList (map (\<lambda>d. VDict [(''url'', VStr (sd_url d)), (''title'', VStr (sd_title d))]) documents)))), w'))"

definition fetch_tool :: "'w web_env \<Rightarrow> 'w \<Rightarrow> string \<Rightarrow> string \<Rightarrow> (WebError ToolError + string) \<times> 'w" where
  "fetch_tool env w tenant_id url =
     (let (r, w', _) = WebResearchService_fetch env w tenant_id url in
      (bind_result (tool_result (\<lambda>e. case e of
           WebRate e \<Rightarrow> Some (rate_message e) | SourceNotAllowed m \<Rightarrow> Some (''source refused: '' @ m) | _ \<Rightarrow> None) r)
         (\<lambda>document. Inr (sd_text document)), w'))"


section \<open>What the boundary guarantees\<close>


definition sample_lib :: web_library where
  "sample_lib = \<lparr>wl_netloc_ok = (\<lambda>_. True), wl_ip_address = (\<lambda>_. None)\<rparr>"

definition sample_policy :: DomainPolicy where
  "sample_policy = \<lparr>dp_domains = [''example.com''], dp_allow_subdomains = True\<rparr>"

lemma sample_normalized:
  "normalize_source_url sample_lib sample_policy '' https://docs.example.com:443/a?q=1#top '' = Inr ''https://docs.example.com/a?q=1''"
  by (simp add: normalize_source_url_def sample_lib_def sample_policy_def urlsplit_def split_scheme_def unsafe_removed_def
      py_strip_def py_rstrip_def py_lstrip_def is_space_def ascii_alpha_def scheme_char_def py_lower_def lower_char_def netloc_end_def
      us_hostname_def us_hostinfo_def rpartition_def us_username_def us_password_def us_port_def ascii_digit_def
      ALLOWED_SCHEMES_def CLOUD_METADATA_HOSTS_def BLOCKED_HOST_SUFFIXES_def is_unroutable_address_def
      DomainPolicy_permits_host_def py_int_of_digits_def digit_value_def suffix_to_prefix Let_def)


end
