(* ===== verification/FilesystemBoundary.thy ===== *)
theory FilesystemBoundary
  imports Sanitizer ServerText
begin

text \<open>
  The tenant workspace boundary (\<open>mcp/servers/filesystem_boundary.py\<close>) and the service behind the
  filesystem server (\<open>mcp/servers/filesystem_server.py\<close>). An absolute path is its list of
  components. The file system is a parameter: what resolving a path gives, which follows every
  symbolic link and may fail, and what is stored where.
\<close>

type_synonym path = "string list"

record file_system =
  fs_resolve :: "path \<Rightarrow> path option"
  fs_exists :: "path \<Rightarrow> bool"
  fs_is_file :: "path \<Rightarrow> bool"
  fs_is_dir :: "path \<Rightarrow> bool"
  fs_rglob :: "path \<Rightarrow> path list"
  fs_read_bytes :: "path \<Rightarrow> byte list"

datatype FsError = PathNotAllowed string | FsFileNotFound string | FsValueError string | FsOSError

section \<open>The boundary\<close>

definition READABLE_SUFFIXES :: "string list" where
  "READABLE_SUFFIXES = [''.csv'', ''.json'', ''.jsonl'', ''.md'', ''.txt'', ''.yaml'', ''.yml'']"

definition MAX_LISTED_ENTRIES :: nat where
  "MAX_LISTED_ENTRIES = 500"

text \<open>\<open>WorkspaceRoots\<close>: the configured root of each tenant, absolute by construction.\<close>

type_synonym WorkspaceRoots = "(string, path) dict"

definition WorkspaceRoots_valid :: "WorkspaceRoots \<Rightarrow> bool" where
  "WorkspaceRoots_valid roots \<longleftrightarrow> roots \<noteq> [] \<and> list_all (\<lambda>(tenant, base). tenant \<noteq> []) roots"

definition WorkspaceRoots_root_for :: "WorkspaceRoots \<Rightarrow> string \<Rightarrow> FsError + path" where
  "WorkspaceRoots_root_for roots tenant_id =
     (case dict_get roots tenant_id of
        None \<Rightarrow> Inl (PathNotAllowed (''tenant '' @ tenant_id @ '' has no configured workspace''))
      | Some base \<Rightarrow> Inr base)"

text \<open>\<open>PurePosixPath(s).parts\<close> of a relative path: empty and \<open>.\<close> components are dropped.\<close>

definition pure_parts :: "string \<Rightarrow> string list" where
  "pure_parts s = filter (\<lambda>part. part \<noteq> [] \<and> part \<noteq> ''.'') (py_split CHR ''/'' s)"

definition reject_traversal :: "string \<Rightarrow> FsError + string list" where
  "reject_traversal relative_path =
     (let candidate = py_replace_char CHR 0x5C CHR ''/'' (py_strip relative_path);
          parts = pure_parts candidate
      in if candidate = [] then Inl (PathNotAllowed ''a workspace path must not be empty'')
         else if py_startswith candidate ''/'' \<or> CHR '':'' \<in> set candidate
         then Inl (PathNotAllowed (py_repr relative_path @ '' must be relative to the tenant workspace''))
         else if list_ex (\<lambda>part. part = ''..'') parts
         then Inl (PathNotAllowed (py_repr relative_path @ '' attempts to leave the tenant workspace''))
         else if list_ex (\<lambda>part. py_startswith part ''.'' \<and> part \<noteq> ''.'') parts
         then Inl (PathNotAllowed (py_repr relative_path @ '' names a hidden entry''))
         else Inr parts)"

text \<open>\<open>path.resolve()\<close>: a path with a null character is a \<open>ValueError\<close> before the file system is asked.\<close>

definition real_path :: "file_system \<Rightarrow> path \<Rightarrow> FsError + path" where
  "real_path fs p =
     (if list_ex (\<lambda>part. CHR 0x00 \<in> set part) p then Inl (FsValueError ''lstat: embedded null character in path'')
      else case fs_resolve fs p of None \<Rightarrow> Inl FsOSError | Some q \<Rightarrow> Inr q)"

lemma real_path_Inr: "real_path fs p = Inr q \<Longrightarrow> fs_resolve fs p = Some q"
  by (simp add: real_path_def split: if_splits option.splits)

text \<open>\<open>root in candidate.parents\<close> or equal: the root's components are a prefix of the candidate's.\<close>

definition resolve_workspace_path :: "file_system \<Rightarrow> WorkspaceRoots \<Rightarrow> string \<Rightarrow> string \<Rightarrow> FsError + path" where
  "resolve_workspace_path fs roots tenant_id relative_path =
     bind_result (reject_traversal relative_path) (\<lambda>pure.
     bind_result (WorkspaceRoots_root_for roots tenant_id) (\<lambda>configured.
     bind_result (real_path fs configured) (\<lambda>base.
     bind_result (real_path fs (base @ pure)) (\<lambda>candidate.
       if candidate \<noteq> base \<and> \<not> strict_prefix base candidate
       then Inl (PathNotAllowed (py_repr relative_path @ '' resolves outside the tenant workspace'')) else Inr candidate))))"

text \<open>\<open>path.suffix\<close>: from the last dot of the name, if it is neither first nor last.\<close>

definition path_name :: "path \<Rightarrow> string" where
  "path_name p = (if p = [] then [] else last p)"

definition path_suffix :: "path \<Rightarrow> string" where
  "path_suffix p =
     (let name = path_name p; ext = rev (takeWhile (\<lambda>c. c \<noteq> CHR ''.'') (rev name));
          stem = length name - length ext - 1
      in if CHR ''.'' \<in> set name \<and> 0 < stem \<and> ext \<noteq> [] then CHR ''.'' # ext else [])"

definition ensure_readable_document :: "file_system \<Rightarrow> path \<Rightarrow> FsError + path" where
  "ensure_readable_document fs p =
     (if py_lower (path_suffix p) \<notin> set READABLE_SUFFIXES
      then Inl (PathNotAllowed ((if path_suffix p = [] then ''(no suffix)'' else path_suffix p) @ '' is not a readable document type''))
      else if \<not> fs_exists fs p then Inl (FsFileNotFound (path_name p @ '' is not present in the tenant workspace''))
      else if \<not> fs_is_file fs p then Inl (PathNotAllowed (path_name p @ '' is not an ordinary file''))
      else Inr p)"

text \<open>
  One round of the loop of \<open>list_workspace\<close>: the entry the path contributes, if any. The suffix is
  that of the path found, the entry that of the location it resolves to.
\<close>

definition listed_entry :: "file_system \<Rightarrow> path \<Rightarrow> path \<Rightarrow> FsError + string option" where
  "listed_entry fs base p =
     (if \<not> fs_is_file fs p \<or> py_lower (path_suffix p) \<notin> set READABLE_SUFFIXES then Inr None
      else case real_path fs p of
          Inl (FsValueError _) \<Rightarrow> Inr None
        | Inl e \<Rightarrow> Inl e
        | Inr resolved \<Rightarrow>
            if \<not> py_startswith resolved base then Inr None
            else let relative = drop (length base) resolved in
                 if list_ex (\<lambda>part. py_startswith part ''.'') relative then Inr None
                 else Inr (Some (if relative = [] then ''.'' else py_join ''/'' relative)))"

fun list_entries :: "file_system \<Rightarrow> path \<Rightarrow> string list \<Rightarrow> path list \<Rightarrow> FsError + string list" where
  "list_entries fs base entries [] = Inr entries"
| "list_entries fs base entries (p # ps) =
     (if length entries \<ge> MAX_LISTED_ENTRIES then Inr entries
      else bind_result (listed_entry fs base p) (\<lambda>entry.
        list_entries fs base (case entry of None \<Rightarrow> entries | Some e \<Rightarrow> entries @ [e]) ps))"

definition list_workspace :: "file_system \<Rightarrow> WorkspaceRoots \<Rightarrow> string \<Rightarrow> FsError + string list" where
  "list_workspace fs roots tenant_id =
     bind_result (WorkspaceRoots_root_for roots tenant_id) (\<lambda>configured.
     bind_result (real_path fs configured) (\<lambda>base.
       if \<not> fs_is_dir fs base then Inl (PathNotAllowed (''workspace for '' @ tenant_id @ '' is not a directory''))
       else list_entries fs base [] (sort (fs_rglob fs base))))"


section \<open>The service\<close>

record FilesystemService =
  fv_roots :: WorkspaceRoots
  fv_max_document_bytes :: int

definition FilesystemService_valid :: "FilesystemService \<Rightarrow> bool" where
  "FilesystemService_valid s \<longleftrightarrow> 1 \<le> fv_max_document_bytes s"

definition fs_require_tenant :: "string \<Rightarrow> FsError + unit" where
  "fs_require_tenant tenant_id =
     (if py_strip tenant_id = [] then Inl (FsValueError ''a filesystem call must identify its tenant'') else Inr ())"

definition FilesystemService_list_workspace :: "file_system \<Rightarrow> FilesystemService \<Rightarrow> string \<Rightarrow> FsError + string list" where
  "FilesystemService_list_workspace fs s tenant_id =
     bind_result (fs_require_tenant tenant_id) (\<lambda>_. list_workspace fs (fv_roots s) tenant_id)"

text \<open>A strict UTF-8 decoding: the text whose encoding is the content, if there is one.\<close>

definition utf8_decode :: "byte list \<Rightarrow> unicode option" where
  "utf8_decode bs = (let s = utf8_decode_ignore bs in if utf8_encode s = bs then Some s else None)"

lemma utf8_decode_encode:
  assumes "list_all is_scalar s" shows "utf8_decode (utf8_encode s) = Some s"
proof -
  have "prefix s (utf8_fit (length (utf8_encode s)) s)" by (rule utf8_fit_maximal) simp_all
  then have "utf8_fit (length (utf8_encode s)) s = s" by (simp add: utf8_fit_prefix prefix_order.antisym)
  with decode_truncated [OF assms, of "length (utf8_encode s)"] show ?thesis by (simp add: utf8_decode_def)
qed

definition FilesystemService_read_document ::
  "file_system \<Rightarrow> FilesystemService \<Rightarrow> string \<Rightarrow> string \<Rightarrow> FsError + unicode" where
  "FilesystemService_read_document fs s tenant_id relative_path =
     bind_result (fs_require_tenant tenant_id) (\<lambda>_.
     bind_result (resolve_workspace_path fs (fv_roots s) tenant_id relative_path) (\<lambda>resolved.
     bind_result (ensure_readable_document fs resolved) (\<lambda>p.
       let content = fs_read_bytes fs p in
       if int (length content) > fv_max_document_bytes s
       then Inl (PathNotAllowed (path_name p @ '' exceeds the '' @ py_str_int (fv_max_document_bytes s) @ ''-byte document limit''))
       else case utf8_decode content of
              None \<Rightarrow> Inl (PathNotAllowed (path_name p @ '' is not valid UTF-8 text''))
            | Some t \<Rightarrow> Inr t)))"


text \<open>The two tools of \<open>build_filesystem_server\<close>.\<close>

definition list_workspace_message :: "FsError \<Rightarrow> string option" where
  "list_workspace_message e = (case e of
     PathNotAllowed m \<Rightarrow> Some (''validation error: '' @ m)
   | FsValueError m \<Rightarrow> Some (''validation error: '' @ m)
   | _ \<Rightarrow> None)"

definition list_workspace_tool :: "file_system \<Rightarrow> FilesystemService \<Rightarrow> string \<Rightarrow> FsError ToolError + string" where
  "list_workspace_tool fs s tenant_id =
     bind_result (tool_result list_workspace_message (FilesystemService_list_workspace fs s tenant_id))
       (\<lambda>entries. Inr (json_text (VList (map VStr entries))))"

definition read_document_message :: "FsError \<Rightarrow> string option" where
  "read_document_message e = (case e of
     PathNotAllowed m \<Rightarrow> Some (''validation error: '' @ m)
   | FsValueError m \<Rightarrow> Some (''validation error: '' @ m)
   | FsFileNotFound m \<Rightarrow> Some (''validation error: '' @ m)
   | FsOSError \<Rightarrow> None)"

definition read_document_tool :: "file_system \<Rightarrow> FilesystemService \<Rightarrow> string \<Rightarrow> string \<Rightarrow> FsError ToolError + unicode" where
  "read_document_tool fs s tenant_id relative_path =
     tool_result read_document_message (FilesystemService_read_document fs s tenant_id relative_path)"


section \<open>What the boundary guarantees\<close>

lemma reject_traversal_plain:
  "reject_traversal s = Inr parts \<Longrightarrow> \<forall>part \<in> set parts. part \<noteq> [] \<and> \<not> py_startswith part ''.'' \<and> CHR ''/'' \<notin> set part"
  by (auto simp: reject_traversal_def pure_parts_def Let_def list_ex_iff dest: py_split_no_sep split: if_splits)

lemma resolve_workspace_path_confined:
  assumes "resolve_workspace_path fs roots tenant rel = Inr p"
  shows "\<exists>configured base parts. dict_get roots tenant = Some configured \<and> fs_resolve fs configured = Some base \<and>
    fs_resolve fs (base @ parts) = Some p \<and> prefix base p \<and> (\<forall>part \<in> set parts. part \<noteq> [] \<and> \<not> py_startswith part ''.'' \<and> CHR ''/'' \<notin> set part)"
proof -
  obtain parts configured base where "reject_traversal rel = Inr parts" "dict_get roots tenant = Some configured"
    "fs_resolve fs configured = Some base" "fs_resolve fs (base @ parts) = Some p" "p = base \<or> strict_prefix base p"
    using assms
    by (auto simp: resolve_workspace_path_def bind_result_Inr_iff WorkspaceRoots_root_for_def dest!: real_path_Inr
        split: option.splits if_splits)
  with reject_traversal_plain show ?thesis by (auto simp: strict_prefix_def)
qed

text \<open>
  C26. A document is read only from the caller's own workspace. Whatever path is asked for and
  wherever symbolic links point, the file read lies under the real location of the tenant's own
  root, was reached by a path without hidden or parent components, is an ordinary file of a
  readable type and at most the document limit in size, and the text returned is exactly its
  content; the roots of other tenants make no difference.
\<close>

theorem document_reads_stay_in_workspace:
  assumes "read_document_tool fs s tenant rel = Inr content"
  shows "\<exists>configured base parts p. dict_get (fv_roots s) tenant = Some configured \<and> fs_resolve fs configured = Some base \<and>
    fs_resolve fs (base @ parts) = Some p \<and> prefix base p \<and> (\<forall>part \<in> set parts. \<not> py_startswith part ''.'') \<and>
    fs_is_file fs p \<and> py_lower (path_suffix p) \<in> set READABLE_SUFFIXES \<and>
    utf8_encode content = fs_read_bytes fs p \<and> int (length (fs_read_bytes fs p)) \<le> fv_max_document_bytes s \<and>
    (\<forall>roots. dict_get roots tenant = Some configured \<longrightarrow>
      read_document_tool fs (s\<lparr>fv_roots := roots\<rparr>) tenant rel = Inr content)"
proof -
  obtain p where p: "resolve_workspace_path fs (fv_roots s) tenant rel = Inr p" "ensure_readable_document fs p = Inr p"
    "utf8_decode (fs_read_bytes fs p) = Some content" "int (length (fs_read_bytes fs p)) \<le> fv_max_document_bytes s"
    using assms
    by (auto simp: read_document_tool_def FilesystemService_read_document_def bind_result_Inr_iff Let_def ensure_readable_document_def
        split: if_splits option.splits)
  obtain configured base parts where c: "dict_get (fv_roots s) tenant = Some configured" "fs_resolve fs configured = Some base"
    "fs_resolve fs (base @ parts) = Some p" "prefix base p" "\<forall>part \<in> set parts. part \<noteq> [] \<and> \<not> py_startswith part ''.'' \<and> CHR ''/'' \<notin> set part"
    using resolve_workspace_path_confined [OF p(1)] by blast
  have ordinary: "fs_is_file fs p" "py_lower (path_suffix p) \<in> set READABLE_SUFFIXES"
    using p(2) by (auto simp: ensure_readable_document_def split: if_splits)
  have decoded: "utf8_encode content = fs_read_bytes fs p"
    using p(3) by (auto simp: utf8_decode_def Let_def split: if_splits)
  have own: "read_document_tool fs (s\<lparr>fv_roots := roots\<rparr>) tenant rel = Inr content"
    if "dict_get roots tenant = Some configured" for roots
    using assms c(1) that
    by (simp add: read_document_tool_def FilesystemService_read_document_def resolve_workspace_path_def WorkspaceRoots_root_for_def
        cong: if_cong)
  from c ordinary decoded p(4) own show ?thesis by (intro exI conjI) auto
qed

definition sample_fs :: file_system where
  "sample_fs = \<lparr>fs_resolve = (\<lambda>p. if p = [''w'', ''link.md''] then Some [''etc'', ''secret.md''] else Some p), fs_exists = (\<lambda>_. True),
     fs_is_file = (\<lambda>p. p \<noteq> [''w'']), fs_is_dir = (\<lambda>p. p = [''w'']),
     fs_rglob = (\<lambda>_. [[''w'', ''a.md''], [''w'', ''link.md'']]), fs_read_bytes = (\<lambda>_. [104, 105])\<rparr>"

definition sample_service :: FilesystemService where
  "sample_service = \<lparr>fv_roots = [(''acme'', [''w''])], fv_max_document_bytes = 10\<rparr>"

lemma sample_read: "read_document_tool sample_fs sample_service ''acme'' ''a.md'' = Inr [104, 105]"
proof -
  have "fs_require_tenant ''acme'' = Inr ()" by code_simp
  moreover have "resolve_workspace_path sample_fs (fv_roots sample_service) ''acme'' ''a.md'' = Inr [''w'', ''a.md'']" by code_simp
  moreover have "ensure_readable_document sample_fs [''w'', ''a.md''] = Inr [''w'', ''a.md'']" by code_simp
  moreover have "utf8_decode [104, 105] = Some [104, 105]"
    using utf8_decode_encode [of "[104, 105]"] by (simp add: utf8_char_def is_scalar_def)
  ultimately show ?thesis
    by (simp add: read_document_tool_def FilesystemService_read_document_def sample_service_def sample_fs_def)
qed

theorem document_reads_stay_in_workspace_witness:
  "read_document_tool sample_fs sample_service ''acme'' ''a.md'' = Inr [104, 105] \<and>
   (\<exists>p. prefix [''w''] p \<and> fs_is_file sample_fs p)"
proof -
  from document_reads_stay_in_workspace [OF sample_read] obtain configured base p where
    "dict_get (fv_roots sample_service) ''acme'' = Some configured" "fs_resolve sample_fs configured = Some base"
    "prefix base p" "fs_is_file sample_fs p" by blast
  moreover have "dict_get (fv_roots sample_service) ''acme'' = Some [''w'']" "fs_resolve sample_fs [''w''] = Some [''w'']"
    by (simp_all add: sample_service_def sample_fs_def)
  ultimately show ?thesis using sample_read by auto
qed

lemma listed_entry_spec:
  assumes "listed_entry fs base p = Inr (Some e)"
  shows "\<exists>relative. fs_resolve fs p = Some (base @ relative) \<and>
    \<not> list_ex (\<lambda>part. py_startswith part ''.'') relative \<and> fs_is_file fs p \<and> py_lower (path_suffix p) \<in> set READABLE_SUFFIXES \<and>
    e = (if relative = [] then ''.'' else py_join ''/'' relative)"
proof -
  obtain resolved where res: "real_path fs p = Inr resolved" "py_startswith resolved base" "fs_is_file fs p"
    "py_lower (path_suffix p) \<in> set READABLE_SUFFIXES"
    and e: "\<not> list_ex (\<lambda>part. py_startswith part ''.'') (drop (length base) resolved)"
      "e = (if drop (length base) resolved = [] then ''.'' else py_join ''/'' (drop (length base) resolved))"
    using assms by (simp add: listed_entry_def Let_def split: if_split_asm sum.splits FsError.splits)
  have "fs_resolve fs p = Some (base @ drop (length base) resolved)"
    using real_path_Inr [OF res(1)] res(2) by (auto simp: prefix_def)
  with res e show ?thesis by blast
qed

lemma list_entries_spec:
  assumes "list_entries fs base es ps = Inr es'" and "length es \<le> MAX_LISTED_ENTRIES"
  shows "length es' \<le> MAX_LISTED_ENTRIES \<and>
    (\<forall>e \<in> set es'. e \<in> set es \<or> (\<exists>p \<in> set ps. listed_entry fs base p = Inr (Some e)))"
  using assms
proof (induction ps arbitrary: es)
  case (Cons p ps)
  show ?case
  proof (cases "length es \<ge> MAX_LISTED_ENTRIES")
    case False
    then obtain entry where entry: "listed_entry fs base p = Inr entry"
      "list_entries fs base (case entry of None \<Rightarrow> es | Some e \<Rightarrow> es @ [e]) ps = Inr es'"
      using Cons.prems(1) by (auto simp: bind_result_Inr_iff)
    then show ?thesis using Cons.IH [OF entry(2)] False by (cases entry) auto
  qed (use Cons.prems in auto)
qed simp

text \<open>
  A listing never shows more than the limit and never leaves the workspace: every entry is the
  workspace-relative form of the real location of a file found under the tenant's root, that
  location lies under the root, and no component of it is hidden.
\<close>

theorem listing_stays_in_workspace:
  assumes "FilesystemService_list_workspace fs s tenant = Inr entries"
  shows "\<exists>configured base. dict_get (fv_roots s) tenant = Some configured \<and> fs_resolve fs configured = Some base \<and>
    length entries \<le> 500 \<and>
    (\<forall>e \<in> set entries. \<exists>p \<in> set (fs_rglob fs base). \<exists>relative. fs_resolve fs p = Some (base @ relative) \<and> fs_is_file fs p \<and>
      (\<forall>part \<in> set relative. \<not> py_startswith part ''.'') \<and> e = (if relative = [] then ''.'' else py_join ''/'' relative))"
proof -
  obtain configured base where b: "dict_get (fv_roots s) tenant = Some configured" "fs_resolve fs configured = Some base"
    "list_entries fs base [] (sort (fs_rglob fs base)) = Inr entries"
    using assms
    by (auto simp: FilesystemService_list_workspace_def list_workspace_def bind_result_Inr_iff WorkspaceRoots_root_for_def
        real_path_def split: option.splits if_splits)
  have "length entries \<le> 500" "\<forall>e \<in> set entries. \<exists>p \<in> set (fs_rglob fs base). listed_entry fs base p = Inr (Some e)"
    using list_entries_spec [OF b(3)] by (auto simp: MAX_LISTED_ENTRIES_def)
  with b(1,2) show ?thesis using listed_entry_spec [of fs base] unfolding list_ex_iff by blast
qed

lemma sample_listing: "FilesystemService_list_workspace sample_fs sample_service ''acme'' = Inr [''a.md'']"
  by code_simp

theorem listing_stays_in_workspace_witness:
  "FilesystemService_list_workspace sample_fs sample_service ''acme'' = Inr [''a.md''] \<and>
   (\<exists>base. \<exists>p \<in> set (fs_rglob sample_fs base). \<exists>relative. fs_resolve sample_fs p = Some (base @ relative))"
  using listing_stays_in_workspace [OF sample_listing] sample_listing by auto

end
