(* ===== verification/SqlBoundary.thy ===== *)
theory SqlBoundary
  imports Regex ServerText
begin

text \<open>
  The analytical query parser (\<open>mcp/servers/sql_boundary.py\<close>), the PostgreSQL service
  (\<open>mcp/servers/postgres_server.py\<close>) and the statements its backend executes
  (\<open>mcp/servers/postgres_backend.py\<close>). The database is a parameter: what it answers to a
  statement after the ones executed before it in the same transaction.
\<close>

section \<open>The patterns\<close>

definition MAX_QUERY_LENGTH :: nat where
  "MAX_QUERY_LENGTH = 8000"

definition DEFAULT_ROW_LIMIT :: int where
  "DEFAULT_ROW_LIMIT = 1000"

definition READ_ONLY_PREFIXES :: "string list" where
  "READ_ONLY_PREFIXES = [''select'', ''with'']"

definition FORBIDDEN_KEYWORDS :: "string list" where
  "FORBIDDEN_KEYWORDS = [''alter'', ''analyze'', ''call'', ''comment'', ''copy'', ''create'', ''delete'', ''do'', ''drop'',
     ''execute'', ''explain'', ''grant'', ''insert'', ''listen'', ''lock'', ''merge'', ''notify'', ''prepare'', ''reassign'',
     ''refresh'', ''reindex'', ''reset'', ''revoke'', ''security'', ''set'', ''truncate'', ''update'', ''vacuum'']"

definition FORBIDDEN_FUNCTIONS :: "string list" where
  "FORBIDDEN_FUNCTIONS = [''dblink'', ''lo_export'', ''lo_import'', ''pg_read_binary_file'', ''pg_read_file'',
     ''pg_reload_conf'', ''pg_sleep'', ''pg_terminate_backend'']"

text \<open>The characters the classes of the patterns accept: \<open>\w\<close> and \<open>\d\<close> below code point 256, and the two identifier classes.\<close>

definition is_word_char :: "char \<Rightarrow> bool" where
  "is_word_char c \<longleftrightarrow> (let n = (of_char c :: nat) in
     48 \<le> n \<and> n \<le> 57 \<or> 65 \<le> n \<and> n \<le> 90 \<or> n = 95 \<or> 97 \<le> n \<and> n \<le> 122 \<or> n = 170 \<or> n = 178 \<or> n = 179 \<or> n = 181 \<or>
     n = 185 \<or> n = 186 \<or> 188 \<le> n \<and> n \<le> 190 \<or> 192 \<le> n \<and> n \<noteq> 215 \<and> n \<noteq> 247)"

definition is_decimal :: "char \<Rightarrow> bool" where
  "is_decimal c \<longleftrightarrow> (let n = (of_char c :: nat) in 48 \<le> n \<and> n \<le> 57)"

definition ident_start :: "char \<Rightarrow> bool" where
  "ident_start c \<longleftrightarrow> (let n = (of_char c :: nat) in 97 \<le> n \<and> n \<le> 122 \<or> n = 95)"

definition ident_char :: "char \<Rightarrow> bool" where
  "ident_char c \<longleftrightarrow> ident_start c \<or> is_decimal c"

text \<open>The same under \<open>IGNORECASE\<close>, an identifier of two such classes, and a literal word in either case.\<close>

definition ident_start_ic :: "char \<Rightarrow> bool" where
  "ident_start_ic c \<longleftrightarrow> (let n = (of_char c :: nat) in 97 \<le> n \<and> n \<le> 122 \<or> 65 \<le> n \<and> n \<le> 90 \<or> n = 95)"

definition ident_char_ic :: "char \<Rightarrow> bool" where
  "ident_char_ic c \<longleftrightarrow> ident_start_ic c \<or> is_decimal c"

definition rx_ident :: "(char \<Rightarrow> bool) \<Rightarrow> (char \<Rightarrow> bool) \<Rightarrow> char rx" where
  "rx_ident start_char further_char = Seq (Cls start_char) (Star (Cls further_char))"

definition rx_ci :: "string \<Rightarrow> char rx" where
  "rx_ci w = rx_seq (map (\<lambda>c. Cls (\<lambda>x. lower_char x = c)) w)"

definition LINE_COMMENT :: "char rx" where
  "LINE_COMMENT = Seq (rx_lit ''--'') (Star (Cls (\<lambda>c. c \<noteq> CHR 0x0A)))"

definition BLOCK_COMMENT :: "char rx" where
  "BLOCK_COMMENT = rx_seq [rx_lit ''/*'', Lazy (Cls (\<lambda>_. True)), rx_lit ''*/'']"

definition WORD :: "char rx" where
  "WORD = rx_ident ident_start ident_char"

definition STRING_LITERAL :: "char rx" where
  "STRING_LITERAL = rx_seq [rx_lit [CHR 0x27], Star (Alt (Cls (\<lambda>c. c \<noteq> CHR 0x27)) (rx_lit [CHR 0x27, CHR 0x27])), rx_lit [CHR 0x27]]"

definition from_or_join :: "char rx" where
  "from_or_join = rx_seq [WordB is_word_char, Alt (rx_ci ''from'') (rx_ci ''join''), rx_plus (Cls is_space)]"

definition QUALIFIED_NAME :: "char rx" where
  "QUALIFIED_NAME = rx_seq [from_or_join, Grp (rx_ident ident_start_ic ident_char_ic), Star (Cls is_space), rx_lit ''.'']"

definition UNQUALIFIED_TABLE :: "char rx" where
  "UNQUALIFIED_TABLE = rx_seq [from_or_join, Grp (rx_ident ident_start_ic ident_char_ic), WordB is_word_char, NotAhead (Seq (Star (Cls is_space)) (rx_lit ''.''))]"

definition CTE_NAME :: "char rx" where
  "CTE_NAME = rx_seq [Alt (rx_seq [WordB is_word_char, rx_ci ''with'', rx_plus (Cls is_space)]) (Seq (rx_lit '','') (Star (Cls is_space))),
     Grp (rx_ident ident_start_ic ident_char_ic), rx_plus (Cls is_space), rx_ci ''as'', Star (Cls is_space), rx_lit ''('']"

definition LIMIT_CLAUSE :: "char rx" where
  "LIMIT_CLAUSE = rx_seq [WordB is_word_char, rx_ci ''limit'', rx_plus (Cls is_space), Grp (rx_plus (Cls is_decimal)), WordB is_word_char]"


section \<open>The parser\<close>

record AnalyticalQuery =
  aq_sql :: string
  aq_schema :: string
  aq_row_limit :: int

datatype SqlError = QueryNotAllowed string | SqlValueError string | SqlDatabaseError string

definition strip_comments_and_literals :: "string \<Rightarrow> string" where
  "strip_comments_and_literals sql =
     rx_sub STRING_LITERAL [CHR 0x27, CHR 0x27] (rx_sub BLOCK_COMMENT '' '' (rx_sub LINE_COMMENT '' '' sql))"

definition split_statements :: "string \<Rightarrow> string list" where
  "split_statements sql = map py_strip (filter (\<lambda>s. py_strip s \<noteq> []) (py_split CHR '';'' sql))"

definition reject_foreign_schemas :: "string \<Rightarrow> string \<Rightarrow> SqlError + unit" where
  "reject_foreign_schemas statement schema =
     (let referenced = map py_lower (rx_findall_group QUALIFIED_NAME statement);
          foreign = sort (remdups (filter (\<lambda>s. s \<noteq> py_lower schema) referenced));
          common_table_names = map py_lower (rx_findall_group CTE_NAME statement);
          unqualified = sort (remdups (filter (\<lambda>s. s \<notin> set ([''select'', ''lateral''] @ common_table_names))
            (map py_lower (rx_findall_group UNQUALIFIED_TABLE statement))))
      in if foreign \<noteq> [] then Inl (QueryNotAllowed (''query reads outside the tenant schema: '' @ py_join '', '' foreign))
         else if unqualified \<noteq> [] then Inl (QueryNotAllowed (''every table must be schema-qualified: '' @ py_join '', '' unqualified))
         else Inr ())"

definition apply_row_limit :: "string \<Rightarrow> string \<Rightarrow> int \<Rightarrow> string" where
  "apply_row_limit raw inspectable row_limit =
     (let trimmed = py_rstrip (py_rstrip_char CHR '';'' (py_rstrip raw)) in
      case rx_search LIMIT_CLAUSE inspectable of
        None \<Rightarrow> trimmed @ '' LIMIT '' @ py_str_int row_limit
      | Some (_, _, groups) \<Rightarrow>
          if int (py_int_of_digits (hd groups)) \<le> row_limit then trimmed
          else py_rstrip (rx_sub LIMIT_CLAUSE [] trimmed) @ '' LIMIT '' @ py_str_int row_limit)"

definition parse_analytical_query :: "string \<Rightarrow> string \<Rightarrow> int \<Rightarrow> SqlError + AnalyticalQuery" where
  "parse_analytical_query sql schema row_limit =
     (let raw = py_strip sql;
          inspectable = strip_comments_and_literals raw;
          statements = split_statements inspectable;
          statement = hd statements;
          lowered = py_lower statement;
          words = rx_findall WORD lowered;
          forbidden = filter (\<lambda>w. w \<in> set words) FORBIDDEN_KEYWORDS;
          dangerous = filter (\<lambda>w. w \<in> set words) FORBIDDEN_FUNCTIONS
      in if schema = [] \<or> \<not> rx_fullmatch WORD schema then Inl (QueryNotAllowed (py_repr schema @ '' is not a valid tenant schema name''))
         else if row_limit < 1 then Inl (QueryNotAllowed ''a row limit must admit at least one row'')
         else if raw = [] then Inl (QueryNotAllowed ''a query must not be empty'')
         else if length raw > MAX_QUERY_LENGTH
         then Inl (QueryNotAllowed (''a query must not exceed '' @ py_str_nat MAX_QUERY_LENGTH @ '' characters''))
         else if length statements > 1 then Inl (QueryNotAllowed ''only a single statement may be executed'')
         else if statements = [] then Inl (QueryNotAllowed ''a query must contain a statement'')
         else if \<not> list_ex (\<lambda>p. py_startswith lowered p) READ_ONLY_PREFIXES
         then Inl (QueryNotAllowed ''only SELECT and WITH queries are permitted'')
         else if forbidden \<noteq> [] then Inl (QueryNotAllowed (''query uses forbidden keywords: '' @ py_join '', '' forbidden))
         else if dangerous \<noteq> [] then Inl (QueryNotAllowed (''query uses forbidden functions: '' @ py_join '', '' dangerous))
         else bind_result (reject_foreign_schemas statement schema) (\<lambda>_.
           Inr \<lparr>aq_sql = apply_row_limit raw inspectable row_limit, aq_schema = schema, aq_row_limit = row_limit\<rparr>))"


section \<open>The backend\<close>

text \<open>
  A statement with its parameters, and a database as what it answers to the last of the statements
  executed in one transaction. A failing statement ends the transaction.
\<close>

type_synonym sql_statement = "string \<times> string list"
type_synonym database = "sql_statement list \<Rightarrow> SqlError + pyval list"

fun run_statements :: "database \<Rightarrow> sql_statement list \<Rightarrow> sql_statement list \<Rightarrow> (SqlError + pyval list) \<times> sql_statement list" where
  "run_statements db executed [] = (Inr [], executed)"
| "run_statements db executed (s # ss) =
     (let executed = executed @ [s] in
      case db executed of
        Inl e \<Rightarrow> (Inl e, executed)
      | Inr rows \<Rightarrow> if ss = [] then (Inr rows, executed) else run_statements db executed ss)"

record PostgresSqlBackend =
  pb_database :: database
  pb_statement_timeout_ms :: int

definition DESCRIBE_COLUMNS :: string where
  "DESCRIBE_COLUMNS = concat (map (\<lambda>line. CHR 0x0A # replicate 16 CHR '' '' @ line)
     [''SELECT table_name, column_name, data_type'', ''FROM information_schema.columns'',
      ''WHERE table_schema = %s'', ''ORDER BY table_name, ordinal_position'', []])"

definition column_text :: "pyval \<Rightarrow> string" where
  "column_text row = (case row of
     VList [table, column, data_type] \<Rightarrow> py_str table @ ''.'' @ py_str column @ '' '' @ py_str data_type
   | _ \<Rightarrow> [])"

definition PostgresSqlBackend_describe_schema :: "PostgresSqlBackend \<Rightarrow> string \<Rightarrow> (SqlError + string list) \<times> sql_statement list" where
  "PostgresSqlBackend_describe_schema b schema =
     (let (r, executed) = run_statements (pb_database b) [] [(''SET TRANSACTION READ ONLY'', []), (DESCRIBE_COLUMNS, [schema])]
      in (bind_result r (\<lambda>rows. Inr (map column_text rows)), executed))"

definition PostgresSqlBackend_run_query :: "PostgresSqlBackend \<Rightarrow> string \<Rightarrow> string \<Rightarrow> (SqlError + pyval list) \<times> sql_statement list" where
  "PostgresSqlBackend_run_query b sql schema =
     run_statements (pb_database b) []
       [(''SET TRANSACTION READ ONLY'', []),
        (''SELECT set_config('' @ [CHR 0x27] @ ''statement_timeout'' @ [CHR 0x27] @ '', %s, true), '' @
         ''set_config('' @ [CHR 0x27] @ ''search_path'' @ [CHR 0x27] @ '', %s, true)'',
         [py_str_int (pb_statement_timeout_ms b), schema]),
        (sql, [])]"


section \<open>The service\<close>

record PostgresService =
  ps_backend :: PostgresSqlBackend
  ps_tenant_schemas :: "(string, string) dict"
  ps_row_limit :: int

definition PostgresService_valid :: "PostgresService \<Rightarrow> bool" where
  "PostgresService_valid s \<longleftrightarrow> ps_tenant_schemas s \<noteq> [] \<and> 1 \<le> ps_row_limit s \<and>
     list_all (\<lambda>(tenant_id, schema). tenant_id \<noteq> [] \<and> is_ok (parse_analytical_query ''SELECT 1'' schema 1)) (ps_tenant_schemas s)"

definition PostgresService_schema_for :: "PostgresService \<Rightarrow> string \<Rightarrow> SqlError + string" where
  "PostgresService_schema_for s tenant_id =
     (if py_strip tenant_id = [] then Inl (QueryNotAllowed ''a PostgreSQL call must identify its tenant'')
      else case dict_get (ps_tenant_schemas s) tenant_id of
             None \<Rightarrow> Inl (QueryNotAllowed (''tenant '' @ tenant_id @ '' has no analytical schema''))
           | Some schema \<Rightarrow> Inr schema)"

text \<open>Each call returns its result and the statements it executed.\<close>

definition PostgresService_describe_schema :: "PostgresService \<Rightarrow> string \<Rightarrow> (SqlError + string list) \<times> sql_statement list" where
  "PostgresService_describe_schema s tenant_id =
     (case PostgresService_schema_for s tenant_id of
        Inl e \<Rightarrow> (Inl e, [])
      | Inr schema \<Rightarrow> PostgresSqlBackend_describe_schema (ps_backend s) schema)"

definition PostgresService_run_analytical_query ::
  "PostgresService \<Rightarrow> string \<Rightarrow> string \<Rightarrow> (SqlError + pyval list) \<times> sql_statement list" where
  "PostgresService_run_analytical_query s tenant_id sql =
     (case bind_result (PostgresService_schema_for s tenant_id) (\<lambda>schema. parse_analytical_query sql schema (ps_row_limit s)) of
        Inl e \<Rightarrow> (Inl e, [])
      | Inr query \<Rightarrow> PostgresSqlBackend_run_query (ps_backend s) (aq_sql query) (aq_schema query))"

definition sql_message :: "SqlError \<Rightarrow> string option" where
  "sql_message e = (case e of
     QueryNotAllowed m \<Rightarrow> Some (''validation error: '' @ m)
   | SqlValueError m \<Rightarrow> Some (''validation error: '' @ m)
   | SqlDatabaseError _ \<Rightarrow> None)"

definition describe_schema_tool :: "PostgresService \<Rightarrow> string \<Rightarrow> (SqlError ToolError + string) \<times> sql_statement list" where
  "describe_schema_tool s tenant_id =
     (let (r, executed) = PostgresService_describe_schema s tenant_id in
      (bind_result (tool_result sql_message r) (\<lambda>description. Inr (json_text (VList (map VStr description)))), executed))"

definition run_analytical_query_tool ::
  "PostgresService \<Rightarrow> string \<Rightarrow> string \<Rightarrow> (SqlError ToolError + string) \<times> sql_statement list" where
  "run_analytical_query_tool s tenant_id sql =
     (let (r, executed) = PostgresService_run_analytical_query s tenant_id sql in
      (bind_result (tool_result sql_message r) (\<lambda>rows. Inr (json_text (VList rows))), executed))"


section \<open>Words of a text\<close>

text \<open>A greedy iteration of a class takes the longest run of it first, so \<open>WORD\<close> takes whole words.\<close>

lemma rx_match_Star_Cls:
  "\<exists>rest. rx_match (Star (Cls P)) (p, s) = ((rev (takeWhile P s) @ p, dropWhile P s), []) # rest"
proof (induction s arbitrary: p)
  case (Cons c s)
  from Cons.IH [of "c # p"] obtain rest where
    "rx_match (Star (Cls P)) (c # p, s) = ((rev (takeWhile P s) @ c # p, dropWhile P s), []) # rest" ..
  then show ?case by (simp add: rx_match_Star [of _ "(p, c # s)"])
qed (simp add: rx_match_Star)

lemma rx_at_WORD:
  "rx_at WORD (p, c # s) =
    (if ident_start c then Some ((rev (takeWhile ident_char s) @ c # p, dropWhile ident_char s), []) else None)"
  using rx_match_Star_Cls [of ident_char "c # p" s] by (auto simp: rx_at_def WORD_def rx_ident_def)

lemma take_run: "take (Suc (length s) - length (dropWhile P s)) (c # s) = c # takeWhile P s"
proof -
  have s: "length s = length (takeWhile P s) + length (dropWhile P s)"
    by (metis takeWhile_dropWhile_id length_append)
  have "take (length (takeWhile P s)) s = takeWhile P s"
    by (metis takeWhile_dropWhile_id append_eq_conv_conj)
  with s show ?thesis by (simp add: Suc_diff_le)
qed

lemma rx_pieces_WORD_start:
  "ident_start c \<Longrightarrow> rx_pieces_from WORD (p, c # s) =
   Inr (c # takeWhile ident_char s, []) # rx_pieces_from WORD (rev (takeWhile ident_char s) @ c # p, dropWhile ident_char s)"
  by (simp add: rx_pieces_from.simps [of WORD "(p, c # s)"] rx_at_WORD take_run le_imp_less_Suc length_dropWhile_le)

lemma rx_pieces_WORD_skip:
  "\<not> ident_start c \<Longrightarrow> rx_pieces_from WORD (p, c # s) = Inl c # rx_pieces_from WORD (c # p, s)"
  by (simp add: rx_pieces_from.simps [of WORD "(p, c # s)"] rx_at_WORD)

text \<open>A word of the text that no identifier character touches is one of those \<open>findall\<close> lists.\<close>

definition stands_alone :: "string \<Rightarrow> string \<Rightarrow> string \<Rightarrow> bool" where
  "stands_alone a w b \<longleftrightarrow> (a = [] \<or> \<not> ident_char (last a)) \<and> (b = [] \<or> \<not> ident_char (hd b))"

lemma stands_alone_tl:
  assumes "stands_alone (c # a) w b"
  shows "stands_alone a w b"
  using assms by (cases a) (auto simp: stands_alone_def)

lemma run_before_word:
  assumes "stands_alone (c # a) w b" and "ident_char c"
  shows "\<exists>u v. a = u @ v \<and> takeWhile ident_char (a @ w @ b) = u \<and> dropWhile ident_char (a @ w @ b) = v @ w @ b \<and> stands_alone v w b"
proof -
  have "a \<noteq> []" "\<not> ident_char (last a)" using assms by (auto simp: stands_alone_def split: if_splits)
  then have ex: "\<exists>x \<in> set a. \<not> ident_char x" by (meson last_in_set)
  then have "takeWhile ident_char (a @ w @ b) = takeWhile ident_char a" "dropWhile ident_char (a @ w @ b) = dropWhile ident_char a @ w @ b"
    by (auto simp: takeWhile_append1 dropWhile_append1)
  moreover have "dropWhile ident_char a \<noteq> []" using ex by simp
  then have "last (dropWhile ident_char a) = last a" by (metis takeWhile_dropWhile_id last_appendR)
  ultimately show ?thesis using assms \<open>\<not> ident_char (last a)\<close>
    by (intro exI [of _ "takeWhile ident_char a"] exI [of _ "dropWhile ident_char a"]) (simp add: stands_alone_def)
qed

lemma rx_pieces_WORD_whole:
  assumes "s = a @ w @ b" and "stands_alone a w b" and "w \<noteq> []" and "ident_start (hd w)" and "list_all ident_char w"
  shows "Inr (w, []) \<in> set (rx_pieces_from WORD (p, s))"
  using assms
proof (induction "length a" arbitrary: a p s rule: less_induct)
  case less
  show ?case
  proof (cases a)
    case Nil
    obtain c v where w: "w = c # v" using less.prems(3) by (cases w) auto
    have "takeWhile ident_char (v @ b) = v"
      using less.prems(2,5) w by (cases b) (auto simp: stands_alone_def list_all_iff takeWhile_append)
    with w Nil less.prems(1,4) show ?thesis by (simp add: rx_pieces_WORD_start)
  next
    case (Cons c a')
    show ?thesis
    proof (cases "ident_start c")
      case True
      then have "ident_char c" by (simp add: ident_char_def)
      from run_before_word [OF less.prems(2) [unfolded Cons] this] obtain u v where
        uv: "a' = u @ v" "dropWhile ident_char (a' @ w @ b) = v @ w @ b" "stands_alone v w b" by blast
      then have "Inr (w, []) \<in> set (rx_pieces_from WORD (q, v @ w @ b))" for q
        using less.hyps [of v "v @ w @ b" q] less.prems(3-5) Cons by simp
      with True uv(2) Cons less.prems(1) show ?thesis by (simp add: rx_pieces_WORD_start)
    next
      case False
      have "Inr (w, []) \<in> set (rx_pieces_from WORD (q, a' @ w @ b))" for q
        using less.hyps [of a' "a' @ w @ b" q] stands_alone_tl less.prems(2-5) Cons by simp
      with False Cons less.prems(1) show ?thesis by (simp add: rx_pieces_WORD_skip)
    qed
  qed
qed

lemma findall_WORD_whole:
  "s = a @ w @ b \<Longrightarrow> stands_alone a w b \<Longrightarrow> w \<noteq> [] \<Longrightarrow> ident_start (hd w) \<Longrightarrow> list_all ident_char w \<Longrightarrow> w \<in> set (rx_findall WORD s)"
  using rx_pieces_WORD_whole [of s a w b "[]"] by (force simp: rx_findall_def rx_pieces_def)

text \<open>A pattern that matches nowhere in a stretch of text leaves that stretch as it is.\<close>

lemma rx_pieces_from_skip:
  assumes "\<And>u v q. a = u @ v \<Longrightarrow> v \<noteq> [] \<Longrightarrow> rx_match r (q, v @ t) = []"
  shows "rx_pieces_from r (p, a @ t) = map Inl a @ rx_pieces_from r (rev a @ p, t)"
  using assms
proof (induction a arbitrary: p)
  case (Cons c a)
  have "rx_at r (p, c # a @ t) = None" using Cons.prems [of "[]" "c # a" p] by (simp add: rx_at_def)
  moreover have "rx_pieces_from r (c # p, a @ t) = map Inl a @ rx_pieces_from r (rev a @ c # p, t)"
    using Cons.prems [of "c # _"] by (intro Cons.IH) simp
  ultimately show ?case by (simp add: rx_pieces_from.simps [of r "(p, c # a @ t)"])
qed simp

lemma rx_sub_prefix:
  assumes "\<And>u v q. a = u @ v \<Longrightarrow> v \<noteq> [] \<Longrightarrow> rx_match r (q, v @ t) = []"
  shows "rx_sub r repl (a @ t) = a @ concat (map (\<lambda>p. case p of Inl c \<Rightarrow> [c] | Inr (t, g) \<Rightarrow> repl) (rx_pieces_from r (rev a, t)))"
  using rx_pieces_from_skip [of a r t "[]"] assms
  by (simp add: rx_sub_def rx_sub_with_def rx_pieces_def o_def)

lemma rx_sub_none:
  assumes "\<And>z. suffix (snd z) s \<Longrightarrow> rx_match r z = []"
  shows "rx_sub r repl s = s"
  using rx_sub_prefix [of s r "[]" repl] assms
  by (simp add: suffix_def rx_pieces_from.simps [of r "(rev s, [])"] rx_at_def)

lemma rx_match_lit:
  "rx_match (rx_lit w) z = (if prefix w (snd z) then [((rev w @ fst z, drop (length w) (snd z)), [])] else [])"
proof (induction w arbitrary: z)
  case (Cons c w)
  show ?case
  proof (cases w)
    case Nil
    then show ?thesis by (cases z; cases "snd z") (auto simp: rx_lit_def)
  next
    case (Cons d w')
    then have "rx_lit (c # w) = Seq (Cls (\<lambda>x. x = c)) (rx_lit w)" by (simp add: rx_lit_def)
    with Cons.IH show ?thesis by (cases z; cases "snd z") auto
  qed
qed (simp add: rx_lit_def)

lemma rx_match_lit_absent: "\<not> sublist w s \<Longrightarrow> suffix (snd z) s \<Longrightarrow> rx_match (Seq (rx_lit w) r) z = []"
  by (auto simp: rx_match_lit intro: sublist_order.order_trans dest!: prefix_imp_sublist suffix_imp_sublist)

lemma strip_plain:
  assumes "CHR 0x27 \<notin> set sql" and "\<not> sublist ''--'' sql" and "\<not> sublist ''/*'' sql"
  shows "strip_comments_and_literals sql = sql"
proof -
  have "\<not> sublist [CHR 0x27] sql" using assms(1) set_mono_sublist by fastforce
  then have "rx_sub STRING_LITERAL [CHR 0x27, CHR 0x27] sql = sql"
    unfolding STRING_LITERAL_def rx_seq.simps by (intro rx_sub_none rx_match_lit_absent)
  moreover have "rx_sub LINE_COMMENT '' '' sql = sql"
    unfolding LINE_COMMENT_def using assms(2) by (intro rx_sub_none rx_match_lit_absent)
  moreover have "rx_sub BLOCK_COMMENT '' '' sql = sql"
    unfolding BLOCK_COMMENT_def rx_seq.simps using assms(3) by (intro rx_sub_none rx_match_lit_absent)
  ultimately show ?thesis by (simp add: strip_comments_and_literals_def)
qed

text \<open>The first two dashes of a text that ends with its line take everything behind them.\<close>

lemma rx_sub_LINE_COMMENT:
  assumes "CHR ''-'' \<notin> set a" and "CHR 0x0A \<notin> set b"
  shows "rx_sub LINE_COMMENT '' '' (a @ ''--'' @ b) = a @ '' ''"
proof -
  have "rx_match LINE_COMMENT (q, v @ ''--'' @ b) = []" if "a = u @ v" "v \<noteq> []" for u v q
  proof -
    have "\<not> prefix ''--'' (v @ ''--'' @ b)" using that assms(1) by (cases v) auto
    then show ?thesis by (simp add: LINE_COMMENT_def rx_match_lit)
  qed
  note before = rx_sub_prefix [of a LINE_COMMENT "''--'' @ b" "'' ''", OF this]
  have line: "takeWhile (\<lambda>c. c \<noteq> CHR 0x0A) b = b" "dropWhile (\<lambda>c. c \<noteq> CHR 0x0A) b = []"
    using assms(2) by (auto simp: takeWhile_eq_all_conv dropWhile_eq_Nil_conv)
  obtain rest where star: "rx_match (Star (Cls (\<lambda>c. c \<noteq> CHR 0x0A))) (''--'' @ rev a, b) = ((rev b @ ''--'' @ rev a, []), []) # rest"
    using rx_match_Star_Cls [of "\<lambda>c. c \<noteq> CHR 0x0A" "''--'' @ rev a" b] by (auto simp: line)
  have "rx_at LINE_COMMENT (rev a, ''--'' @ b) = Some ((rev b @ ''--'' @ rev a, []), [])"
    using star by (simp add: rx_at_def LINE_COMMENT_def rx_match_lit)
  moreover have "rx_at LINE_COMMENT (q, []) = None" for q by (simp add: rx_at_def LINE_COMMENT_def rx_match_lit)
  ultimately have "rx_pieces_from LINE_COMMENT (rev a, ''--'' @ b) = [Inr (''--'' @ b, [])]"
    by (simp add: rx_pieces_from.simps [of LINE_COMMENT "(rev a, CHR ''-'' # CHR ''-'' # b)"]
        rx_pieces_from.simps [of LINE_COMMENT "(_, [])"])
  with before show ?thesis by simp
qed


section \<open>What the parser guarantees\<close>

lemma parse_analytical_query_accepts:
  assumes "parse_analytical_query sql schema row_limit = Inr q"
  shows "\<exists>statement. split_statements (strip_comments_and_literals (py_strip sql)) = [statement] \<and>
    list_ex (\<lambda>p. py_startswith (py_lower statement) p) READ_ONLY_PREFIXES \<and>
    (\<forall>w \<in> set FORBIDDEN_KEYWORDS \<union> set FORBIDDEN_FUNCTIONS. w \<notin> set (rx_findall WORD (py_lower statement))) \<and>
    reject_foreign_schemas statement schema = Inr () \<and> rx_fullmatch WORD schema \<and> 1 \<le> row_limit \<and>
    q = \<lparr>aq_sql = apply_row_limit (py_strip sql) (strip_comments_and_literals (py_strip sql)) row_limit,
         aq_schema = schema, aq_row_limit = row_limit\<rparr>"
proof -
  let ?ss = "split_statements (strip_comments_and_literals (py_strip sql))"
  have ss: "\<not> 1 < length ?ss" "?ss \<noteq> []"
    using assms by (auto simp: parse_analytical_query_def Let_def split: if_split_asm)
  then obtain statement where "?ss = [statement]" by (cases ?ss) auto
  with assms show ?thesis
    by (auto simp: parse_analytical_query_def Let_def bind_result_Inr_iff filter_empty_conv split: if_split_asm)
qed

lemma forbidden_are_words:
  "w \<in> set FORBIDDEN_KEYWORDS \<union> set FORBIDDEN_FUNCTIONS \<Longrightarrow> w \<noteq> [] \<and> ident_start (hd w) \<and> list_all ident_char w"
  by (auto simp: FORBIDDEN_KEYWORDS_def FORBIDDEN_FUNCTIONS_def ident_start_def ident_char_def is_decimal_def)

text \<open>
  The schema check covers what directly follows \<open>from\<close> or \<open>join\<close>, and nothing else: a table behind a
  comma may be of any schema.
\<close>

lemma rejected_schemas_none:
  "reject_foreign_schemas statement schema = Inr () \<Longrightarrow> s \<in> set (rx_findall_group QUALIFIED_NAME statement) \<Longrightarrow> py_lower s = py_lower schema"
  by (auto simp: reject_foreign_schemas_def Let_def filter_empty_conv split: if_split_asm dest!: arg_cong [where f = set])

lemma comma_table_is_not_checked: "reject_foreign_schemas ''select 1 from s.t,u.v'' ''s'' = Inr ()"
proof -
  have "rx_findall_group QUALIFIED_NAME ''select 1 from s.t,u.v'' = [''s'']" "rx_findall_group CTE_NAME ''select 1 from s.t,u.v'' = []"
    "rx_findall_group UNQUALIFIED_TABLE ''select 1 from s.t,u.v'' = []" by code_simp+
  then show ?thesis by (simp add: reject_foreign_schemas_def py_lower_def lower_char_def)
qed

lemma sublist_py_strip: "sublist (py_strip s) s"
proof -
  have "prefix (rev (dropWhile P (rev xs))) xs" for P and xs :: string
    using suffix_dropWhile [of P "rev xs"] by (simp add: suffix_to_prefix)
  then have "sublist (py_strip s) (py_lstrip s)" by (simp add: py_strip_def py_rstrip_def)
  moreover have "sublist (py_lstrip s) s" by (simp add: py_lstrip_def suffix_dropWhile)
  ultimately show ?thesis by (rule sublist_order.order_trans)
qed

text \<open>
  C27. An accepted query that holds no quote, no two dashes and no opening of a block comment is one
  statement without forbidden words: cut at its semicolons, its text has exactly one part that is not
  blank; that part starts with \<open>select\<close> or \<open>with\<close>, in whatever letter case; and no forbidden keyword
  and no forbidden function occurs in it as a whole word, wherever it stands. Nothing is promised of
  the tables it names, nor of a query with literals or comments.
\<close>

theorem plain_query_is_one_statement:
  assumes "parse_analytical_query sql schema row_limit = Inr q"
    and "CHR 0x27 \<notin> set sql" and "\<not> sublist ''--'' sql" and "\<not> sublist ''/*'' sql"
  shows "\<exists>statement. map py_strip (filter (\<lambda>part. py_strip part \<noteq> []) (py_split CHR '';'' (py_strip sql))) = [statement] \<and>
    (py_startswith (py_lower statement) ''select'' \<or> py_startswith (py_lower statement) ''with'') \<and>
    (\<forall>w a b. w \<in> set FORBIDDEN_KEYWORDS \<union> set FORBIDDEN_FUNCTIONS \<longrightarrow> py_lower statement = a @ w @ b \<longrightarrow> \<not> stands_alone a w b)"
proof -
  have plain: "strip_comments_and_literals (py_strip sql) = py_strip sql"
    using assms(2-4) set_py_strip [of sql] sublist_py_strip [of sql] by (intro strip_plain) (auto intro: sublist_order.order_trans)
  from parse_analytical_query_accepts [OF assms(1)] obtain statement where s: "split_statements (py_strip sql) = [statement]"
    "list_ex (\<lambda>p. py_startswith (py_lower statement) p) READ_ONLY_PREFIXES"
    "\<forall>w \<in> set FORBIDDEN_KEYWORDS \<union> set FORBIDDEN_FUNCTIONS. w \<notin> set (rx_findall WORD (py_lower statement))" unfolding plain by blast
  have "\<not> stands_alone a w b" if "w \<in> set FORBIDDEN_KEYWORDS \<union> set FORBIDDEN_FUNCTIONS" "py_lower statement = a @ w @ b" for w a b
    using findall_WORD_whole [OF that(2)] forbidden_are_words [OF that(1)] s(3) that(1) by blast
  moreover have "py_startswith (py_lower statement) ''select'' \<or> py_startswith (py_lower statement) ''with''"
    using s(2) by (simp add: READ_ONLY_PREFIXES_def)
  ultimately show ?thesis using s(1) [unfolded split_statements_def] by (intro exI [of _ statement] conjI) blast+
qed

lemma sample_checks:
  "py_strip ''SELECT a-b FROM s.t'' = ''SELECT a-b FROM s.t''" "rx_fullmatch WORD ''s''"
  "split_statements ''SELECT a-b FROM s.t'' = [''SELECT a-b FROM s.t'']" "py_lower ''SELECT a-b FROM s.t'' = ''select a-b from s.t''"
  "rx_findall WORD ''select a-b from s.t'' = [''select'', ''a'', ''b'', ''from'', ''s'', ''t'']"
  "rx_findall_group QUALIFIED_NAME ''SELECT a-b FROM s.t'' = [''s'']" "rx_findall_group CTE_NAME ''SELECT a-b FROM s.t'' = []"
  "rx_findall_group UNQUALIFIED_TABLE ''SELECT a-b FROM s.t'' = []"
  "apply_row_limit ''SELECT a-b FROM s.t'' ''SELECT a-b FROM s.t'' 5 = ''SELECT a-b FROM s.t LIMIT 5''"
  by code_simp+

lemma sample_query:
  "parse_analytical_query ''SELECT a-b FROM s.t'' ''s'' 5 =
   Inr \<lparr>aq_sql = ''SELECT a-b FROM s.t LIMIT 5'', aq_schema = ''s'', aq_row_limit = 5\<rparr>"
proof -
  have "\<not> sublist ''--'' ''SELECT a-b FROM s.t''" "\<not> sublist ''/*'' ''SELECT a-b FROM s.t''" by (simp_all add: sublist_code)
  then have "strip_comments_and_literals ''SELECT a-b FROM s.t'' = ''SELECT a-b FROM s.t''" by (intro strip_plain) auto
  moreover have "reject_foreign_schemas ''SELECT a-b FROM s.t'' ''s'' = Inr ()"
    by (simp add: reject_foreign_schemas_def sample_checks py_lower_def lower_char_def)
  ultimately show ?thesis
    by (simp add: parse_analytical_query_def sample_checks MAX_QUERY_LENGTH_def READ_ONLY_PREFIXES_def
        FORBIDDEN_KEYWORDS_def FORBIDDEN_FUNCTIONS_def)
qed

theorem plain_query_is_one_statement_witness:
  "\<exists>q statement. parse_analytical_query ''SELECT a-b FROM s.t'' ''s'' 5 = Inr q \<and>
    map py_strip (filter (\<lambda>part. py_strip part \<noteq> []) (py_split CHR '';'' (py_strip ''SELECT a-b FROM s.t''))) = [statement] \<and>
    (py_startswith (py_lower statement) ''select'' \<or> py_startswith (py_lower statement) ''with'')"
proof -
  have q: "parse_analytical_query ''SELECT a-b FROM s.t'' ''s'' 5 =
    Inr \<lparr>aq_sql = ''SELECT a-b FROM s.t LIMIT 5'', aq_schema = ''s'', aq_row_limit = 5\<rparr>" by (rule sample_query)
  have "CHR 0x27 \<notin> set ''SELECT a-b FROM s.t''" "\<not> sublist ''--'' ''SELECT a-b FROM s.t''" "\<not> sublist ''/*'' ''SELECT a-b FROM s.t''"
    by (simp_all add: sublist_code)
  from plain_query_is_one_statement [OF q this] q show ?thesis by (elim exE conjE) (intro exI conjI; assumption)
qed

text \<open>A limit anywhere in the text counts as the query's own, so one inside a subquery leaves the result unbounded.\<close>

lemma subquery_limit_suffices:
  "apply_row_limit ''select (select 1 limit 1) from s.t'' ''select (select 1 limit 1) from s.t'' 5 = ''select (select 1 limit 1) from s.t''"
  by code_simp


section \<open>What reaches the database\<close>

lemma run_statements_prefix:
  "run_statements db executed ss = (r, executed') \<Longrightarrow> \<exists>n. executed' = executed @ take n ss"
proof (induction ss arbitrary: executed)
  case (Cons s ss)
  consider "executed' = executed @ [s]" | "run_statements db (executed @ [s]) ss = (r, executed')"
    using Cons.prems by (auto simp: Let_def split: sum.splits if_splits)
  then show ?case
  proof cases
    case 1
    then show ?thesis by (intro exI [of _ 1]) simp
  next
    case 2
    from Cons.IH [OF this] obtain n where "executed' = (executed @ [s]) @ take n ss" ..
    then show ?thesis by (intro exI [of _ "Suc n"]) simp
  qed
qed simp

text \<open>
  C28. The database sees an analytical query only as a parsed statement of a read-only transaction on
  the tenant's own schema. An analytical call executes either nothing, when the tenant has no schema or
  the parser refuses the query, or an initial part of three statements: the transaction is made read
  only; the statement timeout is set to the configured one and the search path to the schema configured
  for that tenant, both for this transaction; and then the text the parser returned is run.
\<close>

theorem analytical_query_runs_read_only_in_own_schema:
  assumes "run_analytical_query_tool s tenant sql = (r, executed)" and "executed \<noteq> []"
  shows "\<exists>schema query n. dict_get (ps_tenant_schemas s) tenant = Some schema \<and>
    parse_analytical_query sql schema (ps_row_limit s) = Inr query \<and>
    executed = take n
      [(''SET TRANSACTION READ ONLY'', []),
       (''SELECT set_config('' @ [CHR 0x27] @ ''statement_timeout'' @ [CHR 0x27] @ '', %s, true), set_config('' @
          [CHR 0x27] @ ''search_path'' @ [CHR 0x27] @ '', %s, true)'',
        [py_str_int (pb_statement_timeout_ms (ps_backend s)), schema]),
       (aq_sql query, [])]"
proof -
  obtain schema query where q: "dict_get (ps_tenant_schemas s) tenant = Some schema"
    "parse_analytical_query sql schema (ps_row_limit s) = Inr query"
    and run: "snd (PostgresSqlBackend_run_query (ps_backend s) (aq_sql query) (aq_schema query)) = executed"
    using assms
    by (auto simp: run_analytical_query_tool_def PostgresService_run_analytical_query_def PostgresService_schema_for_def
        bind_result_Inr_iff split: sum.splits prod.splits option.splits if_splits)
  have "aq_schema query = schema" using parse_analytical_query_accepts [OF q(2)] by auto
  with run obtain r' where "PostgresSqlBackend_run_query (ps_backend s) (aq_sql query) schema = (r', executed)"
    by (metis prod.collapse)
  from run_statements_prefix [OF this [unfolded PostgresSqlBackend_run_query_def]] q show ?thesis by auto
qed

definition sample_postgres :: PostgresService where
  "sample_postgres = \<lparr>ps_backend = \<lparr>pb_database = (\<lambda>_. Inr []), pb_statement_timeout_ms = 30000\<rparr>,
     ps_tenant_schemas = [(''acme'', ''s'')], ps_row_limit = 5\<rparr>"

lemma sample_tenant: "py_strip ''acme'' \<noteq> []"
  by code_simp

lemma sample_run:
  "\<exists>r executed. run_analytical_query_tool sample_postgres ''acme'' ''SELECT a-b FROM s.t'' = (r, executed) \<and> length executed = 3 \<and>
     last executed = (''SELECT a-b FROM s.t LIMIT 5'', [])"
  using sample_tenant
  by (simp add: run_analytical_query_tool_def PostgresService_run_analytical_query_def PostgresService_schema_for_def
      sample_postgres_def sample_query PostgresSqlBackend_run_query_def)

theorem analytical_query_runs_read_only_in_own_schema_witness:
  "\<exists>r executed. run_analytical_query_tool sample_postgres ''acme'' ''SELECT a-b FROM s.t'' = (r, executed) \<and>
    hd executed = (''SET TRANSACTION READ ONLY'', []) \<and> snd (executed ! 1) = [py_str_int 30000, ''s''] \<and>
    last executed = (''SELECT a-b FROM s.t LIMIT 5'', [])"
proof -
  obtain r executed where run: "run_analytical_query_tool sample_postgres ''acme'' ''SELECT a-b FROM s.t'' = (r, executed)"
    "length executed = 3" "last executed = (''SELECT a-b FROM s.t LIMIT 5'', [])" using sample_run by blast
  then have "executed \<noteq> []" by auto
  from analytical_query_runs_read_only_in_own_schema [OF run(1) this] obtain n and config :: string and last_statement :: sql_statement where
    e: "executed = take n [(''SET TRANSACTION READ ONLY'', []), (config, [py_str_int 30000, ''s'']), last_statement]"
    by (auto simp: sample_postgres_def)
  moreover have "take n [x, y, z] = [x, y, z]" if "length (take n [x, y, z]) = 3" for x y z :: sql_statement
    using that by (simp add: take_Cons' split: if_splits)
  ultimately show ?thesis using run by auto
qed


section \<open>What the parser does not see\<close>

text \<open>
  The comments are removed before the string literals, so a literal that contains two dashes takes
  the rest of its line with it. The lure is a query of the two parts every check looks for, a select
  and a small limit, before such a literal.
\<close>

definition lure :: string where
  "lure = ''select (select 1 limit 1), '' @ [CHR 0x27] @ ''--'' @ [CHR 0x27] @ ''; ''"

definition lure_seen :: string where
  "lure_seen = ''select (select 1 limit 1), '' @ [CHR 0x27] @ '' ''"

lemma lure_hides:
  assumes "CHR 0x0A \<notin> set hidden"
  shows "strip_comments_and_literals (lure @ hidden) = lure_seen"
proof -
  have "CHR 0x0A \<notin> set ([CHR 0x27] @ ''; '' @ hidden)" using assms by simp
  from rx_sub_LINE_COMMENT [of "''select (select 1 limit 1), '' @ [CHR 0x27]", OF _ this]
  have "rx_sub LINE_COMMENT '' '' (lure @ hidden) = lure_seen" by (simp add: lure_def lure_seen_def)
  moreover have "rx_sub BLOCK_COMMENT '' '' lure_seen = lure_seen"
    unfolding BLOCK_COMMENT_def rx_seq.simps lure_seen_def by (intro rx_sub_none rx_match_lit_absent) (simp_all add: sublist_code)
  moreover have "rx_sub STRING_LITERAL [CHR 0x27, CHR 0x27] lure_seen = lure_seen" by code_simp
  ultimately show ?thesis by (simp add: strip_comments_and_literals_def)
qed

lemma lure_checks:
  "split_statements lure_seen = [py_rstrip lure_seen]" "py_lower (py_rstrip lure_seen) = py_rstrip lure_seen"
  "rx_findall WORD (py_rstrip lure_seen) = [''select'', ''select'', ''limit'']" "py_startswith (py_rstrip lure_seen) ''select''"
  "rx_findall_group QUALIFIED_NAME (py_rstrip lure_seen) = []" "rx_findall_group CTE_NAME (py_rstrip lure_seen) = []"
  "rx_findall_group UNQUALIFIED_TABLE (py_rstrip lure_seen) = []"
  by code_simp+

lemma lure_limit: "\<exists>z m. rx_search LIMIT_CLAUSE lure_seen = Some (z, m, [''1''])"
proof -
  have "(case rx_search LIMIT_CLAUSE lure_seen of Some (_, _, groups) \<Rightarrow> groups = [''1''] | None \<Rightarrow> False)" by code_simp
  then show ?thesis by (auto split: option.splits)
qed

lemma ends_plain:
  assumes "s \<noteq> []" and "\<not> is_space (last s)" and "last s \<noteq> CHR '';''"
  shows "py_rstrip (py_rstrip_char CHR '';'' (py_rstrip s)) = s" and "\<not> is_space (hd s) \<Longrightarrow> py_strip s = s"
proof -
  obtain xs x where "s = xs @ [x]" using assms(1) by (cases s rule: rev_cases) auto
  then have rstrip: "py_rstrip s = s" "py_rstrip_char CHR '';'' s = s" using assms(2,3) by (simp_all add: py_rstrip_def py_rstrip_char_def)
  then show "py_rstrip (py_rstrip_char CHR '';'' (py_rstrip s)) = s" by simp
  have "py_lstrip s = s" if "\<not> is_space (hd s)" using that assms(1) by (cases s) (simp_all add: py_lstrip_def)
  then show "\<not> is_space (hd s) \<Longrightarrow> py_strip s = s" using rstrip(1) by (simp add: py_strip_def)
qed

lemma lure_accepted:
  assumes "schema \<noteq> []" and "rx_fullmatch WORD schema" and "1 \<le> row_limit"
    and "hidden \<noteq> []" and "CHR 0x0A \<notin> set hidden" and "\<not> is_space (last hidden)" and "last hidden \<noteq> CHR '';''" and "length (lure @ hidden) \<le> 8000"
  shows "parse_analytical_query (lure @ hidden) schema row_limit = Inr \<lparr>aq_sql = lure @ hidden, aq_schema = schema, aq_row_limit = row_limit\<rparr>"
proof -
  have "last (lure @ hidden) = last hidden" "hd (lure @ hidden) = CHR ''s''" using assms(4) by (simp_all add: lure_def)
  moreover have "\<not> is_space CHR ''s''" by code_simp
  ultimately have raw: "py_strip (lure @ hidden) = lure @ hidden" "py_rstrip (py_rstrip_char CHR '';'' (py_rstrip (lure @ hidden))) = lure @ hidden"
    using ends_plain [of "lure @ hidden"] assms(4,6,7) by auto
  have "py_int_of_digits ''1'' = 1" by code_simp
  then have "apply_row_limit (lure @ hidden) lure_seen row_limit = lure @ hidden"
    using lure_limit assms(3) raw(2) by (auto simp: apply_row_limit_def)
  moreover have "reject_foreign_schemas (py_rstrip lure_seen) schema = Inr ()"
    by (simp add: reject_foreign_schemas_def lure_checks)
  ultimately show ?thesis using assms raw(1) lure_hides [OF assms(5)]
    by (simp add: parse_analytical_query_def lure_checks MAX_QUERY_LENGTH_def READ_ONLY_PREFIXES_def FORBIDDEN_KEYWORDS_def FORBIDDEN_FUNCTIONS_def)
qed

lemma run_statements_accepting:
  assumes "\<And>executed. is_ok (db executed)"
  shows "snd (run_statements db executed ss) = executed @ ss"
proof (induction ss arbitrary: executed)
  case (Cons s ss)
  have "\<exists>rows. db (executed @ [s]) = Inr rows" using assms [of "executed @ [s]"] by (cases "db (executed @ [s])") auto
  with Cons.IH [of "executed @ [s]"] show ?case by (auto simp: Let_def)
qed simp

lemma tenant_schema_valid:
  assumes "PostgresService_valid s" and "dict_get (ps_tenant_schemas s) tenant = Some schema"
  shows "schema \<noteq> [] \<and> rx_fullmatch WORD schema \<and> 1 \<le> ps_row_limit s"
proof -
  have "is_ok (parse_analytical_query ''SELECT 1'' schema 1)"
    using assms(1) map_of_SomeD [OF assms(2)] unfolding PostgresService_valid_def list_all_iff by blast
  then obtain q where "parse_analytical_query ''SELECT 1'' schema 1 = Inr q" by (cases "parse_analytical_query ''SELECT 1'' schema 1") auto
  from parse_analytical_query_accepts [OF this] have "rx_fullmatch WORD schema" by blast
  moreover have "\<not> rx_fullmatch WORD []" by code_simp
  ultimately show ?thesis using assms(1) unfolding PostgresService_valid_def by blast
qed

text \<open>
  C40. Any one-line text at all, within the length limit, is executed as written when it stands behind
  a literal that contains two dashes: for a tenant with a schema and a database that carries out what it
  is given, the analytical call of the lure followed by the text (which ends in neither a blank nor a
  semicolon, as the code would cut those off) passes every check and executes, after the two settings,
  exactly the caller's text.
\<close>

theorem hidden_statement_is_executed:
  assumes "PostgresService_valid s" and "py_strip tenant \<noteq> []" and "dict_get (ps_tenant_schemas s) tenant = Some schema"
    and "\<And>executed. is_ok (pb_database (ps_backend s) executed)"
    and "hidden \<noteq> []" and "CHR 0x0A \<notin> set hidden" and "\<not> is_space (last hidden)" and "last hidden \<noteq> CHR '';''"
    and "length (lure @ hidden) \<le> 8000"
  shows "snd (run_analytical_query_tool s tenant (''select (select 1 limit 1), '' @ [CHR 0x27] @ ''--'' @ [CHR 0x27] @ ''; '' @ hidden)) =
    [(''SET TRANSACTION READ ONLY'', []),
     (''SELECT set_config('' @ [CHR 0x27] @ ''statement_timeout'' @ [CHR 0x27] @ '', %s, true), set_config('' @
        [CHR 0x27] @ ''search_path'' @ [CHR 0x27] @ '', %s, true)'',
      [py_str_int (pb_statement_timeout_ms (ps_backend s)), schema]),
     (''select (select 1 limit 1), '' @ [CHR 0x27] @ ''--'' @ [CHR 0x27] @ ''; '' @ hidden, [])]"
proof -
  have written: "''select (select 1 limit 1), '' @ [CHR 0x27] @ ''--'' @ [CHR 0x27] @ ''; '' @ hidden = lure @ hidden" by (simp add: lure_def)
  have q: "parse_analytical_query (lure @ hidden) schema (ps_row_limit s) =
      Inr \<lparr>aq_sql = lure @ hidden, aq_schema = schema, aq_row_limit = ps_row_limit s\<rparr>"
    using tenant_schema_valid [OF assms(1,3)] assms(5-9) by (intro lure_accepted) auto
  show ?thesis unfolding written using assms(2,3) q
    by (simp add: run_analytical_query_tool_def PostgresService_run_analytical_query_def PostgresService_schema_for_def
        PostgresSqlBackend_run_query_def split_def Let_def run_statements_accepting [OF assms(4)] del: run_statements.simps)
qed

theorem hidden_statement_is_executed_witness:
  "last (snd (run_analytical_query_tool sample_postgres ''acme''
      (''select (select 1 limit 1), '' @ [CHR 0x27] @ ''--'' @ [CHR 0x27] @ ''; '' @ ''drop table s.t''))) =
    (''select (select 1 limit 1), '' @ [CHR 0x27] @ ''--'' @ [CHR 0x27] @ ''; drop table s.t'', [])"
proof -
  have "is_ok (parse_analytical_query ''SELECT 1'' ''s'' 1)"
  proof -
    have "strip_comments_and_literals ''SELECT 1'' = ''SELECT 1''" by (rule strip_plain) (simp_all add: sublist_code)
    moreover have "py_strip ''SELECT 1'' = ''SELECT 1''" "split_statements ''SELECT 1'' = [''SELECT 1'']" "py_lower ''SELECT 1'' = ''select 1''"
      "rx_findall WORD ''select 1'' = [''select'']" "rx_findall_group QUALIFIED_NAME ''SELECT 1'' = []"
      "rx_findall_group CTE_NAME ''SELECT 1'' = []" "rx_findall_group UNQUALIFIED_TABLE ''SELECT 1'' = []" by code_simp+
    ultimately show ?thesis
      by (simp add: parse_analytical_query_def sample_checks(2) MAX_QUERY_LENGTH_def READ_ONLY_PREFIXES_def FORBIDDEN_KEYWORDS_def
          FORBIDDEN_FUNCTIONS_def reject_foreign_schemas_def Let_def)
  qed
  then have "PostgresService_valid sample_postgres" by (simp add: PostgresService_valid_def sample_postgres_def)
  moreover have "\<not> is_space CHR ''t''" by code_simp
  ultimately show ?thesis
    by (subst hidden_statement_is_executed [of sample_postgres "''acme''" "''s''" "''drop table s.t''"])
      (simp_all add: sample_postgres_def lure_def sample_tenant)
qed

end
