(* ===== verification/GitHubServer.thy ===== *)
theory GitHubServer
  imports Regex ServerText
begin

text \<open>
  The repository allowlist (\<open>mcp/servers/github_boundary.py\<close>), the service that applies it
  (\<open>mcp/servers/github_server.py\<close>) and the REST backend (\<open>mcp/servers/github_api.py\<close>). The HTTP
  client is a parameter: what it answers to a path with its query parameters.
\<close>

section \<open>The boundary\<close>

definition repo_start :: "char \<Rightarrow> bool" where
  "repo_start c \<longleftrightarrow> (let n = (of_char c :: nat) in 48 \<le> n \<and> n \<le> 57 \<or> 65 \<le> n \<and> n \<le> 90 \<or> 97 \<le> n \<and> n \<le> 122)"

definition repo_char :: "char \<Rightarrow> bool" where
  "repo_char c \<longleftrightarrow> repo_start c \<or> c = CHR ''.'' \<or> c = CHR ''_'' \<or> c = CHR ''-''"

definition ref_char :: "char \<Rightarrow> bool" where
  "ref_char c \<longleftrightarrow> repo_char c \<or> c = CHR ''/''"

definition is_newline :: "char \<Rightarrow> bool" where
  "is_newline c \<longleftrightarrow> c = CHR 0x0A"

definition OWNER_REPO :: "char rx" where
  "OWNER_REPO = rx_seq [Bos, Cls repo_start, rx_rep 0 99 (Cls repo_char), Eos is_newline]"

definition REF_NAME :: "char rx" where
  "REF_NAME = rx_seq [Bos, Cls repo_start, rx_rep 0 199 (Cls ref_char), Eos is_newline]"

definition READABLE_REF_PREFIXES :: "string list" where
  "READABLE_REF_PREFIXES = [''refs/heads/'', ''refs/tags/'']"

datatype GitHubError = RepositoryNotAllowed string | GitHubLookup string | GitHubRuntime string | GitHubEscaped string

type_synonym RepositoryAllowlist = "(string, string list) dict"

definition RepositoryAllowlist_valid :: "RepositoryAllowlist \<Rightarrow> bool" where
  "RepositoryAllowlist_valid repositories \<longleftrightarrow> repositories \<noteq> [] \<and>
     list_all (\<lambda>(tenant_id, entries). tenant_id \<noteq> [] \<and>
       list_all (\<lambda>entry. case py_partition CHR ''/'' entry of (owner, _, name) \<Rightarrow>
         rx_matches OWNER_REPO owner \<and> rx_matches OWNER_REPO name) entries) repositories"

definition RepositoryAllowlist_permits :: "RepositoryAllowlist \<Rightarrow> string \<Rightarrow> string \<Rightarrow> bool" where
  "RepositoryAllowlist_permits repositories tenant_id repository \<longleftrightarrow>
     py_lower repository \<in> set (map py_lower (case dict_get repositories tenant_id of None \<Rightarrow> [] | Some entries \<Rightarrow> entries))"

definition resolve_repository :: "RepositoryAllowlist \<Rightarrow> string \<Rightarrow> string \<Rightarrow> GitHubError + string" where
  "resolve_repository allowlist tenant_id repository =
     (let candidate = py_removesuffix (py_strip repository) ''.git'';
          (owner, separator, name) = py_partition CHR ''/'' candidate
      in if \<not> separator \<or> \<not> rx_matches OWNER_REPO owner \<or> \<not> rx_matches OWNER_REPO name
         then Inl (RepositoryNotAllowed (py_repr repository @ '' is not a valid owner/name repository''))
         else if \<not> RepositoryAllowlist_permits allowlist tenant_id candidate
         then Inl (RepositoryNotAllowed (candidate @ '' is not an approved repository for tenant '' @ tenant_id))
         else Inr candidate)"

definition ensure_readable_ref :: "string \<Rightarrow> GitHubError + string" where
  "ensure_readable_ref ref =
     (let candidate = py_strip ref in
      if \<not> rx_matches REF_NAME candidate then Inl (RepositoryNotAllowed (py_repr ref @ '' is not a valid git ref''))
      else if py_contains candidate ''..'' \<or> py_endswith candidate ''/''
      then Inl (RepositoryNotAllowed (py_repr ref @ '' is not a valid git ref''))
      else if py_startswith candidate ''refs/'' \<and> \<not> list_ex (\<lambda>p. py_startswith candidate p) READABLE_REF_PREFIXES
      then Inl (RepositoryNotAllowed (py_repr ref @ '' is not a readable branch or tag''))
      else Inr candidate)"


section \<open>The backend\<close>

text \<open>A request is a path with its query parameters; the client answers with a status and a document, or fails.\<close>

type_synonym github_request = "string \<times> (string \<times> string) list"

datatype github_answer = GitHubUnreachable string | GitHubAnswer int pyval

type_synonym github_client = "github_request \<Rightarrow> github_answer"

definition MAX_TREE_ENTRIES :: nat where
  "MAX_TREE_ENTRIES = 5000"

definition GitHubApiBackend_get :: "github_client \<Rightarrow> string \<Rightarrow> (string \<times> string) list \<Rightarrow> GitHubError + pyval" where
  "GitHubApiBackend_get client path params =
     (case client (path, params) of
        GitHubUnreachable m \<Rightarrow> Inl (GitHubRuntime (''GitHub could not be reached: '' @ m))
      | GitHubAnswer status document \<Rightarrow>
          if status = 404 then Inl (GitHubLookup (path @ '' was not found, or the token cannot read it''))
          else if status \<ge> 400 then Inl (GitHubRuntime (''GitHub answered '' @ py_str_int status @ '' for '' @ path))
          else Inr document)"

definition iterated :: "pyval \<Rightarrow> GitHubError + pyval list" where
  "iterated v = (case py_iter v of None \<Rightarrow> Inl (GitHubEscaped ''TypeError'') | Some vs \<Rightarrow> Inr vs)"

text \<open>The paths of the entries that are blobs; an entry without a path raises a \<open>KeyError\<close>.\<close>

fun blob_paths :: "pyval list \<Rightarrow> GitHubError + string list" where
  "blob_paths [] = Inr []"
| "blob_paths (VDict kvs # vs) =
     (if dict_get kvs ''type'' = Some (VStr ''blob'')
      then (case dict_get kvs ''path'' of
              None \<Rightarrow> Inl (GitHubEscaped ''KeyError'')
            | Some path \<Rightarrow> bind_result (blob_paths vs) (\<lambda>paths. Inr (py_str path # paths)))
      else blob_paths vs)"
| "blob_paths (_ # vs) = blob_paths vs"

definition tree_path :: "string \<Rightarrow> string \<Rightarrow> string" where
  "tree_path repository ref = ''/repos/'' @ repository @ ''/git/trees/'' @ ref"

definition GitHubApiBackend_read_repository :: "github_client \<Rightarrow> string \<Rightarrow> string \<Rightarrow> (GitHubError + string list) \<times> github_request list" where
  "GitHubApiBackend_read_repository client repository ref =
     (let path = tree_path repository ref; params = [(''recursive'', ''1'')] in
      (bind_result (GitHubApiBackend_get client path params) (\<lambda>tree.
         case tree of
           VDict kvs \<Rightarrow>
             bind_result (iterated (case dict_get kvs ''tree'' of None \<Rightarrow> VList [] | Some v \<Rightarrow> v)) (\<lambda>entries.
               bind_result (blob_paths entries) (\<lambda>paths. Inr (take MAX_TREE_ENTRIES (sort paths))))
         | _ \<Rightarrow> Inl (GitHubEscaped ''AttributeError'')),
       [(path, params)]))"

definition field_of :: "(string \<times> pyval) list \<Rightarrow> string \<Rightarrow> pyval" where
  "field_of kvs k = (case dict_get kvs k of None \<Rightarrow> VNone | Some v \<Rightarrow> v)"

text \<open>\<open>(pull.get("user") or {}).get("login")\<close>.\<close>

definition author_login :: "(string \<times> pyval) list \<Rightarrow> GitHubError + pyval" where
  "author_login kvs = (let user = field_of kvs ''user'' in
     if \<not> py_truth user then Inr VNone
     else case user of VDict u \<Rightarrow> Inr (field_of u ''login'') | _ \<Rightarrow> Inl (GitHubEscaped ''AttributeError''))"

fun pull_records :: "pyval list \<Rightarrow> GitHubError + pyval list" where
  "pull_records [] = Inr []"
| "pull_records (VDict kvs # vs) =
     bind_result (author_login kvs) (\<lambda>author.
       bind_result (pull_records vs) (\<lambda>records.
         Inr (VDict [(''number'', field_of kvs ''number''), (''title'', field_of kvs ''title''), (''state'', field_of kvs ''state''),
           (''author'', author), (''created_at'', field_of kvs ''created_at''), (''merged_at'', field_of kvs ''merged_at''),
           (''url'', field_of kvs ''html_url'')] # records)))"
| "pull_records (_ # vs) = pull_records vs"

definition pulls_path :: "string \<Rightarrow> string" where
  "pulls_path repository = ''/repos/'' @ repository @ ''/pulls''"

definition GitHubApiBackend_read_pull_requests :: "github_client \<Rightarrow> string \<Rightarrow> int \<Rightarrow> (GitHubError + pyval list) \<times> github_request list" where
  "GitHubApiBackend_read_pull_requests client repository limit =
     (let path = pulls_path repository;
          params = [(''state'', ''all''), (''per_page'', py_str_int limit), (''sort'', ''updated''), (''direction'', ''desc'')] in
      (bind_result (GitHubApiBackend_get client path params) (\<lambda>pulls.
         bind_result (iterated pulls) (\<lambda>vs. bind_result (pull_records vs) (\<lambda>records. Inr (py_take limit records)))),
       [(path, params)]))"


section \<open>The service\<close>

record GitHubService =
  gh_client :: github_client
  gh_allowlist :: RepositoryAllowlist

definition MAX_PULL_REQUESTS :: int where
  "MAX_PULL_REQUESTS = 50"

definition GitHubService_resolve :: "GitHubService \<Rightarrow> string \<Rightarrow> string \<Rightarrow> GitHubError + string" where
  "GitHubService_resolve s tenant_id repository =
     (if py_strip tenant_id = [] then Inl (RepositoryNotAllowed ''a GitHub call must identify its tenant'')
      else resolve_repository (gh_allowlist s) tenant_id repository)"

definition GitHubService_read_repository ::
  "GitHubService \<Rightarrow> string \<Rightarrow> string \<Rightarrow> string \<Rightarrow> (GitHubError + string list) \<times> github_request list" where
  "GitHubService_read_repository s tenant_id repository ref =
     (case bind_result (GitHubService_resolve s tenant_id repository) (\<lambda>resolved.
             bind_result (ensure_readable_ref ref) (\<lambda>readable. Inr (resolved, readable))) of
        Inl e \<Rightarrow> (Inl e, [])
      | Inr (resolved, readable) \<Rightarrow> GitHubApiBackend_read_repository (gh_client s) resolved readable)"

definition GitHubService_read_pull_requests ::
  "GitHubService \<Rightarrow> string \<Rightarrow> string \<Rightarrow> int \<Rightarrow> (GitHubError + pyval list) \<times> github_request list" where
  "GitHubService_read_pull_requests s tenant_id repository limit =
     (case GitHubService_resolve s tenant_id repository of
        Inl e \<Rightarrow> (Inl e, [])
      | Inr resolved \<Rightarrow> GitHubApiBackend_read_pull_requests (gh_client s) resolved (max 1 (min limit MAX_PULL_REQUESTS)))"

definition github_message :: "GitHubError \<Rightarrow> string option" where
  "github_message e = (case e of RepositoryNotAllowed m \<Rightarrow> Some (''validation error: '' @ m) | _ \<Rightarrow> None)"

definition read_repository_tool ::
  "GitHubService \<Rightarrow> string \<Rightarrow> string \<Rightarrow> string \<Rightarrow> (GitHubError ToolError + string) \<times> github_request list" where
  "read_repository_tool s tenant_id repository ref =
     (let (r, sent) = GitHubService_read_repository s tenant_id repository ref in
      (bind_result (tool_result github_message r) (\<lambda>paths. Inr (json_text (VList (map VStr paths)))), sent))"

definition read_pull_requests_tool ::
  "GitHubService \<Rightarrow> string \<Rightarrow> string \<Rightarrow> int \<Rightarrow> (GitHubError ToolError + string) \<times> github_request list" where
  "read_pull_requests_tool s tenant_id repository limit =
     (let (r, sent) = GitHubService_read_pull_requests s tenant_id repository limit in
      (bind_result (tool_result github_message r) (\<lambda>records. Inr (json_text (VList records))), sent))"


section \<open>What the boundary guarantees\<close>

text \<open>
  An anchored pattern of two classes matches texts over the wider class; since \<open>$\<close> also matches
  before a final line feed, one may follow.
\<close>

lemma anchored_match:
  assumes "rx_matches (rx_seq [Bos, Cls p, rx_rep 0 n (Cls q), Eos is_newline]) s" and "\<And>c. p c \<Longrightarrow> q c"
  shows "\<exists>w. w \<noteq> [] \<and> list_all q w \<and> (s = w \<or> s = w @ [CHR 0x0A])"
proof -
  from assms(1) obtain c cs z g where cs: "s = c # cs" "p c" "(z, g) \<in> set (rx_match (rx_rep 0 n (Cls q)) ([c], cs))"
    and eos: "rx_match (Eos is_newline) z \<noteq> []"
    by (cases s) (auto simp: rx_matches_def split: if_splits)
  from rx_match_over [OF cs(3), of q] obtain w where w: "cs = w @ snd z" "list_all q w" by (auto simp: pos_split_def)
  from eos consider "snd z = []" | d where "snd z = [d]" "is_newline d"
    by (auto split: list.splits if_splits)
  then show ?thesis
    by cases (use cs w assms(2) in \<open>auto simp: is_newline_def intro!: exI [of _ "c # w"]\<close>)
qed

lemma owner_repo_chars:
  assumes "rx_matches OWNER_REPO s"
  shows "s \<noteq> [] \<and> list_all (\<lambda>c. repo_char c \<or> is_newline c) s"
proof -
  obtain w where "w \<noteq> []" "list_all repo_char w" "s = w \<or> s = w @ [CHR 0x0A]"
    using anchored_match [OF assms [unfolded OWNER_REPO_def]] by (auto simp: repo_char_def)
  then show ?thesis by (auto simp: list_all_iff is_newline_def)
qed

lemma py_strip_last: "py_strip s \<noteq> [] \<Longrightarrow> \<not> is_space (last (py_strip s))"
  unfolding py_strip_def py_rstrip_def
  by (metis hd_dropWhile last_rev rev.simps(1) rev_rev_ident)

lemma ensure_readable_ref_plain:
  assumes "ensure_readable_ref ref = Inr readable"
  shows "readable \<noteq> [] \<and> list_all ref_char readable \<and> \<not> py_contains readable ''..'' \<and> \<not> py_endswith readable ''/'' \<and>
    (py_startswith readable ''refs/'' \<longrightarrow> py_startswith readable ''refs/heads/'' \<or> py_startswith readable ''refs/tags/'')"
proof -
  have r: "readable = py_strip ref" "rx_matches REF_NAME readable" "\<not> py_contains readable ''..''" "\<not> py_endswith readable ''/''"
    "py_startswith readable ''refs/'' \<longrightarrow> py_startswith readable ''refs/heads/'' \<or> py_startswith readable ''refs/tags/''"
    using assms by (auto simp: ensure_readable_ref_def Let_def READABLE_REF_PREFIXES_def split: if_split_asm)
  obtain w where w: "w \<noteq> []" "list_all ref_char w" "readable = w \<or> readable = w @ [CHR 0x0A]"
    using anchored_match [OF r(2) [unfolded REF_NAME_def]] by (auto simp: ref_char_def repo_char_def)
  have "readable \<noteq> w @ [CHR 0x0A]" using py_strip_last [of ref] r(1) by (auto simp: is_space_def)
  with w r(3-5) show ?thesis by auto
qed

lemma py_partition_at: "py_partition d s = (a, True, b) \<Longrightarrow> s = a @ d # b \<and> d \<notin> set a"
  by (induction d s arbitrary: a rule: py_partition.induct) (auto split: if_splits prod.splits)

lemma resolve_repository_allowed:
  assumes "resolve_repository allowlist tenant repository = Inr resolved"
  shows "RepositoryAllowlist_permits allowlist tenant resolved \<and>
    (\<exists>owner name. resolved = owner @ ''/'' @ name \<and> owner \<noteq> [] \<and> name \<noteq> [] \<and>
       list_all (\<lambda>c. repo_char c \<or> is_newline c) owner \<and> list_all (\<lambda>c. repo_char c \<or> is_newline c) name)"
proof -
  obtain owner name where split: "py_partition CHR ''/'' resolved = (owner, True, name)" "rx_matches OWNER_REPO owner" "rx_matches OWNER_REPO name"
    and ok: "RepositoryAllowlist_permits allowlist tenant resolved"
    using assms by (auto simp: resolve_repository_def Let_def split: if_split_asm prod.splits)
  show ?thesis using py_partition_at [OF split(1)] owner_repo_chars [OF split(2)] owner_repo_chars [OF split(3)] ok by auto
qed

text \<open>
  C29. Only an allowlisted repository is ever requested, and only at an ordinary branch or tag. Every
  request either tool sends is for a repository the tenant's own allowlist names; its owner and its
  name hold no further slash and no character that would change the path, and the ref is made of
  plain characters without a parent step and is not one of git's internal namespaces.
\<close>

theorem github_requests_only_allowlisted:
  assumes "request \<in> set (snd (read_repository_tool s tenant repository ref)) \<union> set (snd (read_pull_requests_tool s tenant repository limit))"
  shows "\<exists>owner name rest. fst request = ''/repos/'' @ owner @ ''/'' @ name @ rest \<and>
    RepositoryAllowlist_permits (gh_allowlist s) tenant (owner @ ''/'' @ name) \<and> owner \<noteq> [] \<and> name \<noteq> [] \<and>
    list_all (\<lambda>c. repo_char c \<or> is_newline c) (owner @ name) \<and>
    (rest = ''/pulls'' \<or> (\<exists>readable. rest = ''/git/trees/'' @ readable \<and> readable \<noteq> [] \<and> list_all ref_char readable \<and>
       \<not> py_contains readable ''..'' \<and>
       (py_startswith readable ''refs/'' \<longrightarrow> py_startswith readable ''refs/heads/'' \<or> py_startswith readable ''refs/tags/'')))"
proof -
  obtain resolved rest where res: "resolve_repository (gh_allowlist s) tenant repository = Inr resolved"
    and req: "fst request = ''/repos/'' @ resolved @ rest"
    and rest: "rest = ''/pulls'' \<or> (\<exists>readable. rest = ''/git/trees/'' @ readable \<and> ensure_readable_ref ref = Inr readable)"
    using assms
    by (auto simp: read_repository_tool_def read_pull_requests_tool_def GitHubService_read_repository_def
        GitHubService_read_pull_requests_def GitHubService_resolve_def GitHubApiBackend_read_repository_def
        GitHubApiBackend_read_pull_requests_def tree_path_def pulls_path_def bind_result_Inr_iff Let_def
        split: sum.splits prod.splits if_split_asm)
  from resolve_repository_allowed [OF res] obtain owner name where "resolved = owner @ ''/'' @ name"
    "RepositoryAllowlist_permits (gh_allowlist s) tenant resolved" "owner \<noteq> []" "name \<noteq> []"
    "list_all (\<lambda>c. repo_char c \<or> is_newline c) (owner @ name)" by auto
  then show ?thesis using req rest ensure_readable_ref_plain
    by (intro exI [of _ owner] exI [of _ name] exI [of _ rest]) auto
qed

definition sample_github :: GitHubService where
  "sample_github = \<lparr>gh_client = (\<lambda>_. GitHubAnswer 200 (VDict [])), gh_allowlist = [(''acme'', [''Acme/Site''])]\<rparr>"

lemma sample_repository: "resolve_repository (gh_allowlist sample_github) ''acme'' '' acme/site.git'' = Inr ''acme/site''"
proof -
  have "py_removesuffix (py_strip '' acme/site.git'') ''.git'' = ''acme/site''" by code_simp
  moreover have "rx_matches OWNER_REPO ''acme''" "rx_matches OWNER_REPO ''site''" by code_simp+
  moreover have "RepositoryAllowlist_permits (gh_allowlist sample_github) ''acme'' ''acme/site''" by code_simp
  ultimately show ?thesis by (simp add: resolve_repository_def)
qed

lemma sample_request:
  "(''/repos/acme/site/pulls'', [(''state'', ''all''), (''per_page'', ''50''), (''sort'', ''updated''), (''direction'', ''desc'')])
   \<in> set (snd (read_pull_requests_tool sample_github ''acme'' '' acme/site.git'' 90))"
proof -
  have "py_strip ''acme'' \<noteq> []" "py_str_int 50 = ''50''" by code_simp+
  then show ?thesis
    by (simp add: read_pull_requests_tool_def GitHubService_read_pull_requests_def GitHubService_resolve_def sample_repository
        GitHubApiBackend_read_pull_requests_def pulls_path_def MAX_PULL_REQUESTS_def Let_def split: prod.splits)
qed

theorem github_requests_only_allowlisted_witness:
  "\<exists>owner name rest. ''/repos/acme/site/pulls'' = ''/repos/'' @ owner @ ''/'' @ name @ rest \<and>
    RepositoryAllowlist_permits (gh_allowlist sample_github) ''acme'' (owner @ ''/'' @ name)"
proof -
  from sample_request have "(''/repos/acme/site/pulls'', [(''state'', ''all''), (''per_page'', ''50''), (''sort'', ''updated''), (''direction'', ''desc'')])
    \<in> set (snd (read_repository_tool sample_github ''acme'' '' acme/site.git'' ''main'')) \<union>
      set (snd (read_pull_requests_tool sample_github ''acme'' '' acme/site.git'' 90))" by blast
  from github_requests_only_allowlisted [OF this] show ?thesis unfolding fst_conv by blast
qed

lemma iterated_pulls_bounded:
  "fst (GitHubApiBackend_read_pull_requests client repository limit) = Inr records \<Longrightarrow> 0 \<le> limit \<Longrightarrow> int (length records) \<le> limit"
  by (auto simp: GitHubApiBackend_read_pull_requests_def Let_def bind_result_Inr_iff length_py_take)

lemma repository_paths_bounded:
  assumes "fst (GitHubApiBackend_read_repository client repository ref) = Inr paths"
  shows "\<exists>found. paths = take MAX_TREE_ENTRIES (sort found)"
proof -
  obtain tree where tree: "GitHubApiBackend_get client (tree_path repository ref) [(''recursive'', ''1'')] = Inr tree"
    using assms by (auto simp: GitHubApiBackend_read_repository_def Let_def bind_result_Inr_iff)
  with assms show ?thesis by (cases tree) (auto simp: GitHubApiBackend_read_repository_def Let_def bind_result_Inr_iff)
qed

text \<open>
  What the GitHub tools return is bounded whatever the API answers and whatever limit the caller
  asks for: at most 5000 paths, in order, and at most 50 pull requests.
\<close>

theorem github_results_are_bounded:
  "(fst (GitHubService_read_repository s tenant repository ref) = Inr paths \<longrightarrow> length paths \<le> 5000 \<and> sorted paths) \<and>
   (fst (GitHubService_read_pull_requests s tenant repository limit) = Inr records \<longrightarrow> length records \<le> 50)"
proof (intro conjI impI)
  assume "fst (GitHubService_read_repository s tenant repository ref) = Inr paths"
  then obtain resolved readable where "fst (GitHubApiBackend_read_repository (gh_client s) resolved readable) = Inr paths"
    by (auto simp: GitHubService_read_repository_def split: sum.splits)
  from repository_paths_bounded [OF this] obtain found where "paths = take MAX_TREE_ENTRIES (sort found)" ..
  then show "length paths \<le> 5000" "sorted paths" by (simp_all add: MAX_TREE_ENTRIES_def sorted_wrt_take)
next
  assume "fst (GitHubService_read_pull_requests s tenant repository limit) = Inr records"
  then obtain resolved where
    "fst (GitHubApiBackend_read_pull_requests (gh_client s) resolved (max 1 (min limit MAX_PULL_REQUESTS))) = Inr records"
    by (auto simp: GitHubService_read_pull_requests_def split: sum.splits)
  moreover have "0 \<le> max 1 (min limit MAX_PULL_REQUESTS)" "max 1 (min limit MAX_PULL_REQUESTS) \<le> 50"
    by (auto simp: MAX_PULL_REQUESTS_def)
  ultimately show "length records \<le> 50" using iterated_pulls_bounded by fastforce
qed

lemma sample_pulls: "fst (GitHubService_read_pull_requests sample_github ''acme'' '' acme/site.git'' 90) = Inr []"
proof -
  have "py_strip ''acme'' \<noteq> []" by code_simp
  then show ?thesis
    by (simp add: GitHubService_read_pull_requests_def GitHubService_resolve_def sample_repository GitHubApiBackend_read_pull_requests_def
        GitHubApiBackend_get_def iterated_def py_iter_def py_take_def Let_def) (simp add: sample_github_def)
qed

theorem github_results_are_bounded_witness:
  "\<exists>records. fst (GitHubService_read_pull_requests sample_github ''acme'' '' acme/site.git'' 90) = Inr records \<and> length records \<le> 50"
  using github_results_are_bounded [of sample_github "''acme''" "'' acme/site.git''" "''main''" _ 90 "[]"] sample_pulls by auto

end
