(* ===== verification/Deployment.thy ===== *)
theory Deployment
  imports Executor Auth WebBoundary FilesystemBoundary SqlBoundary GitHubServer
begin

text \<open>
  What a deployment configures and what it therefore runs: \<open>settings.py\<close>, the decisions of
  \<open>composition.py\<close>, \<open>mcp/servers/deployment.py\<close>, \<open>mcp/servers/configured.py\<close> and
  \<open>mcp/servers/serve.py\<close> about which servers exist and how they are reached, and the registry a
  worker offers its agents (\<open>worker.py\<close>). Opening connections and building framework objects is left
  out: a server is the configuration it is built from.
\<close>

section \<open>Settings\<close>

datatype SandboxRuntime = SR_DOCKER | SR_KUBERNETES

record Settings =
  se_oidc_issuer :: "string option"
  se_oidc_audience :: "string option"
  se_oidc_jwks_uri :: "string option"
  se_oidc_ui_client_id :: "string option"
  se_opa_url :: "string option"
  se_opa_timeout_seconds :: pyfloat
  se_max_tool_calls_per_job :: int
  se_web_allowed_domains :: string
  se_web_requests_per_minute :: int
  se_web_search_url :: "string option"
  se_workspace_roots :: string
  se_analytics_database_url :: "string option"
  se_analytics_tenant_schemas :: string
  se_github_token :: "string option"
  se_github_api_url :: string
  se_github_repositories :: string
  se_sandbox_image :: "string option"
  se_sandbox_runtime :: SandboxRuntime
  se_sandbox_namespace :: "string option"
  se_sandbox_runtime_class :: "string option"
  se_mcp_server_urls :: string
  se_mcp_client_id :: "string option"
  se_mcp_client_secret :: "string option"
  se_oidc_token_url :: "string option"
  se_otel_exporter_otlp_endpoint :: "string option"
  se_database_url :: "string option"
  se_redis_url :: "string option"
  se_artifact_endpoint :: "string option"
  se_artifact_access_key :: "string option"
  se_artifact_secret_key :: "string option"
  se_artifact_bucket :: string
  se_workflows_enabled :: bool
  se_temporal_target_host :: string
  se_temporal_namespace :: string
  se_agent_llm :: string
  se_llm_input_cost_per_million_usd :: pyfloat
  se_llm_output_cost_per_million_usd :: pyfloat

definition Settings_default :: Settings where
  "Settings_default =
     \<lparr>se_oidc_issuer = None, se_oidc_audience = None, se_oidc_jwks_uri = None, se_oidc_ui_client_id = None, se_opa_url = None,
      se_opa_timeout_seconds = 2, se_max_tool_calls_per_job = 50, se_web_allowed_domains = [], se_web_requests_per_minute = 30,
      se_web_search_url = None, se_workspace_roots = [], se_analytics_database_url = None, se_analytics_tenant_schemas = [],
      se_github_token = None, se_github_api_url = ''https://api.github.com'', se_github_repositories = [], se_sandbox_image = None,
      se_sandbox_runtime = SR_DOCKER, se_sandbox_namespace = None, se_sandbox_runtime_class = None, se_mcp_server_urls = [],
      se_mcp_client_id = None, se_mcp_client_secret = None, se_oidc_token_url = None, se_otel_exporter_otlp_endpoint = None,
      se_database_url = None, se_redis_url = None, se_artifact_endpoint = None, se_artifact_access_key = None,
      se_artifact_secret_key = None, se_artifact_bucket = ''research-artifacts'', se_workflows_enabled = False,
      se_temporal_target_host = ''localhost:7233'', se_temporal_namespace = ''default'', se_agent_llm = ''gpt-4o-mini'',
      se_llm_input_cost_per_million_usd = 15 / 100, se_llm_output_cost_per_million_usd = 60 / 100\<rparr>"

text \<open>The bounds the fields are declared with.\<close>

definition Settings_valid :: "Settings \<Rightarrow> bool" where
  "Settings_valid s \<longleftrightarrow>
     0 < se_opa_timeout_seconds s \<and> se_opa_timeout_seconds s \<le> 30 \<and>
     1 \<le> se_max_tool_calls_per_job s \<and> se_max_tool_calls_per_job s \<le> 10000 \<and>
     1 \<le> se_web_requests_per_minute s \<and> se_web_requests_per_minute s \<le> 10000 \<and>
     3 \<le> length (se_artifact_bucket s) \<and> length (se_artifact_bucket s) \<le> 63 \<and>
     0 \<le> se_llm_input_cost_per_million_usd s \<and> 0 \<le> se_llm_output_cost_per_million_usd s"

text \<open>The truth of an optional setting: set and not empty.\<close>

definition is_set :: "string option \<Rightarrow> bool" where
  "is_set s = (case s of None \<Rightarrow> False | Some t \<Rightarrow> t \<noteq> [])"

definition Settings_otlp_signal_endpoint :: "Settings \<Rightarrow> string \<Rightarrow> string + string" where
  "Settings_otlp_signal_endpoint s signal =
     (if \<not> is_set (se_otel_exporter_otlp_endpoint s) then Inl ''no OTLP endpoint is configured''
      else (let base = py_rstrip_char CHR ''/'' (the (se_otel_exporter_otlp_endpoint s)); path = ''/v1/'' @ signal in
        Inr (if py_endswith base path then base else base @ path)))"

definition Settings_tokens_are_verified :: "Settings \<Rightarrow> bool" where
  "Settings_tokens_are_verified s \<longleftrightarrow> is_set (se_oidc_issuer s) \<and> is_set (se_oidc_audience s)"

definition Settings_state_is_durable :: "Settings \<Rightarrow> bool" where
  "Settings_state_is_durable s = is_set (se_database_url s)"

definition Settings_limits_are_shared :: "Settings \<Rightarrow> bool" where
  "Settings_limits_are_shared s = is_set (se_redis_url s)"

definition Settings_artifacts_are_durable :: "Settings \<Rightarrow> bool" where
  "Settings_artifacts_are_durable s = is_set (se_artifact_endpoint s)"

definition Settings_policy_is_externally_enforced :: "Settings \<Rightarrow> bool" where
  "Settings_policy_is_externally_enforced s = is_set (se_opa_url s)"

text \<open>\<open>jwks_uri\<close> and \<open>token_url\<close>: the setting, or the realm's convention under the issuer.\<close>

definition realm_url :: "string option \<Rightarrow> string option \<Rightarrow> string \<Rightarrow> string \<Rightarrow> string + string" where
  "realm_url chosen issuer path missing =
     (if is_set chosen then Inr (the chosen)
      else if \<not> is_set issuer then Inl missing
      else Inr (py_rstrip_char CHR ''/'' (the issuer) @ path))"

definition Settings_jwks_uri :: "Settings \<Rightarrow> string + string" where
  "Settings_jwks_uri s = realm_url (se_oidc_jwks_uri s) (se_oidc_issuer s) ''/protocol/openid-connect/certs''
     ''a token issuer must be configured before keys can be fetched''"

definition Settings_token_url :: "Settings \<Rightarrow> string + string" where
  "Settings_token_url s = realm_url (se_oidc_token_url s) (se_oidc_issuer s) ''/protocol/openid-connect/token''
     ''a token issuer must be configured before tokens can be issued''"

text \<open>\<open>parse_pairs\<close>, entry by entry; a malformed or repeated entry raises.\<close>

fun parse_entries :: "string \<Rightarrow> (string, string) dict \<Rightarrow> string list \<Rightarrow> string + (string, string) dict" where
  "parse_entries setting pairs [] = Inr pairs"
| "parse_entries setting pairs (entry # entries) =
     (if py_strip entry = [] then parse_entries setting pairs entries
      else (case py_partition CHR ''='' entry of (key, separator, value) \<Rightarrow>
          if \<not> separator \<or> py_strip key = [] \<or> py_strip value = []
          then Inl (setting @ '' entry '' @ py_repr entry @ '' is not a key=value pair'')
          else if dict_get pairs (py_strip key) \<noteq> None
          then Inl (setting @ '' names '' @ py_repr (py_strip key) @ '' more than once'')
          else parse_entries setting (dict_set (py_strip key) (py_strip value) pairs) entries))"

definition parse_pairs :: "string \<Rightarrow> string \<Rightarrow> string + (string, string) dict" where
  "parse_pairs raw setting = parse_entries setting [] (py_split CHR '','' raw)"

definition Settings_tenant_workspace_roots :: "Settings \<Rightarrow> string + (string, string) dict" where
  "Settings_tenant_workspace_roots s = parse_pairs (se_workspace_roots s) ''workspace_roots''"

definition Settings_tenant_schemas :: "Settings \<Rightarrow> string + (string, string) dict" where
  "Settings_tenant_schemas s = parse_pairs (se_analytics_tenant_schemas s) ''analytics_tenant_schemas''"

definition listed_entries :: "char \<Rightarrow> string \<Rightarrow> string list" where
  "listed_entries sep raw = remdups (filter (\<lambda>e. e \<noteq> []) (map py_strip (py_split sep raw)))"

definition Settings_tenant_repositories :: "Settings \<Rightarrow> string + (string, string list) dict" where
  "Settings_tenant_repositories s =
     bind_result (parse_pairs (se_github_repositories s) ''github_repositories'') (\<lambda>pairs.
       Inr (map (\<lambda>(tenant, entries). (tenant, listed_entries CHR ''|'' entries)) pairs))"

definition Settings_remote_mcp_servers :: "Settings \<Rightarrow> string + (string, string) dict" where
  "Settings_remote_mcp_servers s = parse_pairs (se_mcp_server_urls s) ''mcp_server_urls''"

definition Settings_allowed_domains :: "Settings \<Rightarrow> string list" where
  "Settings_allowed_domains s = remdups (map py_lower (listed_entries CHR '','' (se_web_allowed_domains s)))"


section \<open>Which servers a process runs\<close>

definition KNOWN_SERVERS :: "string set" where
  "KNOWN_SERVERS = {''web-research'', ''filesystem'', ''postgres'', ''github'', ''python-analysis'', ''evidence''}"

text \<open>
  What starts the calculation container: the container runtime with its image, or the cluster with the image, the
  namespace and the runtime class. Both are given the wall clock limit of the default limits.
\<close>

datatype sandbox_backend = DockerSandbox string | ClusterSandbox string "string option" "string option"

definition sandbox_configured :: "Settings \<Rightarrow> sandbox_backend option" where
  "sandbox_configured s =
     (if \<not> is_set (se_sandbox_image s) then None
      else if se_sandbox_runtime s = SR_KUBERNETES
      then Some (ClusterSandbox (the (se_sandbox_image s)) (se_sandbox_namespace s) (se_sandbox_runtime_class s))
      else Some (DockerSandbox (the (se_sandbox_image s))))"

text \<open>A server as the configuration it is built from.\<close>

datatype built_server =
    WebServer DomainPolicy bool int
  | FilesystemServer "(string, string) dict"
  | PostgresServer "(string, string) dict"
  | GitHubServerOf RepositoryAllowlist
  | SandboxServer sandbox_backend
  | EvidenceServer

text \<open>The arguments of \<open>build_servers\<close>: what stands for a backend is whether there is one.\<close>

record server_config =
  sv_web :: "DomainPolicy option"
  sv_web_requests_per_minute :: int
  sv_web_shared_limiter :: bool
  sv_workspace_roots :: "(string, string) dict option"
  sv_sql :: bool
  sv_tenant_schemas :: "(string, string) dict"
  sv_github :: bool
  sv_allowlist :: "RepositoryAllowlist option"
  sv_sandbox :: "sandbox_backend option"
  sv_evidence :: bool

definition build_servers :: "server_config \<Rightarrow> (string \<times> built_server) list" where
  "build_servers sv =
     (case sv_web sv of None \<Rightarrow> [] | Some policy \<Rightarrow> [(''web-research'', WebServer policy (sv_web_shared_limiter sv) (sv_web_requests_per_minute sv))]) @
     (case sv_workspace_roots sv of None \<Rightarrow> [] | Some roots \<Rightarrow> [(''filesystem'', FilesystemServer roots)]) @
     (if sv_sql sv \<and> sv_tenant_schemas sv \<noteq> [] then [(''postgres'', PostgresServer (sv_tenant_schemas sv))] else []) @
     (case sv_allowlist sv of None \<Rightarrow> [] | Some allowlist \<Rightarrow> if sv_github sv then [(''github'', GitHubServerOf allowlist)] else []) @
     (case sv_sandbox sv of None \<Rightarrow> [] | Some backend \<Rightarrow> [(''python-analysis'', SandboxServer backend)]) @
     (if sv_evidence sv then [(''evidence'', EvidenceServer)] else [])"

definition web_config :: "Settings \<Rightarrow> string + DomainPolicy option" where
  "web_config s =
     (if Settings_allowed_domains s = [] then Inr None
      else (let policy = \<lparr>dp_domains = Settings_allowed_domains s, dp_allow_subdomains = True\<rparr> in
        if DomainPolicy_valid policy then Inr (Some policy) else Inl ''invalid domain policy''))"

definition sql_configured :: "Settings \<Rightarrow> string + bool" where
  "sql_configured s =
     (if \<not> is_set (se_analytics_database_url s) then Inr False
      else bind_result (Settings_tenant_schemas s) (\<lambda>schemas. Inr (schemas \<noteq> [])))"

definition github_configured :: "Settings \<Rightarrow> string + bool" where
  "github_configured s =
     (if se_github_token s = None then Inr False
      else bind_result (Settings_tenant_repositories s) (\<lambda>repositories. Inr (repositories \<noteq> [])))"

text \<open>The roots must be absolute and the allowlist well formed; both are checked when they are built.\<close>

definition checked_roots :: "(string, string) dict \<Rightarrow> string + (string, string) dict option" where
  "checked_roots roots =
     (if roots = [] then Inr None
      else if list_all (\<lambda>(tenant, base). tenant \<noteq> [] \<and> py_startswith base ''/'') roots then Inr (Some roots)
      else Inl ''invalid workspace root'')"

definition checked_allowlist :: "RepositoryAllowlist \<Rightarrow> string + RepositoryAllowlist option" where
  "checked_allowlist repositories =
     (if repositories = [] then Inr None
      else if RepositoryAllowlist_valid repositories then Inr (Some repositories) else Inl ''invalid repository allowlist'')"

text \<open>A PostgreSQL service refuses schemas its own parser would refuse.\<close>

definition checked_schemas :: "bool \<Rightarrow> (string, string) dict \<Rightarrow> string + unit" where
  "checked_schemas sql schemas =
     (if sql \<and> schemas \<noteq> [] \<and> \<not> list_all (\<lambda>(tenant, schema). tenant \<noteq> [] \<and> is_ok (parse_analytical_query ''SELECT 1'' schema 1)) schemas
      then Inl ''invalid tenant schema'' else Inr ())"

definition build_local_servers :: "Settings \<Rightarrow> bool \<Rightarrow> (string \<Rightarrow> bool) \<Rightarrow> string + (string \<times> built_server) list" where
  "build_local_servers s evidence_source wanted =
     bind_result (if wanted ''web-research'' then web_config s else Inr None) (\<lambda>web.
     bind_result (if wanted ''filesystem'' then Settings_tenant_workspace_roots s else Inr []) (\<lambda>roots.
     bind_result (if wanted ''github'' then Settings_tenant_repositories s else Inr []) (\<lambda>repositories.
     bind_result (checked_roots roots) (\<lambda>workspace.
     bind_result (if wanted ''postgres'' then sql_configured s else Inr False) (\<lambda>sql.
     bind_result (Settings_tenant_schemas s) (\<lambda>schemas.
     bind_result (if repositories \<noteq> [] then github_configured s else Inr False) (\<lambda>github.
     bind_result (checked_allowlist repositories) (\<lambda>allowlist.
     bind_result (checked_schemas sql schemas) (\<lambda>_.
       Inr (build_servers
         \<lparr>sv_web = web, sv_web_requests_per_minute = se_web_requests_per_minute s, sv_web_shared_limiter = is_set (se_redis_url s),
          sv_workspace_roots = workspace, sv_sql = sql, sv_tenant_schemas = schemas, sv_github = github, sv_allowlist = allowlist,
          sv_sandbox = (if wanted ''python-analysis'' then sandbox_configured s else None),
          sv_evidence = (wanted ''evidence'' \<and> evidence_source)\<rparr>))))))))))"

text \<open>Whether the gateway has a service identity for remote servers.\<close>

definition build_token_provider :: "Settings \<Rightarrow> string + bool" where
  "build_token_provider s =
     (if \<not> is_set (se_mcp_client_id s) \<or> se_mcp_client_secret s = None then Inr False
      else bind_result (Settings_token_url s) (\<lambda>_. Inr True))"

record ConfiguredServers =
  cs_targets :: "(string, Target) dict"
  cs_has_tokens :: bool

definition ConfiguredServers_names :: "ConfiguredServers \<Rightarrow> string list" where
  "ConfiguredServers_names cs = sort (map fst (cs_targets cs))"

definition configure_servers :: "Settings \<Rightarrow> bool \<Rightarrow> string + ConfiguredServers" where
  "configure_servers s evidence_source =
     bind_result (Settings_remote_mcp_servers s) (\<lambda>remote.
       bind_result (build_local_servers s evidence_source (\<lambda>name. name \<in> KNOWN_SERVERS \<and> dict_get remote name = None)) (\<lambda>local_servers.
         bind_result (if remote \<noteq> [] then build_token_provider s else Inr False) (\<lambda>tokens.
           Inr \<lparr>cs_targets = map (\<lambda>(name, _). (name, LocalServer name)) local_servers @ map (\<lambda>(name, url). (name, RemoteServer url)) remote,
                cs_has_tokens = tokens\<rparr>)))"

text \<open>One server as its own process: refused when it is unknown or not configured; the flag says whether callers are verified.\<close>

datatype ServeError = ServerNotConfigured string | SettingsInvalid string

definition build_server :: "string \<Rightarrow> Settings \<Rightarrow> ServeError + built_server \<times> bool" where
  "build_server name s =
     (if name \<notin> KNOWN_SERVERS then Inl (ServerNotConfigured (name @ '' is not an MCP server this platform provides''))
      else (case build_local_servers s (name = ''evidence'') (\<lambda>n. n = name) of
          Inl e \<Rightarrow> Inl (SettingsInvalid e)
        | Inr servers \<Rightarrow>
            (case map_of servers name of
               None \<Rightarrow> Inl (ServerNotConfigured (name @ '' has no backend and boundary configured, so it was not started''))
             | Some server \<Rightarrow> Inr (server, Settings_tokens_are_verified s))))"


section \<open>What a worker and the API are assembled from\<close>

definition worker_registry :: "ConfiguredServers \<Rightarrow> RegistryError + CapabilityRegistry" where
  "worker_registry cs = CapabilityRegistry_init (filter (\<lambda>c. dict_get (cs_targets cs) (cap_server c) \<noteq> None) DEFAULT_CAPABILITIES)"

text \<open>
  \<open>registry or default_registry()\<close> of \<open>build_gateway\<close>: a registry without capabilities is false, so the gateway
  of a worker without servers resolves the whole catalogue.
\<close>

definition gateway_registry :: "CapabilityRegistry option \<Rightarrow> RegistryError + CapabilityRegistry" where
  "gateway_registry registry = (case registry of None \<Rightarrow> default_registry | Some r \<Rightarrow> if r = [] then default_registry else Inr r)"

lemma empty_registry_gives_the_catalogue: "gateway_registry (Some []) = default_registry"
  by (simp add: gateway_registry_def)

definition UnconfiguredExecutor_execute :: "ExecutionRequest \<Rightarrow> executor_answer" where
  "UnconfiguredExecutor_execute request =
     UpstreamError (''no MCP backend is configured for '' @ cap_server (xr_capability request)) EC_UPSTREAM_UNAVAILABLE"

definition worker_execute ::
  "(mcp_call \<Rightarrow> mcp_answer) \<Rightarrow> string + string \<Rightarrow> ConfiguredServers \<Rightarrow> ExecutionRequest \<Rightarrow> executor_answer \<times> mcp_call list" where
  "worker_execute client provided cs request =
     (if cs_targets cs = [] then (UnconfiguredExecutor_execute request, [])
      else FastMCPExecutor_execute client provided \<lparr>fx_servers = cs_targets cs, fx_has_tokens = cs_has_tokens cs\<rparr> request)"

text \<open>The policy the gateway asks: the registry boundary, and the bundle too when one is configured.\<close>

definition build_policy_stack :: "Settings \<Rightarrow> PolicyEngine \<times> bool" where
  "build_policy_stack s =
     (if \<not> is_set (se_opa_url s) then (RegistryPolicyEngine LOCAL_POLICY_VERSION, False)
      else (AllOfPolicyEngine [RegistryPolicyEngine LOCAL_POLICY_VERSION,
              OpaPolicyEngine (py_rstrip_char CHR ''/'' (the (se_opa_url s))) UNAVAILABLE_VERSION], True))"

definition PolicyStack_description :: "PolicyEngine \<times> bool \<Rightarrow> string" where
  "PolicyStack_description stack =
     (if snd stack then ''registry boundary and Open Policy Agent bundle''
      else ''registry boundary only (no authorization service configured)'')"

definition build_token_verifier :: "Settings \<Rightarrow> string + TokenVerifier option" where
  "build_token_verifier s =
     (if \<not> Settings_tokens_are_verified s then Inr None
      else bind_result (Settings_jwks_uri s) (\<lambda>_.
        bind_result (TokenVerifier_init (the (se_oidc_issuer s)) (the (se_oidc_audience s)) None) (\<lambda>tv. Inr (Some tv))))"

definition describe_identity :: "Settings \<Rightarrow> string" where
  "describe_identity s =
     (if Settings_tokens_are_verified s then ''verified OAuth access tokens''
      else ''development identity headers (no token issuer configured)'')"

definition describe_limits :: "Settings \<Rightarrow> string" where
  "describe_limits s =
     (if Settings_limits_are_shared s then ''budgets, rate limits and circuit state shared through Redis''
      else ''per-process budgets, rate limits and circuit state (no Redis configured)'')"

definition describe_persistence :: "Settings \<Rightarrow> string" where
  "describe_persistence s =
     (if Settings_state_is_durable s then ''PostgreSQL system of record''
      else ''in-process job state (no database configured; not shared between processes)'')"

definition describe_artifacts :: "Settings \<Rightarrow> string" where
  "describe_artifacts s =
     (if Settings_artifacts_are_durable s then ''object store bucket '' @ py_repr (se_artifact_bucket s)
      else ''in-process artifacts (no object store configured; not shared between processes)'')"

text \<open>The object store is refused without its credentials; with them it is connected (\<open>connect\<close>).\<close>

definition configured_artifact_store :: "'s \<Rightarrow> (string \<Rightarrow> string \<Rightarrow> string \<Rightarrow> string \<Rightarrow> string + 's) \<Rightarrow> Settings \<Rightarrow> string + 's" where
  "configured_artifact_store in_memory connect s =
     (if \<not> is_set (se_artifact_endpoint s) then Inr in_memory
      else if \<not> is_set (se_artifact_access_key s) \<or> se_artifact_secret_key s = None
      then Inl ''RESEARCH_ARTIFACT_ACCESS_KEY and RESEARCH_ARTIFACT_SECRET_KEY are required when RESEARCH_ARTIFACT_ENDPOINT is set''
      else connect (the (se_artifact_endpoint s)) (the (se_artifact_access_key s)) (the (se_artifact_secret_key s)) (se_artifact_bucket s))"

text \<open>What the health endpoint and the sign-in configuration say; \<open>workflows\<close> is whether a starter is wired in.\<close>

definition health :: "Settings \<Rightarrow> bool \<Rightarrow> string \<Rightarrow> string \<Rightarrow> (string \<times> string) list" where
  "health s workflows tracing metrics =
     [(''status'', ''ok''), (''identity'', describe_identity s), (''authorization'', PolicyStack_description (build_policy_stack s)),
      (''persistence'', describe_persistence s), (''artifacts'', describe_artifacts s), (''limits'', describe_limits s),
      (''workflows'', if workflows then ''each new job starts a durable workflow'' else ''disabled (jobs are recorded but not executed)''),
      (''tracing'', tracing), (''metrics'', metrics)]"

definition sign_in_configuration :: "Settings \<Rightarrow> (string \<times> string) list" where
  "sign_in_configuration s =
     (if \<not> Settings_tokens_are_verified s then [(''mode'', ''development-headers'')]
      else [(''mode'', ''tokens''), (''issuer'', py_rstrip_char CHR ''/'' (the (se_oidc_issuer s)))] @
        (if is_set (se_oidc_ui_client_id s) then [(''client_id'', the (se_oidc_ui_client_id s))] else []))"


section \<open>What is offered can be reached\<close>

lemma parse_entries_keys:
  "parse_entries setting pairs entries = Inr res \<Longrightarrow> dict_wf pairs \<Longrightarrow> \<forall>(k, v) \<in> set pairs. k \<noteq> [] \<and> v \<noteq> [] \<Longrightarrow>
   dict_wf res \<and> (\<forall>(k, v) \<in> set res. k \<noteq> [] \<and> v \<noteq> [])"
proof (induction entries arbitrary: pairs)
  case (Cons entry entries)
  obtain key separator val where part: "py_partition CHR ''='' entry = (key, separator, val)" by (metis prod.exhaust)
  show ?case
  proof (cases "py_strip entry = []")
    case True
    with Cons show ?thesis by simp
  next
    case False
    then have ok: "separator" "py_strip key \<noteq> []" "py_strip val \<noteq> []" "dict_get pairs (py_strip key) = None"
      and rest: "parse_entries setting (dict_set (py_strip key) (py_strip val) pairs) entries = Inr res"
      using Cons.prems(1) part by (auto split: if_splits)
    have "\<forall>(k, v) \<in> set (dict_set (py_strip key) (py_strip val) pairs). k \<noteq> [] \<and> v \<noteq> []"
      using Cons.prems(3) ok by (auto simp: dict_set_new)
    from Cons.IH [OF rest _ this] Cons.prems(2) show ?thesis by blast
  qed
qed simp

lemma parse_pairs_keys:
  "parse_pairs raw setting = Inr res \<Longrightarrow> dict_wf res \<and> (\<forall>(k, v) \<in> set res. k \<noteq> [] \<and> v \<noteq> [])"
  using parse_entries_keys [of setting "[]"] by (simp add: parse_pairs_def dict_wf_def)

text \<open>What each local server needs: its backend and its boundary, both well formed.\<close>

definition bounded_server :: "Settings \<Rightarrow> bool \<Rightarrow> string \<Rightarrow> bool" where
  "bounded_server s evidence name \<longleftrightarrow>
     name = ''web-research'' \<and> Settings_allowed_domains s \<noteq> [] \<and>
       DomainPolicy_valid \<lparr>dp_domains = Settings_allowed_domains s, dp_allow_subdomains = True\<rparr> \<or>
     name = ''filesystem'' \<and> (\<exists>roots. Settings_tenant_workspace_roots s = Inr roots \<and> roots \<noteq> [] \<and>
       (\<forall>(tenant, base) \<in> set roots. tenant \<noteq> [] \<and> py_startswith base ''/'')) \<or>
     name = ''postgres'' \<and> is_set (se_analytics_database_url s) \<and> (\<exists>schemas. Settings_tenant_schemas s = Inr schemas \<and> schemas \<noteq> [] \<and>
       (\<forall>(tenant, schema) \<in> set schemas. tenant \<noteq> [] \<and> is_ok (parse_analytical_query ''SELECT 1'' schema 1))) \<or>
     name = ''github'' \<and> se_github_token s \<noteq> None \<and> (\<exists>repositories. Settings_tenant_repositories s = Inr repositories \<and> RepositoryAllowlist_valid repositories) \<or>
     name = ''python-analysis'' \<and> is_set (se_sandbox_image s) \<or>
     name = ''evidence'' \<and> evidence"

lemma optional_name: "fst ` set (case x of None \<Rightarrow> [] | Some y \<Rightarrow> [(n, f y)]) = (if x = None then {} else {n})"
  by (cases x) auto

lemma optional_guarded_name: "fst ` set (case x of None \<Rightarrow> [] | Some y \<Rightarrow> if b then [(n, f y)] else []) = (if b \<and> x \<noteq> None then {n} else {})"
  by (cases x; cases b) auto

lemma guarded_name: "fst ` set (if b then [(n, y)] else []) = (if b then {n} else {})"
  by (cases b) auto

lemma built_names:
  "name \<in> fst ` set (build_servers sv) \<longleftrightarrow>
    name = ''web-research'' \<and> sv_web sv \<noteq> None \<or> name = ''filesystem'' \<and> sv_workspace_roots sv \<noteq> None \<or>
    name = ''postgres'' \<and> sv_sql sv \<and> sv_tenant_schemas sv \<noteq> [] \<or> name = ''github'' \<and> sv_github sv \<and> sv_allowlist sv \<noteq> None \<or>
    name = ''python-analysis'' \<and> sv_sandbox sv \<noteq> None \<or> name = ''evidence'' \<and> sv_evidence sv"
proof -
  have if_name: "name \<in> (if b then {} else {n}) \<longleftrightarrow> name = n \<and> \<not> b" "name \<in> (if b then {n} else {}) \<longleftrightarrow> name = n \<and> b" for b n
    by (cases b; simp)+
  show ?thesis
    unfolding build_servers_def set_append image_Un Un_iff optional_name optional_guarded_name guarded_name if_name by blast
qed

lemma six_names:
  "name = a1 \<and> wanted a1 \<and> c1 \<or> name = a2 \<and> wanted a2 \<and> c2 \<or> name = a3 \<and> wanted a3 \<and> c3 \<or>
   name = a4 \<and> wanted a4 \<and> c4 \<or> name = a5 \<and> wanted a5 \<and> c5 \<or> name = a6 \<and> wanted a6 \<and> c6 \<longleftrightarrow>
   (name = a1 \<and> c1 \<or> name = a2 \<and> c2 \<or> name = a3 \<and> c3 \<or> name = a4 \<and> c4 \<or> name = a5 \<and> c5 \<or> name = a6 \<and> c6) \<and> wanted name"
  by blast

lemma build_local_servers_bounded:
  assumes "build_local_servers s evidence wanted = Inr servers"
  shows "name \<in> fst ` set servers \<longleftrightarrow> bounded_server s evidence name \<and> wanted name"
proof -
  obtain web roots repositories workspace sql schemas github allowlist u where
    parts: "(if wanted ''web-research'' then web_config s else Inr None) = Inr web"
      "(if wanted ''filesystem'' then Settings_tenant_workspace_roots s else Inr []) = Inr roots"
      "(if wanted ''github'' then Settings_tenant_repositories s else Inr []) = Inr repositories"
      "checked_roots roots = Inr workspace" "(if wanted ''postgres'' then sql_configured s else Inr False) = Inr sql"
      "Settings_tenant_schemas s = Inr schemas" "(if repositories \<noteq> [] then github_configured s else Inr False) = Inr github"
      "checked_allowlist repositories = Inr allowlist" "checked_schemas sql schemas = Inr u"
    and servers: "servers = build_servers
         \<lparr>sv_web = web, sv_web_requests_per_minute = se_web_requests_per_minute s, sv_web_shared_limiter = is_set (se_redis_url s),
          sv_workspace_roots = workspace, sv_sql = sql, sv_tenant_schemas = schemas, sv_github = github, sv_allowlist = allowlist,
          sv_sandbox = (if wanted ''python-analysis'' then sandbox_configured s else None),
          sv_evidence = (wanted ''evidence'' \<and> evidence)\<rparr>"
    using assms unfolding build_local_servers_def bind_result_Inr_iff by blast
  have web: "web \<noteq> None \<longleftrightarrow> wanted ''web-research'' \<and> Settings_allowed_domains s \<noteq> [] \<and>
      DomainPolicy_valid \<lparr>dp_domains = Settings_allowed_domains s, dp_allow_subdomains = True\<rparr>"
    using parts(1) by (auto simp: web_config_def Let_def split: if_splits)
  have workspace: "workspace \<noteq> None \<longleftrightarrow> wanted ''filesystem'' \<and> (\<exists>roots. Settings_tenant_workspace_roots s = Inr roots \<and> roots \<noteq> [] \<and>
      (\<forall>(tenant, base) \<in> set roots. tenant \<noteq> [] \<and> py_startswith base ''/''))"
    using parts(2,4) by (auto simp: checked_roots_def list_all_iff split: if_splits)
  have sql: "sql \<and> schemas \<noteq> [] \<longleftrightarrow> wanted ''postgres'' \<and> is_set (se_analytics_database_url s) \<and>
      (\<exists>schemas. Settings_tenant_schemas s = Inr schemas \<and> schemas \<noteq> [] \<and>
        (\<forall>(tenant, schema) \<in> set schemas. tenant \<noteq> [] \<and> is_ok (parse_analytical_query ''SELECT 1'' schema 1)))"
    using parts(5,6,9) by (auto simp: sql_configured_def checked_schemas_def list_all_iff split: if_splits)
  have github: "github \<and> allowlist \<noteq> None \<longleftrightarrow> wanted ''github'' \<and> se_github_token s \<noteq> None \<and>
      (\<exists>repositories. Settings_tenant_repositories s = Inr repositories \<and> RepositoryAllowlist_valid repositories)"
    using parts(3,7,8) by (auto simp: github_configured_def checked_allowlist_def RepositoryAllowlist_valid_def split: if_splits)
  have sandbox: "(if wanted ''python-analysis'' then sandbox_configured s else None) \<noteq> None \<longleftrightarrow> wanted ''python-analysis'' \<and> is_set (se_sandbox_image s)"
    by (simp add: sandbox_configured_def)
  show ?thesis
    unfolding servers built_names server_config.select_convs web workspace sql github sandbox bounded_server_def by (rule six_names)
qed

lemma local_targets: "map_of (map (\<lambda>(name, _). (name, LocalServer name)) servers) name = (if name \<in> fst ` set servers then Some (LocalServer name) else None)"
  by (induction servers) auto

lemma register_all_fresh:
  "distinct (map (\<lambda>c. (cap_server c, cap_name c)) cs) \<Longrightarrow> \<forall>c \<in> set cs. dict_get reg (cap_server c, cap_name c) = None \<Longrightarrow>
   \<exists>reg'. CapabilityRegistry_register_all reg cs = Inr reg'"
proof (induction cs arbitrary: reg)
  case (Cons c cs)
  let ?reg = "dict_set (cap_server c, cap_name c) c reg"
  have reg: "CapabilityRegistry_register reg c = Inr ?reg" using Cons.prems(2) by (simp add: CapabilityRegistry_register_def)
  have "(cap_server d, cap_name d) \<noteq> (cap_server c, cap_name c)" if "d \<in> set cs" for d
    using Cons.prems(1) that by (auto simp: image_iff)
  then have "\<forall>d \<in> set cs. dict_get ?reg (cap_server d, cap_name d) = None" using Cons.prems(2) by simp
  with Cons.IH [of ?reg] Cons.prems(1) reg show ?case by simp
qed simp

lemma default_names_distinct: "distinct (map (\<lambda>c. (cap_server c, cap_name c)) DEFAULT_CAPABILITIES)"
  by (simp add: DEFAULT_CAPABILITIES_def WEB_RESEARCH_def FILESYSTEM_def POSTGRES_def GITHUB_def PYTHON_ANALYSIS_def EVIDENCE_def
      ADMINISTRATION_def Capability_default_def)

lemma worker_registry_values:
  "\<exists>reg. worker_registry cs = Inr reg \<and> dict_values reg = filter (\<lambda>c. dict_get (cs_targets cs) (cap_server c) \<noteq> None) DEFAULT_CAPABILITIES"
proof -
  let ?caps = "filter (\<lambda>c. dict_get (cs_targets cs) (cap_server c) \<noteq> None) DEFAULT_CAPABILITIES"
  have "distinct (map (\<lambda>c. (cap_server c, cap_name c)) ?caps)"
    using default_names_distinct by (rule distinct_map_filter)
  then obtain reg where reg: "CapabilityRegistry_register_all [] ?caps = Inr reg" using register_all_fresh [of ?caps "[]"] by auto
  have "list_all Capability_valid ?caps" using default_capabilities_valid by (auto simp: list_all_iff)
  from register_all_inv [OF registry_inv_empty this reg] reg show ?thesis by (simp add: worker_registry_def CapabilityRegistry_init_def)
qed

text \<open>
  C37. What a deployment offers its agents can be reached, and inside a boundary. A server name has a target exactly
  when the settings name a URL for it, which is then its target, or else when its backend and its boundary are both
  configured and well formed, and then it runs in the process. The worker's registry always builds and holds exactly
  the catalogue's capabilities of those servers. A call of any capability whose server has a target is sent to that
  target, once and under its own name, except when the service token a remote server needs cannot be had; a call of
  any other capability is sent nowhere.
\<close>

theorem offered_capabilities_are_reachable:
  assumes "configure_servers s evidence = Inr cs"
  shows "\<exists>remote reg. Settings_remote_mcp_servers s = Inr remote \<and> worker_registry cs = Inr reg \<and>
    (\<forall>name. dict_get (cs_targets cs) name =
       (case dict_get remote name of
          Some url \<Rightarrow> Some (RemoteServer url)
        | None \<Rightarrow> if bounded_server s evidence name then Some (LocalServer name) else None)) \<and>
    set (dict_values reg) = {c \<in> set DEFAULT_CAPABILITIES. dict_get (cs_targets cs) (cap_server c) \<noteq> None} \<and>
    (\<forall>c client provided p args.
       case dict_get (cs_targets cs) (cap_server c) of
         None \<Rightarrow> snd (worker_execute client provided cs \<lparr>xr_capability = c, xr_principal = p, xr_arguments = args\<rparr>) = []
       | Some target \<Rightarrow>
           (\<exists>call. snd (worker_execute client provided cs \<lparr>xr_capability = c, xr_principal = p, xr_arguments = args\<rparr>) = [call] \<and>
              mc_target call = target \<and> mc_tool call = cap_name c) \<or>
           (\<exists>url e. target = RemoteServer url \<and> cs_has_tokens cs \<and> provided = Inl e))"
proof -
  obtain remote locals where remote: "Settings_remote_mcp_servers s = Inr remote"
    and locals: "build_local_servers s evidence (\<lambda>name. name \<in> KNOWN_SERVERS \<and> dict_get remote name = None) = Inr locals"
    and targets: "cs_targets cs = map (\<lambda>(name, _). (name, LocalServer name)) locals @ map (\<lambda>(name, url). (name, RemoteServer url)) remote"
    using assms unfolding configure_servers_def bind_result_Inr_iff by auto
  have known: "bounded_server s evidence name \<Longrightarrow> name \<in> KNOWN_SERVERS" for name by (auto simp: bounded_server_def KNOWN_SERVERS_def)
  have "dict_get (cs_targets cs) name =
       (case dict_get remote name of Some url \<Rightarrow> Some (RemoteServer url)
        | None \<Rightarrow> if bounded_server s evidence name then Some (LocalServer name) else None)" for name
    using known [of name] unfolding targets map_of_append map_add_def local_targets build_local_servers_bounded [OF locals]
    by (auto simp: map_of_map split: option.split)
  moreover obtain reg where reg: "worker_registry cs = Inr reg"
    "dict_values reg = filter (\<lambda>c. dict_get (cs_targets cs) (cap_server c) \<noteq> None) DEFAULT_CAPABILITIES" using worker_registry_values by blast
  moreover have "case dict_get (cs_targets cs) (cap_server c) of
         None \<Rightarrow> snd (worker_execute client provided cs \<lparr>xr_capability = c, xr_principal = p, xr_arguments = args\<rparr>) = []
       | Some target \<Rightarrow>
           (\<exists>call. snd (worker_execute client provided cs \<lparr>xr_capability = c, xr_principal = p, xr_arguments = args\<rparr>) = [call] \<and>
              mc_target call = target \<and> mc_tool call = cap_name c) \<or>
           (\<exists>url e. target = RemoteServer url \<and> cs_has_tokens cs \<and> provided = Inl e)" for c client provided p args
  proof (cases "dict_get (cs_targets cs) (cap_server c)")
    case None
    then show ?thesis by (simp add: worker_execute_def FastMCPExecutor_execute_def)
  next
    case (Some target)
    then have "cs_targets cs \<noteq> []" by auto
    with Some show ?thesis
      by (cases provided; cases target) (auto simp: worker_execute_def FastMCPExecutor_execute_def FastMCPExecutor_token_for_def Let_def)
  qed
  ultimately show ?thesis using remote by (intro exI [of _ remote] exI [of _ reg] conjI allI) simp_all
qed

text \<open>A deployment with one remote server.\<close>

definition sample_settings :: Settings where
  "sample_settings = Settings_default\<lparr>se_sandbox_image := Some ''py'', se_mcp_server_urls := ''github=http://g''\<rparr>"

theorem offered_capabilities_are_reachable_witness:
  "\<exists>cs reg. configure_servers sample_settings True = Inr cs \<and> worker_registry cs = Inr reg \<and>
     dict_get (cs_targets cs) ''evidence'' = Some (LocalServer ''evidence'') \<and> dict_get (cs_targets cs) ''github'' = Some (RemoteServer ''http://g'') \<and>
     dict_get (cs_targets cs) ''filesystem'' = None \<and>
     set (dict_values reg) = {c \<in> set DEFAULT_CAPABILITIES. dict_get (cs_targets cs) (cap_server c) \<noteq> None}"
proof -
  have cs: "configure_servers sample_settings True =
      Inr \<lparr>cs_targets = [(''python-analysis'', LocalServer ''python-analysis''), (''evidence'', LocalServer ''evidence''), (''github'', RemoteServer ''http://g'')],
           cs_has_tokens = False\<rparr>" by code_simp
  from offered_capabilities_are_reachable [OF cs] obtain reg where "worker_registry (projr (configure_servers sample_settings True)) = Inr reg"
    "set (dict_values reg) = {c \<in> set DEFAULT_CAPABILITIES. dict_get (cs_targets (projr (configure_servers sample_settings True))) (cap_server c) \<noteq> None}"
    unfolding cs sum.sel by blast
  then show ?thesis unfolding cs sum.sel by (intro exI [of _ "ConfiguredServers.make _ _"] exI [of _ reg] conjI) (simp_all only: ConfiguredServers.defs, simp_all)
qed

end
