(* ===== verification/Evaluation.thy ===== *)
theory Evaluation
  imports Contracts Jobs WebBoundary
begin

text \<open>
  The evaluation metrics (\<open>evaluation/scoring.py\<close>) and how the suite scores what a job recorded and
  judges a run as a whole (\<open>evaluation/suite.py\<close>), with the fixed corpus its agents search
  (\<open>StaticWebBackend\<close> of \<open>mcp/servers/backends.py\<close>). Running the scenarios is the pipeline itself,
  with the objects the suite wires together; it is not repeated here.
\<close>

section \<open>Metrics\<close>

definition citation_correctness :: "ResearchReport \<Rightarrow> uuid set \<Rightarrow> string + pyfloat" where
  "citation_correctness report available =
     bind_result (ResearchReport_cited_evidence_ids report) (\<lambda>cited.
       if cited = {} then Inr 1
       else bind_result (unsupported_citations report available) (\<lambda>missing.
         Inr (1 - of_nat (card missing) / of_nat (card cited))))"

text \<open>A division by no verdicts raises; the schema requires at least one.\<close>

definition claim_support_rate :: "CriticReview \<Rightarrow> string + pyfloat" where
  "claim_support_rate review =
     (if cr_verdicts review = [] then Inl ''division by zero''
      else Inr (of_nat (length (filter (\<lambda>v. cv_verdict v = CV_SUPPORTED) (cr_verdicts review))) / of_nat (length (cr_verdicts review))))"

definition research_coverage :: "int \<Rightarrow> int \<Rightarrow> string + pyfloat" where
  "research_coverage requested unmet =
     (if requested \<le> 0 then Inl ''research_coverage needs at least one requested evidence requirement''
      else if unmet > requested then Inl ''unmet requirements cannot exceed the number requested''
      else Inr (of_int (requested - unmet) / of_int requested))"

definition scored_contradiction_recall :: "CriticReview \<Rightarrow> string set \<Rightarrow> pyfloat" where
  "scored_contradiction_recall review known =
     (if known = {} then 1
      else (let flagged = cv_claim ` set (filter (\<lambda>v. cv_verdict v = CV_CONTRADICTED) (cr_verdicts review)) in
        of_nat (card (known \<inter> flagged)) / of_nat (card known)))"

definition tool_selection_accuracy :: "string set \<Rightarrow> string set \<Rightarrow> pyfloat" where
  "tool_selection_accuracy used expected =
     (if used = {} \<and> expected = {} then 1 else of_nat (card (used \<inter> expected)) / of_nat (card (used \<union> expected)))"

definition schema_validity_rate :: "int \<Rightarrow> int \<Rightarrow> string + pyfloat" where
  "schema_validity_rate attempts exhausted =
     (if attempts \<le> 0 then Inl ''schema_validity_rate needs at least one attempt''
      else if exhausted > attempts then Inl ''exhausted attempts cannot exceed total attempts''
      else Inr (of_int (attempts - exhausted) / of_int attempts))"

definition task_completion_rate :: "int \<Rightarrow> int \<Rightarrow> string + pyfloat" where
  "task_completion_rate completed jobs =
     (if jobs \<le> 0 then Inl ''task_completion_rate needs at least one job''
      else if \<not> (0 \<le> completed \<and> completed \<le> jobs) then Inl ''completed jobs must be between zero and the total''
      else Inr (of_int completed / of_int jobs))"

definition tool_call_validity_rate :: "int \<Rightarrow> int \<Rightarrow> string + pyfloat" where
  "tool_call_validity_rate calls invalid =
     (if calls < 0 \<or> \<not> (0 \<le> invalid \<and> invalid \<le> max calls 0) then Inl ''invalid calls must be between zero and the number of calls''
      else if calls = 0 then Inr 1
      else Inr (of_int (calls - invalid) / of_int calls))"


section \<open>The corpus\<close>

type_synonym corpus = "(string, SourceDocument) dict"

definition StaticWebBackend_search :: "corpus \<Rightarrow> string \<Rightarrow> int \<Rightarrow> SourceDocument list" where
  "StaticWebBackend_search documents query limit =
     (let terms = filter (\<lambda>t. t \<noteq> []) (py_words (py_lower query));
          matches = filter (\<lambda>d. list_all (py_contains (py_lower (sd_title d @ '' '' @ sd_text d))) terms) (dict_values documents) in
      py_take limit (sort_key sd_url matches))"

definition StaticWebBackend_fetch :: "corpus \<Rightarrow> string \<Rightarrow> WebError + SourceDocument" where
  "StaticWebBackend_fetch documents url =
     (case dict_get documents url of None \<Rightarrow> Inl (WebLookup (url @ '' returned no content'')) | Some d \<Rightarrow> Inr d)"

text \<open>
  On a corpus keyed by URL, as \<open>run_scenario\<close> builds it, every hit of a search can be fetched under its own URL,
  the hits are within the limit, in the order of their URLs and not repeated.
\<close>

lemma static_search_hits:
  assumes "dict_wf documents" and "\<forall>(url, d) \<in> set documents. url = sd_url d" and "0 \<le> limit"
  shows "(\<forall>d \<in> set (StaticWebBackend_search documents query limit). StaticWebBackend_fetch documents (sd_url d) = Inr d) \<and>
    int (length (StaticWebBackend_search documents query limit)) \<le> limit \<and>
    sorted (map sd_url (StaticWebBackend_search documents query limit)) \<and> distinct (map sd_url (StaticWebBackend_search documents query limit))"
proof -
  let ?ok = "\<lambda>d. list_all (py_contains (py_lower (sd_title d @ '' '' @ sd_text d))) (filter (\<lambda>t. t \<noteq> []) (py_words (py_lower query)))"
  let ?found = "sort_key sd_url (filter ?ok (dict_values documents))"
  have found: "StaticWebBackend_search documents query limit = take (nat limit) ?found"
    using assms(3) by (simp add: StaticWebBackend_search_def py_take_def Let_def)
  have urls: "map sd_url (dict_values documents) = map fst documents" using assms(2) by (induction documents) auto
  have "distinct (map sd_url (dict_values documents))" unfolding urls using assms(1) by (simp only: dict_wf_def)
  then have "distinct (map sd_url (filter ?ok (dict_values documents)))" by (rule distinct_map_filter)
  then have "distinct (map sd_url ?found)" by (simp add: distinct_map)
  then have "distinct (map sd_url (take (nat limit) ?found))" by (simp add: take_map [symmetric])
  moreover have "sorted (map sd_url (take (nat limit) ?found))" by (simp add: take_map [symmetric] sorted_wrt_take)
  moreover have "StaticWebBackend_fetch documents (sd_url d) = Inr d" if "d \<in> set (take (nat limit) ?found)" for d
  proof -
    from that have "d \<in> set (dict_values documents)" by (auto dest: in_set_takeD)
    then have "(sd_url d, d) \<in> set documents" using assms(2) by auto
    with assms(1) show ?thesis by (simp add: StaticWebBackend_fetch_def dict_wf_def)
  qed
  ultimately show ?thesis unfolding found using assms(3) by auto
qed


section \<open>Scoring a scenario\<close>

definition SCHEMA_VALID_TOOL_CALL_TARGET :: pyfloat where
  "SCHEMA_VALID_TOOL_CALL_TARGET = 95 / 100"

text \<open>The suite's own recall: a known phrase is caught when a flagged claim contains it, ignoring case.\<close>

definition contradiction_recall :: "CriticReview \<Rightarrow> string list \<Rightarrow> pyfloat" where
  "contradiction_recall review known =
     (let flagged = map (\<lambda>v. py_lower (cv_claim v)) (filter (\<lambda>v. cv_verdict v = CV_CONTRADICTED) (cr_verdicts review)) in
      of_nat (length (filter (\<lambda>phrase. list_ex (\<lambda>claim. py_contains claim (py_lower phrase)) flagged) known)) / of_nat (length known))"

definition mean :: "pyfloat option list \<Rightarrow> pyfloat option" where
  "mean values =
     (let present = List.map_filter (\<lambda>v. v) values in
      if present = [] then None else Some (sum_list present / of_nat (length present)))"

record ScenarioResult =
  sr_name :: string
  sr_status :: JobStatus
  sr_status_detail :: "string option"
  sr_completed :: bool
  sr_tools_used :: "string set"
  sr_tool_selection_accuracy :: pyfloat
  sr_citation_correctness :: "pyfloat option"
  sr_claim_support_rate :: "pyfloat option"
  sr_research_coverage :: "pyfloat option"
  sr_contradiction_recall :: "pyfloat option"
  sr_tool_calls :: nat
  sr_invalid_tool_calls :: nat
  sr_total_tokens :: int
  sr_cost_usd :: pyfloat
  sr_active_seconds :: pyfloat
  sr_published :: bool
  sr_partial_is_labelled :: bool

text \<open>
  What the agents returned along the way. The suite wraps three activities: the plan and the review are noted
  when they were produced, and a task's requirements count as asked for when it is given out and as unmet when it
  failed, or as far as the submission says so.
\<close>

record Observed =
  ob_plans :: "ResearchPlan list"
  ob_reviews :: "CriticReview list"
  ob_requested :: int
  ob_unmet :: int

definition Observed_new :: Observed where
  "Observed_new = \<lparr>ob_plans = [], ob_reviews = [], ob_requested = 0, ob_unmet = 0\<rparr>"

definition plan_observed :: "'e + ResearchPlan \<Rightarrow> Observed \<Rightarrow> Observed" where
  "plan_observed outcome ob = (case outcome of Inl _ \<Rightarrow> ob | Inr produced \<Rightarrow> ob\<lparr>ob_plans := ob_plans ob @ [produced]\<rparr>)"

definition collect_observed :: "ResearchTask \<Rightarrow> 'e + EvidenceSubmission \<Rightarrow> Observed \<Rightarrow> Observed" where
  "collect_observed task outcome ob =
     (let n = length (rt_evidence_requirements task);
          requirements = (if n = 0 then 1 else int n);
          ob = ob\<lparr>ob_requested := ob_requested ob + requirements\<rparr> in
      case outcome of
        Inl _ \<Rightarrow> ob\<lparr>ob_unmet := ob_unmet ob + requirements\<rparr>
      | Inr submission \<Rightarrow> ob\<lparr>ob_unmet := ob_unmet ob + min requirements (int (length (es_unmet_requirements submission)))\<rparr>)"

definition critique_observed :: "'e + CriticReview \<Rightarrow> Observed \<Rightarrow> Observed" where
  "critique_observed outcome ob = (case outcome of Inl _ \<Rightarrow> ob | Inr review \<Rightarrow> ob\<lparr>ob_reviews := ob_reviews ob @ [review]\<rparr>)"

definition score_scenario ::
  "string \<Rightarrow> string set \<Rightarrow> string list \<Rightarrow> ResearchJob \<Rightarrow> EvidenceRecord list \<Rightarrow> ToolInvocation list \<Rightarrow> uuid set option \<Rightarrow> ResearchReport option \<Rightarrow>
   ReportPublication option \<Rightarrow> Observed \<Rightarrow> string + ScenarioResult" where
  "score_scenario name expected_tools known_contradictions final evidence invocations made_by_agents report publication observed =
     (let agent_calls = filter (\<lambda>call. case made_by_agents of None \<Rightarrow> True | Some ids \<Rightarrow> ti_id call \<in> ids) invocations;
          used = (\<lambda>call. ti_mcp_server call @ ''.'' @ ti_capability call) ` set agent_calls;
          review = (if ob_reviews observed = [] then None else Some (last (ob_reviews observed))) in
      bind_result (case report of None \<Rightarrow> Inr None
          | Some r \<Rightarrow> bind_result (citation_correctness r (ev_id ` set evidence)) (\<lambda>x. Inr (Some x))) (\<lambda>citations.
        bind_result (case review of None \<Rightarrow> Inr None | Some v \<Rightarrow> bind_result (claim_support_rate v) (\<lambda>x. Inr (Some x))) (\<lambda>support.
          bind_result (if ob_requested observed = 0 then Inr None
              else bind_result (research_coverage (ob_requested observed) (ob_unmet observed)) (\<lambda>x. Inr (Some x))) (\<lambda>coverage.
            Inr \<lparr>sr_name = name, sr_status = rj_status final, sr_status_detail = rj_status_detail final,
                 sr_completed = (rj_status final = JS_COMPLETED), sr_tools_used = used,
                 sr_tool_selection_accuracy = tool_selection_accuracy used expected_tools,
                 sr_citation_correctness = citations, sr_claim_support_rate = support, sr_research_coverage = coverage,
                 sr_contradiction_recall = (case review of None \<Rightarrow> None
                   | Some v \<Rightarrow> if known_contradictions = [] then None else Some (contradiction_recall v known_contradictions)),
                 sr_tool_calls = length agent_calls,
                 sr_invalid_tool_calls = length (filter (\<lambda>call. ti_error_class call = EC_INVALID_ARGUMENTS) agent_calls),
                 sr_total_tokens = total_tokens (rj_usage final),
                 sr_cost_usd = cost_usd (rj_usage final), sr_active_seconds = active_seconds (rj_usage final),
                 sr_published = (publication \<noteq> None),
                 sr_partial_is_labelled = (rj_status final = JS_COMPLETED \<or>
                   (case rj_status_detail final of None \<Rightarrow> False | Some d \<Rightarrow> d \<noteq> []))\<rparr>))))"


section \<open>Judging a run\<close>

record EvaluationReport =
  er_scenarios :: "ScenarioResult list"
  er_cross_tenant_probes :: "(string \<times> bool) list"
  er_task_completion_rate :: pyfloat
  er_tool_selection_accuracy :: pyfloat
  er_tool_call_validity_rate :: pyfloat
  er_citation_correctness :: "pyfloat option"
  er_claim_support_rate :: "pyfloat option"
  er_research_coverage :: "pyfloat option"
  er_contradiction_recall :: "pyfloat option"
  er_cross_tenant_successes :: nat
  er_mean_cost :: "pyfloat option"
  er_mean_active_seconds :: "pyfloat option"
  er_targets :: "(string \<times> bool) list"

definition EvaluationReport_meets_targets :: "EvaluationReport \<Rightarrow> bool" where
  "EvaluationReport_meets_targets r \<longleftrightarrow> list_all snd (er_targets r)"

text \<open>\<open>run_suite\<close> on the scored scenarios and on the probes, each with whether it was blocked.\<close>

definition run_suite :: "ScenarioResult list \<Rightarrow> (string \<times> bool) list \<Rightarrow> string + EvaluationReport" where
  "run_suite results probes =
     (if results = [] then Inl ''an evaluation needs at least one scenario''
      else (let completed = filter sr_completed results;
                published = filter (\<lambda>r. sr_citation_correctness r \<noteq> None) results;
                successes = length (filter (\<lambda>p. \<not> snd p) probes) in
        bind_result (tool_call_validity_rate (int (sum_list (map sr_tool_calls results))) (int (sum_list (map sr_invalid_tool_calls results)))) (\<lambda>validity.
          bind_result (task_completion_rate (int (length completed)) (int (length results))) (\<lambda>completion.
            Inr \<lparr>er_scenarios = results, er_cross_tenant_probes = probes, er_task_completion_rate = completion,
                 er_tool_selection_accuracy = sum_list (map sr_tool_selection_accuracy results) / of_nat (length results),
                 er_tool_call_validity_rate = validity,
                 er_citation_correctness = mean (map sr_citation_correctness results),
                 er_claim_support_rate = mean (map sr_claim_support_rate results),
                 er_research_coverage = mean (map sr_research_coverage results),
                 er_contradiction_recall = mean (map sr_contradiction_recall results),
                 er_cross_tenant_successes = successes,
                 er_mean_cost = mean (map (\<lambda>r. Some (sr_cost_usd r)) completed),
                 er_mean_active_seconds = mean (map (\<lambda>r. Some (sr_active_seconds r)) completed),
                 er_targets =
                   [(''at least 95% schema-valid tool calls'', validity \<ge> SCHEMA_VALID_TOOL_CALL_TARGET),
                    (''every published factual claim linked to evidence'', list_all (\<lambda>r. sr_citation_correctness r = Some 1) published),
                    (''zero successful cross-tenant access attempts'', successes = 0),
                    (''partial output clearly identified'', list_all sr_partial_is_labelled results)]\<rparr>))))"


section \<open>What is observed of a run\<close>

text \<open>The observations a run can end with: any number of plans, collected tasks and reviews, in any order.\<close>

inductive observations :: "Observed \<Rightarrow> bool" where
  observations_new: "observations Observed_new"
| observations_plan: "observations ob \<Longrightarrow> observations (plan_observed (outcome :: string + ResearchPlan) ob)"
| observations_collect: "observations ob \<Longrightarrow> observations (collect_observed task (outcome :: string + EvidenceSubmission) ob)"
| observations_critique: "observations ob \<Longrightarrow> observations (critique_observed (outcome :: string + CriticReview) ob)"

lemma unmet_within_requested: "observations ob \<Longrightarrow> 0 \<le> ob_unmet ob \<and> ob_unmet ob \<le> ob_requested ob"
  by (induction rule: observations.induct)
    (auto simp: Observed_new_def plan_observed_def collect_observed_def critique_observed_def Let_def split: sum.split)

text \<open>So the coverage of an observed run can always be told, and is asked for only when something was requested.\<close>

lemma observed_coverage: "observations ob \<Longrightarrow> ob_requested ob \<noteq> 0 \<Longrightarrow> \<exists>x. research_coverage (ob_requested ob) (ob_unmet ob) = Inr x"
  using unmet_within_requested [of ob] by (auto simp: research_coverage_def)


section \<open>Scores are fractions\<close>

definition fraction :: "pyfloat \<Rightarrow> bool" where
  "fraction x \<longleftrightarrow> 0 \<le> x \<and> x \<le> 1"

definition fraction_or_none :: "pyfloat option \<Rightarrow> bool" where
  "fraction_or_none x = (case x of None \<Rightarrow> True | Some y \<Rightarrow> fraction y)"

lemma fraction_div: "m \<le> n \<Longrightarrow> n \<noteq> 0 \<Longrightarrow> fraction (of_nat m / of_nat n)"
  by (simp add: fraction_def)

lemma fraction_int_div: "0 \<le> m \<Longrightarrow> m \<le> n \<Longrightarrow> 0 < n \<Longrightarrow> fraction (of_int m / of_int n)"
  by (simp add: fraction_def)

lemma finite_cited: "ResearchReport_cited_evidence_ids r = Inr cited \<Longrightarrow> finite cited"
  by (auto simp: ResearchReport_cited_evidence_ids_def bind_result_Inr_iff)

lemma citation_correctness_fraction:
  assumes "citation_correctness r available = Inr x"
  shows "fraction x \<and> (x = 1 \<longleftrightarrow> (\<exists>cited. ResearchReport_cited_evidence_ids r = Inr cited \<and> cited \<subseteq> available))"
proof -
  obtain cited where c: "ResearchReport_cited_evidence_ids r = Inr cited" using assms by (auto simp: citation_correctness_def bind_result_Inr_iff)
  have fin: "finite cited" using finite_cited [OF c] .
  show ?thesis
  proof (cases "cited = {}")
    case True
    with c assms show ?thesis by (simp add: citation_correctness_def fraction_def)
  next
    case False
    then have x: "x = 1 - of_nat (card (cited - available)) / of_nat (card cited)" using c assms by (simp add: citation_correctness_def unsupported_citations_def)
    have pos: "card cited \<noteq> 0" using False fin by simp
    have "fraction (of_nat (card (cited - available)) / of_nat (card cited))" using fin pos by (intro fraction_div card_mono) auto
    moreover have "x = 1 \<longleftrightarrow> cited - available = {}" using x pos fin by simp
    ultimately show ?thesis using x c by (auto simp: fraction_def)
  qed
qed

lemma claim_support_fraction: "claim_support_rate v = Inr x \<Longrightarrow> fraction x"
  by (auto simp: claim_support_rate_def intro!: fraction_div split: if_splits)

lemma research_coverage_fraction: "research_coverage n u = Inr x \<Longrightarrow> 0 \<le> u \<Longrightarrow> fraction x"
  unfolding research_coverage_def by (auto intro!: fraction_int_div simp flip: of_int_diff split: if_splits)

lemma selection_fraction:
  assumes "finite used" "finite expected"
  shows "fraction (tool_selection_accuracy used expected)"
proof (cases "used = {} \<and> expected = {}")
  case False
  then have "card (used \<union> expected) \<noteq> 0" using assms by simp
  moreover have "card (used \<inter> expected) \<le> card (used \<union> expected)" using assms by (intro card_mono) auto
  ultimately show ?thesis using False fraction_div [of "card (used \<inter> expected)" "card (used \<union> expected)"] by (auto simp: tool_selection_accuracy_def)
qed (simp add: tool_selection_accuracy_def fraction_def)

lemma recall_fraction: "known \<noteq> [] \<Longrightarrow> fraction (contradiction_recall v known)"
  by (auto simp: contradiction_recall_def Let_def intro!: fraction_div)

lemma sum_fractions: "\<forall>x \<in> set xs. fraction x \<Longrightarrow> 0 \<le> sum_list xs \<and> sum_list xs \<le> of_nat (length xs)"
  by (induction xs) (auto simp: fraction_def)

lemma average_fraction: "\<forall>x \<in> set xs. fraction x \<Longrightarrow> xs \<noteq> [] \<Longrightarrow> fraction (sum_list xs / of_nat (length xs))"
  using sum_fractions [of xs] by (simp add: fraction_def)

lemma bind_result_InrE:
  assumes "bind_result r f = Inr y"
  obtains x where "r = Inr x" and "f x = Inr y"
  using assms by (auto simp: bind_result_Inr_iff)

lemma mean_fraction: "\<forall>v \<in> set vs. fraction_or_none v \<Longrightarrow> fraction_or_none (mean vs)"
proof -
  assume "\<forall>v \<in> set vs. fraction_or_none v"
  then have "\<forall>x \<in> set (List.map_filter (\<lambda>v. v) vs). fraction x" by (induction vs) (auto simp: map_filter_simps fraction_or_none_def split: option.splits)
  then show ?thesis using average_fraction [of "List.map_filter (\<lambda>v. v) vs"] by (auto simp: mean_def fraction_or_none_def Let_def)
qed

lemma score_scenario_fractions:
  assumes "score_scenario name expected known final evidence invocations made report publication observed = Inr r" and "finite expected" and "observations observed"
  shows "fraction (sr_tool_selection_accuracy r) \<and> fraction_or_none (sr_citation_correctness r) \<and> fraction_or_none (sr_claim_support_rate r) \<and>
    fraction_or_none (sr_research_coverage r) \<and> fraction_or_none (sr_contradiction_recall r) \<and> sr_invalid_tool_calls r \<le> sr_tool_calls r"
proof -
  have citations: "fraction_or_none x" if "(case report of None \<Rightarrow> Inr None
      | Some q \<Rightarrow> bind_result (citation_correctness q (ev_id ` set evidence)) (\<lambda>x. Inr (Some x))) = Inr x" for x
    using that citation_correctness_fraction by (auto simp: fraction_or_none_def bind_result_Inr_iff split: option.splits)
  have support: "fraction_or_none x" if "(case review of None \<Rightarrow> Inr None | Some v \<Rightarrow> bind_result (claim_support_rate v) (\<lambda>x. Inr (Some x))) = Inr x" for review x
    using that claim_support_fraction by (auto simp: fraction_or_none_def bind_result_Inr_iff split: option.splits)
  have coverage: "fraction_or_none x" if "(if ob_requested observed = 0 then Inr None
      else bind_result (research_coverage (ob_requested observed) (ob_unmet observed)) (\<lambda>x. Inr (Some x))) = Inr x" for x
    using that research_coverage_fraction unmet_within_requested [OF assms(3)] by (auto simp: fraction_or_none_def bind_result_Inr_iff split: if_splits)
  have recall: "fraction_or_none (case review of None \<Rightarrow> None | Some v \<Rightarrow> if known = [] then None else Some (contradiction_recall v known))" for review
    by (auto simp: fraction_or_none_def recall_fraction split: option.split)
  obtain c u v calls used bad review where r: "sr_citation_correctness r = c" "sr_claim_support_rate r = u" "sr_research_coverage r = v"
      "sr_tool_selection_accuracy r = tool_selection_accuracy used expected" "finite used"
      "sr_contradiction_recall r = (case review of None \<Rightarrow> None | Some v \<Rightarrow> if known = [] then None else Some (contradiction_recall v known))"
      "sr_tool_calls r = length (calls :: ToolInvocation list)" "sr_invalid_tool_calls r = length (filter bad calls)"
    and c: "(case report of None \<Rightarrow> Inr None | Some q \<Rightarrow> bind_result (citation_correctness q (ev_id ` set evidence)) (\<lambda>x. Inr (Some x))) = Inr c"
    and u: "(case review of None \<Rightarrow> Inr None | Some v \<Rightarrow> bind_result (claim_support_rate v) (\<lambda>x. Inr (Some x))) = Inr u"
    and v: "(if ob_requested observed = 0 then Inr None
      else bind_result (research_coverage (ob_requested observed) (ob_unmet observed)) (\<lambda>x. Inr (Some x))) = Inr v"
  proof -
    note built = assms(1) [unfolded score_scenario_def Let_def]
    obtain c u v where parts: "(case report of None \<Rightarrow> Inr None | Some q \<Rightarrow> bind_result (citation_correctness q (ev_id ` set evidence)) (\<lambda>x. Inr (Some x))) = Inr c"
      "(case (if ob_reviews observed = [] then None else Some (last (ob_reviews observed))) of None \<Rightarrow> Inr None
        | Some v \<Rightarrow> bind_result (claim_support_rate v) (\<lambda>x. Inr (Some x))) = Inr u"
      "(if ob_requested observed = 0 then Inr None
        else bind_result (research_coverage (ob_requested observed) (ob_unmet observed)) (\<lambda>x. Inr (Some x))) = Inr v"
      using built by (elim bind_result_InrE) (rule that)
    show thesis using built unfolding parts bind_result_simps by (intro that [OF _ _ _ _ _ _ _ _ parts]) auto
  qed
  show ?thesis unfolding r
    by (intro conjI citations [OF c] support [OF u] coverage [OF v] recall selection_fraction [OF r(5) assms(2)] length_filter_le)
qed

lemma validity_of_calls:
  assumes le: "invalid \<le> (calls :: nat)"
  shows "\<exists>validity. tool_call_validity_rate (int calls) (int invalid) = Inr validity \<and> fraction validity \<and>
    (validity \<ge> SCHEMA_VALID_TOOL_CALL_TARGET \<longleftrightarrow> 20 * invalid \<le> calls)"
proof (cases "calls = 0")
  case True
  with le show ?thesis by (simp add: tool_call_validity_rate_def fraction_def SCHEMA_VALID_TOOL_CALL_TARGET_def)
next
  case False
  let ?v = "(of_nat calls - of_nat invalid) / of_nat calls :: rat"
  have pos: "(0 :: rat) < of_nat calls" using False by simp
  have rate: "tool_call_validity_rate (int calls) (int invalid) = Inr ?v" using False le by (simp add: tool_call_validity_rate_def)
  have "?v \<ge> 95 / 100 \<longleftrightarrow> 95 / 100 * of_nat calls \<le> (of_nat calls - of_nat invalid :: rat)" by (rule pos_le_divide_eq [OF pos])
  also have "\<dots> \<longleftrightarrow> 20 * (of_nat invalid :: rat) \<le> of_nat calls" by (simp add: field_simps)
  also have "\<dots> \<longleftrightarrow> 20 * invalid \<le> calls" by (metis of_nat_le_iff of_nat_mult of_nat_numeral)
  finally have "?v \<ge> SCHEMA_VALID_TOOL_CALL_TARGET \<longleftrightarrow> 20 * invalid \<le> calls" by (simp add: SCHEMA_VALID_TOOL_CALL_TARGET_def)
  moreover have "fraction ?v" using pos le by (simp add: fraction_def)
  ultimately show ?thesis using rate by blast
qed

text \<open>
  The evaluation's scores are fractions and its verdict is what they say. Whatever the scenarios' jobs recorded, the
  suite gives a report for at least one scenario, every rate and mean of it lies between 0 and 1, and its targets
  are met exactly when at most one tool call in twenty had invalid arguments, every report that was scored cites
  only recorded evidence, no probe of another tenant succeeded and no result is partial without saying so.
\<close>

theorem evaluation_scores_are_fractions:
  assumes scored: "\<forall>r \<in> set results. \<exists>name expected known final evidence invocations made report publication observed.
      score_scenario name expected known final evidence invocations made report publication observed = Inr r \<and> finite expected \<and> observations observed"
    and "results \<noteq> []"
  shows "\<exists>rep. run_suite results probes = Inr rep \<and>
    (\<forall>x \<in> {er_task_completion_rate rep, er_tool_selection_accuracy rep, er_tool_call_validity_rate rep}. 0 \<le> x \<and> x \<le> 1) \<and>
    (\<forall>m \<in> {er_citation_correctness rep, er_claim_support_rate rep, er_research_coverage rep, er_contradiction_recall rep}. \<forall>x. m = Some x \<longrightarrow> 0 \<le> x \<and> x \<le> 1) \<and>
    (EvaluationReport_meets_targets rep \<longleftrightarrow>
       20 * (\<Sum>r \<leftarrow> results. sr_invalid_tool_calls r) \<le> (\<Sum>r \<leftarrow> results. sr_tool_calls r) \<and>
       (\<forall>r \<in> set results. sr_citation_correctness r = None \<or> sr_citation_correctness r = Some 1) \<and>
       (\<forall>(attempt, blocked) \<in> set probes. blocked) \<and> (\<forall>r \<in> set results. sr_partial_is_labelled r))"
proof -
  let ?calls = "sum_list (map sr_tool_calls results)" and ?invalid = "sum_list (map sr_invalid_tool_calls results)"
  have each: "fraction (sr_tool_selection_accuracy r) \<and> fraction_or_none (sr_citation_correctness r) \<and> fraction_or_none (sr_claim_support_rate r) \<and>
      fraction_or_none (sr_research_coverage r) \<and> fraction_or_none (sr_contradiction_recall r) \<and> sr_invalid_tool_calls r \<le> sr_tool_calls r"
    if "r \<in> set results" for r using scored that score_scenario_fractions by metis
  have le: "?invalid \<le> ?calls" using each by (intro sum_list_mono) auto
  obtain validity where val: "tool_call_validity_rate (int ?calls) (int ?invalid) = Inr validity" and val_fraction: "fraction validity"
    and target: "validity \<ge> SCHEMA_VALID_TOOL_CALL_TARGET \<longleftrightarrow> 20 * ?invalid \<le> ?calls"
    using validity_of_calls [OF le] by blast
  define completion :: rat where "completion = of_int (int (length (filter sr_completed results))) / of_int (int (length results))"
  have comp: "task_completion_rate (int (length (filter sr_completed results))) (int (length results)) = Inr completion" "fraction completion"
    using assms(2) fraction_int_div [of "int (length (filter sr_completed results))" "int (length results)"]
    by (simp_all add: task_completion_rate_def completion_def)
  obtain rep where rep: "run_suite results probes = Inr rep" "er_task_completion_rate rep = completion" "er_tool_call_validity_rate rep = validity"
    "er_tool_selection_accuracy rep = sum_list (map sr_tool_selection_accuracy results) / of_nat (length (map sr_tool_selection_accuracy results))"
    "er_citation_correctness rep = mean (map sr_citation_correctness results)" "er_claim_support_rate rep = mean (map sr_claim_support_rate results)"
    "er_research_coverage rep = mean (map sr_research_coverage results)" "er_contradiction_recall rep = mean (map sr_contradiction_recall results)"
    "map snd (er_targets rep) = [validity \<ge> SCHEMA_VALID_TOOL_CALL_TARGET,
       list_all (\<lambda>r. sr_citation_correctness r = Some 1) (filter (\<lambda>r. sr_citation_correctness r \<noteq> None) results),
       length (filter (\<lambda>p. \<not> snd p) probes) = 0, list_all sr_partial_is_labelled results]"
    using assms(2) by (simp add: run_suite_def Let_def val comp(1))
  have selection: "fraction (er_tool_selection_accuracy rep)" unfolding rep(4) using each assms(2) by (intro average_fraction) auto
  have means: "fraction_or_none (er_citation_correctness rep)" "fraction_or_none (er_claim_support_rate rep)"
    "fraction_or_none (er_research_coverage rep)" "fraction_or_none (er_contradiction_recall rep)"
    unfolding rep(5-8) using each by (auto intro!: mean_fraction)
  have "EvaluationReport_meets_targets rep \<longleftrightarrow> list_all (\<lambda>b. b) (map snd (er_targets rep))" by (simp add: EvaluationReport_meets_targets_def list_all_iff)
  also have "\<dots> \<longleftrightarrow> 20 * ?invalid \<le> ?calls \<and> (\<forall>r \<in> set results. sr_citation_correctness r = None \<or> sr_citation_correctness r = Some 1) \<and>
      (\<forall>(attempt, blocked) \<in> set probes. blocked) \<and> (\<forall>r \<in> set results. sr_partial_is_labelled r)"
    unfolding rep(9) target by (auto simp: list_all_iff filter_empty_conv)
  finally show ?thesis using rep(1-3) selection means val_fraction comp(2)
    by (auto simp: fraction_def fraction_or_none_def)
qed

text \<open>
  A job that was stopped after its first task, which asked for two things, had failed: nothing requested was met,
  the tool that was expected was not used, and the run is not labelled, so the targets are missed.
\<close>

definition stopped_task :: ResearchTask where
  "stopped_task = \<lparr>rt_id = 2, rt_job_id = 1, rt_tenant_id = ''evaluation'', rt_objective = ''o'', rt_assigned_agent = AR_RESEARCHER, rt_dependencies = [],
     rt_evidence_requirements = [''a'', ''b''], rt_source_restrictions = [], rt_state = TS_FAILED, rt_retry_count = 0, rt_max_retries = 2,
     rt_created_at = 0, rt_updated_at = 0\<rparr>"

definition stopped_observed :: Observed where
  "stopped_observed = collect_observed stopped_task (Inl ''unavailable'' :: string + EvidenceSubmission) Observed_new"

definition stopped_result :: ScenarioResult where
  "stopped_result = (let job = new_job 1 0 ''evaluation'' ''evaluator'' sample_command AC_INTERNAL in
     \<lparr>sr_name = ''s'', sr_status = JS_CREATED, sr_status_detail = None, sr_completed = False, sr_tools_used = {}, sr_tool_selection_accuracy = 0,
      sr_citation_correctness = None, sr_claim_support_rate = None, sr_research_coverage = Some 0, sr_contradiction_recall = None,
      sr_tool_calls = 0, sr_invalid_tool_calls = 0, sr_total_tokens = total_tokens (rj_usage job), sr_cost_usd = cost_usd (rj_usage job),
      sr_active_seconds = active_seconds (rj_usage job), sr_published = False, sr_partial_is_labelled = False\<rparr>)"

lemma stopped_scored:
  "score_scenario ''s'' {''web.search''} [''p''] (new_job 1 0 ''evaluation'' ''evaluator'' sample_command AC_INTERNAL) [] [] None None None stopped_observed
     = Inr stopped_result"
  by (simp add: score_scenario_def stopped_result_def stopped_observed_def stopped_task_def collect_observed_def Observed_new_def Let_def
      research_coverage_def tool_selection_accuracy_def new_job_def)

theorem evaluation_scores_are_fractions_witness:
  "\<exists>rep. run_suite [stopped_result] [(''read the job'', True)] = Inr rep \<and> er_research_coverage rep = Some 0 \<and> \<not> EvaluationReport_meets_targets rep"
proof -
  have "observations stopped_observed" unfolding stopped_observed_def by (intro observations.intros)
  then have scored: "\<forall>r \<in> set [stopped_result]. \<exists>name expected known final evidence invocations made report publication observed.
      score_scenario name expected known final evidence invocations made report publication observed = Inr r \<and> finite expected \<and> observations observed"
    using stopped_scored by (metis finite.emptyI finite.insertI list.set(1) list.set(2) singletonD)
  obtain rep where rep: "run_suite [stopped_result] [(''read the job'', True)] = Inr rep"
      "EvaluationReport_meets_targets rep \<longrightarrow> (\<forall>r \<in> set [stopped_result]. sr_partial_is_labelled r)"
    using evaluation_scores_are_fractions [OF scored, of "[(''read the job'', True)]"] by blast
  moreover have "er_research_coverage rep = Some 0"
    using rep(1) by (auto simp: run_suite_def Let_def bind_result_Inr_iff mean_def map_filter_simps stopped_result_def)
  ultimately show ?thesis by (auto simp: stopped_result_def Let_def)
qed

end
