(* ===== verification/HttpWeb.thy ===== *)
theory HttpWeb
  imports WebBoundary
begin

text \<open>
  The HTTP transport of the web research server (\<open>mcp/servers/http_web.py\<close>): the reduction of an
  HTML document to readable text, the redirect loop and the search. Name resolution, the HTTP
  client, \<open>urljoin\<close>, the decoding of a body and the tokenizer of \<open>html.parser\<close>, which turns a
  document into start tags, end tags and character data, are parameters.
\<close>

section \<open>Readable text\<close>

datatype html_event = StartTag string | EndTag string | CharData string

definition SKIPPED :: "string list" where
  "SKIPPED = [''script'', ''style'', ''noscript'', ''template'', ''svg'', ''head'', ''iframe'']"

definition BLOCKS :: "string list" where
  "BLOCKS = [''p'', ''div'', ''br'', ''li'', ''tr'', ''section'', ''article'', ''h1'', ''h2'', ''h3'', ''h4'', ''h5'', ''h6'']"

record ReadableText =
  rt_title :: string
  rt_parts :: "string list"
  rt_skipping :: nat
  rt_in_title :: bool

definition ReadableText_init :: ReadableText where
  "ReadableText_init = \<lparr>rt_title = [], rt_parts = [], rt_skipping = 0, rt_in_title = False\<rparr>"

definition line_feed :: string where
  "line_feed = [CHR 0x0A]"

definition handle_starttag :: "string \<Rightarrow> ReadableText \<Rightarrow> ReadableText" where
  "handle_starttag tag p =
     (if tag = ''title'' then p\<lparr>rt_in_title := True\<rparr>
      else if tag \<in> set SKIPPED then p\<lparr>rt_skipping := rt_skipping p + 1\<rparr>
      else if tag \<in> set BLOCKS then p\<lparr>rt_parts := rt_parts p @ [line_feed]\<rparr>
      else p)"

definition handle_endtag :: "string \<Rightarrow> ReadableText \<Rightarrow> ReadableText" where
  "handle_endtag tag p =
     (if tag = ''title'' then p\<lparr>rt_in_title := False\<rparr>
      else if tag \<in> set SKIPPED \<and> rt_skipping p \<noteq> 0 then p\<lparr>rt_skipping := rt_skipping p - 1\<rparr>
      else if tag \<in> set BLOCKS then p\<lparr>rt_parts := rt_parts p @ [line_feed]\<rparr>
      else p)"

definition handle_data :: "string \<Rightarrow> ReadableText \<Rightarrow> ReadableText" where
  "handle_data s p =
     (if rt_in_title p then p\<lparr>rt_title := rt_title p @ s\<rparr>
      else if rt_skipping p = 0 then p\<lparr>rt_parts := rt_parts p @ [s]\<rparr>
      else p)"

fun handle_event :: "html_event \<Rightarrow> ReadableText \<Rightarrow> ReadableText" where
  "handle_event (StartTag tag) p = handle_starttag tag p"
| "handle_event (EndTag tag) p = handle_endtag tag p"
| "handle_event (CharData s) p = handle_data s p"

definition readable_lines :: "string \<Rightarrow> string" where
  "readable_lines s =
     py_join line_feed (filter (\<lambda>line. line \<noteq> []) (map (\<lambda>line. py_join '' '' (py_words line)) (py_splitlines s)))"

definition ReadableText_text :: "ReadableText \<Rightarrow> string" where
  "ReadableText_text p = readable_lines (concat (rt_parts p))"

definition extract_readable :: "html_event list \<Rightarrow> string \<times> string" where
  "extract_readable events =
     (let p = fold handle_event events ReadableText_init
      in (py_join '' '' (py_words (rt_title p)), ReadableText_text p))"


section \<open>The transport\<close>

definition MAX_REDIRECTS :: nat where
  "MAX_REDIRECTS = 5"

definition READABLE_CONTENT_TYPES :: "string list" where
  "READABLE_CONTENT_TYPES = [''text/html'', ''application/xhtml+xml'', ''text/plain'', ''application/json'']"

text \<open>
  One response: what its headers and its body carry. The body arrives in chunks, and the stream may
  break after the last of them.
\<close>

record http_response =
  rp_url :: string
  rp_status_code :: int
  rp_content_type :: string
  rp_encoding :: string
  rp_chunks :: "byte list list"
  rp_broken :: "string option"

datatype http_reply =
    HttpRedirect string
  | HttpReply http_response
  | HttpError string

datatype search_reply =
    SearchFailed string
  | SearchJson pyval

record http_env =
  he_lib :: web_library
  he_resolve :: "nat \<Rightarrow> string \<Rightarrow> WebError + string list"
  he_stream :: "nat \<Rightarrow> string \<Rightarrow> http_reply"
  he_urljoin :: "string \<Rightarrow> string \<Rightarrow> string"
  he_decode :: "string \<Rightarrow> byte list \<Rightarrow> string"
  he_parse_html :: "string \<Rightarrow> html_event list"
  he_get_json :: "string \<Rightarrow> string \<Rightarrow> search_reply"

record HttpWebBackend =
  hw_is_permitted :: "string \<Rightarrow> WebError + bool"
  hw_search_url :: "string option"
  hw_max_bytes :: int

text \<open>\<open>all(_is_public(address) for address in addresses)\<close>, which stops at the first that is not.\<close>

fun all_public :: "web_library \<Rightarrow> string list \<Rightarrow> WebError + bool" where
  "all_public lib [] = Inr True"
| "all_public lib (a # as) =
     (case wl_ip_address lib a of
        None \<Rightarrow> Inl (WebValueError (py_repr a @ '' does not appear to be an IPv4 or IPv6 address''))
      | Some ip \<Rightarrow> if not_public ip then Inr False else all_public lib as)"

text \<open>A name is resolved anew at each turn of the loop, so its addresses may be others each time.\<close>

definition HttpWebBackend_require_public :: "http_env \<Rightarrow> nat \<Rightarrow> string \<Rightarrow> WebError + unit" where
  "HttpWebBackend_require_public env hop url =
     (case urlsplit (wl_netloc_ok (he_lib env)) url of
        None \<Rightarrow> Inl (WebValueError ''netloc'')
      | Some parts \<Rightarrow>
          let host = (case us_hostname parts of None \<Rightarrow> [] | Some h \<Rightarrow> h) in
          bind_result (he_resolve env hop host) (\<lambda>addresses.
            bind_result (all_public (he_lib env) addresses) (\<lambda>public.
              if addresses = [] \<or> \<not> public
              then Inl (SourceNotAllowed (''host '' @ host @ '' does not resolve to a public address'')) else Inr ())))"

definition fetch_failed :: "string \<Rightarrow> string \<Rightarrow> WebError" where
  "fetch_failed current m = WebRuntime (current @ '' could not be fetched: '' @ m)"

fun receive_chunks :: "HttpWebBackend \<Rightarrow> string \<Rightarrow> http_response \<Rightarrow> byte list \<Rightarrow> byte list list \<Rightarrow> WebError + byte list" where
  "receive_chunks b current response received [] =
     (case rp_broken response of None \<Rightarrow> Inr received | Some m \<Rightarrow> Inl (fetch_failed current m))"
| "receive_chunks b current response received (chunk # chunks) =
     (let received = received @ chunk in
      if int (length received) > hw_max_bytes b
      then Inl (WebLookup (rp_url response @ '' exceeded the '' @ py_str_int (hw_max_bytes b) @ ''-byte response limit''))
      else receive_chunks b current response received chunks)"

definition HttpWebBackend_read_bounded :: "http_env \<Rightarrow> HttpWebBackend \<Rightarrow> string \<Rightarrow> http_response \<Rightarrow> WebError + string" where
  "HttpWebBackend_read_bounded env b current response =
     bind_result (receive_chunks b current response [] (rp_chunks response)) (\<lambda>received.
       Inr (he_decode env (if rp_encoding response = [] then ''utf-8'' else rp_encoding response) received))"

definition HttpWebBackend_redirect_target :: "http_env \<Rightarrow> HttpWebBackend \<Rightarrow> string \<Rightarrow> string \<Rightarrow> WebError + string" where
  "HttpWebBackend_redirect_target env b current location =
     (let target = he_urljoin env current location in
      bind_result (hw_is_permitted b target) (\<lambda>ok.
        if ok then Inr target else Inl (SourceNotAllowed (current @ '' redirected to an unapproved source: '' @ target))))"

definition response_content_type :: "http_response \<Rightarrow> string" where
  "response_content_type response = py_lower (py_strip (hd (py_split CHR '';'' (rp_content_type response))))"

definition accept_response :: "http_env \<Rightarrow> HttpWebBackend \<Rightarrow> string \<Rightarrow> http_response \<Rightarrow> WebError + string \<times> string \<times> string" where
  "accept_response env b current response =
     (let content_type = response_content_type response in
      if rp_status_code response \<ge> 400
      then Inl (WebLookup (current @ '' answered '' @ py_str_int (rp_status_code response)))
      else if content_type \<notin> set READABLE_CONTENT_TYPES
      then Inl (WebLookup (current @ '' returned '' @ (if content_type = [] then ''an undeclared type'' else content_type) @
             '', which is not readable text''))
      else bind_result (HttpWebBackend_read_bounded env b current response) (\<lambda>body. Inr (current, content_type, body)))"

text \<open>
  The loop of \<open>_get\<close>: \<open>hop\<close> counts the turns taken, and the URLs requested are listed in order.
\<close>

fun get_hops ::
  "http_env \<Rightarrow> HttpWebBackend \<Rightarrow> string \<Rightarrow> nat \<Rightarrow> nat \<Rightarrow> string \<Rightarrow> (WebError + string \<times> string \<times> string) \<times> string list" where
  "get_hops env b url hop 0 current =
     (Inl (SourceNotAllowed (url @ '' redirected more than '' @ py_str_nat MAX_REDIRECTS @ '' times'')), [])"
| "get_hops env b url hop (Suc turns) current =
     (case HttpWebBackend_require_public env hop current of
        Inl e \<Rightarrow> (Inl e, [])
      | Inr _ \<Rightarrow>
          (case he_stream env hop current of
             HttpError m \<Rightarrow> (Inl (fetch_failed current m), [current])
           | HttpRedirect location \<Rightarrow>
               (case HttpWebBackend_redirect_target env b current location of
                  Inl e \<Rightarrow> (Inl e, [current])
                | Inr target \<Rightarrow>
                    (let (r, sent) = get_hops env b url (Suc hop) turns target in (r, current # sent)))
           | HttpReply response \<Rightarrow> (accept_response env b current response, [current])))"

definition HttpWebBackend_get ::
  "http_env \<Rightarrow> HttpWebBackend \<Rightarrow> string \<Rightarrow> (WebError + string \<times> string \<times> string) \<times> string list" where
  "HttpWebBackend_get env b url = get_hops env b url 0 (MAX_REDIRECTS + 1) url"

definition HttpWebBackend_fetch :: "http_env \<Rightarrow> HttpWebBackend \<Rightarrow> string \<Rightarrow> WebError + SourceDocument" where
  "HttpWebBackend_fetch env b url =
     bind_result (fst (HttpWebBackend_get env b url)) (\<lambda>(final_url, content_type, body).
       let (title, content) =
         (if content_type = ''text/html'' \<or> content_type = ''application/xhtml+xml''
          then extract_readable (he_parse_html env body) else ([], py_strip body))
       in if content = [] then Inl (WebLookup (final_url @ '' returned no readable content''))
          else Inr \<lparr>sd_url = final_url, sd_title = (if title = [] then final_url else title), sd_text = content\<rparr>)"

text \<open>
  The results of a search: iterating over the value under \<open>results\<close>, of which only mappings with
  a true \<open>url\<close> count. A value that cannot be iterated raises a \<open>TypeError\<close>, and a document that
  is no mapping an \<open>AttributeError\<close>, which \<open>search\<close> does not catch.
\<close>

definition search_results :: "pyval \<Rightarrow> WebError + pyval list" where
  "search_results v = (case py_iter v of None \<Rightarrow> Inl (WebEscaped ''TypeError'') | Some vs \<Rightarrow> Inr vs)"

definition field_or :: "(string \<times> pyval) list \<Rightarrow> string \<Rightarrow> pyval \<Rightarrow> pyval" where
  "field_or kvs k d = (case dict_get kvs k of Some v \<Rightarrow> if py_truth v then v else d | None \<Rightarrow> d)"

definition search_document :: "pyval \<Rightarrow> SourceDocument option" where
  "search_document v = (case v of
     VDict kvs \<Rightarrow>
       (case dict_get kvs ''url'' of
          None \<Rightarrow> None
        | Some u \<Rightarrow>
            if py_truth u
            then Some \<lparr>sd_url = py_str u, sd_title = py_str (field_or kvs ''title'' u), sd_text = py_str (field_or kvs ''content'' (VStr []))\<rparr>
            else None)
   | _ \<Rightarrow> None)"

definition HttpWebBackend_search :: "http_env \<Rightarrow> HttpWebBackend \<Rightarrow> string \<Rightarrow> int \<Rightarrow> WebError + SourceDocument list" where
  "HttpWebBackend_search env b query limit =
     (case hw_search_url b of
        None \<Rightarrow> Inl (WebLookup ''no search engine is configured for web research'')
      | Some [] \<Rightarrow> Inl (WebLookup ''no search engine is configured for web research'')
      | Some search_url \<Rightarrow>
          (case he_get_json env search_url query of
             SearchFailed m \<Rightarrow> Inl (WebRuntime (''the search engine could not be queried: '' @ m))
           | SearchJson (VDict kvs) \<Rightarrow>
               bind_result (search_results (case dict_get kvs ''results'' of None \<Rightarrow> VList [] | Some v \<Rightarrow> v)) (\<lambda>results.
                 Inr (py_take limit (List.map_filter search_document results)))
           | SearchJson _ \<Rightarrow> Inl (WebEscaped ''AttributeError'')))"


section \<open>The reader's view of a document\<close>

text \<open>
  A document as a tree, the events of its well-nested text and what a reader sees of it: nothing
  under a skipped element but the line breaks of its blocks, and the title apart.
\<close>

datatype html = Element string "html list" | Void string | Chars string

fun events_of :: "html \<Rightarrow> html_event list" where
  "events_of (Element tag kids) = StartTag tag # concat (map events_of kids) @ [EndTag tag]"
| "events_of (Void tag) = [StartTag tag]"
| "events_of (Chars s) = [CharData s]"

definition block_break :: "string \<Rightarrow> string" where
  "block_break tag = (if tag \<in> set BLOCKS then line_feed else [])"

fun reader_text :: "bool \<Rightarrow> html \<Rightarrow> string" where
  "reader_text hidden (Element tag kids) =
     (if tag = ''title'' then [] else
      block_break tag @ concat (map (reader_text (hidden \<or> tag \<in> set SKIPPED)) kids) @ block_break tag)"
| "reader_text hidden (Void tag) = block_break tag"
| "reader_text hidden (Chars s) = (if hidden then [] else s)"

fun reader_title :: "html \<Rightarrow> string" where
  "reader_title (Element tag kids) =
     concat (map (\<lambda>kid. if tag = ''title'' then (case kid of Chars s \<Rightarrow> s | _ \<Rightarrow> []) else reader_title kid) kids)"
| "reader_title (Void tag) = []"
| "reader_title (Chars s) = []"

text \<open>As in any HTML document, a title holds characters only and no void element is a title or skipped.\<close>

fun html_ok :: "html \<Rightarrow> bool" where
  "html_ok (Element tag kids) \<longleftrightarrow>
     (if tag = ''title'' then list_all (\<lambda>kid. case kid of Chars _ \<Rightarrow> True | _ \<Rightarrow> False) kids else list_all html_ok kids)"
| "html_ok (Void tag) \<longleftrightarrow> tag \<noteq> ''title'' \<and> tag \<notin> set SKIPPED"
| "html_ok (Chars s) \<longleftrightarrow> True"

definition reads_as :: "ReadableText \<Rightarrow> string \<Rightarrow> string \<Rightarrow> ReadableText \<Rightarrow> bool" where
  "reads_as p seen title q \<longleftrightarrow> rt_in_title q = rt_in_title p \<and> rt_skipping q = rt_skipping p \<and>
     concat (rt_parts q) = concat (rt_parts p) @ seen \<and> rt_title q = rt_title p @ title"

lemma title_plain [simp]: "''title'' \<notin> set SKIPPED" "''title'' \<notin> set BLOCKS"
  by (simp_all add: SKIPPED_def BLOCKS_def)

lemma skipped_not_block: "tag \<in> set SKIPPED \<Longrightarrow> tag \<notin> set BLOCKS"
  by (auto simp: SKIPPED_def BLOCKS_def)

lemma reads_as_trans: "reads_as p a s q \<Longrightarrow> reads_as q b t r \<Longrightarrow> reads_as p (a @ b) (s @ t) r"
  by (simp add: reads_as_def)

lemma reads_as_concat:
  assumes "\<And>t p. t \<in> set ts \<Longrightarrow> rt_in_title p = b \<Longrightarrow> rt_skipping p = n \<Longrightarrow> reads_as p (f t) (g t) (fold handle_event (events_of t) p)"
    and "rt_in_title p = b" and "rt_skipping p = n"
  shows "reads_as p (concat (map f ts)) (concat (map g ts)) (fold handle_event (concat (map events_of ts)) p)"
  using assms
proof (induction ts arbitrary: p)
  case (Cons t ts)
  let ?q = "fold handle_event (events_of t) p"
  have q: "reads_as p (f t) (g t) ?q" using Cons.prems by simp
  then have "reads_as ?q (concat (map f ts)) (concat (map g ts)) (fold handle_event (concat (map events_of ts)) ?q)"
    using Cons.prems by (intro Cons.IH) (auto simp: reads_as_def)
  with q show ?case by (auto dest: reads_as_trans)
qed (simp add: reads_as_def)

lemma fold_events_of:
  "html_ok t \<Longrightarrow> \<not> rt_in_title p \<Longrightarrow>
   reads_as p (reader_text (rt_skipping p \<noteq> 0) t) (reader_title t) (fold handle_event (events_of t) p)"
proof (induction t arbitrary: p)
  case (Element tag kids)
  let ?p = "handle_starttag tag p" and ?kids = "concat (map events_of kids)"
  show ?case
  proof (cases "tag = ''title''")
    case True
    have "reads_as ?p (concat (map (\<lambda>_. []) kids)) (concat (map (\<lambda>kid. case kid of Chars s \<Rightarrow> s | _ \<Rightarrow> []) kids))
        (fold handle_event ?kids ?p)"
      using Element.prems True
      by (intro reads_as_concat [where b = True and n = "rt_skipping p"])
        (auto simp: list_all_iff reads_as_def handle_data_def handle_starttag_def split: html.splits)
    with True Element.prems(2) show ?thesis
      by (auto simp: reads_as_def handle_starttag_def handle_endtag_def cong: map_cong)
  next
    case False
    let ?hidden = "rt_skipping p \<noteq> 0 \<or> tag \<in> set SKIPPED"
    have "reads_as ?p (concat (map (reader_text ?hidden) kids)) (concat (map reader_title kids)) (fold handle_event ?kids ?p)"
    proof (rule reads_as_concat [where b = False and n = "rt_skipping ?p"])
      fix t and q :: ReadableText assume "t \<in> set kids" "rt_in_title q = False" "rt_skipping q = rt_skipping ?p"
      then show "reads_as q (reader_text ?hidden t) (reader_title t) (fold handle_event (events_of t) q)"
        using Element.IH [of t q] Element.prems(1) False by (auto simp: list_all_iff handle_starttag_def split: if_splits)
    qed (use False Element.prems(2) in \<open>auto simp: handle_starttag_def\<close>)
    with False Element.prems(2) skipped_not_block [of tag] show ?thesis
      by (auto simp: reads_as_def handle_starttag_def handle_endtag_def block_break_def)
  qed
qed (auto simp: reads_as_def handle_starttag_def handle_data_def block_break_def)

text \<open>
  Reducing a document to text gives what a reader sees. For every well-nested document the title
  and the text extracted are those of the tree itself: nothing inside a script, style, head or other
  skipped element reaches the text, whatever it is nested in, and nothing outside is lost.
\<close>

theorem extract_readable_gives_reader_view:
  assumes "list_all html_ok document"
  shows "extract_readable (concat (map events_of document)) =
    (py_join '' '' (py_words (concat (map reader_title document))), readable_lines (concat (map (reader_text False) document)))"
proof -
  have "reads_as ReadableText_init (concat (map (reader_text False) document)) (concat (map reader_title document))
      (fold handle_event (concat (map events_of document)) ReadableText_init)"
  proof (rule reads_as_concat [where b = False and n = 0])
    fix t and p :: ReadableText assume "t \<in> set document" "rt_in_title p = False" "rt_skipping p = 0"
    then show "reads_as p (reader_text False t) (reader_title t) (fold handle_event (events_of t) p)"
      using fold_events_of [of t p] assms by (simp add: list_all_iff)
  qed (simp_all add: ReadableText_init_def)
  then show ?thesis by (simp add: extract_readable_def Let_def ReadableText_text_def reads_as_def ReadableText_init_def)
qed

definition sample_page :: "html list" where
  "sample_page = [Element ''head'' [Element ''title'' [Chars ''A  page''], Element ''style'' [Chars ''p {}'']],
     Element ''div'' [Chars ''seen '', Element ''script'' [Chars ''run()''], Element ''b'' [Chars ''text'']]]"

theorem extract_readable_gives_reader_view_witness:
  "list_all html_ok sample_page \<and> extract_readable (concat (map events_of sample_page)) = (''A page'', ''seen text'')"
proof -
  have ok: "list_all html_ok sample_page" by code_simp
  moreover have "py_join '' '' (py_words (concat (map reader_title sample_page))) = ''A page''" by code_simp
  moreover have "readable_lines (concat (map (reader_text False) sample_page)) = ''seen text''" by code_simp
  ultimately show ?thesis using extract_readable_gives_reader_view [OF ok] by simp
qed


section \<open>What the transport guarantees\<close>

definition hop_ok :: "http_env \<Rightarrow> nat \<Rightarrow> string \<Rightarrow> bool" where
  "hop_ok env hop url \<longleftrightarrow> HttpWebBackend_require_public env hop url = Inr ()"

lemma accept_response_url: "accept_response env b current response = Inr (v, content_type, body) \<Longrightarrow> v = current"
  by (auto simp: accept_response_def Let_def bind_result_Inr_iff split: if_splits)

lemma get_hops_spec:
  assumes "get_hops env b url hop turns current = (r, sent)"
  shows "length sent \<le> turns \<and> (\<forall>i < length sent. hop_ok env (hop + i) (sent ! i) \<and> (if i = 0 then sent ! i = current else hw_is_permitted b (sent ! i) = Inr True)) \<and>
    (\<forall>v content_type body. r = Inr (v, content_type, body) \<longrightarrow> v \<in> set sent \<and>
       (\<exists>n response. he_stream env n v = HttpReply response \<and> accept_response env b v response = r))"
  using assms
proof (induction env b url hop turns current arbitrary: r sent rule: get_hops.induct)
  case (2 env b url hop turns current)
  show ?case
  proof (cases "HttpWebBackend_require_public env hop current")
    case (Inl e)
    with 2 show ?thesis by auto
  next
    case ok: (Inr v)
    show ?thesis
    proof (cases "he_stream env hop current")
      case (HttpRedirect location)
      show ?thesis
      proof (cases "HttpWebBackend_redirect_target env b current location")
        case (Inl e)
        with "2.prems" ok HttpRedirect show ?thesis by (auto simp: hop_ok_def)
      next
        case (Inr target)
        then have permitted: "hw_is_permitted b target = Inr True"
          by (auto simp: HttpWebBackend_redirect_target_def bind_result_Inr_iff Let_def split: if_splits)
        obtain r1 sent1 where rec: "get_hops env b url (Suc hop) turns target = (r1, sent1)"
          by (cases "get_hops env b url (Suc hop) turns target")
        then have "r = r1" "sent = current # sent1" using "2.prems" ok HttpRedirect Inr by auto
        with "2.IH" [OF ok HttpRedirect Inr rec] permitted ok show ?thesis
          by (auto simp: hop_ok_def nth_Cons split: nat.split if_splits)
      qed
    next
      case (HttpReply response)
      with "2.prems" ok show ?thesis by (auto simp: hop_ok_def dest: accept_response_url)
    qed (use "2.prems" ok in \<open>auto simp: hop_ok_def\<close>)
  qed
qed simp

lemma require_public_resolves:
  assumes "HttpWebBackend_require_public env hop url = Inr ()"
  shows "\<exists>p addresses. urlsplit (wl_netloc_ok (he_lib env)) url = Some p \<and>
    he_resolve env hop (case us_hostname p of None \<Rightarrow> [] | Some h \<Rightarrow> h) = Inr addresses \<and> addresses \<noteq> [] \<and>
    (\<forall>a \<in> set addresses. \<exists>ip. wl_ip_address (he_lib env) a = Some ip \<and> \<not> not_public ip)"
proof -
  have public: "\<forall>a \<in> set as. \<exists>ip. wl_ip_address lib a = Some ip \<and> \<not> not_public ip" if "all_public lib as = Inr True" for lib as
    using that by (induction as) (auto split: option.splits if_splits)
  show ?thesis using assms
    by (auto simp: HttpWebBackend_require_public_def bind_result_Inr_iff Let_def split: option.splits if_splits dest!: public)
qed

text \<open>
  C25. A permitted site does not carry its permission along a redirect. The first URL the transport
  requests is the one it was given, every further one a redirect target the domain policy permits,
  and each was requested only after its host resolved, at that turn, to one or more addresses that
  are all public; no fetch makes more than six requests.
\<close>

theorem redirects_stay_inside_the_boundary:
  assumes "HttpWebBackend_get env b url = (r, sent)"
  shows "length sent \<le> 6 \<and> (\<forall>i < length sent.
    (if i = 0 then sent ! i = url else hw_is_permitted b (sent ! i) = Inr True) \<and>
    (\<exists>p addresses. urlsplit (wl_netloc_ok (he_lib env)) (sent ! i) = Some p \<and>
      he_resolve env i (case us_hostname p of None \<Rightarrow> [] | Some h \<Rightarrow> h) = Inr addresses \<and> addresses \<noteq> [] \<and>
      (\<forall>a \<in> set addresses. \<exists>ip. wl_ip_address (he_lib env) a = Some ip \<and> \<not> not_public ip)))"
proof -
  have "length sent \<le> 6" "\<And>i. i < length sent \<Longrightarrow> HttpWebBackend_require_public env i (sent ! i) = Inr () \<and>
      (if i = 0 then sent ! i = url else hw_is_permitted b (sent ! i) = Inr True)"
    using get_hops_spec [OF assms [unfolded HttpWebBackend_get_def]] by (auto simp: MAX_REDIRECTS_def hop_ok_def)
  then show ?thesis using require_public_resolves by blast
qed

definition sample_response :: http_response where
  "sample_response = \<lparr>rp_url = ''https://example.com/next'', rp_status_code = 200, rp_content_type = ''text/plain'', rp_encoding = [],
     rp_chunks = [[104], [105]], rp_broken = None\<rparr>"

definition sample_http :: http_env where
  "sample_http = \<lparr>he_lib = sample_lib\<lparr>wl_ip_address := (\<lambda>_. Some (ip_address.make False False False False False False))\<rparr>,
     he_resolve = (\<lambda>hop _. Inr [if hop = 0 then ''93.184.216.34'' else ''93.184.216.35'']), he_stream = (\<lambda>hop url. if hop = 0 then HttpRedirect ''/next'' else HttpReply sample_response),
     he_urljoin = (\<lambda>a b. ''https://example.com'' @ b), he_decode = (\<lambda>_ bs. map (\<lambda>n. char_of n) bs), he_parse_html = (\<lambda>_. []),
     he_get_json = (\<lambda>_ _. SearchJson (VDict [(''results'', VList [VDict [(''url'', VStr ''https://example.com/a'')]])]))\<rparr>"

definition sample_backend :: HttpWebBackend where
  "sample_backend = \<lparr>hw_is_permitted = (\<lambda>_. Inr True), hw_search_url = Some ''https://search.example.com'', hw_max_bytes = 10\<rparr>"

lemma sample_public:
  "HttpWebBackend_require_public sample_http hop ''https://example.com/'' = Inr ()"
  "HttpWebBackend_require_public sample_http hop ''https://example.com/next'' = Inr ()"
  by (simp_all add: HttpWebBackend_require_public_def sample_http_def sample_lib_def urlsplit_def split_scheme_def unsafe_removed_def
      ascii_alpha_def scheme_char_def py_lower_def lower_char_def netloc_end_def us_hostname_def us_hostinfo_def rpartition_def
      not_public_def ip_address.make_def py_partition.simps Let_def)

lemma sample_get:
  "HttpWebBackend_get sample_http sample_backend ''https://example.com/'' =
   (Inr (''https://example.com/next'', ''text/plain'', ''hi''), [''https://example.com/'', ''https://example.com/next''])"
proof -
  have "accept_response sample_http sample_backend ''https://example.com/next'' sample_response =
      Inr (''https://example.com/next'', ''text/plain'', ''hi'')" by code_simp
  moreover have "he_stream sample_http 0 u = HttpRedirect ''/next''" "he_stream sample_http (Suc 0) u = HttpReply sample_response"
    "HttpWebBackend_redirect_target sample_http sample_backend u ''/next'' = Inr ''https://example.com/next''" for u
    by (simp_all add: sample_http_def HttpWebBackend_redirect_target_def sample_backend_def)
  ultimately show ?thesis
    by (simp add: HttpWebBackend_get_def MAX_REDIRECTS_def eval_nat_numeral sample_public)
qed

theorem redirects_stay_inside_the_boundary_witness:
  "\<exists>r sent. HttpWebBackend_get sample_http sample_backend ''https://example.com/'' = (r, sent) \<and> length sent = 2 \<and>
     hw_is_permitted sample_backend (sent ! 1) = Inr True \<and>
     (\<exists>p. urlsplit (wl_netloc_ok sample_lib) (sent ! 1) = Some p \<and>
       he_resolve sample_http 1 (case us_hostname p of None \<Rightarrow> [] | Some h \<Rightarrow> h) = Inr [''93.184.216.35''])"
proof -
  let ?sent = "[''https://example.com/'', ''https://example.com/next'']"
  have "\<forall>i < length ?sent. (if i = 0 then ?sent ! i = ''https://example.com/'' else hw_is_permitted sample_backend (?sent ! i) = Inr True) \<and>
      (\<exists>p addresses. urlsplit (wl_netloc_ok (he_lib sample_http)) (?sent ! i) = Some p \<and>
        he_resolve sample_http i (case us_hostname p of None \<Rightarrow> [] | Some h \<Rightarrow> h) = Inr addresses \<and> addresses \<noteq> [] \<and>
        (\<forall>a \<in> set addresses. \<exists>ip. wl_ip_address (he_lib sample_http) a = Some ip \<and> \<not> not_public ip))"
    using redirects_stay_inside_the_boundary [OF sample_get] by (rule conjunct2)
  from this [rule_format, of 1] obtain p where
    p: "hw_is_permitted sample_backend (?sent ! 1) = Inr True" "urlsplit (wl_netloc_ok (he_lib sample_http)) (?sent ! 1) = Some p" by auto
  have "he_resolve sample_http 1 h = Inr [''93.184.216.35'']" "wl_netloc_ok (he_lib sample_http) = wl_netloc_ok sample_lib" for h
    by (simp_all add: sample_http_def)
  with p sample_get show ?thesis by (intro exI [of _ ?sent] exI conjI) (simp_all)
qed

lemma receive_chunks_spec:
  "receive_chunks b current response received chunks = Inr bs \<Longrightarrow>
   bs = received @ concat chunks \<and> (chunks = [] \<or> int (length bs) \<le> hw_max_bytes b) \<and> rp_broken response = None"
  by (induction b current response received chunks rule: receive_chunks.induct) (auto simp: Let_def split: if_splits option.splits)

lemma accept_response_spec:
  assumes "accept_response env b current response = Inr (v, content_type, body)"
  shows "rp_status_code response < 400 \<and> content_type = response_content_type response \<and> content_type \<in> set READABLE_CONTENT_TYPES \<and>
    rp_broken response = None \<and> (rp_chunks response = [] \<or> int (length (concat (rp_chunks response))) \<le> hw_max_bytes b) \<and>
    body = he_decode env (if rp_encoding response = [] then ''utf-8'' else rp_encoding response) (concat (rp_chunks response))"
  using assms
  by (auto simp: accept_response_def Let_def HttpWebBackend_read_bounded_def bind_result_Inr_iff split: if_splits dest: receive_chunks_spec)

text \<open>
  What a fetch returns was received whole, within the limit and from a permitted place. The
  document carries the URL of the response it came from, which is the URL asked for or a permitted
  redirect target; the response reported success and a readable type, its stream did not break, its
  bytes fit the limit, and the text is not empty.
\<close>

theorem fetched_document_is_complete_and_bounded:
  assumes "HttpWebBackend_fetch env b url = Inr d"
  shows "sd_text d \<noteq> [] \<and> (sd_url d = url \<or> hw_is_permitted b (sd_url d) = Inr True) \<and>
    (\<exists>n response. he_stream env n (sd_url d) = HttpReply response \<and> rp_status_code response < 400 \<and>
      response_content_type response \<in> set READABLE_CONTENT_TYPES \<and> rp_broken response = None \<and>
      (rp_chunks response = [] \<or> int (length (concat (rp_chunks response))) \<le> hw_max_bytes b))"
proof -
  obtain v content_type body where got: "fst (HttpWebBackend_get env b url) = Inr (v, content_type, body)"
    and d: "sd_url d = v" "sd_text d \<noteq> []"
    using assms by (auto simp: HttpWebBackend_fetch_def bind_result_Inr_iff Let_def split: if_splits prod.splits)
  obtain sent where run: "get_hops env b url 0 (MAX_REDIRECTS + 1) url = (Inr (v, content_type, body), sent)"
    using got by (cases "HttpWebBackend_get env b url") (auto simp: HttpWebBackend_get_def)
  note spec = get_hops_spec [OF run]
  then have "v \<in> set sent" by blast
  then obtain i where i: "i < length sent" "sent ! i = v" by (auto simp: in_set_conv_nth)
  from spec i have "if i = 0 then v = url else hw_is_permitted b v = Inr True" by metis
  then have permitted: "v = url \<or> hw_is_permitted b v = Inr True" by (cases "i = 0") simp_all
  from spec obtain n response where "he_stream env n v = HttpReply response"
    "accept_response env b v response = Inr (v, content_type, body)" by blast
  with accept_response_spec [OF this(2)] permitted d show ?thesis by auto
qed

lemma sample_fetch:
  "HttpWebBackend_fetch sample_http sample_backend ''https://example.com/'' =
   Inr \<lparr>sd_url = ''https://example.com/next'', sd_title = ''https://example.com/next'', sd_text = ''hi''\<rparr>"
proof -
  have "py_strip ''hi'' = ''hi''" by code_simp
  then show ?thesis by (simp add: HttpWebBackend_fetch_def sample_get)
qed

theorem fetched_document_is_complete_and_bounded_witness:
  "\<exists>n response. he_stream sample_http n ''https://example.com/next'' = HttpReply response \<and> rp_status_code response < 400"
  using fetched_document_is_complete_and_bounded [OF sample_fetch] by auto


section \<open>The service over the transport\<close>

lemma keep_fetchable_spec:
  "keep_fetchable lib policy ds = Inr es \<Longrightarrow>
   length es \<le> length ds \<and> (\<forall>d \<in> set es. d \<in> set ds \<and> (\<exists>u. normalize_source_url lib policy (sd_url d) = Inr u))"
proof (induction ds arbitrary: es)
  case (Cons d ds)
  then obtain ok rest where "is_fetchable lib policy (sd_url d) = Inr ok" "keep_fetchable lib policy ds = Inr rest"
    "es = (if ok then d # rest else rest)"
    by (auto simp: bind_result_Inr_iff)
  moreover have "\<exists>u. normalize_source_url lib policy (sd_url d) = Inr u" if "is_fetchable lib policy (sd_url d) = Inr True"
    using that by (auto simp: is_fetchable_def split: sum.splits WebError.splits)
  ultimately show ?case using Cons.IH [of rest] by (cases ok) auto
qed simp

lemma HttpWebBackend_search_length: "HttpWebBackend_search env b query limit = Inr ds \<Longrightarrow> 0 \<le> limit \<Longrightarrow> int (length ds) \<le> limit"
  by (auto simp: HttpWebBackend_search_def bind_result_Inr_iff py_take_def split: option.splits list.splits search_reply.splits pyval.splits)

text \<open>
  A search shows at most ten results and only what may be fetched. Whatever the search engine
  answers and whatever limit the caller asks for, every result listed has a URL that the domain
  policy lets through.
\<close>

theorem search_results_are_fetchable:
  assumes "we_search env = HttpWebBackend_search http b"
    and "WebResearchService_search env w tenant query limit = (Inr ds, w')"
  shows "length ds \<le> 10 \<and> (\<forall>d \<in> set ds. \<exists>u. normalize_source_url (we_lib env) (we_policy env) (sd_url d) = Inr u)"
proof -
  let ?limit = "max 1 (min limit MAX_SEARCH_RESULTS)"
  obtain found where "HttpWebBackend_search http b query ?limit = Inr found" "keep_fetchable (we_lib env) (we_policy env) found = Inr ds"
    using assms
    by (auto simp: WebResearchService_search_def bind_result_Inr_iff split: sum.splits if_splits prod.splits)
  moreover have "0 \<le> ?limit" "?limit \<le> 10" by (auto simp: MAX_SEARCH_RESULTS_def)
  ultimately show ?thesis using HttpWebBackend_search_length keep_fetchable_spec by fastforce
qed

definition sample_web :: "unit web_env" where
  "sample_web = \<lparr>we_lib = sample_lib, we_policy = sample_policy, we_acquire = (\<lambda>w _. (Inr 1, w)), we_request = (\<lambda>key. Req key 0 0 []),
     we_fetch = HttpWebBackend_fetch sample_http sample_backend, we_search = HttpWebBackend_search sample_http sample_backend\<rparr>"

lemma sample_search:
  "WebResearchService_search sample_web () ''acme'' ''q'' 50 =
   (Inr [\<lparr>sd_url = ''https://example.com/a'', sd_title = ''https://example.com/a'', sd_text = []\<rparr>], ())"
proof -
  have "normalize_source_url sample_lib sample_policy ''https://example.com/a'' = Inr ''https://example.com/a''"
    by (simp add: normalize_source_url_def sample_lib_def sample_policy_def urlsplit_def split_scheme_def unsafe_removed_def
        py_strip_def py_rstrip_def py_lstrip_def is_space_def ascii_alpha_def scheme_char_def py_lower_def lower_char_def netloc_end_def
        us_hostname_def us_hostinfo_def rpartition_def us_username_def us_password_def us_port_def
        ALLOWED_SCHEMES_def CLOUD_METADATA_HOSTS_def BLOCKED_HOST_SUFFIXES_def is_unroutable_address_def
        DomainPolicy_permits_host_def suffix_to_prefix Let_def)
  then show ?thesis
    by (simp add: WebResearchService_search_def sample_web_def require_tenant_def py_strip_def py_rstrip_def py_lstrip_def is_space_def
        HttpWebBackend_search_def sample_backend_def sample_http_def search_results_def py_iter_def py_take_def map_filter_def search_document_def
        field_or_def py_truth_def py_str_def MAX_SEARCH_RESULTS_def is_fetchable_def)
qed

theorem search_results_are_fetchable_witness:
  "\<exists>ds. WebResearchService_search sample_web () ''acme'' ''q'' 50 = (Inr ds, ()) \<and> ds \<noteq> [] \<and> length ds \<le> 10"
proof -
  have "we_search sample_web = HttpWebBackend_search sample_http sample_backend" by (simp add: sample_web_def)
  from search_results_are_fetchable [OF this sample_search] show ?thesis by (simp add: sample_search)
qed

end
