(* ===== verification/Sandbox.thy ===== *)
theory Sandbox
  imports ServerText
begin

text \<open>
  The Python analysis server: the limits and the screen (\<open>mcp/servers/sandbox_boundary.py\<close>), the
  service (\<open>mcp/servers/sandbox_server.py\<close>) and its two runtimes, a Docker container
  (\<open>mcp/servers/docker_sandbox.py\<close>) and a Kubernetes job (\<open>mcp/servers/kubernetes_sandbox.py\<close>).
  \<open>ast.parse\<close> with \<open>ast.walk\<close>, the process runner, the API server and the clock are parameters. The
  service account's token is taken to be readable before every request to the API server.
\<close>

section \<open>The screen\<close>

definition MAX_CODE_LENGTH :: nat where
  "MAX_CODE_LENGTH = 20000"

definition FORBIDDEN_MODULES :: "string list" where
  "FORBIDDEN_MODULES = [''asyncio'', ''ctypes'', ''http'', ''importlib'', ''multiprocessing'', ''os'', ''pathlib'', ''pickle'',
     ''requests'', ''shutil'', ''socket'', ''subprocess'', ''sys'', ''urllib'', ''webbrowser'']"

definition FORBIDDEN_NAMES :: "string list" where
  "FORBIDDEN_NAMES = [''__import__'', ''breakpoint'', ''compile'', ''eval'', ''exec'', ''globals'', ''input'', ''locals'', ''open'', ''vars'']"

definition FORBIDDEN_ATTRIBUTES :: "string list" where
  "FORBIDDEN_ATTRIBUTES = [''__builtins__'', ''__class__'', ''__globals__'', ''__subclasses__'']"

datatype SandboxError =
    CalculationNotAllowed string
  | SandboxUnavailable string
  | CalculationFailed string
  | SandboxHttpError string
  | SandboxEscaped string

record SandboxLimits =
  sl_cpu_seconds :: int
  sl_memory_mib :: int
  sl_wall_clock_seconds :: int
  sl_max_output_bytes :: int
  sl_network_enabled :: bool

definition SandboxLimits_valid :: "SandboxLimits \<Rightarrow> bool" where
  "SandboxLimits_valid l \<longleftrightarrow> \<not> sl_network_enabled l \<and> 1 \<le> sl_cpu_seconds l \<and> 1 \<le> sl_memory_mib l \<and>
     1 \<le> sl_wall_clock_seconds l \<and> 1 \<le> sl_max_output_bytes l \<and> sl_cpu_seconds l \<le> sl_wall_clock_seconds l"

text \<open>The nodes of a syntax tree the screen looks at, in the order of \<open>ast.walk\<close>.\<close>

datatype ast_node =
    Ast_Import "string list"
  | Ast_ImportFrom "string option"
  | Ast_Name string
  | Ast_Attribute string
  | Ast_Other

definition module_root :: "string \<Rightarrow> string" where
  "module_root name = fst (py_partition CHR ''.'' name)"

fun reject_modules :: "string list \<Rightarrow> SandboxError + unit" where
  "reject_modules [] = Inr ()"
| "reject_modules (name # names) =
     (if module_root name \<in> set FORBIDDEN_MODULES
      then Inl (CalculationNotAllowed (''a calculation must not import '' @ module_root name))
      else reject_modules names)"

definition screen_node :: "ast_node \<Rightarrow> SandboxError + unit" where
  "screen_node node = (case node of
     Ast_Import names \<Rightarrow> reject_modules names
   | Ast_ImportFrom m \<Rightarrow> reject_modules [case m of None \<Rightarrow> [] | Some name \<Rightarrow> name]
   | Ast_Name i \<Rightarrow>
       if i \<in> set FORBIDDEN_NAMES then Inl (CalculationNotAllowed (''a calculation must not use '' @ i)) else Inr ()
   | Ast_Attribute a \<Rightarrow>
       if a \<in> set FORBIDDEN_ATTRIBUTES then Inl (CalculationNotAllowed (''a calculation must not reach '' @ a)) else Inr ()
   | Ast_Other \<Rightarrow> Inr ())"

fun screen_nodes :: "ast_node list \<Rightarrow> SandboxError + unit" where
  "screen_nodes [] = Inr ()"
| "screen_nodes (node # nodes) = bind_result (screen_node node) (\<lambda>_. screen_nodes nodes)"

text \<open>\<open>parse\<close> gives the nodes of a program, or the message of its \<open>SyntaxError\<close>.\<close>

definition screen_calculation :: "(string \<Rightarrow> string + ast_node list) \<Rightarrow> string \<Rightarrow> SandboxError + string" where
  "screen_calculation parse code =
     (let candidate = py_strip code in
      if candidate = [] then Inl (CalculationNotAllowed ''a calculation must not be empty'')
      else if length candidate > MAX_CODE_LENGTH
      then Inl (CalculationNotAllowed (''a calculation must not exceed '' @ py_str_nat MAX_CODE_LENGTH @ '' characters''))
      else case parse candidate of
             Inl m \<Rightarrow> Inl (CalculationNotAllowed (''a calculation must be valid Python: '' @ m))
           | Inr nodes \<Rightarrow> bind_result (screen_nodes nodes) (\<lambda>_. Inr candidate))"


section \<open>The service\<close>

text \<open>A runtime runs screened code under a CPU and a memory ceiling; \<open>'t\<close> is the trace it leaves.\<close>

type_synonym 't runtime = "string \<Rightarrow> int \<Rightarrow> int \<Rightarrow> (SandboxError + string) \<times> 't list"

record 't SandboxService =
  sv_backend :: "'t runtime option"
  sv_limits :: SandboxLimits

definition SandboxService_run ::
  "(string \<Rightarrow> string + ast_node list) \<Rightarrow> 't SandboxService \<Rightarrow> string \<Rightarrow> string \<Rightarrow> (SandboxError + string) \<times> 't list" where
  "SandboxService_run parse s tenant_id code =
     (if py_strip tenant_id = [] then (Inl (CalculationNotAllowed ''a calculation must identify its tenant''), [])
      else case screen_calculation parse code of
        Inl e \<Rightarrow> (Inl e, [])
      | Inr screened \<Rightarrow>
          (case sv_backend s of
             None \<Rightarrow> (Inl (SandboxUnavailable ''no isolated runtime is configured, so the calculation was not executed''), [])
           | Some run \<Rightarrow>
               (let (r, trace) = run screened (sl_cpu_seconds (sv_limits s)) (sl_memory_mib (sv_limits s)) in
                (bind_result r (\<lambda>output.
                   if int (length (utf8_encode (codes output))) > sl_max_output_bytes (sv_limits s)
                   then Inl (CalculationNotAllowed (''the calculation produced more than '' @
                          py_str_int (sl_max_output_bytes (sv_limits s)) @ '' bytes''))
                   else Inr output), trace))))"

definition sandbox_message :: "SandboxError \<Rightarrow> string option" where
  "sandbox_message e = (case e of CalculationNotAllowed m \<Rightarrow> Some (''validation error: '' @ m) | _ \<Rightarrow> None)"

definition run_calculation_tool ::
  "(string \<Rightarrow> string + ast_node list) \<Rightarrow> 't SandboxService \<Rightarrow> string \<Rightarrow> string \<Rightarrow> (SandboxError ToolError + string) \<times> 't list" where
  "run_calculation_tool parse s tenant_id code =
     (let (r, trace) = SandboxService_run parse s tenant_id code in (tool_result sandbox_message r, trace))"


section \<open>The Docker runtime\<close>

definition DOCKER_ENTRYPOINT :: string where
  "DOCKER_ENTRYPOINT = ''import sys; exec(compile(sys.stdin.read(), '' @ [CHR 0x27] @ ''<calculation>'' @ [CHR 0x27] @ '', '' @ [CHR 0x27] @
     ''exec'' @ [CHR 0x27] @ ''), {'' @ [CHR 0x27] @ ''__name__'' @ [CHR 0x27] @ '': '' @ [CHR 0x27] @ ''__main__'' @ [CHR 0x27] @ ''})''"

definition MAX_ERROR_CHARACTERS :: nat where
  "MAX_ERROR_CHARACTERS = 2000"

text \<open>\<open>s[-n:]\<close>.\<close>

definition py_tail :: "nat \<Rightarrow> 'a list \<Rightarrow> 'a list" where
  "py_tail n xs = drop (length xs - n) xs"

text \<open>A process: its arguments and what is written to its standard input.\<close>

type_synonym process = "string list \<times> string option"

datatype process_result = ProcessTimeout | ProcessOSError string | Completed int string string

record DockerSandboxBackend =
  ds_image :: string
  ds_wall_clock_seconds :: int
  ds_docker :: string
  ds_runner :: "process \<Rightarrow> process_result"

definition DockerSandboxBackend_command :: "DockerSandboxBackend \<Rightarrow> string \<Rightarrow> int \<Rightarrow> int \<Rightarrow> string list" where
  "DockerSandboxBackend_command b name cpu_seconds memory_mib =
     [ds_docker b, ''run'', ''--rm'', ''--interactive'', ''--name'', name, ''--network'', ''none'',
      ''--memory'', py_str_int memory_mib @ ''m'', ''--memory-swap'', py_str_int memory_mib @ ''m'', ''--cpus'', ''1'',
      ''--pids-limit'', ''64'', ''--ulimit'', ''cpu='' @ py_str_int cpu_seconds @ '':'' @ py_str_int cpu_seconds,
      ''--read-only'', ''--tmpfs'', ''/tmp:rw,noexec,nosuid,size=64m'', ''--cap-drop'', ''ALL'',
      ''--security-opt'', ''no-new-privileges'', ''--user'', ''65534:65534'', ds_image b, ''python'', ''-I'', ''-c'', DOCKER_ENTRYPOINT]"

definition container_name :: "uuid \<Rightarrow> string" where
  "container_name drawn = ''research-calculation-'' @ hex_digits 32 (unat drawn)"

text \<open>\<open>run\<close>, given the identifier drawn for the container's name; an \<open>OSError\<close> of the kill escapes.\<close>

definition DockerSandboxBackend_run :: "DockerSandboxBackend \<Rightarrow> uuid \<Rightarrow> process runtime" where
  "DockerSandboxBackend_run b drawn code cpu_seconds memory_mib =
     (let name = container_name drawn;
          start = (DockerSandboxBackend_command b name cpu_seconds memory_mib, Some code);
          stop = ([ds_docker b, ''kill'', name], None)
      in case ds_runner b start of
           ProcessTimeout \<Rightarrow>
             (case ds_runner b stop of
                ProcessOSError m \<Rightarrow> (Inl (SandboxEscaped m), [start, stop])
              | _ \<Rightarrow> (Inl (CalculationFailed (''the calculation exceeded '' @ py_str_int (ds_wall_clock_seconds b) @
                       '' seconds and was stopped'')), [start, stop]))
         | ProcessOSError m \<Rightarrow> (Inl (CalculationFailed (''no container runtime could be started: '' @ m)), [start])
         | Completed returncode stdout stderr \<Rightarrow>
             (if returncode \<noteq> 0
              then Inl (CalculationFailed (''the calculation exited with status '' @ py_str_int returncode @ '': '' @
                     py_tail MAX_ERROR_CHARACTERS (py_strip stderr)))
              else Inr stdout, [start]))"



section \<open>The Kubernetes runtime\<close>

definition SANDBOX_LABEL :: string where
  "SANDBOX_LABEL = ''research-platform/sandbox''"

definition SANDBOX_LABEL_VALUE :: string where
  "SANDBOX_LABEL_VALUE = ''calculation''"

definition CODE_VARIABLE :: string where
  "CODE_VARIABLE = ''CALCULATION''"

definition CPU_VARIABLE :: string where
  "CPU_VARIABLE = ''CALCULATION_CPU_SECONDS''"

definition UNPRIVILEGED_USER :: int where
  "UNPRIVILEGED_USER = 65534"

definition ORPHAN_TTL_SECONDS :: int where
  "ORPHAN_TTL_SECONDS = 300"

definition ISOLATION_VARIABLE :: string where
  "ISOLATION_VARIABLE = ''CALCULATION_ISOLATION_SECONDS''"

definition NOT_ISOLATED :: string where
  "NOT_ISOLATED = ''sandbox-not-isolated''"

subsection \<open>The entrypoint inside the pod\<close>

text \<open>
  The loop of \<open>ENTRYPOINT\<close> that waits for the network to be cut off. \<open>reachable k\<close> tells whether
  attempt \<open>k\<close> connects to the API server and \<open>now k\<close> is the clock read after it; the first result
  is that the calculation starts, the second that the pod exits. \<open>None\<close> is a loop still running
  after as many attempts as the fuel allows.
\<close>

datatype pod_start = StartsCalculation | ExitsNotIsolated

fun isolation_loop :: "(nat \<Rightarrow> bool) \<Rightarrow> (nat \<Rightarrow> pyfloat) \<Rightarrow> pyfloat \<Rightarrow> nat \<Rightarrow> nat \<Rightarrow> nat \<Rightarrow> pod_start option" where
  "isolation_loop reachable now give_up fuel k blocked =
     (if blocked \<ge> 2 then Some StartsCalculation
      else case fuel of
        0 \<Rightarrow> None
      | Suc fuel \<Rightarrow>
          if \<not> reachable k then isolation_loop reachable now give_up fuel (Suc k) (blocked + 1)
          else if now k \<ge> give_up then Some ExitsNotIsolated
          else isolation_loop reachable now give_up fuel (Suc k) 0)"

declare isolation_loop.simps [simp del]

definition quoted :: "string \<Rightarrow> string" where
  "quoted s = [CHR 0x27] @ s @ [CHR 0x27]"

definition ENTRYPOINT :: string where
  "ENTRYPOINT = concat (map (\<lambda>line. CHR 0x0A # line)
     [''import os, resource, socket, sys, time'',
      ''target = (os.environ['' @ quoted ''KUBERNETES_SERVICE_HOST'' @ ''], int(os.environ['' @ quoted ''KUBERNETES_SERVICE_PORT'' @ '']))'',
      ''give_up = time.monotonic() + float(os.environ.pop('' @ quoted ISOLATION_VARIABLE @ ''))'',
      ''blocked = 0'',
      ''while blocked < 2:'',
      ''    try:'',
      ''        socket.create_connection(target, timeout=1).close()'',
      ''    except OSError:'',
      ''        blocked += 1'',
      ''        continue'',
      ''    blocked = 0'',
      ''    if time.monotonic() >= give_up:'',
      ''        sys.exit('' @ quoted NOT_ISOLATED @ '')'',
      ''    time.sleep(0.25)'',
      ''limit = int(os.environ.pop('' @ quoted CPU_VARIABLE @ ''))'',
      ''resource.setrlimit(resource.RLIMIT_CPU, (limit, limit))'',
      ''code = os.environ.pop('' @ quoted CODE_VARIABLE @ '')'',
      ''exec(compile(code, '' @ quoted ''<calculation>'' @ '', '' @ quoted ''exec'' @ ''), {'' @ quoted ''__name__'' @ '': '' @ quoted ''__main__'' @ ''})'',
      []])"

subsection \<open>The job\<close>

record KubernetesSandboxBackend =
  ks_namespace :: string
  ks_image :: string
  ks_wall_clock_seconds :: int
  ks_runtime_class :: "string option"
  ks_startup_seconds :: int
  ks_isolation_seconds :: int

definition KubernetesSandboxBackend_manifest :: "KubernetesSandboxBackend \<Rightarrow> string \<Rightarrow> string \<Rightarrow> int \<Rightarrow> int \<Rightarrow> pyval" where
  "KubernetesSandboxBackend_manifest b name code cpu_seconds memory_mib =
     (let labels = VDict [(SANDBOX_LABEL, VStr SANDBOX_LABEL_VALUE)];
          pod = [
            (''restartPolicy'', VStr ''Never''),
            (''automountServiceAccountToken'', VBool False),
            (''enableServiceLinks'', VBool False),
            (''securityContext'', VDict [
              (''runAsNonRoot'', VBool True),
              (''runAsUser'', VInt UNPRIVILEGED_USER),
              (''runAsGroup'', VInt UNPRIVILEGED_USER),
              (''seccompProfile'', VDict [(''type'', VStr ''RuntimeDefault'')])]),
            (''containers'', VList [VDict [
              (''name'', VStr ''calculation''),
              (''image'', VStr (ks_image b)),
              (''command'', VList [VStr ''python'', VStr ''-I'', VStr ''-c'', VStr ENTRYPOINT]),
              (''env'', VList [
                VDict [(''name'', VStr CODE_VARIABLE), (''value'', VStr code)],
                VDict [(''name'', VStr CPU_VARIABLE), (''value'', VStr (py_str_int cpu_seconds))],
                VDict [(''name'', VStr ISOLATION_VARIABLE), (''value'', VStr (py_str_int (ks_isolation_seconds b)))]]),
              (''resources'', VDict [
                (''limits'', VDict [(''cpu'', VStr ''1''), (''memory'', VStr (py_str_int memory_mib @ ''Mi'')),
                  (''ephemeral-storage'', VStr ''64Mi'')]),
                (''requests'', VDict [(''cpu'', VStr ''100m''), (''memory'', VStr ''64Mi'')])]),
              (''securityContext'', VDict [
                (''allowPrivilegeEscalation'', VBool False),
                (''readOnlyRootFilesystem'', VBool True),
                (''capabilities'', VDict [(''drop'', VList [VStr ''ALL''])])]),
              (''volumeMounts'', VList [VDict [(''name'', VStr ''scratch''), (''mountPath'', VStr ''/tmp'')]])]]),
            (''volumes'', VList [VDict [(''name'', VStr ''scratch''),
              (''emptyDir'', VDict [(''medium'', VStr ''Memory''), (''sizeLimit'', VStr ''64Mi'')])]])]
            @ (case ks_runtime_class b of
                 Some c \<Rightarrow> if c \<noteq> [] then [(''runtimeClassName'', VStr c)] else []
               | None \<Rightarrow> [])
      in VDict [
           (''apiVersion'', VStr ''batch/v1''),
           (''kind'', VStr ''Job''),
           (''metadata'', VDict [(''name'', VStr name), (''labels'', labels)]),
           (''spec'', VDict [
             (''backoffLimit'', VInt 0),
             (''activeDeadlineSeconds'', VInt (ks_wall_clock_seconds b + ks_isolation_seconds b)),
             (''ttlSecondsAfterFinished'', VInt ORPHAN_TTL_SECONDS),
             (''template'', VDict [(''metadata'', VDict [(''labels'', labels)]), (''spec'', VDict pod)])])])"

text \<open>
  A request to the API server and what comes back. The API server is what it answers to the last of
  the requests made so far: an \<open>HTTPError\<close>, or a body with its JSON, if it is any.
\<close>

datatype k8s_request = K8s (k8s_method: string) (k8s_path: string) (k8s_params: "(string \<times> string) list") (k8s_json: "pyval option")

record k8s_response =
  kr_json :: "pyval option"
  kr_text :: string

record k8s_cluster =
  kc_api :: "k8s_request list \<Rightarrow> string + k8s_response"
  kc_clock :: "nat \<Rightarrow> pyfloat"

definition response_json :: "k8s_response \<Rightarrow> SandboxError + pyval" where
  "response_json r = (case kr_json r of None \<Rightarrow> Inl (SandboxEscaped ''ValueError'') | Some v \<Rightarrow> Inr v)"

text \<open>\<open>v.get(key, default)\<close>.\<close>

definition val_get :: "pyval \<Rightarrow> string \<Rightarrow> pyval \<Rightarrow> SandboxError + pyval" where
  "val_get v key d = (case v of
     VDict kvs \<Rightarrow> Inr (case dict_get kvs key of None \<Rightarrow> d | Some x \<Rightarrow> x)
   | _ \<Rightarrow> Inl (SandboxEscaped ''AttributeError''))"

definition val_iter :: "pyval \<Rightarrow> SandboxError + pyval list" where
  "val_iter v = (case py_iter v of None \<Rightarrow> Inl (SandboxEscaped ''TypeError'') | Some vs \<Rightarrow> Inr vs)"

text \<open>The loop over the conditions of a job: what the first deciding one says, if any.\<close>

fun scan_conditions :: "int \<Rightarrow> pyval list \<Rightarrow> SandboxError + bool option" where
  "scan_conditions wall [] = Inr None"
| "scan_conditions wall (condition # conditions) =
     bind_result (val_get condition ''status'' VNone) (\<lambda>status.
       if status \<noteq> VStr ''True'' then scan_conditions wall conditions
       else bind_result (val_get condition ''type'' VNone) (\<lambda>kind.
         if kind = VStr ''Complete'' then Inr (Some True)
         else if kind = VStr ''Failed''
         then bind_result (val_get condition ''reason'' VNone) (\<lambda>reason.
           if reason = VStr ''DeadlineExceeded''
           then Inl (CalculationFailed (''the calculation exceeded '' @ py_str_int wall @ '' seconds and was stopped''))
           else Inr (Some False))
         else scan_conditions wall conditions))"

definition job_outcome :: "int \<Rightarrow> k8s_response \<Rightarrow> SandboxError + bool option" where
  "job_outcome wall r =
     bind_result (response_json r) (\<lambda>document.
     bind_result (val_get document ''status'' (VDict [])) (\<lambda>status.
     bind_result (val_get status ''conditions'' (VList [])) (\<lambda>conditions.
     bind_result (val_iter conditions) (\<lambda>cs. scan_conditions wall cs))))"

text \<open>
  The polling loop of \<open>_wait\<close> from poll \<open>k\<close> on; the clock is read once for the deadline and once
  after each poll. \<open>None\<close> is a loop still polling after as many polls as the fuel allows.
\<close>

fun wait_polls ::
  "KubernetesSandboxBackend \<Rightarrow> k8s_cluster \<Rightarrow> string \<Rightarrow> nat \<Rightarrow> nat \<Rightarrow> k8s_request list \<Rightarrow> ((SandboxError + bool) \<times> k8s_request list) option" where
  "wait_polls b c job 0 k trace = None"
| "wait_polls b c job (Suc fuel) k trace =
     (let trace = trace @ [K8s ''GET'' job [] None];
          deadline = kc_clock c 0 + of_int (ks_wall_clock_seconds b) + of_int (ks_isolation_seconds b) + of_int (ks_startup_seconds b)
      in case kc_api c trace of
           Inl m \<Rightarrow> Some (Inl (SandboxHttpError m), trace)
         | Inr r \<Rightarrow>
             (case job_outcome (ks_wall_clock_seconds b) r of
                Inl e \<Rightarrow> Some (Inl e, trace)
              | Inr (Some succeeded) \<Rightarrow> Some (Inr succeeded, trace)
              | Inr None \<Rightarrow>
                  if kc_clock c (Suc k) \<ge> deadline
                  then Some (Inl (CalculationFailed ''the calculation job did not finish in time and was removed''), trace)
                  else wait_polls b c job fuel (Suc k) trace))"

text \<open>\<open>items[0]["metadata"]["name"]\<close>, which raises when a step is missing.\<close>

definition first_pod :: "pyval \<Rightarrow> SandboxError + string" where
  "first_pod items = (case items of
     VList (VDict item # _) \<Rightarrow>
       (case dict_get item ''metadata'' of
          Some (VDict metadata) \<Rightarrow> (case dict_get metadata ''name'' of Some n \<Rightarrow> Inr (py_str n) | None \<Rightarrow> Inl (SandboxEscaped ''KeyError''))
        | Some _ \<Rightarrow> Inl (SandboxEscaped ''TypeError'')
        | None \<Rightarrow> Inl (SandboxEscaped ''KeyError''))
   | _ \<Rightarrow> Inl (SandboxEscaped ''TypeError''))"

definition KubernetesSandboxBackend_output ::
  "KubernetesSandboxBackend \<Rightarrow> k8s_cluster \<Rightarrow> string \<Rightarrow> k8s_request list \<Rightarrow> (SandboxError + string) \<times> k8s_request list" where
  "KubernetesSandboxBackend_output b c name trace =
     (let pods = ''/api/v1/namespaces/'' @ ks_namespace b @ ''/pods'';
          trace = trace @ [K8s ''GET'' pods [(''labelSelector'', ''job-name='' @ name)] None]
      in case kc_api c trace of
           Inl m \<Rightarrow> (Inl (SandboxHttpError m), trace)
         | Inr found \<Rightarrow>
             (case bind_result (response_json found) (\<lambda>document. val_get document ''items'' (VList [])) of
                Inl e \<Rightarrow> (Inl e, trace)
              | Inr items \<Rightarrow>
                  if \<not> py_truth items then (Inr [], trace)
                  else (case first_pod items of
                          Inl e \<Rightarrow> (Inl e, trace)
                        | Inr pod \<Rightarrow>
                            (let trace = trace @ [K8s ''GET'' (pods @ ''/'' @ pod @ ''/log'') [] None] in
                             case kc_api c trace of
                               Inl m \<Rightarrow> (Inl (SandboxHttpError m), trace)
                             | Inr written \<Rightarrow> (Inr (kr_text written), trace)))))"

text \<open>\<open>_delete\<close>: one request, whose failure is ignored.\<close>

definition KubernetesSandboxBackend_delete :: "string \<Rightarrow> k8s_request list \<Rightarrow> k8s_request list" where
  "KubernetesSandboxBackend_delete job trace = trace @ [K8s ''DELETE'' job [(''propagationPolicy'', ''Background'')] None]"

definition followed :: "SandboxError \<Rightarrow> SandboxError" where
  "followed e = (case e of
     SandboxHttpError m \<Rightarrow> CalculationFailed (''the calculation job could not be followed: '' @ m)
   | _ \<Rightarrow> e)"

definition verdict :: "bool \<Rightarrow> string \<Rightarrow> SandboxError + string" where
  "verdict succeeded output =
     (if \<not> succeeded \<and> py_endswith (py_strip output) NOT_ISOLATED
      then Inl (CalculationFailed (''the calculation was not run: the cluster does not cut calculation pods off '' @
             ''from the network. The sandbox NetworkPolicy must exist in this namespace '' @
             ''and the network plugin must enforce it.''))
      else if \<not> succeeded
      then Inl (CalculationFailed (''the calculation did not finish successfully: '' @ py_tail MAX_ERROR_CHARACTERS (py_strip output)))
      else Inr output)"

definition KubernetesSandboxBackend_run ::
  "KubernetesSandboxBackend \<Rightarrow> k8s_cluster \<Rightarrow> nat \<Rightarrow> uuid \<Rightarrow> string \<Rightarrow> int \<Rightarrow> int \<Rightarrow> ((SandboxError + string) \<times> k8s_request list) option" where
  "KubernetesSandboxBackend_run b c fuel drawn code cpu_seconds memory_mib =
     (let name = container_name drawn;
          jobs = ''/apis/batch/v1/namespaces/'' @ ks_namespace b @ ''/jobs'';
          job = jobs @ ''/'' @ name;
          trace = [K8s ''POST'' jobs [] (Some (KubernetesSandboxBackend_manifest b name code cpu_seconds memory_mib))]
      in case kc_api c trace of
           Inl m \<Rightarrow> Some (Inl (CalculationFailed (''no calculation job could be started: '' @ m)), trace)
         | Inr _ \<Rightarrow>
             (case wait_polls b c job fuel 0 trace of
                None \<Rightarrow> None
              | Some (Inl e, trace) \<Rightarrow> Some (Inl (followed e), KubernetesSandboxBackend_delete job trace)
              | Some (Inr succeeded, trace) \<Rightarrow>
                  (case KubernetesSandboxBackend_output b c name trace of
                     (Inl e, trace) \<Rightarrow> Some (Inl (followed e), KubernetesSandboxBackend_delete job trace)
                   | (Inr output, trace) \<Rightarrow> Some (verdict succeeded output, KubernetesSandboxBackend_delete job trace))))"



section \<open>What the sandbox guarantees\<close>

lemma reject_modules_ok: "reject_modules names = Inr () \<longleftrightarrow> (\<forall>name \<in> set names. module_root name \<notin> set FORBIDDEN_MODULES)"
  by (induction names) auto

text \<open>What the screen withholds, as a predicate on a node.\<close>

definition node_allowed :: "ast_node \<Rightarrow> bool" where
  "node_allowed node = (case node of
     Ast_Import names \<Rightarrow> list_all (\<lambda>name. module_root name \<notin> set FORBIDDEN_MODULES) names
   | Ast_ImportFrom (Some name) \<Rightarrow> module_root name \<notin> set FORBIDDEN_MODULES
   | Ast_ImportFrom None \<Rightarrow> True
   | Ast_Name i \<Rightarrow> i \<notin> set FORBIDDEN_NAMES
   | Ast_Attribute a \<Rightarrow> a \<notin> set FORBIDDEN_ATTRIBUTES
   | Ast_Other \<Rightarrow> True)"

lemma screen_node_ok: "screen_node node = Inr () \<longleftrightarrow> node_allowed node"
proof (cases node)
  case (Ast_ImportFrom m)
  have "module_root [] \<notin> set FORBIDDEN_MODULES" by code_simp
  with Ast_ImportFrom show ?thesis by (cases m) (simp_all add: screen_node_def node_allowed_def del: reject_modules.simps add: reject_modules_ok)
qed (simp_all add: screen_node_def node_allowed_def reject_modules_ok list_all_iff)

lemma screen_nodes_ok: "screen_nodes nodes = Inr () \<longleftrightarrow> list_all node_allowed nodes"
  by (induction nodes) (auto simp: bind_result_Inr_iff screen_node_ok)

lemma screen_calculation_ok:
  "screen_calculation parse code = Inr screened \<longleftrightarrow> screened = py_strip code \<and> screened \<noteq> [] \<and> length screened \<le> MAX_CODE_LENGTH \<and>
   (\<exists>nodes. parse screened = Inr nodes \<and> list_all node_allowed nodes)"
  by (auto simp: screen_calculation_def Let_def bind_result_Inr_iff screen_nodes_ok split: sum.splits)

lemma SandboxService_run_spec:
  assumes "SandboxService_run parse s tenant code = (r, trace)" and "trace \<noteq> []"
  shows "\<exists>run r'. sv_backend s = Some run \<and> screen_calculation parse code = Inr (py_strip code) \<and>
    run (py_strip code) (sl_cpu_seconds (sv_limits s)) (sl_memory_mib (sv_limits s)) = (r', trace) \<and>
    (\<forall>output. r = Inr output \<longrightarrow> int (length (utf8_encode (codes output))) \<le> sl_max_output_bytes (sv_limits s))"
proof -
  obtain screened run where s: "screen_calculation parse code = Inr screened" "sv_backend s = Some run"
    using assms by (auto simp: SandboxService_run_def split: sum.splits if_split_asm option.splits)
  obtain r' trace' where run: "run screened (sl_cpu_seconds (sv_limits s)) (sl_memory_mib (sv_limits s)) = (r', trace')"
    by fastforce
  have "screened = py_strip code" using s(1) by (simp add: screen_calculation_ok)
  with assms s run show ?thesis
    by (cases r') (auto simp: SandboxService_run_def split: if_split_asm)
qed

text \<open>
  C30. Code reaches a container only when it was screened, and then only as its input. Whatever is
  submitted, the first process the service starts over Docker is the command line spelled out below,
  with the configured image and ceilings: a container that is removed afterwards, with no network, bounded
  memory without swap, one processor, 64 processes, bounded processor time, a read-only file system with a
  small scratch space nothing can be run from, no capabilities and no way to regain them, and an
  unprivileged user; the code is its standard input and no part of the command. The program parses and none
  of its nodes imports, names or reaches what the screen withholds; a second process only ever
  kills that container; and an output that is returned fits the limit.
\<close>

theorem calculations_run_screened_and_contained:
  assumes "run_calculation_tool parse \<lparr>sv_backend = Some (DockerSandboxBackend_run b drawn), sv_limits = limits\<rparr> tenant code = (r, started)"
    and "started \<noteq> []"
  shows "\<exists>name nodes. hd started =
     ([ds_docker b, ''run'', ''--rm'', ''--interactive'', ''--name'', name, ''--network'', ''none'',
      ''--memory'', py_str_int (sl_memory_mib limits) @ ''m'', ''--memory-swap'', py_str_int (sl_memory_mib limits) @ ''m'', ''--cpus'', ''1'',
      ''--pids-limit'', ''64'', ''--ulimit'', ''cpu='' @ py_str_int (sl_cpu_seconds limits) @ '':'' @ py_str_int (sl_cpu_seconds limits),
      ''--read-only'', ''--tmpfs'', ''/tmp:rw,noexec,nosuid,size=64m'', ''--cap-drop'', ''ALL'',
      ''--security-opt'', ''no-new-privileges'', ''--user'', ''65534:65534'', ds_image b, ''python'', ''-I'', ''-c'',
      ''import sys; exec(compile(sys.stdin.read(), '' @ [CHR 0x27] @ ''<calculation>'' @ [CHR 0x27] @ '', '' @ [CHR 0x27] @
        ''exec'' @ [CHR 0x27] @ ''), {'' @ [CHR 0x27] @ ''__name__'' @ [CHR 0x27] @ '': '' @ [CHR 0x27] @ ''__main__'' @ [CHR 0x27] @ ''})''], Some (py_strip code)) \<and>
    set (tl started) \<subseteq> {([ds_docker b, ''kill'', name], None)} \<and> length started \<le> 2 \<and>
    parse (py_strip code) = Inr nodes \<and> list_all node_allowed nodes \<and> length (py_strip code) \<le> 20000 \<and>
    (\<forall>output. r = Inr output \<longrightarrow> int (length (utf8_encode (codes output))) \<le> sl_max_output_bytes limits)"
proof -
  let ?s = "\<lparr>sv_backend = Some (DockerSandboxBackend_run b drawn), sv_limits = limits\<rparr>"
  obtain r0 where run: "SandboxService_run parse ?s tenant code = (r0, started)" "r = tool_result sandbox_message r0"
    using assms(1) by (auto simp: run_calculation_tool_def split: prod.splits)
  obtain r1 where screened: "screen_calculation parse code = Inr (py_strip code)"
    and docker: "DockerSandboxBackend_run b drawn (py_strip code) (sl_cpu_seconds limits) (sl_memory_mib limits) = (r1, started)"
    and out: "\<forall>output. r0 = Inr output \<longrightarrow> int (length (utf8_encode (codes output))) \<le> sl_max_output_bytes limits"
    using SandboxService_run_spec [OF run(1) assms(2)] by auto
  have "hd started = (DockerSandboxBackend_command b (container_name drawn) (sl_cpu_seconds limits) (sl_memory_mib limits), Some (py_strip code)) \<and>
      set (tl started) \<subseteq> {([ds_docker b, ''kill'', container_name drawn], None)} \<and> length started \<le> 2"
    using docker by (auto simp: DockerSandboxBackend_run_def Let_def split: process_result.splits)
  with screened out run(2) show ?thesis
    unfolding DockerSandboxBackend_command_def DOCKER_ENTRYPOINT_def by (auto simp: screen_calculation_ok MAX_CODE_LENGTH_def)
qed

definition sample_docker :: DockerSandboxBackend where
  "sample_docker = \<lparr>ds_image = ''python:3.12-alpine'', ds_wall_clock_seconds = 30, ds_docker = ''docker'',
     ds_runner = (\<lambda>_. Completed 0 ''2'' [])\<rparr>"

definition sample_limits :: SandboxLimits where
  "sample_limits = \<lparr>sl_cpu_seconds = 10, sl_memory_mib = 512, sl_wall_clock_seconds = 30, sl_max_output_bytes = 262144, sl_network_enabled = False\<rparr>"

lemma sample_calculation:
  "\<exists>start. run_calculation_tool (\<lambda>_. Inr [Ast_Other, Ast_Name ''print''])
     \<lparr>sv_backend = Some (DockerSandboxBackend_run sample_docker 7), sv_limits = sample_limits\<rparr> ''acme'' ''print(1 + 1)'' = (Inr ''2'', [start])"
proof -
  have "py_strip ''acme'' \<noteq> []" "py_strip ''print(1 + 1)'' = ''print(1 + 1)''" by code_simp+
  moreover have "screen_nodes [Ast_Other, Ast_Name ''print''] = Inr ()" by code_simp
  moreover have "length (utf8_encode (codes ''2'')) = 1" by code_simp
  ultimately show ?thesis
    by (simp add: run_calculation_tool_def SandboxService_run_def screen_calculation_def MAX_CODE_LENGTH_def DockerSandboxBackend_run_def
        sample_docker_def sample_limits_def tool_result_def Let_def)
qed

theorem calculations_run_screened_and_contained_witness:
  "\<exists>r started. run_calculation_tool (\<lambda>_. Inr [Ast_Other, Ast_Name ''print''])
     \<lparr>sv_backend = Some (DockerSandboxBackend_run sample_docker 7), sv_limits = sample_limits\<rparr> ''acme'' ''print(1 + 1)'' = (r, started) \<and>
   take 5 (fst (hd started)) = [''docker'', ''run'', ''--rm'', ''--interactive'', ''--name''] \<and>
   take 2 (drop 6 (fst (hd started))) = [''--network'', ''none''] \<and> snd (hd started) = Some (py_strip ''print(1 + 1)'')"
proof -
  obtain start where run: "run_calculation_tool (\<lambda>_. Inr [Ast_Other, Ast_Name ''print''])
     \<lparr>sv_backend = Some (DockerSandboxBackend_run sample_docker 7), sv_limits = sample_limits\<rparr> ''acme'' ''print(1 + 1)'' = (Inr ''2'', [start])"
    using sample_calculation by blast
  from calculations_run_screened_and_contained [OF run] run show ?thesis by (auto simp: sample_docker_def)
qed

text \<open>
  Attempts that failed in a row just before attempt \<open>k\<close>, which is what \<open>blocked\<close> counts.
\<close>

definition blocked_before :: "(nat \<Rightarrow> bool) \<Rightarrow> nat \<Rightarrow> nat \<Rightarrow> bool" where
  "blocked_before reachable k blocked \<longleftrightarrow> blocked \<le> k \<and> (\<forall>i. k - blocked \<le> i \<longrightarrow> i < k \<longrightarrow> \<not> reachable i)"

lemma blocked_before_Suc: "blocked_before reachable k n \<Longrightarrow> \<not> reachable k \<Longrightarrow> blocked_before reachable (Suc k) (n + 1)"
  by (auto simp: blocked_before_def less_Suc_eq)

lemma blocked_before_2: "blocked_before reachable k 2 \<Longrightarrow> \<exists>i. k = i + 2 \<and> \<not> reachable i \<and> \<not> reachable (i + 1)"
  by (intro exI [of _ "k - 2"]) (auto simp: blocked_before_def)

lemma isolation_loop_eqs:
  "isolation_loop reachable now give_up 0 k blocked = (if blocked \<ge> 2 then Some StartsCalculation else None)"
  "isolation_loop reachable now give_up (Suc fuel) k blocked =
    (if blocked \<ge> 2 then Some StartsCalculation
     else if \<not> reachable k then isolation_loop reachable now give_up fuel (Suc k) (blocked + 1)
     else if now k \<ge> give_up then Some ExitsNotIsolated
     else isolation_loop reachable now give_up fuel (Suc k) 0)"
  by (simp_all add: isolation_loop.simps [of _ _ _ 0] isolation_loop.simps [of _ _ _ "Suc fuel"])

lemma isolation_loop_sound:
  assumes "isolation_loop reachable now give_up fuel k blocked = Some r" and "blocked_before reachable k blocked" and "blocked \<le> 2"
  shows "case r of
      StartsCalculation \<Rightarrow> \<exists>i. i + 2 \<le> k + fuel \<and> \<not> reachable i \<and> \<not> reachable (i + 1)
    | ExitsNotIsolated \<Rightarrow> \<exists>i. i < k + fuel \<and> reachable i \<and> give_up \<le> now i"
  using assms
proof (induction fuel arbitrary: k blocked)
  case 0
  then have "blocked = 2" "r = StartsCalculation"
    by (auto simp: isolation_loop_eqs split: if_split_asm)
  with blocked_before_2 [of reachable k] 0 show ?case by auto
next
  case (Suc fuel)
  consider (done2) "blocked = 2" "r = StartsCalculation"
    | (blocked) "blocked < 2" "\<not> reachable k" "isolation_loop reachable now give_up fuel (Suc k) (blocked + 1) = Some r"
    | (out) "reachable k" "give_up \<le> now k" "r = ExitsNotIsolated"
    | (again) "isolation_loop reachable now give_up fuel (Suc k) 0 = Some r"
    using Suc.prems(1,3) unfolding isolation_loop_eqs by (fastforce split: if_split_asm)
  then show ?case
  proof cases
    case done2
    with blocked_before_2 [of reachable k] Suc.prems(2) obtain i where "k = i + 2" "\<not> reachable i" "\<not> reachable (i + 1)" by blast
    with done2 show ?thesis by (auto intro!: exI [of _ i])
  next
    case blocked
    with Suc.IH [OF blocked(3)] blocked_before_Suc [OF Suc.prems(2)] show ?thesis by (cases r) auto
  next
    case out
    then show ?thesis by (auto intro!: exI [of _ k])
  next
    case again
    from Suc.IH [OF again] show ?thesis by (cases r) (auto simp: blocked_before_def)
  qed
qed

lemma isolation_loop_ends:
  assumes "\<And>i. N \<le> i \<Longrightarrow> give_up \<le> now i" and "N + 2 \<le> k + fuel" and "blocked \<le> k - N \<or> N < k \<longrightarrow> k - N \<le> blocked"
  shows "isolation_loop reachable now give_up fuel k blocked \<noteq> None"
  using assms(2,3)
proof (induction fuel arbitrary: k blocked)
  case 0
  then have "2 \<le> blocked" by auto
  then show ?case by (simp add: isolation_loop_eqs)
next
  case (Suc fuel)
  have "isolation_loop reachable now give_up fuel (Suc k) (blocked + 1) \<noteq> None" if "\<not> reachable k"
    using Suc.prems by (intro Suc.IH) auto
  moreover have "isolation_loop reachable now give_up fuel (Suc k) 0 \<noteq> None" if "now k < give_up"
  proof -
    have "k < N" using assms(1) [of k] that by force
    with Suc.prems show ?thesis by (intro Suc.IH) auto
  qed
  ultimately show ?case unfolding isolation_loop_eqs by (simp add: not_le)
qed

text \<open>
  C31. A calculation starts in a pod only after the network was found cut off. Once the clock has
  passed the allowance by attempt \<open>N\<close>, the entrypoint decides within two more attempts: it starts
  the calculation, and then two attempts in a row failed to reach the API server, or it exits
  without running anything, and then the server was still reachable after the allowance.
\<close>

theorem pod_starts_only_when_isolated:
  assumes "\<forall>i \<ge> N. give_up \<le> now i"
  shows "\<exists>r. isolation_loop reachable now give_up (N + 2) 0 0 = Some r \<and>
    (case r of
       StartsCalculation \<Rightarrow> \<exists>i \<le> N. \<not> reachable i \<and> \<not> reachable (i + 1)
     | ExitsNotIsolated \<Rightarrow> \<exists>i < N + 2. reachable i \<and> give_up \<le> now i)"
proof -
  obtain r where r: "isolation_loop reachable now give_up (N + 2) 0 0 = Some r"
    using isolation_loop_ends [of N give_up now 0 "N + 2" 0 reachable] assms by auto
  moreover have "blocked_before reachable 0 0" by (simp add: blocked_before_def)
  ultimately show ?thesis
    using isolation_loop_sound [OF r] by (auto split: pod_start.splits)
qed

theorem pod_starts_only_when_isolated_witness:
  "\<exists>r. isolation_loop (\<lambda>i. i = 0) (\<lambda>i. of_nat i) 2 (2 + 2) 0 0 = Some r \<and> r = StartsCalculation"
proof -
  have "\<forall>i \<ge> 2. (2 :: pyfloat) \<le> of_nat i" by (metis of_nat_le_iff of_nat_numeral)
  from pod_starts_only_when_isolated [OF this, of "\<lambda>i. i = 0"] obtain r where
    "isolation_loop (\<lambda>i. i = 0) (\<lambda>i. of_nat i) 2 (2 + 2) 0 0 = Some r"
    "case r of StartsCalculation \<Rightarrow> \<exists>i \<le> 2. i \<noteq> 0 \<and> i + 1 \<noteq> (0 :: nat) | ExitsNotIsolated \<Rightarrow> \<exists>i < 2 + 2. i = (0 :: nat) \<and> (2 :: pyfloat) \<le> of_nat i"
    by blast
  then show ?thesis by (cases r) auto
qed

text \<open>The polling loop returns once a clock reading has passed the deadline, and asks for nothing but the job.\<close>

lemma wait_polls_ends:
  assumes "kc_clock c 0 + of_int (ks_wall_clock_seconds b) + of_int (ks_isolation_seconds b) + of_int (ks_startup_seconds b) \<le> kc_clock c (Suc (k + n))"
  shows "\<exists>r m. m \<le> Suc n \<and> wait_polls b c job (Suc n) k trace = Some (r, trace @ replicate m (K8s ''GET'' job [] None))"
  using assms
proof (induction n arbitrary: k trace)
  case 0
  show ?case
    using 0 by (auto simp: Let_def split: sum.splits option.splits intro!: exI [of _ 1])
next
  case (Suc n)
  let ?trace = "trace @ [K8s ''GET'' job [] None]"
  obtain r m where "m \<le> Suc n" "wait_polls b c job (Suc n) (Suc k) ?trace = Some (r, ?trace @ replicate m (K8s ''GET'' job [] None))"
    using Suc.IH [of "Suc k" ?trace] Suc.prems by auto
  then have rec: "\<exists>r m. m \<le> Suc (Suc n) \<and> wait_polls b c job (Suc n) (Suc k) ?trace = Some (r, trace @ replicate m (K8s ''GET'' job [] None))"
    by (intro exI [of _ r] exI [of _ "Suc m"]) simp
  have one: "\<exists>m. m \<le> Suc (Suc n) \<and> ?trace = trace @ replicate m (K8s ''GET'' job [] None)" by (rule exI [of _ 1]) simp
  show ?case
    using rec one by (subst wait_polls.simps) (auto simp del: wait_polls.simps simp: Let_def split: sum.split option.split)
qed

lemma output_requests:
  "\<exists>extra. length extra \<le> 2 \<and> snd (KubernetesSandboxBackend_output b c name trace) = trace @ extra"
  by (auto simp: KubernetesSandboxBackend_output_def Let_def split: sum.split)

definition job_path :: "KubernetesSandboxBackend \<Rightarrow> uuid \<Rightarrow> string" where
  "job_path b drawn = ''/apis/batch/v1/namespaces/'' @ ks_namespace b @ ''/jobs/'' @ container_name drawn"


definition idle_cluster :: k8s_cluster where
  "idle_cluster = \<lparr>kc_api = (\<lambda>_. Inr \<lparr>kr_json = Some (VDict []), kr_text = []\<rparr>), kc_clock = (\<lambda>i. of_nat i * 60)\<rparr>"

definition sample_sandbox :: KubernetesSandboxBackend where
  "sample_sandbox = \<lparr>ks_namespace = ''research'', ks_image = ''python:3.12-alpine'', ks_wall_clock_seconds = 30, ks_runtime_class = None,
     ks_startup_seconds = 60, ks_isolation_seconds = 15\<rparr>"


end
