(* ===== verification/Spec2Isabelle.thy ===== *)
theory Spec2Isabelle
  imports Sha256_Vector Workflow SharedLimits Postgres EvidenceAccess Api Deployment Evaluation HttpWeb Sandbox
begin

text \<open>
  A verification development of the secure MCP multi-agent research platform: a service that takes
  a research question, lets a fixed pipeline of agents plan, collect evidence, analyse, criticise
  and report, and lets those agents act only through capabilities that a gateway mediates. Paths
  below are relative to \<open>src/src/research_platform\<close>.

  \<^bold>\<open>The program and the theories.\<close>

  \<^item> Shared material: \<open>Prelude\<close> (results, Python strings, dictionaries), \<open>Encoding\<close> (UTF-8,
    SHA-256, canonical JSON, identifiers; \<open>Sha256_Vector\<close> checks the digest against its published
    example), \<open>Regex\<close> (the backtracking matcher of \<open>re\<close>), \<open>Urls\<close> (\<open>urlsplit\<close>), \<open>Effects\<close>
    (computations over a store that may raise, with triples), \<open>ServerText\<close> (\<open>repr\<close>, \<open>str.split\<close>,
    \<open>json.dumps\<close> and tool outcomes for the servers).
  \<^item> Domain: \<open>Models\<close> (\<open>domain/models.py\<close>), \<open>Tasks\<close> (\<open>domain/tasks.py\<close>) over \<open>Dependency\<close>, which
    states once what a dependency order is, \<open>Invocations\<close> and \<open>Approvals\<close> (\<open>domain/invocations.py\<close>,
    \<open>domain/approvals.py\<close>), \<open>Contracts\<close> (\<open>agents/contracts.py\<close>).
  \<^item> The mediated path: \<open>Registry\<close> (\<open>identity.py\<close>, \<open>mcp/registry.py\<close>, \<open>mcp/catalogue.py\<close>), \<open>Policy\<close>
    (\<open>mcp/policy.py\<close>, \<open>mcp/opa.py\<close>), \<open>Breaker\<close> (\<open>mcp/breaker.py\<close>), \<open>Sanitizer\<close>
    (\<open>mcp/sanitizer.py\<close>) and \<open>Gateway\<close> (\<open>mcp/gateway.py\<close>), which composes them in the order of
    \<open>invoke\<close>: resolve, authorize, approve, reserve, check the circuit, execute, sanitize, record.
  \<^item> Limits shared by workers: \<open>Redis\<close> (the commands the scripts use, as a locale of laws),
    \<open>RedisState\<close> and \<open>RateLimit\<close> (\<open>persistence/redis_state.py\<close> and the limiter of
    \<open>mcp/servers/web_boundary.py\<close>), \<open>SharedLimits\<close> (the gateway over them, and any number of workers'
    gateways over one store whose keys expire).
  \<^item> The system of record and the pipeline: \<open>Publication\<close> (\<open>application/publication.py\<close>), \<open>Jobs\<close>
    (\<open>application/jobs.py\<close>), \<open>Rows\<close> and \<open>Postgres\<close> (\<open>persistence/postgres.py\<close>,
    \<open>persistence/schema.py\<close>: rows, statements, row-level security), \<open>Activities\<close> (the job-state
    activities of \<open>workflow/activities.py\<close>, and \<open>agents/usage.py\<close>),
    \<open>Orchestration\<close> (\<open>workflow/orchestration.py\<close>), \<open>Workflow\<close> (\<open>workflow/research_workflow.py\<close> and
    the two ports the pipeline runs over).
  \<^item> The agents: \<open>Provenance\<close> (\<open>agents/provenance.py\<close>), \<open>AgentTools\<close> (\<open>agents/tools.py\<close>), \<open>Checks\<close>
    (\<open>agents/checks.py\<close>), \<open>AgentLoop\<close> (\<open>agents/validation.py\<close>, \<open>agents/flow.py\<close>) and \<open>AgentSteps\<close>
    (\<open>agents/crew.py\<close> and the agent activities of \<open>workflow/activities.py\<close>), in which an agent is a
    parameter that reaches the gateway and the ledger of its task through its tools only.
  \<^item> The tool servers under \<open>mcp/servers\<close>: \<open>WebBoundary\<close> and \<open>HttpWeb\<close>, \<open>FilesystemBoundary\<close>,
    \<open>SqlBoundary\<close>, \<open>GitHubServer\<close>, \<open>Sandbox\<close>, each with its boundary, its service, its backend and
    its tools. \<open>Executor\<close> is the gateway's way to them (\<open>mcp/fastmcp_executor.py\<close>,
    \<open>mcp/service_tokens.py\<close>) and the evidence server (\<open>mcp/servers/evidence_server.py\<close>);
    \<open>EvidenceAccess\<close> follows a call of the evidence tool from the agent to that server and back.
  \<^item> Publishing: \<open>Artifacts\<close> (\<open>application/artifacts.py\<close>, \<open>persistence/object_store.py\<close>), \<open>Publishing\<close>
    (\<open>workflow/publishing.py\<close>), which re-reads the cited sources through the gateway, writes the artifacts and
    records where they are. \<open>Reasons\<close> gives the texts of refusals.
  \<^item> The HTTP interface: \<open>Auth\<close> (\<open>auth.py\<close>, \<open>api/dependencies.py\<close>: who a request is from), \<open>Starter\<close>
    (\<open>application/workflows.py\<close>, \<open>workflow/starter.py\<close>: how a job's workflow is started and signalled) and
    \<open>Api\<close> (\<open>api/routes.py\<close>: every handler, and any sequence of requests).
  \<^item> Around them: \<open>Deployment\<close> (\<open>settings.py\<close>, \<open>mcp/servers/deployment.py\<close>,
    \<open>mcp/servers/configured.py\<close>, \<open>mcp/servers/serve.py\<close> and the decisions of \<open>composition.py\<close>, \<open>worker.py\<close>
    and \<open>main.py\<close>) and \<open>Evaluation\<close> (\<open>evaluation/scoring.py\<close>, the scoring of \<open>evaluation/suite.py\<close> and the
    fixed corpus of \<open>mcp/servers/backends.py\<close>).

  A class is a record with one definition per method, named \<open>Class_method\<close>; a raise is the \<open>Inl\<close> of
  a sum whose constructors are the exception classes; an operation on mutable state returns the
  state after it, also when it raises. An interface of the code (a \<open>Protocol\<close>) is a record of
  operations with a locale of the laws its clients rely on, interpreted on each implementation.

  \<^bold>\<open>What is shown.\<close> The properties are the theorems whose text starts with \<open>C\<close> and a number. The
  gateway: every call is mediated (all checks passed for exactly that call); every refusal, failure and
  result leaves one record that says what happened, and the endings without a record are named (the
  capability does not resolve, the executor or the sanitizer raises something unforeseen, a record is
  refused by its own model, or the limit store answers nonsense); budgets and resting periods hold for
  any sequence of calls, in memory and over Redis, there for the calls of a job within the time its count
  is kept; and an unreachable store stops everything. The pipeline: a run always returns and leaves
  the job in a terminal status, completed only with a settled critique and supported citations,
  over the in-process service and over redelivered activities; a reviewer's decision answers its
  own review. The store: tenants cannot affect one another, in memory and by the policies of the
  database, which answers as the in-memory store does; stored jobs move along the allowed
  transitions only. The agents: a step ends after a bounded number of attempts, within its job's
  budget and with its spend recorded, and the evidence it returns quotes what a request through the
  gateway returned. The boundaries: what a tool server reads, requests or runs is confined
  to what the tenant's configuration admits, for every input and every answer of the world outside. Before
  an analytical query the transaction is made read only and its search path set to the tenant's schema,
  whatever the query says; that it is one statement without forbidden words is shown for queries without
  quotes and comments only, and the tables it names are not confined by the parser. A call carries the tenant of its caller to a server, and
  a worker offers its agents exactly the capabilities of servers its settings bound or name. The interface: an identity rests on the verified
  token (a request without one is answered 401, one whose headers are over-long 422, and an error of the
  token library that the code does not expect ends unhandled), requests of one tenant change no answer
  given to another, what is read is within the caller's
  clearance, a review takes a second person, a job a workflow runs is left to it, a created job is
  started or failed, and a published report is served as it was written. The evaluation's scores are
  fractions and its verdict is what they say. The three theorems about the approval check, statements hidden from the
  query parser and the classes of evidence an agent reads state faults of the code.

  \<^bold>\<open>Conventions and bounds.\<close> A \<open>str\<close> is a \<open>string\<close>, so its code points are below 256, except tool
  results and evidence excerpts, which are lists of code points (\<open>unicode\<close>). A \<open>datetime\<close> and a
  \<open>timedelta\<close> are microseconds, an \<open>int\<close> is unbounded, a \<open>float\<close> is a rational without rounding, a
  \<open>UUID\<close> is a 128-bit word. Identifiers and clock readings an operation draws are arguments of it.
  Loops that could run on carry fuel and return \<open>None\<close> when it is used up; a theorem then states
  which fuel is enough: the polls of a Kubernetes job and the isolation probe end once the clock has
  passed the deadline. The review loop and all other loops are total functions. Code outside the
  repository is an argument: the policy service's HTTP answer, the tool servers' answers, the
  agents' answers, \<open>ipaddress\<close>, name resolution and HTTP, the file system, databases, the Python
  parser, the process runner, the cluster's API, the token library and the issuer's keys, the Temporal
  service, the S3 client, the MCP client and the JSON forms of published artifacts. Where the code relies
  on a law of such a service (Redis and its clock, S3, Temporal), the law is an assumption of a locale that
  is interpreted on a model of that service.

  \<^bold>\<open>Not modelled.\<close> Tracing, metrics and logging (\<open>observability\<close>), which change no state the
  platform reads; opening connections, registering activities and assembling the web application
  (\<open>main.py\<close>, \<open>worker.py\<close>, \<open>composition.py\<close> outside the decisions named above); routing, body parsing and
  response encoding of the web framework; running the evaluation's scenarios and its cross-tenant probes,
  which wire together parts modelled here, and the scenarios' texts (\<open>evaluation/scenarios.py\<close>,
  \<open>evaluation/__main__.py\<close>); the agent framework, schema validation and JSON decoding of agents' answers;
  expiry of the circuits and rate windows in Redis (that of budgets is); a bucket that refuses a write;
  reading the service account's token before each request to the cluster, and the error that escapes
  when it cannot be read; threads within one process, whose critical sections the code holds a lock for;
  timeouts of the durable runtime.
\<close>

end
